(* ===== verification/Prelude.thy ===== *)
theory Prelude
  imports Main "HOL-Library.Char_ord" "HOL-Library.List_Lexorder"
begin

text \<open>
  What every component of the development shares: the result type with which a thrown
  exception is a value, the character classes of the source's regular expressions, decimal
  numerals as strings (the source keeps every amount as a canonical decimal string), and
  the generic lemmas on lists and association lists. The collections \<open>result_simps\<close>,
  \<open>charclass\<close> and \<open>dec_simps\<close> carry the component proofs.
\<close>

named_theorems result_simps "elimination of the result combinators"
named_theorems charclass "definitions of character classes"
named_theorems dec_simps "facts about decimal numerals"

section \<open>Results: a thrown exception is a value\<close>

text \<open>
  A function of the source that may throw returns \<open>'e + 'a\<close>: \<open>Inl e\<close> is the exception,
  \<open>Inr x\<close> the returned value. \<open>andThen\<close> is sequencing (an exception skips the rest) and
  \<open>require\<close> is the source's \<open>if (!condition) throw e\<close>.
\<close>

definition andThen :: "'e + 'a \<Rightarrow> ('a \<Rightarrow> 'e + 'b) \<Rightarrow> 'e + 'b" where
  "andThen r f = (case r of Inl e \<Rightarrow> Inl e | Inr x \<Rightarrow> f x)"

definition require :: "bool \<Rightarrow> 'e \<Rightarrow> 'e + unit" where
  "require b e = (if b then Inr () else Inl e)"

definition ofOption :: "'e \<Rightarrow> 'a option \<Rightarrow> 'e + 'a" where
  "ofOption e x = (case x of None \<Rightarrow> Inl e | Some y \<Rightarrow> Inr y)"

section \<open>Character classes and fixed-length patterns\<close>

definition isDigit :: "char \<Rightarrow> bool" where
  [charclass]: "isDigit c \<longleftrightarrow> CHR ''0'' \<le> c \<and> c \<le> CHR ''9''"

definition isLower :: "char \<Rightarrow> bool" where
  [charclass]: "isLower c \<longleftrightarrow> CHR ''a'' \<le> c \<and> c \<le> CHR ''z''"

definition isUpper :: "char \<Rightarrow> bool" where
  [charclass]: "isUpper c \<longleftrightarrow> CHR ''A'' \<le> c \<and> c \<le> CHR ''Z''"

definition isAlnum :: "char \<Rightarrow> bool" where
  [charclass]: "isAlnum c \<longleftrightarrow> isDigit c \<or> isLower c \<or> isUpper c"

definition isHex :: "char \<Rightarrow> bool" where
  [charclass]: "isHex c \<longleftrightarrow> isDigit c \<or> (CHR ''a'' \<le> c \<and> c \<le> CHR ''f'')"

text \<open>The strings \<open>prefix\<close> followed by exactly \<open>n\<close> characters of a class: \<open>/^prefix[class]{n}$/\<close>.\<close>

definition prefixed :: "string \<Rightarrow> (char \<Rightarrow> bool) \<Rightarrow> nat \<Rightarrow> string \<Rightarrow> bool" where
  "prefixed p cls n s \<longleftrightarrow>
     take (length p) s = p \<and> length s = length p + n \<and> list_all cls (drop (length p) s)"

section \<open>Decimal numerals\<close>

definition digitVal :: "char \<Rightarrow> nat" where
  "digitVal c = of_char c - 48"

definition digitChar :: "nat \<Rightarrow> char" where
  "digitChar d = char_of (48 + d)"

text \<open>\<open>BigInt(s)\<close> for a string of decimal digits.\<close>

definition decVal :: "string \<Rightarrow> nat" where
  "decVal s = foldl (\<lambda>n c. 10 * n + digitVal c) 0 s"

text \<open>\<open>String(n)\<close> and \<open>n.toString(10)\<close> for a nonnegative integer.\<close>

fun decStr :: "nat \<Rightarrow> string" where
  "decStr n = (if n < 10 then [digitChar n] else decStr (n div 10) @ [digitChar (n mod 10)])"

declare decStr.simps [simp del]

text \<open>\<open>String(i)\<close> for an integer-valued number.\<close>

definition intStr :: "int \<Rightarrow> string" where
  "intStr i = (if i < 0 then ''-'' @ decStr (nat (- i)) else decStr (nat i))"

text \<open>\<open>/^(?:0|[1-9][0-9]*)$/\<close>\<close>

definition canonicalDec :: "string \<Rightarrow> bool" where
  "canonicalDec s \<longleftrightarrow> s = ''0'' \<or> (s \<noteq> [] \<and> list_all isDigit s \<and> hd s \<noteq> CHR ''0'')"

section \<open>Lemmas on results\<close>

lemma andThen_simps [simp]:
  "andThen (Inl e) f = Inl e"
  "andThen (Inr x) f = f x"
  by (simp_all add: andThen_def)

lemma andThen_eq_Inr [result_simps]:
  "andThen r f = Inr y \<longleftrightarrow> (\<exists>x. r = Inr x \<and> f x = Inr y)"
  by (cases r) simp_all

lemma andThen_eq_Inl [result_simps]:
  "andThen r f = Inl e \<longleftrightarrow> r = Inl e \<or> (\<exists>x. r = Inr x \<and> f x = Inl e)"
  by (cases r) auto

lemma require_eq_Inr [simp, result_simps]: "require b e = Inr u \<longleftrightarrow> b"
  by (simp add: require_def)

lemma require_eq_Inl [simp, result_simps]: "require b e = Inl e' \<longleftrightarrow> \<not> b \<and> e' = e"
  by (auto simp: require_def)

lemma require_simps [simp]:
  "require True e = Inr ()"
  "require False e = Inl e"
  by (simp_all add: require_def)

lemma ofOption_eq_Inr [simp, result_simps]: "ofOption e x = Inr y \<longleftrightarrow> x = Some y"
  by (cases x) (simp_all add: ofOption_def)

lemma ofOption_eq_Inl [simp, result_simps]: "ofOption e x = Inl e' \<longleftrightarrow> x = None \<and> e' = e"
  by (cases x) (auto simp: ofOption_def)

lemma ofOption_simps [simp]:
  "ofOption e None = Inl e"
  "ofOption e (Some y) = Inr y"
  by (simp_all add: ofOption_def)

section \<open>Lemmas on digits and decimal numerals\<close>

lemma isDigit_iff: "isDigit c \<longleftrightarrow> 48 \<le> (of_char c :: nat) \<and> (of_char c :: nat) \<le> 57"
  by (simp add: isDigit_def less_eq_char_def)

lemma digitVal_less [dec_simps]: "isDigit c \<Longrightarrow> digitVal c < 10"
  by (simp add: digitVal_def isDigit_iff) linarith

lemma digitVal_eq_iff: "isDigit c \<Longrightarrow> isDigit d \<Longrightarrow> digitVal c = digitVal d \<longleftrightarrow> c = d"
  using of_char_eq_iff [where ?'a = nat, of c d]
  by (auto simp: digitVal_def isDigit_iff simp del: of_char_eq_iff)

lemma digitVal_less_iff: "isDigit c \<Longrightarrow> isDigit d \<Longrightarrow> digitVal c < digitVal d \<longleftrightarrow> c < d"
  by (auto simp: digitVal_def isDigit_iff less_char_def)

lemma digitVal_digitChar [simp]: "d < 10 \<Longrightarrow> digitVal (digitChar d) = d"
  by (simp add: digitVal_def digitChar_def of_char_of)

lemma isDigit_digitChar [simp]: "d < 10 \<Longrightarrow> isDigit (digitChar d)"
  by (simp add: isDigit_iff digitChar_def of_char_of)

lemma digitChar_digitVal [simp]: "isDigit c \<Longrightarrow> digitChar (digitVal c) = c"
  by (simp add: digitVal_def digitChar_def isDigit_iff)

lemma digitVal_0 [simp]: "digitVal (CHR ''0'') = 0"
  by (simp add: digitVal_def)

lemma digitVal_eq_0: "isDigit c \<Longrightarrow> digitVal c = 0 \<longleftrightarrow> c = CHR ''0''"
  using digitVal_eq_iff [of c "CHR ''0''"] by (simp add: isDigit_def)

lemma decVal_Nil [simp]: "decVal [] = 0"
  by (simp add: decVal_def)

lemma decVal_snoc [simp]: "decVal (s @ [c]) = 10 * decVal s + digitVal c"
  by (simp add: decVal_def)

lemma decVal_append: "decVal (s @ t) = decVal s * 10 ^ length t + decVal t"
proof (induction t rule: rev_induct)
  case Nil
  then show ?case by simp
next
  case (snoc c t)
  have "decVal (s @ t @ [c]) = 10 * decVal (s @ t) + digitVal c"
    using decVal_snoc [of "s @ t" c] by simp
  with snoc.IH show ?case by (simp add: algebra_simps)
qed

lemma decVal_single [simp]: "decVal [c] = digitVal c"
  using decVal_snoc [of "[]" c] by simp

lemma decVal_Cons: "decVal (c # s) = digitVal c * 10 ^ length s + decVal s"
  using decVal_append [of "[c]" s] by simp

lemma decVal_less: "list_all isDigit s \<Longrightarrow> decVal s < 10 ^ length s"
proof (induction s)
  case Nil
  then show ?case by simp
next
  case (Cons c s)
  then have "digitVal c + 1 \<le> 10" and "decVal s < 10 ^ length s"
    by (auto dest: digitVal_less)
  have "(digitVal c + 1) * 10 ^ length s \<le> 10 * 10 ^ length s"
    using \<open>digitVal c + 1 \<le> 10\<close> by (rule mult_le_mono1)
  then have "digitVal c * 10 ^ length s + 10 ^ length s \<le> 10 * 10 ^ length s"
    by (simp only: distrib_right mult_1)
  with \<open>decVal s < 10 ^ length s\<close>
  have "digitVal c * 10 ^ length s + decVal s < 10 * 10 ^ length s" by linarith
  then show ?case by (simp add: decVal_Cons)
qed

lemma decVal_ge: "list_all isDigit (c # s) \<Longrightarrow> c \<noteq> CHR ''0'' \<Longrightarrow> 10 ^ length s \<le> decVal (c # s)"
proof -
  assume "list_all isDigit (c # s)" "c \<noteq> CHR ''0''"
  then have "1 \<le> digitVal c" using digitVal_eq_0 [of c] by (simp add: Suc_le_eq)
  then have "1 * 10 ^ length s \<le> digitVal c * 10 ^ length s" by (rule mult_le_mono1)
  then have "10 ^ length s \<le> digitVal c * 10 ^ length s" by (simp only: mult_1)
  then show ?thesis unfolding decVal_Cons by (rule trans_le_add1)
qed

text \<open>Digit strings of one length compare as numbers exactly as they compare as strings.\<close>

lemma decVal_less_iff_same_length:
  "length s = length t \<Longrightarrow> list_all isDigit s \<Longrightarrow> list_all isDigit t \<Longrightarrow>
   decVal s < decVal t \<longleftrightarrow> s < t"
proof (induction s t rule: list_induct2)
  case Nil
  then show ?case by simp
next
  case (Cons c s d t)
  have bs: "decVal s < 10 ^ length s" and bt: "decVal t < 10 ^ length s"
    using Cons.prems Cons.hyps decVal_less [of s] decVal_less [of t] by auto
  have dig: "isDigit c" "isDigit d" using Cons.prems by auto
  have gap: "decVal (a # s) < decVal (b # t)" if "digitVal a < digitVal b" for a b
  proof -
    have "(digitVal a + 1) * 10 ^ length s \<le> digitVal b * 10 ^ length s"
      using that by (intro mult_le_mono1) simp
    with bs show ?thesis using Cons.hyps by (simp add: decVal_Cons)
  qed
  have gap': "decVal (b # t) < decVal (a # s)" if "digitVal b < digitVal a" for a b
  proof -
    have "(digitVal b + 1) * 10 ^ length s \<le> digitVal a * 10 ^ length s"
      using that by (intro mult_le_mono1) simp
    with bt show ?thesis using Cons.hyps by (simp add: decVal_Cons)
  qed
  consider "c < d" | "c = d" | "d < c" by (rule linorder_cases)
  then show ?case
  proof cases
    case 1
    with dig gap [of c d] show ?thesis by (simp add: digitVal_less_iff)
  next
    case 2
    with Cons show ?thesis by (simp add: decVal_Cons)
  next
    case 3
    with dig gap' [of d c] show ?thesis by (auto simp: digitVal_less_iff)
  qed
qed

lemma decVal_inj_same_length:
  "length s = length t \<Longrightarrow> list_all isDigit s \<Longrightarrow> list_all isDigit t \<Longrightarrow>
   decVal s = decVal t \<longleftrightarrow> s = t"
  using decVal_less_iff_same_length [of s t] decVal_less_iff_same_length [of t s]
  by (metis less_irrefl linorder_less_linear)

lemma canonicalDec_digits: "canonicalDec s \<Longrightarrow> list_all isDigit s"
  by (auto simp: canonicalDec_def isDigit_def)

lemma canonicalDec_nonempty: "canonicalDec s \<Longrightarrow> s \<noteq> []"
  by (auto simp: canonicalDec_def)

lemma canonicalDec_ge: "canonicalDec s \<Longrightarrow> 1 < length s \<Longrightarrow> 10 ^ (length s - 1) \<le> decVal s"
  by (cases s) (auto simp: canonicalDec_def intro: decVal_ge)

text \<open>A longer canonical numeral is the larger number.\<close>

lemma canonicalDec_length_less:
  assumes s: "canonicalDec s" and t: "canonicalDec t" and len: "length s < length t"
  shows "decVal s < decVal t"
proof -
  have "decVal s < 10 ^ length s"
    using s by (intro decVal_less canonicalDec_digits)
  also have "\<dots> \<le> 10 ^ (length t - 1)"
    using len by (intro power_increasing) auto
  also have "\<dots> \<le> decVal t"
    using t len canonicalDec_nonempty [OF s]
    by (intro canonicalDec_ge) (cases s; simp)+
  finally show ?thesis .
qed

lemma canonicalDec_less_iff:
  assumes "canonicalDec s" "canonicalDec t"
  shows "decVal s < decVal t \<longleftrightarrow>
         (if length s = length t then s < t else length s < length t)"
  using assms canonicalDec_length_less [of s t] canonicalDec_length_less [of t s]
    decVal_less_iff_same_length [of s t] canonicalDec_digits
  by (cases "length s" "length t" rule: linorder_cases) auto

lemma canonicalDec_inj:
  assumes "canonicalDec s" "canonicalDec t"
  shows "decVal s = decVal t \<longleftrightarrow> s = t"
  using canonicalDec_less_iff [OF assms] canonicalDec_less_iff [OF assms(2,1)]
  by (metis less_irrefl linorder_less_linear)

lemma canonicalDec_eq_0: "canonicalDec s \<Longrightarrow> decVal s = 0 \<longleftrightarrow> s = ''0''"
  using canonicalDec_inj [of s "''0''"] by (simp add: canonicalDec_def)

lemma decVal_decStr [simp]: "decVal (decStr n) = n"
  by (induction n rule: decStr.induct) (subst decStr.simps, auto)

lemma digits_decStr [simp]: "list_all isDigit (decStr n)"
  by (induction n rule: decStr.induct) (subst decStr.simps, auto)

lemma decStr_nonempty [simp]: "decStr n \<noteq> []"
  by (subst decStr.simps) simp

lemma hd_decStr: "0 < n \<Longrightarrow> hd (decStr n) \<noteq> CHR ''0''"
proof (induction n rule: decStr.induct)
  case (1 n)
  show ?case
  proof (cases "n < 10")
    case True
    with "1.prems" show ?thesis
      using digitVal_digitChar [of n] by (subst decStr.simps) (auto simp del: digitVal_digitChar)
  next
    case False
    with "1.IH" show ?thesis by (subst decStr.simps) simp
  qed
qed

lemma digitChar_0 [simp]: "digitChar 0 = CHR ''0''"
  using digitVal_eq_0 [of "digitChar 0"] by simp

lemma decStr_0 [simp]: "decStr 0 = ''0''"
  by (simp add: decStr.simps)

lemma canonicalDec_decStr [simp]: "canonicalDec (decStr n)"
proof (cases "n = 0")
  case True
  then show ?thesis by (simp add: canonicalDec_def)
next
  case False
  then show ?thesis by (simp add: canonicalDec_def hd_decStr)
qed

lemma decStr_decVal [simp]: "canonicalDec s \<Longrightarrow> decStr (decVal s) = s"
  using canonicalDec_inj [of "decStr (decVal s)" s] by simp

lemma decStr_inject [simp]: "decStr m = decStr n \<longleftrightarrow> m = n"
  by (metis decVal_decStr)

end
