(* ===== verification/JsValue.thy ===== *)
theory JsValue
  imports Prelude
begin

text \<open>
  JavaScript values and the canonical JSON text of \<open>packages/schemas/src/idempotency.ts\<close>.
  A string is a list of code units below 256 (a \<open>char\<close>); a number is given by the digits and
  the exponent that \<open>Number::toString\<close> of the language prints it from; an object is the list of
  its properties. \<open>canonicalizeJsonValue\<close> is shown to identify exactly the values that differ
  in the order of properties only.
\<close>

section \<open>Numbers\<close>

text \<open>
  \<open>JsFinite neg ds n\<close> is the number \<open>0.ds * 10 ^ n\<close>, with its sign: the decimal digits \<open>ds\<close>
  neither start nor end with a zero.
\<close>

datatype jsnum = JsNaN | JsInfinity bool | JsZero | JsFinite bool string int

fun isFiniteNum :: "jsnum \<Rightarrow> bool" where
  "isFiniteNum JsNaN = False"
| "isFiniteNum (JsInfinity neg) = False"
| "isFiniteNum JsZero = True"
| "isFiniteNum (JsFinite neg ds n) = True"

fun wfNum :: "jsnum \<Rightarrow> bool" where
  "wfNum (JsFinite neg ds n) \<longleftrightarrow>
     ds \<noteq> [] \<and> list_all isDigit ds \<and> hd ds \<noteq> CHR ''0'' \<and> last ds \<noteq> CHR ''0''"
| "wfNum x \<longleftrightarrow> True"

definition exponentStr :: "int \<Rightarrow> string" where
  "exponentStr e = (if e < 0 then ''-'' @ decStr (nat (- e)) else ''+'' @ decStr (nat e))"

text \<open>The magnitude part of \<open>Number::toString\<close> (ECMA-262), for digits \<open>ds\<close> and exponent \<open>n\<close>.\<close>

definition magnitudeStr :: "string \<Rightarrow> int \<Rightarrow> string" where
  "magnitudeStr ds n =
     (let k = int (length ds) in
      if k \<le> n \<and> n \<le> 21 then ds @ replicate (nat (n - k)) (CHR ''0'')
      else if 0 < n \<and> n \<le> 21 then take (nat n) ds @ ''.'' @ drop (nat n) ds
      else if -6 < n \<and> n \<le> 0 then ''0.'' @ replicate (nat (- n)) (CHR ''0'') @ ds
      else if k = 1 then ds @ ''e'' @ exponentStr (n - 1)
      else take 1 ds @ ''.'' @ drop 1 ds @ ''e'' @ exponentStr (n - 1))"

fun numberToString :: "jsnum \<Rightarrow> string" where
  "numberToString JsNaN = ''NaN''"
| "numberToString (JsInfinity neg) = (if neg then ''-Infinity'' else ''Infinity'')"
| "numberToString JsZero = ''0''"
| "numberToString (JsFinite neg ds n) = (if neg then ''-'' else []) @ magnitudeStr ds n"

text \<open>The number an integer is.\<close>

definition jsInt :: "int \<Rightarrow> jsnum" where
  "jsInt i =
     (if i = 0 then JsZero
      else let s = decStr (nat \<bar>i\<bar>)
           in JsFinite (i < 0) (rev (dropWhile ((=) (CHR ''0'')) (rev s))) (int (length s)))"

section \<open>Values\<close>

datatype jsval =
    JUndefined
  | JNull
  | JBool bool
  | JNumber jsnum
  | JString string
  | JArray "jsval list"
  | JObject "(string \<times> jsval) list"

text \<open>\<open>value.key\<close> of an object; every other value here has no such property.\<close>

fun getProp :: "jsval \<Rightarrow> string \<Rightarrow> jsval" where
  "getProp (JObject kvs) key = (case map_of kvs key of None \<Rightarrow> JUndefined | Some v \<Rightarrow> v)"
| "getProp v key = JUndefined"

section \<open>\<open>JSON.stringify\<close> of a string\<close>

definition hexChar :: "nat \<Rightarrow> char" where
  "hexChar d = (if d < 10 then digitChar d else char_of (87 + d))"

definition jsonEscape :: "char \<Rightarrow> string" where
  "jsonEscape c =
     (if c = CHR 0x22 then [CHR 0x5C, CHR 0x22]
      else if c = CHR 0x5C then [CHR 0x5C, CHR 0x5C]
      else if c = CHR 0x08 then [CHR 0x5C, CHR ''b'']
      else if c = CHR 0x09 then [CHR 0x5C, CHR ''t'']
      else if c = CHR 0x0A then [CHR 0x5C, CHR ''n'']
      else if c = CHR 0x0C then [CHR 0x5C, CHR ''f'']
      else if c = CHR 0x0D then [CHR 0x5C, CHR ''r'']
      else if (of_char c :: nat) < 32
      then [CHR 0x5C, CHR ''u'', CHR ''0'', CHR ''0'',
            hexChar (of_char c div 16), hexChar (of_char c mod 16)]
      else [c])"

definition jsonString :: "string \<Rightarrow> string" where
  "jsonString s = [CHR 0x22] @ concat (map jsonEscape s) @ [CHR 0x22]"

section \<open>The canonical text\<close>

text \<open>\<open>parts.join(",")\<close>\<close>

fun joinComma :: "string list \<Rightarrow> string" where
  "joinComma [] = []"
| "joinComma [s] = s"
| "joinComma (s # t # ss) = s @ '','' @ joinComma (t # ss)"

text \<open>All results, or \<open>None\<close> as soon as one element throws.\<close>

fun sequence :: "'a option list \<Rightarrow> 'a list option" where
  "sequence [] = Some []"
| "sequence (x # xs) =
     (case x of None \<Rightarrow> None | Some y \<Rightarrow> map_option ((#) y) (sequence xs))"

text \<open>
  \<open>None\<close> is the \<open>TypeError\<close> of a number that is not finite, or of \<open>Object.keys(undefined)\<close>.
  The entries are computed before they are put in the order of their keys: nothing depends on
  the order in which the independent calls are made.
\<close>

fun canonicalizeJsonValue :: "jsval \<Rightarrow> string option" where
  "canonicalizeJsonValue JUndefined = None"
| "canonicalizeJsonValue JNull = Some ''null''"
| "canonicalizeJsonValue (JBool b) = Some (if b then ''true'' else ''false'')"
| "canonicalizeJsonValue (JString s) = Some (jsonString s)"
| "canonicalizeJsonValue (JNumber x) = (if isFiniteNum x then Some (numberToString x) else None)"
| "canonicalizeJsonValue (JArray vs) =
     map_option (\<lambda>ss. ''['' @ joinComma ss @ '']'') (sequence (map canonicalizeJsonValue vs))"
| "canonicalizeJsonValue (JObject kvs) =
     map_option (\<lambda>ss. ''{'' @ joinComma ss @ ''}'')
       (sequence (map (\<lambda>(key, text). map_option (\<lambda>t. jsonString key @ '':'' @ t) text)
         (sort_key fst (map (\<lambda>(key, v). (key, canonicalizeJsonValue v)) kvs))))"

definition canonicalizeIdempotencyPayload :: "jsval \<Rightarrow> string option" where
  "canonicalizeIdempotencyPayload payload = canonicalizeJsonValue payload"

text \<open>\<open>update(s, "utf8")\<close>: the bytes of a string of code units below 256.\<close>

definition utf8Char :: "char \<Rightarrow> string" where
  "utf8Char c =
     (let n = of_char c :: nat
      in if n < 128 then [c] else [char_of (192 + n div 64), char_of (128 + n mod 64)])"

definition utf8 :: "string \<Rightarrow> string" where
  "utf8 s = concat (map utf8Char s)"

definition IDEMPOTENCY_PAYLOAD_DOMAIN :: string where
  "IDEMPOTENCY_PAYLOAD_DOMAIN = ''crip/idempotency-payload/v1'' @ [CHR 0x00]"

text \<open>
  The digest is a parameter: \<open>sha256Hex\<close> gives the lowercase hexadecimal SHA-256 digest of a
  byte string. \<open>None\<close> is the exception of the canonicalization.
\<close>

definition hashIdempotencyPayload :: "(string \<Rightarrow> string) \<Rightarrow> jsval \<Rightarrow> string option" where
  "hashIdempotencyPayload sha256Hex payload =
     map_option (\<lambda>text. ''sha256:'' @ sha256Hex (utf8 IDEMPOTENCY_PAYLOAD_DOMAIN @ utf8 text))
       (canonicalizeIdempotencyPayload payload)"

section \<open>Values up to the order of properties\<close>

text \<open>What a JSON value of the program is: no \<open>undefined\<close>, finite numbers, distinct keys.\<close>

fun wfJson :: "jsval \<Rightarrow> bool" where
  "wfJson JUndefined = False"
| "wfJson (JNumber x) = (isFiniteNum x \<and> wfNum x)"
| "wfJson (JArray vs) = list_all wfJson vs"
| "wfJson (JObject kvs) = (distinct (map fst kvs) \<and> list_all (\<lambda>(k, v). wfJson v) kvs)"
| "wfJson v = True"

fun sortKeys :: "jsval \<Rightarrow> jsval" where
  "sortKeys (JArray vs) = JArray (map sortKeys vs)"
| "sortKeys (JObject kvs) = JObject (sort_key fst (map (\<lambda>(k, v). (k, sortKeys v)) kvs))"
| "sortKeys v = v"

text \<open>Plain JSON text, properties in the order they have.\<close>

fun jsonText :: "jsval \<Rightarrow> string" where
  "jsonText JUndefined = []"
| "jsonText JNull = ''null''"
| "jsonText (JBool b) = (if b then ''true'' else ''false'')"
| "jsonText (JString s) = jsonString s"
| "jsonText (JNumber x) = numberToString x"
| "jsonText (JArray vs) = ''['' @ joinComma (map jsonText vs) @ '']''"
| "jsonText (JObject kvs) =
     ''{'' @ joinComma (map (\<lambda>(k, v). jsonString k @ '':'' @ jsonText v) kvs) @ ''}''"

text \<open>\<open>JSON.parse(JSON.stringify(value))\<close> of a value built from data: undefined properties disappear.\<close>

fun jsonRoundTrip :: "jsval \<Rightarrow> jsval" where
  "jsonRoundTrip (JArray vs) = JArray (map (\<lambda>v. if v = JUndefined then JNull else jsonRoundTrip v) vs)"
| "jsonRoundTrip (JObject kvs) =
     JObject (map (\<lambda>(key, v). (key, jsonRoundTrip v)) (filter (\<lambda>(key, v). v \<noteq> JUndefined) kvs))"
| "jsonRoundTrip (JNumber x) = (if isFiniteNum x then JNumber x else JNull)"
| "jsonRoundTrip v = v"

section \<open>Lemmas: the printed numbers\<close>

lemma wfNum_digits: "wfNum (JsFinite neg ds n) \<Longrightarrow> c \<in> set ds \<Longrightarrow> isDigit c"
  by (auto simp: list_all_iff)

lemma digit_not_special [simp]:
  "\<not> isDigit (CHR ''.'')" "\<not> isDigit (CHR ''e'')" "\<not> isDigit (CHR ''-'')" "\<not> isDigit (CHR ''+'')"
  "\<not> isDigit (CHR '','')" "\<not> isDigit (CHR '']'')" "\<not> isDigit (CHR ''}'')" "\<not> isDigit (CHR ''{'')"
  "\<not> isDigit (CHR ''['')" "\<not> isDigit (CHR 0x22)" "\<not> isDigit (CHR ''n'')" "\<not> isDigit (CHR ''t'')"
  "\<not> isDigit (CHR ''f'')" "isDigit (CHR ''0'')"
  by (simp_all add: charclass)

lemma set_decStr_digit: "c \<in> set (decStr n) \<Longrightarrow> isDigit c"
  using digits_decStr [of n] by (auto simp: list_all_iff)

lemma decStr_no_special [simp]:
  "CHR ''.'' \<notin> set (decStr n)" "CHR ''e'' \<notin> set (decStr n)"
  by (auto dest: set_decStr_digit)

lemma exponentStr_no_special [simp]:
  "CHR ''.'' \<notin> set (exponentStr e)" "CHR ''e'' \<notin> set (exponentStr e)"
  by (auto simp: exponentStr_def)

lemma exponentStr_inject [simp]: "exponentStr e = exponentStr f \<longleftrightarrow> e = f"
  by (auto simp: exponentStr_def split: if_splits)

text \<open>The five shapes a printed magnitude can have.\<close>

lemma magnitudeStr_cases [consumes 1, case_names whole point small exp1 exp]:
  assumes "ds \<noteq> []"
  obtains (whole) z where "n = int (length ds) + int z" "magnitudeStr ds n = ds @ replicate z (CHR ''0'')"
  | (point) a b where "ds = a @ b" "a \<noteq> []" "b \<noteq> []" "n = int (length a)"
      "magnitudeStr ds n = a @ ''.'' @ b"
  | (small) z where "n = - int z" "magnitudeStr ds n = ''0.'' @ replicate z (CHR ''0'') @ ds"
  | (exp1) d where "ds = [d]" "magnitudeStr ds n = d # ''e'' @ exponentStr (n - 1)"
  | (exp) d b where "ds = d # b" "b \<noteq> []"
      "magnitudeStr ds n = (d # ''.'' @ b) @ ''e'' @ exponentStr (n - 1)"
proof -
  let ?k = "int (length ds)"
  consider (1) "?k \<le> n" "n \<le> 21" | (2) "n < ?k" "0 < n" "n \<le> 21" | (3) "-6 < n" "n \<le> 0"
    | (4) "n \<le> -6 \<or> 21 < n" "?k = 1" | (5) "n \<le> -6 \<or> 21 < n" "?k \<noteq> 1"
    by linarith
  then show ?thesis
  proof cases
    case 1
    then show ?thesis by (intro whole [of "nat (n - ?k)"]) (auto simp: magnitudeStr_def Let_def)
  next
    case 2
    then show ?thesis
      by (intro point [of "take (nat n) ds" "drop (nat n) ds"])
        (auto simp: magnitudeStr_def Let_def min_def)
  next
    case 3
    with assms have "\<not> ?k \<le> n" by (cases ds) auto
    with 3 show ?thesis by (intro small [of "nat (- n)"]) (auto simp: magnitudeStr_def Let_def)
  next
    case 4
    then obtain d where "ds = [d]" by (cases ds) auto
    with 4 show ?thesis by (intro exp1 [of d]) (auto simp: magnitudeStr_def Let_def)
  next
    case 5
    then obtain d b where "ds = d # b" "b \<noteq> []" using assms by (cases ds) auto
    with 5 show ?thesis by (intro exp [of d b]) (auto simp: magnitudeStr_def Let_def)
  qed
qed

text \<open>What tells the shapes apart.\<close>

definition shape :: "string \<Rightarrow> bool \<times> bool \<times> bool" where
  "shape s = (CHR ''e'' \<in> set s, CHR ''.'' \<in> set s, hd s = CHR ''0'')"

lemma replicate_append_eq:
  assumes "replicate i x @ as = replicate j x @ bs" "as \<noteq> []" "bs \<noteq> []" "hd as \<noteq> x" "hd bs \<noteq> x"
  shows "i = j \<and> as = bs"
proof -
  have drp: "dropWhile ((=) x) (replicate k x @ cs) = cs" if "cs \<noteq> []" "hd cs \<noteq> x" for k cs
    using that by (induction k) (cases cs, auto)+
  have "as = dropWhile ((=) x) (replicate i x @ as)" using assms by (intro drp [symmetric])
  also have "\<dots> = bs" unfolding assms(1) using assms by (intro drp)
  finally show ?thesis using arg_cong [OF assms(1), of length] by simp
qed

lemma append_replicate_eq:
  assumes "as @ replicate i x = bs @ replicate j x" "as \<noteq> []" "bs \<noteq> []" "last as \<noteq> x" "last bs \<noteq> x"
  shows "i = j \<and> as = bs"
proof -
  have "rev (as @ replicate i x) = rev (bs @ replicate j x)" using assms(1) by simp
  then have "replicate i x @ rev as = replicate j x @ rev bs" by simp
  then show ?thesis using replicate_append_eq [of i x "rev as" j "rev bs"] assms
    by (simp add: hd_rev)
qed

definition wfDigits :: "string \<Rightarrow> bool" where
  "wfDigits ds \<longleftrightarrow>
     ds \<noteq> [] \<and> list_all isDigit ds \<and> hd ds \<noteq> CHR ''0'' \<and> last ds \<noteq> CHR ''0''"

lemma wfDigits_no_special:
  "list_all isDigit ds \<Longrightarrow> CHR ''.'' \<notin> set ds \<and> CHR ''e'' \<notin> set ds"
  by (auto simp: list_all_iff)

lemma magnitudeStr_inject:
  assumes ds: "wfDigits ds" and es: "wfDigits es" and eq: "magnitudeStr ds m = magnitudeStr es n"
  shows "ds = es \<and> m = n"
proof -
  have nds: "ds \<noteq> []" "CHR ''.'' \<notin> set ds" "CHR ''e'' \<notin> set ds" "hd ds \<noteq> CHR ''0''"
    "last ds \<noteq> CHR ''0''"
    using ds wfDigits_no_special [of ds] by (auto simp: wfDigits_def)
  have nes: "es \<noteq> []" "CHR ''.'' \<notin> set es" "CHR ''e'' \<notin> set es" "hd es \<noteq> CHR ''0''"
    "last es \<noteq> CHR ''0''"
    using es wfDigits_no_special [of es] by (auto simp: wfDigits_def)
  have shp: "shape (magnitudeStr ds m) = shape (magnitudeStr es n)" using eq by simp
  from nds(1) show ?thesis
  proof (cases rule: magnitudeStr_cases [where n = m])
    case (whole z)
    then have "shape (magnitudeStr es n) = (False, False, False)" using shp nds by (simp add: shape_def)
    with nes(1) obtain y where "n = int (length es) + int y" "magnitudeStr es n = es @ replicate y (CHR ''0'')"
      by (cases rule: magnitudeStr_cases [where n = n]) (use nes in \<open>auto simp: shape_def\<close>)
    then show ?thesis using whole eq nds nes append_replicate_eq [of ds z "CHR ''0''" es y] by auto
  next
    case (point a b)
    then have "shape (magnitudeStr es n) = (False, True, False)" using shp nds by (auto simp: shape_def)
    with nes(1) obtain c d where "es = c @ d" "n = int (length c)" "magnitudeStr es n = c @ ''.'' @ d"
      by (cases rule: magnitudeStr_cases [where n = n]) (use nes in \<open>auto simp: shape_def\<close>)
    then show ?thesis using point eq nds nes by (auto simp: append_Cons_eq_iff)
  next
    case (small z)
    then have "shape (magnitudeStr es n) = (False, True, True)" using shp nds by (auto simp: shape_def)
    with nes(1) obtain y where "n = - int y" "magnitudeStr es n = ''0.'' @ replicate y (CHR ''0'') @ es"
      by (cases rule: magnitudeStr_cases [where n = n]) (use nes in \<open>auto simp: shape_def\<close>)
    then show ?thesis using small eq nds nes replicate_append_eq [of z "CHR ''0''" ds y es] by auto
  next
    case (exp1 d)
    then have "shape (magnitudeStr es n) = (True, False, False)" using shp nds by (auto simp: shape_def)
    with nes(1) obtain c where "es = [c]" "magnitudeStr es n = c # ''e'' @ exponentStr (n - 1)"
      by (cases rule: magnitudeStr_cases [where n = n]) (use nes in \<open>auto simp: shape_def\<close>)
    then show ?thesis using exp1 eq by auto
  next
    case (exp d b)
    then have "shape (magnitudeStr es n) = (True, True, False)" using shp nds by (auto simp: shape_def)
    with nes(1) obtain c a where "es = c # a" "magnitudeStr es n = (c # ''.'' @ a) @ ''e'' @ exponentStr (n - 1)"
      by (cases rule: magnitudeStr_cases [where n = n]) (use nes in \<open>auto simp: shape_def\<close>)
    then show ?thesis using exp eq nds nes by (auto simp: append_Cons_eq_iff)
  qed
qed

lemma magnitudeStr_chars:
  assumes "wfDigits ds" "c \<in> set (magnitudeStr ds n)"
  shows "isDigit c \<or> c \<in> {CHR ''.'', CHR ''e'', CHR ''+'', CHR ''-''}"
proof -
  have ds: "ds \<noteq> []" "\<And>x. x \<in> set ds \<Longrightarrow> isDigit x"
    using assms by (auto simp: wfDigits_def list_all_iff)
  have ex: "\<And>x e. x \<in> set (exponentStr e) \<Longrightarrow> isDigit x \<or> x \<in> {CHR ''+'', CHR ''-''}"
    by (auto simp: exponentStr_def dest: set_decStr_digit split: if_splits)
  from ds(1) have "set (magnitudeStr ds n)
      \<subseteq> set ds \<union> {CHR ''0'', CHR ''.'', CHR ''e''} \<union> set (exponentStr (n - 1))"
    by (cases rule: magnitudeStr_cases [where n = n]) auto
  with assms(2) ds(2) ex show ?thesis by fastforce
qed

lemma magnitudeStr_hd: "wfDigits ds \<Longrightarrow> magnitudeStr ds n \<noteq> [] \<and> isDigit (hd (magnitudeStr ds n))"
proof -
  assume wf: "wfDigits ds"
  then have "isDigit (hd ds)" "ds \<noteq> []" by (auto simp: wfDigits_def list_all_iff)
  from this(2,1) show ?thesis
    by (cases rule: magnitudeStr_cases [where n = n]) (use \<open>ds \<noteq> []\<close> in \<open>auto simp: hd_append\<close>)
qed

section \<open>Lemmas: the printed text determines the value\<close>

text \<open>What may follow a value inside a larger text.\<close>

definition delimited :: "string \<Rightarrow> bool" where
  "delimited s \<longleftrightarrow> s = [] \<or> hd s \<in> {CHR '','', CHR '']'', CHR ''}''}"

definition numChar :: "char \<Rightarrow> bool" where
  "numChar c \<longleftrightarrow> isDigit c \<or> c \<in> {CHR ''.'', CHR ''e'', CHR ''+'', CHR ''-''}"

lemma delimited_Cons [simp]:
  "delimited []" "delimited (CHR '','' # s)" "delimited (CHR '']'' # s)" "delimited (CHR ''}'' # s)"
  by (simp_all add: delimited_def)

lemma numberToString_chars:
  "isFiniteNum x \<Longrightarrow> wfNum x \<Longrightarrow> list_all numChar (numberToString x)"
  by (cases x) (auto simp: list_all_iff numChar_def wfDigits_def charclass dest!: magnitudeStr_chars [rotated])

lemma numberToString_hd:
  assumes "isFiniteNum x" "wfNum x"
  shows "numberToString x \<noteq> [] \<and> (isDigit (hd (numberToString x)) \<or> hd (numberToString x) = CHR ''-'')"
proof (cases x)
  case (JsFinite neg ds n)
  with assms have "wfDigits ds" by (simp add: wfDigits_def)
  from magnitudeStr_hd [OF this, of n] JsFinite show ?thesis by auto
qed (use assms in \<open>auto simp: charclass\<close>)

lemma magnitudeStr_not_zero: "wfDigits ds \<Longrightarrow> magnitudeStr ds n \<noteq> ''0''"
proof
  assume wf: "wfDigits ds" and eq: "magnitudeStr ds n = ''0''"
  then have "ds \<noteq> []" by (simp add: wfDigits_def)
  then show False using eq
    by (cases rule: magnitudeStr_cases [where n = n]) (use wf in \<open>auto simp: wfDigits_def Cons_eq_append_conv\<close>)
qed

lemma numberToString_inject:
  assumes "isFiniteNum x" "wfNum x" "isFiniteNum y" "wfNum y" "numberToString x = numberToString y"
  shows "x = y"
proof -
  have hd_dig: "isDigit (hd (magnitudeStr ds n))" "magnitudeStr ds n \<noteq> []" if "wfDigits ds" for ds n
    using magnitudeStr_hd [OF that, of n] by auto
  have nomin: "magnitudeStr ds n \<noteq> CHR ''-'' # s" if "wfDigits ds" for ds n s
    using hd_dig [OF that, of n] by auto
  show ?thesis
    using assms magnitudeStr_inject magnitudeStr_not_zero nomin
    by (cases x; cases y) (auto simp: wfDigits_def [symmetric] split: if_splits, (metis nomin)+)
qed

lemma takeWhile_numChar:
  "list_all numChar a \<Longrightarrow> delimited s \<Longrightarrow> takeWhile numChar (a @ s) = a"
  by (induction a) (auto simp: delimited_def numChar_def neq_Nil_conv charclass takeWhile_eq_Nil_iff)

lemma numberToString_split:
  assumes "isFiniteNum x" "wfNum x" "isFiniteNum y" "wfNum y" "delimited s" "delimited t"
    and "numberToString x @ s = numberToString y @ t"
  shows "x = y \<and> s = t"
proof -
  have "numberToString x = numberToString y"
    using takeWhile_numChar [OF numberToString_chars, of x s] takeWhile_numChar [OF numberToString_chars, of y t]
      assms by simp
  with assms numberToString_inject show ?thesis by simp
qed

lemma of_char_hexChar: "k < 16 \<Longrightarrow> of_char (hexChar k) = (if k < 10 then 48 + k else 87 + k :: nat)"
  by (simp add: hexChar_def digitChar_def of_char_of)

lemma hexChar_inject:
  assumes "i < 16" "j < 16" "hexChar i = hexChar j"
  shows "i = j"
proof -
  have "of_char (hexChar i) = (of_char (hexChar j) :: nat)" using assms(3) by simp
  with assms(1,2) show ?thesis by (simp add: of_char_hexChar split: if_splits)
qed

lemma neq_by_head: "a \<noteq> [] \<Longrightarrow> hd a \<noteq> q \<Longrightarrow> a @ x \<noteq> q # y"
  by (cases a) auto

lemma jsonEscape_control_inject:
  assumes "(of_char c :: nat) < 32" "(of_char d :: nat) < 32"
    and "hexChar (of_char c div 16) = hexChar (of_char d div 16)"
    and "hexChar (of_char c mod 16) = hexChar (of_char d mod 16)"
  shows "c = d"
proof -
  have "(of_char c :: nat) div 16 = of_char d div 16" "(of_char c :: nat) mod 16 = of_char d mod 16"
    using assms by (auto intro: hexChar_inject)
  then have "(of_char c :: nat) = of_char d" by (metis div_mult_mod_eq)
  then show ?thesis by simp
qed

lemma jsonEscape_split: "jsonEscape c @ s = jsonEscape d @ t \<Longrightarrow> c = d \<and> s = t"
  unfolding jsonEscape_def
  by (auto split: if_splits dest: jsonEscape_control_inject)

lemma jsonEscape_hd: "jsonEscape c \<noteq> [] \<and> hd (jsonEscape c) \<noteq> CHR 0x22"
  by (simp add: jsonEscape_def)

lemma jsonString_split: "jsonString a @ s = jsonString b @ t \<Longrightarrow> a = b \<and> s = t"
proof -
  have "concat (map jsonEscape a) @ CHR 0x22 # s = concat (map jsonEscape b) @ CHR 0x22 # t \<Longrightarrow>
    a = b \<and> s = t"
  proof (induction a arbitrary: b)
    case Nil
    then show ?case
      using neq_by_head [of "jsonEscape (hd b)"] jsonEscape_hd [of "hd b"] by (cases b) (auto dest: sym)
  next
    case (Cons c a)
    show ?case
    proof (cases b)
      case Nil
      with Cons.prems show ?thesis using neq_by_head [of "jsonEscape c"] jsonEscape_hd [of c] by auto
    next
      case (Cons d b')
      with Cons.prems have "c = d \<and> concat (map jsonEscape a) @ CHR 0x22 # s
          = concat (map jsonEscape b') @ CHR 0x22 # t"
        by (intro jsonEscape_split) simp
      with Cons.IH [of b'] Cons show ?thesis by simp
    qed
  qed
  then show "jsonString a @ s = jsonString b @ t \<Longrightarrow> a = b \<and> s = t" by (simp add: jsonString_def)
qed

text \<open>Lists of texts that can each be split off, between commas and up to a closing bracket.\<close>

lemma joinComma_split:
  assumes split: "\<And>x y s t. x \<in> set xs \<Longrightarrow> Q y \<Longrightarrow> delimited s \<Longrightarrow> delimited t \<Longrightarrow>
      f x @ s = f y @ t \<Longrightarrow> x = y \<and> s = t"
    and start: "\<And>y. P y \<Longrightarrow> f y \<noteq> [] \<and> hd (f y) \<noteq> q"
    and xs: "\<forall>x\<in>set xs. P x" and ys: "\<forall>y\<in>set ys. P y \<and> Q y"
    and q: "q \<in> {CHR '']'', CHR ''}''}"
    and eq: "joinComma (map f xs) @ q # s = joinComma (map f ys) @ q # t"
  shows "xs = ys \<and> s = t"
  using split xs ys eq
proof (induction xs arbitrary: ys)
  case Nil
  show ?case
  proof (cases ys)
    case (Cons y ys')
    with Nil.prems start [of y] have "f y \<noteq> []" "hd (f y) \<noteq> q" by auto
    from neq_by_head [OF this] Nil.prems(4) Cons show ?thesis by (cases ys') (auto dest: sym)
  qed (use Nil.prems in simp)
next
  case (Cons x xs)
  have fx: "f x \<noteq> []" "hd (f x) \<noteq> q" using start Cons.prems by auto
  obtain y ys' where ys: "ys = y # ys'"
    using Cons.prems(4) neq_by_head [OF fx] by (cases ys; cases xs) auto
  have rest: "joinComma (map f (z # zs)) @ q # u
      = f z @ (if zs = [] then q # u else CHR '','' # joinComma (map f zs) @ q # u)" for z zs u
    by (cases zs) auto
  have del: "delimited (if zs = [] then q # u else CHR '','' # joinComma (map f zs) @ q # u)" for zs u
    using q by auto
  have "x = y \<and> (if xs = [] then q # s else CHR '','' # joinComma (map f xs) @ q # s)
      = (if ys' = [] then q # t else CHR '','' # joinComma (map f ys') @ q # t)"
    using Cons.prems(3,4) del unfolding ys rest by (intro Cons.prems(1)) auto
  moreover from this have "xs = ys' \<and> s = t"
    using Cons.IH [of ys'] Cons.prems q ys by (auto split: if_splits)
  ultimately show ?case by (simp add: ys)
qed

text \<open>The first character of a text tells the kind of the value.\<close>

fun kindOf :: "jsval \<Rightarrow> nat" where
  "kindOf JUndefined = 0"
| "kindOf JNull = 1"
| "kindOf (JBool b) = (if b then 2 else 3)"
| "kindOf (JString s) = 4"
| "kindOf (JNumber x) = 5"
| "kindOf (JArray vs) = 6"
| "kindOf (JObject kvs) = 7"

definition kindOfHead :: "char \<Rightarrow> nat" where
  "kindOfHead c =
     (if c = CHR ''n'' then 1 else if c = CHR ''t'' then 2 else if c = CHR ''f'' then 3
      else if c = CHR 0x22 then 4 else if isDigit c \<or> c = CHR ''-'' then 5
      else if c = CHR ''['' then 6 else if c = CHR ''{'' then 7 else 0)"

lemma jsonText_head:
  "wfJson v \<Longrightarrow> jsonText v \<noteq> [] \<and> kindOfHead (hd (jsonText v)) = kindOf v"
proof (cases v)
  case (JNumber x)
  assume "wfJson v"
  with numberToString_hd [of x] JNumber show ?thesis
    by (auto simp: kindOfHead_def charclass)
qed (auto simp: kindOfHead_def jsonString_def)

lemma jsonText_split_kind:
  assumes "wfJson v" "wfJson w" "jsonText v @ s = jsonText w @ t"
  shows "kindOf v = kindOf w"
  using jsonText_head [OF assms(1)] jsonText_head [OF assms(2)] arg_cong [OF assms(3), of hd] by simp

lemma jsonText_split:
  assumes "wfJson v" "wfJson w" "delimited s" "delimited t" "jsonText v @ s = jsonText w @ t"
  shows "v = w \<and> s = t"
  using assms
proof (induction v arbitrary: w s t)
  case JUndefined
  then show ?case by simp
next
  case JNull
  with jsonText_split_kind [of JNull w s t] show ?case by (cases w) (auto split: if_splits)
next
  case (JBool b)
  with jsonText_split_kind [of "JBool b" w s t] show ?case by (cases w) (auto split: if_splits)
next
  case (JNumber x)
  then obtain y where w: "w = JNumber y"
    using jsonText_split_kind [of "JNumber x" w s t] by (cases w) (auto split: if_splits)
  with JNumber numberToString_split [of x y s t] show ?case by simp
next
  case (JString a)
  then obtain b where w: "w = JString b"
    using jsonText_split_kind [of "JString a" w s t] by (cases w) (auto split: if_splits)
  with JString jsonString_split [of a s b t] show ?case by simp
next
  case (JArray vs)
  then obtain ws where w: "w = JArray ws"
    using jsonText_split_kind [of "JArray vs" w s t] by (cases w) (auto split: if_splits)
  have "vs = ws \<and> s = t"
  proof (rule joinComma_split [where f = jsonText and P = wfJson and Q = wfJson and q = "CHR '']''"])
    show "x = y \<and> u = r"
      if "x \<in> set vs" "wfJson y" "delimited u" "delimited r" "jsonText x @ u = jsonText y @ r" for x y u r
      using that JArray by (auto simp: list_all_iff)
    show "jsonText y \<noteq> [] \<and> hd (jsonText y) \<noteq> CHR '']''" if "wfJson y" for y
      using jsonText_head [OF that] that by (cases y) (auto simp: kindOfHead_def charclass split: if_splits)
    show "joinComma (map jsonText vs) @ CHR '']'' # s = joinComma (map jsonText ws) @ CHR '']'' # t"
      using JArray.prems w by simp
  qed (use JArray.prems w in \<open>auto simp: list_all_iff\<close>)
  with w show ?case by simp
next
  case (JObject kvs)
  then obtain kws where w: "w = JObject kws"
    using jsonText_split_kind [of "JObject kvs" w s t] by (cases w) (auto split: if_splits)
  let ?f = "\<lambda>(k, v). jsonString k @ '':'' @ jsonText v"
  have "kvs = kws \<and> s = t"
  proof (rule joinComma_split [where f = ?f and P = "\<lambda>_. True" and Q = "\<lambda>(k, v). wfJson v" and q = "CHR ''}''"])
    fix x y u r
    assume a: "x \<in> set kvs" "case y of (k, v) \<Rightarrow> wfJson v" "delimited u" "delimited r" "?f x @ u = ?f y @ r"
    obtain k v k' v' where xy: "x = (k, v)" "y = (k', v')" by (cases x, cases y)
    from a(5) have "jsonString k @ ('':'' @ jsonText v @ u) = jsonString k' @ ('':'' @ jsonText v' @ r)"
      by (simp add: xy)
    from jsonString_split [OF this] have "k = k'" "jsonText v @ u = jsonText v' @ r" by auto
    moreover have "wfJson v" using JObject.prems(1) a(1) by (auto simp: list_all_iff xy)
    ultimately show "x = y \<and> u = r"
      using JObject.IH [of x v v' u r] a xy by (auto simp: snds.simps)
  qed (use JObject.prems w in \<open>auto simp: list_all_iff jsonString_def\<close>)
  with w show ?case by simp
qed

section \<open>Lemmas: sorting the properties\<close>

lemma sequence_map_Some [simp]: "sequence (map (\<lambda>x. Some (f x)) xs) = Some (map f xs)"
  by (induction xs) auto

lemma insort_key_map_snd:
  "insort_key fst (k, f v) (map (\<lambda>(k, v). (k, f v)) xs) = map (\<lambda>(k, v). (k, f v)) (insort_key fst (k, v) xs)"
  by (induction xs) auto

lemma sort_key_map_snd:
  "sort_key fst (map (\<lambda>(k, v). (k, f v)) xs) = map (\<lambda>(k, v). (k, f v)) (sort_key fst xs)"
  by (induction xs) (auto simp: insort_key_map_snd)

lemma distinct_keys_sort: "distinct (map fst xs) \<Longrightarrow> distinct (map fst (sort_key fst xs))"
  by (simp add: distinct_map)

lemma map_fst_map_snd [simp]: "map fst (map (\<lambda>(k, v). (k, f v)) xs) = map fst xs"
  by (induction xs) auto

lemma wfJson_sortKeys: "wfJson v \<Longrightarrow> wfJson (sortKeys v)"
proof (induction v)
  case (JObject kvs)
  have "distinct (map fst (sort_key fst (map (\<lambda>(k, v). (k, sortKeys v)) kvs)))"
    using JObject.prems by (intro distinct_keys_sort) (simp del: map_map)
  moreover have "wfJson (sortKeys v)" if "(k, v) \<in> set kvs" for k v
    using JObject.IH [of "(k, v)" v] JObject.prems that by (auto simp: list_all_iff)
  ultimately show ?case by (auto simp: list_all_iff)
qed (auto simp: list_all_iff)

lemma canonicalize_text: "wfJson v \<Longrightarrow> canonicalizeJsonValue v = Some (jsonText (sortKeys v))"
proof (induction v)
  case (JArray vs)
  then have texts: "map canonicalizeJsonValue vs = map (\<lambda>v. Some (jsonText (sortKeys v))) vs"
    by (auto simp: list_all_iff)
  show ?case unfolding canonicalizeJsonValue.simps texts by (simp add: comp_def)
next
  case (JObject kvs)
  then have "map (\<lambda>(k, v). (k, canonicalizeJsonValue v)) kvs
      = map (\<lambda>(k, v). (k, Some (jsonText v))) (map (\<lambda>(k, v). (k, sortKeys v)) kvs)"
    by (force simp: list_all_iff snds.simps)
  then have "sort_key fst (map (\<lambda>(k, v). (k, canonicalizeJsonValue v)) kvs)
      = map (\<lambda>(k, v). (k, Some (jsonText v))) (sort_key fst (map (\<lambda>(k, v). (k, sortKeys v)) kvs))"
    by (simp add: sort_key_map_snd)
  then show ?case by (simp add: comp_def case_prod_unfold)
qed auto

lemma sortKeys_perm_object:
  assumes "distinct (map fst kvs)" "distinct (map fst kws)" "set kvs = set kws"
  shows "sortKeys (JObject kvs) = sortKeys (JObject kws)"
proof -
  let ?g = "\<lambda>(k, v). (k, sortKeys v)"
  have dst: "distinct (map fst (sort_key fst (map ?g xs)))" if "distinct (map fst xs)" for xs
    using that by (intro distinct_keys_sort) (simp del: map_map)
  have sets: "set (sort_key fst (map ?g kvs)) = set (sort_key fst (map ?g kws))" using assms(3) by simp
  have "inj_on fst (set (sort_key fst (map ?g kvs)))" using dst [OF assms(1)] by (simp add: distinct_map)
  then have "sort_key fst (map ?g kvs) = sort_key fst (map ?g kws)"
    using dst assms sets
    by (intro map_sorted_distinct_set_unique [where f = fst]) (simp_all del: map_map)
  then show ?thesis by simp
qed

section \<open>Lemmas: integers as numbers\<close>

text \<open>A list without its trailing copies of one element.\<close>

lemma strip_decomp:
  "\<exists>d z. rev (dropWhile ((=) x) (rev s)) = d \<and> s = d @ replicate z x \<and> (d = [] \<or> last d \<noteq> x)"
proof (induction s rule: rev_induct)
  case Nil
  then show ?case by simp
next
  case (snoc y s)
  show ?case
  proof (cases "y = x")
    case True
    from snoc.IH obtain d z where d: "rev (dropWhile ((=) x) (rev s)) = d" "s = d @ replicate z x"
      "d = [] \<or> last d \<noteq> x" by blast
    have "s @ [y] = d @ replicate (Suc z) x" using d(2) True by (simp add: replicate_append_same)
    with d True show ?thesis by (intro exI [of _ d] exI [of _ "Suc z"]) simp
  next
    case False
    then show ?thesis by (intro exI [of _ "s @ [y]"] exI [of _ 0]) auto
  qed
qed

lemma strip_trailing:
  assumes "s \<noteq> []" "list_all isDigit s" "hd s \<noteq> CHR ''0''"
  obtains d z where "rev (dropWhile ((=) (CHR ''0'')) (rev s)) = d" "s = d @ replicate z (CHR ''0'')"
    "wfDigits d"
proof -
  obtain d z where d: "rev (dropWhile ((=) (CHR ''0'')) (rev s)) = d" "s = d @ replicate z (CHR ''0'')"
    "d = [] \<or> last d \<noteq> CHR ''0''" using strip_decomp [of "CHR ''0''" s] by blast
  have "d \<noteq> []" using assms(1,3) d(2) by (cases z) auto
  with assms d have "wfDigits d" by (auto simp: wfDigits_def)
  with d that show ?thesis by blast
qed

lemma jsInt_nonzero:
  assumes "i \<noteq> 0"
  obtains d z where "jsInt i = JsFinite (i < 0) d (int (length d + z))"
    "decStr (nat \<bar>i\<bar>) = d @ replicate z (CHR ''0'')" "wfDigits d"
proof -
  have "hd (decStr (nat \<bar>i\<bar>)) \<noteq> CHR ''0''" using assms by (intro hd_decStr) simp
  then obtain d z where d: "rev (dropWhile ((=) (CHR ''0'')) (rev (decStr (nat \<bar>i\<bar>)))) = d"
    "decStr (nat \<bar>i\<bar>) = d @ replicate z (CHR ''0'')" "wfDigits d"
    using strip_trailing [of "decStr (nat \<bar>i\<bar>)"] by (metis decStr_nonempty digits_decStr)
  have "jsInt i = JsFinite (i < 0) d (int (length (decStr (nat \<bar>i\<bar>))))"
    using assms d(1) by (simp add: jsInt_def Let_def)
  then have "jsInt i = JsFinite (i < 0) d (int (length d + z))" by (simp add: d(2))
  with d that show ?thesis by blast
qed

lemma jsInt_wf [simp]: "isFiniteNum (jsInt i)" "wfNum (jsInt i)"
proof -
  have "isFiniteNum (jsInt i) \<and> wfNum (jsInt i)"
    by (cases "i = 0") (simp add: jsInt_def, metis jsInt_nonzero isFiniteNum.simps(4) wfNum.simps(1) wfDigits_def)
  then show "isFiniteNum (jsInt i)" "wfNum (jsInt i)" by auto
qed

text \<open>Integers of at most 21 digits, so in particular the safe ones, print in full.\<close>

lemma numberToString_jsInt:
  assumes "length (decStr (nat \<bar>i\<bar>)) \<le> 21"
  shows "numberToString (jsInt i) = intStr i"
proof (cases "i = 0")
  case True
  then show ?thesis by (simp add: jsInt_def intStr_def)
next
  case False
  then obtain d z where d: "jsInt i = JsFinite (i < 0) d (int (length d + z))"
    "decStr (nat \<bar>i\<bar>) = d @ replicate z (CHR ''0'')" by (rule jsInt_nonzero)
  have "length d + z \<le> 21" using assms d(2) by simp
  then have "magnitudeStr d (int (length d + z)) = decStr (nat \<bar>i\<bar>)"
    by (simp add: magnitudeStr_def d(2))
  with False d(1) show ?thesis by (auto simp: intStr_def)
qed

section \<open>Lemmas: reading a property of a sorted object\<close>

lemma map_of_sort_key:
  "distinct (map fst kvs) \<Longrightarrow> map_of (sort_key fst kvs) k = map_of kvs k"
  using map_of_inject_set [of "sort_key fst kvs" kvs] distinct_keys_sort [of kvs] by simp

lemma map_of_map_snd: "map_of (map (\<lambda>(k, v). (k, f v)) kvs) k = map_option f (map_of kvs k)"
  by (induction kvs) auto

lemma getProp_sortKeys: "wfJson v \<Longrightarrow> getProp (sortKeys v) k = sortKeys (getProp v k)"
proof (cases v)
  case (JObject kvs)
  assume "wfJson v"
  then have "distinct (map fst (map (\<lambda>(k, v). (k, sortKeys v)) kvs))" using JObject by (simp del: map_map)
  then have "map_of (sort_key fst (map (\<lambda>(k, v). (k, sortKeys v)) kvs)) k = map_option sortKeys (map_of kvs k)"
    by (simp only: map_of_sort_key map_of_map_snd)
  with JObject show ?thesis by (simp split: option.splits)
qed simp_all

text \<open>Values that agree up to the order of properties agree on every property, in the same sense.\<close>

lemma sortKeys_getProp:
  "wfJson v \<Longrightarrow> wfJson w \<Longrightarrow> sortKeys v = sortKeys w \<Longrightarrow> sortKeys (getProp v k) = sortKeys (getProp w k)"
  by (metis getProp_sortKeys)

lemma jsInt_inject [simp]: "jsInt i = jsInt j \<longleftrightarrow> i = j"
proof
  assume eq: "jsInt i = jsInt j"
  show "i = j"
  proof (cases "i = 0 \<or> j = 0")
    case True
    with eq show ?thesis by (auto simp: jsInt_def Let_def split: if_splits)
  next
    case False
    obtain d z where d: "jsInt i = JsFinite (i < 0) d (int (length d + z))"
      "decStr (nat \<bar>i\<bar>) = d @ replicate z (CHR ''0'')" using False jsInt_nonzero [of i] by metis
    obtain e y where e: "jsInt j = JsFinite (j < 0) e (int (length e + y))"
      "decStr (nat \<bar>j\<bar>) = e @ replicate y (CHR ''0'')" using False jsInt_nonzero [of j] by metis
    have "decStr (nat \<bar>i\<bar>) = decStr (nat \<bar>j\<bar>)" "i < 0 \<longleftrightarrow> j < 0" using eq d e by auto
    then show ?thesis by (auto split: if_splits)
  qed
qed simp

section \<open>Lemmas: bytes of a text\<close>

lemma of_char_ascii: "(of_char c :: nat) < 128 \<longleftrightarrow> \<not> digit7 c"
  by (cases c) (auto simp: of_char_def horner_sum_simps split: if_splits)

text \<open>An ASCII character is recognised by its highest bit.\<close>

lemma utf8Char_code [code]:
  "utf8Char c = (if digit7 c then let n = of_char c :: nat in [char_of (192 + n div 64), char_of (128 + n mod 64)] else [c])"
  by (simp add: utf8Char_def of_char_ascii)

lemma utf8Char_split: "utf8Char c @ s = utf8Char d @ t \<Longrightarrow> c = d \<and> s = t"
proof -
  assume eq: "utf8Char c @ s = utf8Char d @ t"
  let ?n = "of_char c :: nat" and ?m = "of_char d :: nat"
  have bounds: "?n < 256" "?m < 256" by simp_all
  have lead: "of_char (char_of (192 + k div 64) :: char) = 192 + k div 64"
    "of_char (char_of (128 + k mod 64) :: char) = 128 + k mod 64" if "k < 256" for k :: nat
    using that by (auto simp: of_char_of)
  have ne: "c \<noteq> char_of (192 + k div 64)" if "?n < 128" "k < 256" for k :: nat
    using that lead(1) [of k] by auto
  have ne': "d \<noteq> char_of (192 + k div 64)" if "?m < 128" "k < 256" for k :: nat
    using that lead(1) [of k] by auto
  consider "?n < 128" "?m < 128" | "?n < 128" "\<not> ?m < 128" | "\<not> ?n < 128" "?m < 128"
    | "\<not> ?n < 128" "\<not> ?m < 128" by blast
  then show ?thesis
  proof cases
    case 3
    then have "d = char_of (192 + ?n div 64)" using eq by (auto simp: utf8Char_def Let_def)
    with ne' [of ?n] 3 bounds show ?thesis by blast
  next
    case 4
    with eq have "of_char (char_of (192 + ?n div 64) :: char) = (of_char (char_of (192 + ?m div 64) :: char) :: nat)"
      "of_char (char_of (128 + ?n mod 64) :: char) = (of_char (char_of (128 + ?m mod 64) :: char) :: nat)" "s = t"
      by (simp_all add: utf8Char_def Let_def)
    then have "?n div 64 = ?m div 64" "?n mod 64 = ?m mod 64" "s = t" using bounds lead by auto
    then show ?thesis by (metis div_mult_mod_eq of_char_eq_iff)
  qed (use eq ne ne' bounds in \<open>auto simp: utf8Char_def Let_def\<close>)
qed

lemma utf8_inject: "utf8 s = utf8 t \<Longrightarrow> s = t"
proof (induction s arbitrary: t)
  case Nil
  then show ?case by (cases t) (auto simp: utf8_def utf8Char_def Let_def split: if_splits)
next
  case (Cons c s)
  show ?case
  proof (cases t)
    case Nil
    with Cons.prems show ?thesis by (auto simp: utf8_def utf8Char_def Let_def split: if_splits)
  next
    case t: (Cons d t')
    with Cons.prems utf8Char_split [of c "utf8 s" d "utf8 t'"] have "c = d \<and> utf8 s = utf8 t'"
      by (simp add: utf8_def)
    with Cons.IH [of t'] t show ?thesis by simp
  qed
qed

lemma canonicalize_eq_iff:
  assumes "wfJson v" "wfJson w"
  shows "canonicalizeJsonValue v = canonicalizeJsonValue w \<longleftrightarrow> sortKeys v = sortKeys w"
proof -
  have "jsonText (sortKeys v) = jsonText (sortKeys w) \<Longrightarrow> sortKeys v = sortKeys w"
    using jsonText_split [of "sortKeys v" "sortKeys w" "[]" "[]"] assms by (simp add: wfJson_sortKeys)
  then show ?thesis using assms by (auto simp: canonicalize_text)
qed

section \<open>Properties\<close>

text \<open>
  C34. Canonical text is a faithful name of a value: every JSON value of the program is given a
  text, and two values are given the same text exactly when they agree up to the order of
  properties (at every depth). Neither a change of a string, a number or a flag nor moving
  data across a boundary between properties can leave the hashed text unchanged.
\<close>

theorem canonicalize_identifies_values:
  assumes "wfJson v" "wfJson w"
  shows "(\<exists>text. canonicalizeIdempotencyPayload v = Some text) \<and>
    (canonicalizeIdempotencyPayload v = canonicalizeIdempotencyPayload w \<longleftrightarrow> sortKeys v = sortKeys w)"
  using canonicalize_eq_iff [OF assms] assms by (auto simp: canonicalizeIdempotencyPayload_def canonicalize_text)

theorem canonicalize_identifies_values_witness:
  "canonicalizeIdempotencyPayload (JObject [(''b'', JNumber (jsInt 100)), (''a'', JArray [JNull, JBool True])])
     = Some ''{\"a\":[null,true],\"b\":100}'' \<and>
   canonicalizeIdempotencyPayload (JObject [(''b'', JNumber (jsInt 100)), (''a'', JArray [JNull, JBool True])])
     = canonicalizeIdempotencyPayload (JObject [(''a'', JArray [JNull, JBool True]), (''b'', JNumber (jsInt 100))])"
proof -
  let ?v = "JObject [(''b'', JNumber (jsInt 100)), (''a'', JArray [JNull, JBool True])]"
  let ?w = "JObject [(''a'', JArray [JNull, JBool True]), (''b'', JNumber (jsInt 100))]"
  have wf: "wfJson ?v" "wfJson ?w" by simp_all
  have "sortKeys ?v = sortKeys ?w" by simp
  with canonicalize_identifies_values [OF wf]
  have "canonicalizeIdempotencyPayload ?v = canonicalizeIdempotencyPayload ?w" by blast
  moreover have "canonicalizeIdempotencyPayload ?v = Some ''{\"a\":[null,true],\"b\":100}''" by code_simp
  ultimately show ?thesis by blast
qed

end
