(* ===== verification/AtomicUnits.thy ===== *)
theory AtomicUnits
  imports Prelude
begin

text \<open>
  Amounts: the schemas of \<open>packages/schemas/src/money.ts\<close> and the decimal-string arithmetic
  of \<open>packages/policy-engine/src/index.ts\<close> (\<open>compareAtomic\<close>, \<open>isAtomicAtMost\<close>,
  \<open>subtractAtomic\<close>). The locale \<open>atomic_arithmetic\<close> is the interface the policy engine
  relies on; it is interpreted on these definitions.
\<close>

section \<open>The schemas\<close>

definition maximumUint256Decimal :: string where
  "maximumUint256Decimal =
     ''115792089237316195423570985008687907853269984665640564039457584007913129639935''"

definition isWithinUint256 :: "string \<Rightarrow> bool" where
  "isWithinUint256 value =
     (if \<not> canonicalDec value then True
      else if length value \<noteq> length maximumUint256Decimal
      then length value < length maximumUint256Decimal
      else value \<le> maximumUint256Decimal)"

definition atomicUnitSchema :: "string \<Rightarrow> bool" where
  "atomicUnitSchema value \<longleftrightarrow>
     length value \<le> 78 \<and> canonicalDec value \<and> isWithinUint256 value"

definition positiveAtomicUnitSchema :: "string \<Rightarrow> bool" where
  "positiveAtomicUnitSchema value \<longleftrightarrow> atomicUnitSchema value \<and> value \<noteq> ''0''"

section \<open>Comparison and subtraction on decimal strings\<close>

definition compareAtomic :: "string \<Rightarrow> string \<Rightarrow> int" where
  "compareAtomic left right =
     (if length left \<noteq> length right then (if length left < length right then -1 else 1)
      else if left = right then 0 else if left < right then -1 else 1)"

definition isAtomicAtMost :: "string \<Rightarrow> string \<Rightarrow> bool" where
  "isAtomicAtMost value limit \<longleftrightarrow> compareAtomic value limit \<le> 0"

text \<open>
  The \<open>while (leftIndex >= 0)\<close> loop of \<open>subtractAtomic\<close>, with its mutable variables as
  arguments: \<open>digits\<close> collects the result from the least significant digit on.
\<close>

function subtractLoop ::
  "string \<Rightarrow> string \<Rightarrow> int \<Rightarrow> int \<Rightarrow> int \<Rightarrow> int list \<Rightarrow> int list" where
  "subtractLoop left right borrow leftIndex rightIndex digits =
     (if 0 \<le> leftIndex
      then let digit = int (digitVal (left ! nat leftIndex)) - borrow;
               rightDigit = (if 0 \<le> rightIndex then int (digitVal (right ! nat rightIndex)) else 0)
           in if digit < rightDigit
              then subtractLoop left right 1 (leftIndex - 1) (rightIndex - 1)
                     (digits @ [digit + 10 - rightDigit])
              else subtractLoop left right 0 (leftIndex - 1) (rightIndex - 1)
                     (digits @ [digit - rightDigit])
      else digits)"
  by pat_completeness auto
termination
  by (relation "measure (\<lambda>(l, r, b, i, j, ds). nat (i + 1))") auto

declare subtractLoop.simps [simp del]

text \<open>\<open>.replace(/^0+(?=\d)/, "")\<close>\<close>

fun stripZeros :: "string \<Rightarrow> string" where
  "stripZeros (c # d # s) =
     (if c = CHR ''0'' \<and> isDigit d then stripZeros (d # s) else c # d # s)"
| "stripZeros s = s"

definition subtractAtomic :: "string \<Rightarrow> string \<Rightarrow> string" where
  "subtractAtomic left right =
     (if \<not> isAtomicAtMost right left then ''0''
      else stripZeros (concat (map intStr (rev
             (subtractLoop left right 0 (int (length left) - 1) (int (length right) - 1) [])))))"

section \<open>The interface the policy engine relies on\<close>

text \<open>
  Amounts as values of some type \<open>'s\<close> with a predicate for the canonical ones and the
  number each denotes: comparison is comparison of numbers, and subtraction is subtraction
  that stops at zero.
\<close>

locale atomic_arithmetic =
  fixes canonical :: "'s \<Rightarrow> bool"
    and val :: "'s \<Rightarrow> nat"
    and atMost :: "'s \<Rightarrow> 's \<Rightarrow> bool"
    and subtract :: "'s \<Rightarrow> 's \<Rightarrow> 's"
  assumes atMost_iff: "canonical a \<Longrightarrow> canonical b \<Longrightarrow> atMost a b \<longleftrightarrow> val a \<le> val b"
    and subtract_canonical: "canonical a \<Longrightarrow> canonical b \<Longrightarrow> canonical (subtract a b)"
    and subtract_val: "canonical a \<Longrightarrow> canonical b \<Longrightarrow> val (subtract a b) = val a - val b"
begin

lemma atMost_total: "canonical a \<Longrightarrow> canonical b \<Longrightarrow> atMost a b \<or> atMost b a"
  by (auto simp: atMost_iff)

lemma atMost_trans:
  "canonical a \<Longrightarrow> canonical b \<Longrightarrow> canonical c \<Longrightarrow> atMost a b \<Longrightarrow> atMost b c \<Longrightarrow> atMost a c"
  by (auto simp: atMost_iff)

text \<open>A positive amount that fits the remaining budget keeps the sum within the total.\<close>

lemma fits_remaining:
  assumes "canonical budget" "canonical spent" "canonical amount"
    and "atMost amount (subtract budget spent)" "0 < val amount"
  shows "val spent + val amount \<le> val budget"
  using assms by (auto simp: atMost_iff subtract_canonical subtract_val)

lemma exceeds_remaining:
  assumes "canonical budget" "canonical spent" "canonical amount"
    and "val spent + val amount \<le> val budget"
  shows "atMost amount (subtract budget spent)"
  using assms by (auto simp: atMost_iff subtract_canonical subtract_val)

end

section \<open>Lemmas\<close>

lemma intStr_digit: "0 \<le> d \<Longrightarrow> d < 10 \<Longrightarrow> intStr d = [digitChar (nat d)]"
  by (simp add: intStr_def decStr.simps)

lemma compareAtomic_sgn:
  assumes "canonicalDec l" "canonicalDec r"
  shows "compareAtomic l r = sgn (int (decVal l) - int (decVal r))"
  using canonicalDec_less_iff [OF assms] canonicalDec_less_iff [OF assms(2,1)]
    canonicalDec_inj [OF assms]
  by (auto simp: compareAtomic_def sgn_if split: if_splits)

lemma isAtomicAtMost_iff:
  "canonicalDec l \<Longrightarrow> canonicalDec r \<Longrightarrow> isAtomicAtMost l r \<longleftrightarrow> decVal l \<le> decVal r"
  by (auto simp: isAtomicAtMost_def compareAtomic_sgn sgn_if split: if_splits)

text \<open>The number a list of digits denotes, least significant digit first.\<close>

fun leVal :: "int list \<Rightarrow> int" where
  "leVal [] = 0"
| "leVal (d # ds) = d + 10 * leVal ds"

lemma decVal_join_digits:
  "\<forall>d\<in>set ds. 0 \<le> d \<and> d < 10 \<Longrightarrow> int (decVal (concat (map intStr (rev ds)))) = leVal ds"
  by (induction ds) (auto simp: intStr_digit)

lemma digits_join_digits:
  "\<forall>d\<in>set ds. 0 \<le> d \<and> d < 10 \<Longrightarrow> list_all isDigit (concat (map intStr (rev ds)))"
  by (induction ds) (auto simp: intStr_digit)

lemma join_digits_nonempty: "ds \<noteq> [] \<Longrightarrow> concat (map intStr ds) \<noteq> []"
  by (cases ds) (auto simp: intStr_def)

lemma decVal_stripZeros: "decVal (stripZeros s) = decVal s"
  by (induction s rule: stripZeros.induct) (auto simp: decVal_Cons)

lemma canonicalDec_stripZeros:
  "s \<noteq> [] \<Longrightarrow> list_all isDigit s \<Longrightarrow> canonicalDec (stripZeros s)"
  by (induction s rule: stripZeros.induct) (auto simp: canonicalDec_def)

text \<open>
  The loop with \<open>k\<close> digits of the left operand to go: it appends \<open>k\<close> digits that denote the
  difference of the two remaining prefixes less the borrow, provided that is not negative.
\<close>

lemma subtractLoop_spec:
  assumes "k \<le> length l" "list_all isDigit l" "list_all isDigit r" "j < int (length r)"
    and "b = 0 \<or> b = 1"
    and "int (decVal (take (nat (j + 1)) r)) + b \<le> int (decVal (take k l))"
  shows "\<exists>ds. subtractLoop l r b (int k - 1) j acc = acc @ ds \<and> length ds = k \<and>
          (\<forall>d\<in>set ds. 0 \<le> d \<and> d < 10) \<and>
          leVal ds = int (decVal (take k l)) - int (decVal (take (nat (j + 1)) r)) - b"
  using assms
proof (induction k arbitrary: b j acc)
  case 0
  then have "subtractLoop l r b (int 0 - 1) j acc = acc" by (simp add: subtractLoop.simps)
  with 0 show ?case by auto
next
  case (Suc k)
  define x where "x = int (digitVal (l ! k))"
  define y where "y = (if 0 \<le> j then int (digitVal (r ! nat j)) else 0)"
  define L where "L = int (decVal (take k l))"
  define R where "R = int (decVal (take (nat j) r))"
  have kl: "k < length l" using Suc.prems by simp
  have "take (Suc k) l = take k l @ [l ! k]" using kl by (rule take_Suc_conv_app_nth)
  then have L': "int (decVal (take (Suc k) l)) = 10 * L + x" by (simp add: L_def x_def)
  have R': "int (decVal (take (nat (j + 1)) r)) = 10 * R + y"
  proof (cases "0 \<le> j")
    case True
    then have "nat (j + 1) = Suc (nat j)" "nat j < length r" using Suc.prems by auto
    then show ?thesis using True by (simp add: take_Suc_conv_app_nth R_def y_def)
  qed (simp add: R_def y_def)
  have "isDigit (l ! k)" using Suc.prems kl by (simp add: list_all_length)
  then have x: "0 \<le> x" "x < 10" using digitVal_less by (auto simp: x_def)
  have "0 \<le> j \<Longrightarrow> isDigit (r ! nat j)" using Suc.prems by (auto simp: list_all_length)
  then have y: "0 \<le> y" "y < 10" using digitVal_less by (auto simp: y_def)
  define b' where "b' = (if x - b < y then 1 else (0::int))"
  define d where "d = (if x - b < y then x - b + 10 - y else x - b - y)"
  have step: "subtractLoop l r b (int (Suc k) - 1) j acc
      = subtractLoop l r b' (int k - 1) (j - 1) (acc @ [d])"
    by (subst subtractLoop.simps) (simp add: x_def y_def b'_def d_def Let_def)
  have d: "0 \<le> d" "d < 10" using x y Suc.prems(5) by (auto simp: d_def)
  have le: "10 * R + y + b \<le> 10 * L + x" using Suc.prems(6) L' R' by simp
  have "R + b' \<le> L" using le x y Suc.prems(5) by (auto simp: b'_def)
  moreover have "b' = 0 \<or> b' = 1" by (simp add: b'_def)
  ultimately obtain ds where ds: "subtractLoop l r b' (int k - 1) (j - 1) (acc @ [d]) = (acc @ [d]) @ ds"
    "length ds = k" "\<forall>d\<in>set ds. 0 \<le> d \<and> d < 10" "leVal ds = L - R - b'"
    using Suc.IH [of "j - 1" b' "acc @ [d]"] Suc.prems
    by (auto simp: L_def R_def)
  have "leVal (d # ds) = (10 * L + x) - (10 * R + y) - b"
    using ds(4) by (auto simp: d_def b'_def)
  then show ?case
    unfolding step using ds d L' R' by (intro exI [of _ "d # ds"]) simp
qed

lemma subtractAtomic_spec:
  assumes l: "canonicalDec l" and r: "canonicalDec r"
  shows "canonicalDec (subtractAtomic l r) \<and> decVal (subtractAtomic l r) = decVal l - decVal r"
proof (cases "decVal r \<le> decVal l")
  case False
  with assms show ?thesis
    by (simp add: subtractAtomic_def isAtomicAtMost_iff canonicalDec_def)
next
  case True
  have len: "length r \<noteq> 0" using canonicalDec_nonempty [OF r] by simp
  obtain ds where ds: "subtractLoop l r 0 (int (length l) - 1) (int (length r) - 1) [] = ds"
    "length ds = length l" "\<forall>d\<in>set ds. 0 \<le> d \<and> d < 10"
    "leVal ds = int (decVal l) - int (decVal r)"
    using subtractLoop_spec [of "length l" l r "int (length r) - 1" 0 "[]"]
      canonicalDec_digits [OF l] canonicalDec_digits [OF r] True by auto
  let ?s = "concat (map intStr (rev ds))"
  have "rev ds \<noteq> []" using ds(2) canonicalDec_nonempty [OF l] by auto
  then have "canonicalDec (stripZeros ?s)"
    using digits_join_digits [OF ds(3)] join_digits_nonempty
    by (intro canonicalDec_stripZeros) auto
  moreover have "decVal (stripZeros ?s) = decVal l - decVal r"
    using decVal_join_digits [OF ds(3)] ds(4) True by (simp add: decVal_stripZeros)
  ultimately show ?thesis
    using True assms ds(1) by (simp add: subtractAtomic_def isAtomicAtMost_iff)
qed

interpretation atomic: atomic_arithmetic canonicalDec decVal isAtomicAtMost subtractAtomic
  by unfold_locales (auto simp: isAtomicAtMost_iff subtractAtomic_spec)

lemma decVal_maximumUint256: "decVal maximumUint256Decimal = 2 ^ 256 - 1"
  by (simp add: decVal_def maximumUint256Decimal_def digitVal_def)

lemma canonicalDec_maximumUint256: "canonicalDec maximumUint256Decimal"
  by (simp add: canonicalDec_def maximumUint256Decimal_def charclass)

lemma atomicUnitSchema_uint256:
  "atomicUnitSchema s \<longleftrightarrow> canonicalDec s \<and> decVal s < 2 ^ 256"
proof (cases "canonicalDec s")
  case True
  let ?m = maximumUint256Decimal
  have "isWithinUint256 s \<longleftrightarrow> \<not> decVal ?m < decVal s"
    using True canonicalDec_less_iff [OF canonicalDec_maximumUint256 True]
    by (auto simp: isWithinUint256_def not_less)
  moreover have "length s \<le> 78" if "isWithinUint256 s"
    using that True by (auto simp: isWithinUint256_def maximumUint256Decimal_def split: if_splits)
  ultimately show ?thesis
    using True by (auto simp: atomicUnitSchema_def decVal_maximumUint256 not_less)
qed (simp add: atomicUnitSchema_def)

section \<open>Properties\<close>

text \<open>
  C36. \<open>atomicUnitSchema\<close> accepts exactly the canonical decimal numerals of the unsigned 256-bit
  integers: its length and string comparison against the largest value decide the numeric bound.
  The positive schema excludes exactly zero.
\<close>

theorem atomicUnitSchema_iff_uint256:
  "(atomicUnitSchema s \<longleftrightarrow> canonicalDec s \<and> decVal s < 2 ^ 256) \<and>
   (positiveAtomicUnitSchema s \<longleftrightarrow> canonicalDec s \<and> 0 < decVal s \<and> decVal s < 2 ^ 256)"
  using canonicalDec_eq_0 [of s] by (auto simp: atomicUnitSchema_uint256 positiveAtomicUnitSchema_def)

text \<open>
  C35. The policy engine's arithmetic on decimal strings is arithmetic: on canonical numerals
  \<open>compareAtomic\<close> is the sign of the difference of the numbers, and the digit-by-digit loop of
  \<open>subtractAtomic\<close> (borrow, reversal and zero stripping included) gives the canonical numeral of
  the difference, or of zero when the difference would be negative.
\<close>

theorem atomic_arithmetic_correct:
  assumes "canonicalDec a" "canonicalDec b"
  shows "compareAtomic a b = sgn (int (decVal a) - int (decVal b)) \<and>
    subtractAtomic a b = decStr (decVal a - decVal b)"
  using compareAtomic_sgn [OF assms] subtractAtomic_spec [OF assms] decStr_decVal [of "subtractAtomic a b"]
  by simp

theorem atomic_arithmetic_correct_witness:
  "compareAtomic ''1000'' ''901'' = sgn (int (decVal ''1000'') - int (decVal ''901'')) \<and>
   subtractAtomic ''1000'' ''901'' = decStr (decVal ''1000'' - decVal ''901'') \<and>
   decVal ''1000'' - decVal ''901'' = 99"
proof -
  have h: "canonicalDec ''1000''" "canonicalDec ''901''" by (simp_all add: canonicalDec_def charclass)
  show ?thesis using atomic_arithmetic_correct [OF h] by (simp add: decVal_def digitVal_def)
qed

end
