(* ===== verification/Lifecycle.thy ===== *)
theory Lifecycle
  imports JsValue
begin

text \<open>
  The durable operation states and their transition table: \<open>packages/schemas/src/lifecycle.ts\<close>.
  The lemmas give the shape of every run of the table from \<open>DRAFT\<close>.
\<close>

section \<open>States and transitions\<close>

datatype lifecycle_state =
    DRAFT
  | VALIDATED
  | POLICY_PRECHECKED
  | CONSTRUCTED
  | DECODED
  | VERIFIED
  | SIMULATED
  | POLICY_FINALIZED
  | BUDGET_RESERVED
  | ENVELOPE_FINALIZED
  | AWAITING_APPROVAL
  | AUTHORIZED
  | SIGNING
  | SIGNED
  | BROADCAST
  | PENDING_CONFIRMATION
  | CONFIRMED
  | RECONCILED
  | REJECTED
  | DENIED
  | EXPIRED
  | SIMULATION_FAILED
  | SIGNING_FAILED
  | BROADCAST_FAILED
  | REVERTED
  | CANCELLED
  | DISPUTED
  | REVOKED
  | REVALIDATION_REQUIRED

text \<open>The canonical name of each state, in the order of \<open>LIFECYCLE_STATES\<close>.\<close>

definition LIFECYCLE_STATES :: "(string \<times> lifecycle_state) list" where
  "LIFECYCLE_STATES = [
     (''DRAFT'', DRAFT),
     (''VALIDATED'', VALIDATED),
     (''POLICY_PRECHECKED'', POLICY_PRECHECKED),
     (''CONSTRUCTED'', CONSTRUCTED),
     (''DECODED'', DECODED),
     (''VERIFIED'', VERIFIED),
     (''SIMULATED'', SIMULATED),
     (''POLICY_FINALIZED'', POLICY_FINALIZED),
     (''BUDGET_RESERVED'', BUDGET_RESERVED),
     (''ENVELOPE_FINALIZED'', ENVELOPE_FINALIZED),
     (''AWAITING_APPROVAL'', AWAITING_APPROVAL),
     (''AUTHORIZED'', AUTHORIZED),
     (''SIGNING'', SIGNING),
     (''SIGNED'', SIGNED),
     (''BROADCAST'', BROADCAST),
     (''PENDING_CONFIRMATION'', PENDING_CONFIRMATION),
     (''CONFIRMED'', CONFIRMED),
     (''RECONCILED'', RECONCILED),
     (''REJECTED'', REJECTED),
     (''DENIED'', DENIED),
     (''EXPIRED'', EXPIRED),
     (''SIMULATION_FAILED'', SIMULATION_FAILED),
     (''SIGNING_FAILED'', SIGNING_FAILED),
     (''BROADCAST_FAILED'', BROADCAST_FAILED),
     (''REVERTED'', REVERTED),
     (''CANCELLED'', CANCELLED),
     (''DISPUTED'', DISPUTED),
     (''REVOKED'', REVOKED),
     (''REVALIDATION_REQUIRED'', REVALIDATION_REQUIRED)]"

text \<open>\<open>lifecycleStateSchema.safeParse\<close>: the enumeration accepts exactly its own names.\<close>

fun lifecycleStateSchema :: "jsval \<Rightarrow> lifecycle_state option" where
  "lifecycleStateSchema (JString s) = map_of LIFECYCLE_STATES s"
| "lifecycleStateSchema v = None"

fun LIFECYCLE_TRANSITIONS :: "lifecycle_state \<Rightarrow> lifecycle_state list" where
  "LIFECYCLE_TRANSITIONS DRAFT = [VALIDATED, REJECTED, DENIED, EXPIRED, REVOKED]"
| "LIFECYCLE_TRANSITIONS VALIDATED = [POLICY_PRECHECKED, REJECTED, DENIED, EXPIRED, REVOKED]"
| "LIFECYCLE_TRANSITIONS POLICY_PRECHECKED = [CONSTRUCTED, REJECTED, DENIED, EXPIRED, REVOKED]"
| "LIFECYCLE_TRANSITIONS CONSTRUCTED = [DECODED, REJECTED, DENIED, EXPIRED, REVOKED]"
| "LIFECYCLE_TRANSITIONS DECODED = [VERIFIED, REJECTED, DENIED, EXPIRED, REVOKED]"
| "LIFECYCLE_TRANSITIONS VERIFIED = [SIMULATED, REJECTED, DENIED, EXPIRED, REVOKED]"
| "LIFECYCLE_TRANSITIONS SIMULATED = [POLICY_FINALIZED, SIMULATION_FAILED, REJECTED, DENIED, EXPIRED, REVOKED]"
| "LIFECYCLE_TRANSITIONS POLICY_FINALIZED = [BUDGET_RESERVED, REVALIDATION_REQUIRED, REJECTED, DENIED, EXPIRED, REVOKED]"
| "LIFECYCLE_TRANSITIONS BUDGET_RESERVED = [ENVELOPE_FINALIZED, REVALIDATION_REQUIRED, EXPIRED, REVOKED]"
| "LIFECYCLE_TRANSITIONS ENVELOPE_FINALIZED = [AWAITING_APPROVAL, AUTHORIZED, REVALIDATION_REQUIRED, EXPIRED, REVOKED]"
| "LIFECYCLE_TRANSITIONS AWAITING_APPROVAL = [AUTHORIZED, REVALIDATION_REQUIRED, EXPIRED, CANCELLED, REJECTED, REVOKED]"
| "LIFECYCLE_TRANSITIONS AUTHORIZED = [SIGNING, REVALIDATION_REQUIRED, EXPIRED, CANCELLED, REVOKED]"
| "LIFECYCLE_TRANSITIONS SIGNING = [SIGNED, SIGNING_FAILED, REVOKED, DISPUTED]"
| "LIFECYCLE_TRANSITIONS SIGNED = [BROADCAST, BROADCAST_FAILED, DISPUTED, REVOKED]"
| "LIFECYCLE_TRANSITIONS BROADCAST = [PENDING_CONFIRMATION, BROADCAST_FAILED, DISPUTED]"
| "LIFECYCLE_TRANSITIONS PENDING_CONFIRMATION = [CONFIRMED, REVERTED, DISPUTED, BROADCAST_FAILED]"
| "LIFECYCLE_TRANSITIONS CONFIRMED = [RECONCILED, DISPUTED]"
| "LIFECYCLE_TRANSITIONS RECONCILED = []"
| "LIFECYCLE_TRANSITIONS REJECTED = []"
| "LIFECYCLE_TRANSITIONS DENIED = []"
| "LIFECYCLE_TRANSITIONS EXPIRED = []"
| "LIFECYCLE_TRANSITIONS SIMULATION_FAILED = []"
| "LIFECYCLE_TRANSITIONS SIGNING_FAILED = []"
| "LIFECYCLE_TRANSITIONS BROADCAST_FAILED = [DISPUTED]"
| "LIFECYCLE_TRANSITIONS REVERTED = [RECONCILED, DISPUTED]"
| "LIFECYCLE_TRANSITIONS CANCELLED = []"
| "LIFECYCLE_TRANSITIONS DISPUTED = [RECONCILED]"
| "LIFECYCLE_TRANSITIONS REVOKED = []"
| "LIFECYCLE_TRANSITIONS REVALIDATION_REQUIRED = [VALIDATED, EXPIRED, DENIED, REVOKED]"

definition allowedTransition :: "lifecycle_state \<Rightarrow> lifecycle_state \<Rightarrow> bool" where
  "allowedTransition from to \<longleftrightarrow> to \<in> set (LIFECYCLE_TRANSITIONS from)"

text \<open>\<open>lifecycleTransitionSchema\<close>, on the two properties of the object.\<close>

definition lifecycleTransitionSchema :: "jsval \<Rightarrow> jsval \<Rightarrow> bool" where
  "lifecycleTransitionSchema from to =
     (case (lifecycleStateSchema from, lifecycleStateSchema to) of
        (Some f, Some t) \<Rightarrow> allowedTransition f t
      | _ \<Rightarrow> False)"

definition isValidLifecycleTransition :: "jsval \<Rightarrow> jsval \<Rightarrow> bool" where
  "isValidLifecycleTransition from to =
     (case lifecycleStateSchema from of
        None \<Rightarrow> False
      | Some f \<Rightarrow>
          (case lifecycleStateSchema to of None \<Rightarrow> False | Some t \<Rightarrow> allowedTransition f t))"

datatype lifecycle_error =
    LifecycleTypeError
  | LifecycleTransitionError lifecycle_state lifecycle_state

definition transitionLifecycleState :: "jsval \<Rightarrow> jsval \<Rightarrow> lifecycle_error + lifecycle_state" where
  "transitionLifecycleState from to =
     (case (lifecycleStateSchema from, lifecycleStateSchema to) of
        (Some f, Some t) \<Rightarrow>
          if allowedTransition f t then Inr t else Inl (LifecycleTransitionError f t)
      | _ \<Rightarrow> Inl LifecycleTypeError)"

section \<open>Runs\<close>

text \<open>
  An operation starts as a draft and changes its state only by \<open>transitionLifecycleState\<close>: a run
  is the list of states it has had, the latest last.
\<close>

definition stateName :: "lifecycle_state \<Rightarrow> jsval" where
  "stateName s = JString (the (map_of (map (\<lambda>(n, t). (t, n)) LIFECYCLE_STATES) s))"

inductive lifecycle_run :: "lifecycle_state list \<Rightarrow> bool" where
  start: "lifecycle_run [DRAFT]"
| step: "lifecycle_run (ss @ [s]) \<Longrightarrow>
     transitionLifecycleState (stateName s) (stateName t) = Inr t \<Longrightarrow> lifecycle_run (ss @ [s, t])"

section \<open>Lemmas\<close>

lemma lifecycleStateSchema_stateName [simp]: "lifecycleStateSchema (stateName s) = Some s"
  by (cases s) (simp_all add: stateName_def LIFECYCLE_STATES_def)

lemma transition_stateName [simp]:
  "transitionLifecycleState (stateName s) (stateName t) = Inr t \<longleftrightarrow> allowedTransition s t"
  by (simp add: transitionLifecycleState_def)

lemma lifecycle_run_nonempty: "lifecycle_run ss \<Longrightarrow> ss \<noteq> []"
  by (induction rule: lifecycle_run.induct) auto

text \<open>The last step of a run, from its last two states.\<close>

lemma lifecycle_run_last:
  assumes "lifecycle_run (ss @ [t])" "t \<noteq> DRAFT"
  obtains us s where "ss = us @ [s]" "lifecycle_run (us @ [s])" "allowedTransition s t"
  using assms(1)
proof (cases rule: lifecycle_run.cases)
  case start
  with assms(2) show ?thesis by (cases ss) auto
next
  case (step us s t')
  then have "ss = us @ [s]" "t = t'" by (metis butlast_snoc append.assoc append_Cons append_Nil last_snoc)+
  with step that show ?thesis by simp
qed

text \<open>A list of states is a run when each is an allowed successor of the one before.\<close>

lemma lifecycle_runI:
  "ss \<noteq> [] \<Longrightarrow> hd ss = DRAFT \<Longrightarrow> successively allowedTransition ss \<Longrightarrow> lifecycle_run ss"
proof (induction ss rule: rev_induct)
  case (snoc t ss)
  show ?case
  proof (cases ss rule: rev_cases)
    case Nil
    with snoc.prems show ?thesis by (simp add: lifecycle_run.start)
  next
    case ss: (snoc us s)
    have "successively allowedTransition ((us @ [s]) @ [t])" using snoc.prems ss by simp
    then have "successively allowedTransition ss" "allowedTransition s t"
      using ss by (auto simp: successively_append_iff simp del: append_assoc)
    moreover have "hd ss = DRAFT" using snoc.prems ss by (cases us) auto
    ultimately show ?thesis using snoc.IH ss lifecycle_run.step [of us s t] by simp
  qed
qed simp

text \<open>The states a state of the authorization path can be entered from.\<close>

lemma transition_sources:
  "allowedTransition s SIGNING \<Longrightarrow> s = AUTHORIZED"
  "allowedTransition s AUTHORIZED \<Longrightarrow> s = ENVELOPE_FINALIZED \<or> s = AWAITING_APPROVAL"
  "allowedTransition s AWAITING_APPROVAL \<Longrightarrow> s = ENVELOPE_FINALIZED"
  "allowedTransition s ENVELOPE_FINALIZED \<Longrightarrow> s = BUDGET_RESERVED"
  "allowedTransition s BUDGET_RESERVED \<Longrightarrow> s = POLICY_FINALIZED"
  "allowedTransition s POLICY_FINALIZED \<Longrightarrow> s = SIMULATED"
  "allowedTransition s SIMULATED \<Longrightarrow> s = VERIFIED"
  "allowedTransition s VERIFIED \<Longrightarrow> s = DECODED"
  "allowedTransition s DECODED \<Longrightarrow> s = CONSTRUCTED"
  "allowedTransition s CONSTRUCTED \<Longrightarrow> s = POLICY_PRECHECKED"
  "allowedTransition s POLICY_PRECHECKED \<Longrightarrow> s = VALIDATED"
  by (cases s; simp add: allowedTransition_def)+

text \<open>A state with one predecessor is reached through it.\<close>

lemma lifecycle_run_via:
  assumes "lifecycle_run (ss @ [t])" "t \<noteq> DRAFT" "\<And>s. allowedTransition s t \<Longrightarrow> s = p"
  shows "\<exists>us. ss = us @ [p] \<and> lifecycle_run (us @ [p])"
  using assms lifecycle_run_last by blast

lemma run_to_envelope:
  assumes "lifecycle_run (ss @ [ENVELOPE_FINALIZED])"
  shows "\<exists>us. ss = us @ [VALIDATED, POLICY_PRECHECKED, CONSTRUCTED, DECODED, VERIFIED, SIMULATED,
     POLICY_FINALIZED, BUDGET_RESERVED] \<and> lifecycle_run (us @ [VALIDATED])"
proof -
  note via = lifecycle_run_via [OF _ _ transition_sources(4)] lifecycle_run_via [OF _ _ transition_sources(5)]
    lifecycle_run_via [OF _ _ transition_sources(6)] lifecycle_run_via [OF _ _ transition_sources(7)]
    lifecycle_run_via [OF _ _ transition_sources(8)] lifecycle_run_via [OF _ _ transition_sources(9)]
    lifecycle_run_via [OF _ _ transition_sources(10)] lifecycle_run_via [OF _ _ transition_sources(11)]
  obtain a where a: "ss = a @ [BUDGET_RESERVED]" "lifecycle_run (a @ [BUDGET_RESERVED])"
    using via(1) [OF assms] by auto
  obtain b where b: "a = b @ [POLICY_FINALIZED]" "lifecycle_run (b @ [POLICY_FINALIZED])"
    using via(2) [OF a(2)] by auto
  obtain c where c: "b = c @ [SIMULATED]" "lifecycle_run (c @ [SIMULATED])"
    using via(3) [OF b(2)] by auto
  obtain d where d: "c = d @ [VERIFIED]" "lifecycle_run (d @ [VERIFIED])"
    using via(4) [OF c(2)] by auto
  obtain e where e: "d = e @ [DECODED]" "lifecycle_run (e @ [DECODED])"
    using via(5) [OF d(2)] by auto
  obtain f where f: "e = f @ [CONSTRUCTED]" "lifecycle_run (f @ [CONSTRUCTED])"
    using via(6) [OF e(2)] by auto
  obtain g where g: "f = g @ [POLICY_PRECHECKED]" "lifecycle_run (g @ [POLICY_PRECHECKED])"
    using via(7) [OF f(2)] by auto
  obtain h where h: "g = h @ [VALIDATED]" "lifecycle_run (h @ [VALIDATED])"
    using via(8) [OF g(2)] by auto
  show ?thesis using a(1) b(1) c(1) d(1) e(1) f(1) g(1) h by simp
qed

text \<open>Once signing has begun, no step leads back to a state from which signing can begin.\<close>

definition afterSigning :: "lifecycle_state set" where
  "afterSigning = {SIGNING, SIGNED, BROADCAST, PENDING_CONFIRMATION, CONFIRMED, RECONCILED,
     SIGNING_FAILED, BROADCAST_FAILED, REVERTED, DISPUTED, REVOKED}"

lemma afterSigning_closed: "allowedTransition s t \<Longrightarrow> s \<in> afterSigning \<Longrightarrow> t \<in> afterSigning - {SIGNING}"
  by (cases s) (auto simp: allowedTransition_def afterSigning_def)

lemma lifecycle_run_extend:
  "lifecycle_run ss \<Longrightarrow> SIGNING \<in> set ss \<Longrightarrow>
   \<exists>us vs. ss = us @ SIGNING # vs \<and> SIGNING \<notin> set us \<and> set vs \<subseteq> afterSigning - {SIGNING} \<and>
     last (SIGNING # vs) \<in> afterSigning"
proof (induction rule: lifecycle_run.induct)
  case start
  then show ?case by simp
next
  case (step ss s t)
  then have tr: "allowedTransition s t" by simp
  show ?case
  proof (cases "SIGNING \<in> set (ss @ [s])")
    case True
    with step.IH obtain us vs where v: "ss @ [s] = us @ SIGNING # vs" "SIGNING \<notin> set us"
      "set vs \<subseteq> afterSigning - {SIGNING}" "last (SIGNING # vs) \<in> afterSigning" by auto
    have "s = last (SIGNING # vs)" using v(1) by (metis last_appendR last_snoc list.distinct(1))
    with v(4) afterSigning_closed [OF tr] have "t \<in> afterSigning - {SIGNING}" by simp
    with v show ?thesis by (intro exI [of _ us] exI [of _ "vs @ [t]"]) auto
  next
    case False
    with step.prems have "t = SIGNING" by simp
    with False show ?thesis
      by (intro exI [of _ "ss @ [s]"] exI [of _ "[]"]) (simp add: afterSigning_def)
  qed
qed

section \<open>Properties\<close>

text \<open>
  C20. No shortcut to a signature: every run of the lifecycle table from a draft that enters
  \<open>SIGNING\<close> ends with the whole pipeline, in order and without a gap, from validation through
  policy finalization, budget reservation and envelope finalization to the authorization (with
  or without the stop at \<open>AWAITING_APPROVAL\<close>); a revalidation in between starts it over.
\<close>

theorem signing_requires_full_pipeline:
  assumes "lifecycle_run (ss @ [SIGNING])"
  shows "\<exists>us mid. (mid = [] \<or> mid = [AWAITING_APPROVAL]) \<and>
    ss = us @ [VALIDATED, POLICY_PRECHECKED, CONSTRUCTED, DECODED, VERIFIED, SIMULATED, POLICY_FINALIZED,
      BUDGET_RESERVED, ENVELOPE_FINALIZED] @ mid @ [AUTHORIZED]"
proof -
  obtain a where a: "ss = a @ [AUTHORIZED]" "lifecycle_run (a @ [AUTHORIZED])"
    using lifecycle_run_via [OF assms _ transition_sources(1)] by auto
  obtain b s where b: "a = b @ [s]" "lifecycle_run (b @ [s])" "allowedTransition s AUTHORIZED"
    using a(2) by (rule lifecycle_run_last) auto
  from transition_sources(2) [OF b(3)] show ?thesis
  proof
    assume "s = ENVELOPE_FINALIZED"
    with b a run_to_envelope [of b] show ?thesis by force
  next
    assume s: "s = AWAITING_APPROVAL"
    then obtain c where "b = c @ [ENVELOPE_FINALIZED]" "lifecycle_run (c @ [ENVELOPE_FINALIZED])"
      using lifecycle_run_via [OF b(2) _ ] transition_sources(3) by auto
    with s b a run_to_envelope [of c] show ?thesis by force
  qed
qed

theorem signing_requires_full_pipeline_witness:
  "lifecycle_run ([DRAFT, VALIDATED, POLICY_PRECHECKED, CONSTRUCTED, DECODED, VERIFIED, SIMULATED,
     POLICY_FINALIZED, BUDGET_RESERVED, ENVELOPE_FINALIZED, AUTHORIZED] @ [SIGNING]) \<and>
   (\<exists>us mid. (mid = [] \<or> mid = [AWAITING_APPROVAL]) \<and>
    [DRAFT, VALIDATED, POLICY_PRECHECKED, CONSTRUCTED, DECODED, VERIFIED, SIMULATED,
     POLICY_FINALIZED, BUDGET_RESERVED, ENVELOPE_FINALIZED, AUTHORIZED]
     = us @ [VALIDATED, POLICY_PRECHECKED, CONSTRUCTED, DECODED, VERIFIED, SIMULATED, POLICY_FINALIZED,
      BUDGET_RESERVED, ENVELOPE_FINALIZED] @ mid @ [AUTHORIZED])"
proof -
  have "lifecycle_run ([DRAFT, VALIDATED, POLICY_PRECHECKED, CONSTRUCTED, DECODED, VERIFIED, SIMULATED,
     POLICY_FINALIZED, BUDGET_RESERVED, ENVELOPE_FINALIZED, AUTHORIZED] @ [SIGNING])"
    by (rule lifecycle_runI) (simp_all add: allowedTransition_def)
  then show ?thesis using signing_requires_full_pipeline by blast
qed

text \<open>
  C38. Signing is entered at most once: in every run, everything after the first \<open>SIGNING\<close> is a
  signing, broadcast or recovery outcome, so no later state allows a second signature, a new
  approval or a new budget reservation.
\<close>

theorem signing_at_most_once:
  assumes "lifecycle_run (us @ SIGNING # vs)"
  shows "set vs \<subseteq> {SIGNED, BROADCAST, PENDING_CONFIRMATION, CONFIRMED, RECONCILED, SIGNING_FAILED,
     BROADCAST_FAILED, REVERTED, DISPUTED, REVOKED} \<and> SIGNING \<notin> set us"
proof -
  obtain us' vs' where v: "us @ SIGNING # vs = us' @ SIGNING # vs'" "SIGNING \<notin> set us'"
    "set vs' \<subseteq> afterSigning - {SIGNING}"
    using lifecycle_run_extend [OF assms] by auto
  then have "SIGNING \<notin> set vs'" by auto
  with v(1)[symmetric] v(2) have "us = us' \<and> vs = vs'" by (simp add: append_Cons_eq_iff)
  with v show ?thesis by (auto simp: afterSigning_def)
qed

theorem signing_at_most_once_witness:
  "lifecycle_run ([DRAFT, VALIDATED, POLICY_PRECHECKED, CONSTRUCTED, DECODED, VERIFIED, SIMULATED,
     POLICY_FINALIZED, BUDGET_RESERVED, ENVELOPE_FINALIZED, AUTHORIZED] @ SIGNING # [SIGNED, BROADCAST]) \<and>
   set [SIGNED, BROADCAST] \<subseteq> {SIGNED, BROADCAST, PENDING_CONFIRMATION, CONFIRMED, RECONCILED,
     SIGNING_FAILED, BROADCAST_FAILED, REVERTED, DISPUTED, REVOKED}"
proof -
  have "lifecycle_run ([DRAFT, VALIDATED, POLICY_PRECHECKED, CONSTRUCTED, DECODED, VERIFIED, SIMULATED,
     POLICY_FINALIZED, BUDGET_RESERVED, ENVELOPE_FINALIZED, AUTHORIZED] @ SIGNING # [SIGNED, BROADCAST])"
    by (rule lifecycle_runI) (simp_all add: allowedTransition_def)
  with signing_at_most_once [OF this] show ?thesis by blast
qed

end
