(* ===== verification/Schemas.thy ===== *)
theory Schemas
  imports JsValue AtomicUnits Lifecycle
begin

text \<open>
  The contracts of \<open>packages/schemas/src\<close>: identifiers and hashes (\<open>common.ts\<close>), enforcement
  grades (\<open>enforcement-grade.ts\<close>), intents (\<open>intent.ts\<close>), policies (\<open>policy.ts\<close>), policy
  decisions (\<open>policy-decision.ts\<close>) and adapter manifests (\<open>adapter.ts\<close>).

  A schema is a record type for the shape of its objects and a predicate for the constraints the
  file writes on the fields. What arrives from outside is \<open>'a raw\<close>: a value of the shape, or one
  that is not (a missing or extra property, a value of another type). The schema library, the
  hash functions and the signature check are not part of the program: what the code calls of
  them is a field of the record \<open>externals\<close>, which every definition that needs one takes as its
  first argument.
\<close>

section \<open>Code outside the repository\<close>

record externals =
  isoDatetime :: "string \<Rightarrow> bool" \<comment> \<open>\<open>z.iso.datetime({ offset: false, precision: 0 })\<close>\<close>
  keccak_256 :: "string \<Rightarrow> string" \<comment> \<open>digest of a byte string\<close>
  bytesToHex :: "string \<Rightarrow> string"
  utf8ToBytes :: "string \<Rightarrow> string"
  concatBytes :: "string list \<Rightarrow> string"
  sha256Hex :: "string \<Rightarrow> string" \<comment> \<open>\<open>createHash("sha256") ... digest("hex")\<close>\<close>
  ed25519Verify :: "string \<Rightarrow> string \<Rightarrow> string \<Rightarrow> bool option"
    \<comment> \<open>public key, message, signature; \<open>None\<close> when the key cannot be read and the call throws\<close>
  ed25519Sign :: "string \<Rightarrow> string \<Rightarrow> string" \<comment> \<open>private key, message\<close>
  localeLe :: "string \<Rightarrow> string \<Rightarrow> bool" \<comment> \<open>\<open>a.localeCompare(b) <= 0\<close>\<close>
  encodeFunctionData :: "string \<Rightarrow> nat \<Rightarrow> string" \<comment> \<open>calldata of \<open>transfer(address,uint256)\<close>\<close>

text \<open>Documented behaviour of the hash functions: 32 bytes, two lowercase digits a byte.\<close>

definition hexDigests :: "externals \<Rightarrow> bool" where
  "hexDigests X \<longleftrightarrow>
     (\<forall>b. length (keccak_256 X b) = 32) \<and>
     (\<forall>b. length (bytesToHex X b) = 2 * length b \<and> list_all isHex (bytesToHex X b)) \<and>
     (\<forall>b. length (sha256Hex X b) = 64 \<and> list_all isHex (sha256Hex X b))"

text \<open>Documented behaviour of the byte utilities.\<close>

definition byteUtils :: "externals \<Rightarrow> bool" where
  "byteUtils X \<longleftrightarrow> (\<forall>s. utf8ToBytes X s = utf8 s) \<and> (\<forall>bs. concatBytes X bs = concat bs)"

section \<open>Raw input\<close>

datatype 'a raw = Shaped 'a | Malformed

fun safeParse :: "('a \<Rightarrow> bool) \<Rightarrow> 'a raw \<Rightarrow> 'a option" where
  "safeParse schema (Shaped v) = (if schema v then Some v else None)"
| "safeParse schema Malformed = None"

section \<open>\<open>common.ts\<close>\<close>

definition identifierChar :: "char \<Rightarrow> bool" where
  [charclass]: "identifierChar c \<longleftrightarrow> isAlnum c \<or> c \<in> {CHR ''.'', CHR ''_'', CHR '':'', CHR ''-''}"

definition canonicalIdentifierSchema :: "string \<Rightarrow> bool" where
  "canonicalIdentifierSchema s \<longleftrightarrow>
     1 \<le> length s \<and> length s \<le> 128 \<and> isAlnum (hd s) \<and> list_all identifierChar (tl s)"

fun splitDots :: "string \<Rightarrow> string list" where
  "splitDots [] = [[]]"
| "splitDots (c # s) =
     (case splitDots s of
        [] \<Rightarrow> [[c]]
      | p # ps \<Rightarrow> if c = CHR ''.'' then [] # p # ps else (c # p) # ps)"

definition semverSchema :: "string \<Rightarrow> bool" where
  "semverSchema s \<longleftrightarrow> length (splitDots s) = 3 \<and> list_all canonicalDec (splitDots s)"

definition evmHashSchema :: "string \<Rightarrow> bool" where
  "evmHashSchema s = prefixed ''0x'' isHex 64 s"

definition canonicalHashSchema :: "string \<Rightarrow> bool" where
  "canonicalHashSchema s \<longleftrightarrow> prefixed ''0x'' isHex 64 s \<or> prefixed ''sha256:'' isHex 64 s"

definition utcSecondSchema :: "externals \<Rightarrow> string \<Rightarrow> bool" where
  "utcSecondSchema X s = isoDatetime X s"

definition versionSchema :: "string \<Rightarrow> bool" where
  "versionSchema s \<longleftrightarrow> s = ''1.0''"

text \<open>\<open>z.number().int().positive().safe()\<close>\<close>

definition positiveSafeInt :: "int \<Rightarrow> bool" where
  "positiveSafeInt n \<longleftrightarrow> 0 < n \<and> n \<le> 9007199254740991"

text \<open>The integer a finite number without a fraction is.\<close>

fun numToInt :: "jsnum \<Rightarrow> int option" where
  "numToInt JsZero = Some 0"
| "numToInt (JsFinite neg ds n) =
     (if int (length ds) \<le> n
      then Some ((if neg then -1 else 1) * int (decVal ds * 10 ^ nat (n - int (length ds)))) else None)"
| "numToInt x = None"

fun positiveSafeInteger :: "jsval \<Rightarrow> bool" where
  "positiveSafeInteger (JNumber x) = (case numToInt x of None \<Rightarrow> False | Some i \<Rightarrow> positiveSafeInt i)"
| "positiveSafeInteger v = False"

text \<open>The checks on one property: a string with a condition, an enumeration.\<close>

fun stringField :: "(string \<Rightarrow> bool) \<Rightarrow> jsval \<Rightarrow> bool" where
  "stringField check (JString s) = check s"
| "stringField check v = False"

definition enumField :: "string list \<Rightarrow> jsval \<Rightarrow> bool" where
  "enumField options = stringField (\<lambda>s. s \<in> set options)"

section \<open>\<open>Date.parse\<close>\<close>

text \<open>
  Milliseconds since the epoch of a \<open>YYYY-MM-DDTHH:mm:ssZ\<close> string, \<open>None\<close> for \<open>NaN\<close>. The
  code calls it on strings that the schemas have accepted as datetimes of this form.
\<close>

definition daysFromCivil :: "int \<Rightarrow> int \<Rightarrow> int \<Rightarrow> int" where
  "daysFromCivil y m d =
     (let y' = (if m \<le> 2 then y - 1 else y);
          yoe = y' mod 400;
          doy = (153 * (if m > 2 then m - 3 else m + 9) + 2) div 5 + d - 1;
          doe = yoe * 365 + yoe div 4 - yoe div 100 + doy
      in (y' div 400) * 146097 + doe - 719468)"

definition dateFields :: "string \<Rightarrow> int list option" where
  "dateFields s =
     (let num = (\<lambda>i n. take n (drop i s)) in
      if length s = 20 \<and> s ! 4 = CHR ''-'' \<and> s ! 7 = CHR ''-'' \<and> s ! 10 = CHR ''T''
         \<and> s ! 13 = CHR '':'' \<and> s ! 16 = CHR '':'' \<and> s ! 19 = CHR ''Z''
         \<and> list_all (list_all isDigit) [num 0 4, num 5 2, num 8 2, num 11 2, num 14 2, num 17 2]
      then Some (map (\<lambda>t. int (decVal t)) [num 0 4, num 5 2, num 8 2, num 11 2, num 14 2, num 17 2])
      else None)"

definition Date_parse :: "string \<Rightarrow> int option" where
  "Date_parse s =
     (case dateFields s of
        Some [y, mo, d, h, mi, sec] \<Rightarrow>
          if 1 \<le> mo \<and> mo \<le> 12 \<and> 1 \<le> d \<and> d \<le> 31 \<and> h \<le> 23 \<and> mi \<le> 59 \<and> sec \<le> 59
          then Some ((((daysFromCivil y mo d * 24 + h) * 60 + mi) * 60 + sec) * 1000)
          else None
      | _ \<Rightarrow> None)"

text \<open>\<open>Date.parse(a) >= Date.parse(b)\<close> and \<open><\<close>: false when either side is \<open>NaN\<close>.\<close>

definition dateGe :: "string \<Rightarrow> string \<Rightarrow> bool" where
  "dateGe a b = (case (Date_parse a, Date_parse b) of (Some x, Some y) \<Rightarrow> x \<ge> y | _ \<Rightarrow> False)"

definition dateLt :: "string \<Rightarrow> string \<Rightarrow> bool" where
  "dateLt a b = (case (Date_parse a, Date_parse b) of (Some x, Some y) \<Rightarrow> x < y | _ \<Rightarrow> False)"

section \<open>\<open>enforcement-grade.ts\<close>\<close>

datatype enforcement_grade = ONCHAIN | SIGNER | CONTROL_PLANE | ADVISORY | UNSUPPORTED

fun enforcementStrength :: "enforcement_grade \<Rightarrow> nat" where
  "enforcementStrength ONCHAIN = 0"
| "enforcementStrength SIGNER = 1"
| "enforcementStrength CONTROL_PLANE = 2"
| "enforcementStrength ADVISORY = 3"
| "enforcementStrength UNSUPPORTED = 4"

definition meetsMinimumEnforcementGrade :: "enforcement_grade \<Rightarrow> enforcement_grade \<Rightarrow> bool" where
  "meetsMinimumEnforcementGrade actual required \<longleftrightarrow>
     enforcementStrength actual \<le> enforcementStrength required"

fun gradeName :: "enforcement_grade \<Rightarrow> string" where
  "gradeName ONCHAIN = ''ONCHAIN''"
| "gradeName SIGNER = ''SIGNER''"
| "gradeName CONTROL_PLANE = ''CONTROL_PLANE''"
| "gradeName ADVISORY = ''ADVISORY''"
| "gradeName UNSUPPORTED = ''UNSUPPORTED''"

section \<open>\<open>intent.ts\<close>\<close>

definition chainIdSchema :: "string \<Rightarrow> bool" where
  "chainIdSchema s =
     (let ns = takeWhile (\<lambda>c. c \<noteq> CHR '':'') s; ref = drop (length ns + 1) s
      in length ns < length s
         \<and> 3 \<le> length ns \<and> length ns \<le> 8 \<and> list_all (\<lambda>c. isLower c \<or> isDigit c) ns
         \<and> 1 \<le> length ref \<and> length ref \<le> 32
         \<and> list_all (\<lambda>c. isAlnum c \<or> c = CHR ''-'' \<or> c = CHR ''_'') ref)"

definition evmAddressSchema :: "string \<Rightarrow> bool" where
  "evmAddressSchema s = prefixed ''0x'' isHex 40 s"

text \<open>\<open>/^(?:0|[1-9][0-9]*)(?:\.[0-9]+)?$/\<close>\<close>

definition displayHintSchema :: "string \<Rightarrow> bool" where
  "displayHintSchema s =
     (let whole = takeWhile (\<lambda>c. c \<noteq> CHR ''.'') s; frac = drop (length whole + 1) s
      in length s \<le> 160 \<and> canonicalDec whole
         \<and> (length whole = length s \<or> (frac \<noteq> [] \<and> list_all isDigit frac)))"

record intent_common =
  in_schemaVersion :: string
  in_intentId :: string
  in_idempotencyKey :: string
  in_agentId :: string
  in_walletId :: string
  in_chainId :: string
  in_objective :: string
  in_notBefore :: string
  in_expiresAt :: string
  in_externalReference :: "string option"

record transfer_fields =
  tr_assetType :: string
  tr_assetAddress :: string
  tr_symbolHint :: "string option"
  tr_decimalsHint :: "int option"
  tr_amountAtomic :: string
  tr_displayHint :: "string option"
  tr_recipient :: string
  tr_feeAsset :: string
  tr_feeAtomic :: string

datatype canonical_intent =
    ReadStateIntent intent_common
  | TransferIntent intent_common transfer_fields

fun intentCommon :: "canonical_intent \<Rightarrow> intent_common" where
  "intentCommon (ReadStateIntent c) = c"
| "intentCommon (TransferIntent c t) = c"

fun intentAction :: "canonical_intent \<Rightarrow> string" where
  "intentAction (ReadStateIntent c) = ''wallet.read_state''"
| "intentAction (TransferIntent c t) = ''asset.transfer''"

definition optionalSchema :: "('a \<Rightarrow> bool) \<Rightarrow> 'a option \<Rightarrow> bool" where
  "optionalSchema schema x = (case x of None \<Rightarrow> True | Some v \<Rightarrow> schema v)"

definition commonIntentShape :: "externals \<Rightarrow> intent_common \<Rightarrow> bool" where
  "commonIntentShape X c \<longleftrightarrow>
     in_schemaVersion c = ''1.0''
     \<and> canonicalIdentifierSchema (in_intentId c)
     \<and> canonicalIdentifierSchema (in_idempotencyKey c)
     \<and> canonicalIdentifierSchema (in_agentId c)
     \<and> canonicalIdentifierSchema (in_walletId c)
     \<and> chainIdSchema (in_chainId c)
     \<and> 1 \<le> length (in_objective c) \<and> length (in_objective c) \<le> 512
     \<and> utcSecondSchema X (in_notBefore c)
     \<and> utcSecondSchema X (in_expiresAt c)
     \<and> optionalSchema (\<lambda>r. 1 \<le> length r \<and> length r \<le> 256) (in_externalReference c)"

definition transferFieldsSchema :: "transfer_fields \<Rightarrow> bool" where
  "transferFieldsSchema t \<longleftrightarrow>
     tr_assetType t = ''erc20''
     \<and> evmAddressSchema (tr_assetAddress t)
     \<and> optionalSchema (\<lambda>h. 1 \<le> length h \<and> length h \<le> 32) (tr_symbolHint t)
     \<and> optionalSchema (\<lambda>n. 0 \<le> n \<and> n \<le> 255) (tr_decimalsHint t)
     \<and> positiveAtomicUnitSchema (tr_amountAtomic t)
     \<and> optionalSchema displayHintSchema (tr_displayHint t)
     \<and> evmAddressSchema (tr_recipient t)
     \<and> tr_feeAsset t = ''native''
     \<and> atomicUnitSchema (tr_feeAtomic t)"

text \<open>\<open>canonicalIntentBaseSchema\<close>: the union of the two shapes and its first refinement.\<close>

fun canonicalIntentBaseSchema :: "externals \<Rightarrow> canonical_intent \<Rightarrow> bool" where
  "canonicalIntentBaseSchema X (ReadStateIntent c) \<longleftrightarrow>
     commonIntentShape X c \<and> \<not> dateGe (in_notBefore c) (in_expiresAt c)"
| "canonicalIntentBaseSchema X (TransferIntent c t) \<longleftrightarrow>
     commonIntentShape X c \<and> transferFieldsSchema t \<and> \<not> dateGe (in_notBefore c) (in_expiresAt c)"

text \<open>
  \<open>createCanonicalIntentSchema(config)\<close>: \<open>None\<close> is the exception of a configuration that is
  not a positive safe integer; otherwise the schema with the lifetime ceiling.
\<close>

definition exceedsLifetime :: "int \<Rightarrow> intent_common \<Rightarrow> bool" where
  "exceedsLifetime maximumLifetimeSeconds c =
     (case (Date_parse (in_expiresAt c), Date_parse (in_notBefore c)) of
        (Some e, Some n) \<Rightarrow> e - n > maximumLifetimeSeconds * 1000
      | _ \<Rightarrow> False)"

definition createCanonicalIntentSchema ::
  "externals \<Rightarrow> int \<Rightarrow> (canonical_intent \<Rightarrow> bool) option" where
  "createCanonicalIntentSchema X maximumLifetimeSeconds =
     (if positiveSafeInt maximumLifetimeSeconds
      then Some (\<lambda>intent. canonicalIntentBaseSchema X intent
                  \<and> \<not> exceedsLifetime maximumLifetimeSeconds (intentCommon intent))
      else None)"

definition DEFAULT_MAXIMUM_INTENT_LIFETIME_SECONDS :: int where
  "DEFAULT_MAXIMUM_INTENT_LIFETIME_SECONDS = 900"

definition canonicalIntentSchema :: "externals \<Rightarrow> canonical_intent \<Rightarrow> bool" where
  "canonicalIntentSchema X intent =
     (case createCanonicalIntentSchema X DEFAULT_MAXIMUM_INTENT_LIFETIME_SECONDS of
        Some schema \<Rightarrow> schema intent
      | None \<Rightarrow> False)"

section \<open>\<open>policy.ts\<close>\<close>

datatype policy_mode = ReadOnly | ReviewRequired | AutonomousWithinPolicy

datatype policy_status = PolicyDraft | PolicyActive | PolicySuperseded | PolicyRevoked

record asset_allowance =
  aa_chainId :: string
  aa_type :: string
  aa_address :: string

record policy =
  po_schemaVersion :: string
  po_policyId :: string
  po_version :: int
  po_status :: policy_status
  po_agentId :: string
  po_walletId :: string
  po_mode :: policy_mode
  po_notBefore :: string
  po_expiresAt :: string
  po_chainsAllow :: "string list"
  po_assetsAllow :: "asset_allowance list"
  po_recipientsAllow :: "string list"
  po_actionsAllow :: "string list"
  po_totalAssetAddress :: string
  po_totalAtomic :: string
  po_perTransactionAtomic :: string
  po_maximumFeeAtomic :: string
  po_personalSign :: string
  po_typedData :: string
  po_rawDigest :: string
  po_requireSimulation :: bool
  po_denyUnknownCalldata :: bool
  po_denyDelegatecall :: bool
  po_denyUnlimitedApprovals :: bool
  po_minimumBudgetGrade :: enforcement_grade
  po_minimumRecipientGrade :: enforcement_grade

definition validitySchema :: "externals \<Rightarrow> string \<Rightarrow> string \<Rightarrow> bool" where
  "validitySchema X notBefore expiresAt \<longleftrightarrow>
     utcSecondSchema X notBefore \<and> utcSecondSchema X expiresAt \<and> \<not> dateGe notBefore expiresAt"

definition assetAllowanceSchema :: "asset_allowance \<Rightarrow> bool" where
  "assetAllowanceSchema a \<longleftrightarrow>
     chainIdSchema (aa_chainId a) \<and> aa_type a = ''erc20'' \<and> evmAddressSchema (aa_address a)"

definition policySchema :: "externals \<Rightarrow> policy \<Rightarrow> bool" where
  "policySchema X p \<longleftrightarrow>
     versionSchema (po_schemaVersion p)
     \<and> canonicalIdentifierSchema (po_policyId p)
     \<and> positiveSafeInt (po_version p)
     \<and> canonicalIdentifierSchema (po_agentId p)
     \<and> canonicalIdentifierSchema (po_walletId p)
     \<and> validitySchema X (po_notBefore p) (po_expiresAt p)
     \<and> 1 \<le> length (po_chainsAllow p) \<and> list_all chainIdSchema (po_chainsAllow p)
     \<and> 1 \<le> length (po_assetsAllow p) \<and> list_all assetAllowanceSchema (po_assetsAllow p)
     \<and> 1 \<le> length (po_recipientsAllow p) \<and> list_all evmAddressSchema (po_recipientsAllow p)
     \<and> 1 \<le> length (po_actionsAllow p)
     \<and> list_all (\<lambda>a. a \<in> {''wallet.read_state'', ''asset.transfer''}) (po_actionsAllow p)
     \<and> evmAddressSchema (po_totalAssetAddress p)
     \<and> positiveAtomicUnitSchema (po_totalAtomic p)
     \<and> positiveAtomicUnitSchema (po_perTransactionAtomic p)
     \<and> atomicUnitSchema (po_maximumFeeAtomic p)
     \<and> po_personalSign p = ''deny'' \<and> po_typedData p = ''deny'' \<and> po_rawDigest p = ''deny''
     \<and> po_requireSimulation p \<and> po_denyUnknownCalldata p
     \<and> po_denyDelegatecall p \<and> po_denyUnlimitedApprovals p"

section \<open>\<open>policy-decision.ts\<close>\<close>

datatype rule_result = Pass | Fail | Indeterminate

record policy_decision_rule =
  ru_rule :: string
  ru_result :: rule_result
  ru_limitAtomic :: "string option"
  ru_requestedAtomic :: "string option"

definition policyDecisionRuleSchema :: "policy_decision_rule \<Rightarrow> bool" where
  "policyDecisionRuleSchema r \<longleftrightarrow>
     1 \<le> length (ru_rule r) \<and> length (ru_rule r) \<le> 128
     \<and> isLower (hd (ru_rule r))
     \<and> list_all (\<lambda>c. isLower c \<or> isDigit c \<or> c \<in> {CHR ''_'', CHR ''.'', CHR ''-''}) (tl (ru_rule r))
     \<and> optionalSchema atomicUnitSchema (ru_limitAtomic r)
     \<and> optionalSchema atomicUnitSchema (ru_requestedAtomic r)"

record required_enforcement =
  re_budget :: "enforcement_grade option"
  re_recipient :: "enforcement_grade option"
  re_chain :: "enforcement_grade option"
  re_function :: "enforcement_grade option"
  re_expiry :: "enforcement_grade option"

definition requiredEnforcementSchema :: "required_enforcement \<Rightarrow> bool" where
  "requiredEnforcementSchema e \<longleftrightarrow>
     list_ex (\<lambda>g. g \<noteq> None) [re_budget e, re_recipient e, re_chain e, re_function e, re_expiry e]"

datatype decision = ALLOW_READ | ALLOW_AUTONOMOUS | REQUIRE_APPROVAL | DENY | INDETERMINATE

record policy_decision =
  pd_schemaVersion :: string
  pd_decision :: decision
  pd_policyId :: string
  pd_policyVersion :: int
  pd_evaluatedAt :: string
  pd_rules :: "policy_decision_rule list"
  pd_requiredEnforcement :: required_enforcement
  pd_decisionHash :: string

definition policyDecisionSchema :: "externals \<Rightarrow> policy_decision \<Rightarrow> bool" where
  "policyDecisionSchema X d \<longleftrightarrow>
     versionSchema (pd_schemaVersion d)
     \<and> canonicalIdentifierSchema (pd_policyId d)
     \<and> positiveSafeInt (pd_policyVersion d)
     \<and> utcSecondSchema X (pd_evaluatedAt d)
     \<and> 1 \<le> length (pd_rules d) \<and> list_all policyDecisionRuleSchema (pd_rules d)
     \<and> requiredEnforcementSchema (pd_requiredEnforcement d)
     \<and> evmHashSchema (pd_decisionHash d)"

section \<open>\<open>adapter.ts\<close>\<close>

datatype custody_model = DisposableLocalTestKey | ExternalProvider | SmartAccount | SignerPolicy

record adapter_manifest =
  am_id :: string
  am_version :: string
  am_chains :: "string list"
  am_custodyModel :: custody_model
  am_ownerKeyExposedToAgent :: bool
  am_readState :: bool
  am_erc20Transfer :: bool
  am_arbitraryCall :: bool
  am_typedData :: bool
  am_totalBudget :: enforcement_grade
  am_perTransactionBudget :: enforcement_grade
  am_chainAllowlist :: enforcement_grade
  am_recipientAllowlist :: enforcement_grade
  am_functionAllowlist :: enforcement_grade
  am_expiry :: enforcement_grade
  am_asynchronousApprovals :: bool
  am_simulationSupported :: bool

definition adapterCapabilityManifestSchema :: "adapter_manifest \<Rightarrow> bool" where
  "adapterCapabilityManifestSchema m \<longleftrightarrow>
     canonicalIdentifierSchema (am_id m) \<and> semverSchema (am_version m)
     \<and> 1 \<le> length (am_chains m) \<and> list_all chainIdSchema (am_chains m)
     \<and> \<not> am_ownerKeyExposedToAgent m"

section \<open>A concrete instance of the code outside the repository\<close>

text \<open>
  Used by the closed instances of the properties: datetimes are the strings \<open>Date_parse\<close> reads,
  digests are constant, the signature of a message under a key is the key itself, and the
  calldata of a transfer is its ABI encoding.
\<close>

fun hexStr :: "nat \<Rightarrow> nat \<Rightarrow> string" where
  "hexStr 0 n = []"
| "hexStr (Suc k) n = hexStr k (n div 16) @ [hexChar (n mod 16)]"

definition abiTransfer :: "string \<Rightarrow> nat \<Rightarrow> string" where
  "abiTransfer recipient amount =
     ''0xa9059cbb'' @ replicate 24 (CHR ''0'') @ drop 2 recipient @ hexStr 64 amount"

definition sampleDatetime :: "string \<Rightarrow> bool" where
  "sampleDatetime s \<longleftrightarrow> length s = 20 \<and> last s = CHR ''Z''"

definition sampleKeccak :: "string \<Rightarrow> string" where
  "sampleKeccak b = replicate 32 (CHR 0x00)"

definition sampleHex :: "string \<Rightarrow> string" where
  "sampleHex b = replicate (2 * length b) (CHR ''0'')"

definition sampleDigest :: "string \<Rightarrow> string" where
  "sampleDigest b = replicate 64 (CHR ''0'')"

definition sampleVerify :: "string \<Rightarrow> string \<Rightarrow> string \<Rightarrow> bool option" where
  "sampleVerify key message signature = Some (signature = key)"

definition sampleSign :: "string \<Rightarrow> string \<Rightarrow> string" where
  "sampleSign key message = key"

definition sampleExternals :: externals where
  "sampleExternals =
     \<lparr>isoDatetime = sampleDatetime, keccak_256 = sampleKeccak, bytesToHex = sampleHex, utf8ToBytes = utf8,
      concatBytes = concat, sha256Hex = sampleDigest, ed25519Verify = sampleVerify, ed25519Sign = sampleSign,
      localeLe = (\<le>), encodeFunctionData = abiTransfer\<rparr>"

lemmas sampleExternals_defs = sampleExternals_def sampleDatetime_def sampleKeccak_def sampleHex_def sampleDigest_def
  sampleVerify_def sampleSign_def

section \<open>Lemmas\<close>

instantiation enforcement_grade :: linorder
begin

definition less_eq_enforcement_grade :: "enforcement_grade \<Rightarrow> enforcement_grade \<Rightarrow> bool" where
  "less_eq_enforcement_grade a b \<longleftrightarrow> enforcementStrength b \<le> enforcementStrength a"

definition less_enforcement_grade :: "enforcement_grade \<Rightarrow> enforcement_grade \<Rightarrow> bool" where
  "less_enforcement_grade a b \<longleftrightarrow> enforcementStrength b < enforcementStrength a"

instance
proof
  fix x y z :: enforcement_grade
  show "(x < y) = (x \<le> y \<and> \<not> y \<le> x)"
    by (auto simp: less_eq_enforcement_grade_def less_enforcement_grade_def)
  show "x \<le> x" by (simp add: less_eq_enforcement_grade_def)
  show "x \<le> y \<Longrightarrow> y \<le> z \<Longrightarrow> x \<le> z" by (simp add: less_eq_enforcement_grade_def)
  show "x \<le> y \<Longrightarrow> y \<le> x \<Longrightarrow> x = y"
    by (cases x; cases y) (simp_all add: less_eq_enforcement_grade_def)
  show "x \<le> y \<or> y \<le> x" by (auto simp: less_eq_enforcement_grade_def)
qed

end

text \<open>Weaker grades are smaller: an actual grade suffices when it is at least the required one.\<close>

lemma meetsMinimum_iff: "meetsMinimumEnforcementGrade actual required \<longleftrightarrow> required \<le> actual"
  by (simp add: meetsMinimumEnforcementGrade_def less_eq_enforcement_grade_def)

lemma optionalSchema_simps [simp]:
  "optionalSchema P None" "optionalSchema P (Some v) \<longleftrightarrow> P v"
  by (simp_all add: optionalSchema_def)

lemma safeParse_Some [simp]: "safeParse schema r = Some v \<longleftrightarrow> r = Shaped v \<and> schema v"
  by (cases r) auto

lemma canonicalIntentSchema_iff:
  "canonicalIntentSchema X i \<longleftrightarrow>
     canonicalIntentBaseSchema X i \<and> \<not> exceedsLifetime 900 (intentCommon i)"
  by (simp add: canonicalIntentSchema_def createCanonicalIntentSchema_def positiveSafeInt_def
      DEFAULT_MAXIMUM_INTENT_LIFETIME_SECONDS_def)

lemma transfer_intent_fields:
  "canonicalIntentSchema X (TransferIntent c t) \<Longrightarrow> commonIntentShape X c \<and> transferFieldsSchema t"
  by (simp add: canonicalIntentSchema_iff)

lemma atomicUnit_canonical: "atomicUnitSchema s \<Longrightarrow> canonicalDec s"
  by (simp add: atomicUnitSchema_def)

lemma positiveAtomic_canonical: "positiveAtomicUnitSchema s \<Longrightarrow> canonicalDec s \<and> 0 < decVal s"
  using canonicalDec_eq_0 [of s] by (auto simp: positiveAtomicUnitSchema_def dest: atomicUnit_canonical)

lemma sampleExternals_ok: "hexDigests sampleExternals" "byteUtils sampleExternals"
  by (simp_all add: hexDigests_def byteUtils_def sampleExternals_defs list_all_iff isHex_def isDigit_def)

lemma evmHash_of_digest: "hexDigests X \<Longrightarrow> evmHashSchema (''0x'' @ bytesToHex X (keccak_256 X b))"
  by (simp add: hexDigests_def evmHashSchema_def prefixed_def)

end
