(* ===== verification/PolicyEngine.thy ===== *)
theory PolicyEngine
  imports Schemas
begin

text \<open>
  The deterministic policy engine, \<open>packages/policy-engine/src/index.ts\<close>: the fifteen rules, the
  hash of a decision and \<open>evaluatePolicy\<close>, with its fail-closed path. The abstract specification
  \<open>policyPermits\<close> states in terms of numbers, sets and times what an owner policy allows; the
  engine is shown to compute exactly it.
\<close>

section \<open>The evaluation context\<close>

record policy_context =
  cx_evaluatedAt :: string
  cx_totalSpentAtomic :: string
  cx_budgetGrade :: enforcement_grade
  cx_recipientGrade :: enforcement_grade

definition policyEvaluationContextSchema :: "externals \<Rightarrow> policy_context \<Rightarrow> bool" where
  "policyEvaluationContextSchema X c \<longleftrightarrow>
     utcSecondSchema X (cx_evaluatedAt c) \<and> atomicUnitSchema (cx_totalSpentAtomic c)"

text \<open>
  The context argument is \<open>unknown\<close>: a value of the shape, or any other value (whose
  \<open>evaluatedAt\<close> property the fail-closed path still reads).
\<close>

datatype raw_context = ContextShaped policy_context | ContextOther jsval

fun parseContext :: "externals \<Rightarrow> raw_context \<Rightarrow> policy_context option" where
  "parseContext X (ContextShaped c) = (if policyEvaluationContextSchema X c then Some c else None)"
| "parseContext X (ContextOther v) = None"

definition POLICY_DECISION_HASH_DOMAIN :: string where
  "POLICY_DECISION_HASH_DOMAIN = ''crip/policy-decision''"

definition POLICY_DECISION_HASH_VERSION :: string where
  "POLICY_DECISION_HASH_VERSION = ''v1''"

definition FALLBACK_EVALUATED_AT :: string where
  "FALLBACK_EVALUATED_AT = ''1970-01-01T00:00:00Z''"

section \<open>Rules\<close>

definition isWithinWindow :: "string \<Rightarrow> string \<Rightarrow> string \<Rightarrow> bool" where
  "isWithinWindow evaluatedAt notBefore expiresAt \<longleftrightarrow>
     dateGe evaluatedAt notBefore \<and> dateLt evaluatedAt expiresAt"

definition pass :: "string \<Rightarrow> policy_decision_rule" where
  "pass rule = \<lparr>ru_rule = rule, ru_result = Pass, ru_limitAtomic = None, ru_requestedAtomic = None\<rparr>"

definition fail :: "string \<Rightarrow> string option \<Rightarrow> string option \<Rightarrow> policy_decision_rule" where
  "fail rule limitAtomic requestedAtomic =
     \<lparr>ru_rule = rule, ru_result = Fail, ru_limitAtomic = limitAtomic,
      ru_requestedAtomic = requestedAtomic\<rparr>"

definition indeterminate :: "string \<Rightarrow> policy_decision_rule" where
  "indeterminate rule =
     \<lparr>ru_rule = rule, ru_result = Indeterminate, ru_limitAtomic = None, ru_requestedAtomic = None\<rparr>"

text \<open>\<open>condition ? pass(rule) : fail(rule)\<close>\<close>

definition check :: "bool \<Rightarrow> string \<Rightarrow> policy_decision_rule" where
  "check condition rule = (if condition then pass rule else fail rule None None)"

text \<open>The rules that only a transfer can fail: trivially passed by a read intent.\<close>

fun assetRule :: "policy \<Rightarrow> canonical_intent \<Rightarrow> policy_decision_rule" where
  "assetRule p (TransferIntent c t) =
     check (list_ex (\<lambda>asset. aa_chainId asset = in_chainId c
                     \<and> aa_type asset = tr_assetType t
                     \<and> aa_address asset = tr_assetAddress t) (po_assetsAllow p)) ''asset.allowlist''"
| "assetRule p (ReadStateIntent c) = pass ''asset.allowlist''"

fun recipientRule :: "policy \<Rightarrow> canonical_intent \<Rightarrow> policy_decision_rule" where
  "recipientRule p (TransferIntent c t) =
     check (tr_recipient t \<in> set (po_recipientsAllow p)) ''recipient.allowlist''"
| "recipientRule p (ReadStateIntent c) = pass ''recipient.allowlist''"

fun modeRule :: "policy \<Rightarrow> canonical_intent \<Rightarrow> policy_decision_rule" where
  "modeRule p (TransferIntent c t) = check (po_mode p \<noteq> ReadOnly) ''mode''"
| "modeRule p (ReadStateIntent c) = pass ''mode''"

fun perTransactionRule :: "policy \<Rightarrow> canonical_intent \<Rightarrow> policy_decision_rule" where
  "perTransactionRule p (TransferIntent c t) =
     (if isAtomicAtMost (tr_amountAtomic t) (po_perTransactionAtomic p)
      then pass ''budget.per_transaction''
      else fail ''budget.per_transaction'' (Some (po_perTransactionAtomic p)) (Some (tr_amountAtomic t)))"
| "perTransactionRule p (ReadStateIntent c) = pass ''budget.per_transaction''"

fun totalAndFeeRules ::
  "policy \<Rightarrow> canonical_intent \<Rightarrow> policy_context \<Rightarrow> policy_decision_rule list" where
  "totalAndFeeRules p (ReadStateIntent c) ctx = [pass ''budget.total'', pass ''network_fee.maximum'']"
| "totalAndFeeRules p (TransferIntent c t) ctx =
     (let remaining = subtractAtomic (po_totalAtomic p) (cx_totalSpentAtomic ctx);
          totalBudgetPass = (tr_assetAddress t = po_totalAssetAddress p
                             \<and> isAtomicAtMost (tr_amountAtomic t) remaining)
      in [if totalBudgetPass then pass ''budget.total''
          else fail ''budget.total'' (Some (po_totalAtomic p)) (Some (tr_amountAtomic t)),
          if isAtomicAtMost (tr_feeAtomic t) (po_maximumFeeAtomic p) then pass ''network_fee.maximum''
          else fail ''network_fee.maximum'' (Some (po_maximumFeeAtomic p)) (Some (tr_feeAtomic t))])"

definition evaluateRules ::
  "policy \<Rightarrow> canonical_intent \<Rightarrow> policy_context \<Rightarrow> policy_decision_rule list" where
  "evaluateRules p intent ctx =
     (let c = intentCommon intent in
      [check (po_status p = PolicyActive) ''policy.status'',
       check (in_agentId c = po_agentId p) ''subject.agent'',
       check (in_walletId c = po_walletId p) ''subject.wallet'',
       check (isWithinWindow (cx_evaluatedAt ctx) (po_notBefore p) (po_expiresAt p)) ''validity.policy'',
       check (isWithinWindow (cx_evaluatedAt ctx) (in_notBefore c) (in_expiresAt c)) ''validity.intent'',
       check (in_chainId c \<in> set (po_chainsAllow p)) ''chain.allowlist'',
       assetRule p intent,
       recipientRule p intent,
       check (intentAction intent \<in> set (po_actionsAllow p)) ''action.allowlist'',
       modeRule p intent,
       perTransactionRule p intent]
      @ totalAndFeeRules p intent ctx
      @ [check (meetsMinimumEnforcementGrade (cx_budgetGrade ctx) (po_minimumBudgetGrade p))
           ''enforcement.budget'',
         check (meetsMinimumEnforcementGrade (cx_recipientGrade ctx) (po_minimumRecipientGrade p))
           ''enforcement.recipient''])"

section \<open>Decisions and their hash\<close>

fun decisionName :: "decision \<Rightarrow> string" where
  "decisionName ALLOW_READ = ''ALLOW_READ''"
| "decisionName ALLOW_AUTONOMOUS = ''ALLOW_AUTONOMOUS''"
| "decisionName REQUIRE_APPROVAL = ''REQUIRE_APPROVAL''"
| "decisionName DENY = ''DENY''"
| "decisionName INDETERMINATE = ''INDETERMINATE''"

fun ruleResultName :: "rule_result \<Rightarrow> string" where
  "ruleResultName Pass = ''pass''"
| "ruleResultName Fail = ''fail''"
| "ruleResultName Indeterminate = ''indeterminate''"

text \<open>A property that is present only when the optional field is set.\<close>

definition optionalProp :: "string \<Rightarrow> ('a \<Rightarrow> jsval) \<Rightarrow> 'a option \<Rightarrow> (string \<times> jsval) list" where
  "optionalProp key f x = (case x of None \<Rightarrow> [] | Some v \<Rightarrow> [(key, f v)])"

definition ruleJson :: "policy_decision_rule \<Rightarrow> jsval" where
  "ruleJson r = JObject
     ([(''rule'', JString (ru_rule r)), (''result'', JString (ruleResultName (ru_result r)))]
      @ optionalProp ''limitAtomic'' JString (ru_limitAtomic r)
      @ optionalProp ''requestedAtomic'' JString (ru_requestedAtomic r))"

definition enforcementJson :: "required_enforcement \<Rightarrow> jsval" where
  "enforcementJson e = JObject
     (optionalProp ''budget'' (JString \<circ> gradeName) (re_budget e)
      @ optionalProp ''recipient'' (JString \<circ> gradeName) (re_recipient e)
      @ optionalProp ''chain'' (JString \<circ> gradeName) (re_chain e)
      @ optionalProp ''function'' (JString \<circ> gradeName) (re_function e)
      @ optionalProp ''expiry'' (JString \<circ> gradeName) (re_expiry e))"

text \<open>The hashed payload, after \<open>JSON.parse(JSON.stringify(payload))\<close> has dropped unset fields.\<close>

definition decisionPayload :: "policy_decision \<Rightarrow> jsval" where
  "decisionPayload d = JObject
     [(''schemaVersion'', JString (pd_schemaVersion d)),
      (''decision'', JString (decisionName (pd_decision d))),
      (''policyId'', JString (pd_policyId d)),
      (''policyVersion'', JNumber (jsInt (pd_policyVersion d))),
      (''evaluatedAt'', JString (pd_evaluatedAt d)),
      (''rules'', JArray (map ruleJson (pd_rules d))),
      (''requiredEnforcement'', enforcementJson (pd_requiredEnforcement d))]"

definition hashDecision :: "externals \<Rightarrow> policy_decision \<Rightarrow> string option" where
  "hashDecision X d =
     map_option (\<lambda>text. ''0x'' @ bytesToHex X (keccak_256 X (concatBytes X
         [utf8ToBytes X POLICY_DECISION_HASH_DOMAIN,
          utf8ToBytes X POLICY_DECISION_HASH_VERSION,
          [CHR 0x00],
          utf8ToBytes X text])))
       (canonicalizeIdempotencyPayload (decisionPayload d))"

datatype engine_error = EngineTypeError | EngineZodError

definition makeDecision ::
  "externals \<Rightarrow> decision \<Rightarrow> string \<Rightarrow> int \<Rightarrow> string \<Rightarrow> policy_decision_rule list
   \<Rightarrow> required_enforcement \<Rightarrow> engine_error + policy_decision" where
  "makeDecision X dec policyId policyVersion evaluatedAt rules required =
     (let base = \<lparr>pd_schemaVersion = ''1.0'', pd_decision = dec, pd_policyId = policyId,
                  pd_policyVersion = policyVersion, pd_evaluatedAt = evaluatedAt, pd_rules = rules,
                  pd_requiredEnforcement = required, pd_decisionHash = []\<rparr>
      in andThen (ofOption EngineTypeError (hashDecision X base))
           (\<lambda>h. let d = base\<lparr>pd_decisionHash := h\<rparr>
                in andThen (require (policyDecisionSchema X d) EngineZodError) (\<lambda>_. Inr d)))"

section \<open>The fail-closed path\<close>

fun validEvaluatedAt :: "externals \<Rightarrow> raw_context \<Rightarrow> string" where
  "validEvaluatedAt X (ContextShaped c) =
     (if utcSecondSchema X (cx_evaluatedAt c) then cx_evaluatedAt c else FALLBACK_EVALUATED_AT)"
| "validEvaluatedAt X (ContextOther v) =
     (case getProp v ''evaluatedAt'' of
        JString s \<Rightarrow> if utcSecondSchema X s then s else FALLBACK_EVALUATED_AT
      | _ \<Rightarrow> FALLBACK_EVALUATED_AT)"

definition requiredGrades :: "enforcement_grade \<Rightarrow> enforcement_grade \<Rightarrow> required_enforcement" where
  "requiredGrades budget recipient =
     \<lparr>re_budget = Some budget, re_recipient = Some recipient, re_chain = None, re_function = None,
      re_expiry = None\<rparr>"

definition fallbackPolicyMetadata ::
  "externals \<Rightarrow> policy raw \<Rightarrow> string \<times> int \<times> required_enforcement" where
  "fallbackPolicyMetadata X policy =
     (case safeParse (policySchema X) policy of
        Some p \<Rightarrow> (po_policyId p, po_version p,
                   requiredGrades (po_minimumBudgetGrade p) (po_minimumRecipientGrade p))
      | None \<Rightarrow> (''policy_invalid'', 1, requiredGrades CONTROL_PLANE CONTROL_PLANE))"

definition failClosed ::
  "externals \<Rightarrow> policy raw \<Rightarrow> raw_context \<Rightarrow> engine_error + policy_decision" where
  "failClosed X policy context =
     (case fallbackPolicyMetadata X policy of (policyId, policyVersion, required) \<Rightarrow>
        makeDecision X DENY policyId policyVersion (validEvaluatedAt X context)
          [indeterminate ''input.contract''] required)"

section \<open>\<open>evaluatePolicy\<close>\<close>

definition evaluatePolicy ::
  "externals \<Rightarrow> policy raw \<Rightarrow> canonical_intent raw \<Rightarrow> raw_context
   \<Rightarrow> engine_error + policy_decision" where
  "evaluatePolicy X policy intent context =
     (case (safeParse (policySchema X) policy,
            safeParse (canonicalIntentSchema X) intent,
            parseContext X context) of
        (Some p, Some i, Some c) \<Rightarrow>
          let rules = evaluateRules p i c;
              hasFailure = list_ex (\<lambda>r. ru_result r \<noteq> Pass) rules;
              dec = (if hasFailure then DENY
                     else if intentAction i = ''wallet.read_state'' then ALLOW_READ
                     else if po_mode p = ReviewRequired then REQUIRE_APPROVAL
                     else ALLOW_AUTONOMOUS)
          in makeDecision X dec (po_policyId p) (po_version p) (cx_evaluatedAt c) rules
               (requiredGrades (po_minimumBudgetGrade p) (po_minimumRecipientGrade p))
      | _ \<Rightarrow> failClosed X policy context)"

section \<open>What a policy allows\<close>

text \<open>The instant lies in a window that includes its start and excludes its end.\<close>

definition inWindow :: "string \<Rightarrow> string \<Rightarrow> string \<Rightarrow> bool" where
  "inWindow at from until \<longleftrightarrow>
     (\<exists>t f u. Date_parse at = Some t \<and> Date_parse from = Some f \<and> Date_parse until = Some u
        \<and> f \<le> t \<and> t < u)"

fun transferPermitted :: "policy \<Rightarrow> canonical_intent \<Rightarrow> policy_context \<Rightarrow> bool" where
  "transferPermitted p (ReadStateIntent c) ctx \<longleftrightarrow> True"
| "transferPermitted p (TransferIntent c t) ctx \<longleftrightarrow>
     po_mode p \<noteq> ReadOnly
     \<and> (\<exists>a\<in>set (po_assetsAllow p). aa_chainId a = in_chainId c \<and> aa_type a = tr_assetType t
           \<and> aa_address a = tr_assetAddress t)
     \<and> tr_recipient t \<in> set (po_recipientsAllow p)
     \<and> decVal (tr_amountAtomic t) \<le> decVal (po_perTransactionAtomic p)
     \<and> tr_assetAddress t = po_totalAssetAddress p
     \<and> decVal (cx_totalSpentAtomic ctx) + decVal (tr_amountAtomic t) \<le> decVal (po_totalAtomic p)
     \<and> decVal (tr_feeAtomic t) \<le> decVal (po_maximumFeeAtomic p)"

definition policyPermits :: "policy \<Rightarrow> canonical_intent \<Rightarrow> policy_context \<Rightarrow> bool" where
  "policyPermits p i ctx \<longleftrightarrow>
     po_status p = PolicyActive
     \<and> in_agentId (intentCommon i) = po_agentId p
     \<and> in_walletId (intentCommon i) = po_walletId p
     \<and> inWindow (cx_evaluatedAt ctx) (po_notBefore p) (po_expiresAt p)
     \<and> inWindow (cx_evaluatedAt ctx) (in_notBefore (intentCommon i)) (in_expiresAt (intentCommon i))
     \<and> in_chainId (intentCommon i) \<in> set (po_chainsAllow p)
     \<and> intentAction i \<in> set (po_actionsAllow p)
     \<and> po_minimumBudgetGrade p \<le> cx_budgetGrade ctx
     \<and> po_minimumRecipientGrade p \<le> cx_recipientGrade ctx
     \<and> transferPermitted p i ctx"

fun permittedDecision :: "policy \<Rightarrow> canonical_intent \<Rightarrow> decision" where
  "permittedDecision p (ReadStateIntent c) = ALLOW_READ"
| "permittedDecision p (TransferIntent c t) =
     (if po_mode p = ReviewRequired then REQUIRE_APPROVAL else ALLOW_AUTONOMOUS)"

definition policySpec :: "policy \<Rightarrow> canonical_intent \<Rightarrow> policy_context \<Rightarrow> decision" where
  "policySpec p i ctx = (if policyPermits p i ctx then permittedDecision p i else DENY)"

section \<open>Lemmas\<close>

lemma isWithinWindow_iff: "isWithinWindow a b c \<longleftrightarrow> inWindow a b c"
  by (auto simp: isWithinWindow_def inWindow_def dateGe_def dateLt_def split: option.splits)

lemma rule_results [simp]:
  "ru_result (pass r) = Pass" "ru_result (fail r l q) = Fail"
  "ru_result (check b r) = Pass \<longleftrightarrow> b"
  by (simp_all add: pass_def fail_def check_def)

lemma if_rule_Pass [simp]: "ru_result (if b then pass r else fail r' l q) = Pass \<longleftrightarrow> b"
  by simp

lemma transfer_rules_permit:
  assumes p: "policySchema X p" and i: "canonicalIntentSchema X i"
    and c: "policyEvaluationContextSchema X ctx"
  shows "(ru_result (assetRule p i) = Pass \<and> ru_result (recipientRule p i) = Pass
      \<and> ru_result (modeRule p i) = Pass \<and> ru_result (perTransactionRule p i) = Pass
      \<and> (\<forall>r\<in>set (totalAndFeeRules p i ctx). ru_result r = Pass))
    \<longleftrightarrow> transferPermitted p i ctx"
proof (cases i)
  case (ReadStateIntent cm)
  then show ?thesis by simp
next
  case (TransferIntent cm t)
  with transfer_intent_fields [of X cm t] i have t: "transferFieldsSchema t" by simp
  have can: "canonicalDec (tr_amountAtomic t)" "0 < decVal (tr_amountAtomic t)"
    "canonicalDec (tr_feeAtomic t)" "canonicalDec (po_totalAtomic p)"
    "canonicalDec (po_perTransactionAtomic p)" "canonicalDec (po_maximumFeeAtomic p)"
    "canonicalDec (cx_totalSpentAtomic ctx)"
    using t p c positiveAtomic_canonical atomicUnit_canonical
    by (auto simp: transferFieldsSchema_def policySchema_def policyEvaluationContextSchema_def)
  have fits: "isAtomicAtMost (tr_amountAtomic t) (subtractAtomic (po_totalAtomic p) (cx_totalSpentAtomic ctx))
      \<longleftrightarrow> decVal (cx_totalSpentAtomic ctx) + decVal (tr_amountAtomic t) \<le> decVal (po_totalAtomic p)"
    using atomic.fits_remaining atomic.exceeds_remaining can by blast
  show ?thesis
    using can fits by (auto simp: TransferIntent Let_def isAtomicAtMost_iff list_ex_iff)
qed

lemma evaluateRules_pass_iff:
  assumes "policySchema X p" "canonicalIntentSchema X i" "policyEvaluationContextSchema X ctx"
  shows "list_ex (\<lambda>r. ru_result r \<noteq> Pass) (evaluateRules p i ctx) \<longleftrightarrow> \<not> policyPermits p i ctx"
  unfolding policyPermits_def evaluateRules_def Let_def transfer_rules_permit [OF assms, symmetric]
  by (auto simp: isWithinWindow_iff meetsMinimum_iff list_ex_iff)

text \<open>The hashed payload is a JSON value, so the hash of a decision is always defined.\<close>

lemma wfJson_ruleJson [simp]: "wfJson (ruleJson r)"
  by (auto simp: ruleJson_def optionalProp_def split: option.splits)

lemma wfJson_enforcementJson [simp]: "wfJson (enforcementJson e)"
  by (auto simp: enforcementJson_def optionalProp_def split: option.splits)

lemma wfJson_decisionPayload [simp]: "wfJson (decisionPayload d)"
  by (simp add: decisionPayload_def list_all_iff)

lemma hashDecision_defined:
  "\<exists>b. hashDecision X d = Some (''0x'' @ bytesToHex X (keccak_256 X b))"
  using canonicalize_text [OF wfJson_decisionPayload, of d]
  by (auto simp: hashDecision_def canonicalizeIdempotencyPayload_def)

lemma makeDecision_Inr:
  "makeDecision X dec pid ver at rules req = Inr d \<Longrightarrow>
     pd_decision d = dec \<and> pd_rules d = rules \<and> pd_policyId d = pid \<and> pd_policyVersion d = ver
     \<and> pd_evaluatedAt d = at \<and> policyDecisionSchema X d \<and> hashDecision X d = Some (pd_decisionHash d)"
  by (auto simp: makeDecision_def hashDecision_def decisionPayload_def Let_def result_simps)

lemma makeDecision_total:
  assumes "hexDigests X" "canonicalIdentifierSchema pid" "positiveSafeInt ver" "isoDatetime X at"
    and "rules \<noteq> []" "list_all policyDecisionRuleSchema rules"
  shows "\<exists>d. makeDecision X dec pid ver at rules (requiredGrades g h) = Inr d \<and> pd_decision d = dec \<and> pd_rules d = rules"
proof -
  let ?base = "\<lparr>pd_schemaVersion = ''1.0'', pd_decision = dec, pd_policyId = pid, pd_policyVersion = ver,
     pd_evaluatedAt = at, pd_rules = rules, pd_requiredEnforcement = requiredGrades g h, pd_decisionHash = []\<rparr>"
  obtain b where b: "hashDecision X ?base = Some (''0x'' @ bytesToHex X (keccak_256 X b))"
    using hashDecision_defined by blast
  have "policyDecisionSchema X (?base\<lparr>pd_decisionHash := ''0x'' @ bytesToHex X (keccak_256 X b)\<rparr>)"
    using assms evmHash_of_digest [OF assms(1), of b]
    by (auto simp: policyDecisionSchema_def versionSchema_def utcSecondSchema_def
        requiredEnforcementSchema_def requiredGrades_def Suc_le_eq)
  with b show ?thesis by (simp add: makeDecision_def Let_def)
qed

lemma rule_schemas:
  assumes p: "policySchema X p" and i: "canonicalIntentSchema X i"
  shows "list_all policyDecisionRuleSchema (evaluateRules p i ctx)"
proof -
  have names: "policyDecisionRuleSchema (check b ''policy.status'')" "policyDecisionRuleSchema (check b ''subject.agent'')"
    "policyDecisionRuleSchema (check b ''subject.wallet'')" "policyDecisionRuleSchema (check b ''validity.policy'')"
    "policyDecisionRuleSchema (check b ''validity.intent'')" "policyDecisionRuleSchema (check b ''chain.allowlist'')"
    "policyDecisionRuleSchema (check b ''action.allowlist'')" "policyDecisionRuleSchema (check b ''enforcement.budget'')"
    "policyDecisionRuleSchema (check b ''enforcement.recipient'')" "policyDecisionRuleSchema (check b ''asset.allowlist'')"
    "policyDecisionRuleSchema (check b ''recipient.allowlist'')" "policyDecisionRuleSchema (check b ''mode'')" for b
    by (simp_all add: policyDecisionRuleSchema_def check_def pass_def fail_def charclass)
  have amounts: "policyDecisionRuleSchema (pass r)" "atomicUnitSchema l \<Longrightarrow> atomicUnitSchema q \<Longrightarrow>
      policyDecisionRuleSchema (fail r (Some l) (Some q))"
    if "r \<in> {''budget.per_transaction'', ''budget.total'', ''network_fee.maximum'', ''asset.allowlist'',
       ''recipient.allowlist'', ''mode''}" for r l q
    using that by (auto simp: policyDecisionRuleSchema_def pass_def fail_def charclass)
  have atoms: "atomicUnitSchema (po_totalAtomic p)" "atomicUnitSchema (po_perTransactionAtomic p)"
    "atomicUnitSchema (po_maximumFeeAtomic p)"
    using p by (auto simp: policySchema_def positiveAtomicUnitSchema_def)
  have "list_all policyDecisionRuleSchema ([assetRule p i, recipientRule p i, modeRule p i, perTransactionRule p i]
      @ totalAndFeeRules p i ctx)"
  proof (cases i)
    case (TransferIntent c t)
    with transfer_intent_fields [of X c t] i have "atomicUnitSchema (tr_amountAtomic t)" "atomicUnitSchema (tr_feeAtomic t)"
      by (auto simp: transferFieldsSchema_def positiveAtomicUnitSchema_def)
    with atoms names amounts show ?thesis by (simp add: TransferIntent Let_def)
  qed (simp add: amounts)
  with names show ?thesis by (simp add: evaluateRules_def Let_def)
qed

lemma evaluatePolicy_parsed:
  assumes "policySchema X p" "canonicalIntentSchema X i" "policyEvaluationContextSchema X c"
  shows "evaluatePolicy X (Shaped p) (Shaped i) (ContextShaped c) =
    makeDecision X (policySpec p i c) (po_policyId p) (po_version p) (cx_evaluatedAt c)
      (evaluateRules p i c) (requiredGrades (po_minimumBudgetGrade p) (po_minimumRecipientGrade p))"
proof -
  have "(if intentAction i = ''wallet.read_state'' then ALLOW_READ
     else if po_mode p = ReviewRequired then REQUIRE_APPROVAL else ALLOW_AUTONOMOUS) = permittedDecision p i"
    by (cases i) auto
  with assms show ?thesis
    by (simp add: evaluatePolicy_def Let_def evaluateRules_pass_iff [OF assms] policySpec_def)
qed

lemma failClosed_total:
  assumes "hexDigests X" "isoDatetime X FALLBACK_EVALUATED_AT"
  shows "\<exists>d. failClosed X policy context = Inr d \<and> pd_decision d = DENY
    \<and> pd_rules d = [indeterminate ''input.contract'']"
proof -
  have at: "isoDatetime X (validEvaluatedAt X context)"
    using assms(2) by (cases "context") (auto simp: utcSecondSchema_def split: jsval.splits)
  have rule: "list_all policyDecisionRuleSchema [indeterminate ''input.contract'']"
    by (simp add: policyDecisionRuleSchema_def indeterminate_def charclass)
  obtain pid ver g h where meta: "fallbackPolicyMetadata X policy = (pid, ver, requiredGrades g h)"
    "canonicalIdentifierSchema pid" "positiveSafeInt ver"
    by (cases "safeParse (policySchema X) policy")
      (auto simp: fallbackPolicyMetadata_def policySchema_def canonicalIdentifierSchema_def positiveSafeInt_def charclass)
  show ?thesis
    using makeDecision_total [OF assms(1) meta(2,3) at _ rule, of DENY g h] by (simp add: failClosed_def meta(1))
qed

lemma failClosed_denies: "failClosed X policy context = Inr d \<Longrightarrow> pd_decision d = DENY"
  by (auto simp: failClosed_def split: prod.splits dest: makeDecision_Inr)

lemma evaluatePolicy_malformed:
  assumes "safeParse (policySchema X) policy = None \<or> safeParse (canonicalIntentSchema X) intent = None
    \<or> parseContext X context = None"
  shows "evaluatePolicy X policy intent context = failClosed X policy context"
  using assms by (auto simp: evaluatePolicy_def split: option.splits)

lemma evaluatePolicy_spec:
  assumes "hexDigests X"
    and "policySchema X p" "canonicalIntentSchema X i" "policyEvaluationContextSchema X c"
  shows "\<exists>d. evaluatePolicy X (Shaped p) (Shaped i) (ContextShaped c) = Inr d \<and>
    pd_decision d = (if policyPermits p i c then permittedDecision p i else DENY)
    \<and> policyDecisionSchema X d \<and> pd_policyId d = po_policyId p \<and> pd_policyVersion d = po_version p
    \<and> pd_evaluatedAt d = cx_evaluatedAt c
    \<and> (list_all (\<lambda>rule. ru_result rule = Pass) (pd_rules d) \<longleftrightarrow> policyPermits p i c)
    \<and> hashDecision X d = Some (pd_decisionHash d)"
proof -
  have pid: "canonicalIdentifierSchema (po_policyId p)" "positiveSafeInt (po_version p)"
    using assms(2) by (auto simp: policySchema_def)
  have at: "isoDatetime X (cx_evaluatedAt c)"
    using assms(4) by (simp add: policyEvaluationContextSchema_def utcSecondSchema_def)
  have "evaluateRules p i c \<noteq> []" by (simp add: evaluateRules_def Let_def)
  from makeDecision_total [OF assms(1) pid at this rule_schemas [OF assms(2,3)]] obtain d where
    d: "evaluatePolicy X (Shaped p) (Shaped i) (ContextShaped c) = Inr d"
    unfolding evaluatePolicy_parsed [OF assms(2-4)] by blast
  have "list_all (\<lambda>rule. ru_result rule = Pass) (evaluateRules p i c) \<longleftrightarrow> policyPermits p i c"
    using evaluateRules_pass_iff [OF assms(2-4)] by (auto simp: list_all_iff list_ex_iff)
  with makeDecision_Inr [OF d [unfolded evaluatePolicy_parsed [OF assms(2-4)]]] d show ?thesis
    by (simp add: policySpec_def)
qed

section \<open>A concrete policy, intent and context\<close>

definition addrA :: string where
  "addrA = ''0x'' @ replicate 40 (CHR ''a'')"

definition addrB :: string where
  "addrB = ''0x'' @ replicate 40 (CHR ''b'')"

definition samplePolicy :: policy where
  "samplePolicy =
     \<lparr>po_schemaVersion = ''1.0'', po_policyId = ''policy_1'', po_version = 1, po_status = PolicyActive,
      po_agentId = ''agent_1'', po_walletId = ''wallet_1'', po_mode = AutonomousWithinPolicy,
      po_notBefore = ''2026-01-01T00:00:00Z'', po_expiresAt = ''2026-12-31T00:00:00Z'',
      po_chainsAllow = [''eip155:31337''],
      po_assetsAllow = [\<lparr>aa_chainId = ''eip155:31337'', aa_type = ''erc20'', aa_address = addrA\<rparr>],
      po_recipientsAllow = [addrB], po_actionsAllow = [''wallet.read_state'', ''asset.transfer''],
      po_totalAssetAddress = addrA, po_totalAtomic = ''1000'', po_perTransactionAtomic = ''100'',
      po_maximumFeeAtomic = ''21000'', po_personalSign = ''deny'', po_typedData = ''deny'',
      po_rawDigest = ''deny'', po_requireSimulation = True, po_denyUnknownCalldata = True,
      po_denyDelegatecall = True, po_denyUnlimitedApprovals = True,
      po_minimumBudgetGrade = CONTROL_PLANE, po_minimumRecipientGrade = CONTROL_PLANE\<rparr>"

definition sampleCommon :: intent_common where
  "sampleCommon =
     \<lparr>in_schemaVersion = ''1.0'', in_intentId = ''intent_1'', in_idempotencyKey = ''key_1'',
      in_agentId = ''agent_1'', in_walletId = ''wallet_1'', in_chainId = ''eip155:31337'',
      in_objective = ''pay'', in_notBefore = ''2026-06-01T00:00:00Z'',
      in_expiresAt = ''2026-06-01T00:10:00Z'', in_externalReference = None\<rparr>"

definition sampleTransfer :: transfer_fields where
  "sampleTransfer =
     \<lparr>tr_assetType = ''erc20'', tr_assetAddress = addrA, tr_symbolHint = None, tr_decimalsHint = None,
      tr_amountAtomic = ''99'', tr_displayHint = None, tr_recipient = addrB, tr_feeAsset = ''native'',
      tr_feeAtomic = ''21000''\<rparr>"

definition sampleContext :: "string \<Rightarrow> policy_context" where
  "sampleContext spent =
     \<lparr>cx_evaluatedAt = ''2026-06-01T00:05:00Z'', cx_totalSpentAtomic = spent,
      cx_budgetGrade = CONTROL_PLANE, cx_recipientGrade = SIGNER\<rparr>"

lemma samplePolicy_ok: "policySchema sampleExternals samplePolicy"
  by code_simp

lemma sampleIntent_ok: "canonicalIntentSchema sampleExternals (TransferIntent sampleCommon sampleTransfer)"
  by code_simp

lemma sampleContext_ok: "policyEvaluationContextSchema sampleExternals (sampleContext ''901'')"
  by code_simp

lemma samplePermits:
  "policyPermits samplePolicy (TransferIntent sampleCommon sampleTransfer) (sampleContext ''901'')"
proof -
  have "inWindow ''2026-06-01T00:05:00Z'' ''2026-01-01T00:00:00Z'' ''2026-12-31T00:00:00Z''"
    "inWindow ''2026-06-01T00:05:00Z'' ''2026-06-01T00:00:00Z'' ''2026-06-01T00:10:00Z''"
    unfolding isWithinWindow_iff [symmetric] by code_simp+
  then show ?thesis
    by (simp add: policyPermits_def samplePolicy_def sampleCommon_def sampleTransfer_def sampleContext_def
        decVal_def digitVal_def less_eq_enforcement_grade_def)
qed

section \<open>Properties\<close>

text \<open>
  C3. The engine decides exactly what the policy says: on well-formed inputs \<open>evaluatePolicy\<close>
  returns (it never throws) the decision of the specification, which permits a request only
  inside the validity windows, for the policy's agent, wallet, chain, asset, recipient and
  action, within the per-transaction limit, the remaining total budget and the fee limit as
  numbers, and at the required enforcement grades; everything else is \<open>DENY\<close>.
  The record it returns has the decision schema, names the policy, its version and the time of evaluation,
  passes every rule exactly when the policy permits, and carries the hash of its other fields.
\<close>

theorem evaluatePolicy_refines_spec:
  assumes "hexDigests X"
    and "policySchema X p" "canonicalIntentSchema X i" "policyEvaluationContextSchema X c"
  shows "\<exists>d. evaluatePolicy X (Shaped p) (Shaped i) (ContextShaped c) = Inr d \<and>
    pd_decision d = (if policyPermits p i c then permittedDecision p i else DENY)
    \<and> policyDecisionSchema X d \<and> pd_policyId d = po_policyId p \<and> pd_policyVersion d = po_version p
    \<and> pd_evaluatedAt d = cx_evaluatedAt c
    \<and> (list_all (\<lambda>rule. ru_result rule = Pass) (pd_rules d) \<longleftrightarrow> policyPermits p i c)
    \<and> hashDecision X d = Some (pd_decisionHash d)"
  using assms by (rule evaluatePolicy_spec)

theorem evaluatePolicy_refines_spec_witness:
  "\<exists>d. evaluatePolicy sampleExternals (Shaped samplePolicy)
      (Shaped (TransferIntent sampleCommon sampleTransfer)) (ContextShaped (sampleContext ''901'')) = Inr d
    \<and> pd_decision d = ALLOW_AUTONOMOUS \<and> policyDecisionSchema sampleExternals d
    \<and> list_all (\<lambda>rule. ru_result rule = Pass) (pd_rules d)"
proof -
  note samplePermits
  moreover have "permittedDecision samplePolicy (TransferIntent sampleCommon sampleTransfer) = ALLOW_AUTONOMOUS"
    by (simp add: samplePolicy_def)
  ultimately show ?thesis
    using evaluatePolicy_refines_spec [OF sampleExternals_ok(1) samplePolicy_ok sampleIntent_ok sampleContext_ok]
    by auto
qed

text \<open>
  C37. The engine fails closed: whenever the policy, the intent or the context is malformed in any
  way, the result is (not an exception but) the decision \<open>DENY\<close> with the one indeterminate rule
  \<open>input.contract\<close>.
\<close>

theorem evaluatePolicy_fails_closed:
  assumes "hexDigests X" "isoDatetime X FALLBACK_EVALUATED_AT"
    and "safeParse (policySchema X) policy = None \<or> safeParse (canonicalIntentSchema X) intent = None
      \<or> parseContext X context = None"
  shows "\<exists>d. evaluatePolicy X policy intent context = Inr d \<and> pd_decision d = DENY \<and>
    pd_rules d = [indeterminate ''input.contract'']"
  using failClosed_total [OF assms(1,2), of policy "context"] evaluatePolicy_malformed [OF assms(3)] by simp

theorem evaluatePolicy_fails_closed_witness:
  "\<exists>d. evaluatePolicy sampleExternals Malformed (Shaped (TransferIntent sampleCommon sampleTransfer))
      (ContextOther (JString ''x'')) = Inr d \<and> pd_decision d = DENY \<and> pd_rules d = [indeterminate ''input.contract'']"
proof -
  have "isoDatetime sampleExternals FALLBACK_EVALUATED_AT" by code_simp
  then show ?thesis by (intro evaluatePolicy_fails_closed sampleExternals_ok) simp_all
qed

text \<open>
  C2. No authorization beyond the policy: whatever the inputs, if the engine returns a decision that
  lets value move (\<open>ALLOW_AUTONOMOUS\<close> or \<open>REQUIRE_APPROVAL\<close>), then the inputs were well-formed, the
  policy permits the transfer, and the amount already spent plus the requested amount is at most
  the total budget (itself below $2^{256}$), with the requested amount positive and at most the
  per-transaction limit. The decimal-string subtraction never lets a budget underflow.
\<close>

theorem value_moves_only_within_budget:
  assumes "evaluatePolicy X policy intent context = Inr d"
    and "pd_decision d = ALLOW_AUTONOMOUS \<or> pd_decision d = REQUIRE_APPROVAL"
  shows "\<exists>p c t ctx. policy = Shaped p \<and> intent = Shaped (TransferIntent c t) \<and> context = ContextShaped ctx
    \<and> policyPermits p (TransferIntent c t) ctx
    \<and> 0 < decVal (tr_amountAtomic t) \<and> decVal (tr_amountAtomic t) \<le> decVal (po_perTransactionAtomic p)
    \<and> decVal (cx_totalSpentAtomic ctx) + decVal (tr_amountAtomic t) \<le> decVal (po_totalAtomic p)
    \<and> decVal (po_totalAtomic p) < 2 ^ 256
    \<and> (po_mode p = ReviewRequired \<longrightarrow> pd_decision d = REQUIRE_APPROVAL)"
proof -
  have "\<exists>p i ctx. safeParse (policySchema X) policy = Some p \<and> safeParse (canonicalIntentSchema X) intent = Some i
    \<and> parseContext X context = Some ctx"
  proof (rule ccontr)
    assume "\<not> ?thesis"
    then have "evaluatePolicy X policy intent context = failClosed X policy context"
      by (intro evaluatePolicy_malformed) (meson not_None_eq)
    then have "pd_decision d = DENY"
      using assms(1) failClosed_denies by simp
    with assms(2) show False by simp
  qed
  then obtain p i ctx where pic: "policy = Shaped p" "policySchema X p" "intent = Shaped i" "canonicalIntentSchema X i"
    "context = ContextShaped ctx" "policyEvaluationContextSchema X ctx"
    by (cases "context") (auto split: if_splits)
  then have "makeDecision X (policySpec p i ctx) (po_policyId p) (po_version p) (cx_evaluatedAt ctx)
      (evaluateRules p i ctx) (requiredGrades (po_minimumBudgetGrade p) (po_minimumRecipientGrade p)) = Inr d"
    using assms(1) evaluatePolicy_parsed [OF pic(2,4,6)] by simp
  from makeDecision_Inr [OF this] have dec: "pd_decision d = policySpec p i ctx" by blast
  with assms(2) have permits: "policyPermits p i ctx" "pd_decision d = permittedDecision p i"
    by (auto simp: policySpec_def split: if_splits)
  with assms(2) obtain c t where i: "i = TransferIntent c t" by (cases i) auto
  have "transferFieldsSchema t" using pic(4) i transfer_intent_fields by blast
  then have "0 < decVal (tr_amountAtomic t)" using positiveAtomic_canonical by (simp add: transferFieldsSchema_def)
  moreover have "decVal (po_totalAtomic p) < 2 ^ 256"
    using pic(2) atomicUnitSchema_uint256 by (simp add: policySchema_def positiveAtomicUnitSchema_def)
  ultimately show ?thesis using pic permits i by (auto simp: policyPermits_def)
qed

theorem value_moves_only_within_budget_witness:
  "\<exists>d. evaluatePolicy sampleExternals (Shaped samplePolicy)
      (Shaped (TransferIntent sampleCommon sampleTransfer)) (ContextShaped (sampleContext ''901'')) = Inr d
    \<and> pd_decision d = ALLOW_AUTONOMOUS \<and> decVal ''901'' + decVal (tr_amountAtomic sampleTransfer) \<le> decVal ''1000''"
proof -
  let ?r = "evaluatePolicy sampleExternals (Shaped samplePolicy)
      (Shaped (TransferIntent sampleCommon sampleTransfer)) (ContextShaped (sampleContext ''901''))"
  obtain d where d: "?r = Inr d" "pd_decision d = ALLOW_AUTONOMOUS"
    using evaluatePolicy_spec [OF sampleExternals_ok(1) samplePolicy_ok sampleIntent_ok sampleContext_ok]
      samplePermits by (auto simp: samplePolicy_def)
  from value_moves_only_within_budget [OF d(1)] d(2)
  have "decVal (cx_totalSpentAtomic (sampleContext ''901'')) + decVal (tr_amountAtomic sampleTransfer)
      \<le> decVal (po_totalAtomic samplePolicy)" by auto
  with d show ?thesis by (simp add: sampleContext_def samplePolicy_def)
qed

end
