(* ===== verification/TransferCore.thy ===== *)
theory TransferCore
  imports PolicyEngine
begin

text \<open>
  Construction, independent decoding and verification of the one transaction the program can
  make, an ERC-20 transfer: \<open>packages/transaction-pipeline/src\<close>, files \<open>candidate.ts\<close>,
  \<open>construct-transfer.ts\<close>, \<open>decode-transfer.ts\<close> and \<open>verify-transfer.ts\<close>. The encoder is code
  outside the repository; the decoder and the verifier are shown to pin the calldata down
  completely, whatever the encoder does.
\<close>

section \<open>\<open>candidate.ts\<close>\<close>

definition TRANSFER_SELECTOR :: string where
  "TRANSFER_SELECTOR = ''0xa9059cbb''"

definition LOCAL_CHAIN_ID :: string where
  "LOCAL_CHAIN_ID = ''eip155:31337''"

definition STATIC_NONCE_STRATEGY :: string where
  "STATIC_NONCE_STRATEGY = ''pending''"

text \<open>
  The trusted context. Its \<open>provenance\<close> is absent or an object, given by its properties: the
  code checks four of them and copies all of them.
\<close>

record trusted_context =
  tc_walletAddress :: string
  tc_tokenAddress :: string
  tc_chainId :: string
  tc_fixtureInstanceId :: string
  tc_provenance :: "(string \<times> jsval) list option"

record transfer_candidate =
  ca_action :: string
  ca_chainId :: string
  ca_from :: string
  ca_target :: string
  ca_nativeValue :: string
  ca_calldata :: string
  ca_selector :: string
  ca_recipient :: string
  ca_amountAtomic :: string
  ca_nonceStrategy :: string
  ca_fixtureInstanceId :: string
  ca_provenance :: "(string \<times> jsval) list"

datatype decode_failure_code =
    MALFORMED_HEX | INVALID_LENGTH | TRAILING_DATA | UNKNOWN_SELECTOR
  | NON_CANONICAL_ADDRESS_PADDING | INVALID_UINT256

record decoded_transfer =
  de_selector :: string
  de_recipient :: string
  de_amountAtomic :: string

datatype decode_result = Decoded decoded_transfer | DecodeFailure decode_failure_code

datatype verification_failure_code =
    INVALID_INTENT | INVALID_TRUSTED_CONTEXT | INVALID_CANDIDATE | DECODE_FAILED | CALLDATA_MISMATCH
  | ACTION_MISMATCH | SELECTOR_MISMATCH | CHAIN_MISMATCH | SENDER_MISMATCH | TARGET_MISMATCH
  | NATIVE_VALUE_MISMATCH | RECIPIENT_MISMATCH | AMOUNT_MISMATCH | NONCE_STRATEGY_MISMATCH
  | FIXTURE_MISMATCH | PROVENANCE_MISMATCH

datatype verification_failure =
  VerificationFailure verification_failure_code "string option" "decode_failure_code option"

section \<open>Objects\<close>

text \<open>\<open>object[key] = value\<close>: an existing property keeps its place.\<close>

fun setProp :: "string \<Rightarrow> jsval \<Rightarrow> (string \<times> jsval) list \<Rightarrow> (string \<times> jsval) list" where
  "setProp k v [] = [(k, v)]"
| "setProp k v ((k', v') # kvs) = (if k = k' then (k, v) # kvs else (k', v') # setProp k v kvs)"

text \<open>\<open>{ ...base, ...extra }\<close>\<close>

definition spread :: "(string \<times> jsval) list \<Rightarrow> (string \<times> jsval) list \<Rightarrow> (string \<times> jsval) list" where
  "spread base extra = foldl (\<lambda>acc (k, v). setProp k v acc) base extra"

text \<open>
  \<open>===\<close>. Arrays and objects are compared by identity: two of them that come from two values are
  two objects.
\<close>

fun strictEq :: "jsval \<Rightarrow> jsval \<Rightarrow> bool" where
  "strictEq JUndefined JUndefined = True"
| "strictEq JNull JNull = True"
| "strictEq (JBool a) (JBool b) = (a = b)"
| "strictEq (JNumber x) (JNumber y) = (x = y \<and> x \<noteq> JsNaN)"
| "strictEq (JString a) (JString b) = (a = b)"
| "strictEq v w = False"

fun objectKeys :: "jsval \<Rightarrow> string list" where
  "objectKeys (JObject kvs) = map fst kvs"
| "objectKeys (JArray vs) = map decStr [0..<length vs]"
| "objectKeys v = []"

section \<open>\<open>construct-transfer.ts\<close>\<close>

definition canonicalAddress :: "string \<Rightarrow> bool" where
  "canonicalAddress value = prefixed ''0x'' isHex 40 value"

text \<open>\<open>/^[A-Za-z0-9][A-Za-z0-9._:-]{0,127}$/\<close> on a value that may not be a string.\<close>

fun canonicalIdentifier :: "jsval \<Rightarrow> bool" where
  "canonicalIdentifier (JString s) \<longleftrightarrow>
     s \<noteq> [] \<and> isAlnum (hd s) \<and> length (tl s) \<le> 127 \<and> list_all identifierChar (tl s)"
| "canonicalIdentifier v = False"

fun isHashString :: "jsval \<Rightarrow> bool" where
  "isHashString (JString s) = prefixed ''0x'' isHex 64 s"
| "isHashString v = False"

definition provenanceOk :: "(string \<times> jsval) list \<Rightarrow> bool" where
  "provenanceOk prov =
     (let get = getProp (JObject prov) in
      (get ''operationId'' = JUndefined \<or> canonicalIdentifier (get ''operationId''))
      \<and> (get ''policyId'' = JUndefined \<or> canonicalIdentifier (get ''policyId''))
      \<and> (get ''policyVersion'' = JUndefined \<or> positiveSafeInteger (get ''policyVersion''))
      \<and> (get ''policyDecisionHash'' = JUndefined \<or> isHashString (get ''policyDecisionHash'')))"

datatype construct_error =
    InvalidTrustedContext
  | InvalidTransferProvenance
  | NotATransferIntent
  | IntentContextMismatch

definition validateTrusted :: "trusted_context \<Rightarrow> construct_error + unit" where
  "validateTrusted context =
     andThen (require (tc_chainId context = LOCAL_CHAIN_ID
               \<and> canonicalAddress (tc_walletAddress context)
               \<and> canonicalAddress (tc_tokenAddress context)
               \<and> canonicalIdentifier (JString (tc_fixtureInstanceId context))) InvalidTrustedContext)
       (\<lambda>_. case tc_provenance context of
              None \<Rightarrow> Inr ()
            | Some prov \<Rightarrow> require (provenanceOk prov) InvalidTransferProvenance)"

definition buildProvenance :: "intent_common \<Rightarrow> trusted_context \<Rightarrow> (string \<times> jsval) list" where
  "buildProvenance intent trusted =
     spread [(''intentId'', JString (in_intentId intent)),
             (''agentId'', JString (in_agentId intent)),
             (''walletId'', JString (in_walletId intent))]
       (case tc_provenance trusted of None \<Rightarrow> [] | Some prov \<Rightarrow> prov)"

definition constructTransferCore ::
  "externals \<Rightarrow> canonical_intent raw \<Rightarrow> trusted_context \<Rightarrow> construct_error + transfer_candidate" where
  "constructTransferCore X intent trusted =
     (case safeParse (canonicalIntentSchema X) intent of
        Some (TransferIntent c t) \<Rightarrow>
          andThen (validateTrusted trusted) (\<lambda>_.
          andThen (require (in_chainId c = LOCAL_CHAIN_ID
                            \<and> tr_assetAddress t = tc_tokenAddress trusted) IntentContextMismatch) (\<lambda>_.
          Inr \<lparr>ca_action = ''asset.transfer'',
               ca_chainId = LOCAL_CHAIN_ID,
               ca_from = tc_walletAddress trusted,
               ca_target = tc_tokenAddress trusted,
               ca_nativeValue = ''0'',
               ca_calldata = encodeFunctionData X (tr_recipient t) (decVal (tr_amountAtomic t)),
               ca_selector = TRANSFER_SELECTOR,
               ca_recipient = tr_recipient t,
               ca_amountAtomic = tr_amountAtomic t,
               ca_nonceStrategy = STATIC_NONCE_STRATEGY,
               ca_fixtureInstanceId = tc_fixtureInstanceId trusted,
               ca_provenance = buildProvenance c trusted\<rparr>))
      | _ \<Rightarrow> Inl NotATransferIntent)"

text \<open>The constructed object as a value.\<close>

definition candidateJson :: "transfer_candidate \<Rightarrow> jsval" where
  "candidateJson c = JObject
     [(''action'', JString (ca_action c)),
      (''chainId'', JString (ca_chainId c)),
      (''from'', JString (ca_from c)),
      (''target'', JString (ca_target c)),
      (''nativeValue'', JString (ca_nativeValue c)),
      (''calldata'', JString (ca_calldata c)),
      (''selector'', JString (ca_selector c)),
      (''recipient'', JString (ca_recipient c)),
      (''amountAtomic'', JString (ca_amountAtomic c)),
      (''nonceStrategy'', JString (ca_nonceStrategy c)),
      (''fixtureInstanceId'', JString (ca_fixtureInstanceId c)),
      (''provenance'', JObject (ca_provenance c))]"

section \<open>\<open>decode-transfer.ts\<close>\<close>

definition WORD_HEX_LENGTH :: nat where
  "WORD_HEX_LENGTH = 64"

definition TRANSFER_DATA_HEX_LENGTH :: nat where
  "TRANSFER_DATA_HEX_LENGTH = 8 + WORD_HEX_LENGTH * 2"

definition slice :: "string \<Rightarrow> nat \<Rightarrow> nat \<Rightarrow> string" where
  "slice s i j = take (j - i) (drop i s)"

definition hexDigitVal :: "char \<Rightarrow> nat" where
  "hexDigitVal c = (if isDigit c then digitVal c else of_char c - 87)"

text \<open>\<open>BigInt(`0x${word}`)\<close>\<close>

definition hexVal :: "string \<Rightarrow> nat" where
  "hexVal s = foldl (\<lambda>n c. 16 * n + hexDigitVal c) 0 s"

fun decodeTransferIndependent :: "jsval \<Rightarrow> decode_result" where
  "decodeTransferIndependent (JString input) =
     (let dataHexLength = length input - 2;
          addressWord = slice input 10 (10 + WORD_HEX_LENGTH);
          amountWord = slice input 74 (74 + WORD_HEX_LENGTH) in
      if \<not> (take 2 input = ''0x'' \<and> list_all isHex (drop 2 input)) then DecodeFailure MALFORMED_HEX
      else if dataHexLength mod 2 \<noteq> 0 then DecodeFailure MALFORMED_HEX
      else if dataHexLength < TRANSFER_DATA_HEX_LENGTH then DecodeFailure INVALID_LENGTH
      else if dataHexLength > TRANSFER_DATA_HEX_LENGTH then DecodeFailure TRAILING_DATA
      else if slice input 2 10 \<noteq> drop 2 TRANSFER_SELECTOR then DecodeFailure UNKNOWN_SELECTOR
      else if \<not> prefixed (replicate 24 (CHR ''0'')) isHex 40 addressWord
      then DecodeFailure NON_CANONICAL_ADDRESS_PADDING
      else if \<not> prefixed [] isHex 64 amountWord then DecodeFailure INVALID_UINT256
      else Decoded \<lparr>de_selector = TRANSFER_SELECTOR,
                    de_recipient = ''0x'' @ drop 24 addressWord,
                    de_amountAtomic = decStr (hexVal amountWord)\<rparr>)"
| "decodeTransferIndependent v = DecodeFailure MALFORMED_HEX"

section \<open>\<open>verify-transfer.ts\<close>\<close>

fun sameRecord :: "jsval \<Rightarrow> (string \<times> jsval) list \<Rightarrow> bool" where
  "sameRecord (JObject left) right \<longleftrightarrow>
     length (map fst left) = length (map fst right)
     \<and> list_all (\<lambda>key. key \<in> set (map fst right)
          \<and> strictEq (getProp (JObject left) key) (getProp (JObject right) key)) (map fst left)"
| "sameRecord v right = False"

definition failWith ::
  "verification_failure_code \<Rightarrow> string option \<Rightarrow> decode_failure_code option \<Rightarrow> verification_failure + 'a" where
  "failWith code field decodeCode = Inl (VerificationFailure code field decodeCode)"

fun isCandidate :: "jsval \<Rightarrow> bool" where
  "isCandidate (JObject kvs) = True"
| "isCandidate (JArray vs) = True"
| "isCandidate v = False"

definition isTrusted :: "trusted_context \<Rightarrow> bool" where
  "isTrusted context \<longleftrightarrow>
     tc_chainId context = LOCAL_CHAIN_ID
     \<and> canonicalAddress (tc_walletAddress context)
     \<and> canonicalAddress (tc_tokenAddress context)
     \<and> canonicalIdentifier (JString (tc_fixtureInstanceId context))
     \<and> (case tc_provenance context of None \<Rightarrow> True | Some prov \<Rightarrow> provenanceOk prov)"

definition hasExactKeys :: "jsval \<Rightarrow> string list \<Rightarrow> bool" where
  "hasExactKeys value keys = (sort (objectKeys value) = keys)"

definition candidateKeys :: "string list" where
  "candidateKeys = [''action'', ''amountAtomic'', ''calldata'', ''chainId'', ''fixtureInstanceId'', ''from'',
     ''nativeValue'', ''nonceStrategy'', ''provenance'', ''recipient'', ''selector'', ''target'']"

text \<open>\<open>expectedProvenance\<close> is \<open>buildProvenance\<close> of the other file, written a second time.\<close>

definition expectedProvenance :: "intent_common \<Rightarrow> trusted_context \<Rightarrow> (string \<times> jsval) list" where
  "expectedProvenance intent trusted =
     spread [(''intentId'', JString (in_intentId intent)),
             (''agentId'', JString (in_agentId intent)),
             (''walletId'', JString (in_walletId intent))]
       (case tc_provenance trusted of None \<Rightarrow> [] | Some prov \<Rightarrow> prov)"

definition isString :: "jsval \<Rightarrow> string \<Rightarrow> bool" where
  "isString v s = strictEq v (JString s)"

definition verifyTransferCore ::
  "externals \<Rightarrow> canonical_intent raw \<Rightarrow> jsval \<Rightarrow> decode_result \<Rightarrow> trusted_context
   \<Rightarrow> verification_failure + jsval" where
  "verifyTransferCore X intent candidate decoded trusted =
     (let field = getProp candidate in
      case safeParse (canonicalIntentSchema X) intent of
        Some (TransferIntent c t) \<Rightarrow>
          if \<not> isTrusted trusted then failWith INVALID_TRUSTED_CONTEXT None None
          else if \<not> isCandidate candidate then failWith INVALID_CANDIDATE None None
          else if \<not> hasExactKeys candidate candidateKeys then failWith INVALID_CANDIDATE None None
          else (case decodeTransferIndependent (field ''calldata'') of
             DecodeFailure code \<Rightarrow> failWith DECODE_FAILED (Some ''calldata'') (Some code)
           | Decoded actual \<Rightarrow>
               if decoded \<noteq> Decoded actual then failWith CALLDATA_MISMATCH (Some ''calldata'') None
               else if \<not> sameRecord (field ''provenance'') (expectedProvenance c trusted)
               then failWith PROVENANCE_MISMATCH (Some ''provenance'') None
               else if \<not> isString (field ''action'') ''asset.transfer''
               then failWith ACTION_MISMATCH (Some ''action'') None
               else if \<not> isString (field ''selector'') TRANSFER_SELECTOR
               then failWith SELECTOR_MISMATCH (Some ''selector'') None
               else if \<not> isString (field ''chainId'') LOCAL_CHAIN_ID
                       \<or> \<not> isString (field ''chainId'') (in_chainId c)
               then failWith CHAIN_MISMATCH (Some ''chainId'') None
               else if \<not> isString (field ''from'') (tc_walletAddress trusted)
               then failWith SENDER_MISMATCH (Some ''from'') None
               else if \<not> isString (field ''target'') (tc_tokenAddress trusted)
                       \<or> \<not> isString (field ''target'') (tr_assetAddress t)
               then failWith TARGET_MISMATCH (Some ''target'') None
               else if \<not> isString (field ''nativeValue'') ''0''
               then failWith NATIVE_VALUE_MISMATCH (Some ''nativeValue'') None
               else if \<not> isString (field ''recipient'') (tr_recipient t)
                       \<or> de_recipient actual \<noteq> tr_recipient t
               then failWith RECIPIENT_MISMATCH (Some ''recipient'') None
               else if \<not> isString (field ''amountAtomic'') (tr_amountAtomic t)
                       \<or> de_amountAtomic actual \<noteq> tr_amountAtomic t
               then failWith AMOUNT_MISMATCH (Some ''amountAtomic'') None
               else if \<not> isString (field ''nonceStrategy'') STATIC_NONCE_STRATEGY
               then failWith NONCE_STRATEGY_MISMATCH (Some ''nonceStrategy'') None
               else if \<not> isString (field ''fixtureInstanceId'') (tc_fixtureInstanceId trusted)
               then failWith FIXTURE_MISMATCH (Some ''fixtureInstanceId'') None
               else Inr candidate)
      | _ \<Rightarrow> failWith INVALID_INTENT None None)"

section \<open>Lemmas: hexadecimal words\<close>

lemma isHex_iff: "isHex c \<longleftrightarrow> isDigit c \<or> (97 \<le> (of_char c :: nat) \<and> (of_char c :: nat) \<le> 102)"
  by (simp add: isHex_def less_eq_char_def)

lemma hexDigitVal_less: "isHex c \<Longrightarrow> hexDigitVal c < 16"
  using digitVal_less [of c] by (auto simp: hexDigitVal_def isHex_iff)

lemma hexChar_hexDigitVal: "isHex c \<Longrightarrow> hexChar (hexDigitVal c) = c"
  using digitVal_less [of c] by (auto simp: hexDigitVal_def hexChar_def isHex_iff)

lemma isHex_hexChar: "d < 16 \<Longrightarrow> isHex (hexChar d)"
  using of_char_hexChar [of d] by (auto simp: isHex_iff isDigit_iff)

lemma hexDigitVal_hexChar: "d < 16 \<Longrightarrow> hexDigitVal (hexChar d) = d"
  using of_char_hexChar [of d] by (auto simp: hexDigitVal_def isDigit_iff digitVal_def)

lemma hexVal_snoc: "hexVal (s @ [c]) = 16 * hexVal s + hexDigitVal c"
  by (simp add: hexVal_def)

lemma length_hexStr [simp]: "length (hexStr k n) = k"
  by (induction k arbitrary: n) auto

lemma isHex_hexStr: "list_all isHex (hexStr k n)"
  by (induction k arbitrary: n) (auto simp: isHex_hexChar)

lemma hexVal_less: "list_all isHex s \<Longrightarrow> hexVal s < 16 ^ length s"
proof (induction s rule: rev_induct)
  case Nil
  then show ?case by (simp add: hexVal_def)
next
  case (snoc c s)
  then have "hexVal s + 1 \<le> 16 ^ length s" "hexDigitVal c < 16" using hexDigitVal_less by auto
  then show ?case by (simp add: hexVal_snoc)
qed

lemma hexStr_hexVal: "list_all isHex s \<Longrightarrow> hexStr (length s) (hexVal s) = s"
proof (induction s rule: rev_induct)
  case Nil
  then show ?case by simp
next
  case (snoc c s)
  then have "isHex c" "list_all isHex s" by auto
  moreover from this have "hexDigitVal c < 16" by (simp add: hexDigitVal_less)
  ultimately show ?case using snoc.IH by (simp add: hexVal_snoc hexChar_hexDigitVal)
qed

lemma hexVal_hexStr: "hexVal (hexStr k n) = n mod 16 ^ k"
proof (induction k arbitrary: n)
  case 0
  then show ?case by (simp add: hexVal_def)
next
  case (Suc k)
  have "hexVal (hexStr (Suc k) n) = 16 * (n div 16 mod 16 ^ k) + n mod 16"
    by (simp add: hexVal_snoc Suc.IH hexDigitVal_hexChar)
  also have "\<dots> = n mod (16 * 16 ^ k)" by (simp add: mod_mult2_eq)
  finally show ?case by simp
qed

lemma hexStr_64: "(16 :: nat) ^ 64 = 2 ^ 256"
  by simp

section \<open>Lemmas: the decoder\<close>

lemma prefixed_iff: "prefixed p cls n s \<longleftrightarrow> (\<exists>u. s = p @ u \<and> length u = n \<and> list_all cls u)"
proof
  assume pre: "prefixed p cls n s"
  then have "s = p @ drop (length p) s" by (metis append_take_drop_id prefixed_def)
  with pre show "\<exists>u. s = p @ u \<and> length u = n \<and> list_all cls u"
    by (intro exI [of _ "drop (length p) s"]) (auto simp: prefixed_def)
qed (auto simp: prefixed_def)

lemma decode_abiTransfer:
  assumes "canonicalAddress recipient" "n < 2 ^ 256"
  shows "decodeTransferIndependent (JString (abiTransfer recipient n)) =
    Decoded \<lparr>de_selector = TRANSFER_SELECTOR, de_recipient = recipient, de_amountAtomic = decStr n\<rparr>"
proof -
  obtain a where a: "recipient = ''0x'' @ a" "length a = 40" "list_all isHex a"
    using assms(1) by (auto simp: canonicalAddress_def prefixed_iff)
  let ?w = "hexStr 64 n" and ?z = "replicate 24 (CHR ''0'')"
  have in_eq: "abiTransfer recipient n = ''0x'' @ ''a9059cbb'' @ (?z @ a) @ ?w" by (simp add: abiTransfer_def a(1))
  have s1: "slice (abiTransfer recipient n) 2 10 = ''a9059cbb''"
    and s2: "slice (abiTransfer recipient n) 10 74 = ?z @ a"
    and s3: "slice (abiTransfer recipient n) 74 138 = ?w"
    unfolding in_eq slice_def using a(2) by simp_all
  have hex: "list_all isHex (drop 2 (abiTransfer recipient n))"
    unfolding in_eq using a(3) isHex_hexStr [of 64 n] by (auto simp: list_all_iff isHex_def isDigit_def)
  have len: "length (abiTransfer recipient n) = 138" unfolding in_eq using a(2) by simp
  have "hexVal ?w = n" using assms(2) hexVal_hexStr [of 64 n] by (simp add: hexStr_64)
  moreover have "take 2 (abiTransfer recipient n) = ''0x''" by (simp add: in_eq)
  ultimately show ?thesis
    using s1 s2 s3 hex len a isHex_hexStr [of 64 n]
    by (simp add: WORD_HEX_LENGTH_def TRANSFER_DATA_HEX_LENGTH_def TRANSFER_SELECTOR_def prefixed_def)
qed

lemma slice_join: "i \<le> j \<Longrightarrow> j \<le> k \<Longrightarrow> slice s i j @ slice s j k = slice s i k"
  using take_add [of "j - i" "k - j" "drop i s"] by (simp add: slice_def)

lemma decode_Decoded:
  assumes "decodeTransferIndependent v = Decoded r"
  obtains n where "canonicalAddress (de_recipient r)" "n < 2 ^ 256" "v = JString (abiTransfer (de_recipient r) n)"
    "r = \<lparr>de_selector = TRANSFER_SELECTOR, de_recipient = de_recipient r, de_amountAtomic = decStr n\<rparr>"
proof -
  obtain input where v: "v = JString input" using assms by (cases v) auto
  note conds = assms [unfolded v decodeTransferIndependent.simps Let_def WORD_HEX_LENGTH_def
      TRANSFER_DATA_HEX_LENGTH_def, simplified]
  have t2: "take 2 input = ''0x''" and len: "length input = 138" and sel: "slice input 2 10 = ''a9059cbb''"
    using conds by (auto simp: TRANSFER_SELECTOR_def split: if_splits)
  obtain a where a: "slice input 10 74 = replicate 24 (CHR ''0'') @ a" "length a = 40" "list_all isHex a"
    using conds by (auto simp: prefixed_iff split: if_splits)
  have w: "list_all isHex (slice input 74 138)" "length (slice input 74 138) = 64"
    using conds by (auto simp: prefixed_def split: if_splits)
  have r: "r = \<lparr>de_selector = TRANSFER_SELECTOR, de_recipient = ''0x'' @ a,
      de_amountAtomic = decStr (hexVal (slice input 74 138))\<rparr>"
    using conds a(1) by (auto split: if_splits)
  have "take 2 input = slice input 0 2" "input = slice input 0 138" using len by (simp_all add: slice_def)
  then have parts: "input = take 2 input @ slice input 2 10 @ slice input 10 74 @ slice input 74 138"
    by (simp add: slice_join)
  let ?n = "hexVal (slice input 74 138)"
  have "hexStr 64 ?n = slice input 74 138" using hexStr_hexVal [OF w(1)] w(2) by simp
  then have "input = abiTransfer (''0x'' @ a) ?n"
    using parts t2 sel a(1) by (simp add: abiTransfer_def)
  moreover have "?n < 2 ^ 256" using hexVal_less [OF w(1)] w(2) by (simp add: hexStr_64)
  moreover have "canonicalAddress (''0x'' @ a)" using a by (simp add: canonicalAddress_def prefixed_def)
  ultimately show ?thesis using that [of ?n] r v by simp
qed

section \<open>Lemmas: the verifier\<close>

lemma isString_iff [simp]: "isString v s \<longleftrightarrow> v = JString s"
  by (cases v) (auto simp: isString_def)

lemma validateTrusted_iff: "validateTrusted context = Inr () \<longleftrightarrow> isTrusted context"
  by (auto simp: validateTrusted_def isTrusted_def result_simps split: option.splits)

lemma provenance_same: "buildProvenance c trusted = expectedProvenance c trusted"
  by (simp add: buildProvenance_def expectedProvenance_def)

text \<open>
  The candidate that the intent and the trusted context determine, with the calldata in the ABI
  encoding of the transfer.
\<close>

definition intendedCandidate :: "intent_common \<Rightarrow> transfer_fields \<Rightarrow> trusted_context \<Rightarrow> transfer_candidate" where
  "intendedCandidate c t trusted =
     \<lparr>ca_action = ''asset.transfer'', ca_chainId = in_chainId c, ca_from = tc_walletAddress trusted,
      ca_target = tr_assetAddress t, ca_nativeValue = ''0'',
      ca_calldata = abiTransfer (tr_recipient t) (decVal (tr_amountAtomic t)),
      ca_selector = TRANSFER_SELECTOR, ca_recipient = tr_recipient t, ca_amountAtomic = tr_amountAtomic t,
      ca_nonceStrategy = STATIC_NONCE_STRATEGY, ca_fixtureInstanceId = tc_fixtureInstanceId trusted,
      ca_provenance = buildProvenance c trusted\<rparr>"

lemma getProp_missing: "key \<notin> set (objectKeys v) \<Longrightarrow> getProp v key = JUndefined"
  using map_of_eq_None_iff [of "case v of JObject kvs \<Rightarrow> kvs | _ \<Rightarrow> []" key] by (cases v) auto

lemma verify_accepts_fields:
  assumes "verifyTransferCore X intent candidate decoded trusted = Inr v"
  obtains c t actual where "intent = Shaped (TransferIntent c t)" "canonicalIntentSchema X (TransferIntent c t)"
    "v = candidate" "isTrusted trusted" "in_chainId c = LOCAL_CHAIN_ID" "tr_assetAddress t = tc_tokenAddress trusted"
    "sort (objectKeys candidate) = candidateKeys"
    "decodeTransferIndependent (getProp candidate ''calldata'') = Decoded actual" "decoded = Decoded actual"
    "de_recipient actual = tr_recipient t" "de_amountAtomic actual = tr_amountAtomic t"
    "sameRecord (getProp candidate ''provenance'') (expectedProvenance c trusted)"
    "getProp candidate ''action'' = JString ''asset.transfer''" "getProp candidate ''selector'' = JString TRANSFER_SELECTOR"
    "getProp candidate ''chainId'' = JString (in_chainId c)" "getProp candidate ''from'' = JString (tc_walletAddress trusted)"
    "getProp candidate ''target'' = JString (tr_assetAddress t)" "getProp candidate ''nativeValue'' = JString ''0''"
    "getProp candidate ''recipient'' = JString (tr_recipient t)" "getProp candidate ''amountAtomic'' = JString (tr_amountAtomic t)"
    "getProp candidate ''nonceStrategy'' = JString STATIC_NONCE_STRATEGY"
    "getProp candidate ''fixtureInstanceId'' = JString (tc_fixtureInstanceId trusted)"
proof -
  obtain c t where ct: "safeParse (canonicalIntentSchema X) intent = Some (TransferIntent c t)"
    using assms by (auto simp: verifyTransferCore_def Let_def failWith_def split: option.splits canonical_intent.splits)
  obtain actual where act: "decodeTransferIndependent (getProp candidate ''calldata'') = Decoded actual"
    using assms ct by (auto simp: verifyTransferCore_def Let_def failWith_def split: if_splits decode_result.splits)
  show ?thesis
    using assms ct act by (intro that [of c t actual])
      (auto simp: verifyTransferCore_def failWith_def hasExactKeys_def Let_def split: if_splits)
qed

lemma candidateJson_props:
  "getProp (candidateJson e) ''action'' = JString (ca_action e)" "getProp (candidateJson e) ''chainId'' = JString (ca_chainId e)"
  "getProp (candidateJson e) ''from'' = JString (ca_from e)" "getProp (candidateJson e) ''target'' = JString (ca_target e)"
  "getProp (candidateJson e) ''nativeValue'' = JString (ca_nativeValue e)" "getProp (candidateJson e) ''calldata'' = JString (ca_calldata e)"
  "getProp (candidateJson e) ''selector'' = JString (ca_selector e)" "getProp (candidateJson e) ''recipient'' = JString (ca_recipient e)"
  "getProp (candidateJson e) ''amountAtomic'' = JString (ca_amountAtomic e)"
  "getProp (candidateJson e) ''nonceStrategy'' = JString (ca_nonceStrategy e)"
  "getProp (candidateJson e) ''fixtureInstanceId'' = JString (ca_fixtureInstanceId e)"
  "getProp (candidateJson e) ''provenance'' = JObject (ca_provenance e)"
  by (simp_all add: candidateJson_def)

lemma candidateJson_keys: "set (objectKeys (candidateJson e)) = set candidateKeys" "sort (objectKeys (candidateJson e)) = candidateKeys"
  by (auto simp: candidateJson_def candidateKeys_def)

lemma strictEq_refl: "v \<noteq> JNumber JsNaN \<Longrightarrow> (\<forall>xs. v \<noteq> JArray xs) \<Longrightarrow> (\<forall>xs. v \<noteq> JObject xs) \<Longrightarrow> strictEq v v"
  by (cases v) auto

text \<open>Object values with only primitive properties, as the provenance type has them.\<close>

definition primitiveProps :: "(string \<times> jsval) list \<Rightarrow> bool" where
  "primitiveProps kvs \<longleftrightarrow> list_all (\<lambda>(k, v). strictEq v v) kvs"

lemma primitiveProps_setProp: "primitiveProps kvs \<Longrightarrow> strictEq v v \<Longrightarrow> primitiveProps (setProp k v kvs)"
  by (induction k v kvs rule: setProp.induct) (auto simp: primitiveProps_def)

lemma primitiveProps_spread: "primitiveProps base \<Longrightarrow> primitiveProps extra \<Longrightarrow> primitiveProps (spread base extra)"
  unfolding spread_def
  by (induction extra arbitrary: base) (auto simp: primitiveProps_setProp primitiveProps_def [of "_ # _"] simp flip: primitiveProps_def)

lemma primitiveProps_provenance:
  "(\<forall>prov. tc_provenance trusted = Some prov \<longrightarrow> primitiveProps prov) \<Longrightarrow> primitiveProps (expectedProvenance c trusted)"
  unfolding expectedProvenance_def
  by (rule primitiveProps_spread) (auto simp: primitiveProps_def split: option.splits)

lemma sameRecord_refl: "primitiveProps kvs \<Longrightarrow> sameRecord (JObject kvs) kvs"
proof -
  assume "primitiveProps kvs"
  then have "strictEq v v" if "map_of kvs k = Some v" for k v
    using that by (auto simp: primitiveProps_def list_all_iff dest: map_of_SomeD)
  then show ?thesis by (auto simp: list_all_iff split: option.splits)
qed

text \<open>Documented behaviour of the ABI encoder on the calls the code makes.\<close>

definition abiEncoder :: "externals \<Rightarrow> bool" where
  "abiEncoder X \<longleftrightarrow> (\<forall>a n. canonicalAddress a \<longrightarrow> n < 2 ^ 256 \<longrightarrow> encodeFunctionData X a n = abiTransfer a n)"

lemma construct_intended:
  assumes "constructTransferCore X intent trusted = Inr cand" "abiEncoder X"
  obtains c t where "intent = Shaped (TransferIntent c t)" "canonicalIntentSchema X (TransferIntent c t)"
    "isTrusted trusted" "in_chainId c = LOCAL_CHAIN_ID" "tr_assetAddress t = tc_tokenAddress trusted"
    "canonicalAddress (tr_recipient t)" "canonicalDec (tr_amountAtomic t)" "decVal (tr_amountAtomic t) < 2 ^ 256"
    "cand = intendedCandidate c t trusted"
proof -
  obtain c t where ct: "intent = Shaped (TransferIntent c t)" "canonicalIntentSchema X (TransferIntent c t)"
    using assms(1) by (auto simp: constructTransferCore_def split: option.splits canonical_intent.splits)
  then have flds: "canonicalAddress (tr_recipient t)" "canonicalDec (tr_amountAtomic t)" "decVal (tr_amountAtomic t) < 2 ^ 256"
    using transfer_intent_fields [of X c t] atomicUnitSchema_uint256
    by (auto simp: transferFieldsSchema_def canonicalAddress_def evmAddressSchema_def positiveAtomicUnitSchema_def)
  with ct assms show ?thesis
    by (intro that [of c t])
      (auto simp: constructTransferCore_def result_simps validateTrusted_iff intendedCandidate_def abiEncoder_def)
qed

section \<open>Properties\<close>

text \<open>
  C32. The decoder accepts exactly one spelling of each transfer: \<open>decodeTransferIndependent\<close> succeeds
  on the canonical ABI encoding of a transfer to an address of an amount below $2^{256}$ and
  returns that address and amount, and it succeeds on nothing else (so no padding, no trailing
  data, no other selector and no upper-case digit).
\<close>

theorem decode_exactly_canonical:
  "decodeTransferIndependent v = Decoded r \<longleftrightarrow>
     (\<exists>recipient amount. canonicalAddress recipient \<and> amount < 2 ^ 256
        \<and> v = JString (''0xa9059cbb'' @ replicate 24 (CHR ''0'') @ drop 2 recipient @ hexStr 64 amount)
        \<and> r = \<lparr>de_selector = ''0xa9059cbb'', de_recipient = recipient, de_amountAtomic = decStr amount\<rparr>)"
  (is "?lhs \<longleftrightarrow> ?rhs")
proof
  assume ?lhs
  then obtain n where "canonicalAddress (de_recipient r)" "n < 2 ^ 256" "v = JString (abiTransfer (de_recipient r) n)"
    "r = \<lparr>de_selector = TRANSFER_SELECTOR, de_recipient = de_recipient r, de_amountAtomic = decStr n\<rparr>"
    by (rule decode_Decoded)
  then show ?rhs unfolding abiTransfer_def TRANSFER_SELECTOR_def by blast
next
  assume ?rhs
  then show ?lhs using decode_abiTransfer unfolding abiTransfer_def TRANSFER_SELECTOR_def by blast
qed

lemma intendedCandidate_verifies:
  assumes "canonicalIntentSchema X (TransferIntent c t)" "isTrusted trusted" "in_chainId c = LOCAL_CHAIN_ID"
    "tr_assetAddress t = tc_tokenAddress trusted" "canonicalAddress (tr_recipient t)"
    "canonicalDec (tr_amountAtomic t)" "decVal (tr_amountAtomic t) < 2 ^ 256"
    and prims: "\<forall>prov. tc_provenance trusted = Some prov \<longrightarrow> primitiveProps prov"
    and cand: "cand = intendedCandidate c t trusted"
  shows "verifyTransferCore X (Shaped (TransferIntent c t)) (candidateJson cand)
    (decodeTransferIndependent (JString (ca_calldata cand))) trusted = Inr (candidateJson cand)"
proof -
  have dec: "decodeTransferIndependent (JString (ca_calldata cand)) = Decoded
      \<lparr>de_selector = TRANSFER_SELECTOR, de_recipient = tr_recipient t, de_amountAtomic = tr_amountAtomic t\<rparr>"
    using decode_abiTransfer [OF assms(5,7)] assms(6) by (simp add: cand intendedCandidate_def)
  have prov: "sameRecord (JObject (ca_provenance cand)) (expectedProvenance c trusted)"
    using sameRecord_refl [OF primitiveProps_provenance [OF prims, of c]]
    by (simp add: cand intendedCandidate_def provenance_same)
  have obj: "isCandidate (candidateJson cand)" by (simp add: candidateJson_def)
  have flds: "ca_action cand = ''asset.transfer''" "ca_chainId cand = LOCAL_CHAIN_ID"
    "ca_from cand = tc_walletAddress trusted" "ca_target cand = tc_tokenAddress trusted" "ca_nativeValue cand = ''0''"
    "ca_selector cand = TRANSFER_SELECTOR" "ca_recipient cand = tr_recipient t" "ca_amountAtomic cand = tr_amountAtomic t"
    "ca_nonceStrategy cand = STATIC_NONCE_STRATEGY" "ca_fixtureInstanceId cand = tc_fixtureInstanceId trusted"
    using assms by (simp_all add: cand intendedCandidate_def)
  have parsed: "safeParse (canonicalIntentSchema X) (Shaped (TransferIntent c t)) = Some (TransferIntent c t)"
    using assms by simp
  have keys: "hasExactKeys (candidateJson cand) candidateKeys" by (simp only: hasExactKeys_def candidateJson_keys(2))
  show ?thesis
    unfolding verifyTransferCore_def Let_def parsed option.case canonical_intent.case candidateJson_props dec
      decode_result.case flds
    using assms(2,3,4) prov obj keys by (simp del: sameRecord.simps)
qed

definition sampleTrusted :: trusted_context where
  "sampleTrusted =
     \<lparr>tc_walletAddress = ''0x'' @ replicate 40 (CHR ''c''), tc_tokenAddress = addrA, tc_chainId = LOCAL_CHAIN_ID,
      tc_fixtureInstanceId = ''fixture_1'', tc_provenance = None\<rparr>"

lemma sampleTrusted_ok: "isTrusted sampleTrusted"
  by code_simp

lemma sampleTransfer_recipient: "canonicalAddress (tr_recipient sampleTransfer)"
  by code_simp

lemma sampleTransfer_amount:
  "canonicalDec (tr_amountAtomic sampleTransfer)" "decVal (tr_amountAtomic sampleTransfer) < 2 ^ 256"
  by (simp_all add: sampleTransfer_def canonicalDec_def decVal_def isDigit_def digitVal_def)

lemma sample_matches:
  "in_chainId sampleCommon = LOCAL_CHAIN_ID" "tr_assetAddress sampleTransfer = tc_tokenAddress sampleTrusted"
  "tc_provenance sampleTrusted = None"
  by (simp_all add: sampleCommon_def sampleTransfer_def sampleTrusted_def LOCAL_CHAIN_ID_def)

lemma sample_verifies:
  "verifyTransferCore sampleExternals (Shaped (TransferIntent sampleCommon sampleTransfer))
     (candidateJson (intendedCandidate sampleCommon sampleTransfer sampleTrusted))
     (decodeTransferIndependent (JString (ca_calldata (intendedCandidate sampleCommon sampleTransfer sampleTrusted))))
     sampleTrusted
   = Inr (candidateJson (intendedCandidate sampleCommon sampleTransfer sampleTrusted))"
  by (rule intendedCandidate_verifies [OF sampleIntent_ok sampleTrusted_ok sample_matches(1,2)
        sampleTransfer_recipient sampleTransfer_amount _ refl]) (simp add: sample_matches)

lemma sample_constructs:
  "constructTransferCore sampleExternals (Shaped (TransferIntent sampleCommon sampleTransfer)) sampleTrusted
   = Inr (intendedCandidate sampleCommon sampleTransfer sampleTrusted)"
  using sampleIntent_ok sampleTrusted_ok sample_matches
  by (simp add: constructTransferCore_def result_simps validateTrusted_iff intendedCandidate_def)
    (simp add: sampleExternals_defs)

text \<open>
  C5. The verifier accepts only the intended transaction, whoever built the candidate and whatever
  the encoder did: an accepted candidate has exactly the twelve properties, each equal to what the
  validated intent and the trusted context determine; in particular its calldata is the ABI
  encoding of a transfer of exactly the intended amount to exactly the intended recipient, its
  target is the trusted token, and it carries no native value.
\<close>

theorem verified_candidate_is_intended:
  assumes "verifyTransferCore X intent candidate decoded trusted = Inr v"
  shows "\<exists>c t. intent = Shaped (TransferIntent c t) \<and> canonicalIntentSchema X (TransferIntent c t)
    \<and> isTrusted trusted \<and> v = candidate
    \<and> (\<forall>key. key \<noteq> ''provenance'' \<longrightarrow>
         getProp candidate key = getProp (candidateJson (intendedCandidate c t trusted)) key)
    \<and> sameRecord (getProp candidate ''provenance'') (buildProvenance c trusted)
    \<and> sort (objectKeys candidate) = candidateKeys"
proof -
  from assms obtain c t actual where f: "intent = Shaped (TransferIntent c t)" "canonicalIntentSchema X (TransferIntent c t)"
    "v = candidate" "isTrusted trusted" "in_chainId c = LOCAL_CHAIN_ID" "tr_assetAddress t = tc_tokenAddress trusted"
    "sort (objectKeys candidate) = candidateKeys"
    "decodeTransferIndependent (getProp candidate ''calldata'') = Decoded actual" "decoded = Decoded actual"
    "de_recipient actual = tr_recipient t" "de_amountAtomic actual = tr_amountAtomic t"
    "sameRecord (getProp candidate ''provenance'') (expectedProvenance c trusted)"
    "getProp candidate ''action'' = JString ''asset.transfer''" "getProp candidate ''selector'' = JString TRANSFER_SELECTOR"
    "getProp candidate ''chainId'' = JString (in_chainId c)" "getProp candidate ''from'' = JString (tc_walletAddress trusted)"
    "getProp candidate ''target'' = JString (tr_assetAddress t)" "getProp candidate ''nativeValue'' = JString ''0''"
    "getProp candidate ''recipient'' = JString (tr_recipient t)" "getProp candidate ''amountAtomic'' = JString (tr_amountAtomic t)"
    "getProp candidate ''nonceStrategy'' = JString STATIC_NONCE_STRATEGY"
    "getProp candidate ''fixtureInstanceId'' = JString (tc_fixtureInstanceId trusted)"
    by (rule verify_accepts_fields)
  from f(8) obtain n where n: "n < 2 ^ 256" "getProp candidate ''calldata'' = JString (abiTransfer (de_recipient actual) n)"
    "actual = \<lparr>de_selector = TRANSFER_SELECTOR, de_recipient = de_recipient actual, de_amountAtomic = decStr n\<rparr>"
    by (rule decode_Decoded)
  then have "decStr n = tr_amountAtomic t" using f(11) by (metis decoded_transfer.select_convs(3))
  then have "n = decVal (tr_amountAtomic t)" by (metis decVal_decStr)
  then have calldata: "getProp candidate ''calldata'' = JString (abiTransfer (tr_recipient t) (decVal (tr_amountAtomic t)))"
    using n(2) f(10) by simp
  have keys: "set (objectKeys candidate) = set candidateKeys" using f(7) by (metis set_sort)
  let ?e = "candidateJson (intendedCandidate c t trusted)"
  have present: "list_all (\<lambda>key. key \<noteq> ''provenance'' \<longrightarrow> getProp candidate key = getProp ?e key) candidateKeys"
    using f calldata by (simp add: candidateKeys_def candidateJson_props intendedCandidate_def)
  have "getProp candidate key = getProp ?e key" if "key \<noteq> ''provenance''" for key
  proof (cases "key \<in> set candidateKeys")
    case False
    then show ?thesis using keys candidateJson_keys(1) by (simp add: getProp_missing)
  next
    case True
    with present that show ?thesis unfolding list_all_iff by blast
  qed
  with f show ?thesis by (auto simp: provenance_same)
qed

theorem verified_candidate_is_intended_witness:
  "\<exists>c t. Shaped (TransferIntent sampleCommon sampleTransfer) = Shaped (TransferIntent c t)
    \<and> getProp (candidateJson (intendedCandidate sampleCommon sampleTransfer sampleTrusted)) ''calldata''
        = getProp (candidateJson (intendedCandidate c t sampleTrusted)) ''calldata''"
  using verified_candidate_is_intended [OF sample_verifies] by auto

text \<open>
  C31. Construction and verification agree: with an ABI encoder that encodes as documented, every
  candidate that \<open>constructTransferCore\<close> returns is accepted by \<open>verifyTransferCore\<close> for the same
  intent and trusted context together with the independent decoding of its calldata.
\<close>

theorem constructed_candidate_verifies:
  assumes "constructTransferCore X intent trusted = Inr cand" "abiEncoder X"
    and "\<forall>prov. tc_provenance trusted = Some prov \<longrightarrow> primitiveProps prov"
  shows "verifyTransferCore X intent (candidateJson cand)
    (decodeTransferIndependent (JString (ca_calldata cand))) trusted = Inr (candidateJson cand)"
  using assms(1,2)
proof (rule construct_intended)
  fix c t
  assume "intent = Shaped (TransferIntent c t)" "canonicalIntentSchema X (TransferIntent c t)" "isTrusted trusted"
    "in_chainId c = LOCAL_CHAIN_ID" "tr_assetAddress t = tc_tokenAddress trusted"
    "canonicalAddress (tr_recipient t)" "canonicalDec (tr_amountAtomic t)" "decVal (tr_amountAtomic t) < 2 ^ 256"
    "cand = intendedCandidate c t trusted"
  then show ?thesis using intendedCandidate_verifies assms(3) by simp
qed

theorem constructed_candidate_verifies_witness:
  "\<exists>cand. constructTransferCore sampleExternals (Shaped (TransferIntent sampleCommon sampleTransfer)) sampleTrusted = Inr cand
    \<and> verifyTransferCore sampleExternals (Shaped (TransferIntent sampleCommon sampleTransfer)) (candidateJson cand)
         (decodeTransferIndependent (JString (ca_calldata cand))) sampleTrusted = Inr (candidateJson cand)"
  using constructed_candidate_verifies [OF sample_constructs] sample_constructs
  by (simp add: abiEncoder_def sampleExternals_defs sample_matches(3))

end
