(* ===== verification/Database.thy ===== *)
theory Database
  imports Schemas
begin

text \<open>
  The PostgreSQL database the services share, and the transactions they run on it
  (\<open>packages/budget-ledger/src/transaction.ts\<close>, \<open>errors.ts\<close>).

  A table is the list of its rows in the order of insertion, a row a record of the columns the
  services read or write. A statement reads the tables or replaces them; the primary and unique
  keys of \<open>migrations/\<close> are part of the statements that insert. Everything else the server may do
  to a statement (a CHECK constraint, a trigger, a serialization failure, a lost connection) is
  the field \<open>sv_refuses\<close> of \<open>server\<close>, an unconstrained function of the states before and after:
  what is proved of a transaction holds for every such behaviour.
\<close>

section \<open>Failures\<close>

datatype ledger_code =
    INSUFFICIENT_BUDGET
  | IDEMPOTENCY_CONFLICT
  | RESERVATION_NOT_FOUND
  | INVALID_RESERVATION_TRANSITION
  | RESERVATION_NOT_EXPIRED
  | INVALID_PROOF_REFERENCE
  | INVALID_BROADCAST_EVIDENCE
  | BUDGET_BINDING_MISMATCH
  | AUDIT_CORRELATION_MISMATCH
  | CONTROL_FENCE_INACTIVE
  | INVALID_ATOMIC_AMOUNT
  | COMPONENT_NOT_TRUSTED
  | COMPONENT_AUTHENTICATION_FAILED
  | RECOVERY_LEASE_HELD
  | RECOVERY_LEASE_STALE
  | RECOVERY_CONFLICT

datatype approval_code =
    APPROVAL_NOT_FOUND
  | APPROVAL_CONFLICT
  | APPROVAL_BINDING_MISMATCH
  | APPROVAL_INVALID_STATE
  | APPROVAL_EXPIRED
  | APPROVAL_REJECTED
  | APPROVAL_REVOKED
  | APPROVAL_REPLAYED
  | AUTONOMOUS_POLICY_REQUIRED
  | AUTONOMOUS_CONFLICT
  | REVALIDATION_REQUIRED_A
  | AUTHORIZATION_STATE_INVALID

datatype control_code = INVALID_COMMAND | CONTROL_TARGET_NOT_FOUND | AUTHORIZATION_REVALIDATION_REQUIRED

text \<open>
  What an operation can throw: the classes of \<open>errors.ts\<close> and of the approval service, the errors of the language and of the
  schema library, and the errors of the database driver with their SQLSTATE.
\<close>

datatype failure =
    LedgerError ledger_code
  | IdempotencyConflictError string
  | InsufficientBudgetError string string string
  | ApprovalError approval_code
  | ControlFenceError control_code
  | PlainError
  | TypeError
  | RangeError
  | ZodError
  | DatabaseError string

fun failureCode :: "failure \<Rightarrow> ledger_code option" where
  "failureCode (LedgerError code) = Some code"
| "failureCode (IdempotencyConflictError key) = Some IDEMPOTENCY_CONFLICT"
| "failureCode (InsufficientBudgetError budget requested available) = Some INSUFFICIENT_BUDGET"
| "failureCode _ = None"

definition UNIQUE_VIOLATION :: string where
  "UNIQUE_VIOLATION = ''23505''"

section \<open>Timestamps\<close>

text \<open>A time is its number of milliseconds since the epoch.\<close>

definition civilFromDays :: "int \<Rightarrow> int \<times> int \<times> int" where
  "civilFromDays z0 =
     (let z = z0 + 719468;
          era = z div 146097;
          doe = z mod 146097;
          yoe = (doe - doe div 1460 + doe div 36524 - doe div 146096) div 365;
          doy = doe - (365 * yoe + yoe div 4 - yoe div 100);
          mp = (5 * doy + 2) div 153;
          d = doy - (153 * mp + 2) div 5 + 1;
          m = (if mp < 10 then mp + 3 else mp - 9)
      in (yoe + era * 400 + (if m \<le> 2 then 1 else 0), m, d))"

definition padded :: "nat \<Rightarrow> int \<Rightarrow> string" where
  "padded w n = (let s = decStr (nat n) in replicate (w - length s) (CHR ''0'') @ s)"

text \<open>\<open>toISOString()\<close> for the years 0 to 9999, without its last part \<open>.mmmZ\<close>.\<close>

definition isoPrefix :: "int \<Rightarrow> string" where
  "isoPrefix ms =
     (let s = ms div 1000;
          (y, m, d) = civilFromDays (s div 86400);
          r = s mod 86400
      in padded 4 y @ ''-'' @ padded 2 m @ ''-'' @ padded 2 d @ ''T'' @
         padded 2 (r div 3600) @ '':'' @ padded 2 (r mod 3600 div 60) @ '':'' @ padded 2 (r mod 60))"

definition toISOString :: "int \<Rightarrow> string" where
  "toISOString ms = isoPrefix ms @ ''.'' @ padded 3 (ms mod 1000) @ ''Z''"

text \<open>\<open>new Date(ms).toISOString().replace(/\.\d{3}Z$/, "Z")\<close>\<close>

definition isoSecond :: "int \<Rightarrow> string" where
  "isoSecond ms = isoPrefix ms @ ''Z''"

text \<open>
  A timestamp that a caller passes: a \<open>Date\<close>, with \<open>None\<close> for an invalid one, or a string in the
  form of the schemas.
\<close>

datatype timestamp = DateObject "int option" | DateString string

fun validDate :: "timestamp \<Rightarrow> failure + int" where
  "validDate (DateObject t) = ofOption TypeError t"
| "validDate (DateString s) = ofOption TypeError (Date_parse s)"

text \<open>\<open>BigInt(s)\<close> and \<open>s::numeric\<close> for the decimal text of an integer.\<close>

definition bigInt :: "string \<Rightarrow> int" where
  "bigInt s = (if s \<noteq> [] \<and> hd s = CHR ''-'' then - int (decVal (tl s)) else int (decVal s))"

section \<open>Rows\<close>

datatype reservation_status = HELD | AUTHORIZED_R | BROADCAST_R | FINALIZED | RELEASED | EXPIRED_R | DISPUTED_R

datatype component_role = ADAPTER | RECONCILER

datatype verification_status = PENDING | VERIFIED_E

datatype lease_state = LeaseActive | LeaseResolved

datatype recovery_outcome = CONFIRMED_O | FAILED | AMBIGUOUS | CONFLICT

datatype scope_type = SYSTEM_SCOPE | OWNER_SCOPE | AGENT_SCOPE | POLICY_SCOPE

datatype approval_status = PENDING_A | APPROVED_A | REJECTED_A | EXPIRED_A | REVOKED_A | CONSUMED_A

datatype approval_decision_type = APPROVE_D | REJECT_D | EXPIRE_D | REVOKE_D | CONSUME_D

datatype authorization_kind = OWNER_APPROVAL | AUTONOMOUS_POLICY

text \<open>The versions and states of the four fences of an operation, as the rows of several tables carry them.\<close>

record fence_snapshot =
  fs_systemFenceVersion :: int
  fs_systemState :: string
  fs_ownerFenceVersion :: int
  fs_ownerState :: string
  fs_agentFenceVersion :: int
  fs_agentState :: string
  fs_policyFenceVersion :: int
  fs_policyState :: string

record agent_row =
  ag_agent_id :: string
  ag_owner_id :: string

record wallet_row =
  wa_wallet_id :: string
  wa_owner_id :: string

record policy_row =
  pl_policy_id :: string
  pl_owner_id :: string
  pl_agent_id :: string
  pl_wallet_id :: string
  pl_status :: policy_status

record intent_row =
  it_intent_id :: string
  it_agent_id :: string
  it_wallet_id :: string
  it_policy_id :: string
  it_policy_version :: int

record operation_row =
  op_operation_id :: string
  op_intent_id :: string
  op_agent_id :: string
  op_wallet_id :: string
  op_policy_id :: string
  op_policy_version :: int
  op_current_state :: lifecycle_state

record envelope_row =
  en_envelope_id :: string
  en_operation_id :: string
  en_revision :: int
  en_envelope_hash :: string
  en_payload :: jsval

record policy_decision_row =
  dr_decision_id :: string
  dr_operation_id :: string
  dr_policy_id :: string
  dr_policy_version :: int
  dr_decision_hash :: string
  dr_decision :: decision
  dr_created_at :: int

record budget_account =
  ba_budget_id :: string
  ba_agent_id :: string
  ba_wallet_id :: string
  ba_policy_id :: string
  ba_policy_version :: int
  ba_allocated :: int
  ba_available :: int
  ba_reserved :: int
  ba_finalized_spend :: int
  ba_version :: int

record budget_reservation =
  br_reservation_id :: string
  br_budget_id :: string
  br_operation_id :: string
  br_idempotency_key :: string
  br_amount_atomic :: int
  br_finalized_spend_atomic :: int
  br_status :: reservation_status
  br_expires_at :: int
  br_proof_reference :: "string option"

record idempotency_record =
  ir_idempotency_key :: string
  ir_payload_hash :: string
  ir_intent_id :: string
  ir_operation_id :: string
  ir_reservation_id :: "string option"

record audit_event =
  ev_eventId :: string
  ev_eventType :: string
  ev_occurredAt :: string
  ev_sequence :: int
  ev_actorType :: string
  ev_actorId :: string
  ev_ownerId :: "string option"
  ev_agentId :: "string option"
  ev_walletId :: "string option"
  ev_intentId :: "string option"
  ev_operationId :: "string option"
  ev_policyId :: "string option"
  ev_policyVersion :: "int option"
  ev_traceId :: string
  ev_data :: "(string \<times> jsval) list"
  ev_previousEventHash :: "string option"
  ev_eventHash :: string

record audit_row =
  ar_event :: audit_event
  ar_canonical_payload :: string
  ar_reservation_id :: "string option"

record evidence_row =
  be_reservation_id :: string
  be_transaction_hash :: string
  be_nonce :: int
  be_receipt_reference :: string
  be_verification_source :: string
  be_verification_status :: verification_status
  be_verified_at :: "int option"
  be_verified_by :: "string option"
  be_adapter :: "string \<times> string \<times> component_role \<times> string \<times> string"
  be_verification :: "(string \<times> string \<times> component_role \<times> string \<times> string) option"

record credential_row =
  cr_credential_id :: string
  cr_component_id :: string
  cr_component_role :: component_role
  cr_public_key :: string
  cr_active :: bool

record lease_row =
  le_operation_id :: string
  le_reservation_id :: string
  le_credential_id :: string
  le_lease_version :: int
  le_lease_expires_at :: int
  le_lease_state :: lease_state

record attempt_row =
  at_attempt_id :: string
  at_operation_id :: string
  at_reservation_id :: string
  at_lease_version :: int
  at_credential_id :: string
  at_outcome :: recovery_outcome
  at_resolution_hash :: string
  at_reason :: string
  at_actual_spend_atomic :: "int option"
  at_proof_reference :: "string option"

record fence_row =
  fe_scope_type :: scope_type
  fe_scope_id :: string
  fe_fence_version :: int
  fe_state :: string
  fe_last_control_event_id :: "string option"

record approval_request_row =
  ap_approval_id :: string
  ap_operation_id :: string
  ap_reservation_id :: string
  ap_envelope_id :: string
  ap_envelope_revision :: int
  ap_envelope_hash :: string
  ap_policy_decision_id :: string
  ap_policy_decision_hash :: string
  ap_policy_id :: string
  ap_policy_version :: int
  ap_approver_id :: "string option"
  ap_issued_at :: int
  ap_expires_at :: int
  ap_nonce :: string
  ap_status :: approval_status
  ap_approved_at :: "int option"
  ap_rejected_at :: "int option"
  ap_expired_at :: "int option"
  ap_revoked_at :: "int option"
  ap_consumed_at :: "int option"
  ap_reason :: "string option"
  ap_fences :: fence_snapshot

record approval_decision_row =
  ad_approval_decision_id :: string
  ad_approval_id :: string
  ad_decision_type :: approval_decision_type
  ad_approver_id :: string
  ad_decided_at :: int
  ad_envelope_hash :: string
  ad_policy_decision_id :: string
  ad_policy_version :: int
  ad_decision_nonce :: string
  ad_reason :: "string option"
  ad_fences :: fence_snapshot

record owner_key_row =
  ok_key_id :: string
  ok_owner_id :: string
  ok_algorithm :: string
  ok_public_key :: string
  ok_active :: bool

record owner_authentication_row =
  oa_authentication_id :: string
  oa_approval_id :: string
  oa_owner_id :: string
  oa_approver_id :: string
  oa_key_id :: string
  oa_envelope_hash :: string
  oa_policy_id :: string
  oa_policy_version :: int
  oa_expires_at :: int
  oa_nonce :: string
  oa_signature :: string
  oa_authenticated_at :: int
  oa_consumed_at :: "int option"

record authorization_row =
  az_authorization_id :: string
  az_reservation_id :: string
  az_operation_id :: string
  az_envelope_id :: string
  az_envelope_revision :: int
  az_envelope_hash :: string
  az_policy_decision_id :: string
  az_policy_decision_hash :: string
  az_policy_id :: string
  az_policy_version :: int
  az_kind :: authorization_kind
  az_approval_id :: "string option"
  az_approver_id :: "string option"
  az_issued_at :: int
  az_expires_at :: int
  az_authorized_at :: int
  az_consumed_at :: int
  az_consumer_id :: string
  az_consumption_nonce :: string
  az_fences :: fence_snapshot

record invalidation_row =
  iv_invalidation_id :: string
  iv_authorization_id :: string
  iv_operation_id :: string
  iv_control_event_id :: string
  iv_reason :: string

section \<open>The database\<close>

record db =
  owners :: "string list" \<comment> \<open>the column \<open>owner_id\<close>\<close>
  agents :: "agent_row list"
  wallets :: "wallet_row list"
  policies :: "policy_row list"
  intents :: "intent_row list"
  operations :: "operation_row list"
  execution_envelopes :: "envelope_row list"
  policy_decisions :: "policy_decision_row list"
  budget_accounts :: "budget_account list"
  budget_reservations :: "budget_reservation list"
  idempotency_records :: "idempotency_record list"
  audit_events :: "audit_row list"
  broadcast_evidence :: "evidence_row list"
  credentials :: "credential_row list"
  recovery_leases :: "lease_row list"
  recovery_attempts :: "attempt_row list"
  control_fences :: "fence_row list"
  authorization_evidence :: "authorization_row list"
  authorization_invalidations :: "invalidation_row list"
  approval_requests :: "approval_request_row list"
  approval_decisions :: "approval_decision_row list"
  local_owner_approval_keys :: "owner_key_row list"
  owner_approval_authentications :: "owner_authentication_row list"

text \<open>\<open>SELECT ... WHERE key = k\<close> on a key, and \<open>UPDATE ... WHERE key = k\<close>.\<close>

definition rowWith :: "('r \<Rightarrow> 'k) \<Rightarrow> 'k \<Rightarrow> 'r list \<Rightarrow> 'r option" where
  "rowWith key k rows = find (\<lambda>r. key r = k) rows"

definition updateWith :: "('r \<Rightarrow> 'k) \<Rightarrow> 'k \<Rightarrow> ('r \<Rightarrow> 'r) \<Rightarrow> 'r list \<Rightarrow> 'r list" where
  "updateWith key k f rows = map (\<lambda>r. if key r = k then f r else r) rows"

section \<open>Transactions\<close>

text \<open>
  One attempt of a transaction meets one server: its clock (\<open>clock_timestamp()\<close>), the clock of the
  process that runs the service, what the server refuses of the statements and of \<open>COMMIT\<close>.
\<close>

record server =
  sv_clock :: int
  sv_nodeClock :: int
  sv_refuses :: "db \<Rightarrow> db \<Rightarrow> string option"
  sv_commit :: "db \<Rightarrow> db \<Rightarrow> string option"

type_synonym 'a tx = "server \<Rightarrow> db \<Rightarrow> failure + ('a \<times> db)"

definition txReturn :: "'a \<Rightarrow> 'a tx" where
  "txReturn x sv d = Inr (x, d)"

definition txBind :: "'a tx \<Rightarrow> ('a \<Rightarrow> 'b tx) \<Rightarrow> 'b tx" where
  "txBind m f sv d = (case m sv d of Inl e \<Rightarrow> Inl e | Inr (x, d') \<Rightarrow> f x sv d')"

definition txThen :: "unit tx \<Rightarrow> 'b tx \<Rightarrow> 'b tx" where
  "txThen m n = txBind m (\<lambda>_. n)"

definition txThrow :: "failure \<Rightarrow> 'a tx" where
  "txThrow e sv d = Inl e"

text \<open>A value that may be an exception, a condition that must hold, a query, the server's clocks.\<close>

definition txLift :: "failure + 'a \<Rightarrow> 'a tx" where
  "txLift r sv d = (case r of Inl e \<Rightarrow> Inl e | Inr x \<Rightarrow> Inr (x, d))"

definition txRequire :: "bool \<Rightarrow> failure \<Rightarrow> unit tx" where
  "txRequire b e = txLift (require b e)"

definition txQuery :: "(db \<Rightarrow> 'a) \<Rightarrow> 'a tx" where
  "txQuery q sv d = Inr (q d, d)"

definition txServer :: "(server \<Rightarrow> 'a) \<Rightarrow> 'a tx" where
  "txServer q sv d = Inr (q sv, d)"

text \<open>A statement that changes the tables, unless the server refuses it.\<close>

definition txExec :: "(db \<Rightarrow> db) \<Rightarrow> unit tx" where
  "txExec f sv d = (case sv_refuses sv d (f d) of None \<Rightarrow> Inr ((), f d) | Some state \<Rightarrow> Inl (DatabaseError state))"

text \<open>
  \<open>INSERT\<close> into a table with keys: \<open>clash new old\<close> tells that two rows share one. \<open>UPDATE ... WHERE key = k AND ...\<close> on
  the key of a table: the answer is whether a row was updated (\<open>rowCount === 1\<close>).
\<close>

definition txInsert :: "(('r list \<Rightarrow> 'r list) \<Rightarrow> db \<Rightarrow> db) \<Rightarrow> (db \<Rightarrow> 'r list) \<Rightarrow> ('r \<Rightarrow> 'r \<Rightarrow> bool) \<Rightarrow> 'r \<Rightarrow> unit tx" where
  "txInsert tableUpdate table clash row =
     txBind (txQuery (\<lambda>d. list_ex (clash row) (table d))) (\<lambda>taken.
     txThen (txRequire (\<not> taken) (DatabaseError UNIQUE_VIOLATION))
     (txExec (tableUpdate (\<lambda>rows. rows @ [row]))))"

definition txUpdateOne ::
  "(('r list \<Rightarrow> 'r list) \<Rightarrow> db \<Rightarrow> db) \<Rightarrow> (db \<Rightarrow> 'r list) \<Rightarrow> ('r \<Rightarrow> 'k) \<Rightarrow> 'k \<Rightarrow> ('r \<Rightarrow> bool) \<Rightarrow> ('r \<Rightarrow> 'r) \<Rightarrow> bool tx" where
  "txUpdateOne tableUpdate table key k cond f =
     txBind (txQuery (\<lambda>d. rowWith key k (table d))) (\<lambda>found.
     case found of
       None \<Rightarrow> txReturn False
     | Some r \<Rightarrow>
         if cond r then txThen (txExec (tableUpdate (updateWith key k f))) (txReturn True) else txReturn False)"

text \<open>\<open>for (const row of rows) await f(row)\<close>; and \<open>ORDER BY ... LIMIT 1\<close>, where \<open>better r b\<close> tells that \<open>r\<close> comes before \<open>b\<close>.\<close>

fun txEach :: "('a \<Rightarrow> unit tx) \<Rightarrow> 'a list \<Rightarrow> unit tx" where
  "txEach f [] = txReturn ()"
| "txEach f (x # xs) = txThen (f x) (txEach f xs)"

definition topBy :: "('r \<Rightarrow> 'r \<Rightarrow> bool) \<Rightarrow> 'r list \<Rightarrow> 'r option" where
  "topBy better rows =
     foldl (\<lambda>best r. case best of None \<Rightarrow> Some r | Some b \<Rightarrow> if better r b then Some r else Some b) None rows"

fun isSerializationFailure :: "failure \<Rightarrow> bool" where
  "isSerializationFailure (DatabaseError code) \<longleftrightarrow> code = ''40001''"
| "isSerializationFailure _ \<longleftrightarrow> False"

text \<open>
  One attempt: \<open>BEGIN\<close>, the work and \<open>COMMIT\<close>, or \<open>ROLLBACK\<close>, after which the tables are as they
  were.
\<close>

definition runAttempt :: "'a tx \<Rightarrow> server \<Rightarrow> db \<Rightarrow> (failure + 'a) \<times> db" where
  "runAttempt work sv d =
     (case work sv d of
        Inl e \<Rightarrow> (Inl e, d)
      | Inr (x, d') \<Rightarrow> (case sv_commit sv d d' of None \<Rightarrow> (Inr x, d') | Some state \<Rightarrow> (Inl (DatabaseError state), d)))"

text \<open>
  The loop over the attempts; \<open>left\<close> is \<open>maxRetries - attempt\<close>. The server may differ between
  attempts, and other transactions may commit between them: \<open>others i\<close> is what they did to the
  tables before attempt \<open>i\<close>.
\<close>

fun attemptLoop :: "'a tx \<Rightarrow> (nat \<Rightarrow> server) \<Rightarrow> (nat \<Rightarrow> db \<Rightarrow> db) \<Rightarrow> nat \<Rightarrow> nat \<Rightarrow> db \<Rightarrow> (failure + 'a) \<times> db" where
  "attemptLoop work servers others attempt left d =
     (case runAttempt work (servers attempt) (others attempt d) of
        (Inr x, d') \<Rightarrow> (Inr x, d')
      | (Inl e, d') \<Rightarrow>
          (if \<not> isSerializationFailure e then (Inl e, d')
           else case left of 0 \<Rightarrow> (Inl e, d')
                | Suc left' \<Rightarrow> attemptLoop work servers others (Suc attempt) left' d'))"

declare attemptLoop.simps [simp del]

record environment =
  envServers :: "nat \<Rightarrow> server"
  envOthers :: "nat \<Rightarrow> db \<Rightarrow> db"

definition DEFAULT_MAX_RETRIES :: int where
  "DEFAULT_MAX_RETRIES = 3"

definition withSerializableTransaction ::
  "environment \<Rightarrow> int option \<Rightarrow> 'a tx \<Rightarrow> db \<Rightarrow> (failure + 'a) \<times> db" where
  "withSerializableTransaction E maxRetriesOption work d =
     (let maxRetries = (case maxRetriesOption of None \<Rightarrow> DEFAULT_MAX_RETRIES | Some n \<Rightarrow> n)
      in if maxRetries < 0 \<or> maxRetries > 8 then (Inl RangeError, d)
         else attemptLoop work (envServers E) (envOthers E) 0 (nat maxRetries) d)"

section \<open>Lemmas: successful runs of a transaction\<close>

named_theorems tx_simps "when a step of a transaction succeeds, and with what"

lemma txReturn_Inr [tx_simps]: "txReturn x sv d = Inr (y, d') \<longleftrightarrow> y = x \<and> d' = d"
  by (auto simp: txReturn_def)

lemma txBind_Inr [tx_simps]:
  "txBind m f sv d = Inr (y, d'') \<longleftrightarrow> (\<exists>x d'. m sv d = Inr (x, d') \<and> f x sv d' = Inr (y, d''))"
  by (auto simp: txBind_def split: sum.splits)

lemma txThen_Inr [tx_simps]:
  "txThen m n sv d = Inr (y, d'') \<longleftrightarrow> (\<exists>d'. m sv d = Inr ((), d') \<and> n sv d' = Inr (y, d''))"
  by (auto simp: txThen_def txBind_Inr)

lemma txThrow_Inr [tx_simps]: "txThrow e sv d = Inr r \<longleftrightarrow> False"
  by (simp add: txThrow_def)

lemma txLift_Inr [tx_simps]: "txLift r sv d = Inr (x, d') \<longleftrightarrow> r = Inr x \<and> d' = d"
  by (auto simp: txLift_def split: sum.splits)

lemma txRequire_Inr [tx_simps]: "txRequire b e sv d = Inr (u, d') \<longleftrightarrow> b \<and> d' = d"
  by (auto simp: txRequire_def txLift_Inr)

lemma txQuery_Inr [tx_simps]: "txQuery q sv d = Inr (x, d') \<longleftrightarrow> x = q d \<and> d' = d"
  by (auto simp: txQuery_def)

lemma txServer_Inr [tx_simps]: "txServer q sv d = Inr (x, d') \<longleftrightarrow> x = q sv \<and> d' = d"
  by (auto simp: txServer_def)

lemma txExec_Inr [tx_simps]: "txExec f sv d = Inr (u, d') \<longleftrightarrow> sv_refuses sv d (f d) = None \<and> d' = f d"
  by (auto simp: txExec_def split: option.splits)

lemma txInsert_Inr [tx_simps]:
  "txInsert tableUpdate table clash row sv d = Inr (u, d') \<longleftrightarrow>
     \<not> list_ex (clash row) (table d) \<and> sv_refuses sv d (tableUpdate (\<lambda>rows. rows @ [row]) d) = None
     \<and> d' = tableUpdate (\<lambda>rows. rows @ [row]) d"
  by (auto simp: txInsert_def tx_simps)

text \<open>An update that must hit its row.\<close>

lemma txUpdateOne_Inr:
  "txUpdateOne tableUpdate table key k cond f sv d = Inr (True, d') \<longleftrightarrow>
     (\<exists>r. rowWith key k (table d) = Some r \<and> cond r
        \<and> sv_refuses sv d (tableUpdate (updateWith key k f) d) = None \<and> d' = tableUpdate (updateWith key k f) d)"
  by (auto simp: txUpdateOne_def tx_simps split: option.splits if_splits)

section \<open>Lemmas: failing runs of a transaction\<close>

named_theorems tx_fail "when a step of a transaction fails, and with what"

lemma txReturn_Inl [tx_fail]: "txReturn x sv d = Inl e \<longleftrightarrow> False"
  by (simp add: txReturn_def)

lemma txBind_Inl [tx_fail]:
  "txBind m f sv d = Inl e \<longleftrightarrow> m sv d = Inl e \<or> (\<exists>x d'. m sv d = Inr (x, d') \<and> f x sv d' = Inl e)"
  by (auto simp: txBind_def split: sum.splits)

lemma txThen_Inl [tx_fail]:
  "txThen m n sv d = Inl e \<longleftrightarrow> m sv d = Inl e \<or> (\<exists>d'. m sv d = Inr ((), d') \<and> n sv d' = Inl e)"
  by (auto simp: txThen_def txBind_Inl)

lemma txThrow_Inl [tx_fail]: "txThrow e sv d = Inl e' \<longleftrightarrow> e' = e"
  by (auto simp: txThrow_def)

lemma txLift_Inl [tx_fail]: "txLift r sv d = Inl e \<longleftrightarrow> r = Inl e"
  by (auto simp: txLift_def split: sum.splits)

lemma txRequire_Inl [tx_fail]: "txRequire b e sv d = Inl e' \<longleftrightarrow> \<not> b \<and> e' = e"
  by (auto simp: txRequire_def txLift_Inl)

lemma txQuery_Inl [tx_fail]: "txQuery q sv d = Inl e \<longleftrightarrow> False"
  by (simp add: txQuery_def)

lemma txServer_Inl [tx_fail]: "txServer q sv d = Inl e \<longleftrightarrow> False"
  by (simp add: txServer_def)

section \<open>Steps that keep an invariant of the tables\<close>

text \<open>An invariant is kept by a transaction when each of its steps keeps it.\<close>

definition keeps :: "(db \<Rightarrow> bool) \<Rightarrow> 'a tx \<Rightarrow> bool" where
  "keeps I m \<longleftrightarrow> (\<forall>sv d x d'. I d \<longrightarrow> m sv d = Inr (x, d') \<longrightarrow> I d')"

named_theorems keeps_intros "steps that keep an invariant"

lemma keeps_pure [keeps_intros]:
  "keeps I (txReturn x)" "keeps I (txThrow e)" "keeps I (txLift r)" "keeps I (txRequire b e)"
  "keeps I (txQuery q)" "keeps I (txServer q')"
  by (auto simp: keeps_def tx_simps)

lemma keeps_bind [keeps_intros]: "keeps I m \<Longrightarrow> (\<And>x. keeps I (f x)) \<Longrightarrow> keeps I (txBind m f)"
  unfolding keeps_def txBind_Inr by blast

lemma keeps_then [keeps_intros]: "keeps I m \<Longrightarrow> keeps I n \<Longrightarrow> keeps I (txThen m n)"
  by (simp add: txThen_def keeps_bind)

lemma keeps_exec: "(\<And>d. I d \<Longrightarrow> I (f d)) \<Longrightarrow> keeps I (txExec f)"
  by (auto simp: keeps_def tx_simps)

lemma keeps_cases [keeps_intros]:
  "(b \<Longrightarrow> keeps I m) \<Longrightarrow> (\<not> b \<Longrightarrow> keeps I n) \<Longrightarrow> keeps I (if b then m else n)"
  "(y = None \<Longrightarrow> keeps I m') \<Longrightarrow> (\<And>z. y = Some z \<Longrightarrow> keeps I (f z)) \<Longrightarrow>
     keeps I (case y of None \<Rightarrow> m' | Some z \<Rightarrow> f z)"
  "(\<And>u v. p = (u, v) \<Longrightarrow> keeps I (g u v)) \<Longrightarrow> keeps I (case p of (u, v) \<Rightarrow> g u v)"
  by (auto split: option.splits prod.splits)

section \<open>Lemmas: rows\<close>

lemma rowWith_Some: "rowWith key k rows = Some r \<Longrightarrow> r \<in> set rows \<and> key r = k"
  by (auto simp: rowWith_def find_Some_iff)

lemma rowWith_None: "rowWith key k rows = None \<longleftrightarrow> k \<notin> key ` set rows"
  by (auto simp: rowWith_def find_None_iff)

lemma rowWith_append:
  "rowWith key k (xs @ ys) = (case rowWith key k xs of None \<Rightarrow> rowWith key k ys | Some r \<Rightarrow> Some r)"
  by (induction xs) (auto simp: rowWith_def)

lemma rowWith_unique: "distinct (map key rows) \<Longrightarrow> r \<in> set rows \<Longrightarrow> rowWith key (key r) rows = Some r"
  by (induction rows) (auto simp: rowWith_def)

lemma rowWith_updateWith:
  assumes "\<And>r. key (f r) = key r"
  shows "rowWith key k (updateWith key k' f rows) =
    (if k = k' then map_option f (rowWith key k rows) else rowWith key k rows)"
  using assms by (induction rows) (auto simp: rowWith_def updateWith_def)

lemma map_updateWith [simp]: "(\<And>r. key' (f r) = key' r) \<Longrightarrow> map key' (updateWith key k f rows) = map key' rows"
  by (simp add: updateWith_def)

lemma set_updateWith: "set (updateWith key k f rows) = (\<lambda>r. if key r = k then f r else r) ` set rows"
  by (auto simp: updateWith_def)

lemma sum_list_updateWith:
  fixes g :: "'r \<Rightarrow> int"
  assumes "distinct (map key rows)" "rowWith key k rows = Some r"
  shows "sum_list (map g (updateWith key k f rows)) = sum_list (map g rows) - g r + g (f r)"
  using assms
proof (induction rows)
  case Nil
  then show ?case by (simp add: rowWith_def)
next
  case (Cons a rows)
  show ?case
  proof (cases "key a = k")
    case True
    then have "updateWith key k f rows = rows"
      using Cons.prems(1) unfolding updateWith_def by (intro map_idI) (metis (no_types, lifting) distinct.simps(2) imageI list.map(2) set_map)
    with True Cons.prems show ?thesis by (simp add: updateWith_def rowWith_def)
  next
    case False
    with Cons show ?thesis by (simp add: updateWith_def rowWith_def)
  qed
qed

section \<open>Lemmas: numbers and their text\<close>

lemma bigInt_intStr [simp]: "bigInt (intStr n) = n"
proof (cases "n < 0")
  case False
  have "hd (decStr (nat n)) \<noteq> CHR ''-''" using digits_decStr [of "nat n"]
    by (cases "decStr (nat n)") (auto simp: isDigit_def)
  with False show ?thesis by (simp add: bigInt_def intStr_def decVal_decStr)
qed (simp add: bigInt_def intStr_def decVal_decStr)

lemma bigInt_canonical: "canonicalDec s \<Longrightarrow> bigInt s = int (decVal s)"
  by (cases s) (auto simp: bigInt_def canonicalDec_def isDigit_def)

lemma intStr_bigInt: "canonicalDec s \<Longrightarrow> intStr (bigInt s) = s"
  by (simp add: bigInt_canonical intStr_def decStr_decVal)

section \<open>Atomicity of a transaction\<close>

text \<open>The tables that attempt \<open>i\<close> meets when the earlier attempts left nothing behind.\<close>

fun tablesBefore :: "(nat \<Rightarrow> db \<Rightarrow> db) \<Rightarrow> nat \<Rightarrow> nat \<Rightarrow> db \<Rightarrow> db" where
  "tablesBefore others first 0 d = others first d"
| "tablesBefore others first (Suc n) d = tablesBefore others (Suc first) n (others first d)"

lemma runAttempt_rollback: "runAttempt work sv d = (Inl e, d') \<Longrightarrow> d' = d"
  by (auto simp: runAttempt_def split: sum.splits option.splits)

lemma runAttempt_commit: "runAttempt work sv d = (Inr x, d') \<longleftrightarrow> work sv d = Inr (x, d') \<and> sv_commit sv d d' = None"
  by (auto simp: runAttempt_def split: sum.splits option.splits)

definition retried :: "(failure + 'a) \<times> db \<Rightarrow> bool" where
  "retried r \<longleftrightarrow> (case fst r of Inl e \<Rightarrow> isSerializationFailure e | Inr x \<Rightarrow> False)"

lemma attemptLoop_one:
  "\<exists>i \<le> left. attemptLoop work svs others attempt left d
       = runAttempt work (svs (attempt + i)) (tablesBefore others attempt i d)
     \<and> (\<forall>j < i. retried (runAttempt work (svs (attempt + j)) (tablesBefore others attempt j d)))"
proof (induction left arbitrary: attempt d)
  case 0
  show ?case
    by (subst attemptLoop.simps) (auto split: prod.splits sum.splits)
next
  case (Suc left)
  let ?first = "runAttempt work (svs attempt) (others attempt d)"
  show ?case
  proof (cases "retried ?first")
    case False
    then have "attemptLoop work svs others attempt (Suc left) d = ?first"
      by (subst attemptLoop.simps) (auto simp: retried_def split: prod.splits sum.splits)
    then show ?thesis by (intro exI [of _ 0]) simp
  next
    case True
    then obtain e where e: "?first = (Inl e, others attempt d)" "isSerializationFailure e"
      using runAttempt_rollback [of work "svs attempt" "others attempt d"]
      by (cases ?first) (auto simp: retried_def split: sum.splits)
    from Suc [of "Suc attempt" "others attempt d"] obtain i where i: "i \<le> left"
      "attemptLoop work svs others (Suc attempt) left (others attempt d)
        = runAttempt work (svs (attempt + Suc i)) (tablesBefore others attempt (Suc i) d)"
      "\<forall>j < i. retried (runAttempt work (svs (attempt + Suc j)) (tablesBefore others attempt (Suc j) d))"
      by auto
    have "attemptLoop work svs others attempt (Suc left) d
        = attemptLoop work svs others (Suc attempt) left (others attempt d)"
      using e by (subst attemptLoop.simps) simp
    moreover have "retried (runAttempt work (svs (attempt + j)) (tablesBefore others attempt j d))" if "j < Suc i" for j
      using that True i(3) by (cases j) auto
    ultimately show ?thesis using i by (intro exI [of _ "Suc i"]) auto
  qed
qed

section \<open>Work that keeps an invariant of the tables\<close>

text \<open>
  The contract between a service and its transactions: if the work keeps an invariant whenever
  it succeeds, and the other transactions keep it, then so does the transaction, whatever the
  server refuses and however often it is retried.
\<close>

locale invariant_work =
  fixes inv :: "db \<Rightarrow> bool" and work :: "'a tx"
  assumes work_keeps: "inv d \<Longrightarrow> work sv d = Inr (x, d') \<Longrightarrow> inv d'"
begin

lemma runAttempt_keeps: "inv d \<Longrightarrow> inv (snd (runAttempt work sv d))"
  using work_keeps by (auto simp: runAttempt_def split: sum.splits option.splits)

lemma tablesBefore_keeps: "(\<And>i d. inv d \<Longrightarrow> inv (others i d)) \<Longrightarrow> inv d \<Longrightarrow> inv (tablesBefore others first n d)"
  by (induction n arbitrary: first d) auto

lemma transaction_keeps:
  assumes "\<And>i d. inv d \<Longrightarrow> inv (envOthers E i d)" "inv d"
  shows "inv (snd (withSerializableTransaction E n work d))"
proof -
  have "inv (snd (attemptLoop work (envServers E) (envOthers E) 0 left d))" for left
    using attemptLoop_one [of left work "envServers E" "envOthers E" 0 d]
      runAttempt_keeps [OF tablesBefore_keeps [OF assms]] by auto
  then show ?thesis using assms(2) by (simp add: withSerializableTransaction_def Let_def)
qed

end

section \<open>Properties\<close>

text \<open>
  C23. A transaction happens once or not at all: \<open>withSerializableTransaction\<close> refuses a number of
  retries outside 0 to 8 and otherwise its outcome is that of one single attempt among the first
  \<open>maxRetries + 1\<close>. Every earlier attempt failed with a serialization failure and left no trace, so
  the deciding attempt meets only what other transactions did; if it fails, the tables are the
  ones it met, and if it succeeds, they are exactly what its work computed from those.
\<close>

theorem transaction_atomic:
  "(let result = withSerializableTransaction E (Some n) work d;
        attempt = (\<lambda>i. runAttempt work (envServers E i) (tablesBefore (envOthers E) 0 i d))
    in (n < 0 \<or> 8 < n) \<and> result = (Inl RangeError, d)
     \<or> (0 \<le> n \<and> n \<le> 8) \<and> (\<exists>i. int i \<le> n \<and> result = attempt i
         \<and> filter (\<lambda>j. retried (attempt j)) [0..<i] = [0..<i]
         \<and> (case fst result of
              Inl e \<Rightarrow> snd result = tablesBefore (envOthers E) 0 i d
            | Inr x \<Rightarrow> work (envServers E i) (tablesBefore (envOthers E) 0 i d) = Inr (x, snd result))))"
proof (cases "n < 0 \<or> 8 < n")
  case True
  then show ?thesis by (auto simp: withSerializableTransaction_def Let_def)
next
  case False
  let ?attempt = "\<lambda>i. runAttempt work (envServers E i) (tablesBefore (envOthers E) 0 i d)"
  let ?result = "withSerializableTransaction E (Some n) work d"
  from attemptLoop_one [of "nat n" work "envServers E" "envOthers E" 0 d]
  obtain i where loop: "i \<le> nat n" "attemptLoop work (envServers E) (envOthers E) 0 (nat n) d = ?attempt i"
    "\<forall>j < i. retried (?attempt j)" by auto
  with False have i: "int i \<le> n" "?result = ?attempt i" "\<forall>j < i. retried (?attempt j)"
    by (auto simp: withSerializableTransaction_def Let_def)
  have "case fst (?attempt i) of
       Inl e \<Rightarrow> snd (?attempt i) = tablesBefore (envOthers E) 0 i d
     | Inr x \<Rightarrow> work (envServers E i) (tablesBefore (envOthers E) 0 i d) = Inr (x, snd (?attempt i))"
    by (auto simp: runAttempt_def split: sum.splits option.splits)
  with i(1,3) False show ?thesis
    unfolding Let_def i(2) by (auto simp: filter_id_conv intro!: exI [of _ i])
qed

end
