(* ===== verification/TrustBoundary.thy ===== *)
theory TrustBoundary
  imports Database "HOL-Library.Multiset"
begin

text \<open>
  Signed actions of the trusted components (\<open>packages/trust-boundary/src/index.ts\<close>): the message
  that is signed, its hash, signing and verification. Ed25519 and the collation of
  \<open>localeCompare\<close> are fields of \<open>externals\<close>; nothing is assumed of the collation.
\<close>

record component_authorization =
  ca_credentialId :: string
  ca_componentId :: string
  ca_role :: component_role
  ca_signature :: string

record component_credential =
  cc_credentialId :: string
  cc_componentId :: string
  cc_role :: component_role
  cc_publicKey :: string
  cc_privateKey :: string

fun roleName :: "component_role \<Rightarrow> string" where
  "roleName ADAPTER = ''ADAPTER''"
| "roleName RECONCILER = ''RECONCILER''"

definition AUTH_DOMAIN :: string where
  "AUTH_DOMAIN = ''crip/component-auth/v1'' @ [CHR 0x00]"

text \<open>\<open>entries.sort(([left], [right]) => left.localeCompare(right))\<close>\<close>

fun insertEntry :: "(string \<Rightarrow> string \<Rightarrow> bool) \<Rightarrow> string \<times> 'v \<Rightarrow> (string \<times> 'v) list \<Rightarrow> (string \<times> 'v) list" where
  "insertEntry le x [] = [x]"
| "insertEntry le x (y # ys) = (if le (fst x) (fst y) then x # y # ys else y # insertEntry le x ys)"

definition sortEntries :: "(string \<Rightarrow> string \<Rightarrow> bool) \<Rightarrow> (string \<times> 'v) list \<Rightarrow> (string \<times> 'v) list" where
  "sortEntries le entries = foldr (insertEntry le) entries []"

fun sortValue :: "externals \<Rightarrow> jsval \<Rightarrow> jsval" where
  "sortValue X (JArray vs) = JArray (map (sortValue X) vs)"
| "sortValue X (JObject kvs) = JObject (sortEntries (localeLe X) (map (\<lambda>(key, v). (key, sortValue X v)) kvs))"
| "sortValue X v = v"

text \<open>\<open>JSON.stringify\<close> of an object is the text of its JSON round trip.\<close>

definition canonicalize :: "externals \<Rightarrow> jsval \<Rightarrow> string" where
  "canonicalize X v = jsonText (jsonRoundTrip (sortValue X v))"

definition canonicalComponentAuthPayload ::
  "externals \<Rightarrow> string \<Rightarrow> component_authorization \<Rightarrow> (string \<times> jsval) list \<Rightarrow> string" where
  "canonicalComponentAuthPayload X action authorization payload =
     canonicalize X (JObject
       [(''domain'', JString AUTH_DOMAIN),
        (''version'', JNumber (jsInt 1)),
        (''action'', JString action),
        (''credentialId'', JString (ca_credentialId authorization)),
        (''componentId'', JString (ca_componentId authorization)),
        (''role'', JString (roleName (ca_role authorization))),
        (''payload'', JObject payload)])"

definition componentAuthPayloadHash ::
  "externals \<Rightarrow> string \<Rightarrow> component_authorization \<Rightarrow> (string \<times> jsval) list \<Rightarrow> string" where
  "componentAuthPayloadHash X action authorization payload =
     ''sha256:'' @ sha256Hex X (utf8 (canonicalComponentAuthPayload X action authorization payload))"

definition base64urlText :: "string \<Rightarrow> bool" where
  "base64urlText s \<longleftrightarrow> s \<noteq> [] \<and> list_all (\<lambda>c. isAlnum c \<or> c = CHR ''_'' \<or> c = CHR ''-'') s"

definition identifierText :: "string \<Rightarrow> bool" where
  "identifierText s \<longleftrightarrow> s \<noteq> [] \<and> list_all identifierChar s"

definition signComponentAction ::
  "externals \<Rightarrow> component_credential \<Rightarrow> string \<Rightarrow> (string \<times> jsval) list \<Rightarrow> component_authorization" where
  "signComponentAction X credential action payload =
     (let identity = \<lparr>ca_credentialId = cc_credentialId credential, ca_componentId = cc_componentId credential,
                      ca_role = cc_role credential, ca_signature = []\<rparr>
      in identity\<lparr>ca_signature := ed25519Sign X (cc_privateKey credential)
           (utf8 (canonicalComponentAuthPayload X action identity payload))\<rparr>)"

text \<open>The test of the role against its two names always succeeds on a value of the type.\<close>

definition verifyComponentAction ::
  "externals \<Rightarrow> component_authorization \<Rightarrow> string \<Rightarrow> string \<Rightarrow> (string \<times> jsval) list \<Rightarrow> failure + bool" where
  "verifyComponentAction X authorization publicKey action payload =
     (if \<not> identifierText (ca_credentialId authorization) then Inr False
      else if \<not> identifierText (ca_componentId authorization) then Inr False
      else if roleName (ca_role authorization) \<notin> {''ADAPTER'', ''RECONCILER''} then Inr False
      else if \<not> base64urlText (ca_signature authorization) then Inr False
      else if \<not> base64urlText publicKey then Inr False
      else ofOption PlainError (ed25519Verify X publicKey
             (utf8 (canonicalComponentAuthPayload X action authorization payload)) (ca_signature authorization)))"

section \<open>Lemmas: sorted entries\<close>

lemma mset_insertEntry [simp]: "mset (insertEntry le x ys) = {#x#} + mset ys"
  by (induction ys) auto

lemma mset_sortEntries [simp]: "mset (sortEntries le entries) = mset entries"
  by (induction entries) (auto simp: sortEntries_def)

lemma set_sortEntries [simp]: "set (sortEntries le entries) = set entries"
  by (metis mset_sortEntries set_mset_mset)

lemma distinct_sortEntries [simp]: "distinct (map fst (sortEntries le entries)) = distinct (map fst entries)"
  by (rule mset_eq_imp_distinct_iff) (simp only: mset_map mset_sortEntries)

lemma map_of_sortEntries: "distinct (map fst entries) \<Longrightarrow> map_of (sortEntries le entries) k = map_of entries k"
  by (intro map_of_inject_set [THEN iffD2, THEN fun_cong]) simp_all

lemma sortValue_undefined [simp]: "sortValue X v = JUndefined \<longleftrightarrow> v = JUndefined"
  by (cases v) auto

lemma getProp_sortValue: "wfJson v \<Longrightarrow> getProp (sortValue X v) k = sortValue X (getProp v k)"
proof (cases v)
  case (JObject kvs)
  assume "wfJson v"
  then have "distinct (map fst (map (\<lambda>(k, v). (k, sortValue X v)) kvs))" using JObject by (simp del: map_map)
  with JObject show ?thesis by (simp add: map_of_sortEntries map_of_map_snd split: option.splits)
qed simp_all

lemma wfJson_sortValue: "wfJson v \<Longrightarrow> wfJson (sortValue X v)"
proof (induction v)
  case (JObject kvs)
  then have "wfJson (sortValue X v)" if "(k, v) \<in> set kvs" for k v
    using JObject.IH [of "(k, v)" v] that by (auto simp: list_all_iff)
  with JObject.prems show ?case by (auto simp: list_all_iff o_def split_beta)
qed (auto simp: list_all_iff)

lemma jsonRoundTrip_wf: "wfJson v \<Longrightarrow> jsonRoundTrip v = v"
proof (induction v)
  case (JArray vs)
  then have "JUndefined \<notin> set vs" by (auto simp: list_all_iff)
  with JArray show ?case by (auto simp: list_all_iff intro!: map_idI)
next
  case (JObject kvs)
  then have each: "jsonRoundTrip v = v \<and> v \<noteq> JUndefined" if "(k, v) \<in> set kvs" for k v
    using JObject.IH [of "(k, v)" v] that by (auto simp: list_all_iff)
  have "filter (\<lambda>(key, v). v \<noteq> JUndefined) kvs = kvs" by (rule filter_True) (use each in blast)
  moreover have "map (\<lambda>(key, v). (key, jsonRoundTrip v)) kvs = kvs" by (rule map_idI) (use each in auto)
  ultimately show ?case by (simp only: jsonRoundTrip.simps)
qed auto

lemma canonicalize_value_inject:
  assumes "wfJson v" "wfJson w" "canonicalize X v = canonicalize X w"
  shows "sortValue X v = sortValue X w"
  using jsonText_split [of "sortValue X v" "sortValue X w" "[]" "[]"] assms
  by (simp add: canonicalize_def jsonRoundTrip_wf wfJson_sortValue delimited_def)

lemma roleName_inject [simp]: "roleName r = roleName r' \<longleftrightarrow> r = r'"
  by (cases r; cases r') auto

section \<open>A sample\<close>

definition sampleCredential :: component_credential where
  "sampleCredential =
     \<lparr>cc_credentialId = ''cred_1'', cc_componentId = ''reconciler_1'', cc_role = RECONCILER,
      cc_publicKey = ''key1'', cc_privateKey = ''key1''\<rparr>"

section \<open>Properties\<close>

text \<open>
  C29. A signature covers the whole action: two actions whose signed messages are equal have the
  same action name, credential, component and role, and the same payload property by property
  (up to the order of properties inside a nested object), whatever collation orders the
  properties. A signature for one action, component or payload is never a signature for another.
\<close>

theorem signed_message_binds_action:
  assumes "canonicalComponentAuthPayload X action authorization payload
      = canonicalComponentAuthPayload X action' authorization' payload'"
    and "wfJson (JObject payload)" "wfJson (JObject payload')"
  shows "action = action' \<and> ca_credentialId authorization = ca_credentialId authorization'
    \<and> ca_componentId authorization = ca_componentId authorization' \<and> ca_role authorization = ca_role authorization'
    \<and> (\<forall>key. sortValue X (getProp (JObject payload) key) = sortValue X (getProp (JObject payload') key))"
proof -
  let ?object = "\<lambda>a c p. JObject
       [(''domain'', JString AUTH_DOMAIN), (''version'', JNumber (jsInt 1)), (''action'', JString a),
        (''credentialId'', JString (ca_credentialId c)), (''componentId'', JString (ca_componentId c)),
        (''role'', JString (roleName (ca_role c))), (''payload'', JObject p)]"
  have wf: "wfJson (?object action authorization payload)" "wfJson (?object action' authorization' payload')"
    using assms(2,3) by simp_all
  have "sortValue X (?object action authorization payload) = sortValue X (?object action' authorization' payload')"
    using canonicalize_value_inject [OF wf, of X] assms(1) unfolding canonicalComponentAuthPayload_def by blast
  then have each: "sortValue X (getProp (?object action authorization payload) key)
      = sortValue X (getProp (?object action' authorization' payload') key)" for key
    using getProp_sortValue [OF wf(1), of X key] getProp_sortValue [OF wf(2), of X key] by metis
  have "sortValue X (JObject payload) = sortValue X (JObject payload')" using each [of "''payload''"] by simp
  then have "sortValue X (getProp (JObject payload) key) = sortValue X (getProp (JObject payload') key)" for key
    using getProp_sortValue [OF assms(2), of X key] getProp_sortValue [OF assms(3), of X key] by metis
  moreover have "action = action'" using each [of "''action''"] by simp
  moreover have "ca_credentialId authorization = ca_credentialId authorization'" using each [of "''credentialId''"] by simp
  moreover have "ca_componentId authorization = ca_componentId authorization'" using each [of "''componentId''"] by simp
  moreover have "ca_role authorization = ca_role authorization'" using each [of "''role''"] by simp
  ultimately show ?thesis by blast
qed

theorem signed_message_binds_action_witness:
  "let authorization = signComponentAction sampleExternals sampleCredential ''verify'' [];
       payload = [(''nonce'', JString ''7''), (''chain'', JString ''local'')];
       payload' = [(''chain'', JString ''local''), (''nonce'', JString ''7'')]
   in canonicalComponentAuthPayload sampleExternals ''verify'' authorization payload
        = canonicalComponentAuthPayload sampleExternals ''verify'' authorization payload'
      \<and> (\<forall>key. sortValue sampleExternals (getProp (JObject payload) key) = sortValue sampleExternals (getProp (JObject payload') key))"
proof -
  have "canonicalComponentAuthPayload sampleExternals ''verify'' (signComponentAction sampleExternals sampleCredential ''verify'' [])
      [(''nonce'', JString ''7''), (''chain'', JString ''local'')]
    = canonicalComponentAuthPayload sampleExternals ''verify'' (signComponentAction sampleExternals sampleCredential ''verify'' [])
      [(''chain'', JString ''local''), (''nonce'', JString ''7'')]" by code_simp
  from this signed_message_binds_action [OF this] show ?thesis unfolding Let_def by simp
qed

text \<open>Documented behaviour of the signature scheme on a pair of keys.\<close>

definition keyPair :: "externals \<Rightarrow> string \<Rightarrow> string \<Rightarrow> bool" where
  "keyPair X publicKey privateKey \<longleftrightarrow>
     (\<forall>message. ed25519Verify X publicKey message (ed25519Sign X privateKey message) = Some True
        \<and> base64urlText (ed25519Sign X privateKey message))"

text \<open>
  C30. Signing and verification agree: for a key pair of the signature scheme and identifiers and
  keys of the accepted form, \<open>verifyComponentAction\<close> accepts what \<open>signComponentAction\<close> produces
  for the same action and payload.
\<close>

theorem signed_action_verifies:
  assumes "keyPair X (cc_publicKey credential) (cc_privateKey credential)" "base64urlText (cc_publicKey credential)"
    "identifierText (cc_credentialId credential)" "identifierText (cc_componentId credential)"
  shows "verifyComponentAction X (signComponentAction X credential action payload) (cc_publicKey credential) action payload
    = Inr True"
proof -
  have "canonicalComponentAuthPayload X action \<lparr>ca_credentialId = i, ca_componentId = c, ca_role = r, ca_signature = s\<rparr> payload
      = canonicalComponentAuthPayload X action \<lparr>ca_credentialId = i, ca_componentId = c, ca_role = r, ca_signature = []\<rparr> payload"
    if "s \<noteq> []" for i c r s by (simp add: canonicalComponentAuthPayload_def)
  moreover have "roleName r \<in> {''ADAPTER'', ''RECONCILER''}" for r by (cases r) simp_all
  ultimately show ?thesis
    using assms by (simp add: verifyComponentAction_def signComponentAction_def Let_def keyPair_def base64urlText_def)
qed

theorem signed_action_verifies_witness:
  "verifyComponentAction sampleExternals (signComponentAction sampleExternals sampleCredential ''verify'' [])
     (cc_publicKey sampleCredential) ''verify'' [] = Inr True"
  by (rule signed_action_verifies)
    (simp_all add: keyPair_def sampleCredential_def sampleExternals_defs base64urlText_def identifierText_def charclass)

end
