(* ===== verification/AuditChain.thy ===== *)
theory AuditChain
  imports TrustBoundary
begin

text \<open>
  Audit events (\<open>packages/schemas/src/audit.ts\<close>) and the append-only, hash-linked log of them
  (\<open>packages/audit/src/index.ts\<close>). Shown: appending keeps every chain of the log gapless, linked
  and verifiable, and the hash of the last event of a chain commits to the whole chain.
\<close>

section \<open>\<open>audit.ts\<close>\<close>

definition AUDIT_EVENT_TYPES :: "string list" where
  "AUDIT_EVENT_TYPES =
     [''intent.created'', ''intent.validated'', ''policy.evaluated'', ''policy.denied'',
      ''policy.indeterminate'', ''budget.reservation.created'', ''budget.reservation.authorized'',
      ''budget.reservation.broadcast'', ''budget.reservation.evidence.verified'',
      ''budget.reservation.released'', ''budget.reservation.expired'', ''budget.reservation.finalized'',
      ''budget.reservation.disputed'', ''operation.state.changed'', ''approval.requested'',
      ''approval.approved'', ''approval.consumed'', ''approval.rejected'', ''approval.expired'',
      ''approval.revoked'', ''signing.started'', ''signing.failed'', ''transaction.signed'',
      ''transaction.broadcast'', ''transaction.confirmed'', ''transaction.reconciled'',
      ''transaction.reverted'', ''operation.disputed'', ''agent.revoked'', ''owner.revoked'',
      ''policy.revoked'', ''system.paused'', ''system.resumed'', ''execution.recovery.claimed'',
      ''execution.recovery.ambiguous'', ''execution.recovery.resolved'', ''execution.recovery.conflict'',
      ''adapter.error'', ''transaction.constructed'', ''transaction.decoded'', ''transaction.verified'',
      ''transaction.simulated'']"

definition bounded :: "nat \<Rightarrow> string \<Rightarrow> bool" where
  "bounded n s \<longleftrightarrow> 1 \<le> length s \<and> length s \<le> n"

definition sha256Text :: "string \<Rightarrow> bool" where
  "sha256Text s = prefixed ''sha256:'' isHex 64 s"

text \<open>The properties of the event data, all of them optional, in the order of the source.\<close>

definition auditDataShape :: "externals \<Rightarrow> (string \<times> (jsval \<Rightarrow> bool)) list" where
  "auditDataShape X =
     (let identifier = stringField canonicalIdentifierSchema;
          evmHash = stringField evmHashSchema;
          second = stringField (utcSecondSchema X);
          atomic = stringField atomicUnitSchema;
          address = stringField evmAddressSchema;
          lifecycle = (\<lambda>v. lifecycleStateSchema v \<noteq> None);
          decision = enumField [''ALLOW_READ'', ''ALLOW_AUTONOMOUS'', ''REQUIRE_APPROVAL'', ''DENY'', ''INDETERMINATE'']
      in [(''reservationId'', identifier), (''approvalId'', identifier), (''authorizationId'', identifier),
          (''envelopeId'', identifier), (''envelopeRevision'', positiveSafeInteger),
          (''policyDecisionId'', identifier), (''policyDecisionHash'', evmHash),
          (''policyVersion'', positiveSafeInteger), (''approverId'', identifier), (''issuedAt'', second),
          (''expiresAt'', second), (''authorizedAt'', second), (''consumedAt'', second),
          (''consumptionNonce'', identifier), (''consumerId'', identifier), (''assetAddress'', address),
          (''amountAtomic'', atomic), (''actualSpendAtomic'', atomic), (''nonce'', atomic),
          (''verificationStatus'', enumField [''PENDING'', ''VERIFIED'']), (''state'', lifecycle),
          (''previousState'', lifecycle), (''reasonCode'', identifier), (''failureCode'', identifier),
          (''transactionHash'', evmHash), (''envelopeHash'', evmHash), (''replacementEnvelopeId'', identifier),
          (''replacementEnvelopeRevision'', positiveSafeInteger), (''replacementEnvelopeHash'', evmHash),
          (''decision'', decision), (''adapterId'', identifier), (''chainId'', stringField chainIdSchema),
          (''proofReference'', stringField (bounded 256)), (''reason'', stringField (bounded 512)),
          (''scopeType'', enumField [''SYSTEM'', ''OWNER'', ''AGENT'', ''POLICY'']), (''scopeId'', identifier),
          (''fenceVersion'', positiveSafeInteger), (''controlState'', enumField [''ACTIVE'', ''PAUSED'', ''REVOKED'']),
          (''previousControlState'', enumField [''ACTIVE'', ''PAUSED'', ''REVOKED'']),
          (''systemFenceVersion'', positiveSafeInteger), (''systemState'', enumField [''ACTIVE'', ''PAUSED'']),
          (''ownerFenceVersion'', positiveSafeInteger), (''ownerState'', enumField [''ACTIVE'', ''REVOKED'']),
          (''agentFenceVersion'', positiveSafeInteger), (''agentState'', enumField [''ACTIVE'', ''REVOKED'']),
          (''policyFenceVersion'', positiveSafeInteger), (''policyState'', enumField [''ACTIVE'', ''REVOKED'']),
          (''authorizationInvalidationId'', identifier), (''credentialId'', identifier),
          (''componentId'', identifier), (''componentRole'', enumField [''ADAPTER'', ''RECONCILER'']),
          (''authPayloadHash'', stringField sha256Text), (''authenticationMethod'', enumField [''ed25519'']),
          (''attemptId'', identifier), (''leaseVersion'', positiveSafeInteger),
          (''recoveryOutcome'', enumField [''CONFIRMED'', ''FAILED'', ''AMBIGUOUS'', ''CONFLICT'']),
          (''resolutionHash'', stringField sha256Text), (''candidateHash'', evmHash), (''calldataHash'', evmHash),
          (''target'', address), (''fixtureInstanceId'', identifier),
          (''decodedFunction'', enumField [''erc20.transfer'']), (''simulationId'', identifier),
          (''simulationEvidenceHash'', evmHash), (''simulationBlockNumber'', atomic),
          (''simulationBlockHash'', evmHash), (''result'', decision)])"

text \<open>
  Parsing: no property outside the shape, every property that is present and defined passes its
  check; the result has the properties in the order of the shape.
\<close>

definition pickShape :: "(string \<times> 'c) list \<Rightarrow> (string \<times> jsval) list \<Rightarrow> (string \<times> jsval) list" where
  "pickShape shp data =
     concat (map (\<lambda>(key, check). case map_of data key of None \<Rightarrow> [] | Some v \<Rightarrow> [(key, v)]) shp)"

definition auditDataSchema :: "externals \<Rightarrow> (string \<times> jsval) list \<Rightarrow> (string \<times> jsval) list option" where
  "auditDataSchema X data =
     (if list_all (\<lambda>(key, v). key \<in> set (map fst (auditDataShape X))) data
         \<and> list_all (\<lambda>(key, check). getProp (JObject data) key = JUndefined \<or> check (getProp (JObject data) key))
             (auditDataShape X)
      then Some (pickShape (auditDataShape X) data) else None)"

definition nullable :: "('a \<Rightarrow> bool) \<Rightarrow> 'a option \<Rightarrow> bool" where
  "nullable check v = (case v of None \<Rightarrow> True | Some x \<Rightarrow> check x)"

definition controlEventTypes :: "string list" where
  "controlEventTypes = [''agent.revoked'', ''owner.revoked'', ''policy.revoked'', ''system.paused'', ''system.resumed'']"

definition requiredData :: "(string \<times> string list) list" where
  "requiredData =
     [(''transaction.constructed'', [''candidateHash'', ''target'', ''chainId'', ''fixtureInstanceId'']),
      (''transaction.decoded'', [''candidateHash'', ''calldataHash'', ''decodedFunction'']),
      (''transaction.verified'', [''candidateHash'']),
      (''transaction.simulated'',
        [''simulationId'', ''simulationEvidenceHash'', ''fixtureInstanceId'', ''simulationBlockNumber'',
         ''simulationBlockHash'', ''candidateHash'']),
      (''policy.evaluated'', [''policyDecisionId'', ''policyDecisionHash'', ''result''])]"

text \<open>The \<open>superRefine\<close> of the event schema; \<open>field\<close> reads the parsed data.\<close>

definition eventRefinement :: "audit_event \<Rightarrow> (string \<Rightarrow> jsval) \<Rightarrow> bool" where
  "eventRefinement e field \<longleftrightarrow>
      (if ev_eventType e \<in> set controlEventTypes
       then ev_operationId e = None \<and> field ''reservationId'' = JUndefined
            \<and> field ''scopeType'' \<noteq> JUndefined \<and> field ''scopeId'' \<noteq> JUndefined
            \<and> field ''fenceVersion'' \<noteq> JUndefined \<and> field ''controlState'' \<noteq> JUndefined
       else ev_ownerId e \<noteq> None \<and> ev_agentId e \<noteq> None \<and> ev_walletId e \<noteq> None \<and> ev_intentId e \<noteq> None
            \<and> ev_operationId e \<noteq> None \<and> ev_policyId e \<noteq> None \<and> ev_policyVersion e \<noteq> None)
      \<and> (case map_of requiredData (ev_eventType e) of
           None \<Rightarrow> True | Some required \<Rightarrow> list_all (\<lambda>name. field name \<noteq> JUndefined) required)"

definition auditEventSchema :: "externals \<Rightarrow> audit_event \<Rightarrow> audit_event option" where
  "auditEventSchema X e =
     (case auditDataSchema X (ev_data e) of
        None \<Rightarrow> None
      | Some data \<Rightarrow>
          if canonicalIdentifierSchema (ev_eventId e)
             \<and> ev_eventType e \<in> set AUDIT_EVENT_TYPES
             \<and> utcSecondSchema X (ev_occurredAt e)
             \<and> positiveSafeInt (ev_sequence e)
             \<and> ev_actorType e \<in> set [''owner'', ''agent'', ''service'', ''system'', ''worker'', ''adapter'']
             \<and> canonicalIdentifierSchema (ev_actorId e)
             \<and> nullable canonicalIdentifierSchema (ev_ownerId e)
             \<and> nullable canonicalIdentifierSchema (ev_agentId e)
             \<and> nullable canonicalIdentifierSchema (ev_walletId e)
             \<and> nullable canonicalIdentifierSchema (ev_intentId e)
             \<and> nullable canonicalIdentifierSchema (ev_operationId e)
             \<and> nullable canonicalIdentifierSchema (ev_policyId e)
             \<and> nullable positiveSafeInt (ev_policyVersion e)
             \<and> prefixed [] isHex 32 (ev_traceId e)
             \<and> nullable evmHashSchema (ev_previousEventHash e)
             \<and> evmHashSchema (ev_eventHash e)
             \<and> eventRefinement e (getProp (JObject data))
          then Some (e\<lparr>ev_data := data\<rparr>) else None)"

section \<open>\<open>index.ts\<close>\<close>

record audit_correlation =
  co_reservationId :: string
  co_budgetId :: string
  co_ownerId :: string
  co_agentId :: string
  co_walletId :: string
  co_intentId :: string
  co_operationId :: string
  co_policyId :: string
  co_policyVersion :: int

text \<open>
  The caller's context. \<open>ac_assertedCorrelation\<close> is the partial correlation the caller asserts, by
  property name; an undefined property asserts nothing.
\<close>

record audit_context =
  ac_eventId :: string
  ac_actorType :: string
  ac_actorId :: string
  ac_traceId :: string
  ac_assertedCorrelation :: "(string \<times> jsval) list"
  ac_componentAuth :: "component_authorization option"

record audit_input =
  ai_eventId :: string
  ai_actorType :: string
  ai_actorId :: string
  ai_traceId :: string
  ai_reservationId :: "string option"
  ai_ownerId :: "string option"
  ai_agentId :: "string option"
  ai_walletId :: "string option"
  ai_intentId :: "string option"
  ai_operationId :: "string option"
  ai_policyId :: "string option"
  ai_policyVersion :: "int option"
  ai_eventType :: string
  ai_data :: "(string \<times> jsval) list"

definition AUDIT_EVENT_HASH_DOMAIN :: string where
  "AUDIT_EVENT_HASH_DOMAIN = ''crip/audit-event/v1'' @ [CHR 0x00]"

definition nullableString :: "string option \<Rightarrow> jsval" where
  "nullableString s = (case s of None \<Rightarrow> JNull | Some t \<Rightarrow> JString t)"

definition auditEventValue :: "audit_event \<Rightarrow> jsval" where
  "auditEventValue e =
     JObject
       [(''eventId'', JString (ev_eventId e)),
        (''eventType'', JString (ev_eventType e)),
        (''occurredAt'', JString (ev_occurredAt e)),
        (''sequence'', JNumber (jsInt (ev_sequence e))),
        (''actorType'', JString (ev_actorType e)),
        (''actorId'', JString (ev_actorId e)),
        (''ownerId'', nullableString (ev_ownerId e)),
        (''agentId'', nullableString (ev_agentId e)),
        (''walletId'', nullableString (ev_walletId e)),
        (''intentId'', nullableString (ev_intentId e)),
        (''operationId'', nullableString (ev_operationId e)),
        (''policyId'', nullableString (ev_policyId e)),
        (''policyVersion'', (case ev_policyVersion e of None \<Rightarrow> JNull | Some n \<Rightarrow> JNumber (jsInt n))),
        (''traceId'', JString (ev_traceId e)),
        (''data'', JObject (ev_data e)),
        (''previousEventHash'', nullableString (ev_previousEventHash e))]"

definition canonicalizeAuditEvent :: "audit_event \<Rightarrow> string option" where
  "canonicalizeAuditEvent e = canonicalizeIdempotencyPayload (jsonRoundTrip (auditEventValue e))"

definition hashAuditEvent :: "externals \<Rightarrow> audit_event \<Rightarrow> failure + string" where
  "hashAuditEvent X e =
     andThen (ofOption TypeError (canonicalizeAuditEvent e)) (\<lambda>canonicalPayload.
     Inr (''0x'' @ sha256Hex X (utf8 AUDIT_EVENT_HASH_DOMAIN @ utf8 canonicalPayload)))"

definition computeAuditEventHash :: "externals \<Rightarrow> audit_event \<Rightarrow> failure + string" where
  "computeAuditEventHash X e = andThen (ofOption ZodError (auditEventSchema X e)) (hashAuditEvent X)"

fun verifyAuditEvent :: "externals \<Rightarrow> audit_event raw \<Rightarrow> failure + audit_event" where
  "verifyAuditEvent X Malformed = Inl ZodError"
| "verifyAuditEvent X (Shaped v) =
     andThen (ofOption ZodError (auditEventSchema X v)) (\<lambda>event.
     andThen (hashAuditEvent X event) (\<lambda>expectedHash.
     andThen (require (ev_eventHash event = expectedHash) PlainError) (\<lambda>_.
     Inr event)))"

text \<open>
  The rows of one chain: those of the operation, or for control events those of the fence that
  \<open>scopeType\<close> and \<open>scopeId\<close> name. A comparison with \<open>NULL\<close> is not true.
\<close>

fun sameText :: "jsval \<Rightarrow> jsval \<Rightarrow> bool" where
  "sameText (JString s) (JString t) \<longleftrightarrow> s = t"
| "sameText v w \<longleftrightarrow> False"

definition inChain :: "string option \<Rightarrow> jsval \<Rightarrow> jsval \<Rightarrow> audit_event \<Rightarrow> bool" where
  "inChain operation scopeType scopeId e \<longleftrightarrow>
     (case operation of
        Some o1 \<Rightarrow> ev_operationId e = Some o1
      | None \<Rightarrow> ev_operationId e = None \<and> sameText (getProp (JObject (ev_data e)) ''scopeType'') scopeType
                \<and> sameText (getProp (JObject (ev_data e)) ''scopeId'') scopeId)"

text \<open>\<open>ORDER BY sequence_no DESC LIMIT 1\<close>\<close>

definition latestEvent :: "audit_event list \<Rightarrow> audit_event option" where
  "latestEvent events =
     foldl (\<lambda>best e. case best of
              None \<Rightarrow> Some e
            | Some b \<Rightarrow> if ev_sequence b < ev_sequence e then Some e else Some b) None events"

text \<open>The keys of the table: \<open>event_id\<close>, \<open>event_hash\<close> and \<open>(operation_id, sequence_no)\<close>.\<close>

definition auditKeyTaken :: "audit_event \<Rightarrow> audit_event \<Rightarrow> bool" where
  "auditKeyTaken new old \<longleftrightarrow>
     ev_eventId new = ev_eventId old \<or> ev_eventHash new = ev_eventHash old
     \<or> (ev_operationId new \<noteq> None \<and> ev_operationId new = ev_operationId old \<and> ev_sequence new = ev_sequence old)"

definition insertAuditRow :: "audit_row \<Rightarrow> unit tx" where
  "insertAuditRow row =
     txBind (txQuery (\<lambda>d. list_ex (\<lambda>old. auditKeyTaken (ar_event row) (ar_event old)) (audit_events d))) (\<lambda>taken.
     txThen (txRequire (\<not> taken) (DatabaseError UNIQUE_VIOLATION))
     (txExec (audit_events_update (\<lambda>rows. rows @ [row]))))"

text \<open>\<open>JSON.stringify(data)::jsonb\<close>: what the column holds.\<close>

definition storedData :: "(string \<times> jsval) list \<Rightarrow> (string \<times> jsval) list" where
  "storedData data = filter (\<lambda>(key, v). v \<noteq> JUndefined) data"

definition ZERO_HASH :: string where
  "ZERO_HASH = ''0x'' @ replicate 64 (CHR ''0'')"

definition appendAuditEvent :: "externals \<Rightarrow> audit_input \<Rightarrow> unit tx" where
  "appendAuditEvent X input =
     txBind (txLift (ofOption ZodError (auditDataSchema X (ai_data input)))) (\<lambda>data.
     let isControlEvent = ai_eventType input \<in> set controlEventTypes in
     txThen (txRequire (\<not> (isControlEvent \<and> ai_operationId input \<noteq> None)) PlainError) (
     txThen (txRequire (\<not> (\<not> isControlEvent \<and> ai_operationId input = None)) PlainError) (
     txBind (txQuery (\<lambda>d. latestEvent (filter
         (inChain (ai_operationId input) (getProp (JObject data) ''scopeType'') (getProp (JObject data) ''scopeId''))
         (map ar_event (audit_events d))))) (\<lambda>previous.
     let sequence = (case previous of None \<Rightarrow> 0 | Some e \<Rightarrow> ev_sequence e) + 1;
         previousEventHash = map_option ev_eventHash previous in
     txBind (txServer (\<lambda>sv. isoSecond (sv_nodeClock sv))) (\<lambda>occurredAt.
     txBind (txLift (ofOption ZodError (auditEventSchema X
       \<lparr>ev_eventId = ai_eventId input, ev_eventType = ai_eventType input, ev_occurredAt = occurredAt,
        ev_sequence = sequence, ev_actorType = ai_actorType input, ev_actorId = ai_actorId input,
        ev_ownerId = ai_ownerId input, ev_agentId = ai_agentId input, ev_walletId = ai_walletId input,
        ev_intentId = ai_intentId input, ev_operationId = ai_operationId input, ev_policyId = ai_policyId input,
        ev_policyVersion = ai_policyVersion input, ev_traceId = ai_traceId input, ev_data = data,
        ev_previousEventHash = previousEventHash, ev_eventHash = ZERO_HASH\<rparr>))) (\<lambda>unverifiedEvent.
     txBind (txLift (ofOption TypeError (canonicalizeAuditEvent unverifiedEvent))) (\<lambda>canonicalPayload.
     txBind (txLift (computeAuditEventHash X unverifiedEvent)) (\<lambda>eventHash.
     insertAuditRow
       \<lparr>ar_event = unverifiedEvent\<lparr>ev_data := storedData data, ev_eventHash := eventHash\<rparr>,
        ar_canonical_payload = canonicalPayload, ar_reservation_id = ai_reservationId input\<rparr>))))))))"

section \<open>Lemmas: parsed data\<close>

lemma map_fst_auditDataShape: "map fst (auditDataShape X) = map fst (auditDataShape sampleExternals)"
  by (simp only: auditDataShape_def Let_def list.map fst_conv)

lemma auditDataShape_distinct: "distinct (map fst (auditDataShape X))"
  unfolding map_fst_auditDataShape [of X] by code_simp

lemma map_of_pickShape:
  "map_of (pickShape shp data) key = (if key \<in> set (map fst shp) then map_of data key else None)"
  by (induction shp) (auto simp: pickShape_def map_add_def split: option.splits)

lemma pickShape_Cons:
  "pickShape ((key, check) # shp) data =
     (case map_of data key of None \<Rightarrow> [] | Some v \<Rightarrow> [(key, v)]) @ pickShape shp data"
  by (simp add: pickShape_def)

lemma pickShape_keys: "set (map fst (pickShape shp data)) \<subseteq> set (map fst shp)"
proof
  fix key assume "key \<in> set (map fst (pickShape shp data))"
  then have "map_of (pickShape shp data) key \<noteq> None" by (simp add: map_of_eq_None_iff)
  then show "key \<in> set (map fst shp)" by (simp add: map_of_pickShape split: if_splits)
qed

lemma pickShape_distinct: "distinct (map fst shp) \<Longrightarrow> distinct (map fst (pickShape shp data))"
proof (induction shp)
  case (Cons a shp)
  then show ?case using pickShape_keys [of shp data]
    by (cases a) (auto simp: pickShape_Cons split: option.splits)
qed (simp add: pickShape_def)

lemma map_of_storedData:
  "distinct (map fst data) \<Longrightarrow> map_of (storedData data) key =
     (case map_of data key of None \<Rightarrow> None | Some v \<Rightarrow> if v = JUndefined then None else Some v)"
proof (induction data)
  case (Cons a data)
  then show ?case
    by (cases "map_of data (fst a)") (auto simp: storedData_def map_of_eq_None_iff split: option.splits)
qed (simp add: storedData_def)

lemma getProp_storedData:
  "distinct (map fst data) \<Longrightarrow> getProp (JObject (storedData data)) key = getProp (JObject data) key"
  by (auto simp: map_of_storedData split: option.splits)

lemma getProp_pickShape:
  "key \<in> set (map fst shp) \<Longrightarrow> getProp (JObject (pickShape shp data)) key = getProp (JObject data) key"
  by (simp add: map_of_pickShape)

lemma storedData_pickShape:
  "storedData (pickShape shp data) =
     concat (map (\<lambda>(key, check). case map_of data key of
       None \<Rightarrow> [] | Some v \<Rightarrow> if v = JUndefined then [] else [(key, v)]) shp)"
  by (induction shp) (auto simp: storedData_def pickShape_def split: option.splits)

lemma pickShape_storedData:
  assumes "distinct (map fst shp)"
  shows "pickShape shp (storedData (pickShape shp data)) = storedData (pickShape shp data)"
proof -
  have "map_of (storedData (pickShape shp data)) key =
      (case map_of data key of None \<Rightarrow> None | Some v \<Rightarrow> if v = JUndefined then None else Some v)"
    if "key \<in> set (map fst shp)" for key
    using that map_of_storedData [OF pickShape_distinct [OF assms]] by (simp add: map_of_pickShape)
  then show ?thesis
    unfolding pickShape_def [of shp "storedData (pickShape shp data)"]
    by (subst storedData_pickShape [of shp data], intro arg_cong [of _ _ concat] map_cong refl)
      (force split: option.splits prod.splits)
qed

lemma auditDataSchema_fixed:
  assumes "auditDataSchema X data = Some data'" "pickShape (auditDataShape X) data'' = data''"
    and same: "\<And>k. k \<in> set (map fst (auditDataShape X)) \<Longrightarrow> getProp (JObject data'') k = getProp (JObject data) k"
  shows "auditDataSchema X data'' = Some data''"
proof -
  let ?shp = "auditDataShape X"
  have ok: "list_all (\<lambda>(key, check). getProp (JObject data) key = JUndefined \<or> check (getProp (JObject data) key)) ?shp"
    using assms(1) by (auto simp: auditDataSchema_def split: if_splits)
  have "set (map fst data'') \<subseteq> set (map fst ?shp)" using pickShape_keys [of ?shp data''] assms(2) by simp
  then have "list_all (\<lambda>(key, v). key \<in> set (map fst ?shp)) data''" by (force simp: list_all_iff)
  moreover have "getProp (JObject data'') k = JUndefined \<or> check (getProp (JObject data'') k)"
    if "(k, check) \<in> set ?shp" for k check
  proof -
    from that have "k \<in> set (map fst ?shp)" by force
    with ok that same show ?thesis unfolding list_all_iff by fastforce
  qed
  then have "list_all (\<lambda>(key, check). getProp (JObject data'') key = JUndefined
      \<or> check (getProp (JObject data'') key)) ?shp"
    unfolding list_all_iff by (intro ballI) (simp only: split_beta prod.collapse)
  ultimately show ?thesis using assms(2) by (simp only: auditDataSchema_def if_True simp_thms)
qed

lemma auditDataSchema_result:
  assumes "auditDataSchema X data = Some data'"
  shows "data' = pickShape (auditDataShape X) data" "distinct (map fst data')"
    "k \<in> set (map fst (auditDataShape X)) \<Longrightarrow> getProp (JObject data') k = getProp (JObject data) k"
proof -
  show data': "data' = pickShape (auditDataShape X) data"
    using assms by (auto simp: auditDataSchema_def split: if_splits)
  show "distinct (map fst data')" unfolding data' by (rule pickShape_distinct [OF auditDataShape_distinct])
  show "getProp (JObject data') k = getProp (JObject data) k" if "k \<in> set (map fst (auditDataShape X))"
    unfolding data' using that by (rule getProp_pickShape)
qed

lemma pickShape_pickShape: "pickShape shp (pickShape shp data) = pickShape shp data"
  unfolding pickShape_def [of shp "pickShape shp data"]
  by (subst pickShape_def [of shp data], intro arg_cong [of _ _ concat] map_cong refl)
    (force simp: map_of_pickShape split: prod.splits)

lemma auditDataSchema_again: "auditDataSchema X data = Some data' \<Longrightarrow> auditDataSchema X data' = Some data'"
  using auditDataSchema_fixed [of X data data' data'] auditDataSchema_result [of X data data'] pickShape_pickShape by metis

lemma auditDataSchema_stored:
  assumes "auditDataSchema X data = Some data'"
  shows "auditDataSchema X (storedData data') = Some (storedData data')"
proof (rule auditDataSchema_fixed [OF assms])
  show "pickShape (auditDataShape X) (storedData data') = storedData data'"
    unfolding auditDataSchema_result(1) [OF assms] by (rule pickShape_storedData [OF auditDataShape_distinct])
  show "getProp (JObject (storedData data')) k = getProp (JObject data) k" if "k \<in> set (map fst (auditDataShape X))" for k
    using auditDataSchema_result(3) [OF assms that] getProp_storedData [OF auditDataSchema_result(2) [OF assms]] by metis
qed

section \<open>Lemmas: what appending does\<close>

lemma eventRefinement_update [simp]:
  "eventRefinement (e\<lparr>ev_data := data, ev_eventHash := h\<rparr>) field = eventRefinement e field"
  "eventRefinement (e\<lparr>ev_data := data\<rparr>) field = eventRefinement e field"
  "eventRefinement (e\<lparr>ev_eventHash := h\<rparr>) field = eventRefinement e field"
  by (simp_all add: eventRefinement_def)

lemma auditEventSchema_Some:
  "auditEventSchema X e = Some e' \<Longrightarrow>
     \<exists>data. auditDataSchema X (ev_data e) = Some data \<and> e' = e\<lparr>ev_data := data\<rparr> \<and> evmHashSchema (ev_eventHash e)"
  by (auto simp: auditEventSchema_def split: option.splits if_splits)

lemma auditEventSchema_stored:
  assumes "auditEventSchema X e = Some e'" "evmHashSchema h"
  shows "auditEventSchema X (e'\<lparr>ev_data := storedData (ev_data e'), ev_eventHash := h\<rparr>)
      = Some (e'\<lparr>ev_data := storedData (ev_data e'), ev_eventHash := h\<rparr>)"
proof -
  from assms(1) obtain data where data: "auditDataSchema X (ev_data e) = Some data" "e' = e\<lparr>ev_data := data\<rparr>"
    by (auto dest: auditEventSchema_Some)
  have "getProp (JObject (storedData data)) = getProp (JObject data)"
    using getProp_storedData [OF auditDataSchema_result(2) [OF data(1)]] by blast
  with assms data auditDataSchema_stored [OF data(1)] show ?thesis
    by (simp add: auditEventSchema_def del: getProp.simps split: if_splits)
qed

lemma auditEventSchema_again:
  assumes "auditEventSchema X e = Some e'"
  shows "auditEventSchema X e' = Some e'"
proof -
  from assms obtain data where data: "auditDataSchema X (ev_data e) = Some data" "e' = e\<lparr>ev_data := data\<rparr>"
    by (auto dest: auditEventSchema_Some)
  with assms auditDataSchema_again [OF data(1)] show ?thesis
    by (simp add: auditEventSchema_def del: getProp.simps split: if_splits)
qed

lemma jsonRoundTrip_stored:
  "jsonRoundTrip (auditEventValue (e\<lparr>ev_data := storedData data, ev_eventHash := h\<rparr>))
     = jsonRoundTrip (auditEventValue (e\<lparr>ev_data := data\<rparr>))"
  by (simp add: auditEventValue_def storedData_def)

lemma hashAuditEvent_stored:
  "hashAuditEvent X (e\<lparr>ev_data := storedData (ev_data e), ev_eventHash := h\<rparr>) = hashAuditEvent X e"
  using jsonRoundTrip_stored [where e = e and data = "ev_data e" and h = h]
  by (simp add: hashAuditEvent_def canonicalizeAuditEvent_def)

lemma sha256_evmHash: "hexDigests X \<Longrightarrow> evmHashSchema (''0x'' @ sha256Hex X b)"
  by (simp add: hexDigests_def evmHashSchema_def prefixed_def)

lemma hashAuditEvent_evmHash: "hexDigests X \<Longrightarrow> hashAuditEvent X e = Inr h \<Longrightarrow> evmHashSchema h"
  by (auto simp: hashAuditEvent_def result_simps simp del: append.simps intro: sha256_evmHash)

lemma append_Inr:
  assumes "appendAuditEvent X input sv d = Inr (u, d')" "hexDigests X"
  obtains row previous where "d' = d\<lparr>audit_events := audit_events d @ [row]\<rparr>"
    "verifyAuditEvent X (Shaped (ar_event row)) = Inr (ar_event row)"
    "canonicalizeAuditEvent (ar_event row) = Some (ar_canonical_payload row)"
    "ev_operationId (ar_event row) = ai_operationId input" "ev_eventType (ar_event row) = ai_eventType input"
    "ev_eventId (ar_event row) = ai_eventId input" "ar_reservation_id row = ai_reservationId input"
    "ai_operationId input = None \<longleftrightarrow> ai_eventType input \<in> set controlEventTypes"
    "previous = latestEvent (filter
       (inChain (ai_operationId input) (getProp (JObject (ev_data (ar_event row))) ''scopeType'')
         (getProp (JObject (ev_data (ar_event row))) ''scopeId'')) (map ar_event (audit_events d)))"
    "ev_sequence (ar_event row) = (case previous of None \<Rightarrow> 0 | Some e \<Rightarrow> ev_sequence e) + 1"
    "ev_previousEventHash (ar_event row) = map_option ev_eventHash previous"
    "list_all (\<lambda>old. \<not> auditKeyTaken (ar_event row) (ar_event old)) (audit_events d)"
proof -
  let ?chain = "\<lambda>data. inChain (ai_operationId input) (getProp (JObject data) ''scopeType'') (getProp (JObject data) ''scopeId'')"
  from assms(1) obtain data unv payload h previous base where r:
    "auditDataSchema X (ai_data input) = Some data"
    "ai_operationId input = None \<longleftrightarrow> ai_eventType input \<in> set controlEventTypes"
    "previous = latestEvent (filter (?chain data) (map ar_event (audit_events d)))"
    "base = \<lparr>ev_eventId = ai_eventId input, ev_eventType = ai_eventType input, ev_occurredAt = isoSecond (sv_nodeClock sv),
        ev_sequence = (case previous of None \<Rightarrow> 0 | Some e \<Rightarrow> ev_sequence e) + 1, ev_actorType = ai_actorType input,
        ev_actorId = ai_actorId input, ev_ownerId = ai_ownerId input, ev_agentId = ai_agentId input,
        ev_walletId = ai_walletId input, ev_intentId = ai_intentId input, ev_operationId = ai_operationId input,
        ev_policyId = ai_policyId input, ev_policyVersion = ai_policyVersion input, ev_traceId = ai_traceId input,
        ev_data = data, ev_previousEventHash = map_option ev_eventHash previous, ev_eventHash = ZERO_HASH\<rparr>"
    "auditEventSchema X base = Some unv"
    "canonicalizeAuditEvent unv = Some payload" "computeAuditEventHash X unv = Inr h"
    "insertAuditRow \<lparr>ar_event = unv\<lparr>ev_data := storedData data, ev_eventHash := h\<rparr>,
        ar_canonical_payload = payload, ar_reservation_id = ai_reservationId input\<rparr> sv d = Inr ((), d')"
    unfolding appendAuditEvent_def Let_def by (auto simp: tx_simps simp del: getProp.simps)
  have unv: "unv = base\<lparr>ev_data := data\<rparr>"
    using auditEventSchema_Some [OF r(5)] auditDataSchema_again [OF r(1)] r(4) by auto
  then have data: "ev_data unv = data" "unv = base" by (simp_all add: r(4))
  let ?e = "unv\<lparr>ev_data := storedData data, ev_eventHash := h\<rparr>"
  have h: "hashAuditEvent X unv = Inr h"
    using r(7) auditEventSchema_again [OF r(5)] by (simp add: computeAuditEventHash_def result_simps)
  then have "hashAuditEvent X ?e = Inr h" using hashAuditEvent_stored [where X = X and e = unv and h = h] data(1) by simp
  moreover have "auditEventSchema X ?e = Some ?e"
    using auditEventSchema_stored [OF r(5) hashAuditEvent_evmHash [OF assms(2) h]] data(1) by simp
  ultimately have verified: "verifyAuditEvent X (Shaped ?e) = Inr ?e" by simp
  have payload: "canonicalizeAuditEvent ?e = Some payload"
    using r(6) jsonRoundTrip_stored [where e = unv and data = data and h = h] data
    by (simp add: canonicalizeAuditEvent_def r(4))
  have scope: "getProp (JObject (storedData data)) = getProp (JObject data)"
    using getProp_storedData [OF auditDataSchema_result(2) [OF r(1)]] by blast
  from r(8) have ins: "list_all (\<lambda>old. \<not> auditKeyTaken ?e (ar_event old)) (audit_events d)"
    "d' = d\<lparr>audit_events := audit_events d @ [\<lparr>ar_event = ?e, ar_canonical_payload = payload,
       ar_reservation_id = ai_reservationId input\<rparr>]\<rparr>"
    by (auto simp: insertAuditRow_def tx_simps list_all_iff list_ex_iff)
  show ?thesis
    by (rule that [OF ins(2), of previous])
      (use verified payload r(2,3) ins(1) scope in \<open>simp_all add: data(2) r(4) del: getProp.simps\<close>)
qed

section \<open>Chains\<close>

text \<open>
  A chain whose next event has number \<open>n\<close> and refers to \<open>prev\<close>: numbers without a gap, each event
  verifies on its own and refers to the hash of the one before.
\<close>

fun linked :: "externals \<Rightarrow> string option \<Rightarrow> int \<Rightarrow> audit_event list \<Rightarrow> bool" where
  "linked X prev n [] \<longleftrightarrow> True"
| "linked X prev n (e # es) \<longleftrightarrow>
     ev_sequence e = n \<and> ev_previousEventHash e = prev \<and> verifyAuditEvent X (Shaped e) = Inr e
     \<and> linked X (Some (ev_eventHash e)) (n + 1) es"

definition chainEvents :: "string option \<Rightarrow> jsval \<Rightarrow> jsval \<Rightarrow> db \<Rightarrow> audit_event list" where
  "chainEvents operation scopeType scopeId d = filter (inChain operation scopeType scopeId) (map ar_event (audit_events d))"

text \<open>Every chain of the log is linked from its first event on, and no event identifier repeats.\<close>

definition auditChains :: "externals \<Rightarrow> db \<Rightarrow> bool" where
  "auditChains X d \<longleftrightarrow>
     distinct (map (ev_eventId \<circ> ar_event) (audit_events d))
     \<and> (\<forall>operation scopeType scopeId. linked X None 1 (chainEvents operation scopeType scopeId d))"

lemma linked_append:
  "linked X prev n (es @ [e]) \<longleftrightarrow> linked X prev n es \<and> ev_sequence e = n + int (length es)
     \<and> ev_previousEventHash e = (if es = [] then prev else Some (ev_eventHash (last es)))
     \<and> verifyAuditEvent X (Shaped e) = Inr e"
  by (induction es arbitrary: prev n) auto

lemma linked_verified: "linked X prev n es \<Longrightarrow> e \<in> set es \<Longrightarrow> verifyAuditEvent X (Shaped e) = Inr e"
  by (induction es arbitrary: prev n) auto

lemma latestEvent_step:
  "linked X prev n es \<Longrightarrow> ev_sequence b < n \<Longrightarrow>
     foldl (\<lambda>best e. case best of None \<Rightarrow> Some e | Some b \<Rightarrow> if ev_sequence b < ev_sequence e then Some e else Some b)
       (Some b) es = Some (last (b # es))"
  by (induction es arbitrary: prev n b) auto

lemma latestEvent_linked: "linked X prev n es \<Longrightarrow> latestEvent es = (if es = [] then None else Some (last es))"
  using latestEvent_step by (cases es) (auto simp: latestEvent_def)

lemma last_sequence: "linked X prev n es \<Longrightarrow> es \<noteq> [] \<Longrightarrow> ev_sequence (last es) = n + int (length es) - 1"
  by (induction es arbitrary: prev n) auto

lemma sameText_eq: "sameText v w \<Longrightarrow> v = w"
  by (induction v w rule: sameText.induct) auto

lemma inChain_own:
  assumes "inChain operation scopeType scopeId e"
  shows "inChain operation scopeType scopeId =
    inChain (ev_operationId e) (getProp (JObject (ev_data e)) ''scopeType'') (getProp (JObject (ev_data e)) ''scopeId'')"
  using assms sameText_eq by (cases operation) (auto simp: inChain_def fun_eq_iff simp del: getProp.simps)

lemma append_chain:
  assumes "auditChains X d" "hexDigests X" "appendAuditEvent X input sv d = Inr (u, d')"
  shows "auditChains X d'"
  using assms(3,2)
proof (rule append_Inr)
  fix row :: audit_row and previous
  let ?e = "ar_event row"
  assume r: "d' = d\<lparr>audit_events := audit_events d @ [row]\<rparr>"
    "verifyAuditEvent X (Shaped ?e) = Inr ?e" "ev_operationId ?e = ai_operationId input"
    "previous = latestEvent (filter (inChain (ai_operationId input) (getProp (JObject (ev_data ?e)) ''scopeType'')
         (getProp (JObject (ev_data ?e)) ''scopeId'')) (map ar_event (audit_events d)))"
    "ev_sequence ?e = (case previous of None \<Rightarrow> 0 | Some e \<Rightarrow> ev_sequence e) + 1"
    "ev_previousEventHash ?e = map_option ev_eventHash previous"
    "list_all (\<lambda>old. \<not> auditKeyTaken ?e (ar_event old)) (audit_events d)"
  have "linked X None 1 (chainEvents operation scopeType scopeId d')" for operation scopeType scopeId
  proof (cases "inChain operation scopeType scopeId ?e")
    case False
    then show ?thesis using assms(1) by (simp add: r(1) chainEvents_def auditChains_def)
  next
    case True
    let ?es = "chainEvents operation scopeType scopeId d"
    have es: "linked X None 1 ?es" using assms(1) by (simp add: auditChains_def)
    have "previous = latestEvent ?es"
      using r(3,4) inChain_own [OF True] by (simp add: chainEvents_def del: getProp.simps)
    then have "previous = (if ?es = [] then None else Some (last ?es))" using latestEvent_linked [OF es] by simp
    then have "linked X None 1 (?es @ [?e])"
      using es r(2,5,6) last_sequence [OF es] by (auto simp: linked_append)
    then show ?thesis using True by (simp add: chainEvents_def r(1))
  qed
  moreover have "distinct (map (ev_eventId \<circ> ar_event) (audit_events d'))"
    using assms(1) r(1,7) by (auto simp: auditChains_def auditKeyTaken_def list_all_iff)
  ultimately show ?thesis by (simp add: auditChains_def)
qed

section \<open>When an append succeeds\<close>

text \<open>
  An event of an operation is appended if its data and the event made from it have the form of the
  schema, its keys are new and the server accepts the row.
\<close>

lemma append_succeeds:
  assumes data: "auditDataSchema X (ai_data input) = Some data"
    and operation: "ai_operationId input = Some oid" "ai_eventType input \<notin> set controlEventTypes"
    and previous: "latestEvent (filter (\<lambda>e. ev_operationId e = Some oid) (map ar_event (audit_events d))) = previous"
    and base: "base = \<lparr>ev_eventId = ai_eventId input, ev_eventType = ai_eventType input, ev_occurredAt = isoSecond (sv_nodeClock sv),
        ev_sequence = (case previous of None \<Rightarrow> 0 | Some e \<Rightarrow> ev_sequence e) + 1, ev_actorType = ai_actorType input,
        ev_actorId = ai_actorId input, ev_ownerId = ai_ownerId input, ev_agentId = ai_agentId input,
        ev_walletId = ai_walletId input, ev_intentId = ai_intentId input, ev_operationId = ai_operationId input,
        ev_policyId = ai_policyId input, ev_policyVersion = ai_policyVersion input, ev_traceId = ai_traceId input,
        ev_data = data, ev_previousEventHash = map_option ev_eventHash previous, ev_eventHash = ZERO_HASH\<rparr>"
    and schema: "auditEventSchema X base = Some base" and hash: "hashAuditEvent X base = Inr h"
    and fresh: "list_all (\<lambda>row. \<not> auditKeyTaken (base\<lparr>ev_eventHash := h\<rparr>) (ar_event row)) (audit_events d)"
    and accepts: "\<And>a b. sv_refuses sv a b = None"
  shows "\<exists>row. appendAuditEvent X input sv d = Inr ((), d\<lparr>audit_events := audit_events d @ [row]\<rparr>)
    \<and> ar_event row = base\<lparr>ev_data := storedData data, ev_eventHash := h\<rparr>"
proof -
  obtain payload where payload: "canonicalizeAuditEvent base = Some payload"
    using hash by (auto simp: hashAuditEvent_def result_simps)
  have "inChain (ai_operationId input) v w = (\<lambda>e. ev_operationId e = Some oid)" for v w
    by (simp add: operation fun_eq_iff inChain_def)
  then have "appendAuditEvent X input sv d =
      insertAuditRow \<lparr>ar_event = base\<lparr>ev_data := storedData data, ev_eventHash := h\<rparr>,
        ar_canonical_payload = payload, ar_reservation_id = ai_reservationId input\<rparr> sv d"
    using data operation previous schema payload hash unfolding base
    by (simp add: appendAuditEvent_def computeAuditEventHash_def Let_def txBind_def txThen_def txLift_def txRequire_def
        txQuery_def txServer_def require_def ofOption_def del: getProp.simps)
  moreover have "list_all (\<lambda>row. \<not> auditKeyTaken (base\<lparr>ev_data := storedData data, ev_eventHash := h\<rparr>) (ar_event row)) (audit_events d)"
    using fresh by (simp add: auditKeyTaken_def)
  ultimately have "appendAuditEvent X input sv d = Inr ((), audit_events_update (\<lambda>rows. rows @
      [\<lparr>ar_event = base\<lparr>ev_data := storedData data, ev_eventHash := h\<rparr>,
        ar_canonical_payload = payload, ar_reservation_id = ai_reservationId input\<rparr>]) d)"
    using accepts by (simp add: insertAuditRow_def txBind_def txThen_def txQuery_def txRequire_def txLift_def require_def
        txExec_def list_all_iff list_ex_iff)
  moreover have "audit_events_update f d = d\<lparr>audit_events := f (audit_events d)\<rparr>" for f by (cases d) simp
  ultimately show ?thesis by (metis audit_row.select_convs(1))
qed

section \<open>The last hash commits to the chain\<close>

text \<open>The content of an event, up to the order of the properties of its data.\<close>

definition eventContent :: "audit_event \<Rightarrow> jsval" where
  "eventContent e = sortKeys (jsonRoundTrip (auditEventValue e))"

definition jsonEvent :: "audit_event \<Rightarrow> bool" where
  "jsonEvent e \<longleftrightarrow> wfJson (jsonRoundTrip (auditEventValue e))"

lemma verified_hash: "verifyAuditEvent X (Shaped e) = Inr e \<Longrightarrow> hashAuditEvent X e = Inr (ev_eventHash e)"
  by (auto simp: result_simps)

lemma eventContent_eq:
  assumes "jsonEvent e" "jsonEvent e'"
  shows "canonicalizeAuditEvent e = canonicalizeAuditEvent e' \<longleftrightarrow> eventContent e = eventContent e'"
  using canonicalize_eq_iff [of "jsonRoundTrip (auditEventValue e)" "jsonRoundTrip (auditEventValue e')"] assms
  by (simp add: jsonEvent_def eventContent_def canonicalizeAuditEvent_def canonicalizeIdempotencyPayload_def)

lemma nullableString_inject [simp]: "nullableString s = nullableString t \<longleftrightarrow> s = t"
  by (auto simp: nullableString_def split: option.splits)

lemma nullableString_round [simp]:
  "jsonRoundTrip (nullableString s) = nullableString s" "sortKeys (nullableString s) = nullableString s"
  "nullableString s \<noteq> JUndefined"
  by (auto simp: nullableString_def split: option.splits)

lemma roundTrip_props:
  "getProp (jsonRoundTrip (auditEventValue e)) ''sequence'' = JNumber (jsInt (ev_sequence e))"
  "getProp (jsonRoundTrip (auditEventValue e)) ''previousEventHash'' = nullableString (ev_previousEventHash e)"
  by (auto simp: auditEventValue_def split: option.splits)

lemma eventContent_links:
  assumes "jsonEvent e" "jsonEvent e'" "eventContent e = eventContent e'"
  shows "ev_sequence e = ev_sequence e'" "ev_previousEventHash e = ev_previousEventHash e'"
  using sortKeys_getProp [of "jsonRoundTrip (auditEventValue e)" "jsonRoundTrip (auditEventValue e')" "''sequence''"]
    sortKeys_getProp [of "jsonRoundTrip (auditEventValue e)" "jsonRoundTrip (auditEventValue e')" "''previousEventHash''"]
    assms by (simp_all add: jsonEvent_def eventContent_def roundTrip_props)

lemma commitment:
  assumes "linked X None 1 es" "linked X None 1 es'" "es \<noteq> []" "es' \<noteq> []"
    "ev_eventHash (last es) = ev_eventHash (last es')" "list_all jsonEvent es" "list_all jsonEvent es'"
    and no_collision: "\<forall>e \<in> set es. \<forall>e' \<in> set es'. ev_eventHash e = ev_eventHash e' \<longrightarrow>
      canonicalizeAuditEvent e = canonicalizeAuditEvent e'"
  shows "map eventContent es = map eventContent es'"
  using assms
proof (induction es arbitrary: es' rule: rev_induct)
  case (snoc e es)
  from snoc.prems(4) obtain fs f where es': "es' = fs @ [f]" by (cases es' rule: rev_cases) auto
  with snoc.prems have "canonicalizeAuditEvent e = canonicalizeAuditEvent f" by simp
  then have same: "eventContent e = eventContent f" using snoc.prems(6,7) es' eventContent_eq by simp
  then have links: "ev_sequence e = ev_sequence f" "ev_previousEventHash e = ev_previousEventHash f"
    using eventContent_links snoc.prems(6,7) es' by auto
  have "length es = length fs" using links(1) snoc.prems(1,2) es' by (simp add: linked_append)
  moreover have "map eventContent es = map eventContent fs" if "es \<noteq> []" "fs \<noteq> []"
    using snoc.IH [of fs] snoc.prems links(2) that es' by (simp add: linked_append)
  ultimately show ?case using same es' by (cases "es = []"; cases "fs = []") auto
qed simp

section \<open>A sample\<close>

definition emptyDb :: db where
  "emptyDb =
     \<lparr>owners = [], agents = [], wallets = [], policies = [], intents = [], operations = [], execution_envelopes = [],
      policy_decisions = [], budget_accounts = [], budget_reservations = [], idempotency_records = [],
      audit_events = [], broadcast_evidence = [], credentials = [], recovery_leases = [], recovery_attempts = [],
      control_fences = [], authorization_evidence = [], authorization_invalidations = [],
      approval_requests = [], approval_decisions = [], local_owner_approval_keys = [], owner_approval_authentications = []\<rparr>"

definition sampleServer :: server where
  "sampleServer =
     \<lparr>sv_clock = 1780000000000, sv_nodeClock = 1780000000000, sv_refuses = \<lambda>_ _. None, sv_commit = \<lambda>_ _. None\<rparr>"

definition sampleInput :: audit_input where
  "sampleInput =
     \<lparr>ai_eventId = ''event_1'', ai_actorType = ''service'', ai_actorId = ''ledger'',
      ai_traceId = replicate 32 (CHR ''a''), ai_reservationId = Some ''res_1'', ai_ownerId = Some ''owner_1'',
      ai_agentId = Some ''agent_1'', ai_walletId = Some ''wallet_1'', ai_intentId = Some ''intent_1'',
      ai_operationId = Some ''op_1'', ai_policyId = Some ''policy_1'', ai_policyVersion = Some 1,
      ai_eventType = ''budget.reservation.created'',
      ai_data = [(''amountAtomic'', JString ''99''), (''reservationId'', JString ''res_1'')]\<rparr>"

definition sampleEvent :: audit_event where
  "sampleEvent =
     \<lparr>ev_eventId = ''event_1'', ev_eventType = ''budget.reservation.created'',
      ev_occurredAt = ''2026-05-28T20:26:40Z'', ev_sequence = 1, ev_actorType = ''service'', ev_actorId = ''ledger'',
      ev_ownerId = Some ''owner_1'', ev_agentId = Some ''agent_1'', ev_walletId = Some ''wallet_1'',
      ev_intentId = Some ''intent_1'', ev_operationId = Some ''op_1'', ev_policyId = Some ''policy_1'',
      ev_policyVersion = Some 1, ev_traceId = replicate 32 (CHR ''a''),
      ev_data = [(''reservationId'', JString ''res_1''), (''amountAtomic'', JString ''99'')],
      ev_previousEventHash = None, ev_eventHash = ZERO_HASH\<rparr>"

lemma sampleEvent_verifies: "verifyAuditEvent sampleExternals (Shaped sampleEvent) = Inr sampleEvent"
  by code_simp

lemma sampleEvent_json: "jsonEvent sampleEvent"
  by (simp add: jsonEvent_def sampleEvent_def auditEventValue_def nullableString_def)

lemma sampleServer_time: "isoSecond 1780000000000 = ''2026-05-28T20:26:40Z''"
  by code_simp

lemma sampleInput_appends:
  "\<exists>d'. appendAuditEvent sampleExternals sampleInput sampleServer emptyDb = Inr ((), d')"
proof -
  have "\<exists>row. appendAuditEvent sampleExternals sampleInput sampleServer emptyDb
      = Inr ((), emptyDb\<lparr>audit_events := audit_events emptyDb @ [row]\<rparr>)
    \<and> ar_event row = sampleEvent\<lparr>ev_data := storedData (ev_data sampleEvent), ev_eventHash := ZERO_HASH\<rparr>"
  proof (rule append_succeeds [where previous = None])
    show "auditDataSchema sampleExternals (ai_data sampleInput) = Some (ev_data sampleEvent)" by code_simp
    show "auditEventSchema sampleExternals sampleEvent = Some sampleEvent" by code_simp
    show "hashAuditEvent sampleExternals sampleEvent = Inr ZERO_HASH" by code_simp
  qed (simp_all add: sampleInput_def sampleEvent_def emptyDb_def sampleServer_def controlEventTypes_def latestEvent_def sampleServer_time)
  then show ?thesis by blast
qed

lemma emptyDb_chains: "auditChains X emptyDb"
  by (simp add: auditChains_def chainEvents_def emptyDb_def)

section \<open>Properties\<close>

text \<open>
  C21. The audit log is an append-only hash chain: when \<open>appendAuditEvent\<close> succeeds, one row is added
  at the end of the log and nothing else in the database changes, the new event verifies with
  \<open>verifyAuditEvent\<close>, the stored text is its canonical text, and every chain of the log (one per
  operation and one per control fence) still has the numbers 1, 2, 3, ... without a gap, each
  event carrying the hash of its predecessor, and no event identifier occurs twice.
\<close>

theorem append_keeps_audit_chains:
  assumes "auditChains X d" "hexDigests X" "appendAuditEvent X input sv d = Inr (u, d')"
  shows "auditChains X d' \<and> (\<exists>row. d' = d\<lparr>audit_events := audit_events d @ [row]\<rparr>
      \<and> verifyAuditEvent X (Shaped (ar_event row)) = Inr (ar_event row)
      \<and> canonicalizeAuditEvent (ar_event row) = Some (ar_canonical_payload row)
      \<and> ev_eventId (ar_event row) = ai_eventId input \<and> ev_operationId (ar_event row) = ai_operationId input)"
  using append_chain [OF assms] append_Inr [OF assms(3,2)] by metis

theorem append_keeps_audit_chains_witness:
  "\<exists>d'. appendAuditEvent sampleExternals sampleInput sampleServer emptyDb = Inr ((), d') \<and> auditChains sampleExternals d'
    \<and> length (audit_events d') = 1"
proof -
  obtain u d' where ok: "appendAuditEvent sampleExternals sampleInput sampleServer emptyDb = Inr (u, d')"
    using sampleInput_appends by blast
  from append_keeps_audit_chains [OF emptyDb_chains sampleExternals_ok(1) ok] ok show ?thesis
    by (auto simp: emptyDb_def)
qed



end
