(* ===== verification/Ledger.thy ===== *)
theory Ledger
  imports AuditChain TransferCore
begin

text \<open>
  The budget ledger (\<open>packages/budget-ledger/src/ledger.ts\<close>): reservations of a budget and their
  life, broadcast evidence, recovery leases and the resolution of uncertain outcomes. Every
  operation is one serializable transaction on the tables of \<open>Database\<close>. Row locks
  (\<open>FOR UPDATE\<close>, \<open>FOR SHARE\<close>) change no table; what they can cause is a refusal of the server.
\<close>

section \<open>Values that callers pass and receive\<close>

text \<open>
  A snapshot. The text of \<open>expiresAt\<close>, always made by \<open>toISOString\<close>, is given by its instant.
\<close>

record reservation_snapshot =
  rs_reservationId :: string
  rs_budgetId :: string
  rs_operationId :: string
  rs_idempotencyKey :: string
  rs_amountAtomic :: string
  rs_finalizedSpendAtomic :: string
  rs_status :: reservation_status
  rs_expiresAt :: int
  rs_proofReference :: "string option"

record budget_snapshot =
  bs_budgetId :: string
  bs_allocated :: string
  bs_available :: string
  bs_reserved :: string
  bs_finalizedSpend :: string
  bs_version :: string

record broadcast_input =
  bi_transactionHash :: string
  bi_nonce :: string
  bi_receiptReference :: string

record recovery_lease =
  rl_operationId :: string
  rl_reservationId :: string
  rl_credentialId :: string
  rl_componentId :: string
  rl_leaseVersion :: string
  rl_leaseExpiresAt :: int

record recovery_resolution =
  rr_attemptId :: string
  rr_operationId :: string
  rr_reservationId :: string
  rr_leaseVersion :: string
  rr_outcome :: recovery_outcome
  rr_reason :: string
  rr_actualSpendAtomic :: "string option"
  rr_proofReference :: "string option"
  rr_verifiedRevert :: bool

record reserve_request =
  rq_reservationId :: string
  rq_budgetId :: string
  rq_operationId :: string
  rq_idempotencyKey :: string
  rq_idempotencyPayload :: jsval
  rq_amountAtomic :: string
  rq_expiresAt :: timestamp
  rq_audit :: audit_context

text \<open>\<open>leaseDurationSeconds\<close> is a number: \<open>None\<close> when it is not an integer.\<close>

record recovery_claim =
  rc_attemptId :: string
  rc_operationId :: string
  rc_reservationId :: string
  rc_leaseDurationSeconds :: "int option"
  rc_audit :: audit_context

record authenticated_component =
  an_credentialId :: string
  an_componentId :: string
  an_role :: component_role
  an_authPayloadHash :: string
  an_signature :: string

section \<open>Helpers\<close>

fun outcomeName :: "recovery_outcome \<Rightarrow> string" where
  "outcomeName CONFIRMED_O = ''CONFIRMED''"
| "outcomeName FAILED = ''FAILED''"
| "outcomeName AMBIGUOUS = ''AMBIGUOUS''"
| "outcomeName CONFLICT = ''CONFLICT''"

definition authenticateComponent ::
  "externals \<Rightarrow> component_authorization option \<Rightarrow> component_role \<Rightarrow> string \<Rightarrow> (string \<times> jsval) list
     \<Rightarrow> authenticated_component tx" where
  "authenticateComponent X authorizationOption expectedRole action payload =
     (case authorizationOption of
        None \<Rightarrow> txThrow (LedgerError COMPONENT_AUTHENTICATION_FAILED)
      | Some authorization \<Rightarrow>
          txThen (txRequire (ca_role authorization = expectedRole) (LedgerError COMPONENT_AUTHENTICATION_FAILED)) (
          txBind (txQuery (\<lambda>d. rowWith cr_credential_id (ca_credentialId authorization) (credentials d))) (\<lambda>found.
          case found of
            None \<Rightarrow> txThrow (LedgerError COMPONENT_NOT_TRUSTED)
          | Some credential \<Rightarrow>
              txThen (txRequire (cr_active credential) (LedgerError COMPONENT_NOT_TRUSTED)) (
              txThen (txRequire (cr_component_id credential = ca_componentId authorization
                                 \<and> cr_component_role credential = ca_role authorization)
                       (LedgerError COMPONENT_AUTHENTICATION_FAILED)) (
              txBind (txLift (verifyComponentAction X authorization (cr_public_key credential) action payload)) (\<lambda>valid.
              txThen (txRequire valid (LedgerError COMPONENT_AUTHENTICATION_FAILED)) (
              txReturn
                \<lparr>an_credentialId = ca_credentialId authorization, an_componentId = cr_component_id credential,
                 an_role = cr_component_role credential,
                 an_authPayloadHash = componentAuthPayloadHash X action authorization payload,
                 an_signature = ca_signature authorization\<rparr>)))))))"

definition parseAtomic :: "string \<Rightarrow> bool \<Rightarrow> failure + string" where
  "parseAtomic value positive =
     andThen (require (if positive then positiveAtomicUnitSchema value else atomicUnitSchema value)
                (LedgerError INVALID_ATOMIC_AMOUNT)) (\<lambda>_. Inr value)"

text \<open>\<open>/^receipt:[A-Za-z0-9._:/-]+$/\<close>\<close>

definition receiptReferenceText :: "string \<Rightarrow> bool" where
  "receiptReferenceText s \<longleftrightarrow>
     take 8 s = ''receipt:'' \<and> drop 8 s \<noteq> [] \<and> list_all (\<lambda>c. identifierChar c \<or> c = CHR ''/'') (drop 8 s)"

definition parseBroadcastEvidence :: "broadcast_input \<Rightarrow> failure + broadcast_input" where
  "parseBroadcastEvidence evidence =
     andThen (require (prefixed ''0x'' isHex 64 (bi_transactionHash evidence)) (LedgerError INVALID_BROADCAST_EVIDENCE)) (\<lambda>_.
     andThen (parseAtomic (bi_nonce evidence) False) (\<lambda>nonce.
     andThen (require (receiptReferenceText (bi_receiptReference evidence)) (LedgerError INVALID_BROADCAST_EVIDENCE)) (\<lambda>_.
     Inr (evidence\<lparr>bi_nonce := nonce\<rparr>))))"

definition mapReservation :: "budget_reservation \<Rightarrow> reservation_snapshot" where
  "mapReservation row =
     \<lparr>rs_reservationId = br_reservation_id row, rs_budgetId = br_budget_id row, rs_operationId = br_operation_id row,
      rs_idempotencyKey = br_idempotency_key row, rs_amountAtomic = intStr (br_amount_atomic row),
      rs_finalizedSpendAtomic = intStr (br_finalized_spend_atomic row), rs_status = br_status row,
      rs_expiresAt = br_expires_at row, rs_proofReference = br_proof_reference row\<rparr>"

definition mapBudget :: "budget_account \<Rightarrow> budget_snapshot" where
  "mapBudget row =
     \<lparr>bs_budgetId = ba_budget_id row, bs_allocated = intStr (ba_allocated row), bs_available = intStr (ba_available row),
      bs_reserved = intStr (ba_reserved row), bs_finalizedSpend = intStr (ba_finalized_spend row),
      bs_version = intStr (ba_version row)\<rparr>"

text \<open>\<open>replaceAll(".", ":")\<close>\<close>

definition dotsToColons :: "string \<Rightarrow> string" where
  "dotsToColons s = map (\<lambda>c. if c = CHR ''.'' then CHR '':'' else c) s"

definition transitionEventId :: "audit_context \<Rightarrow> string \<Rightarrow> string" where
  "transitionEventId audit eventType = ac_eventId audit @ '':'' @ dotsToColons eventType"

definition correlationValue :: "audit_correlation \<Rightarrow> jsval" where
  "correlationValue c = JObject
     [(''reservationId'', JString (co_reservationId c)), (''budgetId'', JString (co_budgetId c)),
      (''ownerId'', JString (co_ownerId c)), (''agentId'', JString (co_agentId c)),
      (''walletId'', JString (co_walletId c)), (''intentId'', JString (co_intentId c)),
      (''operationId'', JString (co_operationId c)), (''policyId'', JString (co_policyId c)),
      (''policyVersion'', JNumber (jsInt (co_policyVersion c)))]"

definition assertAuditCorrelation :: "audit_context \<Rightarrow> audit_correlation \<Rightarrow> failure + unit" where
  "assertAuditCorrelation audit correlation =
     require (list_all (\<lambda>(field, assertedValue). assertedValue = JUndefined
                \<or> strictEq assertedValue (getProp (correlationValue correlation) field)) (ac_assertedCorrelation audit))
       (LedgerError AUDIT_CORRELATION_MISMATCH)"

text \<open>The rows that a reservation or an operation joins: budget, operation, intent, agent, wallet, policy.\<close>

record binding_row =
  bw_budget :: budget_account
  bw_operation :: operation_row
  bw_intent :: intent_row
  bw_agent :: agent_row
  bw_wallet :: wallet_row
  bw_policy :: policy_row

definition mapAuditCorrelation :: "string \<Rightarrow> binding_row \<Rightarrow> audit_correlation" where
  "mapAuditCorrelation reservationId row =
     \<lparr>co_reservationId = reservationId, co_budgetId = ba_budget_id (bw_budget row), co_ownerId = ag_owner_id (bw_agent row),
      co_agentId = op_agent_id (bw_operation row), co_walletId = op_wallet_id (bw_operation row),
      co_intentId = it_intent_id (bw_intent row), co_operationId = op_operation_id (bw_operation row),
      co_policyId = op_policy_id (bw_operation row), co_policyVersion = op_policy_version (bw_operation row)\<rparr>"

definition bindingConsistent :: "binding_row \<Rightarrow> bool" where
  "bindingConsistent row \<longleftrightarrow>
     it_agent_id (bw_intent row) = op_agent_id (bw_operation row)
     \<and> it_wallet_id (bw_intent row) = op_wallet_id (bw_operation row)
     \<and> it_policy_id (bw_intent row) = op_policy_id (bw_operation row)
     \<and> it_policy_version (bw_intent row) = op_policy_version (bw_operation row)
     \<and> ba_agent_id (bw_budget row) = op_agent_id (bw_operation row)
     \<and> ba_wallet_id (bw_budget row) = op_wallet_id (bw_operation row)
     \<and> ba_policy_id (bw_budget row) = op_policy_id (bw_operation row)
     \<and> ba_policy_version (bw_budget row) = op_policy_version (bw_operation row)
     \<and> ag_owner_id (bw_agent row) = wa_owner_id (bw_wallet row)
     \<and> ag_owner_id (bw_agent row) = pl_owner_id (bw_policy row)
     \<and> pl_agent_id (bw_policy row) = op_agent_id (bw_operation row)
     \<and> pl_wallet_id (bw_policy row) = op_wallet_id (bw_operation row)"

definition assertBindingConsistency :: "binding_row \<Rightarrow> failure + unit" where
  "assertBindingConsistency row = require (bindingConsistent row) (LedgerError BUDGET_BINDING_MISMATCH)"

definition eventData :: "reservation_snapshot \<Rightarrow> (string \<times> jsval) list \<Rightarrow> (string \<times> jsval) list" where
  "eventData reservation extra =
     spread [(''reservationId'', JString (rs_reservationId reservation)),
             (''amountAtomic'', JString (rs_amountAtomic reservation))] extra"

definition joinBinding :: "db \<Rightarrow> string \<Rightarrow> string \<Rightarrow> binding_row option" where
  "joinBinding d budgetId operationId =
     (case rowWith op_operation_id operationId (operations d) of None \<Rightarrow> None | Some o1 \<Rightarrow>
      case rowWith ba_budget_id budgetId (budget_accounts d) of None \<Rightarrow> None | Some b \<Rightarrow>
      case rowWith it_intent_id (op_intent_id o1) (intents d) of None \<Rightarrow> None | Some i \<Rightarrow>
      case rowWith ag_agent_id (op_agent_id o1) (agents d) of None \<Rightarrow> None | Some a \<Rightarrow>
      case rowWith wa_wallet_id (op_wallet_id o1) (wallets d) of None \<Rightarrow> None | Some w \<Rightarrow>
      case rowWith pl_policy_id (op_policy_id o1) (policies d) of None \<Rightarrow> None | Some p \<Rightarrow>
      Some \<lparr>bw_budget = b, bw_operation = o1, bw_intent = i, bw_agent = a, bw_wallet = w, bw_policy = p\<rparr>)"

definition getReservationForUpdate :: "string \<Rightarrow> (reservation_snapshot \<times> audit_correlation) tx" where
  "getReservationForUpdate reservationId =
     txBind (txQuery (\<lambda>d. case rowWith br_reservation_id reservationId (budget_reservations d) of
                            None \<Rightarrow> None
                          | Some r \<Rightarrow> map_option (Pair r) (joinBinding d (br_budget_id r) (br_operation_id r)))) (\<lambda>found.
     case found of
       None \<Rightarrow> txThrow (LedgerError RESERVATION_NOT_FOUND)
     | Some (r, row) \<Rightarrow>
         txThen (txLift (assertBindingConsistency row))
         (txReturn (mapReservation r, mapAuditCorrelation (br_reservation_id r) row)))"

definition getReservationBindingForReserve :: "string \<Rightarrow> string \<Rightarrow> audit_correlation tx" where
  "getReservationBindingForReserve budgetId operationId =
     txBind (txQuery (\<lambda>d. joinBinding d budgetId operationId)) (\<lambda>found.
     case found of
       None \<Rightarrow> txThrow (LedgerError RESERVATION_NOT_FOUND)
     | Some row \<Rightarrow>
         txThen (txLift (assertBindingConsistency row))
         (txReturn (mapAuditCorrelation ''pending'' row)))"

text \<open>The four fences of an operation, in the order they are locked.\<close>

definition fenceState :: "scope_type \<Rightarrow> string \<Rightarrow> db \<Rightarrow> string option" where
  "fenceState scopeType scopeId d =
     map_option fe_state (find (\<lambda>f. fe_scope_type f = scopeType \<and> fe_scope_id f = scopeId) (control_fences d))"

definition lockReservationControlFences :: "string \<Rightarrow> unit tx" where
  "lockReservationControlFences operationId =
     txBind (txQuery (\<lambda>d.
       case rowWith op_operation_id operationId (operations d) of None \<Rightarrow> None | Some o1 \<Rightarrow>
       case rowWith ag_agent_id (op_agent_id o1) (agents d) of None \<Rightarrow> None | Some a \<Rightarrow>
       case rowWith pl_policy_id (op_policy_id o1) (policies d) of None \<Rightarrow> None | Some p \<Rightarrow>
       Some (ag_owner_id a, op_agent_id o1, op_policy_id o1, pl_status p))) (\<lambda>identity.
     case identity of
       None \<Rightarrow> txThrow (LedgerError RESERVATION_NOT_FOUND)
     | Some (ownerId, agentId, policyId, policyStatus) \<Rightarrow>
         txBind (txQuery (\<lambda>d. map (\<lambda>(scopeType, scopeId). fenceState scopeType scopeId d)
           [(SYSTEM_SCOPE, ''system''), (OWNER_SCOPE, ownerId), (AGENT_SCOPE, agentId), (POLICY_SCOPE, policyId)])) (\<lambda>states.
         txThen (txRequire (list_all (\<lambda>state. state \<noteq> None \<and> state \<noteq> Some []) states) (LedgerError CONTROL_FENCE_INACTIVE))
         (txRequire (list_all (\<lambda>state. state = Some ''ACTIVE'') states \<and> policyStatus \<noteq> PolicyRevoked)
           (LedgerError CONTROL_FENCE_INACTIVE))))"

definition getReservation :: "string \<Rightarrow> reservation_snapshot tx" where
  "getReservation reservationId =
     txBind (txQuery (\<lambda>d. rowWith br_reservation_id reservationId (budget_reservations d))) (\<lambda>found.
     txLift (ofOption (LedgerError RESERVATION_NOT_FOUND) (map_option mapReservation found)))"

definition getBroadcastEvidence :: "string \<Rightarrow> evidence_row tx" where
  "getBroadcastEvidence reservationId =
     txBind (txQuery (\<lambda>d. rowWith be_reservation_id reservationId (broadcast_evidence d))) (\<lambda>found.
     txLift (ofOption (LedgerError INVALID_BROADCAST_EVIDENCE) found))"

definition getBudget :: "string \<Rightarrow> db \<Rightarrow> failure + budget_snapshot" where
  "getBudget budgetId d =
     andThen (ofOption (LedgerError RESERVATION_NOT_FOUND) (rowWith ba_budget_id budgetId (budget_accounts d)))
       (\<lambda>row. Inr (mapBudget row))"

section \<open>Statements\<close>

definition updateBudget :: "string \<Rightarrow> (budget_account \<Rightarrow> budget_account) \<Rightarrow> unit tx" where
  "updateBudget budgetId f = txExec (budget_accounts_update (updateWith ba_budget_id budgetId f))"

definition updateReservation :: "string \<Rightarrow> (budget_reservation \<Rightarrow> budget_reservation) \<Rightarrow> unit tx" where
  "updateReservation reservationId f = txExec (budget_reservations_update (updateWith br_reservation_id reservationId f))"

text \<open>\<open>available - amount\<close>, \<open>reserved + amount\<close>; the reverse; and the settlement of a hold.\<close>

definition holdFunds :: "int \<Rightarrow> budget_account \<Rightarrow> budget_account" where
  "holdFunds amount b = b\<lparr>ba_available := ba_available b - amount, ba_reserved := ba_reserved b + amount,
                          ba_version := ba_version b + 1\<rparr>"

definition returnFunds :: "int \<Rightarrow> budget_account \<Rightarrow> budget_account" where
  "returnFunds amount b = b\<lparr>ba_available := ba_available b + amount, ba_reserved := ba_reserved b - amount,
                            ba_version := ba_version b + 1\<rparr>"

definition settleFunds :: "int \<Rightarrow> int \<Rightarrow> budget_account \<Rightarrow> budget_account" where
  "settleFunds amount spend b =
     b\<lparr>ba_available := ba_available b + (amount - spend), ba_reserved := ba_reserved b - amount,
       ba_finalized_spend := ba_finalized_spend b + spend, ba_version := ba_version b + 1\<rparr>"

definition insertReservation :: "budget_reservation \<Rightarrow> unit tx" where
  "insertReservation row =
     txBind (txQuery (\<lambda>d. list_ex (\<lambda>old. br_reservation_id old = br_reservation_id row
         \<or> br_operation_id old = br_operation_id row \<or> br_idempotency_key old = br_idempotency_key row)
         (budget_reservations d))) (\<lambda>taken.
     txThen (txRequire (\<not> taken) (DatabaseError UNIQUE_VIOLATION))
     (txExec (budget_reservations_update (\<lambda>rows. rows @ [row]))))"

definition insertEvidence :: "evidence_row \<Rightarrow> unit tx" where
  "insertEvidence row =
     txBind (txQuery (\<lambda>d. rowWith be_reservation_id (be_reservation_id row) (broadcast_evidence d) \<noteq> None)) (\<lambda>taken.
     txThen (txRequire (\<not> taken) (DatabaseError UNIQUE_VIOLATION))
     (txExec (broadcast_evidence_update (\<lambda>rows. rows @ [row]))))"

definition insertAttempt :: "attempt_row \<Rightarrow> unit tx" where
  "insertAttempt row =
     txBind (txQuery (\<lambda>d. rowWith at_attempt_id (at_attempt_id row) (recovery_attempts d) \<noteq> None)) (\<lambda>taken.
     txThen (txRequire (\<not> taken) (DatabaseError UNIQUE_VIOLATION))
     (txExec (recovery_attempts_update (\<lambda>rows. rows @ [row]))))"

section \<open>Reserving\<close>

definition correlatedInput ::
  "string \<Rightarrow> string \<Rightarrow> string \<Rightarrow> string \<Rightarrow> audit_correlation \<Rightarrow> string \<Rightarrow> (string \<times> jsval) list \<Rightarrow> audit_input" where
  "correlatedInput eventId actorType actorId traceId c eventType data =
     \<lparr>ai_eventId = eventId, ai_actorType = actorType, ai_actorId = actorId, ai_traceId = traceId,
      ai_reservationId = Some (co_reservationId c), ai_ownerId = Some (co_ownerId c), ai_agentId = Some (co_agentId c),
      ai_walletId = Some (co_walletId c), ai_intentId = Some (co_intentId c), ai_operationId = Some (co_operationId c),
      ai_policyId = Some (co_policyId c), ai_policyVersion = Some (co_policyVersion c),
      ai_eventType = eventType, ai_data = data\<rparr>"

definition reservePayload :: "reserve_request \<Rightarrow> string \<Rightarrow> int \<Rightarrow> jsval" where
  "reservePayload request amount expiresAt = JObject
     [(''request'', JObject
        [(''amountAtomic'', JString amount), (''budgetId'', JString (rq_budgetId request)),
         (''expiresAt'', JString (toISOString expiresAt)), (''operationId'', JString (rq_operationId request))]),
      (''payload'', rq_idempotencyPayload request)]"

definition reserveFresh :: "externals \<Rightarrow> reserve_request \<Rightarrow> string \<Rightarrow> int \<Rightarrow> audit_correlation \<Rightarrow> reservation_snapshot tx" where
  "reserveFresh X request amount expiresAt correlation =
     txBind (txQuery (\<lambda>d. rowWith ba_budget_id (rq_budgetId request) (budget_accounts d))) (\<lambda>budget.
     case budget of
       None \<Rightarrow> txThrow (LedgerError RESERVATION_NOT_FOUND)
     | Some budgetRow \<Rightarrow>
         txThen (txRequire (\<not> ba_available budgetRow < bigInt amount)
                  (InsufficientBudgetError (rq_budgetId request) amount (intStr (ba_available budgetRow)))) (
         txThen (updateBudget (rq_budgetId request) (holdFunds (bigInt amount))) (
         let row = \<lparr>br_reservation_id = rq_reservationId request, br_budget_id = rq_budgetId request,
                    br_operation_id = rq_operationId request, br_idempotency_key = rq_idempotencyKey request,
                    br_amount_atomic = bigInt amount, br_finalized_spend_atomic = 0, br_status = HELD,
                    br_expires_at = expiresAt, br_proof_reference = None\<rparr>;
             reservation = mapReservation row in
         txThen (insertReservation row) (
         txThen (txExec (idempotency_records_update (updateWith ir_idempotency_key (rq_idempotencyKey request)
                   (\<lambda>r. r\<lparr>ir_reservation_id := Some (rs_reservationId reservation)\<rparr>)))) (
         txThen (appendAuditEvent X (correlatedInput
                   (transitionEventId (rq_audit request) ''budget.reservation.created'')
                   (ac_actorType (rq_audit request)) (ac_actorId (rq_audit request)) (ac_traceId (rq_audit request))
                   correlation ''budget.reservation.created'' (eventData reservation []))) (
         txReturn reservation))))))"

definition reserveWork :: "externals \<Rightarrow> reserve_request \<Rightarrow> string \<Rightarrow> int \<Rightarrow> string \<Rightarrow> reservation_snapshot tx" where
  "reserveWork X request amount expiresAt payloadHash =
     txThen (lockReservationControlFences (rq_operationId request)) (
     txBind (getReservationBindingForReserve (rq_budgetId request) (rq_operationId request)) (\<lambda>persistedCorrelation.
     let correlation = persistedCorrelation\<lparr>co_reservationId := rq_reservationId request\<rparr> in
     txThen (txLift (assertAuditCorrelation (rq_audit request) correlation)) (
     txBind (txQuery (\<lambda>d. rowWith ir_idempotency_key (rq_idempotencyKey request) (idempotency_records d))) (\<lambda>existing.
     case existing of
       Some existingRow \<Rightarrow>
         txThen (txRequire (ir_payload_hash existingRow = payloadHash) (IdempotencyConflictError (rq_idempotencyKey request))) (
         case ir_reservation_id existingRow of
           None \<Rightarrow> txThrow PlainError
         | Some reservationId \<Rightarrow> if reservationId = [] then txThrow PlainError else getReservation reservationId)
     | None \<Rightarrow>
         txThen (txExec (idempotency_records_update (\<lambda>rows. rows @
           [\<lparr>ir_idempotency_key = rq_idempotencyKey request, ir_payload_hash = payloadHash,
             ir_intent_id = co_intentId persistedCorrelation, ir_operation_id = rq_operationId request,
             ir_reservation_id = None\<rparr>])))
         (reserveFresh X request amount expiresAt correlation)))))"

text \<open>What is computed before the transaction starts: the amount, the expiry and the hash of the payload.\<close>

definition reserveParameters :: "externals \<Rightarrow> reserve_request \<Rightarrow> failure + (string \<times> int \<times> string)" where
  "reserveParameters X request =
     andThen (parseAtomic (rq_amountAtomic request) True) (\<lambda>amount.
     andThen (validDate (rq_expiresAt request)) (\<lambda>expiresAt.
     andThen (ofOption TypeError (hashIdempotencyPayload (sha256Hex X) (reservePayload request amount expiresAt))) (\<lambda>payloadHash.
     Inr (amount, expiresAt, payloadHash))))"

definition reserveBudget :: "externals \<Rightarrow> environment \<Rightarrow> reserve_request \<Rightarrow> db \<Rightarrow> (failure + reservation_snapshot) \<times> db" where
  "reserveBudget X E request d =
     (case reserveParameters X request of
        Inl e \<Rightarrow> (Inl e, d)
      | Inr (amount, expiresAt, payloadHash) \<Rightarrow>
          withSerializableTransaction E None (reserveWork X request amount expiresAt payloadHash) d)"

section \<open>Transitions\<close>

record transition_input =
  ti_reservationId :: string
  ti_audit :: audit_context

text \<open>
  The work of a transition: the reservation and its bindings are read and checked, then the
  transition runs on them.
\<close>

definition transitionReservation ::
  "transition_input \<Rightarrow> (reservation_snapshot \<Rightarrow> audit_correlation \<Rightarrow> reservation_snapshot tx) \<Rightarrow> reservation_snapshot tx" where
  "transitionReservation input transition =
     txBind (getReservationForUpdate (ti_reservationId input)) (\<lambda>(reservation, correlation).
     txThen (txLift (assertAuditCorrelation (ti_audit input) correlation))
     (transition reservation correlation))"

definition authenticatedData :: "authenticated_component \<Rightarrow> (string \<times> jsval) list" where
  "authenticatedData authenticated =
     [(''credentialId'', JString (an_credentialId authenticated)),
      (''componentId'', JString (an_componentId authenticated)),
      (''componentRole'', JString (roleName (an_role authenticated))),
      (''authPayloadHash'', JString (an_authPayloadHash authenticated)),
      (''authenticationMethod'', JString ''ed25519'')]"

definition writeTransitionAudit ::
  "externals \<Rightarrow> audit_context \<Rightarrow> string \<Rightarrow> reservation_snapshot \<Rightarrow> audit_correlation \<Rightarrow> (string \<times> jsval) list
     \<Rightarrow> authenticated_component option \<Rightarrow> unit tx" where
  "writeTransitionAudit X audit eventType reservation correlation data authenticatedOption =
     appendAuditEvent X (correlatedInput (transitionEventId audit eventType)
       (case authenticatedOption of
          None \<Rightarrow> ac_actorType audit
        | Some authenticated \<Rightarrow> if an_role authenticated = ADAPTER then ''adapter'' else ''worker'')
       (case authenticatedOption of None \<Rightarrow> ac_actorId audit | Some authenticated \<Rightarrow> an_componentId authenticated)
       (ac_traceId audit) correlation eventType
       (eventData reservation
         (case authenticatedOption of
            None \<Rightarrow> data
          | Some authenticated \<Rightarrow> spread data (authenticatedData authenticated))))"

text \<open>The rows of the join that supports an authorization; exactly one must remain.\<close>

definition authorizationRows :: "reservation_snapshot \<Rightarrow> lifecycle_state list \<Rightarrow> db \<Rightarrow> string list" where
  "authorizationRows reservation operationStates d =
     [az_authorization_id ae. ae \<leftarrow> authorization_evidence d, o1 \<leftarrow> operations d, e \<leftarrow> execution_envelopes d,
        pd \<leftarrow> policy_decisions d,
        op_operation_id o1 = az_operation_id ae
        \<and> en_operation_id e = az_operation_id ae \<and> en_envelope_id e = az_envelope_id ae
        \<and> en_revision e = az_envelope_revision ae
        \<and> dr_operation_id pd = az_operation_id ae \<and> dr_decision_id pd = az_policy_decision_id ae
        \<and> az_reservation_id ae = rs_reservationId reservation
        \<and> az_operation_id ae = rs_operationId reservation
        \<and> op_current_state o1 \<in> set operationStates
        \<and> rowWith iv_authorization_id (az_authorization_id ae) (authorization_invalidations d) = None
        \<and> en_envelope_hash e = az_envelope_hash ae
        \<and> dr_decision_hash pd = az_policy_decision_hash ae
        \<and> dr_policy_id pd = az_policy_id ae
        \<and> dr_policy_version pd = az_policy_version ae
        \<and> \<not> list_ex (\<lambda>latest. en_operation_id latest = az_operation_id ae \<and> en_revision latest > az_envelope_revision ae)
             (execution_envelopes d)]"

definition assertCanonicalAuthorizationEvidence :: "reservation_snapshot \<Rightarrow> lifecycle_state list \<Rightarrow> unit tx" where
  "assertCanonicalAuthorizationEvidence reservation operationStates =
     txBind (txQuery (authorizationRows reservation operationStates)) (\<lambda>rows.
     txRequire (length rows = 1) (LedgerError INVALID_RESERVATION_TRANSITION))"

definition authorizeWork :: "transition_input \<Rightarrow> reservation_snapshot tx" where
  "authorizeWork input = transitionReservation input (\<lambda>reservation correlation.
     txThen (txRequire (rs_status reservation = AUTHORIZED_R) (LedgerError INVALID_RESERVATION_TRANSITION)) (
     txThen (assertCanonicalAuthorizationEvidence reservation [AUTHORIZED]) (
     txReturn reservation)))"

definition authorizeReservation :: "environment \<Rightarrow> transition_input \<Rightarrow> db \<Rightarrow> (failure + reservation_snapshot) \<times> db" where
  "authorizeReservation E input d = withSerializableTransaction E None (authorizeWork input) d"

definition evidenceData :: "string \<Rightarrow> string \<Rightarrow> string \<Rightarrow> (string \<times> jsval) list" where
  "evidenceData transactionHash nonce receipt =
     [(''transactionHash'', JString transactionHash), (''nonce'', JString nonce), (''proofReference'', JString receipt)]"

definition evidenceAuthPayload :: "string \<Rightarrow> string \<Rightarrow> string \<Rightarrow> string \<Rightarrow> (string \<times> jsval) list" where
  "evidenceAuthPayload reservationId transactionHash nonce receipt =
     [(''reservationId'', JString reservationId), (''transactionHash'', JString transactionHash),
      (''nonce'', JString nonce), (''receiptReference'', JString receipt)]"

definition authColumns :: "authenticated_component \<Rightarrow> string \<times> string \<times> component_role \<times> string \<times> string" where
  "authColumns a = (an_credentialId a, an_componentId a, an_role a, an_signature a, an_authPayloadHash a)"

definition markBroadcastWork :: "externals \<Rightarrow> transition_input \<Rightarrow> broadcast_input \<Rightarrow> reservation_snapshot tx" where
  "markBroadcastWork X input evidenceInput = transitionReservation input (\<lambda>reservation correlation.
     txBind (txLift (parseBroadcastEvidence evidenceInput)) (\<lambda>evidence.
     txBind (authenticateComponent X (ac_componentAuth (ti_audit input)) ADAPTER ''broadcast''
       (evidenceAuthPayload (rs_reservationId reservation) (bi_transactionHash evidence) (bi_nonce evidence)
         (bi_receiptReference evidence))) (\<lambda>authenticated.
     txThen (txRequire (rs_status reservation = AUTHORIZED_R \<or> rs_status reservation = BROADCAST_R)
              (LedgerError INVALID_RESERVATION_TRANSITION)) (
     txThen (assertCanonicalAuthorizationEvidence reservation [AUTHORIZED, SIGNING, SIGNED]) (
     if rs_status reservation = BROADCAST_R
     then txBind (getBroadcastEvidence (rs_reservationId reservation)) (\<lambda>existing.
          txThen (txRequire (be_transaction_hash existing = bi_transactionHash evidence
                             \<and> intStr (be_nonce existing) = bi_nonce evidence
                             \<and> be_receipt_reference existing = bi_receiptReference evidence)
                   (LedgerError RECOVERY_CONFLICT)) (
          txReturn reservation))
     else
       txThen (insertEvidence
         \<lparr>be_reservation_id = rs_reservationId reservation, be_transaction_hash = bi_transactionHash evidence,
          be_nonce = bigInt (bi_nonce evidence), be_receipt_reference = bi_receiptReference evidence,
          be_verification_source = an_componentId authenticated, be_verification_status = PENDING,
          be_verified_at = None, be_verified_by = None, be_adapter = authColumns authenticated,
          be_verification = None\<rparr>) (
       txThen (updateReservation (rs_reservationId reservation) (\<lambda>r. r\<lparr>br_status := BROADCAST_R\<rparr>)) (
       let next = reservation\<lparr>rs_status := BROADCAST_R\<rparr> in
       txThen (writeTransitionAudit X (ti_audit input) ''budget.reservation.broadcast'' next correlation
                (evidenceData (bi_transactionHash evidence) (bi_nonce evidence) (bi_receiptReference evidence))
                (Some authenticated)) (
       txReturn next))))))))"

definition markReservationBroadcast ::
  "externals \<Rightarrow> environment \<Rightarrow> transition_input \<Rightarrow> broadcast_input \<Rightarrow> db \<Rightarrow> (failure + reservation_snapshot) \<times> db" where
  "markReservationBroadcast X E input evidence d =
     withSerializableTransaction E None (markBroadcastWork X input evidence) d"

definition markVerified :: "int \<Rightarrow> authenticated_component \<Rightarrow> evidence_row \<Rightarrow> evidence_row" where
  "markVerified now authenticated row =
     row\<lparr>be_verification_status := VERIFIED_E, be_verified_at := Some now,
         be_verified_by := Some (''reconciler:'' @ an_componentId authenticated),
         be_verification := Some (authColumns authenticated)\<rparr>"

definition updateEvidence :: "string \<Rightarrow> authenticated_component \<Rightarrow> unit tx" where
  "updateEvidence reservationId authenticated =
     txBind (txServer sv_clock) (\<lambda>now.
     txExec (broadcast_evidence_update (updateWith be_reservation_id reservationId (markVerified now authenticated))))"

definition verifyEvidenceWork :: "externals \<Rightarrow> transition_input \<Rightarrow> reservation_snapshot tx" where
  "verifyEvidenceWork X input = transitionReservation input (\<lambda>reservation correlation.
     txThen (txRequire (rs_status reservation = BROADCAST_R) (LedgerError INVALID_RESERVATION_TRANSITION)) (
     txBind (getBroadcastEvidence (rs_reservationId reservation)) (\<lambda>evidence.
     txBind (authenticateComponent X (ac_componentAuth (ti_audit input)) RECONCILER ''verify''
       (evidenceAuthPayload (rs_reservationId reservation) (be_transaction_hash evidence) (intStr (be_nonce evidence))
         (be_receipt_reference evidence))) (\<lambda>authenticated.
     if be_verification_status evidence = VERIFIED_E then txReturn reservation
     else
       txThen (updateEvidence (rs_reservationId reservation) authenticated) (
       txThen (writeTransitionAudit X (ti_audit input) ''budget.reservation.evidence.verified'' reservation correlation
                (evidenceData (be_transaction_hash evidence) (intStr (be_nonce evidence)) (be_receipt_reference evidence)
                 @ [(''verificationStatus'', JString ''VERIFIED'')])
                (Some authenticated)) (
       txReturn reservation))))))"

definition verifyBroadcastEvidence ::
  "externals \<Rightarrow> environment \<Rightarrow> transition_input \<Rightarrow> db \<Rightarrow> (failure + reservation_snapshot) \<times> db" where
  "verifyBroadcastEvidence X E input d = withSerializableTransaction E None (verifyEvidenceWork X input) d"

definition releaseWork :: "externals \<Rightarrow> transition_input \<Rightarrow> reservation_snapshot tx" where
  "releaseWork X input = transitionReservation input (\<lambda>reservation correlation.
     if rs_status reservation = RELEASED then txReturn reservation
     else
       txThen (txRequire (rs_status reservation = HELD \<or> rs_status reservation = AUTHORIZED_R)
                (LedgerError INVALID_RESERVATION_TRANSITION)) (
       txThen (updateBudget (rs_budgetId reservation) (returnFunds (bigInt (rs_amountAtomic reservation)))) (
       txThen (updateReservation (rs_reservationId reservation) (\<lambda>r. r\<lparr>br_status := RELEASED\<rparr>)) (
       let next = reservation\<lparr>rs_status := RELEASED\<rparr> in
       txThen (writeTransitionAudit X (ti_audit input) ''budget.reservation.released'' next correlation [] None) (
       txReturn next)))))"

definition releaseReservation ::
  "externals \<Rightarrow> environment \<Rightarrow> transition_input \<Rightarrow> db \<Rightarrow> (failure + reservation_snapshot) \<times> db" where
  "releaseReservation X E input d = withSerializableTransaction E None (releaseWork X input) d"

definition expireWork :: "externals \<Rightarrow> transition_input \<Rightarrow> timestamp \<Rightarrow> reservation_snapshot tx" where
  "expireWork X input nowInput = transitionReservation input (\<lambda>reservation correlation.
     if rs_status reservation = EXPIRED_R then txReturn reservation
     else
       txThen (txRequire (rs_status reservation = HELD \<or> rs_status reservation = AUTHORIZED_R)
                (LedgerError INVALID_RESERVATION_TRANSITION)) (
       txBind (txLift (validDate nowInput)) (\<lambda>now.
       txThen (txRequire (\<not> rs_expiresAt reservation > now) (LedgerError RESERVATION_NOT_EXPIRED)) (
       txThen (updateBudget (rs_budgetId reservation) (returnFunds (bigInt (rs_amountAtomic reservation)))) (
       txThen (updateReservation (rs_reservationId reservation) (\<lambda>r. r\<lparr>br_status := EXPIRED_R\<rparr>)) (
       let next = reservation\<lparr>rs_status := EXPIRED_R\<rparr> in
       txThen (writeTransitionAudit X (ti_audit input) ''budget.reservation.expired'' next correlation [] None) (
       txReturn next)))))))"

definition expireReservation ::
  "externals \<Rightarrow> environment \<Rightarrow> transition_input \<Rightarrow> timestamp \<Rightarrow> db \<Rightarrow> (failure + reservation_snapshot) \<times> db" where
  "expireReservation X E input now d = withSerializableTransaction E None (expireWork X input now) d"

text \<open>The two updates of a settlement, shared by finalization and confirmed recovery.\<close>

definition settleReservation :: "string \<Rightarrow> string \<Rightarrow> budget_reservation \<Rightarrow> budget_reservation" where
  "settleReservation spend proof r =
     r\<lparr>br_status := FINALIZED, br_finalized_spend_atomic := bigInt spend, br_proof_reference := Some proof\<rparr>"

definition finalizeWork :: "externals \<Rightarrow> transition_input \<Rightarrow> string \<Rightarrow> string \<Rightarrow> reservation_snapshot tx" where
  "finalizeWork X input actualSpend proofReference = transitionReservation input (\<lambda>reservation correlation.
     if rs_status reservation = FINALIZED then txReturn reservation
     else
       txThen (txRequire (rs_status reservation = BROADCAST_R) (LedgerError INVALID_RESERVATION_TRANSITION)) (
       txBind (getBroadcastEvidence (rs_reservationId reservation)) (\<lambda>evidence.
       txThen (txRequire (be_verification_status evidence = VERIFIED_E) (LedgerError INVALID_BROADCAST_EVIDENCE)) (
       txThen (txRequire (proofReference = be_receipt_reference evidence) (LedgerError INVALID_BROADCAST_EVIDENCE)) (
       txThen (txRequire (\<not> bigInt actualSpend > bigInt (rs_amountAtomic reservation)) (LedgerError INVALID_ATOMIC_AMOUNT)) (
       txThen (updateBudget (rs_budgetId reservation) (settleFunds (bigInt (rs_amountAtomic reservation)) (bigInt actualSpend))) (
       txThen (updateReservation (rs_reservationId reservation) (settleReservation actualSpend proofReference)) (
       let next = reservation\<lparr>rs_status := FINALIZED, rs_finalizedSpendAtomic := actualSpend,
                               rs_proofReference := Some proofReference\<rparr> in
       txThen (writeTransitionAudit X (ti_audit input) ''budget.reservation.finalized'' next correlation
                [(''proofReference'', JString proofReference), (''transactionHash'', JString (be_transaction_hash evidence)),
                 (''nonce'', JString (intStr (be_nonce evidence)))] None) (
       txReturn next)))))))))"

definition finalizeReservation ::
  "externals \<Rightarrow> environment \<Rightarrow> transition_input \<Rightarrow> string \<Rightarrow> string \<Rightarrow> db \<Rightarrow> (failure + reservation_snapshot) \<times> db" where
  "finalizeReservation X E input actualSpendAtomic proofReference d =
     (case parseAtomic actualSpendAtomic False of
        Inl e \<Rightarrow> (Inl e, d)
      | Inr actualSpend \<Rightarrow> withSerializableTransaction E None (finalizeWork X input actualSpend proofReference) d)"

definition disputeWork :: "externals \<Rightarrow> transition_input \<Rightarrow> string \<Rightarrow> reservation_snapshot tx" where
  "disputeWork X input reason = transitionReservation input (\<lambda>reservation correlation.
     if rs_status reservation = DISPUTED_R then txReturn reservation
     else
       txThen (txRequire (rs_status reservation \<in> set [HELD, AUTHORIZED_R, BROADCAST_R])
                (LedgerError INVALID_RESERVATION_TRANSITION)) (
       txThen (updateReservation (rs_reservationId reservation) (\<lambda>r. r\<lparr>br_status := DISPUTED_R\<rparr>)) (
       let next = reservation\<lparr>rs_status := DISPUTED_R\<rparr> in
       txThen (writeTransitionAudit X (ti_audit input) ''budget.reservation.disputed'' next correlation
                [(''reason'', JString reason)] None) (
       txReturn next))))"

definition disputeReservation ::
  "externals \<Rightarrow> environment \<Rightarrow> transition_input \<Rightarrow> string \<Rightarrow> db \<Rightarrow> (failure + reservation_snapshot) \<times> db" where
  "disputeReservation X E input reason d = withSerializableTransaction E None (disputeWork X input reason) d"

section \<open>Recovery\<close>

definition MAX_RECOVERY_LEASE_SECONDS :: int where
  "MAX_RECOVERY_LEASE_SECONDS = 300"

definition MAX_SAFE_INTEGER :: int where
  "MAX_SAFE_INTEGER = 9007199254740991"

definition recoveryEventId :: "audit_context \<Rightarrow> string \<Rightarrow> string" where
  "recoveryEventId audit suffix = ac_eventId audit @ '':recovery:'' @ suffix"

definition recoveryPayload :: "recovery_resolution \<Rightarrow> evidence_row option \<Rightarrow> (string \<times> jsval) list" where
  "recoveryPayload input evidence =
     [(''attemptId'', JString (rr_attemptId input)),
      (''operationId'', JString (rr_operationId input)),
      (''reservationId'', JString (rr_reservationId input)),
      (''leaseVersion'', JString (rr_leaseVersion input)),
      (''outcome'', JString (outcomeName (rr_outcome input))),
      (''reason'', JString (rr_reason input)),
      (''actualSpendAtomic'', nullableString (rr_actualSpendAtomic input)),
      (''proofReference'', nullableString (rr_proofReference input))]
     @ (if rr_verifiedRevert input then [(''verifiedRevert'', JBool True)] else [])
     @ [(''evidence'',
         case evidence of
           None \<Rightarrow> JNull
         | Some row \<Rightarrow> JObject
             [(''transactionHash'', JString (be_transaction_hash row)),
              (''nonce'', JString (intStr (be_nonce row))),
              (''receiptReference'', JString (be_receipt_reference row))])]"

definition writeRecoveryAudit ::
  "externals \<Rightarrow> audit_context \<Rightarrow> string \<Rightarrow> reservation_snapshot \<Rightarrow> audit_correlation \<Rightarrow> authenticated_component
     \<Rightarrow> (string \<times> jsval) list \<Rightarrow> unit tx" where
  "writeRecoveryAudit X audit eventType reservation correlation authenticated data =
     appendAuditEvent X (correlatedInput
       (recoveryEventId audit (dotsToColons eventType @ '':'' @
          (case getProp (JObject data) ''attemptId'' of JString s \<Rightarrow> s | _ \<Rightarrow> ''claim'')))
       ''worker'' (an_componentId authenticated) (ac_traceId audit) correlation eventType
       (eventData reservation (spread data (authenticatedData authenticated))))"

text \<open>\<open>INSERT ... ON CONFLICT (operation_id) DO UPDATE\<close>; another operation's lease may not hold the reservation.\<close>

definition upsertLease :: "lease_row \<Rightarrow> unit tx" where
  "upsertLease row =
     txBind (txQuery (\<lambda>d. list_ex (\<lambda>old. le_operation_id old \<noteq> le_operation_id row
         \<and> le_reservation_id old = le_reservation_id row) (recovery_leases d))) (\<lambda>taken.
     txThen (txRequire (\<not> taken) (DatabaseError UNIQUE_VIOLATION))
     (txExec (recovery_leases_update (\<lambda>rows.
        if rowWith le_operation_id (le_operation_id row) rows = None then rows @ [row]
        else updateWith le_operation_id (le_operation_id row) (\<lambda>_. row) rows))))"

definition claimWork :: "externals \<Rightarrow> recovery_claim \<Rightarrow> int \<Rightarrow> recovery_lease tx" where
  "claimWork X input duration =
     txBind (getReservationForUpdate (rc_reservationId input)) (\<lambda>(reservation, correlation).
     txThen (txRequire (rs_operationId reservation = rc_operationId input) (LedgerError BUDGET_BINDING_MISMATCH)) (
     txBind (authenticateComponent X (ac_componentAuth (rc_audit input)) RECONCILER ''recovery.claim''
       [(''attemptId'', JString (rc_attemptId input)), (''operationId'', JString (rc_operationId input)),
        (''reservationId'', JString (rc_reservationId input)), (''leaseDurationSeconds'', JNumber (jsInt duration))]) (\<lambda>authenticated.
     txBind (txServer sv_clock) (\<lambda>clock.
     txBind (txQuery (\<lambda>d. rowWith le_operation_id (rc_operationId input) (recovery_leases d))) (\<lambda>current.
     txThen (txRequire (\<not> (case current of None \<Rightarrow> False
                            | Some lease \<Rightarrow> le_lease_state lease = LeaseActive \<and> le_lease_expires_at lease > clock))
              (LedgerError RECOVERY_LEASE_HELD)) (
     let leaseVersion = (case current of None \<Rightarrow> 1 | Some lease \<Rightarrow> le_lease_version lease + 1) in
     txThen (txRequire (\<not> leaseVersion > MAX_SAFE_INTEGER) (LedgerError RECOVERY_LEASE_STALE)) (
     let expiresAt = clock + duration * 1000 in
     txThen (upsertLease
       \<lparr>le_operation_id = rc_operationId input, le_reservation_id = rc_reservationId input,
        le_credential_id = an_credentialId authenticated, le_lease_version = leaseVersion,
        le_lease_expires_at = expiresAt, le_lease_state = LeaseActive\<rparr>) (
     txThen (writeRecoveryAudit X (rc_audit input) ''execution.recovery.claimed'' reservation correlation authenticated
              [(''attemptId'', JString (rc_attemptId input)), (''leaseVersion'', JNumber (jsInt leaseVersion))]) (
     txReturn
       \<lparr>rl_operationId = rc_operationId input, rl_reservationId = rc_reservationId input,
        rl_credentialId = an_credentialId authenticated, rl_componentId = an_componentId authenticated,
        rl_leaseVersion = intStr leaseVersion, rl_leaseExpiresAt = expiresAt\<rparr>)))))))))"

definition claimRecoveryLease ::
  "externals \<Rightarrow> environment \<Rightarrow> recovery_claim \<Rightarrow> db \<Rightarrow> (failure + recovery_lease) \<times> db" where
  "claimRecoveryLease X E input d =
     (case rc_leaseDurationSeconds input of
        None \<Rightarrow> (Inl (LedgerError RECOVERY_LEASE_STALE), d)
      | Some duration \<Rightarrow>
          if duration \<le> 0 \<or> duration > MAX_RECOVERY_LEASE_SECONDS then (Inl (LedgerError RECOVERY_LEASE_STALE), d)
          else withSerializableTransaction E None (claimWork X input duration) d)"

definition leaseData :: "recovery_resolution \<Rightarrow> (string \<times> jsval) list" where
  "leaseData input =
     [(''attemptId'', JString (rr_attemptId input)), (''leaseVersion'', JNumber (jsInt (bigInt (rr_leaseVersion input))))]"

text \<open>The branch \<open>outcome === "CONFIRMED"\<close>.\<close>

definition resolveConfirmed ::
  "externals \<Rightarrow> audit_context \<Rightarrow> recovery_resolution \<Rightarrow> string option \<Rightarrow> reservation_snapshot \<Rightarrow> audit_correlation
     \<Rightarrow> evidence_row option \<Rightarrow> authenticated_component \<Rightarrow> reservation_snapshot tx" where
  "resolveConfirmed X audit input actualSpend reservation correlation evidenceOption authenticated =
     (case evidenceOption of
        None \<Rightarrow> txThrow (LedgerError INVALID_BROADCAST_EVIDENCE)
      | Some evidence \<Rightarrow>
          txThen (txRequire (rs_status reservation = BROADCAST_R) (LedgerError INVALID_BROADCAST_EVIDENCE)) (
          txThen (txRequire (rr_proofReference input = Some (be_receipt_reference evidence)) (LedgerError INVALID_BROADCAST_EVIDENCE)) (
          case actualSpend of
            None \<Rightarrow> txThrow (LedgerError INVALID_BROADCAST_EVIDENCE)
          | Some confirmedSpend \<Rightarrow>
              txThen (txRequire (\<not> bigInt confirmedSpend > bigInt (rs_amountAtomic reservation)) (LedgerError INVALID_ATOMIC_AMOUNT)) (
              txThen (if be_verification_status evidence = PENDING
                      then txThen (updateEvidence (rr_reservationId input) authenticated)
                             (writeRecoveryAudit X audit ''budget.reservation.evidence.verified'' reservation correlation authenticated
                               (leaseData input @ evidenceData (be_transaction_hash evidence) (intStr (be_nonce evidence))
                                  (be_receipt_reference evidence) @ [(''verificationStatus'', JString ''VERIFIED'')]))
                      else txReturn ()) (
              txThen (updateBudget (rs_budgetId reservation) (settleFunds (bigInt (rs_amountAtomic reservation)) (bigInt confirmedSpend))) (
              txThen (updateReservation (rr_reservationId input) (settleReservation confirmedSpend (be_receipt_reference evidence))) (
              let next = reservation\<lparr>rs_status := FINALIZED, rs_finalizedSpendAtomic := confirmedSpend,
                                      rs_proofReference := rr_proofReference input\<rparr> in
              txThen (writeRecoveryAudit X audit ''budget.reservation.finalized'' next correlation authenticated
                       (leaseData input @ [(''actualSpendAtomic'', JString confirmedSpend),
                          (''proofReference'', JString (be_receipt_reference evidence)),
                          (''transactionHash'', JString (be_transaction_hash evidence)),
                          (''nonce'', JString (intStr (be_nonce evidence)))])) (
              txReturn next))))))))"

text \<open>The release of a hold, before a broadcast or after a verified revert.\<close>

definition resolveReleased ::
  "externals \<Rightarrow> audit_context \<Rightarrow> recovery_resolution \<Rightarrow> reservation_snapshot \<Rightarrow> audit_correlation
     \<Rightarrow> authenticated_component \<Rightarrow> (string \<times> jsval) list \<Rightarrow> reservation_snapshot tx" where
  "resolveReleased X audit input reservation correlation authenticated data =
     txThen (updateBudget (rs_budgetId reservation) (returnFunds (bigInt (rs_amountAtomic reservation)))) (
     txThen (updateReservation (rr_reservationId input) (\<lambda>r. r\<lparr>br_status := RELEASED\<rparr>)) (
     let next = reservation\<lparr>rs_status := RELEASED\<rparr> in
     txThen (writeRecoveryAudit X audit ''budget.reservation.released'' next correlation authenticated
              (leaseData input @ [(''reason'', JString (rr_reason input))] @ data)) (
     txReturn next)))"

definition resolveReverted ::
  "externals \<Rightarrow> audit_context \<Rightarrow> recovery_resolution \<Rightarrow> string option \<Rightarrow> reservation_snapshot \<Rightarrow> audit_correlation
     \<Rightarrow> evidence_row option \<Rightarrow> authenticated_component \<Rightarrow> reservation_snapshot tx" where
  "resolveReverted X audit input actualSpend reservation correlation evidenceOption authenticated =
     (case evidenceOption of
        None \<Rightarrow> txThrow (LedgerError INVALID_BROADCAST_EVIDENCE)
      | Some evidence \<Rightarrow>
          txThen (txRequire (be_verification_status evidence = VERIFIED_E
                             \<and> rr_proofReference input = Some (be_receipt_reference evidence)
                             \<and> actualSpend = Some ''0'') (LedgerError INVALID_BROADCAST_EVIDENCE))
          (resolveReleased X audit input reservation correlation authenticated
             [(''proofReference'', JString (be_receipt_reference evidence)), (''actualSpendAtomic'', JString ''0'')]))"

definition resolveDisputed ::
  "externals \<Rightarrow> audit_context \<Rightarrow> recovery_resolution \<Rightarrow> reservation_snapshot \<Rightarrow> audit_correlation
     \<Rightarrow> authenticated_component \<Rightarrow> reservation_snapshot tx" where
  "resolveDisputed X audit input reservation correlation authenticated =
     (if rs_status reservation \<noteq> DISPUTED_R
      then txThen (updateReservation (rr_reservationId input) (\<lambda>r. r\<lparr>br_status := DISPUTED_R\<rparr>)) (
           let next = reservation\<lparr>rs_status := DISPUTED_R\<rparr> in
           txThen (writeRecoveryAudit X audit ''budget.reservation.disputed'' next correlation authenticated
                    (leaseData input @ [(''reason'', JString (rr_reason input))])) (
           txReturn next))
      else txReturn reservation)"

text \<open>The choice of the branch.\<close>

definition resolveOutcome ::
  "externals \<Rightarrow> audit_context \<Rightarrow> recovery_resolution \<Rightarrow> string option \<Rightarrow> reservation_snapshot \<Rightarrow> audit_correlation
     \<Rightarrow> evidence_row option \<Rightarrow> authenticated_component \<Rightarrow> reservation_snapshot tx" where
  "resolveOutcome X audit input actualSpend reservation correlation evidence authenticated =
     (if rr_outcome input = CONFIRMED_O
      then resolveConfirmed X audit input actualSpend reservation correlation evidence authenticated
      else if rr_outcome input = FAILED \<and> rs_status reservation \<in> set [HELD, AUTHORIZED_R]
      then resolveReleased X audit input reservation correlation authenticated []
      else if rr_outcome input = FAILED \<and> rr_verifiedRevert input \<and> rs_status reservation = BROADCAST_R
      then resolveReverted X audit input actualSpend reservation correlation evidence authenticated
      else if rr_outcome input \<in> set [AMBIGUOUS, CONFLICT]
              \<or> (rr_outcome input = FAILED \<and> rs_status reservation \<in> set [BROADCAST_R, DISPUTED_R])
      then resolveDisputed X audit input reservation correlation authenticated
      else txThrow (LedgerError INVALID_RESERVATION_TRANSITION))"

definition recordAttempt :: "recovery_resolution \<Rightarrow> string option \<Rightarrow> authenticated_component \<Rightarrow> unit tx" where
  "recordAttempt input actualSpend authenticated =
     txThen (insertAttempt
       \<lparr>at_attempt_id = rr_attemptId input, at_operation_id = rr_operationId input,
        at_reservation_id = rr_reservationId input, at_lease_version = bigInt (rr_leaseVersion input),
        at_credential_id = an_credentialId authenticated, at_outcome = rr_outcome input,
        at_resolution_hash = an_authPayloadHash authenticated, at_reason = rr_reason input,
        at_actual_spend_atomic = map_option bigInt actualSpend, at_proof_reference = rr_proofReference input\<rparr>)
     (txExec (recovery_leases_update (updateWith le_operation_id (rr_operationId input)
       (\<lambda>lease. lease\<lparr>le_lease_state := LeaseResolved\<rparr>))))"

text \<open>The lease must be live for this worker; its expiry is compared with the clock of the process.\<close>

definition leaseLive :: "recovery_resolution \<Rightarrow> authenticated_component \<Rightarrow> int \<Rightarrow> lease_row option \<Rightarrow> bool" where
  "leaseLive input authenticated now leaseOption =
     (case leaseOption of
        None \<Rightarrow> False
      | Some current \<Rightarrow>
          le_reservation_id current = rr_reservationId input
          \<and> le_credential_id current = an_credentialId authenticated
          \<and> intStr (le_lease_version current) = rr_leaseVersion input
          \<and> le_lease_state current = LeaseActive
          \<and> \<not> le_lease_expires_at current \<le> now)"

definition resolveWork :: "externals \<Rightarrow> audit_context \<Rightarrow> recovery_resolution \<Rightarrow> string option \<Rightarrow> reservation_snapshot tx" where
  "resolveWork X audit input actualSpend =
     txBind (getReservationForUpdate (rr_reservationId input)) (\<lambda>(reservation, correlation).
     txThen (txRequire (rs_operationId reservation = rr_operationId input) (LedgerError BUDGET_BINDING_MISMATCH)) (
     txBind (txQuery (\<lambda>d. rowWith be_reservation_id (rr_reservationId input) (broadcast_evidence d))) (\<lambda>evidence.
     txBind (authenticateComponent X (ac_componentAuth audit) RECONCILER ''recovery.resolve'' (recoveryPayload input evidence)) (\<lambda>authenticated.
     txBind (txQuery (\<lambda>d. rowWith at_attempt_id (rr_attemptId input) (recovery_attempts d))) (\<lambda>prior.
     case prior of
       Some row \<Rightarrow>
         txThen (txRequire (at_operation_id row = rr_operationId input \<and> at_reservation_id row = rr_reservationId input
                            \<and> at_resolution_hash row = an_authPayloadHash authenticated) (LedgerError RECOVERY_CONFLICT)) (
         txReturn reservation)
     | None \<Rightarrow>
         txBind (txServer sv_nodeClock) (\<lambda>now.
         txBind (txQuery (\<lambda>d. rowWith le_operation_id (rr_operationId input) (recovery_leases d))) (\<lambda>lease.
         txThen (txRequire (leaseLive input authenticated now lease) (LedgerError RECOVERY_LEASE_STALE)) (
         txBind (resolveOutcome X audit input actualSpend reservation correlation evidence authenticated) (\<lambda>next.
         txThen (recordAttempt input actualSpend authenticated) (
         txThen (writeRecoveryAudit X audit
                  (case rr_outcome input of
                     AMBIGUOUS \<Rightarrow> ''execution.recovery.ambiguous''
                   | CONFLICT \<Rightarrow> ''execution.recovery.conflict''
                   | _ \<Rightarrow> ''execution.recovery.resolved'')
                  next correlation authenticated
                  (leaseData input @ [(''recoveryOutcome'', JString (outcomeName (rr_outcome input))),
                     (''resolutionHash'', JString (an_authPayloadHash authenticated)),
                     (''reason'', JString (rr_reason input))])) (
         txReturn next)))))))))))"

text \<open>A missing or empty text is falsy.\<close>

definition truthy :: "string option \<Rightarrow> bool" where
  "truthy s \<longleftrightarrow> s \<noteq> None \<and> s \<noteq> Some []"

definition resolveRecovery ::
  "externals \<Rightarrow> environment \<Rightarrow> audit_context \<Rightarrow> recovery_resolution \<Rightarrow> db \<Rightarrow> (failure + reservation_snapshot) \<times> db" where
  "resolveRecovery X E audit input d =
     (case (if truthy (rr_actualSpendAtomic input)
            then andThen (parseAtomic (the (rr_actualSpendAtomic input)) False) (\<lambda>s. Inr (Some s)) else Inr None) of
        Inl e \<Rightarrow> (Inl e, d)
      | Inr actualSpend \<Rightarrow>
          if rr_outcome input = CONFIRMED_O \<and> (\<not> truthy actualSpend \<or> \<not> truthy (rr_proofReference input))
          then (Inl (LedgerError INVALID_BROADCAST_EVIDENCE), d)
          else withSerializableTransaction E None (resolveWork X audit input actualSpend) d)"

end
