(* ===== verification/LedgerInvariant.thy ===== *)
theory LedgerInvariant
  imports Ledger
begin

text \<open>
  What the operations of the ledger do to the budgets. The budget accounts and the reservations
  form an abstract ledger with six kinds of steps; every operation of \<open>Ledger\<close> that succeeds is
  one of these steps on it. The invariants of the money are proved on the steps.
\<close>

section \<open>The abstract ledger\<close>

type_synonym ledger = "budget_account list \<times> budget_reservation list"

definition ledgerOf :: "db \<Rightarrow> ledger" where
  "ledgerOf d = (budget_accounts d, budget_reservations d)"

text \<open>A reservation is live while its outcome is open, and settled when its funds were given back or spent.\<close>

definition liveStatus :: "reservation_status \<Rightarrow> bool" where
  "liveStatus s \<longleftrightarrow> s = HELD \<or> s = AUTHORIZED_R \<or> s = BROADCAST_R"

definition setStatus :: "reservation_status \<Rightarrow> budget_reservation \<Rightarrow> budget_reservation" where
  "setStatus s r = r\<lparr>br_status := s\<rparr>"

text \<open>
  The steps. The flag \<open>late\<close> tells whether a settled reservation may become disputed, which only
  the resolution of a recovery as ambiguous or conflicting does; the flag \<open>revert\<close> whether the funds
  of a broadcast reservation may be given back, which only a verified revert does.
\<close>

inductive ledger_step :: "bool \<Rightarrow> bool \<Rightarrow> ledger \<Rightarrow> ledger \<Rightarrow> bool" for late revert where
  stay: "ledger_step late revert L L"
| reserve: "rowWith ba_budget_id (br_budget_id row) A = Some b \<Longrightarrow> 0 < br_amount_atomic row \<Longrightarrow>
    br_amount_atomic row \<le> ba_available b \<Longrightarrow> br_reservation_id row \<notin> br_reservation_id ` set R \<Longrightarrow>
    br_status row = HELD \<Longrightarrow> br_finalized_spend_atomic row = 0 \<Longrightarrow>
    ledger_step late revert (A, R) (updateWith ba_budget_id (br_budget_id row) (holdFunds (br_amount_atomic row)) A, R @ [row])"
| authorize: "rowWith br_reservation_id rid R = Some r \<Longrightarrow> br_status r = HELD \<Longrightarrow>
    ledger_step late revert (A, R) (A, updateWith br_reservation_id rid (setStatus AUTHORIZED_R) R)"
| broadcast: "rowWith br_reservation_id rid R = Some r \<Longrightarrow> br_status r = AUTHORIZED_R \<Longrightarrow>
    ledger_step late revert (A, R) (A, updateWith br_reservation_id rid (setStatus BROADCAST_R) R)"
| give_back: "rowWith br_reservation_id rid R = Some r \<Longrightarrow> liveStatus (br_status r) \<Longrightarrow>
    s = RELEASED \<or> s = EXPIRED_R \<Longrightarrow> br_status r = BROADCAST_R \<longrightarrow> revert \<and> s = RELEASED \<Longrightarrow>
    rowWith ba_budget_id (br_budget_id r) A = Some b \<Longrightarrow>
    ledger_step late revert (A, R) (updateWith ba_budget_id (br_budget_id r) (returnFunds (br_amount_atomic r)) A,
      updateWith br_reservation_id rid (setStatus s) R)"
| settle: "rowWith br_reservation_id rid R = Some r \<Longrightarrow> br_status r = BROADCAST_R \<Longrightarrow>
    0 \<le> bigInt spend \<Longrightarrow> bigInt spend \<le> br_amount_atomic r \<Longrightarrow> rowWith ba_budget_id (br_budget_id r) A = Some b \<Longrightarrow>
    ledger_step late revert (A, R) (updateWith ba_budget_id (br_budget_id r) (settleFunds (br_amount_atomic r) (bigInt spend)) A,
      updateWith br_reservation_id rid (settleReservation spend proof) R)"
| dispute: "rowWith br_reservation_id rid R = Some r \<Longrightarrow> late \<or> liveStatus (br_status r) \<Longrightarrow>
    ledger_step late revert (A, R) (A, updateWith br_reservation_id rid (setStatus DISPUTED_R) R)"

section \<open>The invariant of the money\<close>

definition sumOf :: "(budget_reservation \<Rightarrow> bool) \<Rightarrow> (budget_reservation \<Rightarrow> int) \<Rightarrow> budget_reservation list \<Rightarrow> int" where
  "sumOf P f R = sum_list (map (\<lambda>r. if P r then f r else 0) R)"

definition liveSum :: "string \<Rightarrow> budget_reservation list \<Rightarrow> int" where
  "liveSum bid R = sumOf (\<lambda>r. br_budget_id r = bid \<and> liveStatus (br_status r)) br_amount_atomic R"

definition heldSum :: "string \<Rightarrow> budget_reservation list \<Rightarrow> int" where
  "heldSum bid R = sumOf (\<lambda>r. br_budget_id r = bid \<and> (liveStatus (br_status r) \<or> br_status r = DISPUTED_R)) br_amount_atomic R"

definition spentSum :: "string \<Rightarrow> budget_reservation list \<Rightarrow> int" where
  "spentSum bid R = sumOf (\<lambda>r. br_budget_id r = bid) br_finalized_spend_atomic R"

text \<open>Per account: nothing is created or lost, nothing is negative, open holds are covered, spend is accounted for.\<close>

definition accountOk :: "budget_reservation list \<Rightarrow> budget_account \<Rightarrow> bool" where
  "accountOk R b \<longleftrightarrow>
     ba_allocated b = ba_available b + ba_reserved b + ba_finalized_spend b
     \<and> 0 \<le> ba_available b \<and> liveSum (ba_budget_id b) R \<le> ba_reserved b
     \<and> ba_finalized_spend b = spentSum (ba_budget_id b) R"

definition reservationOk :: "budget_reservation \<Rightarrow> bool" where
  "reservationOk r \<longleftrightarrow>
     0 < br_amount_atomic r \<and> 0 \<le> br_finalized_spend_atomic r \<and> br_finalized_spend_atomic r \<le> br_amount_atomic r
     \<and> (liveStatus (br_status r) \<longrightarrow> br_finalized_spend_atomic r = 0)"

definition ledgerInv :: "ledger \<Rightarrow> bool" where
  "ledgerInv L \<longleftrightarrow>
     (case L of (A, R) \<Rightarrow>
        distinct (map ba_budget_id A) \<and> distinct (map br_reservation_id R)
        \<and> list_all (accountOk R) A \<and> list_all reservationOk R)"

text \<open>The exact form: the reserved amount is the sum of the open and the disputed holds.\<close>

definition ledgerExact :: "ledger \<Rightarrow> bool" where
  "ledgerExact L \<longleftrightarrow>
     ledgerInv L \<and> (case L of (A, R) \<Rightarrow> list_all (\<lambda>b. ba_reserved b = heldSum (ba_budget_id b) R) A)"

section \<open>Lemmas: sums over reservations\<close>

lemma sumOf_append [simp]: "sumOf P f (R @ R') = sumOf P f R + sumOf P f R'"
  by (simp add: sumOf_def)

lemma sumOf_single [simp]: "sumOf P f [r] = (if P r then f r else 0)"
  by (simp add: sumOf_def)

lemma sumOf_update:
  assumes "distinct (map br_reservation_id R)" "rowWith br_reservation_id rid R = Some r"
  shows "sumOf P f (updateWith br_reservation_id rid g R)
    = sumOf P f R - (if P r then f r else 0) + (if P (g r) then f (g r) else 0)"
  unfolding sumOf_def using sum_list_updateWith [OF assms] .

lemma sumOf_nonneg: "(\<And>r. r \<in> set R \<Longrightarrow> 0 \<le> f r) \<Longrightarrow> 0 \<le> sumOf P f R"
  unfolding sumOf_def by (intro sum_list_nonneg) auto

lemma sumOf_mono:
  "(\<And>r. r \<in> set R \<Longrightarrow> 0 \<le> f r) \<Longrightarrow> (\<And>r. P r \<Longrightarrow> Q r) \<Longrightarrow> sumOf P f R \<le> sumOf Q f R"
  unfolding sumOf_def by (intro sum_list_mono) auto

lemma liveSum_le_heldSum: "list_all reservationOk R \<Longrightarrow> liveSum bid R \<le> heldSum bid R"
  unfolding liveSum_def heldSum_def by (intro sumOf_mono) (auto simp: list_all_iff reservationOk_def)

lemma liveSum_member:
  assumes "list_all reservationOk R" "r \<in> set R" "liveStatus (br_status r)"
  shows "br_amount_atomic r \<le> liveSum (br_budget_id r) R"
  using assms
proof (induction R)
  case (Cons a R)
  have "0 \<le> sumOf (\<lambda>r'. br_budget_id r' = br_budget_id r \<and> liveStatus (br_status r')) br_amount_atomic R"
    using Cons.prems(1) by (intro sumOf_nonneg) (auto simp: list_all_iff reservationOk_def)
  then show ?case using Cons by (auto simp: liveSum_def sumOf_def reservationOk_def)
qed simp

lemmas sum_defs = liveSum_def heldSum_def spentSum_def

lemma setStatus_simps [simp]:
  "br_reservation_id (setStatus s r) = br_reservation_id r" "br_budget_id (setStatus s r) = br_budget_id r"
  "br_amount_atomic (setStatus s r) = br_amount_atomic r" "br_status (setStatus s r) = s"
  "br_finalized_spend_atomic (setStatus s r) = br_finalized_spend_atomic r"
  by (simp_all add: setStatus_def)

lemma settleReservation_simps [simp]:
  "br_reservation_id (settleReservation spend proof r) = br_reservation_id r"
  "br_budget_id (settleReservation spend proof r) = br_budget_id r"
  "br_amount_atomic (settleReservation spend proof r) = br_amount_atomic r"
  "br_status (settleReservation spend proof r) = FINALIZED"
  "br_finalized_spend_atomic (settleReservation spend proof r) = bigInt spend"
  by (simp_all add: settleReservation_def)

lemma funds_simps [simp]:
  "ba_budget_id (holdFunds n b) = ba_budget_id b" "ba_budget_id (returnFunds n b) = ba_budget_id b"
  "ba_budget_id (settleFunds n m b) = ba_budget_id b" "ba_allocated (holdFunds n b) = ba_allocated b"
  "ba_allocated (returnFunds n b) = ba_allocated b" "ba_allocated (settleFunds n m b) = ba_allocated b"
  by (simp_all add: holdFunds_def returnFunds_def settleFunds_def)

lemma liveStatus_simps [simp]:
  "liveStatus HELD" "liveStatus AUTHORIZED_R" "liveStatus BROADCAST_R" "\<not> liveStatus FINALIZED"
  "\<not> liveStatus RELEASED" "\<not> liveStatus EXPIRED_R" "\<not> liveStatus DISPUTED_R"
  by (simp_all add: liveStatus_def)

section \<open>The steps keep the invariant\<close>

text \<open>An update of one account and one reservation, checked on those rows and on the other accounts.\<close>

lemma accounts_update:
  assumes "distinct (map ba_budget_id A)" "list_all P A" "rowWith ba_budget_id bid A = Some b" "Q (f b)"
    and "\<And>a. a \<in> set A \<Longrightarrow> ba_budget_id a \<noteq> bid \<Longrightarrow> P a \<Longrightarrow> Q a"
  shows "list_all Q (updateWith ba_budget_id bid f A)"
proof -
  have "a = b" if "a \<in> set A" "ba_budget_id a = bid" for a
    using rowWith_unique [OF assms(1) that(1)] assms(3) that(2) by simp
  with assms show ?thesis by (auto simp: list_all_iff set_updateWith)
qed

lemma reservations_update:
  assumes "distinct (map br_reservation_id R)" "list_all reservationOk R" "rowWith br_reservation_id rid R = Some r"
    "reservationOk (g r)"
  shows "list_all reservationOk (updateWith br_reservation_id rid g R)"
proof -
  have "a = r" if "a \<in> set R" "br_reservation_id a = rid" for a
    using rowWith_unique [OF assms(1) that(1)] assms(3) that(2) by simp
  with assms show ?thesis by (auto simp: list_all_iff set_updateWith)
qed

text \<open>What a step needs of the reservation it changes and of the account it is charged to.\<close>

lemma live_covered:
  assumes "ledgerInv (A, R)" "rowWith br_reservation_id rid R = Some r" "liveStatus (br_status r)"
    "rowWith ba_budget_id (br_budget_id r) A = Some b"
  shows "br_amount_atomic r \<le> ba_reserved b" "accountOk R b" "reservationOk r" "ba_budget_id b = br_budget_id r"
proof -
  note rows = rowWith_Some [OF assms(2)] rowWith_Some [OF assms(4)]
  show ok: "accountOk R b" "reservationOk r" "ba_budget_id b = br_budget_id r"
    using assms(1) rows by (auto simp: ledgerInv_def list_all_iff)
  have "br_amount_atomic r \<le> liveSum (br_budget_id r) R"
    using liveSum_member assms(1,3) rows by (simp add: ledgerInv_def)
  with ok show "br_amount_atomic r \<le> ba_reserved b" by (simp add: accountOk_def)
qed

lemma status_change_keeps:
  assumes "ledgerInv (A, R)" "rowWith br_reservation_id rid R = Some r"
    and s: "s = DISPUTED_R \<or> (liveStatus (br_status r) \<and> liveStatus s)"
  shows "ledgerInv (A, updateWith br_reservation_id rid (setStatus s) R)"
proof -
  have R: "distinct (map br_reservation_id R)" "list_all reservationOk R" using assms(1) by (simp_all add: ledgerInv_def)
  have r: "reservationOk r" using R(2) rowWith_Some [OF assms(2)] by (auto simp: list_all_iff)
  have "liveSum bid (updateWith br_reservation_id rid (setStatus s) R) \<le> liveSum bid R"
    "spentSum bid (updateWith br_reservation_id rid (setStatus s) R) = spentSum bid R" for bid
    using s r by (auto simp: sum_defs sumOf_update [OF R(1) assms(2)] reservationOk_def)
  then have "accountOk (updateWith br_reservation_id rid (setStatus s) R) b" if "accountOk R b" for b
    using that unfolding accountOk_def by (metis order_trans)
  moreover have "reservationOk (setStatus s r)" using s r by (auto simp: reservationOk_def)
  ultimately show ?thesis
    using assms(1) reservations_update [OF R assms(2)] by (auto simp: ledgerInv_def list_all_iff)
qed

lemma give_back_keeps:
  assumes "ledgerInv (A, R)" "rowWith br_reservation_id rid R = Some r" "liveStatus (br_status r)"
    "s = RELEASED \<or> s = EXPIRED_R" "rowWith ba_budget_id (br_budget_id r) A = Some b"
  shows "ledgerInv (updateWith ba_budget_id (br_budget_id r) (returnFunds (br_amount_atomic r)) A,
      updateWith br_reservation_id rid (setStatus s) R)"
proof -
  let ?R = "updateWith br_reservation_id rid (setStatus s) R"
  have I: "distinct (map ba_budget_id A)" "list_all (accountOk R) A" "distinct (map br_reservation_id R)" "list_all reservationOk R"
    using assms(1) by (simp_all add: ledgerInv_def)
  note c = live_covered [OF assms(1,2,3,5)]
  have sums: "liveSum bid ?R = liveSum bid R - (if bid = br_budget_id r then br_amount_atomic r else 0)"
    "spentSum bid ?R = spentSum bid R" for bid
    using assms(3,4) by (auto simp: sum_defs sumOf_update [OF I(3) assms(2)])
  have "list_all (accountOk ?R) (updateWith ba_budget_id (br_budget_id r) (returnFunds (br_amount_atomic r)) A)"
  proof (rule accounts_update [OF I(1,2) assms(5)])
    show "accountOk ?R (returnFunds (br_amount_atomic r) b)"
      using c by (simp add: accountOk_def sums returnFunds_def reservationOk_def)
  qed (simp add: accountOk_def sums)
  moreover have "list_all reservationOk ?R"
    using assms(4) c(3) by (intro reservations_update [OF I(3,4) assms(2)]) (auto simp: reservationOk_def)
  ultimately show ?thesis using I by (simp add: ledgerInv_def)
qed

lemma settle_keeps:
  assumes "ledgerInv (A, R)" "rowWith br_reservation_id rid R = Some r" "br_status r = BROADCAST_R"
    "0 \<le> bigInt spend" "bigInt spend \<le> br_amount_atomic r" "rowWith ba_budget_id (br_budget_id r) A = Some b"
  shows "ledgerInv (updateWith ba_budget_id (br_budget_id r) (settleFunds (br_amount_atomic r) (bigInt spend)) A,
      updateWith br_reservation_id rid (settleReservation spend proof) R)"
proof -
  let ?R = "updateWith br_reservation_id rid (settleReservation spend proof) R"
  have I: "distinct (map ba_budget_id A)" "list_all (accountOk R) A" "distinct (map br_reservation_id R)" "list_all reservationOk R"
    using assms(1) by (simp_all add: ledgerInv_def)
  note c = live_covered [OF assms(1,2) _ assms(6)]
  have live: "liveStatus (br_status r)" by (simp add: assms(3))
  have sums: "liveSum bid ?R = liveSum bid R - (if bid = br_budget_id r then br_amount_atomic r else 0)"
    "spentSum bid ?R = spentSum bid R + (if bid = br_budget_id r then bigInt spend else 0)" for bid
    using c(3) live by (auto simp: sum_defs sumOf_update [OF I(3) assms(2)] reservationOk_def)
  have "list_all (accountOk ?R) (updateWith ba_budget_id (br_budget_id r) (settleFunds (br_amount_atomic r) (bigInt spend)) A)"
  proof (rule accounts_update [OF I(1,2) assms(6)])
    show "accountOk ?R (settleFunds (br_amount_atomic r) (bigInt spend) b)"
      using c live assms(5) by (simp add: accountOk_def sums settleFunds_def)
  qed (simp add: accountOk_def sums)
  moreover have "list_all reservationOk ?R"
    using assms(4,5) c(3) live by (intro reservations_update [OF I(3,4) assms(2)]) (auto simp: reservationOk_def)
  ultimately show ?thesis using I by (simp add: ledgerInv_def)
qed

lemma reserve_keeps:
  assumes "ledgerInv (A, R)" "rowWith ba_budget_id (br_budget_id row) A = Some b" "0 < br_amount_atomic row"
    "br_amount_atomic row \<le> ba_available b" "br_reservation_id row \<notin> br_reservation_id ` set R"
    "br_status row = HELD" "br_finalized_spend_atomic row = 0"
  shows "ledgerInv (updateWith ba_budget_id (br_budget_id row) (holdFunds (br_amount_atomic row)) A, R @ [row])"
proof -
  have I: "distinct (map ba_budget_id A)" "list_all (accountOk R) A" "distinct (map br_reservation_id R)" "list_all reservationOk R"
    using assms(1) by (simp_all add: ledgerInv_def)
  have b: "accountOk R b" "ba_budget_id b = br_budget_id row"
    using I(2) rowWith_Some [OF assms(2)] by (auto simp: list_all_iff)
  have sums: "liveSum bid (R @ [row]) = liveSum bid R + (if bid = br_budget_id row then br_amount_atomic row else 0)"
    "spentSum bid (R @ [row]) = spentSum bid R" for bid
    using assms(6,7) by (auto simp: sum_defs)
  have "list_all (accountOk (R @ [row])) (updateWith ba_budget_id (br_budget_id row) (holdFunds (br_amount_atomic row)) A)"
  proof (rule accounts_update [OF I(1,2) assms(2)])
    show "accountOk (R @ [row]) (holdFunds (br_amount_atomic row) b)"
      using b assms(4) by (simp add: accountOk_def sums holdFunds_def)
  qed (simp add: accountOk_def sums)
  then show ?thesis using I assms(3,5,7) by (auto simp: ledgerInv_def reservationOk_def)
qed

lemma ledger_step_keeps: "ledger_step late revert L L' \<Longrightarrow> ledgerInv L \<Longrightarrow> ledgerInv L'"
proof (induction rule: ledger_step.induct)
  case (dispute rid R r A)
  then show ?case by (intro status_change_keeps) auto
qed (auto intro: reserve_keeps status_change_keeps give_back_keeps settle_keeps)

text \<open>When no settled reservation is disputed, the reserved amounts stay exactly the sums of the holds.\<close>

definition reservedExact :: "budget_reservation list \<Rightarrow> budget_account \<Rightarrow> bool" where
  "reservedExact R b \<longleftrightarrow> ba_reserved b = heldSum (ba_budget_id b) R"

lemma ledgerExact_iff: "ledgerExact (A, R) \<longleftrightarrow> ledgerInv (A, R) \<and> list_all (reservedExact R) A"
  by (simp add: ledgerExact_def reservedExact_def list_all_iff)

lemma exact_change:
  assumes "ledgerExact (A, R)" "rowWith ba_budget_id bid A = Some b" "ba_budget_id (f b) = ba_budget_id b"
    "ba_reserved (f b) - ba_reserved b = change"
    and "\<And>x. heldSum x R' = heldSum x R + (if x = bid then change else 0)"
  shows "list_all (reservedExact R') (updateWith ba_budget_id bid f A)"
proof (rule accounts_update [of A "reservedExact R"])
  show "reservedExact R' (f b)"
    using assms rowWith_Some [OF assms(2)] by (auto simp: ledgerExact_iff reservedExact_def list_all_iff)
qed (use assms in \<open>simp_all add: ledgerExact_iff ledgerInv_def reservedExact_def\<close>)

lemma exact_same:
  assumes "ledgerExact (A, R)" "\<And>x. heldSum x R' = heldSum x R"
  shows "list_all (reservedExact R') A"
  using assms by (simp add: ledgerExact_iff reservedExact_def list_all_iff)

lemma ledger_step_reserved:
  "ledger_step False revert L L' \<Longrightarrow> ledgerExact L \<Longrightarrow> list_all (reservedExact (snd L')) (fst L')"
proof (induction rule: ledger_step.cases)
  case (stay L)
  then show ?case by (cases L) (simp add: ledgerExact_iff)
next
  case (reserve row A b R)
  have "heldSum x (R @ [row]) = heldSum x R + (if x = br_budget_id row then br_amount_atomic row else 0)" for x
    using reserve by (simp add: sum_defs)
  then have "list_all (reservedExact (R @ [row])) (updateWith ba_budget_id (br_budget_id row) (holdFunds (br_amount_atomic row)) A)"
    using reserve by (intro exact_change) (auto simp: holdFunds_def)
  with reserve show ?case by simp
next
  case (authorize rid R r A)
  then have R: "distinct (map br_reservation_id R)" by (simp add: ledgerExact_iff ledgerInv_def)
  have "heldSum x (updateWith br_reservation_id rid (setStatus AUTHORIZED_R) R) = heldSum x R" for x
    using authorize by (simp add: sum_defs sumOf_update [OF R authorize(3)])
  with authorize show ?case using exact_same by simp
next
  case (broadcast rid R r A)
  then have R: "distinct (map br_reservation_id R)" by (simp add: ledgerExact_iff ledgerInv_def)
  have "heldSum x (updateWith br_reservation_id rid (setStatus BROADCAST_R) R) = heldSum x R" for x
    using broadcast by (simp add: sum_defs sumOf_update [OF R broadcast(3)])
  with broadcast show ?case using exact_same by simp
next
  case (give_back rid R r s A b)
  then have R: "distinct (map br_reservation_id R)" by (simp add: ledgerExact_iff ledgerInv_def)
  have "heldSum x (updateWith br_reservation_id rid (setStatus s) R)
      = heldSum x R + (if x = br_budget_id r then - br_amount_atomic r else 0)" for x
    using give_back by (auto simp: sum_defs sumOf_update [OF R give_back(3)])
  then have "list_all (reservedExact (updateWith br_reservation_id rid (setStatus s) R))
      (updateWith ba_budget_id (br_budget_id r) (returnFunds (br_amount_atomic r)) A)"
    using give_back by (intro exact_change) (auto simp: returnFunds_def)
  with give_back show ?case by simp
next
  case (settle rid R r spend A b pf)
  then have R: "distinct (map br_reservation_id R)" by (simp add: ledgerExact_iff ledgerInv_def)
  have "heldSum x (updateWith br_reservation_id rid (settleReservation spend pf) R)
      = heldSum x R + (if x = br_budget_id r then - br_amount_atomic r else 0)" for x
    using settle by (auto simp: sum_defs sumOf_update [OF R settle(3)])
  then have "list_all (reservedExact (updateWith br_reservation_id rid (settleReservation spend pf) R))
      (updateWith ba_budget_id (br_budget_id r) (settleFunds (br_amount_atomic r) (bigInt spend)) A)"
    using settle by (intro exact_change) (auto simp: settleFunds_def)
  with settle show ?case by simp
next
  case (dispute rid R r A)
  then have R: "distinct (map br_reservation_id R)" by (simp add: ledgerExact_iff ledgerInv_def)
  have "heldSum x (updateWith br_reservation_id rid (setStatus DISPUTED_R) R) = heldSum x R" for x
    using dispute by (simp add: sum_defs sumOf_update [OF R dispute(3)])
  with dispute show ?case using exact_same by simp
qed

lemma ledger_step_exact: "ledger_step False revert L L' \<Longrightarrow> ledgerExact L \<Longrightarrow> ledgerExact L'"
  using ledger_step_reserved [of revert L L'] ledger_step_keeps [of False revert L L']
  by (cases L; cases L') (simp add: ledgerExact_iff)

section \<open>The operations are steps\<close>

declare ledger_step.stay [simp]

named_theorems frame "statements that leave the abstract ledger alone"

lemma ledgerOf_simps [simp]:
  "ledgerOf (budget_accounts_update f d) = (f (budget_accounts d), budget_reservations d)"
  "ledgerOf (budget_reservations_update g d) = (budget_accounts d, g (budget_reservations d))"
  "ledgerOf (idempotency_records_update h1 d) = ledgerOf d" "ledgerOf (audit_events_update h2 d) = ledgerOf d"
  "ledgerOf (broadcast_evidence_update h3 d) = ledgerOf d" "ledgerOf (recovery_leases_update h4 d) = ledgerOf d"
  "ledgerOf (recovery_attempts_update h5 d) = ledgerOf d"
  by (simp_all add: ledgerOf_def)

lemma ledgerOf_eq [simp]:
  "budget_accounts d = fst (ledgerOf d)" "budget_reservations d = snd (ledgerOf d)"
  by (simp_all add: ledgerOf_def)

declare ledgerOf_eq [simp del]

lemma append_frame: "appendAuditEvent X input sv d = Inr (u, d') \<Longrightarrow> \<exists>row. d' = audit_events_update (\<lambda>rows. rows @ [row]) d"
proof -
  have insert: "insertAuditRow row sv d = Inr ((), d') \<Longrightarrow> \<exists>row. d' = audit_events_update (\<lambda>rows. rows @ [row]) d" for row
    unfolding insertAuditRow_def by (auto simp: tx_simps)
  show "appendAuditEvent X input sv d = Inr (u, d') \<Longrightarrow> \<exists>row. d' = audit_events_update (\<lambda>rows. rows @ [row]) d"
    unfolding appendAuditEvent_def Let_def
    by (simp add: tx_simps del: getProp.simps) (elim exE conjE, erule insert)
qed

lemma append_ledger [frame]: "appendAuditEvent X input sv d = Inr (u, d') \<Longrightarrow> ledgerOf d' = ledgerOf d"
  by (auto dest: append_frame)

lemma audit_ledger [frame]:
  "writeTransitionAudit X audit eventType reservation correlation data authenticated sv d = Inr (u, d') \<Longrightarrow> ledgerOf d' = ledgerOf d"
  "writeRecoveryAudit X audit eventType reservation correlation authenticated' data sv d = Inr (u, d') \<Longrightarrow> ledgerOf d' = ledgerOf d"
  unfolding writeTransitionAudit_def writeRecoveryAudit_def by (auto dest: append_ledger)

lemma evidence_ledger [frame]:
  "insertEvidence row sv d = Inr (u, d') \<Longrightarrow> ledgerOf d' = ledgerOf d"
  "updateEvidence rid authenticated sv d = Inr (u, d') \<Longrightarrow> ledgerOf d' = ledgerOf d"
  "upsertLease lease sv d = Inr (u, d') \<Longrightarrow> ledgerOf d' = ledgerOf d"
  "recordAttempt resolution spend authenticated sv d = Inr (u, d') \<Longrightarrow> ledgerOf d' = ledgerOf d"
  unfolding insertEvidence_def updateEvidence_def upsertLease_def recordAttempt_def insertAttempt_def
  by (auto simp: tx_simps)

text \<open>Checks and queries leave the whole database alone.\<close>

lemma pure_steps [dest!]:
  "authenticateComponent X auth role action payload sv d = Inr (a, d') \<Longrightarrow> d' = d"
  "assertCanonicalAuthorizationEvidence reservation states sv d = Inr (u, d') \<Longrightarrow> d' = d"
  "lockReservationControlFences op sv d = Inr (u, d') \<Longrightarrow> d' = d"
  "getReservationBindingForReserve bid op sv d = Inr (c, d') \<Longrightarrow> d' = d"
  unfolding authenticateComponent_def assertCanonicalAuthorizationEvidence_def lockReservationControlFences_def
    getReservationBindingForReserve_def
  by (auto simp: tx_simps split: option.splits)

lemma getReservation_Inr: "getReservation rid sv d = Inr (s, d') \<Longrightarrow> d' = d"
  by (auto simp: getReservation_def tx_simps)

lemma getBroadcastEvidence_Inr:
  "getBroadcastEvidence rid sv d = Inr (e, d') \<Longrightarrow> d' = d \<and> rowWith be_reservation_id rid (broadcast_evidence d) = Some e"
  by (auto simp: getBroadcastEvidence_def tx_simps)

lemma joinBinding_Some:
  "joinBinding d bid op = Some row \<Longrightarrow> \<exists>o1. rowWith ba_budget_id bid (budget_accounts d) = Some (bw_budget row)
     \<and> rowWith op_operation_id op (operations d) = Some o1 \<and> bw_operation row = o1"
  by (auto simp: joinBinding_def split: option.splits)

lemma getReservationForUpdate_Inr:
  assumes "getReservationForUpdate rid sv d = Inr (p, d')"
  obtains r row where "d' = d" "rowWith br_reservation_id rid (budget_reservations d) = Some r"
    "rowWith ba_budget_id (br_budget_id r) (budget_accounts d) = Some (bw_budget row)" "bindingConsistent row"
    "p = (mapReservation r, mapAuditCorrelation rid row)"
    "joinBinding d (br_budget_id r) (br_operation_id r) = Some row"
  using assms joinBinding_Some rowWith_Some
  unfolding getReservationForUpdate_def assertBindingConsistency_def
  by (fastforce simp: tx_simps split: option.splits)

lemma transitionReservation_Inr:
  assumes "transitionReservation input t sv d = Inr (x, d')"
  obtains r b c where "rowWith br_reservation_id (ti_reservationId input) (budget_reservations d) = Some r"
    "rowWith ba_budget_id (br_budget_id r) (budget_accounts d) = Some b"
    "t (mapReservation r) c sv d = Inr (x, d')"
  using assms unfolding transitionReservation_def
  by (auto simp: tx_simps elim!: getReservationForUpdate_Inr)

lemma mapReservation_simps [simp]:
  "rs_reservationId (mapReservation r) = br_reservation_id r" "rs_budgetId (mapReservation r) = br_budget_id r"
  "rs_operationId (mapReservation r) = br_operation_id r" "rs_status (mapReservation r) = br_status r"
  "rs_amountAtomic (mapReservation r) = intStr (br_amount_atomic r)" "rs_expiresAt (mapReservation r) = br_expires_at r"
  by (simp_all add: mapReservation_def)

lemma setStatus_fold: "(\<lambda>r. r\<lparr>br_status := s\<rparr>) = setStatus s"
  by (simp add: fun_eq_iff setStatus_def)

lemmas update_defs = updateBudget_def updateReservation_def setStatus_fold

text \<open>A release after the row was read, the common core of four branches.\<close>

lemma give_back_step:
  assumes "rowWith br_reservation_id rid (budget_reservations d) = Some r" "liveStatus (br_status r)"
    "s = RELEASED \<or> s = EXPIRED_R" "br_status r = BROADCAST_R \<longrightarrow> revert \<and> s = RELEASED"
    "rowWith ba_budget_id (br_budget_id r) (budget_accounts d) = Some b"
    "updateBudget (br_budget_id r) (returnFunds (br_amount_atomic r)) sv d = Inr ((), d1)"
    "updateReservation rid (setStatus s) sv d1 = Inr ((), d2)" "ledgerOf d' = ledgerOf d2"
  shows "ledger_step late revert (ledgerOf d) (ledgerOf d')"
  using assms by (auto simp: update_defs tx_simps ledgerOf_def intro: ledger_step.give_back)

lemma settle_step:
  assumes "rowWith br_reservation_id rid (budget_reservations d) = Some r" "br_status r = BROADCAST_R"
    "atomicUnitSchema spend" "\<not> bigInt spend > br_amount_atomic r"
    "rowWith ba_budget_id (br_budget_id r) (budget_accounts d) = Some b"
    "updateBudget (br_budget_id r) (settleFunds (br_amount_atomic r) (bigInt spend)) sv d0 = Inr ((), d1)"
    "updateReservation rid (settleReservation spend proof) sv d1 = Inr ((), d2)" "ledgerOf d' = ledgerOf d2"
    "ledgerOf d0 = ledgerOf d"
  shows "ledger_step late revert (ledgerOf d) (ledgerOf d')"
proof -
  have "canonicalDec spend" using assms(3) atomicUnitSchema_uint256 by blast
  then have "0 \<le> bigInt spend" by (simp add: bigInt_canonical)
  with assms show ?thesis by (auto simp: update_defs tx_simps ledgerOf_def intro: ledger_step.settle)
qed

lemma authorizeWork_step: "authorizeWork input sv d = Inr (x, d') \<Longrightarrow> ledger_step late revert (ledgerOf d) (ledgerOf d')"
  unfolding authorizeWork_def
  by (auto simp: tx_simps intro: ledger_step.stay elim!: transitionReservation_Inr)

lemma markBroadcastWork_step: "markBroadcastWork X input evidence sv d = Inr (x, d') \<Longrightarrow> ledger_step late revert (ledgerOf d) (ledgerOf d')"
  unfolding markBroadcastWork_def Let_def
proof (erule transitionReservation_Inr, goal_cases)
  case (1 r b c)
  then show ?case
  proof (cases "br_status r = BROADCAST_R")
    case True
    with 1 show ?thesis by (auto simp: tx_simps intro: ledger_step.stay dest!: getBroadcastEvidence_Inr)
  next
    case False
    with 1 rowWith_Some [OF 1(1)] show ?thesis
      by (auto simp: tx_simps update_defs dest!: frame)
        (auto simp: ledgerOf_def intro!: ledger_step.broadcast)
  qed
qed

lemma verifyEvidenceWork_step: "verifyEvidenceWork X input sv d = Inr (x, d') \<Longrightarrow> ledger_step late revert (ledgerOf d) (ledgerOf d')"
  unfolding verifyEvidenceWork_def
  by (auto simp: tx_simps intro: ledger_step.stay elim!: transitionReservation_Inr
      dest!: getBroadcastEvidence_Inr frame split: if_splits)

lemma releaseWork_step: "releaseWork X input sv d = Inr (x, d') \<Longrightarrow> ledger_step late revert (ledgerOf d) (ledgerOf d')"
  unfolding releaseWork_def Let_def setStatus_fold
proof (erule transitionReservation_Inr, goal_cases)
  case (1 r b c)
  then show ?case
  proof (cases "br_status r = RELEASED")
    case False
    with 1 rowWith_Some [OF 1(1)] show ?thesis
      by (auto simp: tx_simps dest!: frame elim!: give_back_step [OF 1(1) _ _ _ 1(2), rotated 3])
  qed (auto simp: tx_simps)
qed

lemma expireWork_step: "expireWork X input now sv d = Inr (x, d') \<Longrightarrow> ledger_step late revert (ledgerOf d) (ledgerOf d')"
  unfolding expireWork_def Let_def setStatus_fold
proof (erule transitionReservation_Inr, goal_cases)
  case (1 r b c)
  then show ?case
  proof (cases "br_status r = EXPIRED_R")
    case False
    with 1 rowWith_Some [OF 1(1)] show ?thesis
      by (auto simp: tx_simps dest!: frame elim!: give_back_step [OF 1(1) _ _ _ 1(2), rotated 3])
  qed (auto simp: tx_simps)
qed

lemma finalizeWork_step:
  assumes "finalizeWork X input spend proof sv d = Inr (x, d')" "atomicUnitSchema spend"
  shows "ledger_step late revert (ledgerOf d) (ledgerOf d')"
  using assms(1) unfolding finalizeWork_def Let_def
proof (rule transitionReservation_Inr, goal_cases)
  case (1 r b c)
  then show ?case
  proof (cases "br_status r = FINALIZED")
    case False
    with 1 rowWith_Some [OF 1(1)] show ?thesis
      by (auto simp: tx_simps dest!: frame getBroadcastEvidence_Inr
          elim!: settle_step [OF 1(1) _ assms(2) _ 1(2), rotated 2])
  qed (auto simp: tx_simps)
qed

lemma disputeWork_step: "disputeWork X input reason sv d = Inr (x, d') \<Longrightarrow> ledger_step late revert (ledgerOf d) (ledgerOf d')"
  unfolding disputeWork_def Let_def setStatus_fold
proof (erule transitionReservation_Inr, goal_cases)
  case (1 r b c)
  then show ?case
  proof (cases "br_status r = DISPUTED_R")
    case False
    with 1 rowWith_Some [OF 1(1)] show ?thesis
      by (auto simp: tx_simps update_defs dest!: frame) (auto simp: ledgerOf_def intro!: ledger_step.dispute)
  qed (auto simp: tx_simps)
qed

lemma positive_bigInt: "positiveAtomicUnitSchema s \<Longrightarrow> 0 < bigInt s"
  using positiveAtomic_canonical [of s] by (simp add: bigInt_canonical)

lemma reserveFresh_step:
  assumes "reserveFresh X request amount expiresAt correlation sv d = Inr (x, d')" "positiveAtomicUnitSchema amount"
  shows "ledger_step late revert (ledgerOf d) (ledgerOf d')"
proof -
  let ?row = "\<lparr>br_reservation_id = rq_reservationId request, br_budget_id = rq_budgetId request,
      br_operation_id = rq_operationId request, br_idempotency_key = rq_idempotencyKey request,
      br_amount_atomic = bigInt amount, br_finalized_spend_atomic = 0, br_status = HELD,
      br_expires_at = expiresAt, br_proof_reference = None\<rparr>"
  from assms(1) obtain b where b: "rowWith ba_budget_id (rq_budgetId request) (budget_accounts d) = Some b"
    "\<not> ba_available b < bigInt amount"
    and fresh: "\<forall>old\<in>set (budget_reservations d). br_reservation_id old \<noteq> rq_reservationId request
      \<and> br_operation_id old \<noteq> rq_operationId request \<and> br_idempotency_key old \<noteq> rq_idempotencyKey request"
    and d': "ledgerOf d' = (updateWith ba_budget_id (rq_budgetId request) (holdFunds (bigInt amount)) (budget_accounts d),
        budget_reservations d @ [?row])"
    unfolding reserveFresh_def Let_def updateBudget_def insertReservation_def
    by (auto simp: tx_simps list_ex_iff dest!: frame split: option.splits)
  from b fresh positive_bigInt [OF assms(2)]
  have "ledger_step late revert (budget_accounts d, budget_reservations d)
      (updateWith ba_budget_id (br_budget_id ?row) (holdFunds (br_amount_atomic ?row)) (budget_accounts d),
       budget_reservations d @ [?row])" by (intro ledger_step.reserve) auto
  with d' show ?thesis by (simp add: ledgerOf_def)
qed

lemma reserveWork_step:
  assumes "reserveWork X request amount expiresAt payloadHash sv d = Inr (x, d')" "positiveAtomicUnitSchema amount"
  shows "ledger_step late revert (ledgerOf d) (ledgerOf d')"
proof (cases "rowWith ir_idempotency_key (rq_idempotencyKey request) (idempotency_records d)")
  case None
  with assms(1) show ?thesis unfolding reserveWork_def Let_def
    by (auto simp: tx_simps dest!: reserveFresh_step [OF _ assms(2), where late = late and revert = revert])
next
  case (Some row)
  with assms(1) show ?thesis unfolding reserveWork_def Let_def
    by (cases "ir_reservation_id row") (auto simp: tx_simps dest!: getReservation_Inr split: if_splits)
qed

lemma claimWork_step: "claimWork X input duration sv d = Inr (x, d') \<Longrightarrow> ledgerOf d' = ledgerOf d"
  unfolding claimWork_def Let_def
  by (auto simp: tx_simps dest!: frame elim!: getReservationForUpdate_Inr)

text \<open>A resolution disputes a settled reservation only with outcome \<open>AMBIGUOUS\<close> or \<open>CONFLICT\<close>.\<close>

definition lateDispute :: "recovery_outcome \<Rightarrow> reservation_status \<Rightarrow> bool" where
  "lateDispute outcome status \<longleftrightarrow>
     (outcome = AMBIGUOUS \<or> outcome = CONFLICT) \<and> (status = RELEASED \<or> status = EXPIRED_R \<or> status = FINALIZED)"

lemma resolveOutcome_step:
  assumes "resolveOutcome X audit input spend (mapReservation r) c evidence authenticated sv d = Inr (x, d')"
    "rowWith br_reservation_id (rr_reservationId input) (budget_reservations d) = Some r"
    "rowWith ba_budget_id (br_budget_id r) (budget_accounts d) = Some b"
    "\<And>s. spend = Some s \<Longrightarrow> atomicUnitSchema s"
    "late \<or> \<not> lateDispute (rr_outcome input) (br_status r)" "rr_verifiedRevert input \<Longrightarrow> revert"
  shows "ledger_step late revert (ledgerOf d) (ledgerOf d')"
proof -
  consider (confirmed) "rr_outcome input = CONFIRMED_O"
    | (released) "rr_outcome input = FAILED" "br_status r = HELD \<or> br_status r = AUTHORIZED_R"
    | (reverted) "rr_outcome input = FAILED" "br_status r = BROADCAST_R" "rr_verifiedRevert input"
    | (disputed) "rr_outcome input \<noteq> CONFIRMED_O" "\<not> (rr_outcome input = FAILED \<and> (br_status r = HELD \<or> br_status r = AUTHORIZED_R))"
        "\<not> (rr_outcome input = FAILED \<and> br_status r = BROADCAST_R \<and> rr_verifiedRevert input)" by blast
  then show ?thesis
  proof cases
    case confirmed
    with assms(1) show ?thesis unfolding resolveOutcome_def resolveConfirmed_def Let_def
      by (auto simp: tx_simps dest!: frame elim!: settle_step [OF assms(2) _ assms(4) _ assms(3), rotated 3]
          split: option.splits if_splits)
  next
    case released
    with assms(1) show ?thesis unfolding resolveOutcome_def resolveReleased_def Let_def setStatus_fold
      by (auto simp: tx_simps dest!: frame elim!: give_back_step [OF assms(2) _ _ _ assms(3), rotated 3])
  next
    case reverted
    with assms(1,6) show ?thesis unfolding resolveOutcome_def resolveReverted_def resolveReleased_def Let_def setStatus_fold
      by (auto simp: tx_simps dest!: frame elim!: give_back_step [OF assms(2) _ _ _ assms(3), rotated 3] split: option.splits)
  next
    case disputed
    have live: "late \<or> liveStatus (br_status r)" if "br_status r \<noteq> DISPUTED_R"
      "rr_outcome input \<in> {AMBIGUOUS, CONFLICT} \<or> (rr_outcome input = FAILED \<and> br_status r = BROADCAST_R)"
      using that assms(5) by (cases "br_status r") (auto simp: lateDispute_def)
    from disputed assms(1) have "br_status r = DISPUTED_R \<and> ledgerOf d' = ledgerOf d \<or>
        (late \<or> liveStatus (br_status r)) \<and>
        ledgerOf d' = (budget_accounts d, updateWith br_reservation_id (rr_reservationId input) (setStatus DISPUTED_R) (budget_reservations d))"
      unfolding resolveOutcome_def resolveDisputed_def Let_def
      by (cases "br_status r = DISPUTED_R") (use live in \<open>auto simp: tx_simps update_defs dest!: frame split: if_splits\<close>)
    with ledger_step.dispute [OF assms(2), of late revert "budget_accounts d"] show ?thesis by (auto simp: ledgerOf_def)
  qed
qed

lemma resolveWork_Inr:
  assumes "resolveWork X audit input spend sv d = Inr (x, d')"
  obtains (replay) "d' = d"
  | (fresh) r b c evidence authenticated d1
    where "rowWith br_reservation_id (rr_reservationId input) (budget_reservations d) = Some r"
      "rowWith ba_budget_id (br_budget_id r) (budget_accounts d) = Some b"
      "resolveOutcome X audit input spend (mapReservation r) c evidence authenticated sv d = Inr (x, d1)"
      "ledgerOf d' = ledgerOf d1"
proof (cases "rowWith at_attempt_id (rr_attemptId input) (recovery_attempts d)")
  case (Some a)
  with assms have "d' = d"
    unfolding resolveWork_def by (auto simp: tx_simps elim!: getReservationForUpdate_Inr)
  then show ?thesis by (rule replay)
next
  case None
  with assms show ?thesis
    unfolding resolveWork_def by (auto simp: tx_simps dest!: frame elim!: getReservationForUpdate_Inr)
      (rule fresh, simp_all)
qed

lemma resolveWork_step:
  assumes "resolveWork X audit input spend sv d = Inr (x, d')"
    "\<And>s. spend = Some s \<Longrightarrow> atomicUnitSchema s"
    "late \<or> rr_outcome input = CONFIRMED_O \<or> rr_outcome input = FAILED" "rr_verifiedRevert input \<Longrightarrow> revert"
  shows "ledger_step late revert (ledgerOf d) (ledgerOf d')"
  using assms(1)
proof (cases rule: resolveWork_Inr)
  case (fresh r b c evidence authenticated d1)
  have "late \<or> \<not> lateDispute (rr_outcome input) (br_status r)" using assms(3) by (auto simp: lateDispute_def)
  from resolveOutcome_step [OF fresh(3,1,2) assms(2) this assms(4)] fresh(4) show ?thesis by simp
qed simp

section \<open>Calls and runs\<close>

datatype ledger_call =
    Reserve reserve_request
  | Authorize transition_input
  | MarkBroadcast transition_input broadcast_input
  | VerifyEvidence transition_input
  | Release transition_input
  | Expire transition_input timestamp
  | Finalize transition_input string string
  | Dispute transition_input string
  | Claim recovery_claim
  | Resolve audit_context recovery_resolution

fun callLedger :: "externals \<Rightarrow> environment \<Rightarrow> ledger_call \<Rightarrow> db \<Rightarrow> db" where
  "callLedger X E (Reserve request) d = snd (reserveBudget X E request d)"
| "callLedger X E (Authorize input) d = snd (authorizeReservation E input d)"
| "callLedger X E (MarkBroadcast input evidence) d = snd (markReservationBroadcast X E input evidence d)"
| "callLedger X E (VerifyEvidence input) d = snd (verifyBroadcastEvidence X E input d)"
| "callLedger X E (Release input) d = snd (releaseReservation X E input d)"
| "callLedger X E (Expire input now) d = snd (expireReservation X E input now d)"
| "callLedger X E (Finalize input spend proof) d = snd (finalizeReservation X E input spend proof d)"
| "callLedger X E (Dispute input reason) d = snd (disputeReservation X E input reason d)"
| "callLedger X E (Claim input) d = snd (claimRecoveryLease X E input d)"
| "callLedger X E (Resolve audit input) d = snd (resolveRecovery X E audit input d)"

text \<open>
  Runs of the whole system as far as the budgets see it: calls of the ledger by anyone and in any
  order, each meeting any servers and, between its attempts, any other runs; the two statements
  of the approval and control services on budgets (\<open>HELD\<close> to \<open>AUTHORIZED\<close>, and giving back the funds
  of a held or authorized reservation); and any change of the other tables.
\<close>

inductive ledger_run :: "(ledger_call \<Rightarrow> bool) \<Rightarrow> externals \<Rightarrow> db \<Rightarrow> db \<Rightarrow> bool" for allowed X where
  start: "ledger_run allowed X d d"
| call: "ledger_run allowed X d d1 \<Longrightarrow> allowed c \<Longrightarrow> (\<forall>i e. ledger_run allowed X e (envOthers E i e)) \<Longrightarrow>
    ledger_run allowed X d (callLedger X E c d1)"
| authorized: "ledger_run allowed X d d1 \<Longrightarrow> rowWith br_reservation_id rid (budget_reservations d1) = Some r \<Longrightarrow>
    br_status r = HELD \<Longrightarrow>
    ledgerOf d2 = (budget_accounts d1, updateWith br_reservation_id rid (setStatus AUTHORIZED_R) (budget_reservations d1)) \<Longrightarrow>
    ledger_run allowed X d d2"
| given_back: "ledger_run allowed X d d1 \<Longrightarrow> rowWith br_reservation_id rid (budget_reservations d1) = Some r \<Longrightarrow>
    br_status r = HELD \<or> br_status r = AUTHORIZED_R \<Longrightarrow> s = RELEASED \<or> s = EXPIRED_R \<Longrightarrow>
    rowWith ba_budget_id (br_budget_id r) (budget_accounts d1) = Some b \<Longrightarrow>
    ledgerOf d2 = (updateWith ba_budget_id (br_budget_id r) (returnFunds (br_amount_atomic r)) (budget_accounts d1),
      updateWith br_reservation_id rid (setStatus s) (budget_reservations d1)) \<Longrightarrow>
    ledger_run allowed X d d2"
| elsewhere: "ledger_run allowed X d d1 \<Longrightarrow> ledgerOf d2 = ledgerOf d1 \<Longrightarrow> ledger_run allowed X d d2"

section \<open>Every call keeps what the steps keep\<close>

text \<open>The calls whose steps need no more than the given flags.\<close>

fun callFlags :: "bool \<Rightarrow> bool \<Rightarrow> ledger_call \<Rightarrow> bool" where
  "callFlags late revert (Resolve audit input) \<longleftrightarrow>
     (late \<or> rr_outcome input = CONFIRMED_O \<or> rr_outcome input = FAILED) \<and> (rr_verifiedRevert input \<longrightarrow> revert)"
| "callFlags late revert c \<longleftrightarrow> True"

text \<open>
  An invariant of the abstract ledger that the steps with a given flag keep is kept by every call
  whose work is such a step, whatever the servers do and whatever else commits in between.
\<close>

locale ledger_invariant =
  fixes late revert :: bool and J :: "ledger \<Rightarrow> bool"
  assumes step_keeps: "ledger_step late revert L L' \<Longrightarrow> J L \<Longrightarrow> J L'"
begin

lemma transaction_step_keeps:
  assumes "\<And>sv d x d'. work sv d = Inr (x, d') \<Longrightarrow> ledger_step late revert (ledgerOf d) (ledgerOf d')"
    and "\<And>i e. J (ledgerOf e) \<Longrightarrow> J (ledgerOf (envOthers E i e))" "J (ledgerOf d)"
  shows "J (ledgerOf (snd (withSerializableTransaction E n work d)))"
proof -
  have "invariant_work (\<lambda>d. J (ledgerOf d)) work" using assms(1) step_keeps by unfold_locales blast
  then show ?thesis using invariant_work.transaction_keeps assms(2,3) by blast
qed

lemma call_keeps:
  assumes "callFlags late revert c" "\<And>i e. J (ledgerOf e) \<Longrightarrow> J (ledgerOf (envOthers E i e))" "J (ledgerOf d)"
  shows "J (ledgerOf (callLedger X E c d))"
proof (cases c)
  case (Reserve request)
  with assms show ?thesis
    by (auto simp: reserveBudget_def reserveParameters_def parseAtomic_def result_simps split: sum.splits
        intro!: transaction_step_keeps reserveWork_step)
next
  case (Finalize input spend pf)
  with assms show ?thesis
    by (auto simp: finalizeReservation_def parseAtomic_def result_simps split: sum.splits
        intro!: transaction_step_keeps finalizeWork_step)
next
  case (Claim input)
  have "ledger_step late revert (ledgerOf d) (ledgerOf d')" if "claimWork X input duration sv d = Inr (x, d')" for duration sv d x d'
    using claimWork_step [OF that] by simp
  with Claim assms show ?thesis
    by (auto simp: claimRecoveryLease_def split: option.splits intro!: transaction_step_keeps)
next
  case (Resolve audit input)
  with assms(1) have late: "late \<or> rr_outcome input = CONFIRMED_O \<or> rr_outcome input = FAILED"
    and revert: "rr_verifiedRevert input \<Longrightarrow> revert" by auto
  have "J (ledgerOf (snd (withSerializableTransaction E None (resolveWork X audit input spend) d)))"
    if "\<And>s. spend = Some s \<Longrightarrow> atomicUnitSchema s" for spend
    by (rule transaction_step_keeps [OF resolveWork_step [OF _ that late revert] assms(2,3)])
  with Resolve assms(3) show ?thesis
    by (auto simp: resolveRecovery_def parseAtomic_def result_simps split: sum.splits)
qed (use assms in \<open>auto simp: authorizeReservation_def markReservationBroadcast_def verifyBroadcastEvidence_def
      releaseReservation_def expireReservation_def disputeReservation_def
    intro!: transaction_step_keeps elim: authorizeWork_step markBroadcastWork_step verifyEvidenceWork_step releaseWork_step
      expireWork_step disputeWork_step\<close>)

lemma run_keeps:
  assumes "ledger_run allowed X d d'" "\<And>c. allowed c \<Longrightarrow> callFlags late revert c" "J (ledgerOf d)"
  shows "J (ledgerOf d')"
  using assms(1,3)
proof (induction rule: ledger_run.induct)
  case (call d d1 c E)
  then show ?case by (intro call_keeps) (use assms(2) in auto)
next
  case (authorized d d1 rid r d2)
  then have "ledger_step late revert (ledgerOf d1) (ledgerOf d2)" using ledger_step.authorize [of rid] by (simp add: ledgerOf_def)
  with authorized show ?case using step_keeps by blast
next
  case (given_back d d1 rid r s b d2)
  then have "ledger_step late revert (ledgerOf d1) (ledgerOf d2)"
    using ledger_step.give_back [of rid "budget_reservations d1" r s revert "budget_accounts d1" b late]
    by (auto simp: ledgerOf_def)
  with given_back show ?case using step_keeps by blast
qed simp_all

end

interpretation conserved: ledger_invariant True True ledgerInv
  by unfold_locales (rule ledger_step_keeps)

interpretation exact: ledger_invariant False True ledgerExact
  by unfold_locales (rule ledger_step_exact)

section \<open>The life of one reservation\<close>

text \<open>The statuses a reservation can have later.\<close>

fun mayBecome :: "bool \<Rightarrow> bool \<Rightarrow> reservation_status \<Rightarrow> reservation_status \<Rightarrow> bool" where
  "mayBecome late revert HELD s \<longleftrightarrow> True"
| "mayBecome late revert AUTHORIZED_R s \<longleftrightarrow> s \<noteq> HELD"
| "mayBecome late revert BROADCAST_R s \<longleftrightarrow>
     s = BROADCAST_R \<or> s = FINALIZED \<or> s = DISPUTED_R \<or> (revert \<and> s = RELEASED)"
| "mayBecome late revert DISPUTED_R s \<longleftrightarrow> s = DISPUTED_R"
| "mayBecome late revert s0 s \<longleftrightarrow> s = s0 \<or> (late \<and> s = DISPUTED_R)"

definition laterRow :: "bool \<Rightarrow> bool \<Rightarrow> budget_reservation \<Rightarrow> budget_reservation \<Rightarrow> bool" where
  "laterRow late revert r r' \<longleftrightarrow>
     br_reservation_id r' = br_reservation_id r \<and> br_budget_id r' = br_budget_id r \<and> br_operation_id r' = br_operation_id r
     \<and> br_idempotency_key r' = br_idempotency_key r \<and> br_amount_atomic r' = br_amount_atomic r
     \<and> br_expires_at r' = br_expires_at r \<and> mayBecome late revert (br_status r) (br_status r')"

definition hasLater :: "bool \<Rightarrow> bool \<Rightarrow> string \<Rightarrow> budget_reservation \<Rightarrow> ledger \<Rightarrow> bool" where
  "hasLater late revert rid r L \<longleftrightarrow> (\<exists>r'. rowWith br_reservation_id rid (snd L) = Some r' \<and> laterRow late revert r r')"

lemma mayBecome_refl [simp]: "mayBecome late revert s s"
  by (cases s) simp_all

lemma mayBecome_trans: "mayBecome late revert s s' \<Longrightarrow> mayBecome late revert s' s'' \<Longrightarrow> mayBecome late revert s s''"
  by (cases s; cases s') auto

lemma laterRow_refl [simp]: "laterRow late revert r r"
  by (simp add: laterRow_def)

lemma laterRow_status:
  "laterRow late revert r r' \<Longrightarrow> mayBecome late revert (br_status r') s \<Longrightarrow> laterRow late revert r (setStatus s r')"
  using mayBecome_trans by (auto simp: laterRow_def setStatus_def)

lemma laterRow_settle:
  "laterRow late revert r r' \<Longrightarrow> br_status r' = BROADCAST_R \<Longrightarrow> laterRow late revert r (settleReservation spend proof r')"
  using mayBecome_trans [of late revert "br_status r" BROADCAST_R FINALIZED] by (auto simp: laterRow_def settleReservation_def)

lemma hasLater_update:
  assumes "hasLater late revert rid r (A, R)" "rowWith br_reservation_id k R = Some q"
    "\<And>x. br_reservation_id (g x) = br_reservation_id x" "laterRow late revert r q \<Longrightarrow> laterRow late revert r (g q)"
  shows "hasLater late revert rid r (A', updateWith br_reservation_id k g R)"
  using assms by (auto simp: hasLater_def rowWith_updateWith)

lemma ledger_step_later: "ledger_step late revert L L' \<Longrightarrow> hasLater late revert rid r L \<Longrightarrow> hasLater late revert rid r L'"
proof (induction rule: ledger_step.induct)
  case (reserve row A b R)
  then show ?case by (auto simp: hasLater_def rowWith_append)
next
  case (authorize k R q A)
  then show ?case by (auto intro!: hasLater_update laterRow_status)
next
  case (broadcast k R q A)
  then show ?case by (auto intro!: hasLater_update laterRow_status)
next
  case (give_back k R q s A b)
  have "mayBecome late revert (br_status q) s" using give_back by (auto simp: liveStatus_def)
  with give_back show ?case by (auto intro!: hasLater_update laterRow_status)
next
  case (settle k R q spend A b pf)
  then show ?case by (auto intro!: hasLater_update laterRow_settle)
next
  case (dispute k R q A)
  have "mayBecome late revert (br_status q) DISPUTED_R" using dispute by (cases "br_status q") auto
  with dispute show ?case by (auto intro!: hasLater_update laterRow_status)
qed simp

interpretation life: ledger_invariant late revert "hasLater late revert rid r" for late revert rid r
  by unfold_locales (rule ledger_step_later)

section \<open>Allocations\<close>

definition allocations :: "ledger \<Rightarrow> (string \<times> int) list" where
  "allocations L = map (\<lambda>b. (ba_budget_id b, ba_allocated b)) (fst L)"

lemma ledger_step_allocations: "ledger_step late revert L L' \<Longrightarrow> allocations L' = allocations L"
  by (induction rule: ledger_step.induct) (simp_all add: allocations_def)

interpretation alloc: ledger_invariant True True "\<lambda>L. allocations L = M" for M
  by unfold_locales (simp add: ledger_step_allocations)

end
