(* ===== verification/ControlFences.thy ===== *)
theory ControlFences
  imports LedgerInvariant
begin

text \<open>
  Control fences (\<open>packages/approvals/src/control.ts\<close>): pausing the system and revoking an owner, an
  agent or a policy, what that does to the operations under way, and the probe that an executor
  runs before it acts on an authorization. The text of a whole second is given by its instant
  where it is stored and compared; \<open>isoSecond\<close> makes the text for the audit log.
\<close>

section \<open>Requests and results\<close>

datatype control_command = PAUSE | RESUME | REVOKE

record change_fence_request =
  cf_scopeType :: scope_type
  cf_scopeId :: string
  cf_command :: control_command
  cf_audit :: audit_context

record fence_result =
  fr_scopeType :: scope_type
  fr_scopeId :: string
  fr_fenceVersion :: int
  fr_state :: string
  fr_changed :: bool

record revalidate_request =
  rv_operationId :: string
  rv_authorizationId :: string

fun scopeName :: "scope_type \<Rightarrow> string" where
  "scopeName SYSTEM_SCOPE = ''SYSTEM''"
| "scopeName OWNER_SCOPE = ''OWNER''"
| "scopeName AGENT_SCOPE = ''AGENT''"
| "scopeName POLICY_SCOPE = ''POLICY''"

text \<open>\<open>/^[A-Za-z0-9][A-Za-z0-9._:_-]*$/\<close>\<close>

definition identifierText :: "string \<Rightarrow> bool" where
  "identifierText s \<longleftrightarrow> s \<noteq> [] \<and> isAlnum (hd s) \<and> list_all identifierChar (tl s)"

definition controlId :: "string \<Rightarrow> failure + unit" where
  "controlId value = require (identifierText value) (ControlFenceError CONTROL_TARGET_NOT_FOUND)"

definition controlEventType :: "scope_type \<Rightarrow> control_command \<Rightarrow> string" where
  "controlEventType scopeType command =
     (case scopeType of
        SYSTEM_SCOPE \<Rightarrow> if command = PAUSE then ''system.paused'' else ''system.resumed''
      | AGENT_SCOPE \<Rightarrow> ''agent.revoked''
      | OWNER_SCOPE \<Rightarrow> ''owner.revoked''
      | POLICY_SCOPE \<Rightarrow> ''policy.revoked'')"

text \<open>\<open>ControlOperationRow\<close>, without the columns that no code reads.\<close>

record control_operation_row =
  cw_approval_id :: "string option"
  cw_operation_id :: string
  cw_reservation_id :: string
  cw_budget_id :: string
  cw_amount_atomic :: int
  cw_envelope_id :: "string option"
  cw_envelope_revision :: "int option"
  cw_envelope_hash :: "string option"
  cw_policy_decision_id :: "string option"
  cw_policy_decision_hash :: "string option"
  cw_policy_version :: int
  cw_nonce :: string
  cw_issued_at :: "int option"
  cw_expires_at :: "int option"
  cw_authorization_id :: "string option"
  cw_owner_id :: string
  cw_agent_id :: string
  cw_wallet_id :: string
  cw_intent_id :: string
  cw_policy_id :: string
  cw_current_state :: lifecycle_state

definition targetPredicate :: "scope_type \<Rightarrow> string \<Rightarrow> operation_row \<Rightarrow> agent_row \<Rightarrow> bool" where
  "targetPredicate scopeType scopeId o1 ag \<longleftrightarrow>
     (case scopeType of
        SYSTEM_SCOPE \<Rightarrow> True
      | OWNER_SCOPE \<Rightarrow> ag_owner_id ag = scopeId
      | AGENT_SCOPE \<Rightarrow> op_agent_id o1 = scopeId
      | POLICY_SCOPE \<Rightarrow> op_policy_id o1 = scopeId)"

definition controlData :: "change_fence_request \<Rightarrow> int \<Rightarrow> string \<Rightarrow> (string \<times> jsval) list" where
  "controlData request fenceVersion state =
     [(''scopeType'', JString (scopeName (cf_scopeType request))), (''scopeId'', JString (cf_scopeId request)),
      (''fenceVersion'', JNumber (jsInt fenceVersion)), (''controlState'', JString state)]"

text \<open>\<open>...(value ? {...} : {})\<close> for a nullable text, and the value of a nullable column.\<close>

definition whenText :: "string option \<Rightarrow> (string \<Rightarrow> (string \<times> jsval) list) \<Rightarrow> (string \<times> jsval) list" where
  "whenText value properties = (case value of None \<Rightarrow> [] | Some s \<Rightarrow> if s = [] then [] else properties s)"

definition nullableNumber :: "int option \<Rightarrow> jsval" where
  "nullableNumber n = (case n of None \<Rightarrow> JNull | Some i \<Rightarrow> JNumber (jsInt i))"

definition whenTime :: "string \<Rightarrow> int option \<Rightarrow> (string \<times> jsval) list" where
  "whenTime key value = (case value of None \<Rightarrow> [] | Some t \<Rightarrow> [(key, JString (isoSecond t))])"

definition operationAuditData ::
  "change_fence_request \<Rightarrow> control_operation_row \<Rightarrow> int \<Rightarrow> string \<Rightarrow> (string \<times> jsval) list \<Rightarrow> (string \<times> jsval) list" where
  "operationAuditData request row fenceVersion state data =
     spread
       ([(''reservationId'', JString (cw_reservation_id row))]
        @ whenText (cw_approval_id row) (\<lambda>s. [(''approvalId'', JString s)])
        @ whenText (cw_envelope_id row) (\<lambda>s.
            [(''envelopeId'', JString s), (''envelopeRevision'', nullableNumber (cw_envelope_revision row)),
             (''envelopeHash'', nullableString (cw_envelope_hash row))])
        @ whenText (cw_policy_decision_id row) (\<lambda>s.
            [(''policyDecisionId'', JString s), (''policyDecisionHash'', nullableString (cw_policy_decision_hash row))])
        @ [(''policyVersion'', JNumber (jsInt (cw_policy_version row)))]
        @ whenTime ''issuedAt'' (cw_issued_at row) @ whenTime ''expiresAt'' (cw_expires_at row)
        @ controlData request fenceVersion state)
       data"

definition operationAudit ::
  "externals \<Rightarrow> change_fence_request \<Rightarrow> control_operation_row \<Rightarrow> string \<Rightarrow> string \<Rightarrow> int \<Rightarrow> string
     \<Rightarrow> (string \<times> jsval) list \<Rightarrow> unit tx" where
  "operationAudit X request row eventType suffix fenceVersion state data =
     appendAuditEvent X
       \<lparr>ai_eventId = ac_eventId (cf_audit request) @ '':fence:'' @ intStr fenceVersion @ '':'' @ cw_operation_id row @ '':'' @ suffix,
        ai_actorType = ac_actorType (cf_audit request), ai_actorId = ac_actorId (cf_audit request),
        ai_traceId = ac_traceId (cf_audit request), ai_reservationId = Some (cw_reservation_id row),
        ai_ownerId = Some (cw_owner_id row), ai_agentId = Some (cw_agent_id row), ai_walletId = Some (cw_wallet_id row),
        ai_intentId = Some (cw_intent_id row), ai_operationId = Some (cw_operation_id row),
        ai_policyId = Some (cw_policy_id row), ai_policyVersion = Some (cw_policy_version row),
        ai_eventType = eventType, ai_data = operationAuditData request row fenceVersion state data\<rparr>"

section \<open>Statements on one operation\<close>

definition updateOperationFrom :: "string \<Rightarrow> lifecycle_state list \<Rightarrow> lifecycle_state \<Rightarrow> bool tx" where
  "updateOperationFrom operationId expected next =
     txUpdateOne operations_update operations op_operation_id operationId
       (\<lambda>o1. op_current_state o1 \<in> set expected) (\<lambda>o1. o1\<lparr>op_current_state := next\<rparr>)"

definition updateReservationFrom :: "string \<Rightarrow> reservation_status list \<Rightarrow> reservation_status \<Rightarrow> bool tx" where
  "updateReservationFrom reservationId expected next =
     txUpdateOne budget_reservations_update budget_reservations br_reservation_id reservationId
       (\<lambda>r. br_status r \<in> set expected) (setStatus next)"

definition releaseFencedReservation :: "control_operation_row \<Rightarrow> unit tx" where
  "releaseFencedReservation row =
     txBind (txUpdateOne budget_accounts_update budget_accounts ba_budget_id (cw_budget_id row)
       (\<lambda>b. ba_reserved b \<ge> cw_amount_atomic row) (returnFunds (cw_amount_atomic row))) (\<lambda>account.
     txThen (txRequire account (ControlFenceError CONTROL_TARGET_NOT_FOUND)) (
     txBind (updateReservationFrom (cw_reservation_id row) [HELD, AUTHORIZED_R] RELEASED) (\<lambda>reservation.
     txRequire reservation (ControlFenceError CONTROL_TARGET_NOT_FOUND))))"

definition fencedState :: "change_fence_request \<Rightarrow> lifecycle_state" where
  "fencedState request = (if cf_scopeType request = SYSTEM_SCOPE then REVALIDATION_REQUIRED else REVOKED)"

definition fenceReason :: "change_fence_request \<Rightarrow> string" where
  "fenceReason request = ''control fence '' @ scopeName (cf_scopeType request) @ '':'' @ cf_scopeId request"

text \<open>The canonical text of a state; and \<open>new Date().toISOString()\<close> cut to the second, as an instant.\<close>

definition stateName :: "lifecycle_state \<Rightarrow> string" where
  "stateName s = (case find (\<lambda>(name, state). state = s) LIFECYCLE_STATES of None \<Rightarrow> [] | Some (name, state) \<Rightarrow> name)"

definition secondOf :: "int \<Rightarrow> int" where
  "secondOf ms = ms div 1000 * 1000"

definition stateChange :: "lifecycle_state \<Rightarrow> lifecycle_state \<Rightarrow> (string \<times> jsval) list" where
  "stateChange previousState state =
     [(''previousState'', JString (stateName previousState)), (''state'', JString (stateName state))]"

definition reasonData :: "string \<Rightarrow> (string \<times> jsval) list" where
  "reasonData reason = [(''reason'', JString reason)]"

text \<open>The keys of the approval tables: two rows that share one cannot both be in the table.\<close>

definition approvalDecisionClash :: "approval_decision_row \<Rightarrow> approval_decision_row \<Rightarrow> bool" where
  "approvalDecisionClash new old \<longleftrightarrow>
     ad_approval_decision_id new = ad_approval_decision_id old \<or> ad_decision_nonce new = ad_decision_nonce old
     \<or> (ad_approval_id new = ad_approval_id old \<and> ad_decision_type new = ad_decision_type old)"

definition insertApprovalDecision :: "approval_decision_row \<Rightarrow> unit tx" where
  "insertApprovalDecision = txInsert approval_decisions_update approval_decisions approvalDecisionClash"

text \<open>\<open>status IN ('PENDING', 'APPROVED')\<close>\<close>

definition activeApproval :: "approval_request_row \<Rightarrow> bool" where
  "activeApproval a \<longleftrightarrow> ap_status a = PENDING_A \<or> ap_status a = APPROVED_A"

definition revokeRequest :: "string \<Rightarrow> int \<Rightarrow> string \<Rightarrow> approval_request_row \<Rightarrow> approval_request_row" where
  "revokeRequest actorId now reason a =
     a\<lparr>ap_status := REVOKED_A,
       ap_approver_id := (case ap_approver_id a of None \<Rightarrow> Some actorId | Some approver \<Rightarrow> Some approver),
       ap_revoked_at := Some now, ap_reason := Some reason\<rparr>"

section \<open>Invalidation of what is under way\<close>

definition invalidatePending ::
  "externals \<Rightarrow> change_fence_request \<Rightarrow> int \<Rightarrow> string \<Rightarrow> control_operation_row \<Rightarrow> unit tx" where
  "invalidatePending X request fenceVersion state row =
     (let nextState = fencedState request; reason = fenceReason request in
     case cw_approval_id row of
       None \<Rightarrow> txThrow (ControlFenceError CONTROL_TARGET_NOT_FOUND)
     | Some approvalId \<Rightarrow>
     txThen (txRequire (approvalId \<noteq> []) (ControlFenceError CONTROL_TARGET_NOT_FOUND)) (
     txBind (updateOperationFrom (cw_operation_id row) [AWAITING_APPROVAL] nextState) (\<lambda>operation.
     txThen (txRequire operation (ControlFenceError CONTROL_TARGET_NOT_FOUND)) (
     txThen (releaseFencedReservation row) (
     txBind (txServer (\<lambda>sv. secondOf (sv_nodeClock sv))) (\<lambda>now.
     txBind (txUpdateOne approval_requests_update approval_requests ap_approval_id approvalId activeApproval
       (revokeRequest (ac_actorId (cf_audit request)) now reason)) (\<lambda>approval.
     txThen (txRequire approval (ControlFenceError CONTROL_TARGET_NOT_FOUND)) (
     txBind (txQuery (\<lambda>d. rowWith ap_approval_id approvalId (approval_requests d))) (\<lambda>found.
     txThen (case found of
        None \<Rightarrow> txReturn ()
      | Some a \<Rightarrow> insertApprovalDecision
          \<lparr>ad_approval_decision_id = approvalId @ '':decision:revoke'', ad_approval_id = ap_approval_id a,
           ad_decision_type = REVOKE_D,
           ad_approver_id = (case ap_approver_id a of None \<Rightarrow> ac_actorId (cf_audit request) | Some approver \<Rightarrow> approver),
           ad_decided_at = now, ad_envelope_hash = ap_envelope_hash a, ad_policy_decision_id = ap_policy_decision_id a,
           ad_policy_version = ap_policy_version a, ad_decision_nonce = cw_nonce row @ '':decision:revoke'',
           ad_reason = Some reason, ad_fences = ap_fences a\<rparr>) (
     txThen (operationAudit X request row ''budget.reservation.released'' ''release'' fenceVersion state (reasonData reason)) (
     txThen (operationAudit X request row ''approval.revoked'' ''approval-revoked'' fenceVersion state (reasonData reason)) (
     operationAudit X request row ''operation.state.changed'' ''operation-state'' fenceVersion state
       (stateChange AWAITING_APPROVAL nextState @ reasonData reason)))))))))))))"

definition insertInvalidation :: "invalidation_row \<Rightarrow> unit tx" where
  "insertInvalidation = txInsert authorization_invalidations_update authorization_invalidations
     (\<lambda>new old. iv_invalidation_id new = iv_invalidation_id old \<or> iv_authorization_id new = iv_authorization_id old
        \<or> iv_operation_id new = iv_operation_id old)"

text \<open>A template literal writes \<open>null\<close> for a missing text.\<close>

definition templateText :: "string option \<Rightarrow> string" where
  "templateText value = (case value of None \<Rightarrow> ''null'' | Some s \<Rightarrow> s)"

definition invalidateAuthorized ::
  "externals \<Rightarrow> change_fence_request \<Rightarrow> int \<Rightarrow> string \<Rightarrow> string \<Rightarrow> control_operation_row \<Rightarrow> unit tx" where
  "invalidateAuthorized X request fenceVersion state controlEventId row =
     (let nextState = fencedState request; reason = fenceReason request;
          invalidationId = ac_eventId (cf_audit request) @ '':invalidation:'' @ templateText (cw_authorization_id row);
          authority = [(''authorizationId'', nullableString (cw_authorization_id row)),
                       (''authorizationInvalidationId'', JString invalidationId)] in
     txBind (updateOperationFrom (cw_operation_id row) [AUTHORIZED] nextState) (\<lambda>operation.
     txThen (txRequire operation (ControlFenceError CONTROL_TARGET_NOT_FOUND)) (
     txThen (releaseFencedReservation row) (
     txThen (case cw_authorization_id row of
        None \<Rightarrow> txThrow (DatabaseError ''23502'')
      | Some authorizationId \<Rightarrow> insertInvalidation
          \<lparr>iv_invalidation_id = invalidationId, iv_authorization_id = authorizationId,
           iv_operation_id = cw_operation_id row, iv_control_event_id = controlEventId, iv_reason = reason\<rparr>) (
     txThen (operationAudit X request row ''budget.reservation.released'' ''authorized-release'' fenceVersion state
       (authority @ reasonData reason)) (
     operationAudit X request row ''operation.state.changed'' ''authorized-operation-state'' fenceVersion state
       (authority @ stateChange AUTHORIZED nextState @ reasonData reason)))))))"

definition heldStates :: "lifecycle_state list" where
  "heldStates = [POLICY_FINALIZED, BUDGET_RESERVED, ENVELOPE_FINALIZED, AWAITING_APPROVAL]"

definition invalidateHeldBeforeApproval ::
  "externals \<Rightarrow> change_fence_request \<Rightarrow> int \<Rightarrow> string \<Rightarrow> control_operation_row \<Rightarrow> unit tx" where
  "invalidateHeldBeforeApproval X request fenceVersion state row =
     (let nextState = fencedState request; reason = fenceReason request in
     txBind (updateOperationFrom (cw_operation_id row) heldStates nextState) (\<lambda>operation.
     txThen (txRequire operation (ControlFenceError CONTROL_TARGET_NOT_FOUND)) (
     txThen (releaseFencedReservation row) (
     txThen (operationAudit X request row ''budget.reservation.released'' ''held-release'' fenceVersion state
       (reasonData reason)) (
     operationAudit X request row ''operation.state.changed'' ''held-operation-state'' fenceVersion state
       (stateChange (cw_current_state row) nextState @ reasonData reason))))))"

text \<open>
  The three queries. \<open>ORDER BY\<close> follows the order of the characters. In \<open>pendingRows\<close> the
  reservation is joined by the operation only, as in the source.
\<close>

definition heldRows :: "scope_type \<Rightarrow> string \<Rightarrow> db \<Rightarrow> control_operation_row list" where
  "heldRows scopeType scopeId d = sort_key cw_operation_id
     [let e = topBy (\<lambda>x y. en_revision x > en_revision y)
                (filter (\<lambda>e. en_operation_id e = op_operation_id o1) (execution_envelopes d));
          pd = topBy (\<lambda>x y. dr_created_at x > dr_created_at y \<or> (dr_created_at x = dr_created_at y \<and> dr_decision_id x > dr_decision_id y))
                (filter (\<lambda>p. dr_operation_id p = op_operation_id o1) (policy_decisions d)) in
      \<lparr>cw_approval_id = None, cw_operation_id = op_operation_id o1, cw_reservation_id = br_reservation_id r,
       cw_budget_id = br_budget_id r, cw_amount_atomic = br_amount_atomic r,
       cw_envelope_id = map_option en_envelope_id e, cw_envelope_revision = map_option en_revision e,
       cw_envelope_hash = map_option en_envelope_hash e, cw_policy_decision_id = map_option dr_decision_id pd,
       cw_policy_decision_hash = map_option dr_decision_hash pd, cw_policy_version = op_policy_version o1,
       cw_nonce = op_operation_id o1, cw_issued_at = None, cw_expires_at = None, cw_authorization_id = None,
       cw_owner_id = ag_owner_id ag, cw_agent_id = op_agent_id o1, cw_wallet_id = op_wallet_id o1,
       cw_intent_id = op_intent_id o1, cw_policy_id = op_policy_id o1, cw_current_state = op_current_state o1\<rparr>.
      o1 \<leftarrow> operations d, r \<leftarrow> budget_reservations d, b \<leftarrow> budget_accounts d, ag \<leftarrow> agents d,
      br_operation_id r = op_operation_id o1 \<and> ba_budget_id b = br_budget_id r \<and> ag_agent_id ag = op_agent_id o1
      \<and> op_current_state o1 \<in> set heldStates \<and> br_status r = HELD
      \<and> \<not> list_ex (\<lambda>a. ap_operation_id a = op_operation_id o1 \<and> activeApproval a) (approval_requests d)
      \<and> targetPredicate scopeType scopeId o1 ag]"

definition pendingRows :: "scope_type \<Rightarrow> string \<Rightarrow> db \<Rightarrow> control_operation_row list" where
  "pendingRows scopeType scopeId d = sort_key (\<lambda>row. templateText (cw_approval_id row))
     [\<lparr>cw_approval_id = Some (ap_approval_id a), cw_operation_id = ap_operation_id a, cw_reservation_id = ap_reservation_id a,
       cw_budget_id = br_budget_id r, cw_amount_atomic = br_amount_atomic r,
       cw_envelope_id = Some (ap_envelope_id a), cw_envelope_revision = Some (ap_envelope_revision a),
       cw_envelope_hash = Some (ap_envelope_hash a), cw_policy_decision_id = Some (ap_policy_decision_id a),
       cw_policy_decision_hash = Some (ap_policy_decision_hash a), cw_policy_version = ap_policy_version a,
       cw_nonce = ap_nonce a, cw_issued_at = Some (ap_issued_at a), cw_expires_at = Some (ap_expires_at a),
       cw_authorization_id = None, cw_owner_id = ag_owner_id ag, cw_agent_id = op_agent_id o1, cw_wallet_id = op_wallet_id o1,
       cw_intent_id = op_intent_id o1, cw_policy_id = op_policy_id o1, cw_current_state = op_current_state o1\<rparr>.
      a \<leftarrow> approval_requests d, o1 \<leftarrow> operations d, r \<leftarrow> budget_reservations d, b \<leftarrow> budget_accounts d, ag \<leftarrow> agents d,
      op_operation_id o1 = ap_operation_id a \<and> br_operation_id r = ap_operation_id a \<and> ba_budget_id b = br_budget_id r
      \<and> ag_agent_id ag = op_agent_id o1 \<and> activeApproval a \<and> targetPredicate scopeType scopeId o1 ag]"

definition authorizedRows :: "scope_type \<Rightarrow> string \<Rightarrow> db \<Rightarrow> control_operation_row list" where
  "authorizedRows scopeType scopeId d = sort_key (\<lambda>row. templateText (cw_authorization_id row))
     [let a = (case az_approval_id e of None \<Rightarrow> None | Some aid \<Rightarrow> rowWith ap_approval_id aid (approval_requests d)) in
      \<lparr>cw_approval_id = map_option ap_approval_id a, cw_operation_id = az_operation_id e, cw_reservation_id = az_reservation_id e,
       cw_budget_id = br_budget_id r, cw_amount_atomic = br_amount_atomic r,
       cw_envelope_id = Some (az_envelope_id e), cw_envelope_revision = Some (az_envelope_revision e),
       cw_envelope_hash = Some (az_envelope_hash e), cw_policy_decision_id = Some (az_policy_decision_id e),
       cw_policy_decision_hash = Some (az_policy_decision_hash e), cw_policy_version = az_policy_version e,
       cw_nonce = (case a of None \<Rightarrow> az_consumption_nonce e | Some request \<Rightarrow> ap_nonce request),
       cw_issued_at = Some (az_issued_at e), cw_expires_at = Some (az_expires_at e),
       cw_authorization_id = Some (az_authorization_id e), cw_owner_id = ag_owner_id ag, cw_agent_id = op_agent_id o1,
       cw_wallet_id = op_wallet_id o1, cw_intent_id = op_intent_id o1, cw_policy_id = op_policy_id o1,
       cw_current_state = op_current_state o1\<rparr>.
      e \<leftarrow> authorization_evidence d, o1 \<leftarrow> operations d, r \<leftarrow> budget_reservations d, b \<leftarrow> budget_accounts d, ag \<leftarrow> agents d,
      op_operation_id o1 = az_operation_id e \<and> br_operation_id r = az_operation_id e \<and> br_reservation_id r = az_reservation_id e
      \<and> ba_budget_id b = br_budget_id r \<and> ag_agent_id ag = op_agent_id o1
      \<and> rowWith iv_authorization_id (az_authorization_id e) (authorization_invalidations d) = None
      \<and> op_current_state o1 = AUTHORIZED \<and> br_status r = AUTHORIZED_R \<and> targetPredicate scopeType scopeId o1 ag]"

definition invalidateAffectedAuthorizations ::
  "externals \<Rightarrow> change_fence_request \<Rightarrow> int \<Rightarrow> string \<Rightarrow> unit tx" where
  "invalidateAffectedAuthorizations X request fenceVersion state =
     txBind (txQuery (heldRows (cf_scopeType request) (cf_scopeId request))) (\<lambda>held.
     txThen (txEach (invalidateHeldBeforeApproval X request fenceVersion state) held) (
     txBind (txQuery (pendingRows (cf_scopeType request) (cf_scopeId request))) (\<lambda>pending.
     txThen (txEach (invalidatePending X request fenceVersion state) pending) (
     txBind (txQuery (authorizedRows (cf_scopeType request) (cf_scopeId request))) (\<lambda>authorized.
     txEach (invalidateAuthorized X request fenceVersion state
       (ac_eventId (cf_audit request) @ '':fence:'' @ intStr fenceVersion)) authorized)))))"

section \<open>Fences\<close>

definition assertTarget :: "scope_type \<Rightarrow> string \<Rightarrow> unit tx" where
  "assertTarget scopeType scopeId =
     (case scopeType of
        SYSTEM_SCOPE \<Rightarrow> txRequire (scopeId = ''system'') (ControlFenceError CONTROL_TARGET_NOT_FOUND)
      | _ \<Rightarrow>
        txBind (txQuery (\<lambda>d. case scopeType of
             OWNER_SCOPE \<Rightarrow> scopeId \<in> set (owners d)
           | AGENT_SCOPE \<Rightarrow> rowWith ag_agent_id scopeId (agents d) \<noteq> None
           | _ \<Rightarrow> rowWith pl_policy_id scopeId (policies d) \<noteq> None)) (\<lambda>exists.
        txRequire exists (ControlFenceError CONTROL_TARGET_NOT_FOUND)))"

definition fenceKey :: "fence_row \<Rightarrow> scope_type \<times> string" where
  "fenceKey f = (fe_scope_type f, fe_scope_id f)"

text \<open>\<open>INSERT ... ON CONFLICT (scope_type, scope_id) DO NOTHING\<close>\<close>

definition insertFence :: "scope_type \<Rightarrow> string \<Rightarrow> string \<Rightarrow> unit tx" where
  "insertFence scopeType scopeId state =
     txBind (txQuery (\<lambda>d. rowWith fenceKey (scopeType, scopeId) (control_fences d))) (\<lambda>found.
     case found of
       Some f \<Rightarrow> txReturn ()
     | None \<Rightarrow> txExec (control_fences_update (\<lambda>rows. rows @
         [\<lparr>fe_scope_type = scopeType, fe_scope_id = scopeId, fe_fence_version = 1, fe_state = state,
           fe_last_control_event_id = None\<rparr>])))"

definition ensureFence :: "scope_type \<Rightarrow> string \<Rightarrow> fence_row tx" where
  "ensureFence scopeType scopeId =
     txBind (if scopeType = POLICY_SCOPE
             then txBind (txQuery (\<lambda>d. rowWith pl_policy_id scopeId (policies d))) (\<lambda>policy.
                  txLift (ofOption (ControlFenceError CONTROL_TARGET_NOT_FOUND) (map_option (\<lambda>p. Some (pl_status p)) policy)))
             else txReturn None) (\<lambda>policyStatus.
     txThen (insertFence scopeType scopeId (if policyStatus = Some PolicyRevoked then ''REVOKED'' else ''ACTIVE'')) (
     txBind (txQuery (\<lambda>d. rowWith fenceKey (scopeType, scopeId) (control_fences d))) (\<lambda>found.
     case found of
       None \<Rightarrow> txThrow (ControlFenceError CONTROL_TARGET_NOT_FOUND)
     | Some row \<Rightarrow>
         txThen (txRequire (\<not> (scopeType = POLICY_SCOPE \<and> policyStatus = Some PolicyRevoked \<and> fe_state row \<noteq> ''REVOKED''))
                  (ControlFenceError AUTHORIZATION_REVALIDATION_REQUIRED)) (
         txReturn row))))"

definition lockMutationFence :: "scope_type \<Rightarrow> string \<Rightarrow> fence_row tx" where
  "lockMutationFence scopeType scopeId =
     txBind (ensureFence SYSTEM_SCOPE ''system'') (\<lambda>system.
     case scopeType of
       SYSTEM_SCOPE \<Rightarrow> txReturn system
     | OWNER_SCOPE \<Rightarrow> ensureFence OWNER_SCOPE scopeId
     | AGENT_SCOPE \<Rightarrow>
         txBind (txQuery (\<lambda>d. rowWith ag_agent_id scopeId (agents d))) (\<lambda>found.
         case found of
           None \<Rightarrow> txThrow (ControlFenceError CONTROL_TARGET_NOT_FOUND)
         | Some ag \<Rightarrow>
             txThen (txRequire (ag_owner_id ag \<noteq> []) (ControlFenceError CONTROL_TARGET_NOT_FOUND)) (
             txBind (ensureFence OWNER_SCOPE (ag_owner_id ag)) (\<lambda>_.
             ensureFence AGENT_SCOPE scopeId)))
     | POLICY_SCOPE \<Rightarrow>
         txBind (txQuery (\<lambda>d. rowWith pl_policy_id scopeId (policies d))) (\<lambda>found.
         case found of
           None \<Rightarrow> txThrow (ControlFenceError CONTROL_TARGET_NOT_FOUND)
         | Some target \<Rightarrow>
             txBind (ensureFence OWNER_SCOPE (pl_owner_id target)) (\<lambda>_.
             txBind (ensureFence AGENT_SCOPE (pl_agent_id target)) (\<lambda>_.
             ensureFence POLICY_SCOPE scopeId))))"

definition lockControlFences :: "string \<Rightarrow> string \<Rightarrow> string \<Rightarrow> fence_snapshot tx" where
  "lockControlFences ownerId agentId policyId =
     txBind (ensureFence SYSTEM_SCOPE ''system'') (\<lambda>system.
     txBind (ensureFence OWNER_SCOPE ownerId) (\<lambda>owner.
     txBind (ensureFence AGENT_SCOPE agentId) (\<lambda>agent.
     txBind (ensureFence POLICY_SCOPE policyId) (\<lambda>policy.
     txReturn
       \<lparr>fs_systemFenceVersion = fe_fence_version system, fs_systemState = fe_state system,
        fs_ownerFenceVersion = fe_fence_version owner, fs_ownerState = fe_state owner,
        fs_agentFenceVersion = fe_fence_version agent, fs_agentState = fe_state agent,
        fs_policyFenceVersion = fe_fence_version policy, fs_policyState = fe_state policy\<rparr>))))"

definition appendControlAudit :: "externals \<Rightarrow> change_fence_request \<Rightarrow> fence_row \<Rightarrow> string \<Rightarrow> unit tx" where
  "appendControlAudit X request row previousState =
     appendAuditEvent X
       \<lparr>ai_eventId = ac_eventId (cf_audit request) @ '':fence:'' @ intStr (fe_fence_version row),
        ai_actorType = ac_actorType (cf_audit request), ai_actorId = ac_actorId (cf_audit request),
        ai_traceId = ac_traceId (cf_audit request), ai_reservationId = None, ai_ownerId = None, ai_agentId = None,
        ai_walletId = None, ai_intentId = None, ai_operationId = None, ai_policyId = None, ai_policyVersion = None,
        ai_eventType = controlEventType (cf_scopeType request) (cf_command request),
        ai_data = [(''scopeType'', JString (scopeName (cf_scopeType request))), (''scopeId'', JString (cf_scopeId request)),
          (''fenceVersion'', JNumber (jsInt (fe_fence_version row))), (''controlState'', JString (fe_state row)),
          (''previousControlState'', JString previousState)]\<rparr>"

section \<open>Operations\<close>

definition commandApplied :: "control_command \<Rightarrow> string \<Rightarrow> bool" where
  "commandApplied command state \<longleftrightarrow>
     (command = PAUSE \<and> state = ''PAUSED'') \<or> (command = RESUME \<and> state = ''ACTIVE'')
     \<or> (command = REVOKE \<and> state = ''REVOKED'')"

definition nextFenceState :: "change_fence_request \<Rightarrow> string" where
  "nextFenceState request =
     (if cf_scopeType request = SYSTEM_SCOPE then (if cf_command request = PAUSE then ''PAUSED'' else ''ACTIVE'')
      else ''REVOKED'')"

definition fenceResult :: "bool \<Rightarrow> fence_row \<Rightarrow> fence_result" where
  "fenceResult changed row =
     \<lparr>fr_scopeType = fe_scope_type row, fr_scopeId = fe_scope_id row, fr_fenceVersion = fe_fence_version row,
      fr_state = fe_state row, fr_changed = changed\<rparr>"

definition bumpFence :: "change_fence_request \<Rightarrow> int \<Rightarrow> fence_row \<Rightarrow> fence_row" where
  "bumpFence request currentVersion f =
     f\<lparr>fe_fence_version := fe_fence_version f + 1, fe_state := nextFenceState request,
       fe_last_control_event_id := Some (ac_eventId (cf_audit request) @ '':fence:'' @ intStr (currentVersion + 1))\<rparr>"

definition changeFenceWork :: "externals \<Rightarrow> change_fence_request \<Rightarrow> fence_result tx" where
  "changeFenceWork X request =
     txThen (assertTarget (cf_scopeType request) (cf_scopeId request)) (
     txBind (lockMutationFence (cf_scopeType request) (cf_scopeId request)) (\<lambda>current.
     if commandApplied (cf_command request) (fe_state current) then txReturn (fenceResult False current)
     else
       txBind (txUpdateOne control_fences_update control_fences fenceKey (cf_scopeType request, cf_scopeId request)
         (\<lambda>_. True) (bumpFence request (fe_fence_version current))) (\<lambda>_.
       txBind (txQuery (\<lambda>d. rowWith fenceKey (cf_scopeType request, cf_scopeId request) (control_fences d))) (\<lambda>updated.
       case updated of
         None \<Rightarrow> txThrow (ControlFenceError CONTROL_TARGET_NOT_FOUND)
       | Some next \<Rightarrow>
           txThen (appendControlAudit X request next (fe_state current)) (
           txThen (if cf_scopeType request = POLICY_SCOPE \<and> cf_command request = REVOKE
                   then txExec (policies_update (updateWith pl_policy_id (cf_scopeId request) (\<lambda>p. p\<lparr>pl_status := PolicyRevoked\<rparr>)))
                   else txReturn ()) (
           txThen (invalidateAffectedAuthorizations X request (fe_fence_version next) (fe_state next)) (
           txReturn (fenceResult True next))))))))"

definition changeFenceParameters :: "change_fence_request \<Rightarrow> failure + unit" where
  "changeFenceParameters request =
     andThen (controlId (cf_scopeId request)) (\<lambda>_.
     andThen (require (\<not> (cf_scopeType request = SYSTEM_SCOPE \<and> cf_scopeId request \<noteq> ''system''))
       (ControlFenceError CONTROL_TARGET_NOT_FOUND)) (\<lambda>_.
     andThen (require (\<not> (cf_scopeType request = SYSTEM_SCOPE \<and> cf_command request \<notin> {PAUSE, RESUME}))
       (ControlFenceError INVALID_COMMAND)) (\<lambda>_.
     require (\<not> (cf_scopeType request \<noteq> SYSTEM_SCOPE \<and> cf_command request \<noteq> REVOKE)) (ControlFenceError INVALID_COMMAND))))"

definition changeControlFence :: "externals \<Rightarrow> environment \<Rightarrow> change_fence_request \<Rightarrow> db \<Rightarrow> (failure + fence_result) \<times> db" where
  "changeControlFence X E request d =
     (case changeFenceParameters request of
        Inl e \<Rightarrow> (Inl e, d)
      | Inr _ \<Rightarrow> withSerializableTransaction E None (changeFenceWork X request) d)"

definition allActive :: "fence_snapshot \<Rightarrow> bool" where
  "allActive s \<longleftrightarrow> fs_systemState s = ''ACTIVE'' \<and> fs_ownerState s = ''ACTIVE'' \<and> fs_agentState s = ''ACTIVE''
     \<and> fs_policyState s = ''ACTIVE''"

text \<open>\<open>None\<close>: the query returns no row. \<open>now()\<close> is the clock of the server.\<close>

definition authorizationProbe ::
  "revalidate_request \<Rightarrow> int \<Rightarrow> db \<Rightarrow> (lifecycle_state \<times> reservation_status \<times> invalidation_row option \<times> authorization_row) option" where
  "authorizationProbe request now d =
     (case rowWith az_authorization_id (rv_authorizationId request) (authorization_evidence d) of
        None \<Rightarrow> None
      | Some e \<Rightarrow>
          case (rowWith op_operation_id (az_operation_id e) (operations d),
                rowWith br_operation_id (az_operation_id e) (budget_reservations d)) of
            (Some o1, Some r) \<Rightarrow>
              if az_operation_id e = rv_operationId request \<and> az_expires_at e > now
                 \<and> rowWith ba_budget_id (br_budget_id r) (budget_accounts d) \<noteq> None
              then Some (op_current_state o1, br_status r,
                     rowWith iv_authorization_id (az_authorization_id e) (authorization_invalidations d), e)
              else None
          | _ \<Rightarrow> None)"

definition revalidateWork :: "revalidate_request \<Rightarrow> fence_snapshot tx" where
  "revalidateWork request =
     txBind (txQuery (\<lambda>d.
       case rowWith az_authorization_id (rv_authorizationId request) (authorization_evidence d) of
         None \<Rightarrow> None
       | Some e \<Rightarrow>
           if az_operation_id e \<noteq> rv_operationId request then None else
           case rowWith op_operation_id (az_operation_id e) (operations d) of None \<Rightarrow> None | Some o1 \<Rightarrow>
           case rowWith ag_agent_id (op_agent_id o1) (agents d) of None \<Rightarrow> None | Some ag \<Rightarrow>
           Some (ag_owner_id ag, op_agent_id o1, op_policy_id o1))) (\<lambda>identity.
     case identity of
       None \<Rightarrow> txThrow (ControlFenceError AUTHORIZATION_REVALIDATION_REQUIRED)
     | Some (ownerId, agentId, policyId) \<Rightarrow>
         txBind (lockControlFences ownerId agentId policyId) (\<lambda>current.
         txBind (txServer sv_clock) (\<lambda>now.
         txBind (txServer sv_nodeClock) (\<lambda>nodeNow.
         txBind (txQuery (authorizationProbe request now)) (\<lambda>found.
         txThen (txRequire
           (case found of
              None \<Rightarrow> False
            | Some (operationState, reservationStatus, invalidation, e) \<Rightarrow>
                operationState = AUTHORIZED \<and> reservationStatus = AUTHORIZED_R \<and> az_expires_at e > nodeNow
                \<and> invalidation = None \<and> az_fences e = current \<and> allActive current)
           (ControlFenceError AUTHORIZATION_REVALIDATION_REQUIRED)) (
         txReturn current))))))"

definition revalidateAuthorization ::
  "environment \<Rightarrow> revalidate_request \<Rightarrow> db \<Rightarrow> (failure + fence_snapshot) \<times> db" where
  "revalidateAuthorization E request d =
     (case andThen (controlId (rv_operationId request)) (\<lambda>_. controlId (rv_authorizationId request)) of
        Inl e \<Rightarrow> (Inl e, d)
      | Inr _ \<Rightarrow> withSerializableTransaction E None (revalidateWork request) d)"

end
