(* ===== verification/Envelope.thy ===== *)
theory Envelope
  imports TransferCore
begin

text \<open>
  Execution envelopes (\<open>packages/schemas/src/envelope.ts\<close>) and the schemas of
  \<open>packages/schemas/src/evm-execution.ts\<close>. An envelope is the JavaScript object it is; a schema is a
  parser that returns the object with the properties in the order of the schema, or \<open>None\<close> when it
  throws. The hash of an envelope is shown to bind every field but the hash itself.
\<close>

section \<open>Parsers\<close>

definition checked :: "(jsval \<Rightarrow> bool) \<Rightarrow> jsval \<Rightarrow> jsval option" where
  "checked ok v = (if ok v then Some v else None)"

text \<open>The properties of a strict object: name, whether it is optional, parser of the value.\<close>

type_synonym object_shape = "(string \<times> bool \<times> (jsval \<Rightarrow> jsval option)) list"

fun parseFields :: "object_shape \<Rightarrow> (string \<times> jsval) list \<Rightarrow> (string \<times> jsval) list option" where
  "parseFields [] kvs = Some []"
| "parseFields ((key, opt, parser) # rest) kvs =
     (case parseFields rest kvs of
        None \<Rightarrow> None
      | Some parsed \<Rightarrow>
          case map_of kvs key of
            None \<Rightarrow> if opt then Some parsed else None
          | Some v \<Rightarrow>
              if opt \<and> v = JUndefined then Some ((key, JUndefined) # parsed)
              else map_option (\<lambda>w. (key, w) # parsed) (parser v))"

fun strictObject :: "object_shape \<Rightarrow> jsval \<Rightarrow> jsval option" where
  "strictObject shp (JObject kvs) =
     (if list_all (\<lambda>(key, v). key \<in> set (map fst shp)) kvs then map_option JObject (parseFields shp kvs) else None)"
| "strictObject shp v = None"

text \<open>\<open>z.array(...).min(1)\<close> and \<open>z.tuple([])\<close>\<close>

fun nonEmptyArray :: "(jsval \<Rightarrow> jsval option) \<Rightarrow> jsval \<Rightarrow> jsval option" where
  "nonEmptyArray parser (JArray vs) =
     (if vs = [] then None else map_option JArray (sequence (map parser vs)))"
| "nonEmptyArray parser v = None"

definition emptyTuple :: "jsval \<Rightarrow> jsval option" where
  "emptyTuple = checked (\<lambda>v. v = JArray [])"

definition required :: "string \<Rightarrow> (jsval \<Rightarrow> bool) \<Rightarrow> string \<times> bool \<times> (jsval \<Rightarrow> jsval option)" where
  "required key ok = (key, False, checked ok)"

definition optionally :: "string \<Rightarrow> (jsval \<Rightarrow> bool) \<Rightarrow> string \<times> bool \<times> (jsval \<Rightarrow> jsval option)" where
  "optionally key ok = (key, True, checked ok)"

abbreviation "identifierField \<equiv> stringField canonicalIdentifierSchema"
abbreviation "atomicField \<equiv> stringField atomicUnitSchema"
abbreviation "addressField \<equiv> stringField evmAddressSchema"
abbreviation "evmHashField \<equiv> stringField evmHashSchema"

section \<open>\<open>envelope.ts\<close>\<close>

text \<open>\<open>/^0x[0-9a-f]*$/\<close>, \<open>/^0x(?:[0-9a-f]{2})*$/\<close> and \<open>/^(?:0x[0-9a-f]+|[1-9][0-9]*)$/\<close>\<close>

definition calldataSchema :: "string \<Rightarrow> bool" where
  "calldataSchema s \<longleftrightarrow> take 2 s = ''0x'' \<and> list_all isHex (drop 2 s)"

definition byteStringSchema :: "string \<Rightarrow> bool" where
  "byteStringSchema s \<longleftrightarrow> calldataSchema s \<and> even (length s)"

definition blockReferenceSchema :: "string \<Rightarrow> bool" where
  "blockReferenceSchema s \<longleftrightarrow>
     (take 2 s = ''0x'' \<and> drop 2 s \<noteq> [] \<and> list_all isHex (drop 2 s))
     \<or> (s \<noteq> [] \<and> list_all isDigit s \<and> hd s \<noteq> CHR ''0'')"

definition decodedArgumentsSchema :: "jsval \<Rightarrow> jsval option" where
  "decodedArgumentsSchema = strictObject
     [required ''assetAddress'' addressField, required ''recipient'' addressField, required ''amountAtomic'' atomicField]"

definition assetDeltaSchema :: "jsval \<Rightarrow> jsval option" where
  "assetDeltaSchema = strictObject
     [required ''assetAddress'' addressField, required ''from'' addressField, required ''to'' addressField,
      required ''amountAtomic'' atomicField]"

definition maximumFeeConstraintsSchema :: "jsval \<Rightarrow> jsval option" where
  "maximumFeeConstraintsSchema = strictObject
     [required ''asset'' (enumField [''native'']), required ''maxFeePerGas'' atomicField,
      required ''maximumNetworkFeeAtomic'' atomicField]"

definition envelopeV1Shape :: "externals \<Rightarrow> object_shape" where
  "envelopeV1Shape X =
     [required ''schemaVersion'' (stringField versionSchema), required ''envelopeId'' identifierField,
      required ''revision'' positiveSafeInteger, optionally ''supersedesEnvelopeId'' identifierField,
      required ''intentId'' identifierField, required ''intentHash'' (stringField canonicalHashSchema),
      required ''agentId'' identifierField, required ''walletId'' identifierField, required ''adapterId'' identifierField,
      required ''adapterVersion'' (stringField semverSchema), required ''chainId'' (stringField chainIdSchema),
      required ''from'' addressField, required ''to'' addressField, required ''value'' atomicField,
      required ''calldata'' (stringField calldataSchema), required ''decodedFunction'' (enumField [''erc20.transfer'']),
      (''decodedArguments'', False, decodedArgumentsSchema),
      (''expectedAssetDeltas'', False, nonEmptyArray assetDeltaSchema),
      required ''simulationBlockReference'' (stringField blockReferenceSchema), required ''simulationResultHash'' evmHashField,
      required ''nonceStrategy'' (enumField [''pending'', ''latest'', ''explicit'']), required ''gasLimit'' atomicField,
      (''maximumFeeConstraints'', False, maximumFeeConstraintsSchema),
      required ''policyId'' identifierField, required ''policyVersion'' positiveSafeInteger,
      required ''policyDecisionHash'' evmHashField, required ''budgetReservationId'' identifierField,
      required ''createdAt'' (stringField (utcSecondSchema X)), required ''expiresAt'' (stringField (utcSecondSchema X)),
      required ''riskDecision'' (enumField [''ALLOW'', ''REVIEW'', ''DENY'']),
      required ''approvalRequirement'' (enumField [''none'', ''owner'']), required ''envelopeHash'' evmHashField]"

definition envelopeV2Shape :: "externals \<Rightarrow> object_shape" where
  "envelopeV2Shape X =
     [required ''schemaVersion'' (enumField [''2.0'']), required ''envelopeId'' identifierField,
      required ''revision'' positiveSafeInteger, optionally ''supersedesEnvelopeId'' identifierField,
      required ''intentId'' identifierField, required ''intentHash'' (stringField canonicalHashSchema),
      required ''agentId'' identifierField, required ''walletId'' identifierField, required ''adapterId'' identifierField,
      required ''adapterVersion'' (stringField semverSchema), required ''chainId'' (enumField [''eip155:31337'']),
      required ''from'' addressField, required ''to'' addressField, required ''value'' atomicField,
      required ''calldata'' (stringField byteStringSchema), required ''decodedFunction'' (enumField [''erc20.transfer'']),
      (''decodedArguments'', False, decodedArgumentsSchema),
      (''expectedAssetDeltas'', False, nonEmptyArray assetDeltaSchema),
      required ''simulationBlockNumber'' atomicField, required ''simulationBlockHash'' evmHashField,
      required ''simulationResultHash'' evmHashField,
      required ''nonceStrategy'' (enumField [''pending'', ''latest'', ''explicit'']), required ''nonce'' atomicField,
      required ''transactionType'' (enumField [''eip1559'']), required ''gasLimit'' atomicField,
      required ''maxPriorityFeePerGas'' atomicField, (''accessList'', False, emptyTuple),
      (''maximumFeeConstraints'', False, maximumFeeConstraintsSchema),
      required ''policyId'' identifierField, required ''policyVersion'' positiveSafeInteger,
      required ''policyDecisionHash'' evmHashField, required ''budgetReservationId'' identifierField,
      required ''createdAt'' (stringField (utcSecondSchema X)), required ''expiresAt'' (stringField (utcSecondSchema X)),
      required ''riskDecision'' (enumField [''ALLOW'', ''REVIEW'', ''DENY'']),
      required ''approvalRequirement'' (enumField [''none'', ''owner'']), required ''envelopeHash'' evmHashField]"

text \<open>The text of a string property; \<open>[]\<close> for anything else (the refinements run on parsed objects).\<close>

fun textOf :: "jsval \<Rightarrow> string" where
  "textOf (JString s) = s"
| "textOf v = []"

definition lifetimeOrdered :: "jsval \<Rightarrow> bool" where
  "lifetimeOrdered envelope \<longleftrightarrow>
     \<not> dateGe (textOf (getProp envelope ''createdAt'')) (textOf (getProp envelope ''expiresAt''))"

definition refined :: "(jsval \<Rightarrow> bool) \<Rightarrow> jsval option \<Rightarrow> jsval option" where
  "refined ok parsed = (case parsed of None \<Rightarrow> None | Some v \<Rightarrow> if ok v then Some v else None)"

definition feesOrdered :: "string \<Rightarrow> string \<Rightarrow> bool" where
  "feesOrdered priorityFee maxFee \<longleftrightarrow> \<not> decVal priorityFee > decVal maxFee"

definition canonicalExecutionEnvelopeV1Schema :: "externals \<Rightarrow> jsval \<Rightarrow> jsval option" where
  "canonicalExecutionEnvelopeV1Schema X candidate = refined lifetimeOrdered (strictObject (envelopeV1Shape X) candidate)"

definition canonicalExecutionEnvelopeV2Schema :: "externals \<Rightarrow> jsval \<Rightarrow> jsval option" where
  "canonicalExecutionEnvelopeV2Schema X candidate =
     refined (\<lambda>envelope. lifetimeOrdered envelope
                \<and> feesOrdered (textOf (getProp envelope ''maxPriorityFeePerGas''))
                    (textOf (getProp (getProp envelope ''maximumFeeConstraints'') ''maxFeePerGas'')))
       (strictObject (envelopeV2Shape X) candidate)"

definition canonicalExecutionEnvelopeSchema :: "externals \<Rightarrow> jsval \<Rightarrow> jsval option" where
  "canonicalExecutionEnvelopeSchema X candidate =
     (case canonicalExecutionEnvelopeV1Schema X candidate of
        Some envelope \<Rightarrow> Some envelope
      | None \<Rightarrow> canonicalExecutionEnvelopeV2Schema X candidate)"

definition parseExecutionEnvelope :: "externals \<Rightarrow> jsval \<Rightarrow> jsval option" where
  "parseExecutionEnvelope X candidate =
     (if getProp candidate ''schemaVersion'' = JString ''1.0'' then canonicalExecutionEnvelopeV1Schema X candidate
      else if getProp candidate ''schemaVersion'' = JString ''2.0'' then canonicalExecutionEnvelopeV2Schema X candidate
      else canonicalExecutionEnvelopeSchema X candidate)"

definition ENVELOPE_HASH_DOMAIN :: string where
  "ENVELOPE_HASH_DOMAIN = ''crip/execution-envelope''"

definition ENVELOPE_HASH_VERSION :: string where
  "ENVELOPE_HASH_VERSION = ''v1''"

definition ENVELOPE_HASH_VERSION_V2 :: string where
  "ENVELOPE_HASH_VERSION_V2 = ''v2''"

text \<open>\<open>Object.fromEntries(Object.entries(parsed).filter(...))\<close>\<close>

fun withoutHash :: "jsval \<Rightarrow> jsval" where
  "withoutHash (JObject kvs) = JObject (filter (\<lambda>(key, v). key \<noteq> ''envelopeHash'') kvs)"
| "withoutHash v = v"

definition envelopeHashInput :: "externals \<Rightarrow> jsval \<Rightarrow> jsval option" where
  "envelopeHashInput X candidate = map_option withoutHash (parseExecutionEnvelope X candidate)"

definition canonicalizeExecutionEnvelope :: "externals \<Rightarrow> jsval \<Rightarrow> string option" where
  "canonicalizeExecutionEnvelope X candidate =
     Option.bind (envelopeHashInput X candidate) canonicalizeIdempotencyPayload"

definition serializeExecutionEnvelope :: "externals \<Rightarrow> jsval \<Rightarrow> string option" where
  "serializeExecutionEnvelope X candidate = map_option (utf8ToBytes X) (canonicalizeExecutionEnvelope X candidate)"

definition buildEnvelopeHashPreimage :: "externals \<Rightarrow> jsval \<Rightarrow> string option" where
  "buildEnvelopeHashPreimage X candidate =
     Option.bind (parseExecutionEnvelope X candidate) (\<lambda>parsed.
     let hashVersion = (if getProp parsed ''schemaVersion'' = JString ''1.0'' then ENVELOPE_HASH_VERSION
                        else ENVELOPE_HASH_VERSION_V2) in
     map_option (\<lambda>serialized. concatBytes X
       [utf8ToBytes X ENVELOPE_HASH_DOMAIN, utf8ToBytes X hashVersion, [CHR 0x00], serialized])
       (serializeExecutionEnvelope X parsed))"

definition hashExecutionEnvelope :: "externals \<Rightarrow> jsval \<Rightarrow> string option" where
  "hashExecutionEnvelope X candidate =
     map_option (\<lambda>preimage. ''0x'' @ bytesToHex X (keccak_256 X preimage)) (buildEnvelopeHashPreimage X candidate)"

fun withHash :: "string \<Rightarrow> jsval \<Rightarrow> jsval" where
  "withHash h (JObject kvs) = JObject (setProp ''envelopeHash'' (JString h) kvs)"
| "withHash h v = v"

definition attachEnvelopeHash :: "externals \<Rightarrow> jsval \<Rightarrow> jsval option" where
  "attachEnvelopeHash X candidate =
     Option.bind (parseExecutionEnvelope X candidate) (\<lambda>parsed.
     map_option (\<lambda>h. withHash h parsed) (hashExecutionEnvelope X parsed))"

definition envelopeApprovalBindingSchema :: "jsval \<Rightarrow> jsval option" where
  "envelopeApprovalBindingSchema = strictObject [required ''envelopeHash'' evmHashField]"

definition createEnvelopeApprovalBinding :: "externals \<Rightarrow> jsval \<Rightarrow> jsval option" where
  "createEnvelopeApprovalBinding X candidate =
     map_option (\<lambda>h. JObject [(''envelopeHash'', JString h)]) (hashExecutionEnvelope X candidate)"

text \<open>\<open>None\<close>: the hash of the parsed envelope throws.\<close>

definition isEnvelopeApprovalBound :: "externals \<Rightarrow> jsval \<Rightarrow> jsval \<Rightarrow> bool option" where
  "isEnvelopeApprovalBound X approval candidate =
     (case (envelopeApprovalBindingSchema approval, canonicalExecutionEnvelopeSchema X candidate) of
        (Some parsedApproval, Some parsedEnvelope) \<Rightarrow>
          map_option (\<lambda>expectedHash.
            getProp parsedEnvelope ''envelopeHash'' = JString expectedHash
            \<and> getProp parsedApproval ''envelopeHash'' = JString expectedHash) (hashExecutionEnvelope X parsedEnvelope)
      | _ \<Rightarrow> Some False)"

section \<open>\<open>evm-execution.ts\<close>\<close>

definition provenanceSchema :: "jsval \<Rightarrow> jsval option" where
  "provenanceSchema = strictObject
     [required ''intentId'' identifierField, required ''agentId'' identifierField, required ''walletId'' identifierField,
      optionally ''operationId'' identifierField, optionally ''policyId'' identifierField,
      optionally ''policyVersion'' positiveSafeInteger, optionally ''policyDecisionHash'' evmHashField]"

definition executableTransferCandidateSchema :: "jsval \<Rightarrow> jsval option" where
  "executableTransferCandidateSchema candidate =
     refined (\<lambda>c. feesOrdered (textOf (getProp c ''maxPriorityFeePerGas'')) (textOf (getProp c ''maxFeePerGas'')))
       (strictObject
         [required ''action'' (enumField [''asset.transfer'']), required ''chainId'' (enumField [''eip155:31337'']),
          required ''from'' addressField, required ''target'' addressField, required ''nativeValue'' (enumField [''0'']),
          required ''calldata'' (stringField byteStringSchema), required ''selector'' (enumField [''0xa9059cbb'']),
          required ''recipient'' addressField, required ''amountAtomic'' atomicField,
          required ''nonceStrategy'' (enumField [''pending'']), required ''fixtureInstanceId'' identifierField,
          (''provenance'', False, provenanceSchema), required ''nonce'' atomicField,
          required ''transactionType'' (enumField [''eip1559'']), required ''gasLimit'' atomicField,
          required ''maxPriorityFeePerGas'' atomicField, required ''maxFeePerGas'' atomicField,
          (''accessList'', False, emptyTuple)] candidate)"

definition simulationRevertSchema :: "jsval \<Rightarrow> jsval option" where
  "simulationRevertSchema = strictObject
     [required ''code'' (enumField [''EXECUTION_REVERT'']), optionally ''data'' (stringField byteStringSchema)]"

definition simulationEvidenceSchema :: "jsval \<Rightarrow> jsval option" where
  "simulationEvidenceSchema evidence =
     refined (\<lambda>e. \<not> (getProp e ''outcome'' = JString ''success'' \<and> getProp e ''revert'' \<noteq> JUndefined)
                 \<and> \<not> (getProp e ''outcome'' = JString ''revert'' \<and> getProp e ''revert'' = JUndefined))
       (strictObject
         [required ''schemaVersion'' (enumField [''1.0'']), required ''fixtureInstanceId'' identifierField,
          required ''chainId'' (enumField [''eip155:31337'']), required ''blockNumber'' atomicField,
          required ''blockHash'' evmHashField, required ''candidateHash'' evmHashField, required ''from'' addressField,
          required ''to'' addressField, required ''value'' (enumField [''0'']), required ''calldata'' (stringField byteStringSchema),
          required ''senderNonce'' atomicField, required ''tokenBalance'' atomicField, required ''nativeBalance'' atomicField,
          required ''gasEstimate'' atomicField, required ''gasLimit'' atomicField, required ''baseFeePerGas'' atomicField,
          required ''maxPriorityFeePerGas'' atomicField, required ''maxFeePerGas'' atomicField, (''accessList'', False, emptyTuple),
          required ''outcome'' (enumField [''success'', ''revert'']), (''revert'', True, simulationRevertSchema),
          (''expectedAssetDeltas'', False, nonEmptyArray assetDeltaSchema), required ''maximumNativeFeeAtomic'' atomicField,
          required ''simulatorVersion'' (enumField [''viem@2.56.0'']), required ''evidenceHash'' evmHashField] evidence)"

section \<open>A sample envelope\<close>

definition sampleAddress :: "char \<Rightarrow> jsval" where
  "sampleAddress c = JString (''0x'' @ replicate 40 c)"

definition sampleHashText :: jsval where
  "sampleHashText = JString (''0x'' @ replicate 64 (CHR ''0''))"

definition sampleEnvelope :: "(string \<times> jsval) list \<Rightarrow> jsval" where
  "sampleEnvelope arguments = JObject
     [(''schemaVersion'', JString ''2.0''), (''envelopeId'', JString ''env_1''), (''revision'', JNumber (jsInt 1)),
      (''intentId'', JString ''intent_1''), (''intentHash'', JString (''sha256:'' @ replicate 64 (CHR ''0''))),
      (''agentId'', JString ''agent_1''), (''walletId'', JString ''wallet_1''), (''adapterId'', JString ''local-anvil''),
      (''adapterVersion'', JString ''1.0.0''), (''chainId'', JString ''eip155:31337''), (''from'', sampleAddress (CHR ''c'')),
      (''to'', sampleAddress (CHR ''a'')), (''value'', JString ''0''), (''calldata'', JString ''0xa9059cbb''),
      (''decodedFunction'', JString ''erc20.transfer''), (''decodedArguments'', JObject arguments),
      (''expectedAssetDeltas'', JArray [JObject
        [(''assetAddress'', sampleAddress (CHR ''a'')), (''from'', sampleAddress (CHR ''c'')),
         (''to'', sampleAddress (CHR ''b'')), (''amountAtomic'', JString ''250'')]]),
      (''simulationBlockNumber'', JString ''17''), (''simulationBlockHash'', sampleHashText),
      (''simulationResultHash'', sampleHashText), (''nonceStrategy'', JString ''pending''), (''nonce'', JString ''4''),
      (''transactionType'', JString ''eip1559''), (''gasLimit'', JString ''60000''),
      (''maxPriorityFeePerGas'', JString ''1''), (''accessList'', JArray []),
      (''maximumFeeConstraints'', JObject
        [(''asset'', JString ''native''), (''maxFeePerGas'', JString ''2''), (''maximumNetworkFeeAtomic'', JString ''120000'')]),
      (''policyId'', JString ''policy_1''), (''policyVersion'', JNumber (jsInt 1)), (''policyDecisionHash'', sampleHashText),
      (''budgetReservationId'', JString ''reservation_1''), (''createdAt'', JString ''2026-05-28T20:00:00Z''),
      (''expiresAt'', JString ''2026-05-28T21:00:00Z''), (''riskDecision'', JString ''ALLOW''),
      (''approvalRequirement'', JString ''none''), (''envelopeHash'', sampleHashText)]"

definition sampleArguments :: "(string \<times> jsval) list" where
  "sampleArguments =
     [(''assetAddress'', sampleAddress (CHR ''a'')), (''recipient'', sampleAddress (CHR ''b'')), (''amountAtomic'', JString ''250'')]"

definition sampleBinding :: jsval where
  "sampleBinding = JObject [(''envelopeHash'', sampleHashText)]"

section \<open>The laws of a schema\<close>

text \<open>
  What every schema promises: parsing a parsed value changes nothing, the result is not
  \<open>undefined\<close>, and a JSON value stays one.
\<close>

locale schema_parser =
  fixes parser :: "jsval \<Rightarrow> jsval option"
  assumes parse_again: "parser v = Some w \<Longrightarrow> parser w = Some w"
    and parse_defined: "parser v = Some w \<Longrightarrow> w \<noteq> JUndefined"
    and parse_wf: "parser v = Some w \<Longrightarrow> wfJson v \<Longrightarrow> wfJson w"
begin

lemma sequence_again: "sequence (map parser vs) = Some ws \<Longrightarrow> sequence (map parser ws) = Some ws"
  by (induction vs arbitrary: ws) (auto split: option.splits dest: parse_again)

lemma sequence_wf: "sequence (map parser vs) = Some ws \<Longrightarrow> list_all wfJson vs \<Longrightarrow> list_all wfJson ws"
  by (induction vs arbitrary: ws) (auto split: option.splits intro: parse_wf)

lemma sequence_length: "sequence (map parser vs) = Some ws \<Longrightarrow> length ws = length vs"
  by (induction vs arbitrary: ws) (auto split: option.splits)

lemma refined_parser: "schema_parser (\<lambda>v. refined ok (parser v))"
  by unfold_locales (auto simp: refined_def split: option.splits if_splits dest: parse_again parse_defined parse_wf)

lemma nonEmptyArray_parser: "schema_parser (nonEmptyArray parser)"
proof
  show "nonEmptyArray parser w = Some w" if "nonEmptyArray parser v = Some w" for v w
  proof (cases v)
    case (JArray vs)
    with that obtain ws where ws: "vs \<noteq> []" "sequence (map parser vs) = Some ws" "w = JArray ws"
      by (auto split: if_splits)
    then have "ws \<noteq> []" using sequence_length [OF ws(2)] by auto
    then show ?thesis using sequence_again [OF ws(2)] ws(3) by simp
  qed (use that in simp_all)
  show "w \<noteq> JUndefined" if "nonEmptyArray parser v = Some w" for v w
    using that by (cases v) (auto split: if_splits)
  show "wfJson w" if "nonEmptyArray parser v = Some w" "wfJson v" for v w
    using that sequence_wf by (cases v) (auto split: if_splits)
qed

end

lemma checked_parser: "\<not> ok JUndefined \<Longrightarrow> schema_parser (checked ok)"
  by unfold_locales (auto simp: checked_def split: if_splits)

text \<open>A shape is lawful when its names differ and each of its parsers keeps the laws.\<close>

definition lawfulShape :: "object_shape \<Rightarrow> bool" where
  "lawfulShape shp \<longleftrightarrow> distinct (map fst shp) \<and> (\<forall>(key, opt, parser) \<in> set shp. schema_parser parser)"

lemma lawfulShape_Cons:
  "lawfulShape ((key, opt, parser) # rest) \<longleftrightarrow>
     schema_parser parser \<and> key \<notin> set (map fst rest) \<and> lawfulShape rest"
  by (auto simp: lawfulShape_def)

lemma lawfulShape_Nil: "lawfulShape []"
  by (simp add: lawfulShape_def)

text \<open>The outcomes of a property of a shape.\<close>

lemma parseFields_ConsE:
  assumes "parseFields ((key, opt, parser) # rest) kvs = Some r"
  obtains (absent) "parseFields rest kvs = Some r" "map_of kvs key = None" opt
  | (undef) parsed where "parseFields rest kvs = Some parsed" "r = (key, JUndefined) # parsed" opt "map_of kvs key = Some JUndefined"
  | (present) parsed v w where "parseFields rest kvs = Some parsed" "map_of kvs key = Some v" "parser v = Some w"
      "r = (key, w) # parsed" "\<not> (opt \<and> v = JUndefined)"
  using assms by (auto split: option.splits if_splits)

lemma parseFields_keys: "parseFields shp kvs = Some r \<Longrightarrow> (k, b) \<in> set r \<Longrightarrow> k \<in> set (map fst shp)"
proof (induction shp arbitrary: r)
  case (Cons f rest)
  obtain key opt parser where f: "f = (key, opt, parser)" by (cases f) auto
  from Cons.prems(1) [unfolded f] show ?case
    by (rule parseFields_ConsE) (use Cons.IH Cons.prems(2) in \<open>auto simp: f\<close>)
qed simp

lemma parseFields_unknown: "parseFields shp kvs = Some r \<Longrightarrow> k \<notin> set (map fst shp) \<Longrightarrow> map_of r k = None"
  using parseFields_keys [of shp kvs r k] map_of_SomeD [of r k] by (cases "map_of r k") auto

lemma parseFields_cong:
  "(\<And>key. key \<in> set (map fst shp) \<Longrightarrow> map_of kvs' key = map_of kvs key) \<Longrightarrow> parseFields shp kvs' = parseFields shp kvs"
  by (induction shp kvs rule: parseFields.induct) (auto split: option.splits)

lemma parseFields_distinct: "parseFields shp kvs = Some r \<Longrightarrow> lawfulShape shp \<Longrightarrow> distinct (map fst r)"
proof (induction shp arbitrary: r)
  case (Cons f rest)
  obtain key opt parser where f: "f = (key, opt, parser)" by (cases f) auto
  from Cons.prems(1) [unfolded f] show ?case
    by (rule parseFields_ConsE)
      (use Cons.IH Cons.prems(2) in \<open>auto simp: f lawfulShape_Cons dest: parseFields_keys\<close>)
qed simp

lemma parseFields_wf:
  "parseFields shp kvs = Some r \<Longrightarrow> lawfulShape shp \<Longrightarrow> list_all (\<lambda>(k, v). wfJson v) kvs \<Longrightarrow> list_all (\<lambda>(k, v). wfJson v) r"
proof (induction shp arbitrary: r)
  case (Cons f rest)
  obtain key opt parser where f: "f = (key, opt, parser)" by (cases f) auto
  have wf: "wfJson v" if "map_of kvs key = Some v" for v
    using Cons.prems(3) that by (auto simp: list_all_iff dest: map_of_SomeD)
  from Cons.prems(1) [unfolded f] show ?case
  proof (rule parseFields_ConsE)
    assume "map_of kvs key = Some JUndefined" then show ?thesis using wf by force
  next
    fix parsed v w
    assume "parseFields rest kvs = Some parsed" "map_of kvs key = Some v" "parser v = Some w" "r = (key, w) # parsed"
    then show ?thesis
      using Cons.IH Cons.prems(2,3) wf schema_parser.parse_wf by (auto simp: f lawfulShape_Cons)
  qed (use Cons.IH Cons.prems(2,3) in \<open>auto simp: f lawfulShape_Cons\<close>)
qed simp

text \<open>Parsing the parsed properties again gives them back.\<close>

lemma parseFields_again:
  assumes "parseFields shp kvs = Some r" "lawfulShape shp" "\<And>k. k \<in> set (map fst shp) \<Longrightarrow> map_of r' k = map_of r k"
  shows "parseFields shp r' = Some r"
  using assms
proof (induction shp arbitrary: r)
  case (Cons f rest)
  obtain key opt parser where f: "f = (key, opt, parser)" by (cases f) auto
  have law: "lawfulShape rest" "schema_parser parser" "key \<notin> set (map fst rest)"
    using Cons.prems(2) by (auto simp: f lawfulShape_Cons)
  from Cons.prems(1) [unfolded f] show ?case
  proof (rule parseFields_ConsE)
    assume "parseFields rest kvs = Some r" opt
    moreover from this law have "map_of r key = None" using parseFields_unknown by blast
    ultimately show ?thesis using Cons.IH [of r] Cons.prems(3) law by (simp add: f)
  next
    fix parsed
    assume a: "parseFields rest kvs = Some parsed" "r = (key, JUndefined) # parsed" opt
    then have "map_of r' k = map_of parsed k" if "k \<in> set (map fst rest)" for k
      using Cons.prems(3) [of k] law(3) that by (auto simp: f)
    then show ?thesis using Cons.IH [of parsed] Cons.prems(3) [of key] law a by (simp add: f)
  next
    fix parsed v w
    assume a: "parseFields rest kvs = Some parsed" "parser v = Some w" "r = (key, w) # parsed"
    then have "map_of r' k = map_of parsed k" if "k \<in> set (map fst rest)" for k
      using Cons.prems(3) [of k] law(3) that by (auto simp: f)
    moreover have "parser w = Some w" "w \<noteq> JUndefined"
      using law(2) a(2) by (auto dest: schema_parser.parse_again schema_parser.parse_defined)
    ultimately show ?thesis using Cons.IH [of parsed] Cons.prems(3) [of key] law a by (simp add: f)
  qed
qed simp

text \<open>Every property may be replaced by another value that its parser leaves as it is.\<close>

lemma parseFields_setProp:
  assumes "parseFields shp kvs = Some r" "distinct (map fst shp)" "map_of shp key = Some (opt, parser)"
    and "parser v = Some v" "v \<noteq> JUndefined" "map_of kvs key \<noteq> None"
    and "\<And>k. k \<in> set (map fst shp) \<Longrightarrow> map_of kvs' k = (if k = key then Some v else map_of kvs k)"
  shows "parseFields shp kvs' = Some (setProp key v r)"
  using assms(1-3,7)
proof (induction shp arbitrary: r)
  case (Cons f rest)
  obtain k o' p where f: "f = (k, o', p)" by (cases f) auto
  show ?case
  proof (cases "k = key")
    case True
    have "parseFields rest kvs' = parseFields rest kvs"
      using Cons.prems(2,4) True by (intro parseFields_cong) (auto simp: f)
    moreover have "p = parser" "o' = opt" using Cons.prems(3) by (simp_all add: f True)
    ultimately show ?thesis
      using Cons.prems(1) [unfolded f] assms(4,5,6) Cons.prems(4) [of key]
      by (elim parseFields_ConsE) (auto simp: f True)
  next
    case False
    have IH: "parseFields rest kvs' = Some (setProp key v parsed)" if "parseFields rest kvs = Some parsed" for parsed
      using Cons.IH [OF that] Cons.prems(2-4) False by (auto simp: f)
    show ?thesis
      using Cons.prems(1) [unfolded f] Cons.prems(4) [of k] False
      by (elim parseFields_ConsE) (auto simp: f IH)
  qed
qed simp

lemma parseFields_required:
  assumes "parseFields shp kvs = Some r" "distinct (map fst shp)" "map_of shp key = Some (False, parser)"
  shows "\<exists>v w. map_of kvs key = Some v \<and> parser v = Some w \<and> map_of r key = Some w"
  using assms
proof (induction shp arbitrary: r)
  case (Cons f rest)
  obtain k opt p where f: "f = (k, opt, p)" by (cases f) auto
  from Cons.prems(1) [unfolded f] show ?case
    by (rule parseFields_ConsE) (use Cons.IH Cons.prems(2,3) in \<open>auto simp: f split: if_splits\<close>)
qed simp

lemma strictObject_result:
  assumes "strictObject shp v = Some w"
  obtains kvs r where "v = JObject kvs" "w = JObject r" "parseFields shp kvs = Some r"
  using assms by (cases v) (auto split: if_splits)

lemma strictObject_parsed:
  "parseFields shp r = Some r \<Longrightarrow> strictObject shp (JObject r) = Some (JObject r)"
  using parseFields_keys [of shp r r] by (fastforce simp: list_all_iff simp del: parseFields.simps)

lemma strictObject_parser: "lawfulShape shp \<Longrightarrow> schema_parser (strictObject shp)"
proof
  assume law: "lawfulShape shp"
  fix v w assume "strictObject shp v = Some w"
  then obtain kvs r where r: "v = JObject kvs" "w = JObject r" "parseFields shp kvs = Some r" by (rule strictObject_result)
  show "strictObject shp w = Some w" using strictObject_parsed parseFields_again [OF r(3) law] r(2) by simp
  show "w \<noteq> JUndefined" by (simp add: r)
  show "wfJson w" if "wfJson v"
    using parseFields_distinct [OF r(3) law] parseFields_wf [OF r(3) law] that by (simp add: r)
qed

lemma enumField_undefined: "\<not> enumField values JUndefined"
  by (simp add: enumField_def)

lemma emptyTuple_parser: "schema_parser emptyTuple"
  unfolding emptyTuple_def by (rule checked_parser) simp

lemmas shape_laws = lawfulShape_Cons lawfulShape_Nil required_def optionally_def checked_parser enumField_undefined
  emptyTuple_parser

lemma decodedArguments_parser: "schema_parser decodedArgumentsSchema"
  unfolding decodedArgumentsSchema_def by (rule strictObject_parser) (simp add: shape_laws)

lemma assetDelta_parser: "schema_parser assetDeltaSchema"
  unfolding assetDeltaSchema_def by (rule strictObject_parser) (simp add: shape_laws)

lemma maximumFeeConstraints_parser: "schema_parser maximumFeeConstraintsSchema"
  unfolding maximumFeeConstraintsSchema_def by (rule strictObject_parser) (simp add: shape_laws)

lemma provenance_parser: "schema_parser provenanceSchema"
  unfolding provenanceSchema_def by (rule strictObject_parser) (simp add: shape_laws)

lemma simulationRevert_parser: "schema_parser simulationRevertSchema"
  unfolding simulationRevertSchema_def by (rule strictObject_parser) (simp add: shape_laws)

lemmas nested_parsers = decodedArguments_parser assetDelta_parser maximumFeeConstraints_parser provenance_parser
  simulationRevert_parser schema_parser.nonEmptyArray_parser [OF assetDelta_parser]

lemma envelopeV1Shape_lawful: "lawfulShape (envelopeV1Shape X)"
  unfolding envelopeV1Shape_def by (simp add: shape_laws nested_parsers)

lemma envelopeV2Shape_lawful: "lawfulShape (envelopeV2Shape X)"
  unfolding envelopeV2Shape_def by (simp add: shape_laws nested_parsers)

interpretation envelopeV1: schema_parser "canonicalExecutionEnvelopeV1Schema X" for X
  unfolding canonicalExecutionEnvelopeV1Schema_def
  by (rule schema_parser.refined_parser) (rule strictObject_parser [OF envelopeV1Shape_lawful])

interpretation envelopeV2: schema_parser "canonicalExecutionEnvelopeV2Schema X" for X
  unfolding canonicalExecutionEnvelopeV2Schema_def
  by (rule schema_parser.refined_parser) (rule strictObject_parser [OF envelopeV2Shape_lawful])

interpretation transferCandidate: schema_parser executableTransferCandidateSchema
  unfolding executableTransferCandidateSchema_def
  by (rule schema_parser.refined_parser, rule strictObject_parser) (simp add: shape_laws nested_parsers)

interpretation simulationEvidence: schema_parser simulationEvidenceSchema
  unfolding simulationEvidenceSchema_def
  by (rule schema_parser.refined_parser, rule strictObject_parser) (simp add: shape_laws nested_parsers)

section \<open>The hash of an envelope\<close>

lemma envelope_shape_fields:
  "map_of (envelopeV1Shape X) ''schemaVersion'' = Some (False, checked (stringField versionSchema))"
  "map_of (envelopeV2Shape X) ''schemaVersion'' = Some (False, checked (enumField [''2.0'']))"
  "map_of (envelopeV1Shape X) ''envelopeHash'' = Some (False, checked evmHashField)"
  "map_of (envelopeV2Shape X) ''envelopeHash'' = Some (False, checked evmHashField)"
  by (simp_all add: envelopeV1Shape_def envelopeV2Shape_def required_def optionally_def)

lemma required_text:
  assumes "strictObject shp v = Some w" "lawfulShape shp" "map_of shp key = Some (False, checked (stringField ok))"
  shows "\<exists>s. ok s \<and> getProp v key = JString s \<and> getProp w key = JString s"
proof -
  from assms(1) obtain kvs r where r: "v = JObject kvs" "w = JObject r" "parseFields shp kvs = Some r"
    by (rule strictObject_result)
  obtain x where "map_of kvs key = Some x" "checked (stringField ok) x = Some x" "map_of r key = Some x" "stringField ok x"
    using parseFields_required [OF r(3) _ assms(3)] assms(2) by (auto simp: lawfulShape_def checked_def split: if_splits)
  then show ?thesis by (cases x) (simp_all add: r)
qed

lemma refined_Some: "refined ok p = Some v \<longleftrightarrow> p = Some v \<and> ok v"
  by (auto simp: refined_def split: option.splits)

lemma envelopeV1_version:
  assumes "canonicalExecutionEnvelopeV1Schema X c = Some e"
  shows "getProp c ''schemaVersion'' = JString ''1.0''" "getProp e ''schemaVersion'' = JString ''1.0''"
  using required_text [OF _ envelopeV1Shape_lawful envelope_shape_fields(1)] assms
  by (fastforce simp: canonicalExecutionEnvelopeV1Schema_def refined_Some versionSchema_def)+

lemma envelopeV2_version:
  assumes "canonicalExecutionEnvelopeV2Schema X c = Some e"
  shows "getProp c ''schemaVersion'' = JString ''2.0''" "getProp e ''schemaVersion'' = JString ''2.0''"
  using required_text [OF _ envelopeV2Shape_lawful envelope_shape_fields(2) [unfolded enumField_def]] assms
  by (fastforce simp: canonicalExecutionEnvelopeV2Schema_def refined_Some)+

text \<open>The version dispatch of \<open>parseExecutionEnvelope\<close> accepts what the union accepts.\<close>

lemma parseExecutionEnvelope_union: "parseExecutionEnvelope X = canonicalExecutionEnvelopeSchema X"
proof
  fix c
  show "parseExecutionEnvelope X c = canonicalExecutionEnvelopeSchema X c"
    using envelopeV1_version(1) [of X c] envelopeV2_version(1) [of X c]
    by (cases "canonicalExecutionEnvelopeV1Schema X c"; cases "canonicalExecutionEnvelopeV2Schema X c")
      (simp_all add: parseExecutionEnvelope_def canonicalExecutionEnvelopeSchema_def del: getProp.simps)
qed

lemma parseExecutionEnvelope_cases:
  assumes "parseExecutionEnvelope X c = Some e"
  obtains (v1) "canonicalExecutionEnvelopeV1Schema X c = Some e" | (v2) "canonicalExecutionEnvelopeV2Schema X c = Some e"
  using assms unfolding parseExecutionEnvelope_union canonicalExecutionEnvelopeSchema_def by (auto split: option.splits)

lemma parseExecutionEnvelope_v1: "canonicalExecutionEnvelopeV1Schema X c = Some e \<Longrightarrow> parseExecutionEnvelope X c = Some e"
  by (simp add: parseExecutionEnvelope_union canonicalExecutionEnvelopeSchema_def)

lemma parseExecutionEnvelope_v2: "canonicalExecutionEnvelopeV2Schema X c = Some e \<Longrightarrow> parseExecutionEnvelope X c = Some e"
  using envelopeV2_version(1) [of X c e] by (simp add: parseExecutionEnvelope_def del: getProp.simps)

interpretation executionEnvelope: schema_parser "parseExecutionEnvelope X" for X
proof
  show "parseExecutionEnvelope X e = Some e" if "parseExecutionEnvelope X c = Some e" for c e
    using that by (rule parseExecutionEnvelope_cases)
      (auto intro: parseExecutionEnvelope_v1 parseExecutionEnvelope_v2 dest: envelopeV1.parse_again envelopeV2.parse_again)
qed (auto elim!: parseExecutionEnvelope_cases dest: envelopeV1.parse_defined envelopeV2.parse_defined
    envelopeV1.parse_wf envelopeV2.parse_wf)

lemma map_of_setProp: "map_of (setProp k v kvs) k' = (if k' = k then Some v else map_of kvs k')"
  by (induction kvs) auto

lemma getProp_withHash:
  "key \<noteq> ''envelopeHash'' \<Longrightarrow> getProp (withHash h e) key = getProp e key"
  by (cases e) (simp_all add: map_of_setProp)

lemma map_of_without: "k' \<noteq> k \<Longrightarrow> map_of (filter (\<lambda>(key, v). key \<noteq> k) kvs) k' = map_of kvs k'"
  by (induction kvs) auto

lemma getProp_withoutHash: "key \<noteq> ''envelopeHash'' \<Longrightarrow> getProp (withoutHash e) key = getProp e key"
  by (cases e) (simp_all add: map_of_without)

lemma withoutHash_wf: "wfJson e \<Longrightarrow> wfJson (withoutHash e)"
  by (cases e) (auto simp: list_all_iff distinct_map inj_on_def)

lemma strictObject_withHash:
  assumes "strictObject shp v = Some w" "lawfulShape shp" "map_of shp ''envelopeHash'' = Some (False, checked evmHashField)"
    and "evmHashSchema h"
  shows "strictObject shp (withHash h w) = Some (withHash h w)" "getProp (withHash h w) ''envelopeHash'' = JString h"
    "withoutHash (withHash h w) = withoutHash w"
proof -
  from assms(1) obtain kvs r where r: "v = JObject kvs" "w = JObject r" "parseFields shp kvs = Some r"
    by (rule strictObject_result)
  have d: "distinct (map fst shp)" using assms(2) by (simp add: lawfulShape_def)
  have again: "parseFields shp r = Some r" using parseFields_again [OF r(3) assms(2)] by simp
  let ?r = "setProp ''envelopeHash'' (JString h) r"
  have "map_of r ''envelopeHash'' \<noteq> None" using parseFields_required [OF r(3) d assms(3)] by auto
  then have p: "parseFields shp ?r = Some ?r"
    using parseFields_setProp [OF again d assms(3)] assms(4) by (simp add: checked_def map_of_setProp)
  show "strictObject shp (withHash h w) = Some (withHash h w)" using strictObject_parsed [OF p] r(2) by simp
  show "getProp (withHash h w) ''envelopeHash'' = JString h" by (simp add: r(2) map_of_setProp)
  have "filter (\<lambda>(key, v). key \<noteq> k) (setProp k x kvs) = filter (\<lambda>(key, v). key \<noteq> k) kvs" for k x kvs
    by (induction kvs) auto
  then show "withoutHash (withHash h w) = withoutHash w" by (simp add: r(2))
qed

lemma withHash_parses:
  assumes "parseExecutionEnvelope X c = Some e" "evmHashSchema h"
  shows "parseExecutionEnvelope X (withHash h e) = Some (withHash h e)" "getProp (withHash h e) ''envelopeHash'' = JString h"
    "withoutHash (withHash h e) = withoutHash e"
proof -
  from assms(1) have "parseExecutionEnvelope X (withHash h e) = Some (withHash h e)
    \<and> getProp (withHash h e) ''envelopeHash'' = JString h \<and> withoutHash (withHash h e) = withoutHash e"
  proof (cases rule: parseExecutionEnvelope_cases)
    case v1
    then show ?thesis
      using strictObject_withHash [OF _ envelopeV1Shape_lawful envelope_shape_fields(3) assms(2), of X c e]
      by (auto simp: canonicalExecutionEnvelopeV1Schema_def refined_Some lifetimeOrdered_def getProp_withHash
          simp del: getProp.simps withHash.simps withoutHash.simps intro!: parseExecutionEnvelope_v1)
  next
    case v2
    then show ?thesis
      using strictObject_withHash [OF _ envelopeV2Shape_lawful envelope_shape_fields(4) assms(2), of X c e]
      by (auto simp: canonicalExecutionEnvelopeV2Schema_def refined_Some lifetimeOrdered_def getProp_withHash
          simp del: getProp.simps withHash.simps withoutHash.simps intro!: parseExecutionEnvelope_v2)
  qed
  then show "parseExecutionEnvelope X (withHash h e) = Some (withHash h e)"
    "getProp (withHash h e) ''envelopeHash'' = JString h" "withoutHash (withHash h e) = withoutHash e" by simp_all
qed

definition hashVersionOf :: "jsval \<Rightarrow> string" where
  "hashVersionOf e =
     (if getProp e ''schemaVersion'' = JString ''1.0'' then ENVELOPE_HASH_VERSION else ENVELOPE_HASH_VERSION_V2)"

lemma hashVersionOf_cases: "hashVersionOf e = ''v1'' \<or> hashVersionOf e = ''v2''"
  by (simp add: hashVersionOf_def ENVELOPE_HASH_VERSION_def ENVELOPE_HASH_VERSION_V2_def)

definition envelopePreimage :: "externals \<Rightarrow> jsval \<Rightarrow> string" where
  "envelopePreimage X e = concatBytes X
     [utf8ToBytes X ENVELOPE_HASH_DOMAIN, utf8ToBytes X (hashVersionOf e), [CHR 0x00],
      utf8ToBytes X (jsonText (sortKeys (withoutHash e)))]"

lemma preimage_parsed:
  assumes "parseExecutionEnvelope X c = Some e" "wfJson e"
  shows "buildEnvelopeHashPreimage X c = Some (envelopePreimage X e)"
  using assms executionEnvelope.parse_again [OF assms(1)] canonicalize_text [OF withoutHash_wf [OF assms(2)]]
  by (simp add: buildEnvelopeHashPreimage_def serializeExecutionEnvelope_def canonicalizeExecutionEnvelope_def
      envelopeHashInput_def canonicalizeIdempotencyPayload_def envelopePreimage_def hashVersionOf_def
      del: getProp.simps withoutHash.simps)

lemma hash_parsed:
  assumes "parseExecutionEnvelope X c = Some e" "wfJson e"
  shows "hashExecutionEnvelope X c = Some (''0x'' @ bytesToHex X (keccak_256 X (envelopePreimage X e)))"
  using preimage_parsed [OF assms] by (simp add: hashExecutionEnvelope_def)

lemma envelopePreimage_withHash:
  "parseExecutionEnvelope X c = Some e \<Longrightarrow> evmHashSchema h \<Longrightarrow> envelopePreimage X (withHash h e) = envelopePreimage X e"
  by (simp add: envelopePreimage_def hashVersionOf_def withHash_parses(3) getProp_withHash
      del: getProp.simps withoutHash.simps withHash.simps)

lemma keys_setProp: "fst ` set (setProp k v kvs) = insert k (fst ` set kvs)"
  by (induction k v kvs rule: setProp.induct) (simp_all add: insert_commute)

lemma setProp_wf: "wfJson (JObject kvs) \<Longrightarrow> wfJson v \<Longrightarrow> wfJson (JObject (setProp k v kvs))"
  by (induction k v kvs rule: setProp.induct) (simp_all add: keys_setProp)

lemma withHash_wf: "wfJson e \<Longrightarrow> wfJson (withHash h e)"
  by (cases e) (simp_all add: setProp_wf del: wfJson.simps(4))

text \<open>Equal preimages come from envelopes of one version with the same bound fields.\<close>

lemma envelopePreimage_inject:
  assumes "byteUtils X" "wfJson e" "wfJson e'" "envelopePreimage X e = envelopePreimage X e'"
  shows "sortKeys (withoutHash e) = sortKeys (withoutHash e')"
proof -
  have "utf8 ''v1'' = ''v1''" "utf8 ''v2'' = ''v2''" by code_simp+
  then have "utf8 (jsonText (sortKeys (withoutHash e))) = utf8 (jsonText (sortKeys (withoutHash e')))"
    using assms(1,4) hashVersionOf_cases [of e] hashVersionOf_cases [of e']
    by (auto simp: envelopePreimage_def byteUtils_def simp del: withoutHash.simps)
  then show ?thesis
    using utf8_inject canonicalize_eq_iff [OF withoutHash_wf withoutHash_wf, OF assms(2,3)]
      canonicalize_text [OF withoutHash_wf, OF assms(2)] canonicalize_text [OF withoutHash_wf, OF assms(3)] by metis
qed

text \<open>What a positive answer of the approval check means.\<close>

lemma bound_approval:
  assumes "isEnvelopeApprovalBound X approval c = Some True" "wfJson c"
  obtains e h where "parseExecutionEnvelope X c = Some e" "wfJson e" "getProp e ''envelopeHash'' = JString h"
    "h = ''0x'' @ bytesToHex X (keccak_256 X (envelopePreimage X e))" "getProp approval ''envelopeHash'' = JString h"
proof -
  from assms(1) obtain a e h where r: "envelopeApprovalBindingSchema approval = Some a"
    "canonicalExecutionEnvelopeSchema X c = Some e" "hashExecutionEnvelope X e = Some h"
    "getProp e ''envelopeHash'' = JString h" "getProp a ''envelopeHash'' = JString h"
    unfolding isEnvelopeApprovalBound_def by (auto split: option.splits simp del: getProp.simps)
  have e: "parseExecutionEnvelope X c = Some e" using r(2) by (simp add: parseExecutionEnvelope_union)
  have wf: "wfJson e" using executionEnvelope.parse_wf [OF e assms(2)] .
  have law: "lawfulShape [required ''envelopeHash'' evmHashField]" by (simp add: shape_laws)
  have key: "map_of [required ''envelopeHash'' evmHashField] ''envelopeHash'' = Some (False, checked evmHashField)"
    by (simp add: required_def)
  obtain t where "getProp approval ''envelopeHash'' = JString t" "getProp a ''envelopeHash'' = JString t"
    using required_text [OF r(1) [unfolded envelopeApprovalBindingSchema_def] law key] by blast
  then show thesis
    using that [OF e wf r(4)] hash_parsed [OF executionEnvelope.parse_again [OF e] wf] r(3,5) by simp
qed

text \<open>An envelope that carries its own hash is bound by the record that carries it.\<close>

lemma approval_binding_bound:
  assumes "hexDigests X" "parseExecutionEnvelope X c = Some e" "wfJson e"
    and hash: "getProp e ''envelopeHash'' = JString (''0x'' @ bytesToHex X (keccak_256 X (envelopePreimage X e)))"
  shows "isEnvelopeApprovalBound X
    (JObject [(''envelopeHash'', JString (''0x'' @ bytesToHex X (keccak_256 X (envelopePreimage X e))))]) c = Some True"
    (is "isEnvelopeApprovalBound X ?a c = _")
proof -
  have a: "envelopeApprovalBindingSchema ?a = Some ?a"
    using evmHash_of_digest [OF assms(1)] by (simp add: envelopeApprovalBindingSchema_def required_def checked_def)
  show ?thesis
    unfolding isEnvelopeApprovalBound_def a parseExecutionEnvelope_union [symmetric] assms(2)
    using hash_parsed [OF executionEnvelope.parse_again [OF assms(2)] assms(3)] hash by simp
qed

lemma sampleEnvelope_wf: "wfJson (sampleEnvelope sampleArguments)" "wfJson (sampleEnvelope (rev sampleArguments))"
  by code_simp+

lemma sampleEnvelope_parses:
  "parseExecutionEnvelope sampleExternals (sampleEnvelope sampleArguments) = Some (sampleEnvelope sampleArguments)"
  "parseExecutionEnvelope sampleExternals (sampleEnvelope (rev sampleArguments)) = Some (sampleEnvelope sampleArguments)"
  by code_simp+

lemma sampleEnvelope_hash:
  "getProp (sampleEnvelope sampleArguments) ''envelopeHash'' =
     JString (''0x'' @ bytesToHex sampleExternals (keccak_256 sampleExternals (envelopePreimage sampleExternals e)))"
  "sampleBinding = JObject [(''envelopeHash'', getProp (sampleEnvelope sampleArguments) ''envelopeHash'')]"
  by (simp_all add: sampleEnvelope_def sampleHashText_def sampleBinding_def sampleExternals_defs)

lemma sampleEnvelope_bound:
  "isEnvelopeApprovalBound sampleExternals sampleBinding (sampleEnvelope sampleArguments) = Some True"
  "isEnvelopeApprovalBound sampleExternals sampleBinding (sampleEnvelope (rev sampleArguments)) = Some True"
  using approval_binding_bound [OF sampleExternals_ok(1) _ sampleEnvelope_wf(1) sampleEnvelope_hash(1)]
    sampleEnvelope_parses
  by (simp_all only: sampleEnvelope_hash(2) sampleEnvelope_hash(1) [of "sampleEnvelope sampleArguments"])

section \<open>Properties\<close>

text \<open>
  C6. An approval binds one envelope: when one approval record is bound to two candidate
  envelopes, the two parsed envelopes agree on every property, the hash included, up to the order
  of nested properties - or their two different hash preimages are a Keccak-256 collision. No
  amount, recipient, fee, lifetime, revision or schema version can change under a given approval.
\<close>

theorem approval_binds_envelope:
  assumes "byteUtils X" "wfJson c" "wfJson c'"
    and "isEnvelopeApprovalBound X approval c = Some True" "isEnvelopeApprovalBound X approval c' = Some True"
  shows "(\<exists>e e'. parseExecutionEnvelope X c = Some e \<and> parseExecutionEnvelope X c' = Some e'
            \<and> (\<forall>key. sortKeys (getProp e key) = sortKeys (getProp e' key)))
    \<or> (\<exists>b b'. buildEnvelopeHashPreimage X c = Some b \<and> buildEnvelopeHashPreimage X c' = Some b' \<and> b \<noteq> b'
         \<and> bytesToHex X (keccak_256 X b) = bytesToHex X (keccak_256 X b'))"
proof -
  obtain e h where e: "parseExecutionEnvelope X c = Some e" "wfJson e" "getProp e ''envelopeHash'' = JString h"
    "h = ''0x'' @ bytesToHex X (keccak_256 X (envelopePreimage X e))" "getProp approval ''envelopeHash'' = JString h"
    using assms(4,2) by (rule bound_approval)
  obtain e' h' where e': "parseExecutionEnvelope X c' = Some e'" "wfJson e'" "getProp e' ''envelopeHash'' = JString h'"
    "h' = ''0x'' @ bytesToHex X (keccak_256 X (envelopePreimage X e'))" "getProp approval ''envelopeHash'' = JString h'"
    using assms(5,3) by (rule bound_approval)
  have h: "h = h'" using e(5) e'(5) by simp
  show ?thesis
  proof (cases "envelopePreimage X e = envelopePreimage X e'")
    case True
    then have "sortKeys (withoutHash e) = sortKeys (withoutHash e')"
      using envelopePreimage_inject [OF assms(1) e(2) e'(2)] by simp
    then have "sortKeys (getProp e key) = sortKeys (getProp e' key)" for key
      using sortKeys_getProp [OF withoutHash_wf [OF e(2)] withoutHash_wf [OF e'(2)], of key] e(3) e'(3) h
      by (cases "key = ''envelopeHash''") (simp_all add: getProp_withoutHash del: getProp.simps)
    with e(1) e'(1) show ?thesis by blast
  next
    case False
    with preimage_parsed [OF e(1,2)] preimage_parsed [OF e'(1,2)] e(4) e'(4) h show ?thesis by auto
  qed
qed

theorem approval_binds_envelope_witness:
  "(\<exists>e e'. parseExecutionEnvelope sampleExternals (sampleEnvelope sampleArguments) = Some e
      \<and> parseExecutionEnvelope sampleExternals (sampleEnvelope (rev sampleArguments)) = Some e'
      \<and> (\<forall>key. sortKeys (getProp e key) = sortKeys (getProp e' key)))
    \<or> (\<exists>b b'. buildEnvelopeHashPreimage sampleExternals (sampleEnvelope sampleArguments) = Some b
         \<and> buildEnvelopeHashPreimage sampleExternals (sampleEnvelope (rev sampleArguments)) = Some b' \<and> b \<noteq> b'
         \<and> bytesToHex sampleExternals (keccak_256 sampleExternals b) = bytesToHex sampleExternals (keccak_256 sampleExternals b'))"
  by (rule approval_binds_envelope [OF sampleExternals_ok(2) sampleEnvelope_wf sampleEnvelope_bound])

text \<open>
  C33. Attaching the hash makes an envelope approvable: a well-formed envelope that parses, whatever
  its hash field holds, is given an envelope that parses to itself, differs from the parsed one in
  the hash field only, and is bound by the approval created from it.
\<close>

theorem attached_envelope_is_bound:
  assumes "hexDigests X" "wfJson c" "parseExecutionEnvelope X c = Some p"
  shows "\<exists>e approval. attachEnvelopeHash X c = Some e \<and> createEnvelopeApprovalBinding X e = Some approval
    \<and> isEnvelopeApprovalBound X approval e = Some True \<and> parseExecutionEnvelope X e = Some e
    \<and> (\<forall>key. key \<noteq> ''envelopeHash'' \<longrightarrow> getProp e key = getProp p key)"
proof -
  have wf: "wfJson p" using executionEnvelope.parse_wf [OF assms(3,2)] .
  define h where "h = ''0x'' @ bytesToHex X (keccak_256 X (envelopePreimage X p))"
  have hash: "evmHashSchema h" unfolding h_def by (rule evmHash_of_digest [OF assms(1)])
  note again = executionEnvelope.parse_again [OF assms(3)]
  have p: "hashExecutionEnvelope X p = Some h" using hash_parsed [OF again wf] by (simp add: h_def)
  let ?e = "withHash h p"
  have e: "parseExecutionEnvelope X ?e = Some ?e" "getProp ?e ''envelopeHash'' = JString h"
    using withHash_parses [OF again hash] by simp_all
  have he: "hashExecutionEnvelope X ?e = Some h"
    using hash_parsed [OF e(1) withHash_wf [OF wf]] envelopePreimage_withHash [OF again hash] by (simp add: h_def)
  have "isEnvelopeApprovalBound X (JObject [(''envelopeHash'', JString h)]) ?e = Some True"
    using approval_binding_bound [OF assms(1) e(1) withHash_wf [OF wf]] e(2) envelopePreimage_withHash [OF again hash]
    by (simp add: h_def)
  moreover have "attachEnvelopeHash X c = Some ?e" using assms(3) p by (simp add: attachEnvelopeHash_def)
  moreover have "createEnvelopeApprovalBinding X ?e = Some (JObject [(''envelopeHash'', JString h)])"
    by (simp add: createEnvelopeApprovalBinding_def he)
  ultimately show ?thesis using e(1) getProp_withHash by blast
qed

theorem attached_envelope_is_bound_witness:
  "\<exists>e approval. attachEnvelopeHash sampleExternals (sampleEnvelope sampleArguments) = Some e
    \<and> createEnvelopeApprovalBinding sampleExternals e = Some approval
    \<and> isEnvelopeApprovalBound sampleExternals approval e = Some True"
  using attached_envelope_is_bound [OF sampleExternals_ok(1) sampleEnvelope_wf(1) sampleEnvelope_parses(1)] by blast

end
