(* ===== verification/Approvals.thy ===== *)
theory Approvals
  imports ControlFences Envelope
begin

text \<open>
  Approvals and authorizations (\<open>packages/approvals/src/core.ts\<close>): requests for an owner's approval of
  one envelope, their life, and the two ways an operation becomes authorized - an approval that is
  consumed, or a policy decision that allows it to run autonomously. Every operation is one
  serializable transaction. The text of a whole second is given by its instant.
\<close>

section \<open>Requests and results\<close>

text \<open>A revision that a caller passes is a number: \<open>None\<close> when it is not an integer.\<close>

record create_approval_request =
  cq_approvalId :: string
  cq_operationId :: string
  cq_reservationId :: string
  cq_envelopeId :: string
  cq_envelopeRevision :: "int option"
  cq_envelopeHash :: string
  cq_policyDecisionId :: string
  cq_issuedAt :: timestamp
  cq_expiresAt :: timestamp
  cq_nonce :: string
  cq_audit :: audit_context

record approve_approval_request =
  aq_approvalId :: string
  aq_approverId :: string
  aq_now :: "timestamp option"
  aq_audit :: audit_context

record reject_approval_request =
  jq_approvalId :: string
  jq_approverId :: string
  jq_reason :: string
  jq_audit :: audit_context

record revoke_approval_request =
  vq_approvalId :: string
  vq_reason :: string
  vq_audit :: audit_context

record replace_envelope_request =
  pq_operationId :: string
  pq_envelope :: jsval
  pq_reason :: string
  pq_audit :: audit_context

record consume_approval_request =
  nq_approvalId :: string
  nq_operationId :: string
  nq_envelopeId :: string
  nq_envelopeRevision :: "int option"
  nq_envelopeHash :: string
  nq_consumerId :: string
  nq_now :: "timestamp option"
  nq_audit :: audit_context

record authorize_autonomous_input =
  uq_authorizationId :: string
  uq_operationId :: string
  uq_reservationId :: string
  uq_envelopeId :: string
  uq_envelopeRevision :: "int option"
  uq_envelopeHash :: string
  uq_policyDecisionId :: string
  uq_policyDecisionHash :: string
  uq_idempotencyKey :: string

record approval_snapshot =
  as_approvalId :: string
  as_operationId :: string
  as_reservationId :: string
  as_envelopeId :: string
  as_envelopeRevision :: int
  as_envelopeHash :: string
  as_policyDecisionId :: string
  as_policyDecisionHash :: string
  as_policyId :: string
  as_policyVersion :: int
  as_approverId :: "string option"
  as_issuedAt :: int
  as_expiresAt :: int
  as_nonce :: string
  as_status :: approval_status
  as_approvedAt :: "int option"
  as_rejectedAt :: "int option"
  as_expiredAt :: "int option"
  as_revokedAt :: "int option"
  as_consumedAt :: "int option"
  as_reason :: "string option"
  as_controlFences :: fence_snapshot

text \<open>
  \<open>CommonRow\<close> and \<open>ApprovalRow\<close>, without the columns that no code reads. The columns of the fences,
  and of the fences as they are now, are one snapshot each.
\<close>

record common_row =
  cm_operation_id :: string
  cm_reservation_id :: string
  cm_envelope_id :: string
  cm_envelope_revision :: int
  cm_envelope_hash :: string
  cm_policy_decision_id :: string
  cm_policy_decision_hash :: string
  cm_policy_id :: string
  cm_policy_version :: int
  cm_current_state :: lifecycle_state
  cm_intent_id :: string
  cm_agent_id :: string
  cm_wallet_id :: string
  cm_owner_id :: string
  cm_policy_decision_status :: decision
  cm_persisted_decision_hash :: string
  cm_decision_policy_id :: string
  cm_decision_policy_version :: int
  cm_persisted_envelope_hash :: string
  cm_persisted_envelope_revision :: int
  cm_envelope_payload :: jsval
  cm_latest_revision :: int
  cm_reservation_status :: reservation_status
  cm_reservation_expires_at :: int
  cm_budget_id :: string
  cm_amount_atomic :: int
  cm_policy_status :: policy_status
  cm_fences :: fence_snapshot
  cm_current_fences :: fence_snapshot

record approval_row = common_row +
  av_approval_id :: string
  av_approver_id :: "string option"
  av_issued_at :: int
  av_expires_at :: int
  av_nonce :: string
  av_status :: approval_status
  av_approved_at :: "int option"
  av_rejected_at :: "int option"
  av_expired_at :: "int option"
  av_revoked_at :: "int option"
  av_consumed_at :: "int option"
  av_reason :: "string option"

section \<open>Helpers\<close>

abbreviation "bindingMismatch \<equiv> ApprovalError APPROVAL_BINDING_MISMATCH"
abbreviation "revalidationRequired \<equiv> ApprovalError REVALIDATION_REQUIRED_A"
abbreviation "stateInvalid \<equiv> ApprovalError AUTHORIZATION_STATE_INVALID"

fun timestampOf :: "timestamp \<Rightarrow> failure + int" where
  "timestampOf (DateObject t) = ofOption bindingMismatch (map_option secondOf t)"
| "timestampOf (DateString s) = ofOption bindingMismatch (map_option secondOf (Date_parse s))"

definition requireId :: "string \<Rightarrow> failure + unit" where
  "requireId value = require (identifierText value) bindingMismatch"

definition requireHash :: "string \<Rightarrow> failure + unit" where
  "requireHash value = require (prefixed ''0x'' isHex 64 value) bindingMismatch"

definition requireRevision :: "int option \<Rightarrow> failure + unit" where
  "requireRevision revision = require (case revision of None \<Rightarrow> False | Some n \<Rightarrow> 0 < n) bindingMismatch"

definition sameTimestamp :: "int \<Rightarrow> timestamp \<Rightarrow> bool" where
  "sameTimestamp left right = (case right of DateObject t \<Rightarrow> t = Some left | DateString s \<Rightarrow> Date_parse s = Some left)"

definition mapApproval :: "approval_row \<Rightarrow> approval_snapshot" where
  "mapApproval row =
     \<lparr>as_approvalId = av_approval_id row, as_operationId = cm_operation_id row, as_reservationId = cm_reservation_id row,
      as_envelopeId = cm_envelope_id row, as_envelopeRevision = cm_envelope_revision row,
      as_envelopeHash = cm_envelope_hash row, as_policyDecisionId = cm_policy_decision_id row,
      as_policyDecisionHash = cm_policy_decision_hash row, as_policyId = cm_policy_id row,
      as_policyVersion = cm_policy_version row, as_approverId = av_approver_id row,
      as_issuedAt = secondOf (av_issued_at row), as_expiresAt = secondOf (av_expires_at row), as_nonce = av_nonce row,
      as_status = av_status row, as_approvedAt = map_option secondOf (av_approved_at row),
      as_rejectedAt = map_option secondOf (av_rejected_at row), as_expiredAt = map_option secondOf (av_expired_at row),
      as_revokedAt = map_option secondOf (av_revoked_at row), as_consumedAt = map_option secondOf (av_consumed_at row),
      as_reason = av_reason row, as_controlFences = cm_fences row\<rparr>"

definition operationCorrelation :: "'a common_row_scheme \<Rightarrow> audit_correlation" where
  "operationCorrelation row =
     \<lparr>co_reservationId = cm_reservation_id row, co_budgetId = cm_budget_id row, co_ownerId = cm_owner_id row,
      co_agentId = cm_agent_id row, co_walletId = cm_wallet_id row, co_intentId = cm_intent_id row,
      co_operationId = cm_operation_id row, co_policyId = cm_policy_id row, co_policyVersion = cm_policy_version row\<rparr>"

definition assertApprovalCorrelation :: "audit_context \<Rightarrow> audit_correlation \<Rightarrow> failure + unit" where
  "assertApprovalCorrelation audit correlation =
     require (list_all (\<lambda>(field, assertedValue). assertedValue = JUndefined
                \<or> strictEq assertedValue (getProp (correlationValue correlation) field)) (ac_assertedCorrelation audit))
       stateInvalid"

definition fenceData :: "fence_snapshot \<Rightarrow> (string \<times> jsval) list" where
  "fenceData s =
     [(''systemFenceVersion'', JNumber (jsInt (fs_systemFenceVersion s))), (''systemState'', JString (fs_systemState s)),
      (''ownerFenceVersion'', JNumber (jsInt (fs_ownerFenceVersion s))), (''ownerState'', JString (fs_ownerState s)),
      (''agentFenceVersion'', JNumber (jsInt (fs_agentFenceVersion s))), (''agentState'', JString (fs_agentState s)),
      (''policyFenceVersion'', JNumber (jsInt (fs_policyFenceVersion s))), (''policyState'', JString (fs_policyState s))]"

text \<open>\<open>approvalId\<close>, \<open>issuedAt\<close> and \<open>expiresAt\<close> are arguments: a row of an autonomous authorization has no approval.\<close>

definition bindingData ::
  "'a common_row_scheme \<Rightarrow> string option \<Rightarrow> int \<Rightarrow> int \<Rightarrow> (string \<times> jsval) list \<Rightarrow> (string \<times> jsval) list" where
  "bindingData row approvalId issuedAt expiresAt extra =
     spread
       ([(''reservationId'', JString (cm_reservation_id row)),
         (''approvalId'', case approvalId of None \<Rightarrow> JUndefined | Some aid \<Rightarrow> JString aid),
         (''envelopeId'', JString (cm_envelope_id row)),
         (''envelopeRevision'', JNumber (jsInt (cm_envelope_revision row))),
         (''envelopeHash'', JString (cm_envelope_hash row)),
         (''policyDecisionId'', JString (cm_policy_decision_id row)),
         (''policyDecisionHash'', JString (cm_policy_decision_hash row)),
         (''policyVersion'', JNumber (jsInt (cm_policy_version row))),
         (''issuedAt'', JString (isoSecond issuedAt)), (''expiresAt'', JString (isoSecond expiresAt))]
        @ fenceData (cm_fences row)) extra"

definition fencesAreActive :: "'a common_row_scheme \<Rightarrow> bool" where
  "fencesAreActive row = allActive (cm_fences row)"

definition fencesAreActiveAndCurrent :: "'a common_row_scheme \<Rightarrow> bool" where
  "fencesAreActiveAndCurrent row \<longleftrightarrow>
     allActive (cm_fences row)
     \<and> fs_systemFenceVersion (cm_fences row) = fs_systemFenceVersion (cm_current_fences row)
     \<and> fs_ownerFenceVersion (cm_fences row) = fs_ownerFenceVersion (cm_current_fences row)
     \<and> fs_agentFenceVersion (cm_fences row) = fs_agentFenceVersion (cm_current_fences row)
     \<and> fs_policyFenceVersion (cm_fences row) = fs_policyFenceVersion (cm_current_fences row)
     \<and> allActive (cm_current_fences row)"

definition appendBound ::
  "externals \<Rightarrow> 'a common_row_scheme \<Rightarrow> string option \<Rightarrow> int \<Rightarrow> int \<Rightarrow> audit_context \<Rightarrow> string \<Rightarrow> string
     \<Rightarrow> (string \<times> jsval) list \<Rightarrow> unit tx" where
  "appendBound X row approvalId issuedAt expiresAt audit eventType suffix data =
     (let correlation = operationCorrelation row in
     txThen (txLift (assertApprovalCorrelation audit correlation)) (
     appendAuditEvent X (correlatedInput (ac_eventId audit @ '':'' @ suffix) (ac_actorType audit) (ac_actorId audit)
       (ac_traceId audit) correlation eventType
       (spread (bindingData row approvalId issuedAt expiresAt data) [(''reservationId'', JString (cm_reservation_id row))]))))"

definition append_approval ::
  "externals \<Rightarrow> approval_row \<Rightarrow> audit_context \<Rightarrow> string \<Rightarrow> string \<Rightarrow> (string \<times> jsval) list \<Rightarrow> unit tx" where
  "append_approval X row = appendBound X row (Some (av_approval_id row)) (av_issued_at row) (av_expires_at row)"

section \<open>Queries\<close>

text \<open>The row with a key, when it meets a condition; \<open>max(revision)\<close>; the columns that a query does not return.\<close>

definition rowWhere :: "('r \<Rightarrow> 'k) \<Rightarrow> 'k \<Rightarrow> ('r \<Rightarrow> bool) \<Rightarrow> 'r list \<Rightarrow> 'r option" where
  "rowWhere key k cond rows = (case rowWith key k rows of None \<Rightarrow> None | Some r \<Rightarrow> if cond r then Some r else None)"

definition latestRevision :: "string \<Rightarrow> db \<Rightarrow> int" where
  "latestRevision operationId d =
     foldl max 0 (map en_revision (filter (\<lambda>e. en_operation_id e = operationId) (execution_envelopes d)))"

definition noFences :: fence_snapshot where
  "noFences =
     \<lparr>fs_systemFenceVersion = 0, fs_systemState = [], fs_ownerFenceVersion = 0, fs_ownerState = [],
      fs_agentFenceVersion = 0, fs_agentState = [], fs_policyFenceVersion = 0, fs_policyState = []\<rparr>"

definition commonSelect :: "string \<Rightarrow> string \<Rightarrow> string \<Rightarrow> string \<Rightarrow> db \<Rightarrow> common_row option" where
  "commonSelect operationId envelopeId policyDecisionId reservationId d =
     (case rowWith op_operation_id operationId (operations d) of None \<Rightarrow> None | Some o1 \<Rightarrow>
      case rowWhere br_reservation_id reservationId (\<lambda>r. br_operation_id r = operationId) (budget_reservations d) of
        None \<Rightarrow> None | Some r \<Rightarrow>
      case rowWith ba_budget_id (br_budget_id r) (budget_accounts d) of None \<Rightarrow> None | Some b \<Rightarrow>
      case rowWhere en_envelope_id envelopeId (\<lambda>e. en_operation_id e = operationId) (execution_envelopes d) of
        None \<Rightarrow> None | Some e \<Rightarrow>
      case rowWhere dr_decision_id policyDecisionId (\<lambda>p. dr_operation_id p = operationId) (policy_decisions d) of
        None \<Rightarrow> None | Some pd \<Rightarrow>
      case rowWith it_intent_id (op_intent_id o1) (intents d) of None \<Rightarrow> None | Some i \<Rightarrow>
      case rowWhere ag_agent_id (op_agent_id o1) (\<lambda>ag. ag_owner_id ag \<in> set (owners d)) (agents d) of None \<Rightarrow> None | Some ag \<Rightarrow>
      case rowWith wa_wallet_id (op_wallet_id o1) (wallets d) of None \<Rightarrow> None | Some w \<Rightarrow>
      case rowWith pl_policy_id (op_policy_id o1) (policies d) of None \<Rightarrow> None | Some p \<Rightarrow>
      Some
        \<lparr>cm_operation_id = op_operation_id o1, cm_reservation_id = br_reservation_id r, cm_envelope_id = en_envelope_id e,
         cm_envelope_revision = en_revision e, cm_envelope_hash = en_envelope_hash e, cm_policy_decision_id = dr_decision_id pd,
         cm_policy_decision_hash = dr_decision_hash pd, cm_policy_id = op_policy_id o1, cm_policy_version = op_policy_version o1,
         cm_current_state = op_current_state o1, cm_intent_id = op_intent_id o1, cm_agent_id = op_agent_id o1,
         cm_wallet_id = op_wallet_id o1, cm_owner_id = ag_owner_id ag, cm_policy_decision_status = dr_decision pd,
         cm_persisted_decision_hash = dr_decision_hash pd, cm_decision_policy_id = dr_policy_id pd,
         cm_decision_policy_version = dr_policy_version pd, cm_persisted_envelope_hash = en_envelope_hash e,
         cm_persisted_envelope_revision = en_revision e, cm_envelope_payload = en_payload e,
         cm_latest_revision = latestRevision operationId d, cm_reservation_status = br_status r,
         cm_reservation_expires_at = br_expires_at r, cm_budget_id = ba_budget_id b, cm_amount_atomic = br_amount_atomic r,
         cm_policy_status = pl_status p, cm_fences = noFences, cm_current_fences = noFences\<rparr>)"

text \<open>The columns of the request replace those that \<open>commonSelect\<close> takes from the joined rows.\<close>

definition approvalSelect :: "string \<Rightarrow> db \<Rightarrow> approval_row option" where
  "approvalSelect approvalId d =
     (case rowWith ap_approval_id approvalId (approval_requests d) of None \<Rightarrow> None | Some a \<Rightarrow>
      case commonSelect (ap_operation_id a) (ap_envelope_id a) (ap_policy_decision_id a) (ap_reservation_id a) d of
        None \<Rightarrow> None
      | Some row \<Rightarrow> Some (common_row.extend
          (row\<lparr>cm_operation_id := ap_operation_id a, cm_reservation_id := ap_reservation_id a,
               cm_envelope_id := ap_envelope_id a, cm_envelope_revision := ap_envelope_revision a,
               cm_envelope_hash := ap_envelope_hash a, cm_policy_decision_id := ap_policy_decision_id a,
               cm_policy_decision_hash := ap_policy_decision_hash a, cm_policy_id := ap_policy_id a,
               cm_policy_version := ap_policy_version a, cm_fences := ap_fences a\<rparr>)
          (approval_row.fields (ap_approval_id a) (ap_approver_id a) (ap_issued_at a) (ap_expires_at a) (ap_nonce a)
            (ap_status a) (ap_approved_at a) (ap_rejected_at a) (ap_expired_at a) (ap_revoked_at a) (ap_consumed_at a)
            (ap_reason a))))"

definition loadApproval :: "string \<Rightarrow> approval_row tx" where
  "loadApproval approvalId =
     txBind (txQuery (approvalSelect approvalId)) (\<lambda>initial.
     case initial of
       None \<Rightarrow> txThrow (ApprovalError APPROVAL_NOT_FOUND)
     | Some identity \<Rightarrow>
         txBind (lockControlFences (cm_owner_id identity) (cm_agent_id identity) (cm_policy_id identity)) (\<lambda>currentFences.
         txBind (txQuery (approvalSelect approvalId)) (\<lambda>result.
         case result of
           None \<Rightarrow> txThrow (ApprovalError APPROVAL_NOT_FOUND)
         | Some row \<Rightarrow> txReturn (row\<lparr>cm_current_fences := currentFences\<rparr>))))"

definition loadCommonByIds :: "string \<Rightarrow> string \<Rightarrow> string \<Rightarrow> string \<Rightarrow> common_row tx" where
  "loadCommonByIds operationId envelopeId policyDecisionId reservationId =
     txBind (txQuery (commonSelect operationId envelopeId policyDecisionId reservationId)) (\<lambda>initial.
     case initial of
       None \<Rightarrow> txThrow revalidationRequired
     | Some identity \<Rightarrow>
         txBind (lockControlFences (cm_owner_id identity) (cm_agent_id identity) (cm_policy_id identity)) (\<lambda>currentFences.
         txBind (txQuery (commonSelect operationId envelopeId policyDecisionId reservationId)) (\<lambda>result.
         case result of
           None \<Rightarrow> txThrow revalidationRequired
         | Some row \<Rightarrow> txReturn (row\<lparr>cm_fences := currentFences, cm_current_fences := currentFences\<rparr>))))"

definition loadCommon :: "create_approval_request \<Rightarrow> common_row tx" where
  "loadCommon request =
     loadCommonByIds (cq_operationId request) (cq_envelopeId request) (cq_policyDecisionId request) (cq_reservationId request)"

text \<open>\<open>e.payload ->> 'policyDecisionHash'\<close> is the text of the property.\<close>

definition loadAutonomousAuthorityIds :: "string \<Rightarrow> (string \<times> string \<times> string) tx" where
  "loadAutonomousAuthorityIds operationId =
     txBind (txQuery (\<lambda>d. topBy (\<lambda>(x, _) (y, _). en_revision x > en_revision y)
       [(e, br_reservation_id r, en_envelope_id e, dr_decision_id pd).
          o1 \<leftarrow> operations d, r \<leftarrow> budget_reservations d, e \<leftarrow> execution_envelopes d, pd \<leftarrow> policy_decisions d,
          op_operation_id o1 = operationId \<and> br_operation_id r = op_operation_id o1 \<and> en_operation_id e = op_operation_id o1
          \<and> dr_operation_id pd = op_operation_id o1
          \<and> getProp (en_payload e) ''policyDecisionHash'' = JString (dr_decision_hash pd)])) (\<lambda>authority.
     txLift (ofOption revalidationRequired (map_option snd authority)))"

section \<open>Bindings\<close>

definition persistedEnvelope :: "externals \<Rightarrow> 'a common_row_scheme \<Rightarrow> failure + jsval" where
  "persistedEnvelope X row =
     andThen (ofOption revalidationRequired (canonicalExecutionEnvelopeSchema X (cm_envelope_payload row))) (\<lambda>parsed.
     andThen (require (getProp parsed ''envelopeHash'' = JString (cm_persisted_envelope_hash row)) revalidationRequired) (\<lambda>_.
     andThen (ofOption TypeError (hashExecutionEnvelope X parsed)) (\<lambda>expected.
     andThen (require (expected = cm_persisted_envelope_hash row) revalidationRequired) (\<lambda>_.
     Inr parsed))))"

text \<open>The fields of the envelope that the persisted rows determine.\<close>

definition envelopeBound :: "'a common_row_scheme \<Rightarrow> jsval \<Rightarrow> bool" where
  "envelopeBound row envelope \<longleftrightarrow>
     getProp envelope ''intentId'' = JString (cm_intent_id row)
     \<and> getProp envelope ''agentId'' = JString (cm_agent_id row)
     \<and> getProp envelope ''walletId'' = JString (cm_wallet_id row)
     \<and> getProp envelope ''policyId'' = JString (cm_policy_id row)
     \<and> getProp envelope ''policyVersion'' = JNumber (jsInt (cm_policy_version row))
     \<and> getProp envelope ''policyDecisionHash'' = JString (cm_policy_decision_hash row)
     \<and> getProp envelope ''budgetReservationId'' = JString (cm_reservation_id row)"

definition claimsPersisted :: "'a common_row_scheme \<Rightarrow> bool" where
  "claimsPersisted row \<longleftrightarrow>
     cm_persisted_envelope_revision row = cm_envelope_revision row
     \<and> cm_persisted_envelope_hash row = cm_envelope_hash row
     \<and> cm_persisted_decision_hash row = cm_policy_decision_hash row
     \<and> cm_decision_policy_id row = cm_policy_id row
     \<and> cm_decision_policy_version row = cm_policy_version row"

definition assertCommonBinding :: "externals \<Rightarrow> 'a common_row_scheme \<Rightarrow> failure + jsval" where
  "assertCommonBinding X row =
     andThen (persistedEnvelope X row) (\<lambda>envelope.
     andThen (require (claimsPersisted row \<and> cm_policy_decision_status row = REQUIRE_APPROVAL \<and> envelopeBound row envelope)
       revalidationRequired) (\<lambda>_.
     Inr envelope))"

definition ensureLatestEnvelope :: "'a common_row_scheme \<Rightarrow> failure + unit" where
  "ensureLatestEnvelope row = require (cm_latest_revision row = cm_envelope_revision row) revalidationRequired"

definition ensureApprovalRequestMatches :: "approval_snapshot \<Rightarrow> create_approval_request \<Rightarrow> failure + unit" where
  "ensureApprovalRequestMatches row request =
     require (as_operationId row = cq_operationId request \<and> as_reservationId row = cq_reservationId request
       \<and> as_envelopeId row = cq_envelopeId request \<and> Some (as_envelopeRevision row) = cq_envelopeRevision request
       \<and> as_envelopeHash row = cq_envelopeHash request \<and> as_policyDecisionId row = cq_policyDecisionId request
       \<and> as_nonce row = cq_nonce request \<and> sameTimestamp (as_issuedAt row) (cq_issuedAt request)
       \<and> sameTimestamp (as_expiresAt row) (cq_expiresAt request)) (ApprovalError APPROVAL_CONFLICT)"

text \<open>\<open>nodeNow\<close> is the clock of the process when the operation is called.\<close>

definition nowOr :: "int \<Rightarrow> timestamp option \<Rightarrow> failure + int" where
  "nowOr nodeNow value = timestampOf (case value of None \<Rightarrow> DateObject (Some nodeNow) | Some t \<Rightarrow> t)"

fun statusError :: "approval_status \<Rightarrow> failure" where
  "statusError EXPIRED_A = ApprovalError APPROVAL_EXPIRED"
| "statusError REJECTED_A = ApprovalError APPROVAL_REJECTED"
| "statusError REVOKED_A = ApprovalError APPROVAL_REVOKED"
| "statusError CONSUMED_A = ApprovalError APPROVAL_REPLAYED"
| "statusError s = ApprovalError APPROVAL_INVALID_STATE"

text \<open>\<open>reason.trim()\<close> is empty: only white space, among the characters below 256.\<close>

definition isSpace :: "char \<Rightarrow> bool" where
  "isSpace c \<longleftrightarrow> of_char c \<in> {9, 10, 11, 12, 13, 32, 160 :: nat}"

definition requireReason :: "string \<Rightarrow> failure + unit" where
  "requireReason reason = require (\<not> list_all isSpace reason) bindingMismatch"

section \<open>Statements\<close>

definition updateOperation :: "string \<Rightarrow> lifecycle_state \<Rightarrow> lifecycle_state \<Rightarrow> unit tx" where
  "updateOperation operationId expected next =
     txBind (updateOperationFrom operationId [expected] next) (\<lambda>updated. txRequire updated stateInvalid)"

definition releaseBoundReservation :: "'a common_row_scheme \<Rightarrow> reservation_status \<Rightarrow> reservation_status \<Rightarrow> unit tx" where
  "releaseBoundReservation row expectedStatus status =
     txThen (txRequire (cm_reservation_status row = expectedStatus) stateInvalid) (
     txBind (txUpdateOne budget_accounts_update budget_accounts ba_budget_id (cm_budget_id row) (\<lambda>_. True)
       (returnFunds (cm_amount_atomic row))) (\<lambda>account.
     txThen (txRequire account stateInvalid) (
     txBind (updateReservationFrom (cm_reservation_id row) [expectedStatus] status) (\<lambda>reservation.
     txRequire reservation stateInvalid))))"

definition releaseHeldReservation :: "'a common_row_scheme \<Rightarrow> reservation_status \<Rightarrow> unit tx" where
  "releaseHeldReservation row status = releaseBoundReservation row HELD status"

definition releaseAuthorizedReservation :: "'a common_row_scheme \<Rightarrow> unit tx" where
  "releaseAuthorizedReservation row = releaseBoundReservation row AUTHORIZED_R RELEASED"

fun decisionName :: "approval_decision_type \<Rightarrow> string" where
  "decisionName APPROVE_D = ''approve''"
| "decisionName REJECT_D = ''reject''"
| "decisionName EXPIRE_D = ''expire''"
| "decisionName REVOKE_D = ''revoke''"
| "decisionName CONSUME_D = ''consume''"

definition recordDecision ::
  "approval_row \<Rightarrow> approval_decision_type \<Rightarrow> string \<Rightarrow> int \<Rightarrow> string option \<Rightarrow> unit tx" where
  "recordDecision row type approverId decidedAt reason = insertApprovalDecision
     \<lparr>ad_approval_decision_id = av_approval_id row @ '':decision:'' @ decisionName type, ad_approval_id = av_approval_id row,
      ad_decision_type = type, ad_approver_id = approverId, ad_decided_at = decidedAt,
      ad_envelope_hash = cm_envelope_hash row, ad_policy_decision_id = cm_policy_decision_id row,
      ad_policy_version = cm_policy_version row, ad_decision_nonce = av_nonce row @ '':decision:'' @ decisionName type,
      ad_reason = reason, ad_fences = cm_fences row\<rparr>"

definition updateApproval ::
  "string \<Rightarrow> (approval_request_row \<Rightarrow> bool) \<Rightarrow> (approval_request_row \<Rightarrow> approval_request_row) \<Rightarrow> unit tx" where
  "updateApproval approvalId cond f =
     txBind (txUpdateOne approval_requests_update approval_requests ap_approval_id approvalId cond f)
       (\<lambda>updated. txRequire updated stateInvalid)"

definition invalidateStaleApproval :: "externals \<Rightarrow> approval_row \<Rightarrow> audit_context \<Rightarrow> int \<Rightarrow> string \<Rightarrow> unit tx" where
  "invalidateStaleApproval X row audit now reason =
     txThen (txRequire (cm_current_state row = AWAITING_APPROVAL \<and> cm_reservation_status row = HELD) stateInvalid) (
     txThen (updateOperation (cm_operation_id row) AWAITING_APPROVAL REVALIDATION_REQUIRED) (
     txThen (releaseHeldReservation row RELEASED) (
     txThen (updateApproval (av_approval_id row) activeApproval (revokeRequest (ac_actorId audit) now reason)) (
     let next = row\<lparr>av_status := REVOKED_A, cm_current_state := REVALIDATION_REQUIRED, cm_reservation_status := RELEASED\<rparr> in
     txThen (recordDecision next REVOKE_D (ac_actorId audit) now (Some reason)) (
     txThen (append_approval X next audit ''budget.reservation.released'' ''stale-release'' []) (
     txThen (append_approval X next audit ''approval.revoked'' ''stale-revoked'' (reasonData reason)) (
     append_approval X next audit ''operation.state.changed'' ''stale-revalidation''
       (stateChange AWAITING_APPROVAL REVALIDATION_REQUIRED @ reasonData reason))))))))"

definition lifetimeElapsed :: string where
  "lifetimeElapsed = ''approval lifetime elapsed''"

definition expireLocked :: "externals \<Rightarrow> approval_row \<Rightarrow> audit_context \<Rightarrow> int \<Rightarrow> unit tx" where
  "expireLocked X row audit now =
     txThen (txRequire (cm_current_state row = AWAITING_APPROVAL \<and> cm_reservation_status row = HELD) stateInvalid) (
     txThen (updateOperation (cm_operation_id row) AWAITING_APPROVAL EXPIRED) (
     txThen (releaseHeldReservation row EXPIRED_R) (
     txThen (updateApproval (av_approval_id row) activeApproval
       (\<lambda>a. a\<lparr>ap_status := EXPIRED_A, ap_expired_at := Some now, ap_reason := Some lifetimeElapsed\<rparr>)) (
     let next = row\<lparr>av_status := EXPIRED_A, cm_current_state := EXPIRED, cm_reservation_status := EXPIRED_R\<rparr> in
     txThen (recordDecision next EXPIRE_D (ac_actorId audit) now (Some lifetimeElapsed)) (
     txThen (append_approval X next audit ''budget.reservation.expired'' ''expired-budget'' []) (
     txThen (append_approval X next audit ''approval.expired'' ''expired-approval'' (reasonData lifetimeElapsed)) (
     append_approval X next audit ''operation.state.changed'' ''expired-operation''
       (stateChange AWAITING_APPROVAL EXPIRED))))))))"

section \<open>Requesting an approval\<close>

definition approvalRequestClash :: "approval_request_row \<Rightarrow> approval_request_row \<Rightarrow> bool" where
  "approvalRequestClash new old \<longleftrightarrow>
     ap_approval_id new = ap_approval_id old \<or> ap_nonce new = ap_nonce old
     \<or> (ap_operation_id new = ap_operation_id old \<and> ap_envelope_id new = ap_envelope_id old
        \<and> ap_envelope_revision new = ap_envelope_revision old)"

definition insertApprovalRequest :: "approval_request_row \<Rightarrow> unit tx" where
  "insertApprovalRequest = txInsert approval_requests_update approval_requests approvalRequestClash"

text \<open>\<open>Date.parse\<close> of a property of the envelope, compared with an instant; an invalid date compares with nothing.\<close>

definition beforeDate :: "int \<Rightarrow> jsval \<Rightarrow> bool" where
  "beforeDate t v = (case Date_parse (textOf v) of None \<Rightarrow> False | Some u \<Rightarrow> t < u)"

definition afterDate :: "int \<Rightarrow> jsval \<Rightarrow> bool" where
  "afterDate t v = (case Date_parse (textOf v) of None \<Rightarrow> False | Some u \<Rightarrow> t > u)"

definition createWork :: "externals \<Rightarrow> create_approval_request \<Rightarrow> int \<Rightarrow> int \<Rightarrow> approval_snapshot tx" where
  "createWork X request issuedAt expiresAt =
     txBind (txQuery (approvalSelect (cq_approvalId request))) (\<lambda>existing.
     case existing of
       Some row \<Rightarrow>
         txThen (txLift (ensureApprovalRequestMatches (mapApproval row) request)) (
         txBind (txLift (assertCommonBinding X row)) (\<lambda>_.
         txThen (txLift (ensureLatestEnvelope row)) (
         txReturn (mapApproval row))))
     | None \<Rightarrow>
         txBind (loadCommon request) (\<lambda>row.
         txBind (txLift (assertCommonBinding X row)) (\<lambda>envelope.
         txThen (txLift (ensureLatestEnvelope row)) (
         txThen (txRequire (fencesAreActive row) revalidationRequired) (
         txThen (txRequire (cq_envelopeRevision request = Some (cm_envelope_revision row)
                            \<and> cq_envelopeHash request = cm_envelope_hash row) bindingMismatch) (
         txThen (txRequire (cm_current_state row = ENVELOPE_FINALIZED \<or> cm_current_state row = AWAITING_APPROVAL)
                  revalidationRequired) (
         txThen (txRequire (cm_reservation_status row = HELD) stateInvalid) (
         txThen (txRequire (\<not> (beforeDate issuedAt (getProp envelope ''createdAt'')
                                \<or> afterDate expiresAt (getProp envelope ''expiresAt''))) bindingMismatch) (
         txThen (if cm_current_state row = ENVELOPE_FINALIZED
                 then updateOperation (cm_operation_id row) ENVELOPE_FINALIZED AWAITING_APPROVAL else txReturn ()) (
         txThen (insertApprovalRequest
           \<lparr>ap_approval_id = cq_approvalId request, ap_operation_id = cq_operationId request,
            ap_reservation_id = cq_reservationId request, ap_envelope_id = cq_envelopeId request,
            ap_envelope_revision = cm_envelope_revision row, ap_envelope_hash = cq_envelopeHash request,
            ap_policy_decision_id = cq_policyDecisionId request, ap_policy_decision_hash = cm_policy_decision_hash row,
            ap_policy_id = cm_policy_id row, ap_policy_version = cm_policy_version row, ap_approver_id = None,
            ap_issued_at = issuedAt, ap_expires_at = expiresAt, ap_nonce = cq_nonce request, ap_status = PENDING_A,
            ap_approved_at = None, ap_rejected_at = None, ap_expired_at = None, ap_revoked_at = None,
            ap_consumed_at = None, ap_reason = None, ap_fences = cm_fences row\<rparr>) (
         let next = common_row.extend (row\<lparr>cm_current_state := AWAITING_APPROVAL, cm_current_fences := cm_fences row\<rparr>)
               (approval_row.fields (cq_approvalId request) None issuedAt expiresAt (cq_nonce request) PENDING_A
                 None None None None None None) in
         txThen (append_approval X next (cq_audit request) ''approval.requested'' ''requested'' []) (
         txReturn (mapApproval next)))))))))))))"

definition createParameters :: "create_approval_request \<Rightarrow> failure + (int \<times> int)" where
  "createParameters request =
     andThen (requireId (cq_approvalId request)) (\<lambda>_.
     andThen (requireId (cq_operationId request)) (\<lambda>_.
     andThen (requireId (cq_reservationId request)) (\<lambda>_.
     andThen (requireId (cq_envelopeId request)) (\<lambda>_.
     andThen (requireId (cq_policyDecisionId request)) (\<lambda>_.
     andThen (requireId (cq_nonce request)) (\<lambda>_.
     andThen (requireHash (cq_envelopeHash request)) (\<lambda>_.
     andThen (requireRevision (cq_envelopeRevision request)) (\<lambda>_.
     andThen (timestampOf (cq_issuedAt request)) (\<lambda>issuedAt.
     andThen (timestampOf (cq_expiresAt request)) (\<lambda>expiresAt.
     andThen (require (\<not> expiresAt \<le> issuedAt) bindingMismatch) (\<lambda>_.
     Inr (issuedAt, expiresAt))))))))))))"

definition createApprovalRequest ::
  "externals \<Rightarrow> environment \<Rightarrow> create_approval_request \<Rightarrow> db \<Rightarrow> (failure + approval_snapshot) \<times> db" where
  "createApprovalRequest X E request d =
     (case createParameters request of
        Inl e \<Rightarrow> (Inl e, d)
      | Inr (issuedAt, expiresAt) \<Rightarrow> withSerializableTransaction E None (createWork X request issuedAt expiresAt) d)"

section \<open>Deciding a request\<close>

text \<open>
  The outcome of a transaction that may have to commit a refusal: the stale or expired approval
  and its hold are taken back, and the caller gets an error.
\<close>

datatype 'a outcome = Granted 'a | ExpiredOutcome | RevalidationOutcome

fun settleOutcome :: "(failure + 'a outcome) \<times> db \<Rightarrow> (failure + 'a) \<times> db" where
  "settleOutcome (Inl e, d) = (Inl e, d)"
| "settleOutcome (Inr ExpiredOutcome, d) = (Inl (ApprovalError APPROVAL_EXPIRED), d)"
| "settleOutcome (Inr RevalidationOutcome, d) = (Inl revalidationRequired, d)"
| "settleOutcome (Inr (Granted x), d) = (Inr x, d)"

definition approveWork :: "externals \<Rightarrow> approve_approval_request \<Rightarrow> int \<Rightarrow> approval_snapshot outcome tx" where
  "approveWork X request now =
     txBind (loadApproval (aq_approvalId request)) (\<lambda>row.
     txBind (txLift (assertCommonBinding X row)) (\<lambda>_.
     if av_status row = APPROVED_A
     then txThen (txRequire (av_approver_id row = Some (aq_approverId request)) (ApprovalError APPROVAL_CONFLICT)) (
          txReturn (Granted (mapApproval row)))
     else
     txThen (txRequire (av_status row = PENDING_A) (statusError (av_status row))) (
     if \<not> fencesAreActiveAndCurrent row
     then txThen (if cm_current_state row = AWAITING_APPROVAL \<and> cm_reservation_status row = HELD
                     \<and> (av_status row = PENDING_A \<or> av_status row = APPROVED_A)
                  then invalidateStaleApproval X row (aq_audit request) now ''control fence changed before approval''
                  else txReturn ()) (
          txReturn RevalidationOutcome)
     else
     txThen (txRequire (\<not> now < secondOf (av_issued_at row)) revalidationRequired) (
     if now \<ge> secondOf (av_expires_at row)
     then txThen (expireLocked X row (aq_audit request) now) (txReturn ExpiredOutcome)
     else
     txThen (txRequire (cm_current_state row = AWAITING_APPROVAL \<and> cm_reservation_status row = HELD) stateInvalid) (
     if cm_latest_revision row \<noteq> cm_envelope_revision row
     then txThen (invalidateStaleApproval X row (aq_audit request) now ''envelope revision was superseded'') (
          txReturn RevalidationOutcome)
     else
     txThen (updateApproval (aq_approvalId request) (\<lambda>a. ap_status a = PENDING_A)
       (\<lambda>a. a\<lparr>ap_status := APPROVED_A, ap_approver_id := Some (aq_approverId request), ap_approved_at := Some now\<rparr>)) (
     let next = row\<lparr>av_status := APPROVED_A, av_approver_id := Some (aq_approverId request), av_approved_at := Some now\<rparr> in
     txThen (recordDecision next APPROVE_D (aq_approverId request) now None) (
     txThen (append_approval X next (aq_audit request) ''approval.approved'' ''approved''
       [(''approverId'', JString (aq_approverId request))]) (
     txReturn (Granted (mapApproval next))))))))))"

definition approveParameters :: "int \<Rightarrow> approve_approval_request \<Rightarrow> failure + int" where
  "approveParameters nodeNow request =
     andThen (requireId (aq_approvalId request)) (\<lambda>_.
     andThen (requireId (aq_approverId request)) (\<lambda>_.
     nowOr nodeNow (aq_now request)))"

definition approveApproval ::
  "externals \<Rightarrow> environment \<Rightarrow> int \<Rightarrow> approve_approval_request \<Rightarrow> db \<Rightarrow> (failure + approval_snapshot) \<times> db" where
  "approveApproval X E nodeNow request d =
     (case approveParameters nodeNow request of
        Inl e \<Rightarrow> (Inl e, d)
      | Inr now \<Rightarrow> settleOutcome (withSerializableTransaction E None (approveWork X request now) d))"

definition rejectWork :: "externals \<Rightarrow> reject_approval_request \<Rightarrow> int \<Rightarrow> approval_snapshot tx" where
  "rejectWork X request now =
     txBind (loadApproval (jq_approvalId request)) (\<lambda>row.
     txBind (txLift (assertCommonBinding X row)) (\<lambda>_.
     txThen (txRequire (av_status row = PENDING_A) (statusError (av_status row))) (
     txThen (txRequire (cm_current_state row = AWAITING_APPROVAL \<and> cm_reservation_status row = HELD) stateInvalid) (
     txThen (txLift (ensureLatestEnvelope row)) (
     txThen (updateOperation (cm_operation_id row) AWAITING_APPROVAL REJECTED) (
     txThen (releaseHeldReservation row RELEASED) (
     txThen (updateApproval (jq_approvalId request) (\<lambda>a. ap_status a = PENDING_A)
       (\<lambda>a. a\<lparr>ap_status := REJECTED_A, ap_approver_id := Some (jq_approverId request), ap_rejected_at := Some now,
              ap_reason := Some (jq_reason request)\<rparr>)) (
     let next = row\<lparr>av_status := REJECTED_A, av_approver_id := Some (jq_approverId request), av_rejected_at := Some now,
                    av_reason := Some (jq_reason request), cm_current_state := REJECTED, cm_reservation_status := RELEASED\<rparr> in
     txThen (recordDecision next REJECT_D (jq_approverId request) now (Some (jq_reason request))) (
     txThen (append_approval X next (jq_audit request) ''budget.reservation.released'' ''rejected-release'' []) (
     txThen (append_approval X next (jq_audit request) ''approval.rejected'' ''rejected''
       ([(''approverId'', JString (jq_approverId request))] @ reasonData (jq_reason request))) (
     txThen (append_approval X next (jq_audit request) ''operation.state.changed'' ''rejected-operation''
       (stateChange AWAITING_APPROVAL REJECTED @ reasonData (jq_reason request))) (
     txReturn (mapApproval next)))))))))))))"

definition rejectApproval ::
  "externals \<Rightarrow> environment \<Rightarrow> int \<Rightarrow> reject_approval_request \<Rightarrow> db \<Rightarrow> (failure + approval_snapshot) \<times> db" where
  "rejectApproval X E nodeNow request d =
     (case andThen (requireId (jq_approvalId request)) (\<lambda>_. andThen (requireId (jq_approverId request)) (\<lambda>_.
             requireReason (jq_reason request))) of
        Inl e \<Rightarrow> (Inl e, d)
      | Inr _ \<Rightarrow> withSerializableTransaction E None (rejectWork X request (secondOf nodeNow)) d)"

definition revokeWork :: "externals \<Rightarrow> revoke_approval_request \<Rightarrow> int \<Rightarrow> approval_snapshot tx" where
  "revokeWork X request now =
     (let actorId = ac_actorId (vq_audit request) in
     txBind (loadApproval (vq_approvalId request)) (\<lambda>row.
     txBind (txLift (assertCommonBinding X row)) (\<lambda>_.
     if av_status row = REVOKED_A then txReturn (mapApproval row)
     else
     txThen (txRequire (av_status row = PENDING_A \<or> av_status row = APPROVED_A) (statusError (av_status row))) (
     txThen (txRequire (cm_current_state row = AWAITING_APPROVAL \<and> cm_reservation_status row = HELD) stateInvalid) (
     txThen (updateOperation (cm_operation_id row) AWAITING_APPROVAL REVOKED) (
     txThen (releaseHeldReservation row RELEASED) (
     txThen (updateApproval (vq_approvalId request) activeApproval (revokeRequest actorId now (vq_reason request))) (
     let next = row\<lparr>av_status := REVOKED_A,
                    av_approver_id := (case av_approver_id row of None \<Rightarrow> Some actorId | Some approver \<Rightarrow> Some approver),
                    av_revoked_at := Some now, av_reason := Some (vq_reason request), cm_current_state := REVOKED,
                    cm_reservation_status := RELEASED\<rparr> in
     txThen (recordDecision next REVOKE_D actorId now (Some (vq_reason request))) (
     txThen (append_approval X next (vq_audit request) ''budget.reservation.released'' ''revoked-release'' []) (
     txThen (append_approval X next (vq_audit request) ''approval.revoked'' ''revoked'' (reasonData (vq_reason request))) (
     txThen (append_approval X next (vq_audit request) ''operation.state.changed'' ''revoked-operation''
       (stateChange AWAITING_APPROVAL REVOKED @ reasonData (vq_reason request))) (
     txReturn (mapApproval next)))))))))))))"

definition revokeApproval ::
  "externals \<Rightarrow> environment \<Rightarrow> int \<Rightarrow> revoke_approval_request \<Rightarrow> db \<Rightarrow> (failure + approval_snapshot) \<times> db" where
  "revokeApproval X E nodeNow request d =
     (case andThen (requireId (vq_approvalId request)) (\<lambda>_. requireReason (vq_reason request)) of
        Inl e \<Rightarrow> (Inl e, d)
      | Inr _ \<Rightarrow> withSerializableTransaction E None (revokeWork X request (secondOf nodeNow)) d)"

section \<open>Replacing an envelope\<close>

text \<open>The integer of a number property of a parsed envelope.\<close>

fun intOf :: "jsval \<Rightarrow> int" where
  "intOf (JNumber x) = (case numToInt x of None \<Rightarrow> 0 | Some i \<Rightarrow> i)"
| "intOf v = 0"

definition replacementData :: "string \<Rightarrow> jsval \<Rightarrow> (string \<times> jsval) list" where
  "replacementData reason parsed = reasonData reason @
     [(''replacementEnvelopeId'', getProp parsed ''envelopeId''), (''replacementEnvelopeRevision'', getProp parsed ''revision''),
      (''replacementEnvelopeHash'', getProp parsed ''envelopeHash'')]"

definition insertEnvelope :: "envelope_row \<Rightarrow> unit tx" where
  "insertEnvelope = txInsert execution_envelopes_update execution_envelopes
     (\<lambda>new old. en_envelope_id new = en_envelope_id old \<or> en_envelope_hash new = en_envelope_hash old
        \<or> (en_operation_id new = en_operation_id old \<and> en_revision new = en_revision old))"

definition replaceAwaiting :: "externals \<Rightarrow> replace_envelope_request \<Rightarrow> jsval \<Rightarrow> string \<Rightarrow> unit tx" where
  "replaceAwaiting X request parsed approvalId =
     (let audit = pq_audit request; reason = pq_reason request in
     txBind (loadApproval approvalId) (\<lambda>row.
     txBind (txLift (assertCommonBinding X row)) (\<lambda>_.
     txThen (txLift (ensureLatestEnvelope row)) (
     txThen (updateOperation (pq_operationId request) AWAITING_APPROVAL REVALIDATION_REQUIRED) (
     txThen (releaseHeldReservation row RELEASED) (
     let replacementApprover = (case av_approver_id row of None \<Rightarrow> ac_actorId audit | Some approver \<Rightarrow> approver) in
     txBind (txServer sv_clock) (\<lambda>dbNow.
     txThen (updateApproval (av_approval_id row) activeApproval
       (\<lambda>a. a\<lparr>ap_status := REVOKED_A, ap_approver_id := Some replacementApprover, ap_revoked_at := Some dbNow,
              ap_reason := Some reason\<rparr>)) (
     txBind (txServer (\<lambda>sv. secondOf (sv_nodeClock sv))) (\<lambda>now.
     let next = row\<lparr>av_status := REVOKED_A, av_approver_id := Some replacementApprover, av_revoked_at := Some now,
                    av_reason := Some reason, cm_current_state := REVALIDATION_REQUIRED, cm_reservation_status := RELEASED\<rparr> in
     txThen (recordDecision next REVOKE_D (ac_actorId audit) now (Some reason)) (
     txThen (append_approval X next audit ''budget.reservation.released'' ''replacement-release'' (replacementData reason parsed)) (
     txThen (append_approval X next audit ''approval.revoked'' ''replacement-revoked'' (replacementData reason parsed)) (
     append_approval X next audit ''operation.state.changed'' ''replacement-revalidation''
       (stateChange AWAITING_APPROVAL REVALIDATION_REQUIRED @ replacementData reason parsed)))))))))))))"

definition replaceAuthorized :: "externals \<Rightarrow> replace_envelope_request \<Rightarrow> jsval \<Rightarrow> string option \<Rightarrow> unit tx" where
  "replaceAuthorized X request parsed approvalId =
     (let audit = pq_audit request; reason = pq_reason request in
     txBind (case approvalId of None \<Rightarrow> txThrow (ApprovalError APPROVAL_NOT_FOUND) | Some aid \<Rightarrow> loadApproval aid) (\<lambda>row.
     txBind (txLift (assertCommonBinding X row)) (\<lambda>_.
     txThen (txLift (ensureLatestEnvelope row)) (
     txThen (updateOperation (pq_operationId request) AUTHORIZED REVALIDATION_REQUIRED) (
     txThen (releaseAuthorizedReservation row) (
     let next = row\<lparr>cm_current_state := REVALIDATION_REQUIRED, cm_reservation_status := RELEASED\<rparr> in
     txThen (append_approval X next audit ''budget.reservation.released'' ''authorized-replacement-release''
       (replacementData reason parsed)) (
     append_approval X next audit ''operation.state.changed'' ''authorized-replacement-revalidation''
       (stateChange AUTHORIZED REVALIDATION_REQUIRED @ replacementData reason parsed))))))))"

definition replaceWork :: "externals \<Rightarrow> replace_envelope_request \<Rightarrow> jsval \<Rightarrow> jsval tx" where
  "replaceWork X request parsed =
     (let operationId = pq_operationId request in
     txBind (txQuery (\<lambda>d.
       case rowWith op_operation_id operationId (operations d) of None \<Rightarrow> None | Some o1 \<Rightarrow>
       case rowWith ag_agent_id (op_agent_id o1) (agents d) of None \<Rightarrow> None | Some ag \<Rightarrow>
       Some (ag_owner_id ag, op_agent_id o1, op_policy_id o1))) (\<lambda>identity.
     case identity of
       None \<Rightarrow> txThrow revalidationRequired
     | Some (ownerId, agentId, policyId) \<Rightarrow>
     txBind (lockControlFences ownerId agentId policyId) (\<lambda>_.
     txBind (txQuery (\<lambda>d.
       case (rowWith op_operation_id operationId (operations d), rowWith br_operation_id operationId (budget_reservations d)) of
         (Some o1, Some r) \<Rightarrow>
           if rowWith ba_budget_id (br_budget_id r) (budget_accounts d) = None then None
           else Some (op_current_state o1, br_status r)
       | _ \<Rightarrow> None)) (\<lambda>operation.
     case operation of
       None \<Rightarrow> txThrow revalidationRequired
     | Some (currentState, reservationStatus) \<Rightarrow>
     txBind (txQuery (\<lambda>d. topBy (\<lambda>x y. en_revision x > en_revision y)
       (filter (\<lambda>e. en_operation_id e = operationId) (execution_envelopes d)))) (\<lambda>latest.
     txThen (txRequire (case latest of
          None \<Rightarrow> False
        | Some e \<Rightarrow> getProp parsed ''revision'' = JNumber (jsInt (en_revision e + 1))
                    \<and> getProp parsed ''supersedesEnvelopeId'' = JString (en_envelope_id e)) revalidationRequired) (
     txBind (txQuery (\<lambda>d. map ap_approval_id
       (filter (\<lambda>a. ap_operation_id a = operationId \<and> activeApproval a) (approval_requests d)))) (\<lambda>active.
     txBind (txQuery (\<lambda>d. map az_approval_id
       (filter (\<lambda>e. az_operation_id e = operationId) (authorization_evidence d)))) (\<lambda>evidence.
     txThen
       (if currentState = AWAITING_APPROVAL
        then txThen (txRequire (length active = 1 \<and> reservationStatus = HELD \<and> length evidence = 0) stateInvalid)
               (replaceAwaiting X request parsed (hd active))
        else if currentState = AUTHORIZED
        then txThen (txRequire (length evidence = 1 \<and> reservationStatus = AUTHORIZED_R \<and> length active = 0) stateInvalid)
               (replaceAuthorized X request parsed (hd evidence))
        else txThrow revalidationRequired) (
     txThen (insertEnvelope
       \<lparr>en_envelope_id = textOf (getProp parsed ''envelopeId''), en_operation_id = operationId,
        en_revision = intOf (getProp parsed ''revision''), en_envelope_hash = textOf (getProp parsed ''envelopeHash''),
        en_payload = jsonRoundTrip parsed\<rparr>) (
     txReturn parsed))))))))))"

definition replaceParameters :: "externals \<Rightarrow> replace_envelope_request \<Rightarrow> failure + jsval" where
  "replaceParameters X request =
     andThen (requireId (pq_operationId request)) (\<lambda>_.
     andThen (requireReason (pq_reason request)) (\<lambda>_.
     andThen (ofOption revalidationRequired (canonicalExecutionEnvelopeSchema X (pq_envelope request))) (\<lambda>parsed.
     andThen (ofOption TypeError (hashExecutionEnvelope X parsed)) (\<lambda>expected.
     andThen (require (getProp parsed ''envelopeHash'' = JString expected) revalidationRequired) (\<lambda>_.
     Inr parsed)))))"

definition replaceExecutionEnvelope ::
  "externals \<Rightarrow> environment \<Rightarrow> replace_envelope_request \<Rightarrow> db \<Rightarrow> (failure + jsval) \<times> db" where
  "replaceExecutionEnvelope X E request d =
     (case replaceParameters X request of
        Inl e \<Rightarrow> (Inl e, d)
      | Inr parsed \<Rightarrow> withSerializableTransaction E None (replaceWork X request parsed) d)"

section \<open>Consuming an approval\<close>

definition authorizationClash :: "authorization_row \<Rightarrow> authorization_row \<Rightarrow> bool" where
  "authorizationClash new old \<longleftrightarrow>
     az_authorization_id new = az_authorization_id old \<or> az_operation_id new = az_operation_id old
     \<or> az_consumption_nonce new = az_consumption_nonce old
     \<or> (az_approval_id new \<noteq> None \<and> az_approval_id new = az_approval_id old)"

definition insertAuthorization :: "authorization_row \<Rightarrow> unit tx" where
  "insertAuthorization = txInsert authorization_evidence_update authorization_evidence authorizationClash"

text \<open>
  The evidence that consuming an approval creates. The result of the operation has the same
  columns, so it is given by the row.
\<close>

definition consumedEvidence :: "approval_row \<Rightarrow> jsval \<Rightarrow> string \<Rightarrow> int \<Rightarrow> authorization_row" where
  "consumedEvidence row envelope consumerId now =
     \<lparr>az_authorization_id = av_approval_id row @ '':authorization'', az_reservation_id = cm_reservation_id row,
      az_operation_id = cm_operation_id row, az_envelope_id = textOf (getProp envelope ''envelopeId''),
      az_envelope_revision = intOf (getProp envelope ''revision''),
      az_envelope_hash = textOf (getProp envelope ''envelopeHash''),
      az_policy_decision_id = cm_policy_decision_id row, az_policy_decision_hash = cm_policy_decision_hash row,
      az_policy_id = cm_policy_id row, az_policy_version = cm_policy_version row, az_kind = OWNER_APPROVAL,
      az_approval_id = Some (av_approval_id row), az_approver_id = av_approver_id row,
      az_issued_at = secondOf (av_issued_at row), az_expires_at = secondOf (av_expires_at row), az_authorized_at = now,
      az_consumed_at = now, az_consumer_id = consumerId, az_consumption_nonce = av_nonce row @ '':consumed'',
      az_fences = cm_fences row\<rparr>"

definition authorizeHeld :: "approval_row \<Rightarrow> unit tx" where
  "authorizeHeld row =
     txThen (updateOperation (cm_operation_id row) AWAITING_APPROVAL AUTHORIZED) (
     txBind (updateReservationFrom (cm_reservation_id row) [HELD] AUTHORIZED_R) (\<lambda>reservation.
     txRequire reservation stateInvalid))"

definition consumeWork :: "externals \<Rightarrow> consume_approval_request \<Rightarrow> int \<Rightarrow> authorization_row outcome tx" where
  "consumeWork X request now =
     txBind (loadApproval (nq_approvalId request)) (\<lambda>row.
     txThen (txRequire (cm_operation_id row = nq_operationId request \<and> cm_envelope_id row = nq_envelopeId request
                        \<and> Some (cm_envelope_revision row) = nq_envelopeRevision request
                        \<and> cm_envelope_hash row = nq_envelopeHash request) bindingMismatch) (
     txBind (txLift (assertCommonBinding X row)) (\<lambda>_.
     txThen (txRequire (av_status row = APPROVED_A) (statusError (av_status row))) (
     if \<not> fencesAreActiveAndCurrent row
     then txThen (if cm_current_state row = AWAITING_APPROVAL \<and> cm_reservation_status row = HELD \<and> av_status row = APPROVED_A
                  then invalidateStaleApproval X row (nq_audit request) now ''control fence changed before authorization''
                  else txReturn ()) (
          txReturn RevalidationOutcome)
     else
     txThen (txRequire (\<not> now < secondOf (av_issued_at row)) revalidationRequired) (
     if now \<ge> secondOf (av_expires_at row)
     then txThen (expireLocked X row (nq_audit request) now) (txReturn ExpiredOutcome)
     else if cm_latest_revision row \<noteq> cm_envelope_revision row
     then txThen (invalidateStaleApproval X row (nq_audit request) now ''envelope revision was superseded'') (
          txReturn RevalidationOutcome)
     else
     txThen (txRequire (cm_current_state row = AWAITING_APPROVAL \<and> cm_reservation_status row = HELD) stateInvalid) (
     txBind (txLift (persistedEnvelope X row)) (\<lambda>envelope.
     let evidence = consumedEvidence row envelope (nq_consumerId request) now in
     txThen (authorizeHeld row) (
     txThen (insertAuthorization evidence) (
     txThen (updateApproval (av_approval_id row) (\<lambda>a. ap_status a = APPROVED_A)
       (\<lambda>a. a\<lparr>ap_status := CONSUMED_A, ap_consumed_at := Some now\<rparr>)) (
     let next = row\<lparr>av_status := CONSUMED_A, av_consumed_at := Some now, cm_current_state := AUTHORIZED,
                    cm_reservation_status := AUTHORIZED_R\<rparr> in
     txThen (case av_approver_id row of
        None \<Rightarrow> txThrow (DatabaseError ''23502'')
      | Some approverId \<Rightarrow> recordDecision next CONSUME_D approverId now None) (
     txThen (append_approval X next (nq_audit request) ''budget.reservation.authorized'' ''authorized-budget'' []) (
     txThen (append_approval X next (nq_audit request) ''approval.consumed'' ''consumed''
       [(''authorizationId'', JString (az_authorization_id evidence)), (''approverId'', nullableString (av_approver_id row)),
        (''consumerId'', JString (nq_consumerId request)), (''consumptionNonce'', JString (az_consumption_nonce evidence)),
        (''authorizedAt'', JString (isoSecond now)), (''consumedAt'', JString (isoSecond now))]) (
     txThen (append_approval X next (nq_audit request) ''operation.state.changed'' ''authorized-operation''
       (stateChange AWAITING_APPROVAL AUTHORIZED @ [(''authorizationId'', JString (az_authorization_id evidence))])) (
     txReturn (Granted evidence)))))))))))))))"

definition consumeParameters :: "int \<Rightarrow> consume_approval_request \<Rightarrow> failure + int" where
  "consumeParameters nodeNow request =
     andThen (requireId (nq_approvalId request)) (\<lambda>_.
     andThen (requireId (nq_operationId request)) (\<lambda>_.
     andThen (requireId (nq_envelopeId request)) (\<lambda>_.
     andThen (requireId (nq_consumerId request)) (\<lambda>_.
     andThen (requireHash (nq_envelopeHash request)) (\<lambda>_.
     andThen (requireRevision (nq_envelopeRevision request)) (\<lambda>_.
     nowOr nodeNow (nq_now request)))))))"

definition consumeApproval ::
  "externals \<Rightarrow> environment \<Rightarrow> int \<Rightarrow> consume_approval_request \<Rightarrow> db \<Rightarrow> (failure + authorization_row) \<times> db" where
  "consumeApproval X E nodeNow request d =
     (case consumeParameters nodeNow request of
        Inl e \<Rightarrow> (Inl e, d)
      | Inr now \<Rightarrow> settleOutcome (withSerializableTransaction E None (consumeWork X request now) d))"

section \<open>Autonomous authorization\<close>

definition autonomousConsumerId :: string where
  "autonomousConsumerId = ''autonomous-policy-writer''"

definition autonomousClaims :: "common_row \<Rightarrow> authorize_autonomous_input \<Rightarrow> bool" where
  "autonomousClaims row request \<longleftrightarrow>
     cm_operation_id row = uq_operationId request \<and> cm_reservation_id row = uq_reservationId request
     \<and> cm_envelope_id row = uq_envelopeId request \<and> Some (cm_envelope_revision row) = uq_envelopeRevision request
     \<and> cm_envelope_hash row = uq_envelopeHash request \<and> cm_policy_decision_id row = uq_policyDecisionId request
     \<and> cm_policy_decision_hash row = uq_policyDecisionHash request"

definition notBeforeDate :: "int \<Rightarrow> jsval \<Rightarrow> bool" where
  "notBeforeDate t v = (case Date_parse (textOf v) of None \<Rightarrow> False | Some u \<Rightarrow> t \<ge> u)"

definition assertAutonomousBinding ::
  "externals \<Rightarrow> common_row \<Rightarrow> authorize_autonomous_input \<Rightarrow> int \<Rightarrow> lifecycle_state \<Rightarrow> failure + jsval" where
  "assertAutonomousBinding X row request now expectedState =
     andThen (persistedEnvelope X row) (\<lambda>envelope.
     andThen (require (autonomousClaims row request) bindingMismatch) (\<lambda>_.
     andThen (require (cm_policy_decision_status row = ALLOW_AUTONOMOUS) (ApprovalError AUTONOMOUS_POLICY_REQUIRED)) (\<lambda>_.
     andThen (require
       (claimsPersisted row \<and> cm_policy_status row = PolicyActive \<and> cm_current_state row = expectedState
        \<and> cm_reservation_status row = (if expectedState = AUTHORIZED then AUTHORIZED_R else HELD)
        \<and> envelopeBound row envelope
        \<and> getProp envelope ''approvalRequirement'' = JString ''none'' \<and> getProp envelope ''riskDecision'' = JString ''ALLOW''
        \<and> fencesAreActiveAndCurrent row
        \<and> \<not> beforeDate now (getProp envelope ''createdAt'')
        \<and> \<not> notBeforeDate now (getProp envelope ''expiresAt'')
        \<and> \<not> secondOf (cm_reservation_expires_at row) \<le> now)
       revalidationRequired) (\<lambda>_.
     Inr envelope))))"

definition autonomousAuthorizationRow :: "string \<Rightarrow> authorization_row option tx" where
  "autonomousAuthorizationRow authorizationId =
     txQuery (\<lambda>d. rowWith az_authorization_id authorizationId (authorization_evidence d))"

definition mapAutonomousAuthorization :: "authorization_row \<Rightarrow> authorization_row" where
  "mapAutonomousAuthorization row =
     row\<lparr>az_issued_at := secondOf (az_issued_at row), az_expires_at := secondOf (az_expires_at row),
         az_authorized_at := secondOf (az_authorized_at row), az_consumed_at := secondOf (az_consumed_at row)\<rparr>"

definition autonomousEvidence ::
  "authorize_autonomous_input \<Rightarrow> common_row \<Rightarrow> jsval \<Rightarrow> int \<Rightarrow> int \<Rightarrow> int \<Rightarrow> authorization_row" where
  "autonomousEvidence request row envelope issuedAt expiresAt now =
     \<lparr>az_authorization_id = uq_authorizationId request, az_reservation_id = cm_reservation_id row,
      az_operation_id = cm_operation_id row, az_envelope_id = textOf (getProp envelope ''envelopeId''),
      az_envelope_revision = intOf (getProp envelope ''revision''),
      az_envelope_hash = textOf (getProp envelope ''envelopeHash''),
      az_policy_decision_id = cm_policy_decision_id row, az_policy_decision_hash = cm_policy_decision_hash row,
      az_policy_id = cm_policy_id row, az_policy_version = cm_policy_version row, az_kind = AUTONOMOUS_POLICY,
      az_approval_id = None, az_approver_id = None, az_issued_at = issuedAt, az_expires_at = expiresAt,
      az_authorized_at = now, az_consumed_at = now, az_consumer_id = autonomousConsumerId,
      az_consumption_nonce = uq_idempotencyKey request @ '':autonomous'', az_fences = cm_fences row\<rparr>"

definition authorizeFresh ::
  "externals \<Rightarrow> authorize_autonomous_input \<Rightarrow> audit_context \<Rightarrow> int \<Rightarrow> authorization_row tx" where
  "authorizeFresh X request audit now =
     txBind (loadAutonomousAuthorityIds (uq_operationId request)) (\<lambda>(reservationId, envelopeId, decisionId).
     txBind (loadCommonByIds (uq_operationId request) envelopeId decisionId reservationId) (\<lambda>row.
     txBind (txQuery (\<lambda>d. list_ex (\<lambda>e. az_operation_id e = uq_operationId request) (authorization_evidence d))) (\<lambda>authorized.
     txThen (txRequire (\<not> authorized) (ApprovalError AUTONOMOUS_CONFLICT)) (
     txBind (txLift (assertAutonomousBinding X row request now ENVELOPE_FINALIZED)) (\<lambda>envelope.
     txThen (txLift (ensureLatestEnvelope row)) (
     txBind (txQuery (\<lambda>d. list_ex (\<lambda>a. ap_operation_id a = uq_operationId request \<and> activeApproval a) (approval_requests d))) (\<lambda>active.
     txThen (txRequire (\<not> active) (ApprovalError AUTONOMOUS_CONFLICT)) (
     txBind (txLift (timestampOf (DateString (textOf (getProp envelope ''createdAt''))))) (\<lambda>issuedAt.
     txBind (txLift (timestampOf (DateString (textOf (getProp envelope ''expiresAt''))))) (\<lambda>expiresAt.
     txThen (updateOperation (uq_operationId request) ENVELOPE_FINALIZED AUTHORIZED) (
     txBind (txUpdateOne budget_reservations_update budget_reservations br_reservation_id (uq_reservationId request)
       (\<lambda>r. br_operation_id r = uq_operationId request \<and> br_status r = HELD) (setStatus AUTHORIZED_R)) (\<lambda>reservation.
     txThen (txRequire reservation stateInvalid) (
     let evidence = autonomousEvidence request row envelope issuedAt expiresAt now;
         append = appendBound X row None issuedAt expiresAt audit in
     txThen (insertAuthorization evidence) (
     txThen (append ''budget.reservation.authorized'' ''autonomous-authorized-budget''
       [(''authorizationId'', JString (uq_authorizationId request)), (''consumerId'', JString autonomousConsumerId),
        (''consumptionNonce'', JString (az_consumption_nonce evidence)), (''authorizedAt'', JString (isoSecond now)),
        (''consumedAt'', JString (isoSecond now)), (''decision'', JString ''ALLOW_AUTONOMOUS'')]) (
     txThen (append ''operation.state.changed'' ''autonomous-authorized-operation''
       ([(''authorizationId'', JString (uq_authorizationId request))] @ stateChange ENVELOPE_FINALIZED AUTHORIZED)) (
     txReturn (mapAutonomousAuthorization evidence)))))))))))))))))"

definition autonomousWork ::
  "externals \<Rightarrow> authorize_autonomous_input \<Rightarrow> audit_context \<Rightarrow> authorization_row tx" where
  "autonomousWork X request audit =
     txBind (autonomousAuthorizationRow (uq_authorizationId request)) (\<lambda>existing.
     txBind (txServer (\<lambda>sv. secondOf (sv_nodeClock sv))) (\<lambda>now.
     case existing of
       Some evidence \<Rightarrow>
         txBind (loadCommonByIds (az_operation_id evidence) (az_envelope_id evidence) (az_policy_decision_id evidence)
           (az_reservation_id evidence)) (\<lambda>row.
         txBind (txLift (assertAutonomousBinding X row request now AUTHORIZED)) (\<lambda>_.
         txThen (txRequire (az_kind evidence = AUTONOMOUS_POLICY \<and> az_approval_id evidence = None
                            \<and> az_approver_id evidence = None \<and> az_consumer_id evidence = autonomousConsumerId
                            \<and> az_consumption_nonce evidence = uq_idempotencyKey request @ '':autonomous'')
                  (ApprovalError AUTONOMOUS_CONFLICT)) (
         txReturn (mapAutonomousAuthorization evidence))))
     | None \<Rightarrow> authorizeFresh X request audit now))"

definition autonomousParameters :: "authorize_autonomous_input \<Rightarrow> failure + unit" where
  "autonomousParameters request =
     andThen (requireId (uq_authorizationId request)) (\<lambda>_.
     andThen (requireId (uq_operationId request)) (\<lambda>_.
     andThen (requireId (uq_reservationId request)) (\<lambda>_.
     andThen (requireId (uq_envelopeId request)) (\<lambda>_.
     andThen (requireId (uq_policyDecisionId request)) (\<lambda>_.
     andThen (requireId (uq_idempotencyKey request)) (\<lambda>_.
     andThen (requireHash (uq_envelopeHash request)) (\<lambda>_.
     andThen (requireHash (uq_policyDecisionHash request)) (\<lambda>_.
     requireRevision (uq_envelopeRevision request)))))))))"

definition authorizeAutonomous ::
  "externals \<Rightarrow> environment \<Rightarrow> authorize_autonomous_input \<Rightarrow> audit_context \<Rightarrow> db \<Rightarrow> (failure + authorization_row) \<times> db" where
  "authorizeAutonomous X E request audit d =
     (case autonomousParameters request of
        Inl e \<Rightarrow> (Inl e, d)
      | Inr _ \<Rightarrow> withSerializableTransaction E None (autonomousWork X request audit) d)"

end
