(* ===== verification/AuthorityInvariant.thy ===== *)
theory AuthorityInvariant
  imports Approvals
begin

text \<open>
  What the approval and control services do to the tables. Each of their statements either leaves
  the budgets alone, authorizes a held reservation or gives the funds of a held or authorized one
  back, so every call is a run of \<open>LedgerInvariant\<close>; an approval only moves forward; the versions of
  the fences only grow; evidence is never changed.
\<close>

section \<open>Statements that keep an invariant\<close>

lemma keeps_updateOne:
  assumes "\<And>d r. I d \<Longrightarrow> rowWith key k (table d) = Some r \<Longrightarrow> cond r \<Longrightarrow> I (tableUpdate (updateWith key k f) d)"
  shows "keeps I (txUpdateOne tableUpdate table key k cond f)"
  using assms unfolding keeps_def txUpdateOne_def by (auto simp: tx_simps split: option.splits if_splits)

lemma keeps_insert:
  "(\<And>d. I d \<Longrightarrow> \<not> list_ex (clash row) (table d) \<Longrightarrow> I (tableUpdate (\<lambda>rows. rows @ [row]) d)) \<Longrightarrow>
     keeps I (txInsert tableUpdate table clash row)"
  unfolding keeps_def by (auto simp: tx_simps)

lemma keeps_each [keeps_intros]: "(\<And>x. x \<in> set xs \<Longrightarrow> keeps I (f x)) \<Longrightarrow> keeps I (txEach f xs)"
  by (induction xs) (auto intro: keeps_intros)

lemma keeps_scope [keeps_intros]:
  "(s = SYSTEM_SCOPE \<Longrightarrow> keeps I m1) \<Longrightarrow> (s = OWNER_SCOPE \<Longrightarrow> keeps I m2) \<Longrightarrow> (s = AGENT_SCOPE \<Longrightarrow> keeps I m3) \<Longrightarrow>
   (s = POLICY_SCOPE \<Longrightarrow> keeps I m4) \<Longrightarrow>
   keeps I (case s of SYSTEM_SCOPE \<Rightarrow> m1 | OWNER_SCOPE \<Rightarrow> m2 | AGENT_SCOPE \<Rightarrow> m3 | POLICY_SCOPE \<Rightarrow> m4)"
  by (cases s) auto

lemma keeps_conj: "keeps I m \<Longrightarrow> keeps J m \<Longrightarrow> keeps (\<lambda>d. I d \<and> J d) m"
  unfolding keeps_def by blast

text \<open>An invariant of some tables is kept by every statement on the others.\<close>

lemma keeps_frame: "(\<And>sv d x d'. m sv d = Inr (x, d') \<Longrightarrow> t d' = t d) \<Longrightarrow> (\<And>d d'. t d' = t d \<Longrightarrow> I d \<Longrightarrow> I d') \<Longrightarrow> keeps I m"
  unfolding keeps_def by blast

section \<open>The tables that a statement leaves alone\<close>

lemma ledgerOf_other [simp]:
  "ledgerOf (operations_update g1 d) = ledgerOf d" "ledgerOf (approval_requests_update g2 d) = ledgerOf d"
  "ledgerOf (approval_decisions_update g3 d) = ledgerOf d" "ledgerOf (control_fences_update g4 d) = ledgerOf d"
  "ledgerOf (authorization_evidence_update g5 d) = ledgerOf d" "ledgerOf (authorization_invalidations_update g6 d) = ledgerOf d"
  "ledgerOf (policies_update g7 d) = ledgerOf d" "ledgerOf (execution_envelopes_update g8 d) = ledgerOf d"
  "ledgerOf (owner_approval_authentications_update g9 d) = ledgerOf d"
  by (simp_all add: ledgerOf_def)

section \<open>The life of an approval\<close>

text \<open>The statuses an approval can have later, and the columns that never change.\<close>

fun approvalMayBecome :: "approval_status \<Rightarrow> approval_status \<Rightarrow> bool" where
  "approvalMayBecome PENDING_A s \<longleftrightarrow> True"
| "approvalMayBecome APPROVED_A s \<longleftrightarrow> s = APPROVED_A \<or> s = EXPIRED_A \<or> s = REVOKED_A \<or> s = CONSUMED_A"
| "approvalMayBecome s0 s \<longleftrightarrow> s = s0"

definition granted :: "approval_status \<Rightarrow> bool" where
  "granted s \<longleftrightarrow> s = APPROVED_A \<or> s = CONSUMED_A"

definition laterApproval :: "approval_request_row \<Rightarrow> approval_request_row \<Rightarrow> bool" where
  "laterApproval a b \<longleftrightarrow>
     ap_approval_id b = ap_approval_id a \<and> ap_operation_id b = ap_operation_id a \<and> ap_reservation_id b = ap_reservation_id a
     \<and> ap_envelope_id b = ap_envelope_id a \<and> ap_envelope_revision b = ap_envelope_revision a
     \<and> ap_envelope_hash b = ap_envelope_hash a \<and> ap_policy_decision_id b = ap_policy_decision_id a
     \<and> ap_policy_decision_hash b = ap_policy_decision_hash a \<and> ap_policy_id b = ap_policy_id a
     \<and> ap_policy_version b = ap_policy_version a \<and> ap_issued_at b = ap_issued_at a \<and> ap_expires_at b = ap_expires_at a
     \<and> ap_nonce b = ap_nonce a \<and> ap_fences b = ap_fences a
     \<and> approvalMayBecome (ap_status a) (ap_status b)
     \<and> (granted (ap_status a) \<and> granted (ap_status b) \<longrightarrow> ap_approver_id b = ap_approver_id a)"

definition approvalKey :: "approval_request_row \<Rightarrow> string \<times> string \<times> string" where
  "approvalKey a = (ap_approval_id a, ap_operation_id a, ap_reservation_id a)"

lemma approvalMayBecome_refl [simp]: "approvalMayBecome s s"
  by (cases s) simp_all

lemma approvalMayBecome_trans: "approvalMayBecome s t \<Longrightarrow> approvalMayBecome t u \<Longrightarrow> approvalMayBecome s u"
  by (cases s; cases t; cases u) simp_all

lemma approvalMayBecome_granted:
  "approvalMayBecome s t \<Longrightarrow> approvalMayBecome t u \<Longrightarrow> granted s \<Longrightarrow> granted u \<Longrightarrow> granted t"
  by (cases s; cases t; cases u) (simp_all add: granted_def)

lemma laterApproval_refl [simp]: "laterApproval a a"
  by (simp add: laterApproval_def)

lemma laterApproval_trans: "laterApproval a b \<Longrightarrow> laterApproval b c \<Longrightarrow> laterApproval a c"
  using approvalMayBecome_trans [of "ap_status a" "ap_status b" "ap_status c"]
    approvalMayBecome_granted [of "ap_status a" "ap_status b" "ap_status c"]
  unfolding laterApproval_def by metis

lemma approval_updates [simp]:
  "activeApproval a \<Longrightarrow> laterApproval a (revokeRequest actorId now reason a)"
  "activeApproval a \<Longrightarrow> laterApproval a (a\<lparr>ap_status := EXPIRED_A, ap_expired_at := t1, ap_reason := r1\<rparr>)"
  "ap_status a = PENDING_A \<Longrightarrow> laterApproval a (a\<lparr>ap_status := s2, ap_approver_id := v2, ap_approved_at := t2\<rparr>)"
  "ap_status a = PENDING_A \<Longrightarrow> laterApproval a (a\<lparr>ap_status := s3, ap_approver_id := v3, ap_rejected_at := t3, ap_reason := r3\<rparr>)"
  "ap_status a = APPROVED_A \<Longrightarrow> laterApproval a (a\<lparr>ap_status := CONSUMED_A, ap_consumed_at := t4\<rparr>)"
  "activeApproval a \<Longrightarrow> laterApproval a (a\<lparr>ap_status := REVOKED_A, ap_approver_id := v5, ap_revoked_at := t5, ap_reason := r5\<rparr>)"
  by (auto simp: laterApproval_def granted_def activeApproval_def revokeRequest_def split: option.splits)

lemma approvalKey_updates [simp]:
  "approvalKey (revokeRequest actorId now reason a) = approvalKey a"
  "approvalKey (a\<lparr>ap_status := s\<rparr>) = approvalKey a" "approvalKey (a\<lparr>ap_approver_id := v\<rparr>) = approvalKey a"
  "approvalKey (a\<lparr>ap_reason := r\<rparr>) = approvalKey a" "approvalKey (a\<lparr>ap_approved_at := t\<rparr>) = approvalKey a"
  "approvalKey (a\<lparr>ap_rejected_at := t\<rparr>) = approvalKey a" "approvalKey (a\<lparr>ap_expired_at := t\<rparr>) = approvalKey a"
  "approvalKey (a\<lparr>ap_revoked_at := t\<rparr>) = approvalKey a" "approvalKey (a\<lparr>ap_consumed_at := t\<rparr>) = approvalKey a"
  by (simp_all add: approvalKey_def revokeRequest_def)

section \<open>Calls of the services\<close>

datatype authority_call =
    CreateApproval create_approval_request
  | Approve int approve_approval_request
  | Reject int reject_approval_request
  | Revoke int revoke_approval_request
  | ReplaceEnvelope replace_envelope_request
  | Consume int consume_approval_request
  | Autonomous authorize_autonomous_input audit_context
  | ChangeFence change_fence_request
  | Revalidate revalidate_request

fun callAuthority :: "externals \<Rightarrow> environment \<Rightarrow> authority_call \<Rightarrow> db \<Rightarrow> db" where
  "callAuthority X E (CreateApproval request) d = snd (createApprovalRequest X E request d)"
| "callAuthority X E (Approve nodeNow request) d = snd (approveApproval X E nodeNow request d)"
| "callAuthority X E (Reject nodeNow request) d = snd (rejectApproval X E nodeNow request d)"
| "callAuthority X E (Revoke nodeNow request) d = snd (revokeApproval X E nodeNow request d)"
| "callAuthority X E (ReplaceEnvelope request) d = snd (replaceExecutionEnvelope X E request d)"
| "callAuthority X E (Consume nodeNow request) d = snd (consumeApproval X E nodeNow request d)"
| "callAuthority X E (Autonomous request audit) d = snd (authorizeAutonomous X E request audit d)"
| "callAuthority X E (ChangeFence request) d = snd (changeControlFence X E request d)"
| "callAuthority X E (Revalidate request) d = snd (revalidateAuthorization E request d)"

fun controlCall :: "authority_call \<Rightarrow> bool" where
  "controlCall (ChangeFence request) \<longleftrightarrow> True"
| "controlCall (Revalidate request) \<longleftrightarrow> True"
| "controlCall c \<longleftrightarrow> False"

lemma settleOutcome_tables [simp]: "snd (settleOutcome r) = snd r"
  by (cases r rule: settleOutcome.cases) simp_all

section \<open>What a released reservation is bound to\<close>

text \<open>
  A service reads the budget and the amount of a reservation first and gives the funds back later
  in the same transaction. What it read is a binding: reservation, budget and amount.
\<close>

type_synonym binding = "string \<times> string \<times> int"

definition boundTo :: "binding \<Rightarrow> ledger \<Rightarrow> bool" where
  "boundTo = (\<lambda>(reservationId, budgetId, amount) (A, R).
     \<exists>r. rowWith br_reservation_id reservationId R = Some r \<and> br_budget_id r = budgetId \<and> br_amount_atomic r = amount)"

definition rowBinding :: "'a common_row_scheme \<Rightarrow> binding" where
  "rowBinding row = (cm_reservation_id row, cm_budget_id row, cm_amount_atomic row)"

definition controlBinding :: "control_operation_row \<Rightarrow> binding" where
  "controlBinding row = (cw_reservation_id row, cw_budget_id row, cw_amount_atomic row)"

lemma rowBinding_update [simp]:
  "rowBinding (row\<lparr>cm_current_fences := fences\<rparr>) = rowBinding row"
  by (simp add: rowBinding_def)

section \<open>Every transaction of the services keeps what the statements keep\<close>

text \<open>
  The services write through a dozen statements. An invariant that each of them keeps is kept by
  every transaction of the services. \<open>I B\<close> is the invariant together with the bindings \<open>B\<close> that were
  read so far: reading a row adds its binding, and giving funds back may rely on it.
\<close>

locale authority_statements =
  fixes X :: externals and I :: "binding set \<Rightarrow> db \<Rightarrow> bool"
  assumes operation: "keeps (I B) (updateOperationFrom operationId states next)"
    and append: "keeps (I B) (appendAuditEvent X input)"
    and decision: "keeps (I B) (insertApprovalDecision decisionRow)"
    and newFence: "keeps (I B) (insertFence scopeType scopeId state)"
    and approval: "(\<And>a. acond a \<Longrightarrow> laterApproval a (aupdate a)) \<Longrightarrow> (\<And>a. approvalKey (aupdate a) = approvalKey a) \<Longrightarrow>
      keeps (I B) (txUpdateOne approval_requests_update approval_requests ap_approval_id aid acond aupdate)"
    and drop: "I C d \<Longrightarrow> B \<subseteq> C \<Longrightarrow> I B d"
begin

lemma ensureFence_keeps: "keeps (I B) (ensureFence scopeType scopeId)"
  unfolding ensureFence_def by (intro keeps_intros newFence)

lemma fences_keep:
  "keeps (I B) (lockControlFences ownerId agentId policyId)" "keeps (I B) (lockMutationFence scopeType scopeId)"
  "keeps (I B) (assertTarget scopeType scopeId)"
  unfolding lockControlFences_def lockMutationFence_def assertTarget_def
  by (intro keeps_intros ensureFence_keeps)+

lemma transaction_keeps:
  "keeps (I B) work \<Longrightarrow> (\<And>i e. I B e \<Longrightarrow> I B (envOthers E i e)) \<Longrightarrow> I B d \<Longrightarrow>
     I B (snd (withSerializableTransaction E None work d))"
  using invariant_work.transaction_keeps [of "I B" work E d None] unfolding invariant_work_def keeps_def by blast

text \<open>A query whose rows carry bindings.\<close>

lemma keeps_bindings:
  assumes "\<And>d. I B d \<Longrightarrow> I (B \<union> C (q d)) d" "\<And>x. keeps (I (B \<union> C x)) (f x)"
  shows "keeps (I B) (txBind (txQuery q) f)"
  using assms drop [of "B \<union> C _" _ B] unfolding keeps_def by (force simp: tx_simps)

end

text \<open>The approval service (\<open>core.ts\<close>).\<close>

locale approval_invariant = authority_statements +
  assumes newApproval: "keeps (I B) (insertApprovalRequest requestRow)"
    and evidence: "keeps (I B) (insertAuthorization authorizationRow)"
    and newEnvelope: "keeps (I B) (insertEnvelope envelopeRow)"
    and authorize: "(\<And>r. rcond r \<Longrightarrow> br_status r = HELD) \<Longrightarrow>
      keeps (I B) (txUpdateOne budget_reservations_update budget_reservations br_reservation_id rid rcond (setStatus AUTHORIZED_R))"
    and release: "rowBinding arow \<in> B \<Longrightarrow> expected = HELD \<or> expected = AUTHORIZED_R \<Longrightarrow>
      status = RELEASED \<or> status = EXPIRED_R \<Longrightarrow> keeps (I B) (releaseBoundReservation (arow :: approval_row) expected status)"
    and selected: "I B d \<Longrightarrow> approvalSelect aid d = Some arow \<Longrightarrow> I (insert (rowBinding arow) B) d"
begin

lemma updateOperation_keeps: "keeps (I B) (updateOperation operationId expected next)"
  unfolding updateOperation_def by (intro keeps_intros operation)

lemma appendBound_keeps: "keeps (I B) (appendBound X row approvalId issuedAt expiresAt audit eventType suffix data)"
  unfolding appendBound_def Let_def by (intro keeps_intros append)

lemma append_approval_keeps: "keeps (I B) (append_approval X arow audit eventType suffix data)"
  unfolding append_approval_def by (rule appendBound_keeps)

lemma recordDecision_keeps: "keeps (I B) (recordDecision arow type approverId decidedAt reason)"
  unfolding recordDecision_def by (rule decision)

lemma updateApproval_keeps:
  "(\<And>a. acond a \<Longrightarrow> laterApproval a (aupdate a)) \<Longrightarrow> (\<And>a. approvalKey (aupdate a) = approvalKey a) \<Longrightarrow>
     keeps (I B) (updateApproval aid acond aupdate)"
  unfolding updateApproval_def by (intro keeps_intros approval)

lemma authorizeHeld_keeps: "keeps (I B) (authorizeHeld arow)"
  unfolding authorizeHeld_def updateReservationFrom_def by (intro keeps_intros updateOperation_keeps authorize) simp

lemma loads_keep:
  "keeps (I B) (loadCommonByIds operationId envelopeId policyDecisionId reservationId)"
  "keeps (I B) (loadCommon createRequest)" "keeps (I B) (loadAutonomousAuthorityIds operationId)"
  "keeps (I B) (autonomousAuthorizationRow authorizationId)"
  unfolding loadCommonByIds_def loadCommon_def loadAutonomousAuthorityIds_def autonomousAuthorizationRow_def
  by (intro keeps_intros fences_keep)+

lemma loaded_keeps:
  assumes "\<And>row. keeps (I (insert (rowBinding row) B)) (f row)"
  shows "keeps (I B) (txBind (loadApproval aid) f)"
proof -
  have "I B d2" if run: "I B d" "loadApproval aid sv d = Inr (row, d1)" "f row sv d1 = Inr (x, d2)" for sv d row d1 x d2
  proof -
    from run(2) obtain identity :: approval_row and fences row' where
      lock: "lockControlFences (cm_owner_id identity) (cm_agent_id identity) (cm_policy_id identity) sv d = Inr (fences, d1)"
      and row: "approvalSelect aid d1 = Some row'" "row = row'\<lparr>cm_current_fences := fences\<rparr>"
      unfolding loadApproval_def by (auto simp: tx_simps split: option.splits)
    from lock run(1) have "I B d1" using fences_keep(1) unfolding keeps_def by blast
    then have "I (insert (rowBinding row) B) d1" using selected [OF _ row(1)] row(2) by simp
    with run(3) assms have "I (insert (rowBinding row) B) d2" unfolding keeps_def by blast
    then show ?thesis by (rule drop) auto
  qed
  then show ?thesis unfolding keeps_def txBind_Inr by blast
qed

lemma releases_keep:
  "rowBinding arow \<in> B \<Longrightarrow> status = RELEASED \<or> status = EXPIRED_R \<Longrightarrow> keeps (I B) (releaseHeldReservation (arow :: approval_row) status)"
  "rowBinding arow \<in> B \<Longrightarrow> keeps (I B) (releaseAuthorizedReservation (arow :: approval_row))"
  unfolding releaseHeldReservation_def releaseAuthorizedReservation_def by (rule release; simp)+

lemmas writes_keep = updateOperation_keeps append_approval_keeps appendBound_keeps recordDecision_keeps
  fences_keep loads_keep authorizeHeld_keeps newApproval evidence newEnvelope releases_keep

lemma refusals_keep:
  "rowBinding arow \<in> B \<Longrightarrow> keeps (I B) (invalidateStaleApproval X arow audit now reason)"
  "rowBinding arow \<in> B \<Longrightarrow> keeps (I B) (expireLocked X arow audit now)"
  unfolding invalidateStaleApproval_def expireLocked_def Let_def
  by (intro keeps_intros writes_keep updateApproval_keeps approval_updates; simp)+

lemma createWork_keeps: "keeps (I B) (createWork X request issuedAt expiresAt)"
  unfolding createWork_def Let_def by (intro keeps_intros writes_keep)

lemma approveWork_keeps: "keeps (I B) (approveWork X request now)"
  unfolding approveWork_def Let_def
  by (rule loaded_keeps) (intro keeps_intros writes_keep refusals_keep updateApproval_keeps approval_updates; simp)

lemma rejectWork_keeps: "keeps (I B) (rejectWork X request now)"
  unfolding rejectWork_def Let_def
  by (rule loaded_keeps) (intro keeps_intros writes_keep updateApproval_keeps approval_updates; simp)

lemma revokeWork_keeps: "keeps (I B) (revokeWork X request now)"
  unfolding revokeWork_def Let_def
  by (rule loaded_keeps) (intro keeps_intros writes_keep updateApproval_keeps approval_updates; simp)

lemma replaceAwaiting_keeps: "keeps (I B) (replaceAwaiting X request parsed aid)"
  unfolding replaceAwaiting_def Let_def
  by (rule loaded_keeps) (intro keeps_intros writes_keep updateApproval_keeps approval_updates; simp)

lemma replaceAuthorized_keeps: "keeps (I B) (replaceAuthorized X request parsed approvalId)"
proof (cases approvalId)
  case (Some aid)
  have "keeps (I B) (replaceAuthorized X request parsed (Some aid))"
    unfolding replaceAuthorized_def Let_def option.case
    by (rule loaded_keeps) (intro keeps_intros writes_keep; simp)
  with Some show ?thesis by simp
qed (simp add: replaceAuthorized_def Let_def keeps_def tx_simps)

lemma replaceWork_keeps: "keeps (I B) (replaceWork X request parsed)"
  unfolding replaceWork_def Let_def by (intro keeps_intros writes_keep replaceAwaiting_keeps replaceAuthorized_keeps)

lemma consumeWork_keeps: "keeps (I B) (consumeWork X request now)"
  unfolding consumeWork_def Let_def
  by (rule loaded_keeps) (intro keeps_intros writes_keep refusals_keep updateApproval_keeps approval_updates; simp)

lemma autonomousWork_keeps: "keeps (I B) (autonomousWork X request audit)"
  unfolding autonomousWork_def authorizeFresh_def Let_def by (intro keeps_intros writes_keep authorize; simp)

lemma approval_call_keeps:
  "\<not> controlCall c \<Longrightarrow> (\<And>i e. I B e \<Longrightarrow> I B (envOthers E i e)) \<Longrightarrow> I B d \<Longrightarrow> I B (callAuthority X E c d)"
  by (cases c)
    (auto simp: createApprovalRequest_def approveApproval_def rejectApproval_def revokeApproval_def replaceExecutionEnvelope_def
      consumeApproval_def authorizeAutonomous_def split: sum.splits prod.splits
      intro!: transaction_keeps createWork_keeps approveWork_keeps rejectWork_keeps revokeWork_keeps replaceWork_keeps
        consumeWork_keeps autonomousWork_keeps)

end

text \<open>The control service (\<open>control.ts\<close>).\<close>

locale control_invariant = authority_statements +
  assumes invalidation: "keeps (I B) (insertInvalidation invalidationRow)"
    and policyRevoked: "keeps (I B) (txExec (policies_update (updateWith pl_policy_id policyId (\<lambda>p. p\<lparr>pl_status := PolicyRevoked\<rparr>))))"
    and bump: "keeps (I B) (txUpdateOne control_fences_update control_fences fenceKey fkey fcond (bumpFence fenceRequest version))"
    and releaseFenced: "controlBinding crow \<in> B \<Longrightarrow> keeps (I B) (releaseFencedReservation crow)"
    and affected: "I B d \<Longrightarrow> I (B \<union> controlBinding ` set (heldRows scopeType scopeId d)) d"
      "I B d \<Longrightarrow> I (B \<union> controlBinding ` set (pendingRows scopeType scopeId d)) d"
      "I B d \<Longrightarrow> I (B \<union> controlBinding ` set (authorizedRows scopeType scopeId d)) d"
begin

lemma audits_keep:
  "keeps (I B) (operationAudit X fenceRequest crow eventType suffix version state data)"
  "keeps (I B) (appendControlAudit X fenceRequest fenceRow previousState)"
  unfolding operationAudit_def appendControlAudit_def by (rule append)+

lemma invalidations_keep:
  "controlBinding crow \<in> B \<Longrightarrow> keeps (I B) (invalidatePending X fenceRequest version state crow)"
  "controlBinding crow \<in> B \<Longrightarrow> keeps (I B) (invalidateAuthorized X fenceRequest version state eventId crow)"
  "controlBinding crow \<in> B \<Longrightarrow> keeps (I B) (invalidateHeldBeforeApproval X fenceRequest version state crow)"
  unfolding invalidatePending_def invalidateAuthorized_def invalidateHeldBeforeApproval_def Let_def
  by (intro keeps_intros audits_keep operation releaseFenced decision invalidation approval approval_updates; simp)+

lemma affected_keep: "keeps (I B) (invalidateAffectedAuthorizations X fenceRequest version state)"
  unfolding invalidateAffectedAuthorizations_def
  by (rule keeps_bindings [where C = "\<lambda>rows. controlBinding ` set rows"], erule affected,
      intro keeps_then keeps_each invalidations_keep, blast)+

lemma changeFenceWork_keeps: "keeps (I B) (changeFenceWork X fenceRequest)"
  unfolding changeFenceWork_def
  by (intro keeps_intros fences_keep audits_keep policyRevoked bump affected_keep)

lemma revalidateWork_keeps: "keeps (I B) (revalidateWork request)"
  unfolding revalidateWork_def by (intro keeps_intros fences_keep)

lemma control_call_keeps:
  "controlCall c \<Longrightarrow> (\<And>i e. I B e \<Longrightarrow> I B (envOthers E i e)) \<Longrightarrow> I B d \<Longrightarrow> I B (callAuthority X E c d)"
  by (cases c)
    (auto simp: changeControlFence_def revalidateAuthorization_def split: sum.splits
      intro!: transaction_keeps changeFenceWork_keeps revalidateWork_keeps)

end

locale authority_invariant = approval_invariant + control_invariant
begin

lemma call_keeps: "(\<And>i e. I B e \<Longrightarrow> I B (envOthers E i e)) \<Longrightarrow> I B d \<Longrightarrow> I B (callAuthority X E c d)"
  using approval_call_keeps control_call_keeps by (cases "controlCall c") blast+

end

section \<open>Invariants of the tables of the services\<close>

text \<open>
  An invariant that needs no binding: it is enough that it survives the writes to each table.
\<close>

locale table_invariant =
  fixes X :: externals and J :: "db \<Rightarrow> bool"
  assumes append: "keeps J (appendAuditEvent X input)"
    and others: "J d \<Longrightarrow> J (operations_update f1 d)" "J d \<Longrightarrow> J (approval_decisions_update f2 d)"
      "J d \<Longrightarrow> J (authorization_invalidations_update f3 d)" "J d \<Longrightarrow> J (policies_update f4 d)"
      "J d \<Longrightarrow> J (execution_envelopes_update f5 d)" "J d \<Longrightarrow> J (budget_accounts_update f6 d)"
      "J d \<Longrightarrow> J (budget_reservations_update f7 d)"
    and newFence: "J d \<Longrightarrow> J (control_fences_update (\<lambda>rows. rows @ [fenceRow]) d)"
    and bump: "J d \<Longrightarrow> J (control_fences_update (updateWith fenceKey fkey (bumpFence fenceRequest version)) d)"
    and approval: "J d \<Longrightarrow> rowWith ap_approval_id aid (approval_requests d) = Some a \<Longrightarrow> laterApproval a (aupdate a) \<Longrightarrow>
      (\<And>b. approvalKey (aupdate b) = approvalKey b) \<Longrightarrow> J (approval_requests_update (updateWith ap_approval_id aid aupdate) d)"
    and newApproval: "J d \<Longrightarrow> J (approval_requests_update (\<lambda>rows. rows @ [requestRow]) d)"
    and evidence: "J d \<Longrightarrow> J (authorization_evidence_update (\<lambda>rows. rows @ [authorizationRow]) d)"
begin

lemmas laws = append others newFence bump newApproval evidence

lemma releases: "keeps J (releaseBoundReservation row expected status)" "keeps J (releaseFencedReservation crow)"
  unfolding releaseBoundReservation_def releaseFencedReservation_def updateReservationFrom_def
  by (intro keeps_intros keeps_updateOne others; assumption)+

end

sublocale table_invariant \<subseteq> services: authority_invariant X "\<lambda>B. J"
proof unfold_locales
  show "keeps J (insertFence scopeType scopeId state)" for scopeType scopeId state
    unfolding insertFence_def by (intro keeps_intros keeps_exec newFence)
qed (simp_all add: updateOperationFrom_def insertApprovalDecision_def insertInvalidation_def insertEnvelope_def
      insertApprovalRequest_def insertAuthorization_def laws releases keeps_updateOne keeps_insert keeps_exec approval)

section \<open>Runs of the services\<close>

text \<open>
  Runs as far as the services see them: their calls by anyone and in any order, each meeting any
  servers and, between its attempts, any other runs; and any change of the tables that only other
  services write.
\<close>

definition authorityTables :: "db \<Rightarrow> approval_request_row list \<times> fence_row list \<times> authorization_row list" where
  "authorityTables d = (approval_requests d, control_fences d, authorization_evidence d)"

inductive authority_run :: "externals \<Rightarrow> db \<Rightarrow> db \<Rightarrow> bool" for X where
  start: "authority_run X d d"
| call: "authority_run X d d1 \<Longrightarrow> (\<forall>i e. authority_run X e (envOthers E i e)) \<Longrightarrow> authority_run X d (callAuthority X E c d1)"
| elsewhere: "authority_run X d d1 \<Longrightarrow> authorityTables d2 = authorityTables d1 \<Longrightarrow> authority_run X d d2"

locale run_invariant =
  fixes J :: "db \<Rightarrow> bool"
  assumes elsewhere: "J d \<Longrightarrow> authorityTables d' = authorityTables d \<Longrightarrow> J d'"
    and newFence: "J d \<Longrightarrow> J (control_fences_update (\<lambda>rows. rows @ [fenceRow]) d)"
    and bump: "J d \<Longrightarrow> J (control_fences_update (updateWith fenceKey fkey (bumpFence fenceRequest version)) d)"
    and approval: "J d \<Longrightarrow> rowWith ap_approval_id aid (approval_requests d) = Some a \<Longrightarrow> laterApproval a (aupdate a) \<Longrightarrow>
      (\<And>b. approvalKey (aupdate b) = approvalKey b) \<Longrightarrow> J (approval_requests_update (updateWith ap_approval_id aid aupdate) d)"
    and newApproval: "J d \<Longrightarrow> J (approval_requests_update (\<lambda>rows. rows @ [requestRow]) d)"
    and evidence: "J d \<Longrightarrow> J (authorization_evidence_update (\<lambda>rows. rows @ [authorizationRow]) d)"

sublocale run_invariant \<subseteq> table: table_invariant X J for X
proof unfold_locales
  show "keeps J (appendAuditEvent X input)" for input
    by (rule keeps_frame [where t = authorityTables], auto simp: authorityTables_def dest: append_frame)
      (rule elsewhere, auto simp: authorityTables_def)
qed (erule elsewhere newFence bump approval newApproval evidence; simp add: authorityTables_def)+

context run_invariant
begin

lemma run_keeps: "authority_run X d d' \<Longrightarrow> J d \<Longrightarrow> J d'"
proof (induction rule: authority_run.induct)
  case (call d d1 E c)
  then show ?case using table.services.call_keeps [of E d1 X c] by blast
qed (use elsewhere in auto)

end

text \<open>An approval on record stays on record and only moves forward.\<close>

definition hasLaterApproval :: "approval_request_row \<Rightarrow> db \<Rightarrow> bool" where
  "hasLaterApproval a d \<longleftrightarrow>
     (\<exists>b. rowWith ap_approval_id (ap_approval_id a) (approval_requests d) = Some b \<and> laterApproval a b)"

interpretation approval_life: run_invariant "hasLaterApproval a" for a
proof unfold_locales
  fix d aid b and f :: "approval_request_row \<Rightarrow> approval_request_row"
  assume later: "hasLaterApproval a d" and b: "rowWith ap_approval_id aid (approval_requests d) = Some b" "laterApproval b (f b)"
    and key: "\<And>b. approvalKey (f b) = approvalKey b"
  from key have "rowWith ap_approval_id k (updateWith ap_approval_id aid f rows) =
      (if k = aid then map_option f (rowWith ap_approval_id k rows) else rowWith ap_approval_id k rows)" for k rows
    by (intro rowWith_updateWith) (simp add: approvalKey_def)
  with later b show "hasLaterApproval a (approval_requests_update (updateWith ap_approval_id aid f) d)"
    by (auto simp: hasLaterApproval_def intro: laterApproval_trans)
qed (auto simp: hasLaterApproval_def authorityTables_def rowWith_append)

text \<open>The version of a fence never falls, and evidence is never changed.\<close>

definition fenceAtLeast :: "scope_type \<times> string \<Rightarrow> int \<Rightarrow> db \<Rightarrow> bool" where
  "fenceAtLeast key v d \<longleftrightarrow> (\<exists>f. rowWith fenceKey key (control_fences d) = Some f \<and> v \<le> fe_fence_version f)"

lemma fenceKey_bump [simp]: "fenceKey (bumpFence fenceRequest version f) = fenceKey f"
  by (simp add: fenceKey_def bumpFence_def)

lemma version_bump [simp]: "fe_fence_version (bumpFence fenceRequest version f) = fe_fence_version f + 1"
  by (simp add: bumpFence_def)

interpretation fence_growth: run_invariant "fenceAtLeast key v" for key v
  by unfold_locales (auto simp: fenceAtLeast_def authorityTables_def rowWith_append rowWith_updateWith split: if_splits)

interpretation evidence_kept: run_invariant "\<lambda>d. rowWith az_authorization_id aid (authorization_evidence d) = Some e" for aid e
  by unfold_locales (auto simp: authorityTables_def rowWith_append)

end
