(* ===== verification/AuthorityLedger.thy ===== *)
theory AuthorityLedger
  imports AuthorityInvariant
begin

text \<open>
  The approval and control services on the budgets: every call of theirs is a run of the ledger of
  \<open>LedgerInvariant\<close>. Then what a transaction of theirs reads: the fences as they are, and the rows of
  an approval.
\<close>

section \<open>Statements on the ledger\<close>

lemma ledger_run_trans: "ledger_run allowed X d1 d2 \<Longrightarrow> ledger_run allowed X d d1 \<Longrightarrow> ledger_run allowed X d d2"
  by (induction rule: ledger_run.induct) (blast intro: ledger_run.intros)+

lemma boundTo_status: "boundTo b (A, R) \<Longrightarrow> boundTo b (A', updateWith br_reservation_id rid (setStatus s) R)"
  by (cases b) (auto simp: boundTo_def rowWith_updateWith split: if_splits)

text \<open>A state that a run of the ledger reaches, where what was read of some reservations still holds.\<close>

definition ledgerSafe :: "(ledger_call \<Rightarrow> bool) \<Rightarrow> externals \<Rightarrow> db \<Rightarrow> binding set \<Rightarrow> db \<Rightarrow> bool" where
  "ledgerSafe allowed X d0 B d \<longleftrightarrow> ledger_run allowed X d0 d \<and> (\<forall>b\<in>B. boundTo b (ledgerOf d))"

lemma ledgerSafe_frame: "ledgerOf d' = ledgerOf d \<Longrightarrow> ledgerSafe allowed X d0 B d \<Longrightarrow> ledgerSafe allowed X d0 B d'"
  unfolding ledgerSafe_def using ledger_run.elsewhere by metis

lemma ledgerSafe_authorize:
  assumes "ledgerSafe allowed X d0 B d" "rowWith br_reservation_id rid (budget_reservations d) = Some r" "br_status r = HELD"
  shows "ledgerSafe allowed X d0 B (budget_reservations_update (updateWith br_reservation_id rid (setStatus AUTHORIZED_R)) d)"
  using assms ledger_run.authorized boundTo_status unfolding ledgerSafe_def ledgerOf_def by fastforce

lemma ledgerSafe_release:
  assumes "ledgerSafe allowed X d0 B d" "(rid, bid, amount) \<in> B"
    "rowWith ba_budget_id bid (budget_accounts d) = Some b" "rowWith br_reservation_id rid (budget_reservations d) = Some r"
    "br_status r = HELD \<or> br_status r = AUTHORIZED_R" "s = RELEASED \<or> s = EXPIRED_R"
  shows "ledgerSafe allowed X d0 B (budget_reservations_update (updateWith br_reservation_id rid (setStatus s))
    (budget_accounts_update (updateWith ba_budget_id bid (returnFunds amount)) d))"
proof -
  from assms(1,2,4) have "br_budget_id r = bid" "br_amount_atomic r = amount"
    by (auto simp: ledgerSafe_def boundTo_def ledgerOf_def)
  with assms show ?thesis
    using ledger_run.given_back [of allowed X d0 d rid r s b] boundTo_status
    by (auto simp: ledgerSafe_def ledgerOf_def)
qed

lemma ledgerSafe_releases:
  "rowBinding arow \<in> B \<Longrightarrow> expected = HELD \<or> expected = AUTHORIZED_R \<Longrightarrow> status = RELEASED \<or> status = EXPIRED_R \<Longrightarrow>
    keeps (ledgerSafe allowed X d0 B) (releaseBoundReservation arow expected status)"
  "controlBinding crow \<in> B \<Longrightarrow> keeps (ledgerSafe allowed X d0 B) (releaseFencedReservation crow)"
  unfolding keeps_def releaseBoundReservation_def releaseFencedReservation_def updateReservationFrom_def
  by (auto simp: tx_simps txUpdateOne_Inr rowBinding_def controlBinding_def intro!: ledgerSafe_release)

text \<open>Where each write goes, for invariants of the ledger.\<close>

lemma keeps_ledgerSafe:
  "keeps (ledgerSafe allowed X d0 B) (updateOperationFrom operationId states next)"
  "keeps (ledgerSafe allowed X d0 B) (appendAuditEvent X' input)"
  "keeps (ledgerSafe allowed X d0 B) (insertApprovalDecision decisionRow)"
  "keeps (ledgerSafe allowed X d0 B) (insertFence scopeType scopeId state)"
  "keeps (ledgerSafe allowed X d0 B) (txUpdateOne approval_requests_update approval_requests ap_approval_id aid acond aupdate)"
  "keeps (ledgerSafe allowed X d0 B) (insertApprovalRequest requestRow)"
  "keeps (ledgerSafe allowed X d0 B) (insertAuthorization authorizationRow)"
  "keeps (ledgerSafe allowed X d0 B) (insertEnvelope envelopeRow)"
  "keeps (ledgerSafe allowed X d0 B) (insertInvalidation invalidationRow)"
  "keeps (ledgerSafe allowed X d0 B) (txExec (policies_update h))"
  "keeps (ledgerSafe allowed X d0 B) (txUpdateOne control_fences_update control_fences fenceKey fkey fcond fupdate)"
  by (rule keeps_frame [where t = ledgerOf], auto simp: updateOperationFrom_def insertApprovalDecision_def insertFence_def
      insertApprovalRequest_def insertAuthorization_def insertEnvelope_def insertInvalidation_def txUpdateOne_def tx_simps
      dest: append_ledger intro: ledgerSafe_frame split: option.splits if_splits)+

lemma rowWhere_Some: "rowWhere key k cond rows = Some r \<longleftrightarrow> rowWith key k rows = Some r \<and> cond r"
  by (auto simp: rowWhere_def split: option.splits)

lemma commonSelect_Some:
  assumes "commonSelect operationId envelopeId decisionId reservationId d = Some row"
  obtains o1 r b ag where
    "rowWith op_operation_id operationId (operations d) = Some o1"
    "rowWith br_reservation_id reservationId (budget_reservations d) = Some r" "br_operation_id r = operationId"
    "rowWith ba_budget_id (br_budget_id r) (budget_accounts d) = Some b"
    "rowWith ag_agent_id (op_agent_id o1) (agents d) = Some ag"
    "cm_operation_id row = operationId" "cm_reservation_id row = reservationId" "cm_envelope_id row = envelopeId"
    "cm_policy_decision_id row = decisionId" "cm_budget_id row = br_budget_id r" "cm_amount_atomic row = br_amount_atomic r"
    "cm_latest_revision row = latestRevision operationId d" "cm_current_state row = op_current_state o1"
    "cm_reservation_status row = br_status r" "cm_owner_id row = ag_owner_id ag" "cm_agent_id row = op_agent_id o1"
    "cm_policy_id row = op_policy_id o1"
proof -
  from assms obtain o1 r b e pd i ag w p where rows:
    "rowWith op_operation_id operationId (operations d) = Some o1"
    "rowWith br_reservation_id reservationId (budget_reservations d) = Some r" "br_operation_id r = operationId"
    "rowWith ba_budget_id (br_budget_id r) (budget_accounts d) = Some b"
    "rowWith en_envelope_id envelopeId (execution_envelopes d) = Some e" "en_operation_id e = operationId"
    "rowWith dr_decision_id decisionId (policy_decisions d) = Some pd" "dr_operation_id pd = operationId"
    "rowWith it_intent_id (op_intent_id o1) (intents d) = Some i"
    "rowWith ag_agent_id (op_agent_id o1) (agents d) = Some ag" "ag_owner_id ag \<in> set (owners d)"
    "rowWith wa_wallet_id (op_wallet_id o1) (wallets d) = Some w"
    "rowWith pl_policy_id (op_policy_id o1) (policies d) = Some p"
    unfolding commonSelect_def by (simp add: rowWhere_Some split: option.splits)
  with assms have "row = the (commonSelect operationId envelopeId decisionId reservationId d)" by simp
  moreover have "rowWhere br_reservation_id reservationId (\<lambda>r. br_operation_id r = operationId) (budget_reservations d) = Some r"
    "rowWhere en_envelope_id envelopeId (\<lambda>e. en_operation_id e = operationId) (execution_envelopes d) = Some e"
    "rowWhere dr_decision_id decisionId (\<lambda>p. dr_operation_id p = operationId) (policy_decisions d) = Some pd"
    "rowWhere ag_agent_id (op_agent_id o1) (\<lambda>ag. ag_owner_id ag \<in> set (owners d)) (agents d) = Some ag"
    using rows by (simp_all add: rowWhere_Some)
  moreover have "op_operation_id o1 = operationId" "br_reservation_id r = reservationId" "en_envelope_id e = envelopeId"
    "dr_decision_id pd = decisionId" "ba_budget_id b = br_budget_id r" using rows by (auto dest: rowWith_Some)
  ultimately show ?thesis using rows by (intro that [of o1 r b ag]) (simp_all add: commonSelect_def)
qed

lemma approvalSelect_Some:
  assumes "approvalSelect aid d = Some row"
  obtains a common where "rowWith ap_approval_id aid (approval_requests d) = Some a"
    "commonSelect (ap_operation_id a) (ap_envelope_id a) (ap_policy_decision_id a) (ap_reservation_id a) d = Some common"
    "cm_reservation_id row = ap_reservation_id a" "cm_budget_id row = cm_budget_id common"
    "cm_amount_atomic row = cm_amount_atomic common"
    "cm_operation_id row = ap_operation_id a" "cm_envelope_id row = ap_envelope_id a"
    "cm_envelope_revision row = ap_envelope_revision a" "cm_envelope_hash row = ap_envelope_hash a"
    "cm_policy_decision_id row = ap_policy_decision_id a" "cm_policy_decision_hash row = ap_policy_decision_hash a"
    "cm_policy_id row = ap_policy_id a" "cm_policy_version row = ap_policy_version a" "cm_fences row = ap_fences a"
    "cm_latest_revision row = cm_latest_revision common" "cm_current_state row = cm_current_state common"
    "cm_reservation_status row = cm_reservation_status common" "cm_owner_id row = cm_owner_id common"
    "cm_agent_id row = cm_agent_id common"
    "av_approval_id row = aid" "av_status row = ap_status a" "av_approver_id row = ap_approver_id a"
    "av_issued_at row = ap_issued_at a" "av_expires_at row = ap_expires_at a" "av_nonce row = ap_nonce a"
proof -
  from assms obtain a common where rows: "rowWith ap_approval_id aid (approval_requests d) = Some a"
    "commonSelect (ap_operation_id a) (ap_envelope_id a) (ap_policy_decision_id a) (ap_reservation_id a) d = Some common"
    unfolding approvalSelect_def by (simp split: option.splits)
  moreover have "row = the (approvalSelect aid d)" "ap_approval_id a = aid" using assms rows by (auto dest: rowWith_Some)
  ultimately show ?thesis
    by (intro that [of a common]) (simp_all add: approvalSelect_def approval_row.defs common_row.defs)
qed

interpretation approvals_ledger: approval_invariant X "ledgerSafe allowed X d0" for X allowed d0
proof unfold_locales
  show "ledgerSafe allowed X d0 (insert (rowBinding row) B) d"
    if "ledgerSafe allowed X d0 B d" "approvalSelect aid d = Some row" for B d aid row
    using that(2) by (elim approvalSelect_Some commonSelect_Some)
      (use that(1) in \<open>simp add: ledgerSafe_def boundTo_def rowBinding_def ledgerOf_def\<close>)
  show "ledgerSafe allowed X d0 B d" if "ledgerSafe allowed X d0 C d" "B \<subseteq> C" for B C d
    using that by (auto simp: ledgerSafe_def)
  show "keeps (ledgerSafe allowed X d0 B)
      (txUpdateOne budget_reservations_update budget_reservations br_reservation_id rid cond (setStatus AUTHORIZED_R))"
    if "\<And>r. cond r \<Longrightarrow> br_status r = HELD" for B rid cond
    using that ledgerSafe_authorize by (intro keeps_updateOne) blast
qed (rule keeps_ledgerSafe ledgerSafe_releases; assumption)+

text \<open>
  The keys that the schema of the database declares: a reservation has its own identifier and its
  own operation, and an approval refers to a reservation of its operation.
\<close>

definition schemaOk :: "db \<Rightarrow> bool" where
  "schemaOk d \<longleftrightarrow>
     distinct (map br_reservation_id (budget_reservations d)) \<and> distinct (map br_operation_id (budget_reservations d))
     \<and> list_all (\<lambda>a. list_ex (\<lambda>r. br_operation_id r = ap_operation_id a \<and> br_reservation_id r = ap_reservation_id a)
         (budget_reservations d)) (approval_requests d)"

definition keysOf :: "db \<Rightarrow> (string \<times> string) list \<times> (string \<times> string \<times> string) list" where
  "keysOf d = (map (\<lambda>r. (br_reservation_id r, br_operation_id r)) (budget_reservations d), map approvalKey (approval_requests d))"

lemma schemaOk_keys:
  "schemaOk d \<longleftrightarrow> (case keysOf d of (R, A) \<Rightarrow> distinct (map fst R) \<and> distinct (map snd R) \<and>
     list_all (\<lambda>(aid, oid, rid). list_ex (\<lambda>(rid', oid'). oid' = oid \<and> rid' = rid) R) A)"
  by (simp add: schemaOk_def keysOf_def approvalKey_def list_all_iff list_ex_iff o_def)

lemma keeps_schema: "(\<And>sv d x d'. m sv d = Inr (x, d') \<Longrightarrow> keysOf d' = keysOf d) \<Longrightarrow> keeps schemaOk m"
  by (erule keeps_frame) (simp add: schemaOk_keys)

lemma statements_schema:
  "keeps schemaOk (updateOperationFrom operationId states next)" "keeps schemaOk (appendAuditEvent X input)"
  "keeps schemaOk (insertApprovalDecision decisionRow)" "keeps schemaOk (insertFence scopeType scopeId state)"
  "keeps schemaOk (insertInvalidation invalidationRow)" "keeps schemaOk (txExec (policies_update h))"
  "keeps schemaOk (txUpdateOne control_fences_update control_fences fenceKey fkey fcond fupdate)"
  by (rule keeps_schema, auto simp: keysOf_def updateOperationFrom_def insertApprovalDecision_def insertFence_def
      insertInvalidation_def txUpdateOne_def tx_simps dest!: append_frame split: option.splits if_splits)+

lemma releases_schema: "keeps schemaOk (releaseFencedReservation crow)"
  by (rule keeps_schema)
    (auto simp: keysOf_def releaseFencedReservation_def updateReservationFrom_def setStatus_def txUpdateOne_Inr tx_simps)

lemma approvals_schema:
  "(\<And>a. approvalKey (aupdate a) = approvalKey a) \<Longrightarrow>
     keeps schemaOk (txUpdateOne approval_requests_update approval_requests ap_approval_id aid acond aupdate)"
  by (rule keeps_updateOne) (simp add: schemaOk_keys keysOf_def)

text \<open>The rows that a fence affects are bound to their reservations.\<close>

lemma boundTo_member:
  "distinct (map br_reservation_id R) \<Longrightarrow> r \<in> set R \<Longrightarrow> boundTo (br_reservation_id r, br_budget_id r, br_amount_atomic r) (A, R)"
  by (simp add: boundTo_def rowWith_unique)

lemma schema_reservation:
  assumes "schemaOk d" "a \<in> set (approval_requests d)" "r \<in> set (budget_reservations d)" "br_operation_id r = ap_operation_id a"
  shows "br_reservation_id r = ap_reservation_id a"
proof -
  from assms(1,2) obtain q where q: "q \<in> set (budget_reservations d)" "br_operation_id q = ap_operation_id a"
    "br_reservation_id q = ap_reservation_id a" by (auto simp: schemaOk_def list_all_iff list_ex_iff)
  moreover have "distinct (map br_operation_id (budget_reservations d))" using assms(1) by (simp add: schemaOk_def)
  ultimately have "q = r" using assms(3,4) by (metis distinct_map inj_onD)
  with q show ?thesis by simp
qed

lemma affected_bound:
  assumes "schemaOk d"
  shows "row \<in> set (heldRows scopeType scopeId d) \<Longrightarrow> boundTo (controlBinding row) (ledgerOf d)"
    "row \<in> set (pendingRows scopeType scopeId d) \<Longrightarrow> boundTo (controlBinding row) (ledgerOf d)"
    "row \<in> set (authorizedRows scopeType scopeId d) \<Longrightarrow> boundTo (controlBinding row) (ledgerOf d)"
proof -
  have keys: "distinct (map br_reservation_id (budget_reservations d))" using assms by (simp add: schemaOk_def)
  show "boundTo (controlBinding row) (ledgerOf d)" if "row \<in> set (heldRows scopeType scopeId d)"
    using that boundTo_member [OF keys] by (auto simp: heldRows_def controlBinding_def ledgerOf_def Let_def)
  show "boundTo (controlBinding row) (ledgerOf d)" if "row \<in> set (pendingRows scopeType scopeId d)"
    using that boundTo_member [OF keys] schema_reservation [OF assms]
    by (force simp: pendingRows_def controlBinding_def ledgerOf_def)
  show "boundTo (controlBinding row) (ledgerOf d)" if "row \<in> set (authorizedRows scopeType scopeId d)"
    using that boundTo_member [OF keys] by (force simp: authorizedRows_def controlBinding_def ledgerOf_def Let_def)
qed

interpretation control_ledger: control_invariant X "\<lambda>B d. ledgerSafe allowed X d0 B d \<and> schemaOk d" for X allowed d0
proof unfold_locales
  show "ledgerSafe allowed X d0 B d \<and> schemaOk d" if "ledgerSafe allowed X d0 C d \<and> schemaOk d" "B \<subseteq> C" for B C d
    using that by (auto simp: ledgerSafe_def)
qed (simp_all add: keeps_conj keeps_ledgerSafe statements_schema releases_schema approvals_schema ledgerSafe_releases,
    (fastforce simp: ledgerSafe_def dest: affected_bound)+)

lemma authority_call_ledger_run:
  assumes "\<And>i e. ledger_run allowed X e (envOthers E i e)" "\<And>i e. schemaOk e \<Longrightarrow> schemaOk (envOthers E i e)" "schemaOk d"
  shows "ledger_run allowed X d (callAuthority X E c d)"
proof -
  have others: "ledgerSafe allowed X d {} (envOthers E i e)" if "ledgerSafe allowed X d {} e" for i e
    using that assms(1) [of e i] ledger_run_trans by (auto simp: ledgerSafe_def)
  have start: "ledgerSafe allowed X d {} d" by (simp add: ledgerSafe_def ledger_run.start)
  have "ledgerSafe allowed X d {} (callAuthority X E c d)"
  proof (cases "controlCall c")
    case True
    then have "ledgerSafe allowed X d {} (callAuthority X E c d) \<and> schemaOk (callAuthority X E c d)"
      by (rule control_ledger.control_call_keeps) (use others start assms(2,3) in blast)+
    then show ?thesis ..
  qed (use approvals_ledger.approval_call_keeps others start in blast)
  then show ?thesis by (simp add: ledgerSafe_def)
qed

section \<open>Lemmas: fences and loaded rows\<close>

text \<open>The snapshot of the four fences that the tables hold.\<close>

definition currentSnapshot :: "string \<Rightarrow> string \<Rightarrow> string \<Rightarrow> db \<Rightarrow> fence_snapshot \<Rightarrow> bool" where
  "currentSnapshot ownerId agentId policyId d s \<longleftrightarrow>
     (\<exists>system owner agent policy. rowWith fenceKey (SYSTEM_SCOPE, ''system'') (control_fences d) = Some system
        \<and> rowWith fenceKey (OWNER_SCOPE, ownerId) (control_fences d) = Some owner
        \<and> rowWith fenceKey (AGENT_SCOPE, agentId) (control_fences d) = Some agent
        \<and> rowWith fenceKey (POLICY_SCOPE, policyId) (control_fences d) = Some policy
        \<and> s = \<lparr>fs_systemFenceVersion = fe_fence_version system, fs_systemState = fe_state system,
               fs_ownerFenceVersion = fe_fence_version owner, fs_ownerState = fe_state owner,
               fs_agentFenceVersion = fe_fence_version agent, fs_agentState = fe_state agent,
               fs_policyFenceVersion = fe_fence_version policy, fs_policyState = fe_state policy\<rparr>)"

text \<open>Fences may be added; nothing else changes.\<close>

definition moreFences :: "db \<Rightarrow> db \<Rightarrow> bool" where
  "moreFences d d' \<longleftrightarrow> (\<exists>new. d' = control_fences_update (\<lambda>rows. rows @ new) d)"

lemma moreFences_refl [simp]: "moreFences d d"
  unfolding moreFences_def by (rule exI [of _ "[]"]) simp

lemma moreFences_trans: "moreFences d d1 \<Longrightarrow> moreFences d1 d2 \<Longrightarrow> moreFences d d2"
  unfolding moreFences_def by (auto simp: o_def)

lemma selects_fences [simp]:
  "commonSelect operationId envelopeId decisionId reservationId (control_fences_update g d)
     = commonSelect operationId envelopeId decisionId reservationId d"
  "approvalSelect aid (control_fences_update g d) = approvalSelect aid d"
proof -
  show common: "commonSelect operationId envelopeId decisionId reservationId (control_fences_update g d)
     = commonSelect operationId envelopeId decisionId reservationId d" for operationId envelopeId decisionId reservationId
    by (simp add: commonSelect_def latestRevision_def cong: option.case_cong)
  show "approvalSelect aid (control_fences_update g d) = approvalSelect aid d"
    by (simp add: approvalSelect_def common cong: option.case_cong)
qed

lemma moreFences_tables:
  assumes "moreFences d d'"
  shows "operations d' = operations d" "budget_reservations d' = budget_reservations d" "budget_accounts d' = budget_accounts d"
    "approval_requests d' = approval_requests d" "authorization_evidence d' = authorization_evidence d" "agents d' = agents d"
    "approvalSelect aid d' = approvalSelect aid d" "latestRevision operationId d' = latestRevision operationId d"
    "policies d' = policies d" "commonSelect operationId envelopeId decisionId reservationId d' = commonSelect operationId envelopeId decisionId reservationId d"
    "rowWith fenceKey k (control_fences d) = Some f \<Longrightarrow> rowWith fenceKey k (control_fences d') = Some f"
  using assms by (auto simp: moreFences_def latestRevision_def rowWith_append)

lemma ensureFence_Inr:
  assumes "ensureFence scopeType scopeId sv d = Inr (row, d')"
  shows "rowWith fenceKey (scopeType, scopeId) (control_fences d') = Some row" "moreFences d d'"
proof -
  have "moreFences e e'" if "insertFence scopeType scopeId state sv e = Inr (u, e')" for state u e e'
    using that unfolding insertFence_def moreFences_def by (auto simp: tx_simps intro: exI [of _ "[]"] split: option.splits)
  with assms show "rowWith fenceKey (scopeType, scopeId) (control_fences d') = Some row" "moreFences d d'"
    unfolding ensureFence_def by (auto simp: tx_simps split: option.splits if_splits)
qed

lemma lockControlFences_Inr:
  assumes "lockControlFences ownerId agentId policyId sv d = Inr (s, d')"
  shows "currentSnapshot ownerId agentId policyId d' s" "moreFences d d'"
proof -
  from assms obtain system d1 owner d2 agent d3 policy where steps:
    "ensureFence SYSTEM_SCOPE ''system'' sv d = Inr (system, d1)" "ensureFence OWNER_SCOPE ownerId sv d1 = Inr (owner, d2)"
    "ensureFence AGENT_SCOPE agentId sv d2 = Inr (agent, d3)" "ensureFence POLICY_SCOPE policyId sv d3 = Inr (policy, d')"
    and s: "s = \<lparr>fs_systemFenceVersion = fe_fence_version system, fs_systemState = fe_state system,
               fs_ownerFenceVersion = fe_fence_version owner, fs_ownerState = fe_state owner,
               fs_agentFenceVersion = fe_fence_version agent, fs_agentState = fe_state agent,
               fs_policyFenceVersion = fe_fence_version policy, fs_policyState = fe_state policy\<rparr>"
    unfolding lockControlFences_def by (auto simp: tx_simps)
  note fences = steps [THEN ensureFence_Inr(1)] and more = steps [THEN ensureFence_Inr(2)]
  from more show "moreFences d d'" by (blast intro: moreFences_trans)
  have "rowWith fenceKey (SYSTEM_SCOPE, ''system'') (control_fences d') = Some system"
    "rowWith fenceKey (OWNER_SCOPE, ownerId) (control_fences d') = Some owner"
    "rowWith fenceKey (AGENT_SCOPE, agentId) (control_fences d') = Some agent"
    using moreFences_tables(11) [OF more(4) moreFences_tables(11) [OF more(3) moreFences_tables(11) [OF more(2) fences(1)]]]
      moreFences_tables(11) [OF more(4) moreFences_tables(11) [OF more(3) fences(2)]] moreFences_tables(11) [OF more(4) fences(3)]
    by simp_all
  with fences(4) show "currentSnapshot ownerId agentId policyId d' s" unfolding currentSnapshot_def s by blast
qed

lemma loadApproval_Inr:
  assumes "loadApproval aid sv d = Inr (row, d')"
  obtains row' fences where "approvalSelect aid d = Some row'" "moreFences d d'" "row = row'\<lparr>cm_current_fences := fences\<rparr>"
    "currentSnapshot (cm_owner_id row') (cm_agent_id row') (cm_policy_id row') d' fences"
proof -
  from assms obtain identity row' :: approval_row and fences where
    load: "approvalSelect aid d = Some identity" "approvalSelect aid d' = Some row'" "row = row'\<lparr>cm_current_fences := fences\<rparr>"
      "lockControlFences (cm_owner_id identity) (cm_agent_id identity) (cm_policy_id identity) sv d = Inr (fences, d')"
    unfolding loadApproval_def by (auto simp: tx_simps split: option.splits)
  note fences = lockControlFences_Inr [OF load(4)]
  with load have "identity = row'" by (simp add: moreFences_tables)
  with load fences show ?thesis by (intro that [of identity fences]) auto
qed

text \<open>The row of an approval, as the tables have it.\<close>

lemma loadApproval_row:
  assumes "loadApproval aid sv d = Inr (row, d')"
  obtains a o1 r where "rowWith ap_approval_id aid (approval_requests d) = Some a"
    "rowWith op_operation_id (ap_operation_id a) (operations d) = Some o1" "cm_current_state row = op_current_state o1"
    "rowWith br_reservation_id (ap_reservation_id a) (budget_reservations d) = Some r" "cm_reservation_status row = br_status r"
    "cm_latest_revision row = latestRevision (ap_operation_id a) d"
    "cm_reservation_id row = ap_reservation_id a" "cm_operation_id row = ap_operation_id a" "cm_envelope_id row = ap_envelope_id a"
    "cm_envelope_revision row = ap_envelope_revision a" "cm_envelope_hash row = ap_envelope_hash a"
    "cm_policy_decision_id row = ap_policy_decision_id a" "cm_policy_decision_hash row = ap_policy_decision_hash a"
    "cm_policy_id row = ap_policy_id a" "cm_policy_version row = ap_policy_version a" "cm_fences row = ap_fences a"
    "av_approval_id row = aid" "av_status row = ap_status a" "av_approver_id row = ap_approver_id a"
    "av_issued_at row = ap_issued_at a" "av_expires_at row = ap_expires_at a" "av_nonce row = ap_nonce a"
    "moreFences d d'" "currentSnapshot (cm_owner_id row) (cm_agent_id row) (ap_policy_id a) d' (cm_current_fences row)"
proof -
  obtain row' fences where load: "approvalSelect aid d = Some row'" "moreFences d d'" "row = row'\<lparr>cm_current_fences := fences\<rparr>"
    "currentSnapshot (cm_owner_id row') (cm_agent_id row') (cm_policy_id row') d' fences"
    using assms by (rule loadApproval_Inr)
  from load(1) show ?thesis
    by (elim approvalSelect_Some commonSelect_Some) (rule that; use load in simp)
qed

end
