(* ===== verification/LedgerSample.thy ===== *)
theory LedgerSample
  imports Ledger
begin

text \<open>
  A small database with one budget, one broadcast reservation and a recovery lease, and sample
  calls on it, run in the kernel: what every hypothesis of the ledger's properties looks like when
  it holds.
\<close>

section \<open>Tables\<close>

definition sampleOperation :: "string \<Rightarrow> operation_row" where
  "sampleOperation oid =
     \<lparr>op_operation_id = oid, op_intent_id = ''intent_1'', op_agent_id = ''agent_1'', op_wallet_id = ''wallet_1'',
      op_policy_id = ''policy_1'', op_policy_version = 1, op_current_state = AUTHORIZED\<rparr>"

definition sampleAccount :: budget_account where
  "sampleAccount =
     \<lparr>ba_budget_id = ''budget_1'', ba_agent_id = ''agent_1'', ba_wallet_id = ''wallet_1'', ba_policy_id = ''policy_1'',
      ba_policy_version = 1, ba_allocated = 1000, ba_available = 900, ba_reserved = 100, ba_finalized_spend = 0,
      ba_version = 2\<rparr>"

definition sampleReservation :: budget_reservation where
  "sampleReservation =
     \<lparr>br_reservation_id = ''res_1'', br_budget_id = ''budget_1'', br_operation_id = ''op_1'', br_idempotency_key = ''key_1'',
      br_amount_atomic = 100, br_finalized_spend_atomic = 0, br_status = BROADCAST_R, br_expires_at = 1790000000000,
      br_proof_reference = None\<rparr>"

definition sampleEvidence :: evidence_row where
  "sampleEvidence =
     \<lparr>be_reservation_id = ''res_1'', be_transaction_hash = ''0x'' @ replicate 64 (CHR ''1''), be_nonce = 7,
      be_receipt_reference = ''receipt:1'', be_verification_source = ''adapter_1'', be_verification_status = VERIFIED_E,
      be_verified_at = Some 1779999000000, be_verified_by = Some ''reconciler:reconciler_1'',
      be_adapter = (''cred_2'', ''adapter_1'', ADAPTER, ''key2'', replicate 64 (CHR ''0'')),
      be_verification = Some (''cred_1'', ''reconciler_1'', RECONCILER, ''key1'', replicate 64 (CHR ''0''))\<rparr>"

definition sampleLease :: lease_row where
  "sampleLease =
     \<lparr>le_operation_id = ''op_1'', le_reservation_id = ''res_1'', le_credential_id = ''cred_1'', le_lease_version = 2,
      le_lease_expires_at = 1780000060000, le_lease_state = LeaseActive\<rparr>"

definition sampleFence :: "scope_type \<Rightarrow> string \<Rightarrow> fence_row" where
  "sampleFence scopeType scopeId = 
     \<lparr>fe_scope_type = scopeType, fe_scope_id = scopeId, fe_fence_version = 1, fe_state = ''ACTIVE'',
      fe_last_control_event_id = None\<rparr>"

definition sampleDb :: db where
  "sampleDb = emptyDb
     \<lparr>owners := [''owner_1''],
      agents := [\<lparr>ag_agent_id = ''agent_1'', ag_owner_id = ''owner_1''\<rparr>],
      wallets := [\<lparr>wa_wallet_id = ''wallet_1'', wa_owner_id = ''owner_1''\<rparr>],
      policies := [\<lparr>pl_policy_id = ''policy_1'', pl_owner_id = ''owner_1'', pl_agent_id = ''agent_1'',
        pl_wallet_id = ''wallet_1'', pl_status = PolicyActive\<rparr>],
      intents := [\<lparr>it_intent_id = ''intent_1'', it_agent_id = ''agent_1'', it_wallet_id = ''wallet_1'',
        it_policy_id = ''policy_1'', it_policy_version = 1\<rparr>],
      operations := [sampleOperation ''op_1'', sampleOperation ''op_2''],
      budget_accounts := [sampleAccount], budget_reservations := [sampleReservation],
      broadcast_evidence := [sampleEvidence],
      credentials := [\<lparr>cr_credential_id = ''cred_1'', cr_component_id = ''reconciler_1'', cr_component_role = RECONCILER,
        cr_public_key = ''key1'', cr_active = True\<rparr>],
      recovery_leases := [sampleLease],
      control_fences := [sampleFence SYSTEM_SCOPE ''system'', sampleFence OWNER_SCOPE ''owner_1'',
        sampleFence AGENT_SCOPE ''agent_1'', sampleFence POLICY_SCOPE ''policy_1'']\<rparr>"

definition sampleEnv :: environment where
  "sampleEnv = \<lparr>envServers = \<lambda>_. sampleServer, envOthers = \<lambda>_ d. d\<rparr>"

section \<open>Calls\<close>

definition sampleAudit :: audit_context where
  "sampleAudit =
     \<lparr>ac_eventId = ''event_1'', ac_actorType = ''service'', ac_actorId = ''ledger'', ac_traceId = replicate 32 (CHR ''a''),
      ac_assertedCorrelation = [(''operationId'', JUndefined)],
      ac_componentAuth = Some \<lparr>ca_credentialId = ''cred_1'', ca_componentId = ''reconciler_1'', ca_role = RECONCILER,
        ca_signature = ''key1''\<rparr>\<rparr>"

definition sampleTransition :: transition_input where
  "sampleTransition = \<lparr>ti_reservationId = ''res_1'', ti_audit = sampleAudit\<rparr>"

definition sampleRequest :: "string \<Rightarrow> reserve_request" where
  "sampleRequest amount =
     \<lparr>rq_reservationId = ''res_2'', rq_budgetId = ''budget_1'', rq_operationId = ''op_2'', rq_idempotencyKey = ''key_2'',
      rq_idempotencyPayload = JNull, rq_amountAtomic = amount, rq_expiresAt = DateObject (Some 1790000000000),
      rq_audit = sampleAudit\<rparr>"

definition sampleResolution :: "recovery_outcome \<Rightarrow> recovery_resolution" where
  "sampleResolution outcome =
     \<lparr>rr_attemptId = ''attempt_1'', rr_operationId = ''op_1'', rr_reservationId = ''res_1'', rr_leaseVersion = ''2'',
      rr_outcome = outcome, rr_reason = ''reverted'', rr_actualSpendAtomic = Some ''0'',
      rr_proofReference = Some ''receipt:1'', rr_verifiedRevert = (outcome = FAILED)\<rparr>"

definition sampleClaim :: recovery_claim where
  "sampleClaim =
     \<lparr>rc_attemptId = ''attempt_1'', rc_operationId = ''op_1'', rc_reservationId = ''res_1'',
      rc_leaseDurationSeconds = Some 60, rc_audit = sampleAudit\<rparr>"

text \<open>The same tables with the reservation released and its funds returned.\<close>

definition releasedDb :: db where
  "releasedDb = sampleDb
     \<lparr>budget_accounts := [returnFunds 100 sampleAccount], budget_reservations := [sampleReservation\<lparr>br_status := RELEASED\<rparr>]\<rparr>"

text \<open>A digest with two values.\<close>

definition markDigest :: "string \<Rightarrow> string" where
  "markDigest b = replicate 64 (if b ! 97 = CHR ''m'' then CHR ''1'' else CHR ''0'')"

definition markExternals :: externals where
  "markExternals = sampleExternals\<lparr>sha256Hex := markDigest\<rparr>"

section \<open>Runs in the kernel\<close>

text \<open>
  A run is evaluated step by step: the steps that are still to come are left alone until their
  argument is a value, and an append of an audit event is replaced by its result.
\<close>

lemmas sample_defs = sampleDb_def emptyDb_def sampleAccount_def sampleReservation_def sampleEvidence_def sampleLease_def
  sampleFence_def sampleOperation_def sampleAudit_def sampleTransition_def sampleServer_def rowWith_def updateWith_def

lemma txBind_lazy: "m = m' \<Longrightarrow> txBind m f = txBind m' f"
  by simp

lemma txThen_lazy: "m = m' \<Longrightarrow> txThen m n = txThen m' n"
  by simp

lemma txThen_run: "txThen m n sv d = (case m sv d of Inl e \<Rightarrow> Inl e | Inr (x, d') \<Rightarrow> n sv d')"
  by (simp add: txThen_def txBind_def)

lemmas lazy_run = txBind_lazy txThen_lazy let_weak_cong

lemmas run_defs = txBind_def txThen_run txThrow_def txReturn_def txLift_def txRequire_def require_def txQuery_def txServer_def
  txExec_def ofOption_def

lemma transaction_run:
  "work sampleServer d = Inr (x, d') \<Longrightarrow> withSerializableTransaction sampleEnv None work d = (Inr x, d')"
  by (simp add: withSerializableTransaction_def DEFAULT_MAX_RETRIES_def sampleEnv_def attemptLoop.simps runAttempt_def sampleServer_def)

definition sampleCorrelation :: "string \<Rightarrow> string \<Rightarrow> audit_correlation" where
  "sampleCorrelation rid oid =
     \<lparr>co_reservationId = rid, co_budgetId = ''budget_1'', co_ownerId = ''owner_1'', co_agentId = ''agent_1'',
      co_walletId = ''wallet_1'', co_intentId = ''intent_1'', co_operationId = oid, co_policyId = ''policy_1'',
      co_policyVersion = 1\<rparr>"

definition loggedEvent :: "audit_input \<Rightarrow> int \<Rightarrow> string option \<Rightarrow> (string \<times> jsval) list \<Rightarrow> audit_event" where
  "loggedEvent input n previous data =
     \<lparr>ev_eventId = ai_eventId input, ev_eventType = ai_eventType input, ev_occurredAt = ''2026-05-28T20:26:40Z'',
      ev_sequence = n, ev_actorType = ai_actorType input, ev_actorId = ai_actorId input, ev_ownerId = ai_ownerId input,
      ev_agentId = ai_agentId input, ev_walletId = ai_walletId input, ev_intentId = ai_intentId input,
      ev_operationId = ai_operationId input, ev_policyId = ai_policyId input, ev_policyVersion = ai_policyVersion input,
      ev_traceId = ai_traceId input, ev_data = data, ev_previousEventHash = previous, ev_eventHash = ZERO_HASH\<rparr>"

definition logs :: "externals \<Rightarrow> audit_input \<Rightarrow> int \<Rightarrow> string option \<Rightarrow> (string \<times> jsval) list \<Rightarrow> string \<Rightarrow> bool" where
  "logs X input n previous data h \<longleftrightarrow>
     auditDataSchema X (ai_data input) = Some data
     \<and> ai_operationId input \<noteq> None \<and> ai_eventType input \<notin> set controlEventTypes
     \<and> (let event = loggedEvent input n previous data
        in auditEventSchema X event = Some event \<and> hashAuditEvent X event = Inr h)"

lemma first_append:
  assumes "logs X input 1 None data h" "audit_events d = []"
  obtains row where "appendAuditEvent X input sampleServer d = Inr ((), d\<lparr>audit_events := [row]\<rparr>)"
    "ar_event row = (loggedEvent input 1 None data)\<lparr>ev_data := storedData data, ev_eventHash := h\<rparr>"
proof -
  from assms(1) obtain oid where "ai_operationId input = Some oid" by (auto simp: logs_def)
  with assms that append_succeeds [of X input data oid d None "loggedEvent input 1 None data" sampleServer h] show ?thesis
    by (auto simp: logs_def latestEvent_def loggedEvent_def sampleServer_def sampleServer_time Let_def)
qed

lemma second_append:
  assumes "logs X input 2 (Some h1) data h" "audit_events d = [row1]" "ev_operationId (ar_event row1) = ai_operationId input"
    "ev_sequence (ar_event row1) = 1" "ev_eventHash (ar_event row1) = h1" "h1 \<noteq> h" "ev_eventId (ar_event row1) \<noteq> ai_eventId input"
  obtains row where "appendAuditEvent X input sampleServer d = Inr ((), d\<lparr>audit_events := [row1, row]\<rparr>)"
proof -
  from assms(1) obtain oid where "ai_operationId input = Some oid" by (auto simp: logs_def)
  with assms that append_succeeds [of X input data oid d "Some (ar_event row1)" "loggedEvent input 2 (Some h1) data" sampleServer h]
  show ?thesis
    by (auto simp: logs_def latestEvent_def loggedEvent_def sampleServer_def sampleServer_time auditKeyTaken_def Let_def)
qed

lemma getReservation_sample:
  assumes "d = sampleDb \<or> d = sampleDb\<lparr>recovery_leases := []\<rparr>"
  shows "getReservationForUpdate ''res_1'' sampleServer d = Inr ((mapReservation sampleReservation, sampleCorrelation ''res_1'' ''op_1''), d)"
  using assms
  by (auto cong: lazy_run simp: run_defs getReservationForUpdate_def joinBinding_def assertBindingConsistency_def
      bindingConsistent_def mapAuditCorrelation_def sampleCorrelation_def sample_defs)

lemma sample_asserted: "assertAuditCorrelation sampleAudit c = Inr ()"
  by (simp add: assertAuditCorrelation_def sampleAudit_def require_def)

lemma sample_numbers: "bigInt ''40'' = 40" "bigInt ''50'' = 50" "intStr 50 = ''50''" "intStr 100 = ''100''" "bigInt ''100'' = 100" "intStr 7 = ''7''"
  "intStr 0 = ''0''" "bigInt ''0'' = 0" "intStr 1 = ''1''" "intStr 2 = ''2''" "bigInt ''2'' = 2"
  by code_simp+

lemma sample_snapshot:
  "rs_status (mapReservation sampleReservation) = BROADCAST_R" "rs_reservationId (mapReservation sampleReservation) = ''res_1''"
  "rs_budgetId (mapReservation sampleReservation) = ''budget_1''" "rs_operationId (mapReservation sampleReservation) = ''op_1''"
  "rs_amountAtomic (mapReservation sampleReservation) = ''100''"
  by (simp_all add: mapReservation_def sampleReservation_def sample_numbers)

lemma sample_tables:
  "rowWith be_reservation_id ''res_1'' (broadcast_evidence sampleDb) = Some sampleEvidence"
  "be_verification_status sampleEvidence = VERIFIED_E" "be_receipt_reference sampleEvidence = ''receipt:1''"
  "be_transaction_hash sampleEvidence = ''0x'' @ replicate 64 (CHR ''1'')" "be_nonce sampleEvidence = 7"
  "audit_events sampleDb = []"
  by (simp_all add: sample_defs)

lemma sample_updates:
  "budget_accounts_update (updateWith ba_budget_id ''budget_1'' f) sampleDb = sampleDb\<lparr>budget_accounts := [f sampleAccount]\<rparr>"
  "budget_reservations_update (updateWith br_reservation_id ''res_1'' g) (sampleDb\<lparr>budget_accounts := A\<rparr>)
     = sampleDb\<lparr>budget_accounts := A, budget_reservations := [g sampleReservation]\<rparr>"
  "sv_refuses sampleServer a b = None"
  by (simp_all add: sample_defs)

lemma recovery_leases_update_sample: "recovery_leases_update f sampleDb = sampleDb\<lparr>recovery_leases := f [sampleLease]\<rparr>"
  by (simp add: sampleDb_def)

lemmas sample_run = run_defs Let_def getReservation_sample sample_asserted sample_snapshot sample_tables sample_updates sample_numbers
  transitionReservation_def sampleTransition_def getBroadcastEvidence_def updateBudget_def updateReservation_def

definition finalizedInput :: audit_input where
  "finalizedInput = correlatedInput ''event_1:budget:reservation:finalized'' ''service'' ''ledger'' (replicate 32 (CHR ''a''))
     (sampleCorrelation ''res_1'' ''op_1'') ''budget.reservation.finalized''
     [(''reservationId'', JString ''res_1''), (''amountAtomic'', JString ''100''), (''proofReference'', JString ''receipt:1''),
      (''transactionHash'', JString (''0x'' @ replicate 64 (CHR ''1''))), (''nonce'', JString ''7'')]"

definition finalizedData :: "(string \<times> jsval) list" where
  "finalizedData =
     [(''reservationId'', JString ''res_1''), (''amountAtomic'', JString ''100''), (''nonce'', JString ''7''),
      (''transactionHash'', JString (''0x'' @ replicate 64 (CHR ''1''))), (''proofReference'', JString ''receipt:1'')]"

lemma finalized_logs: "logs sampleExternals finalizedInput 1 None finalizedData ZERO_HASH"
  by code_simp

lemma finalized_event:
  "writeTransitionAudit sampleExternals sampleAudit ''budget.reservation.finalized''
     ((mapReservation sampleReservation)\<lparr>rs_status := FINALIZED, rs_finalizedSpendAtomic := ''40'', rs_proofReference := Some ''receipt:1''\<rparr>)
     (sampleCorrelation ''res_1'' ''op_1'')
     [(''proofReference'', JString ''receipt:1''), (''transactionHash'', JString (''0x'' @ replicate 64 (CHR ''1''))),
      (''nonce'', JString ''7'')] None = appendAuditEvent sampleExternals finalizedInput"
  by (simp add: writeTransitionAudit_def finalizedInput_def sampleAudit_def transitionEventId_def dotsToColons_def eventData_def
      spread_def mapReservation_def sampleReservation_def sample_numbers)

lemma sample_finalize:
  "\<exists>s d'. finalizeReservation sampleExternals sampleEnv sampleTransition ''40'' ''receipt:1'' sampleDb = (Inr s, d')
     \<and> budget_accounts d' = [settleFunds 100 40 sampleAccount]"
proof -
  let ?d = "sampleDb\<lparr>budget_accounts := [settleFunds 100 40 sampleAccount],
    budget_reservations := [settleReservation ''40'' ''receipt:1'' sampleReservation]\<rparr>"
  obtain row where row: "appendAuditEvent sampleExternals finalizedInput sampleServer ?d = Inr ((), ?d\<lparr>audit_events := [row]\<rparr>)"
    by (rule first_append [OF finalized_logs, of ?d]) (simp_all add: sample_tables)
  have "finalizeWork sampleExternals sampleTransition ''40'' ''receipt:1'' sampleServer sampleDb =
      Inr ((mapReservation sampleReservation)\<lparr>rs_status := FINALIZED, rs_finalizedSpendAtomic := ''40'',
             rs_proofReference := Some ''receipt:1''\<rparr>, ?d\<lparr>audit_events := [row]\<rparr>)"
    using row finalized_event by (simp cong: lazy_run add: finalizeWork_def sample_run)
  moreover have "parseAtomic ''40'' False = Inr ''40''" by code_simp
  ultimately show ?thesis using transaction_run by (fastforce simp: finalizeReservation_def)
qed

subsection \<open>Reserving\<close>

definition createdInput :: audit_input where
  "createdInput = correlatedInput ''event_1:budget:reservation:created'' ''service'' ''ledger'' (replicate 32 (CHR ''a''))
     (sampleCorrelation ''res_2'' ''op_2'') ''budget.reservation.created''
     [(''reservationId'', JString ''res_2''), (''amountAtomic'', JString ''50'')]"

lemma created_logs: "logs sampleExternals createdInput 1 None (ai_data createdInput) ZERO_HASH"
  by code_simp

lemma sample_parameters:
  "reserveParameters sampleExternals (sampleRequest ''50'') = Inr (''50'', 1790000000000, ''sha256:'' @ replicate 64 (CHR ''0''))"
  "reserveParameters sampleExternals (sampleRequest ''5000'') = Inr (''5000'', 1790000000000, ''sha256:'' @ replicate 64 (CHR ''0''))"
  by code_simp+

definition createdReservation :: budget_reservation where
  "createdReservation =
     \<lparr>br_reservation_id = ''res_2'', br_budget_id = ''budget_1'', br_operation_id = ''op_2'', br_idempotency_key = ''key_2'',
      br_amount_atomic = 50, br_finalized_spend_atomic = 0, br_status = HELD, br_expires_at = 1790000000000,
      br_proof_reference = None\<rparr>"

lemma sample_fences: "lockReservationControlFences ''op_2'' sampleServer sampleDb = Inr ((), sampleDb)"
  by (simp cong: lazy_run add: lockReservationControlFences_def fenceState_def run_defs sample_defs)

lemma sample_reserve_binding:
  "getReservationBindingForReserve ''budget_1'' ''op_2'' sampleServer sampleDb = Inr (sampleCorrelation ''pending'' ''op_2'', sampleDb)"
  by (simp cong: lazy_run add: getReservationBindingForReserve_def joinBinding_def assertBindingConsistency_def
      bindingConsistent_def mapAuditCorrelation_def sampleCorrelation_def run_defs sample_defs)

lemma sample_request:
  "rq_reservationId (sampleRequest a) = ''res_2''" "rq_budgetId (sampleRequest a) = ''budget_1''"
  "rq_operationId (sampleRequest a) = ''op_2''" "rq_idempotencyKey (sampleRequest a) = ''key_2''"
  "rq_audit (sampleRequest a) = sampleAudit"
  by (simp_all add: sampleRequest_def)

lemma created_event:
  "correlatedInput (transitionEventId sampleAudit ''budget.reservation.created'') (ac_actorType sampleAudit) (ac_actorId sampleAudit)
     (ac_traceId sampleAudit) ((sampleCorrelation ''pending'' ''op_2'')\<lparr>co_reservationId := ''res_2''\<rparr>) ''budget.reservation.created''
     (eventData (mapReservation createdReservation) []) = createdInput"
  by (simp add: createdInput_def sampleAudit_def transitionEventId_def dotsToColons_def sampleCorrelation_def eventData_def
      spread_def mapReservation_def createdReservation_def sample_numbers)

lemma sample_reserve:
  "\<exists>d'. reserveBudget sampleExternals sampleEnv (sampleRequest ''50'') sampleDb = (Inr (mapReservation createdReservation), d')
     \<and> budget_accounts d' = [holdFunds 50 sampleAccount]"
proof -
  define h where "h = ''sha256:'' @ replicate 64 (CHR ''0'')"
  let ?d = "sampleDb\<lparr>budget_accounts := [holdFunds 50 sampleAccount],
    budget_reservations := [sampleReservation, createdReservation],
    idempotency_records := [\<lparr>ir_idempotency_key = ''key_2'', ir_payload_hash = h,
      ir_intent_id = ''intent_1'', ir_operation_id = ''op_2'', ir_reservation_id = Some ''res_2''\<rparr>]\<rparr>"
  obtain row where row: "appendAuditEvent sampleExternals createdInput sampleServer ?d = Inr ((), ?d\<lparr>audit_events := [row]\<rparr>)"
    by (rule first_append [OF created_logs, of ?d]) (simp_all add: sample_tables)
  have tables: "idempotency_records sampleDb = []" "budget_accounts sampleDb = [sampleAccount]"
    "budget_reservations sampleDb = [sampleReservation]" "ba_budget_id sampleAccount = ''budget_1''" "ba_available sampleAccount = 900"
    "br_reservation_id sampleReservation = ''res_1''" "br_operation_id sampleReservation = ''op_1''"
    "br_idempotency_key sampleReservation = ''key_1''" by (simp_all add: sample_defs)
  have created: "rs_reservationId (mapReservation createdReservation) = ''res_2''" "br_reservation_id createdReservation = ''res_2''"
    "br_operation_id createdReservation = ''op_2''" "br_idempotency_key createdReservation = ''key_2''"
    "co_intentId (sampleCorrelation ''pending'' ''op_2'') = ''intent_1''" by (simp_all add: mapReservation_def createdReservation_def sampleCorrelation_def)
  have "reserveWork sampleExternals (sampleRequest ''50'') ''50'' 1790000000000 h sampleServer sampleDb
      = Inr (mapReservation createdReservation, ?d\<lparr>audit_events := [row]\<rparr>)"
    using row [unfolded sampleDb_def emptyDb_def, simplified] created_event
    by (simp cong: lazy_run add: reserveWork_def reserveFresh_def run_defs Let_def sample_request sample_fences sample_reserve_binding
        sample_asserted sample_updates(3) sample_numbers tables updateBudget_def insertReservation_def rowWith_def updateWith_def
        createdReservation_def [symmetric] created)
       (simp add: sampleDb_def emptyDb_def updateWith_def tables(4) txReturn_def)
  then show ?thesis using transaction_run by (fastforce simp: reserveBudget_def sample_parameters h_def)
qed

subsection \<open>Recovery\<close>

definition sampleAuthenticated :: "string \<Rightarrow> authenticated_component" where
  "sampleAuthenticated h =
     \<lparr>an_credentialId = ''cred_1'', an_componentId = ''reconciler_1'', an_role = RECONCILER,
      an_authPayloadHash = h, an_signature = ''key1''\<rparr>"

lemma sample_authenticates:
  assumes "ed25519Verify X = ed25519Verify sampleExternals" "d = sampleDb \<or> d = sampleDb\<lparr>recovery_leases := []\<rparr>"
    "componentAuthPayloadHash X action (the (ac_componentAuth sampleAudit)) payload = h"
  shows "authenticateComponent X (ac_componentAuth sampleAudit) RECONCILER action payload sampleServer d =
    Inr (sampleAuthenticated h, d)"
  using assms
  by (auto cong: lazy_run simp: run_defs authenticateComponent_def sample_defs verifyComponentAction_def sampleExternals_defs
      sampleAuthenticated_def identifierText_def base64urlText_def charclass)

lemma sampleAuthenticated_fields:
  "an_credentialId (sampleAuthenticated h) = ''cred_1''" "an_componentId (sampleAuthenticated h) = ''reconciler_1''"
  "an_authPayloadHash (sampleAuthenticated h) = h"
  by (simp_all add: sampleAuthenticated_def)

definition claimedInput :: audit_input where
  "claimedInput = correlatedInput ''event_1:recovery:execution:recovery:claimed:attempt_1'' ''worker'' ''reconciler_1''
     (replicate 32 (CHR ''a'')) (sampleCorrelation ''res_1'' ''op_1'') ''execution.recovery.claimed''
     [(''reservationId'', JString ''res_1''), (''amountAtomic'', JString ''100''), (''attemptId'', JString ''attempt_1''),
      (''leaseVersion'', JNumber (jsInt 1)), (''credentialId'', JString ''cred_1''), (''componentId'', JString ''reconciler_1''),
      (''componentRole'', JString ''RECONCILER''), (''authPayloadHash'', JString (''sha256:'' @ replicate 64 (CHR ''0''))),
      (''authenticationMethod'', JString ''ed25519'')]"

definition claimedData :: "(string \<times> jsval) list" where
  "claimedData =
     [(''reservationId'', JString ''res_1''), (''amountAtomic'', JString ''100''), (''credentialId'', JString ''cred_1''),
      (''componentId'', JString ''reconciler_1''), (''componentRole'', JString ''RECONCILER''),
      (''authPayloadHash'', JString (''sha256:'' @ replicate 64 (CHR ''0''))), (''authenticationMethod'', JString ''ed25519''),
      (''attemptId'', JString ''attempt_1''), (''leaseVersion'', JNumber (jsInt 1))]"

lemma claimed_logs: "logs sampleExternals claimedInput 1 None claimedData ZERO_HASH"
  by code_simp

lemma claimed_event:
  "writeRecoveryAudit sampleExternals sampleAudit ''execution.recovery.claimed'' (mapReservation sampleReservation)
     (sampleCorrelation ''res_1'' ''op_1'') (sampleAuthenticated (''sha256:'' @ replicate 64 (CHR ''0'')))
     [(''attemptId'', JString ''attempt_1''), (''leaseVersion'', JNumber (jsInt 1))]
   = appendAuditEvent sampleExternals claimedInput"
  by (simp add: writeRecoveryAudit_def claimedInput_def sampleAudit_def recoveryEventId_def dotsToColons_def eventData_def
      spread_def sample_snapshot sampleAuthenticated_def authenticatedData_def)

lemma sample_claim:
  "\<exists>l d'. claimRecoveryLease sampleExternals sampleEnv sampleClaim (sampleDb\<lparr>recovery_leases := []\<rparr>) = (Inr l, d')
     \<and> rl_leaseVersion l = ''1''"
proof -
  let ?d = "sampleDb\<lparr>recovery_leases := [\<lparr>le_operation_id = ''op_1'', le_reservation_id = ''res_1'', le_credential_id = ''cred_1'',
    le_lease_version = 1, le_lease_expires_at = 1780000060000, le_lease_state = LeaseActive\<rparr>]\<rparr>"
  obtain row where row: "appendAuditEvent sampleExternals claimedInput sampleServer ?d = Inr ((), ?d\<lparr>audit_events := [row]\<rparr>)"
    by (rule first_append [OF claimed_logs, of ?d]) (simp_all add: sample_tables)
  have hash: "componentAuthPayloadHash sampleExternals action a payload = ''sha256:'' @ replicate 64 (CHR ''0'')" for action a payload
    by (simp add: componentAuthPayloadHash_def sampleExternals_defs)
  have claim: "rc_reservationId sampleClaim = ''res_1''" "rc_operationId sampleClaim = ''op_1''" "rc_attemptId sampleClaim = ''attempt_1''"
    "rc_audit sampleClaim = sampleAudit" "rc_leaseDurationSeconds sampleClaim = Some 60" "sv_clock sampleServer = 1780000000000"
    by (simp_all add: sampleClaim_def sampleServer_def)
  have "\<exists>l. claimWork sampleExternals sampleClaim 60 sampleServer (sampleDb\<lparr>recovery_leases := []\<rparr>) = Inr (l, ?d\<lparr>audit_events := [row]\<rparr>)
      \<and> rl_leaseVersion l = ''1''"
    using row claimed_event
    by (simp cong: lazy_run add: claimWork_def sample_run claim hash sample_authenticates MAX_SAFE_INTEGER_def upsertLease_def
        rowWith_def comp_def sampleAuthenticated_fields)
  then show ?thesis using transaction_run by (fastforce simp: claimRecoveryLease_def claim MAX_RECOVERY_LEASE_SECONDS_def)
qed

text \<open>A verified revert writes two events: the release, then the resolution.\<close>

definition revertHash :: string where
  "revertHash = ''sha256:'' @ replicate 64 (CHR ''0'')"

definition releasedInput :: audit_input where
  "releasedInput = correlatedInput ''event_1:recovery:budget:reservation:released:attempt_1'' ''worker'' ''reconciler_1''
     (replicate 32 (CHR ''a'')) (sampleCorrelation ''res_1'' ''op_1'') ''budget.reservation.released''
     [(''reservationId'', JString ''res_1''), (''amountAtomic'', JString ''100''), (''attemptId'', JString ''attempt_1''),
      (''leaseVersion'', JNumber (jsInt 2)), (''reason'', JString ''reverted''), (''proofReference'', JString ''receipt:1''),
      (''actualSpendAtomic'', JString ''0''), (''credentialId'', JString ''cred_1''), (''componentId'', JString ''reconciler_1''),
      (''componentRole'', JString ''RECONCILER''), (''authPayloadHash'', JString revertHash),
      (''authenticationMethod'', JString ''ed25519'')]"

definition releasedData :: "(string \<times> jsval) list" where
  "releasedData =
     [(''reservationId'', JString ''res_1''), (''amountAtomic'', JString ''100''), (''actualSpendAtomic'', JString ''0''),
      (''proofReference'', JString ''receipt:1''), (''reason'', JString ''reverted''), (''credentialId'', JString ''cred_1''),
      (''componentId'', JString ''reconciler_1''), (''componentRole'', JString ''RECONCILER''),
      (''authPayloadHash'', JString revertHash), (''authenticationMethod'', JString ''ed25519''),
      (''attemptId'', JString ''attempt_1''), (''leaseVersion'', JNumber (jsInt 2))]"

definition resolvedInput :: audit_input where
  "resolvedInput = correlatedInput ''event_1:recovery:execution:recovery:resolved:attempt_1'' ''worker'' ''reconciler_1''
     (replicate 32 (CHR ''a'')) (sampleCorrelation ''res_1'' ''op_1'') ''execution.recovery.resolved''
     [(''reservationId'', JString ''res_1''), (''amountAtomic'', JString ''100''), (''attemptId'', JString ''attempt_1''),
      (''leaseVersion'', JNumber (jsInt 2)), (''recoveryOutcome'', JString ''FAILED''), (''resolutionHash'', JString revertHash),
      (''reason'', JString ''reverted''), (''credentialId'', JString ''cred_1''), (''componentId'', JString ''reconciler_1''),
      (''componentRole'', JString ''RECONCILER''), (''authPayloadHash'', JString revertHash),
      (''authenticationMethod'', JString ''ed25519'')]"

definition resolvedData :: "(string \<times> jsval) list" where
  "resolvedData =
     [(''reservationId'', JString ''res_1''), (''amountAtomic'', JString ''100''), (''reason'', JString ''reverted''),
      (''credentialId'', JString ''cred_1''), (''componentId'', JString ''reconciler_1''), (''componentRole'', JString ''RECONCILER''),
      (''authPayloadHash'', JString revertHash), (''authenticationMethod'', JString ''ed25519''),
      (''attemptId'', JString ''attempt_1''), (''leaseVersion'', JNumber (jsInt 2)), (''recoveryOutcome'', JString ''FAILED''),
      (''resolutionHash'', JString revertHash)]"

lemma released_logs: "logs markExternals releasedInput 1 None releasedData ZERO_HASH"
  by code_simp

lemma resolved_logs: "logs markExternals resolvedInput 2 (Some ZERO_HASH) resolvedData (''0x'' @ replicate 64 (CHR ''1''))"
  by code_simp

lemma revert_hash:
  "componentAuthPayloadHash markExternals ''recovery.resolve'' (the (ac_componentAuth sampleAudit))
     (recoveryPayload (sampleResolution FAILED) (Some sampleEvidence)) = revertHash"
  by code_simp

lemma released_event:
  "writeRecoveryAudit markExternals sampleAudit ''budget.reservation.released'' ((mapReservation sampleReservation)\<lparr>rs_status := RELEASED\<rparr>)
     (sampleCorrelation ''res_1'' ''op_1'') (sampleAuthenticated revertHash)
     [(''attemptId'', JString ''attempt_1''), (''leaseVersion'', JNumber (jsInt 2)), (''reason'', JString ''reverted''),
      (''proofReference'', JString ''receipt:1''), (''actualSpendAtomic'', JString ''0'')]
   = appendAuditEvent markExternals releasedInput"
  by (simp add: writeRecoveryAudit_def releasedInput_def sampleAudit_def recoveryEventId_def dotsToColons_def eventData_def
      spread_def sample_snapshot sampleAuthenticated_def authenticatedData_def)

lemma resolved_event:
  "writeRecoveryAudit markExternals sampleAudit ''execution.recovery.resolved'' ((mapReservation sampleReservation)\<lparr>rs_status := RELEASED\<rparr>)
     (sampleCorrelation ''res_1'' ''op_1'') (sampleAuthenticated revertHash)
     [(''attemptId'', JString ''attempt_1''), (''leaseVersion'', JNumber (jsInt 2)), (''recoveryOutcome'', JString ''FAILED''),
      (''resolutionHash'', JString revertHash), (''reason'', JString ''reverted'')]
   = appendAuditEvent markExternals resolvedInput"
  by (simp add: writeRecoveryAudit_def resolvedInput_def sampleAudit_def recoveryEventId_def dotsToColons_def eventData_def
      spread_def sample_snapshot sampleAuthenticated_def authenticatedData_def)

lemma sample_revert:
  "\<exists>s d'. resolveRecovery markExternals sampleEnv sampleAudit (sampleResolution FAILED) sampleDb = (Inr s, d')
     \<and> rs_status s = RELEASED \<and> budget_accounts d' = [returnFunds 100 sampleAccount]"
proof -
  let ?d1 = "sampleDb\<lparr>budget_accounts := [returnFunds 100 sampleAccount], budget_reservations := [sampleReservation\<lparr>br_status := RELEASED\<rparr>]\<rparr>"
  let ?attempt = "\<lparr>at_attempt_id = ''attempt_1'', at_operation_id = ''op_1'', at_reservation_id = ''res_1'', at_lease_version = 2,
    at_credential_id = ''cred_1'', at_outcome = FAILED, at_resolution_hash = revertHash, at_reason = ''reverted'',
    at_actual_spend_atomic = Some 0, at_proof_reference = Some ''receipt:1''\<rparr>"
  obtain row1 where row1: "appendAuditEvent markExternals releasedInput sampleServer ?d1 = Inr ((), ?d1\<lparr>audit_events := [row1]\<rparr>)"
    "ar_event row1 = (loggedEvent releasedInput 1 None releasedData)\<lparr>ev_data := storedData releasedData, ev_eventHash := ZERO_HASH\<rparr>"
    by (rule first_append [OF released_logs, of ?d1]) (simp_all add: sample_tables)
  let ?d2 = "?d1\<lparr>audit_events := [row1], recovery_attempts := [?attempt],
    recovery_leases := [sampleLease\<lparr>le_lease_state := LeaseResolved\<rparr>]\<rparr>"
  have "ZERO_HASH \<noteq> ''0x'' @ replicate 64 (CHR ''1'')" by code_simp
  moreover have "ev_eventId (loggedEvent releasedInput 1 None releasedData) \<noteq> ai_eventId resolvedInput" by code_simp
  ultimately obtain row2 where row2: "appendAuditEvent markExternals resolvedInput sampleServer ?d2 = Inr ((), ?d2\<lparr>audit_events := [row1, row2]\<rparr>)"
    using row1(2) second_append [OF resolved_logs, of ?d2 row1]
    by (auto simp: loggedEvent_def releasedInput_def resolvedInput_def correlatedInput_def)
  have input: "rr_reservationId (sampleResolution FAILED) = ''res_1''" "rr_operationId (sampleResolution FAILED) = ''op_1''"
    "rr_attemptId (sampleResolution FAILED) = ''attempt_1''" "rr_leaseVersion (sampleResolution FAILED) = ''2''"
    "rr_outcome (sampleResolution FAILED) = FAILED" "rr_verifiedRevert (sampleResolution FAILED)"
    "rr_proofReference (sampleResolution FAILED) = Some ''receipt:1''" "rr_reason (sampleResolution FAILED) = ''reverted''"
    "rr_actualSpendAtomic (sampleResolution FAILED) = Some ''0''"
    by (simp_all add: sampleResolution_def)
  have verify: "ed25519Verify markExternals = ed25519Verify sampleExternals" by (simp add: markExternals_def)
  have live: "leaseLive (sampleResolution FAILED) (sampleAuthenticated revertHash) (sv_nodeClock sampleServer) (Some sampleLease)"
    by (simp add: leaseLive_def input sampleLease_def sampleServer_def sampleAuthenticated_def sample_numbers)
  have tables: "rowWith at_attempt_id k (recovery_attempts sampleDb) = None"
    "rowWith le_operation_id ''op_1'' (recovery_leases sampleDb) = Some sampleLease" for k by (simp_all add: sample_defs)
  have outcome: "resolveOutcome markExternals sampleAudit (sampleResolution FAILED) (Some ''0'') (mapReservation sampleReservation)
      (sampleCorrelation ''res_1'' ''op_1'') (Some sampleEvidence) (sampleAuthenticated revertHash) sampleServer sampleDb
      = Inr ((mapReservation sampleReservation)\<lparr>rs_status := RELEASED\<rparr>, ?d1\<lparr>audit_events := [row1]\<rparr>)"
    using row1(1) released_event
    by (simp cong: lazy_run add: resolveOutcome_def resolveReverted_def resolveReleased_def leaseData_def sample_run input)
  have attempt: "recordAttempt (sampleResolution FAILED) (Some ''0'') (sampleAuthenticated revertHash) sampleServer (?d1\<lparr>audit_events := [row1]\<rparr>)
      = Inr ((), ?d2)"
    by (simp cong: lazy_run add: recordAttempt_def insertAttempt_def run_defs input sample_numbers sampleAuthenticated_fields sample_updates(3))
      (simp add: sample_defs)
  have "resolveWork markExternals sampleAudit (sampleResolution FAILED) (Some ''0'') sampleServer sampleDb
      = Inr ((mapReservation sampleReservation)\<lparr>rs_status := RELEASED\<rparr>, ?d2\<lparr>audit_events := [row1, row2]\<rparr>)"
    using outcome attempt row2 resolved_event
    by (simp cong: lazy_run add: resolveWork_def sample_run input sample_authenticates [OF verify] revert_hash live tables leaseData_def
        sampleAuthenticated_fields outcomeName.simps)
  moreover have "parseAtomic ''0'' False = Inr ''0''" by code_simp
  ultimately show ?thesis using transaction_run by (fastforce simp: resolveRecovery_def truthy_def input andThen_def)
qed

end
