(* ===== verification/AuthoritySample.thy ===== *)
theory AuthoritySample
  imports AuthorityLedger LedgerSample
begin

text \<open>
  A small database with an approved request, a held reservation and an envelope, and sample calls
  of the approval and control services on it, run in the kernel.
\<close>

section \<open>Tables\<close>

definition noHash :: string where
  "noHash = ''0x'' @ replicate 64 (CHR ''0'')"

definition sampleFences :: fence_snapshot where
  "sampleFences =
     \<lparr>fs_systemFenceVersion = 1, fs_systemState = ''ACTIVE'', fs_ownerFenceVersion = 1, fs_ownerState = ''ACTIVE'',
      fs_agentFenceVersion = 1, fs_agentState = ''ACTIVE'', fs_policyFenceVersion = 1, fs_policyState = ''ACTIVE''\<rparr>"

definition sampleApproval :: approval_request_row where
  "sampleApproval =
     \<lparr>ap_approval_id = ''approval_1'', ap_operation_id = ''op_1'', ap_reservation_id = ''reservation_1'', ap_envelope_id = ''env_1'',
      ap_envelope_revision = 1, ap_envelope_hash = noHash, ap_policy_decision_id = ''decision_1'', ap_policy_decision_hash = noHash,
      ap_policy_id = ''policy_1'', ap_policy_version = 1, ap_approver_id = Some ''owner_1'', ap_issued_at = 1779999000000,
      ap_expires_at = 1780000600000, ap_nonce = ''nonce_1'', ap_status = APPROVED_A, ap_approved_at = Some 1779999500000,
      ap_rejected_at = None, ap_expired_at = None, ap_revoked_at = None, ap_consumed_at = None, ap_reason = None,
      ap_fences = sampleFences\<rparr>"

definition heldReservation :: budget_reservation where
  "heldReservation = sampleReservation\<lparr>br_reservation_id := ''reservation_1'', br_status := HELD\<rparr>"

definition authorityDb :: "lifecycle_state \<Rightarrow> decision \<Rightarrow> approval_request_row list \<Rightarrow> db" where
  "authorityDb state decision approvals = sampleDb
     \<lparr>operations := [(sampleOperation ''op_1'')\<lparr>op_current_state := state\<rparr>], budget_reservations := [heldReservation],
      broadcast_evidence := [], recovery_leases := [],
      execution_envelopes := [\<lparr>en_envelope_id = ''env_1'', en_operation_id = ''op_1'', en_revision = 1, en_envelope_hash = noHash,
        en_payload = sampleEnvelope sampleArguments\<rparr>],
      policy_decisions := [\<lparr>dr_decision_id = ''decision_1'', dr_operation_id = ''op_1'', dr_policy_id = ''policy_1'',
        dr_policy_version = 1, dr_decision_hash = noHash, dr_decision = decision, dr_created_at = 1779998000000\<rparr>],
      approval_requests := approvals\<rparr>"

definition approvedDb :: db where
  "approvedDb = authorityDb AWAITING_APPROVAL REQUIRE_APPROVAL [sampleApproval]"

text \<open>
  A digest that numbers some texts: the digit of the place of the text in a list. The samples number
  the texts of the audit events that they append, so that the hashes of these differ.
\<close>

definition digit :: "nat \<Rightarrow> char" where
  "digit i = (if i < 10 then ''0123456789'' ! i else CHR ''0'')"

definition numberedDigest :: "string list \<Rightarrow> string \<Rightarrow> string" where
  "numberedDigest texts b = replicate 64 (digit (length (takeWhile (\<lambda>t. t \<noteq> b) texts)))"

definition numberedExternals :: "string list \<Rightarrow> externals" where
  "numberedExternals texts = sampleExternals\<lparr>sha256Hex := numberedDigest texts\<rparr>"

definition hashOf :: "nat \<Rightarrow> string" where
  "hashOf i = ''0x'' @ replicate 64 (digit i)"

definition preimageOf :: "audit_event \<Rightarrow> string" where
  "preimageOf e = utf8 AUDIT_EVENT_HASH_DOMAIN @ utf8 (the (canonicalizeAuditEvent e))"

lemma numbered_hash:
  assumes "list_all jsonEvent events" "distinct (map ev_sequence events)" "i < length events"
  shows "hashAuditEvent (numberedExternals (map preimageOf events)) (events ! i) = Inr (hashOf i)"
proof -
  have some: "canonicalizeAuditEvent e \<noteq> None" if "jsonEvent e" for e
    using that canonicalize_text by (simp add: jsonEvent_def canonicalizeAuditEvent_def canonicalizeIdempotencyPayload_def)
  have "preimageOf (events ! j) \<noteq> preimageOf (events ! i)" if "j < i" for j
  proof
    assume "preimageOf (events ! j) = preimageOf (events ! i)"
    moreover have json: "jsonEvent (events ! j)" "jsonEvent (events ! i)" using assms(1,3) that by (auto simp: list_all_length)
    ultimately have "canonicalizeAuditEvent (events ! j) = canonicalizeAuditEvent (events ! i)"
      using some [OF json(1)] some [OF json(2)] by (auto simp: preimageOf_def dest: utf8_inject)
    then have "ev_sequence (events ! j) = ev_sequence (events ! i)"
      using eventContent_links(1) [OF json] eventContent_eq [OF json] by blast
    with assms(2,3) that show False by (auto simp: distinct_conv_nth)
  qed
  then have "length (takeWhile (\<lambda>t. t \<noteq> preimageOf (events ! i)) (map preimageOf events)) = i"
    using assms(3) by (subst takeWhile_eq_take_P_nth [of i]) auto
  then show ?thesis
    using some [of "events ! i"] assms(1,3)
    by (auto simp: hashAuditEvent_def numberedExternals_def numberedDigest_def hashOf_def preimageOf_def ofOption_def list_all_length)
qed

section \<open>The envelope and the fences\<close>

lemma numberedExternals_hex: "''0x'' @ bytesToHex (numberedExternals texts) (keccak_256 (numberedExternals texts) b) = noHash"
  by (simp add: numberedExternals_def sampleExternals_defs noHash_def)

lemma sampleEnvelope_accepted:
  "canonicalExecutionEnvelopeSchema (numberedExternals texts) (sampleEnvelope sampleArguments) = Some (sampleEnvelope sampleArguments)"
  "hashExecutionEnvelope (numberedExternals texts) (sampleEnvelope sampleArguments) = Some noHash"
proof -
  have "utcSecondSchema (numberedExternals texts) = utcSecondSchema sampleExternals"
    by (simp add: fun_eq_iff utcSecondSchema_def numberedExternals_def)
  then have "envelopeV1Shape (numberedExternals texts) = envelopeV1Shape sampleExternals" "envelopeV2Shape (numberedExternals texts) = envelopeV2Shape sampleExternals"
    by (simp_all only: envelopeV1Shape_def envelopeV2Shape_def)
  then have same: "parseExecutionEnvelope (numberedExternals texts) = parseExecutionEnvelope sampleExternals"
    unfolding parseExecutionEnvelope_union fun_eq_iff canonicalExecutionEnvelopeSchema_def canonicalExecutionEnvelopeV1Schema_def
      canonicalExecutionEnvelopeV2Schema_def by (simp cong: option.case_cong)
  then show "canonicalExecutionEnvelopeSchema (numberedExternals texts) (sampleEnvelope sampleArguments) = Some (sampleEnvelope sampleArguments)"
    using sampleEnvelope_parses(1) by (simp add: parseExecutionEnvelope_union)
  show "hashExecutionEnvelope (numberedExternals texts) (sampleEnvelope sampleArguments) = Some noHash"
    using hash_parsed [OF _ sampleEnvelope_wf(1)] same sampleEnvelope_parses(1) numberedExternals_hex by simp
qed

text \<open>The fences are there already, so locking them reads them.\<close>

lemma ensureFence_present:
  assumes "rowWith fenceKey (scopeType, scopeId) (control_fences d) = Some f"
    "scopeType = POLICY_SCOPE \<Longrightarrow> map_option pl_status (rowWith pl_policy_id scopeId (policies d)) = Some PolicyActive"
  shows "ensureFence scopeType scopeId sv d = Inr (f, d)"
  using assms by (cases "scopeType = POLICY_SCOPE") (auto cong: lazy_run simp: ensureFence_def insertFence_def run_defs)

lemma lock_sample:
  assumes "control_fences d = control_fences sampleDb" "policies d = policies sampleDb"
  shows "lockControlFences ''owner_1'' ''agent_1'' ''policy_1'' sv d = Inr (sampleFences, d)"
proof -
  have "ensureFence SYSTEM_SCOPE ''system'' sv d = Inr (sampleFence SYSTEM_SCOPE ''system'', d)"
    "ensureFence OWNER_SCOPE ''owner_1'' sv d = Inr (sampleFence OWNER_SCOPE ''owner_1'', d)"
    "ensureFence AGENT_SCOPE ''agent_1'' sv d = Inr (sampleFence AGENT_SCOPE ''agent_1'', d)"
    "ensureFence POLICY_SCOPE ''policy_1'' sv d = Inr (sampleFence POLICY_SCOPE ''policy_1'', d)"
    by (rule ensureFence_present; use assms in \<open>simp add: sample_defs fenceKey_def\<close>)+
  then show ?thesis by (simp add: lockControlFences_def run_defs sampleFences_def sampleFence_def)
qed

section \<open>Consuming an approval\<close>


definition approvedRow :: approval_row where
  "approvedRow =
     \<lparr>cm_operation_id = ''op_1'', cm_reservation_id = ''reservation_1'', cm_envelope_id = ''env_1'', cm_envelope_revision = 1,
      cm_envelope_hash = noHash, cm_policy_decision_id = ''decision_1'', cm_policy_decision_hash = noHash,
      cm_policy_id = ''policy_1'', cm_policy_version = 1, cm_current_state = AWAITING_APPROVAL, cm_intent_id = ''intent_1'',
      cm_agent_id = ''agent_1'', cm_wallet_id = ''wallet_1'', cm_owner_id = ''owner_1'',
      cm_policy_decision_status = REQUIRE_APPROVAL, cm_persisted_decision_hash = noHash, cm_decision_policy_id = ''policy_1'',
      cm_decision_policy_version = 1, cm_persisted_envelope_hash = noHash, cm_persisted_envelope_revision = 1,
      cm_envelope_payload = sampleEnvelope sampleArguments, cm_latest_revision = 1, cm_reservation_status = HELD,
      cm_reservation_expires_at = 1790000000000, cm_budget_id = ''budget_1'', cm_amount_atomic = 100,
      cm_policy_status = PolicyActive, cm_fences = sampleFences, cm_current_fences = sampleFences,
      av_approval_id = ''approval_1'', av_approver_id = Some ''owner_1'', av_issued_at = 1779999000000,
      av_expires_at = 1780000600000, av_nonce = ''nonce_1'', av_status = APPROVED_A, av_approved_at = Some 1779999500000,
      av_rejected_at = None, av_expired_at = None, av_revoked_at = None, av_consumed_at = None, av_reason = None\<rparr>"

lemmas authority_defs = approvedDb_def authorityDb_def sampleApproval_def heldReservation_def sample_defs

lemma approved_select: "approvalSelect ''approval_1'' approvedDb = Some (approvedRow\<lparr>cm_current_fences := noFences\<rparr>)"
  by (simp add: approvalSelect_def commonSelect_def rowWhere_def latestRevision_def approval_row.defs common_row.defs
      approvedRow_def authority_defs)

lemma approved_load: "loadApproval ''approval_1'' sv approvedDb = Inr (approvedRow, approvedDb)"
proof -
  have "control_fences approvedDb = control_fences sampleDb" "policies approvedDb = policies sampleDb"
    by (simp_all add: approvedDb_def authorityDb_def)
  from lock_sample [OF this] approved_select show ?thesis
    by (simp cong: lazy_run add: loadApproval_def run_defs) (simp add: approvedRow_def run_defs)
qed

lemma envelope_fields:
  "getProp (sampleEnvelope sampleArguments) ''envelopeHash'' = JString noHash"
  "getProp (sampleEnvelope sampleArguments) ''intentId'' = JString ''intent_1''"
  "getProp (sampleEnvelope sampleArguments) ''agentId'' = JString ''agent_1''"
  "getProp (sampleEnvelope sampleArguments) ''walletId'' = JString ''wallet_1''"
  "getProp (sampleEnvelope sampleArguments) ''policyId'' = JString ''policy_1''"
  "getProp (sampleEnvelope sampleArguments) ''policyVersion'' = JNumber (jsInt 1)"
  "getProp (sampleEnvelope sampleArguments) ''policyDecisionHash'' = JString noHash"
  "getProp (sampleEnvelope sampleArguments) ''budgetReservationId'' = JString ''reservation_1''"
  "getProp (sampleEnvelope sampleArguments) ''envelopeId'' = JString ''env_1''"
  "getProp (sampleEnvelope sampleArguments) ''revision'' = JNumber (jsInt 1)"
  by (simp_all add: sampleEnvelope_def sampleHashText_def noHash_def)

lemma approved_envelope:
  "persistedEnvelope (numberedExternals texts) approvedRow = Inr (sampleEnvelope sampleArguments)"
  "assertCommonBinding (numberedExternals texts) approvedRow = Inr (sampleEnvelope sampleArguments)"
proof -
  show 1: "persistedEnvelope (numberedExternals texts) approvedRow = Inr (sampleEnvelope sampleArguments)"
    using sampleEnvelope_accepted by (simp add: persistedEnvelope_def approvedRow_def envelope_fields result_simps ofOption_def require_def)
  show "assertCommonBinding (numberedExternals texts) approvedRow = Inr (sampleEnvelope sampleArguments)"
    unfolding assertCommonBinding_def 1
    by (simp add: envelopeBound_def claimsPersisted_def envelope_fields approvedRow_def require_def)
qed

definition sampleConsume :: consume_approval_request where
  "sampleConsume =
     \<lparr>nq_approvalId = ''approval_1'', nq_operationId = ''op_1'', nq_envelopeId = ''env_1'', nq_envelopeRevision = Some 1,
      nq_envelopeHash = noHash, nq_consumerId = ''executor_1'', nq_now = None, nq_audit = sampleAudit\<rparr>"

lemma sample_consume_parameters: "consumeParameters 1780000000000 sampleConsume = Inr 1780000000000"
  by code_simp

definition grantedEvidence :: authorization_row where
  "grantedEvidence = consumedEvidence approvedRow (sampleEnvelope sampleArguments) ''executor_1'' 1780000000000"

definition consumedRow :: approval_row where
  "consumedRow = approvedRow\<lparr>av_status := CONSUMED_A, av_consumed_at := Some 1780000000000, cm_current_state := AUTHORIZED,
                    cm_reservation_status := AUTHORIZED_R\<rparr>"

text \<open>The data of the three events, as they are passed and as they are logged.\<close>

definition boundInput ::
  "jsval \<Rightarrow> string \<Rightarrow> string \<Rightarrow> string \<Rightarrow> string \<Rightarrow> (string \<times> jsval) list \<Rightarrow> audit_input" where
  "boundInput approval issued expires suffix eventType data = correlatedInput (''event_1:'' @ suffix) ''service'' ''ledger''
     (replicate 32 (CHR ''a'')) (sampleCorrelation ''reservation_1'' ''op_1'') eventType
     (spread (spread ([(''reservationId'', JString ''reservation_1''), (''approvalId'', approval),
        (''envelopeId'', JString ''env_1''), (''envelopeRevision'', JNumber (jsInt 1)), (''envelopeHash'', JString noHash),
        (''policyDecisionId'', JString ''decision_1''), (''policyDecisionHash'', JString noHash), (''policyVersion'', JNumber (jsInt 1)),
        (''issuedAt'', JString issued), (''expiresAt'', JString expires)] @ fenceData sampleFences) data)
        [(''reservationId'', JString ''reservation_1'')])"

definition boundLogged ::
  "jsval \<Rightarrow> string \<Rightarrow> string \<Rightarrow> (string \<times> jsval) list \<Rightarrow> (string \<times> jsval) list \<Rightarrow> (string \<times> jsval) list
     \<Rightarrow> (string \<times> jsval) list \<Rightarrow> (string \<times> jsval) list" where
  "boundLogged approval issued expires authorization approver occasion decision =
     [(''reservationId'', JString ''reservation_1''), (''approvalId'', approval)] @ authorization @
     [(''envelopeId'', JString ''env_1''), (''envelopeRevision'', JNumber (jsInt 1)), (''policyDecisionId'', JString ''decision_1''),
      (''policyDecisionHash'', JString noHash), (''policyVersion'', JNumber (jsInt 1))] @ approver @
     [(''issuedAt'', JString issued), (''expiresAt'', JString expires)] @ occasion @
     [(''envelopeHash'', JString noHash)] @ decision @ fenceData sampleFences"

definition grantInput :: "string \<Rightarrow> string \<Rightarrow> (string \<times> jsval) list \<Rightarrow> audit_input" where
  "grantInput = boundInput (JString ''approval_1'') ''2026-05-28T20:10:00Z'' ''2026-05-28T20:36:40Z''"

definition grantLogged :: "(string \<times> jsval) list \<Rightarrow> (string \<times> jsval) list \<Rightarrow> (string \<times> jsval) list \<Rightarrow> (string \<times> jsval) list" where
  "grantLogged authorization approver occasion =
     boundLogged (JString ''approval_1'') ''2026-05-28T20:10:00Z'' ''2026-05-28T20:36:40Z'' authorization approver occasion []"

lemma sample_seconds:
  "isoSecond 1779999000000 = ''2026-05-28T20:10:00Z''" "isoSecond 1780000600000 = ''2026-05-28T20:36:40Z''"
  "isoSecond 1780000000000 = ''2026-05-28T20:26:40Z''"
  by code_simp+

lemma grant_event:
  "append_approval X consumedRow sampleAudit eventType suffix data sv d = appendAuditEvent X (grantInput suffix eventType data) sv d"
proof -
  have "assertApprovalCorrelation sampleAudit c = Inr ()" for c
    by (simp add: assertApprovalCorrelation_def sampleAudit_def require_def)
  moreover have "operationCorrelation consumedRow = sampleCorrelation ''reservation_1'' ''op_1''"
    by (simp add: operationCorrelation_def consumedRow_def approvedRow_def sampleCorrelation_def)
  ultimately show ?thesis
    by (simp add: append_approval_def appendBound_def grantInput_def boundInput_def run_defs)
      (simp add: consumedRow_def approvedRow_def sampleAudit_def bindingData_def sample_seconds)
qed

text \<open>The events of one operation, one after the other: each is the next of the chain and takes no key.\<close>

lemma next_append:
  assumes logs: "logs X input n previous data h"
    and rows: "audit_events d = rows" "list_all (\<lambda>row. ev_operationId (ar_event row) = ai_operationId input
        \<and> ev_sequence (ar_event row) \<noteq> n \<and> ev_eventHash (ar_event row) \<noteq> h \<and> ev_eventId (ar_event row) \<noteq> ai_eventId input) rows"
    and latest: "latestEvent (map ar_event rows) = e" "(case e of None \<Rightarrow> 0 | Some e \<Rightarrow> ev_sequence e) + 1 = n"
      "previous = map_option ev_eventHash e"
  obtains row where "appendAuditEvent X input sampleServer d = Inr ((), d\<lparr>audit_events := rows @ [row]\<rparr>)"
    "ev_operationId (ar_event row) = ai_operationId input" "ev_sequence (ar_event row) = n" "ev_eventHash (ar_event row) = h"
    "ev_eventId (ar_event row) = ai_eventId input"
proof -
  from logs obtain oid where oid: "ai_operationId input = Some oid" by (auto simp: logs_def)
  have "filter (\<lambda>e. ev_operationId e = Some oid) (map ar_event rows) = map ar_event rows"
    using rows(2) oid by (auto simp: filter_id_conv list_all_iff)
  then have "\<exists>row. appendAuditEvent X input sampleServer d = Inr ((), d\<lparr>audit_events := audit_events d @ [row]\<rparr>)
      \<and> ar_event row = (loggedEvent input n previous data)\<lparr>ev_data := storedData data, ev_eventHash := h\<rparr>"
    using logs oid rows latest
    by (intro append_succeeds [where previous = e])
      (auto simp: logs_def loggedEvent_def sampleServer_def sampleServer_time auditKeyTaken_def list_all_iff Let_def)
  then show ?thesis using rows(1) by (auto simp: loggedEvent_def intro!: that)
qed

definition budgetInput :: audit_input where
  "budgetInput = grantInput ''authorized-budget'' ''budget.reservation.authorized'' []"

definition consumedInput :: audit_input where
  "consumedInput = grantInput ''consumed'' ''approval.consumed''
     [(''authorizationId'', JString ''approval_1:authorization''), (''approverId'', JString ''owner_1''),
      (''consumerId'', JString ''executor_1''), (''consumptionNonce'', JString ''nonce_1:consumed''),
      (''authorizedAt'', JString ''2026-05-28T20:26:40Z''), (''consumedAt'', JString ''2026-05-28T20:26:40Z'')]"

definition stateInput :: audit_input where
  "stateInput = grantInput ''authorized-operation'' ''operation.state.changed''
     (stateChange AWAITING_APPROVAL AUTHORIZED @ [(''authorizationId'', JString ''approval_1:authorization'')])"

definition authorizationField :: "(string \<times> jsval) list" where
  "authorizationField = [(''authorizationId'', JString ''approval_1:authorization'')]"

definition consumedFields :: "(string \<times> jsval) list" where
  "consumedFields =
     [(''authorizedAt'', JString ''2026-05-28T20:26:40Z''), (''consumedAt'', JString ''2026-05-28T20:26:40Z''),
      (''consumptionNonce'', JString ''nonce_1:consumed''), (''consumerId'', JString ''executor_1'')]"

definition grantEvents :: "audit_event list" where
  "grantEvents =
     [loggedEvent budgetInput 1 None (grantLogged [] [] []),
      loggedEvent consumedInput 2 (Some (hashOf 0))
        (grantLogged authorizationField [(''approverId'', JString ''owner_1'')] consumedFields),
      loggedEvent stateInput 3 (Some (hashOf 1))
        (grantLogged authorizationField [] [(''state'', JString ''AUTHORIZED''), (''previousState'', JString ''AWAITING_APPROVAL'')])]"

lemma budget_data: "auditDataSchema sampleExternals (ai_data budgetInput) = Some (grantLogged [] [] [])"
  by code_simp

lemma consumed_data:
  "auditDataSchema sampleExternals (ai_data consumedInput) =
     Some (grantLogged authorizationField [(''approverId'', JString ''owner_1'')] consumedFields)"
  by code_simp

lemma state_data:
  "auditDataSchema sampleExternals (ai_data stateInput) = Some (grantLogged authorizationField []
     [(''state'', JString ''AUTHORIZED''), (''previousState'', JString ''AWAITING_APPROVAL'')])"
  by code_simp

lemmas grant_data = budget_data consumed_data state_data

lemma schemas_numbered:
  "auditDataSchema (numberedExternals texts) = auditDataSchema sampleExternals"
  "auditEventSchema (numberedExternals texts) = auditEventSchema sampleExternals"
proof -
  have time: "utcSecondSchema (numberedExternals texts) = utcSecondSchema sampleExternals"
    by (simp add: fun_eq_iff utcSecondSchema_def numberedExternals_def)
  then have "auditDataShape (numberedExternals texts) = auditDataShape sampleExternals"
    by (simp only: auditDataShape_def)
  then show data: "auditDataSchema (numberedExternals texts) = auditDataSchema sampleExternals"
    unfolding fun_eq_iff auditDataSchema_def by simp
  show "auditEventSchema (numberedExternals texts) = auditEventSchema sampleExternals"
    unfolding fun_eq_iff auditEventSchema_def data time by simp
qed

lemma operation_event_schema:
  assumes "auditDataSchema X (ev_data e) = Some data" "auditEventSchema X (e\<lparr>ev_data := []\<rparr>) \<noteq> None"
    "ev_eventType e \<notin> set controlEventTypes" "map_of requiredData (ev_eventType e) = None"
  shows "auditEventSchema X e = Some (e\<lparr>ev_data := data\<rparr>)"
  using assms by (auto simp: auditEventSchema_def eventRefinement_def simp del: getProp.simps split: if_splits option.splits)

lemma numbered_logs:
  assumes data: "auditDataSchema sampleExternals (ai_data input) = Some data"
    and input: "ai_operationId input \<noteq> None" "ai_eventType input \<notin> set controlEventTypes" "map_of requiredData (ai_eventType input) = None"
      "auditEventSchema sampleExternals (loggedEvent input n previous []) \<noteq> None"
    and events: "list_all jsonEvent events" "distinct (map ev_sequence events)" "i < length events" "events ! i = loggedEvent input n previous data"
  shows "logs (numberedExternals (map preimageOf events)) input n previous data (hashOf i)"
proof -
  let ?e = "loggedEvent input n previous data"
  have "auditEventSchema sampleExternals ?e = Some (?e\<lparr>ev_data := data\<rparr>)"
    by (rule operation_event_schema) (use auditDataSchema_again [OF data] input in \<open>simp_all add: loggedEvent_def\<close>)
  moreover have "?e\<lparr>ev_data := data\<rparr> = ?e" by (simp add: loggedEvent_def)
  ultimately show ?thesis
    using data input numbered_hash [OF events(1-3)] events(4) by (simp add: logs_def schemas_numbered)
qed

lemma grant_events: "list_all jsonEvent grantEvents" "distinct (map ev_sequence grantEvents)" "length grantEvents = 3"
  by code_simp (simp_all add: grantEvents_def loggedEvent_def)

definition grantExternals :: externals where
  "grantExternals = numberedExternals (map preimageOf grantEvents)"

lemma grant_headers:
  "auditEventSchema sampleExternals (loggedEvent budgetInput 1 None []) \<noteq> None"
  "auditEventSchema sampleExternals (loggedEvent consumedInput 2 (Some (hashOf 0)) []) \<noteq> None"
  "auditEventSchema sampleExternals (loggedEvent stateInput 3 (Some (hashOf 1)) []) \<noteq> None"
  by code_simp+

lemma grant_logs:
  "logs grantExternals budgetInput 1 None (grantLogged [] [] []) (hashOf 0)"
  "logs grantExternals consumedInput 2 (Some (hashOf 0))
     (grantLogged authorizationField [(''approverId'', JString ''owner_1'')] consumedFields) (hashOf 1)"
  "logs grantExternals stateInput 3 (Some (hashOf 1))
     (grantLogged authorizationField [] [(''state'', JString ''AUTHORIZED''), (''previousState'', JString ''AWAITING_APPROVAL'')]) (hashOf 2)"
  unfolding grantExternals_def
  by (rule numbered_logs [OF grant_data(1) _ _ _ grant_headers(1) grant_events(1,2), of 0]
      numbered_logs [OF grant_data(2) _ _ _ grant_headers(2) grant_events(1,2), of 1]
      numbered_logs [OF grant_data(3) _ _ _ grant_headers(3) grant_events(1,2), of 2];
      simp add: grant_events grantEvents_def budgetInput_def consumedInput_def stateInput_def grantInput_def boundInput_def correlatedInput_def
        sampleCorrelation_def controlEventTypes_def requiredData_def)+

text \<open>Three events of one operation, one after the other, whatever the other tables are.\<close>

lemma grant_appends:
  assumes "audit_events d = []"
  obtains rows where
    "append_approval grantExternals consumedRow sampleAudit ''budget.reservation.authorized'' ''authorized-budget'' [] sampleServer d
       = Inr ((), d\<lparr>audit_events := [rows 0]\<rparr>)"
    "append_approval grantExternals consumedRow sampleAudit ''approval.consumed'' ''consumed''
       [(''authorizationId'', JString ''approval_1:authorization''), (''approverId'', JString ''owner_1''),
        (''consumerId'', JString ''executor_1''), (''consumptionNonce'', JString ''nonce_1:consumed''),
        (''authorizedAt'', JString ''2026-05-28T20:26:40Z''), (''consumedAt'', JString ''2026-05-28T20:26:40Z'')] sampleServer (d\<lparr>audit_events := [rows 0]\<rparr>)
       = Inr ((), d\<lparr>audit_events := [rows 0, rows 1]\<rparr>)"
    "append_approval grantExternals consumedRow sampleAudit ''operation.state.changed'' ''authorized-operation''
       (stateChange AWAITING_APPROVAL AUTHORIZED @ [(''authorizationId'', JString ''approval_1:authorization'')]) sampleServer (d\<lparr>audit_events := [rows 0, rows 1]\<rparr>)
       = Inr ((), d\<lparr>audit_events := [rows 0, rows 1, rows (2::nat)]\<rparr>)"
proof -
  have ids: "ai_operationId budgetInput = Some ''op_1''" "ai_operationId consumedInput = Some ''op_1''" "ai_operationId stateInput = Some ''op_1''"
    "ai_eventId budgetInput = ''event_1:authorized-budget''" "ai_eventId consumedInput = ''event_1:consumed''" "ai_eventId stateInput = ''event_1:authorized-operation''"
    by (simp_all add: budgetInput_def consumedInput_def stateInput_def grantInput_def boundInput_def correlatedInput_def sampleCorrelation_def)
  have hashes: "hashOf 0 \<noteq> hashOf 1" "hashOf 0 \<noteq> hashOf 2" "hashOf 1 \<noteq> hashOf 2" by (simp_all add: hashOf_def digit_def)
  obtain r0 where r0: "appendAuditEvent grantExternals budgetInput sampleServer d = Inr ((), d\<lparr>audit_events := [] @ [r0]\<rparr>)"
    "ev_operationId (ar_event r0) = Some ''op_1''" "ev_sequence (ar_event r0) = 1" "ev_eventHash (ar_event r0) = hashOf 0"
    "ev_eventId (ar_event r0) = ''event_1:authorized-budget''"
    by (rule next_append [OF grant_logs(1) assms]) (simp_all add: ids latestEvent_def)
  let ?d1 = "d\<lparr>audit_events := [r0]\<rparr>"
  obtain r1 where r1: "appendAuditEvent grantExternals consumedInput sampleServer ?d1 = Inr ((), ?d1\<lparr>audit_events := [r0] @ [r1]\<rparr>)"
    "ev_operationId (ar_event r1) = Some ''op_1''" "ev_sequence (ar_event r1) = 2" "ev_eventHash (ar_event r1) = hashOf 1"
    "ev_eventId (ar_event r1) = ''event_1:consumed''"
    by (rule next_append [OF grant_logs(2), of ?d1 "[r0]" "Some (ar_event r0)"]) (simp_all add: ids latestEvent_def r0 hashes del: One_nat_def)
  let ?d2 = "d\<lparr>audit_events := [r0, r1]\<rparr>"
  obtain r2 where r2: "appendAuditEvent grantExternals stateInput sampleServer ?d2 = Inr ((), ?d2\<lparr>audit_events := [r0, r1] @ [r2]\<rparr>)"
    by (rule next_append [OF grant_logs(3), of ?d2 "[r0, r1]" "Some (ar_event r1)"]) (simp_all add: ids latestEvent_def r0 r1 hashes del: One_nat_def)
  show ?thesis
    using r0(1) r1(1) r2(1) by (intro that [of "\<lambda>i. [r0, r1, r2] ! i"])
      (simp_all add: grant_event budgetInput_def consumedInput_def stateInput_def eval_nat_numeral)
qed

lemma updateOne_run:
  "rowWith key k (table d) = Some r \<Longrightarrow> cond r \<Longrightarrow> tableUpdate (updateWith key k f) d = d' \<Longrightarrow>
     txUpdateOne tableUpdate table key k cond f sampleServer d = Inr (True, d')"
  by (simp add: txUpdateOne_Inr sampleServer_def)

lemma insert_run:
  "\<not> list_ex (clash row) (table d) \<Longrightarrow> tableUpdate (\<lambda>rows. rows @ [row]) d = d' \<Longrightarrow>
     txInsert tableUpdate table clash row sampleServer d = Inr ((), d')"
  by (simp add: txInsert_Inr sampleServer_def)

lemma approved_operation:
  "updateOperationFrom ''op_1'' [AWAITING_APPROVAL] AUTHORIZED sampleServer approvedDb
     = Inr (True, approvedDb\<lparr>operations := [sampleOperation ''op_1'']\<rparr>)"
  unfolding updateOperationFrom_def by (rule updateOne_run) (simp add: authority_defs)+

lemma approved_reservation:
  "updateReservationFrom ''reservation_1'' [HELD] AUTHORIZED_R sampleServer (approvedDb\<lparr>operations := ops\<rparr>)
     = Inr (True, approvedDb\<lparr>operations := ops, budget_reservations := [heldReservation\<lparr>br_status := AUTHORIZED_R\<rparr>]\<rparr>)"
  unfolding updateReservationFrom_def by (rule updateOne_run) (simp add: authority_defs setStatus_def)+

lemma sample_consume:
  "\<exists>d'. consumeApproval grantExternals sampleEnv 1780000000000 sampleConsume approvedDb = (Inr grantedEvidence, d')"
proof -
  let ?d1 = "approvedDb\<lparr>operations := [sampleOperation ''op_1''], budget_reservations := [heldReservation\<lparr>br_status := AUTHORIZED_R\<rparr>]\<rparr>"
  let ?d2 = "?d1\<lparr>authorization_evidence := [grantedEvidence],
    approval_requests := [sampleApproval\<lparr>ap_status := CONSUMED_A, ap_consumed_at := Some 1780000000000\<rparr>]\<rparr>"
  have held: "authorizeHeld approvedRow sampleServer approvedDb = Inr ((), ?d1)"
    using approved_operation approved_reservation by (simp add: authorizeHeld_def updateOperation_def run_defs approvedRow_def)
  have insert: "insertAuthorization grantedEvidence sampleServer ?d1 = Inr ((), ?d1\<lparr>authorization_evidence := [grantedEvidence]\<rparr>)"
    unfolding insertAuthorization_def by (rule insert_run) (simp_all add: authority_defs)
  have "txUpdateOne approval_requests_update approval_requests ap_approval_id ''approval_1'' (\<lambda>a. ap_status a = APPROVED_A)
      (\<lambda>a. a\<lparr>ap_status := CONSUMED_A, ap_consumed_at := Some 1780000000000\<rparr>)
      sampleServer (?d1\<lparr>authorization_evidence := [grantedEvidence]\<rparr>) = Inr (True, ?d2)"
    by (rule updateOne_run) (simp add: authority_defs)+
  then have consumed: "updateApproval ''approval_1'' (\<lambda>a. ap_status a = APPROVED_A)
      (\<lambda>a. a\<lparr>ap_status := CONSUMED_A, ap_consumed_at := Some 1780000000000\<rparr>)
      sampleServer (?d1\<lparr>authorization_evidence := [grantedEvidence]\<rparr>) = Inr ((), ?d2)"
    by (simp add: updateApproval_def run_defs)
  have "\<exists>decision. recordDecision consumedRow CONSUME_D ''owner_1'' 1780000000000 None sampleServer ?d2
      = Inr ((), ?d2\<lparr>approval_decisions := [decision]\<rparr>)"
    unfolding recordDecision_def insertApprovalDecision_def by (rule exI, rule insert_run) (simp_all add: authority_defs)
  then obtain decision where decision: "recordDecision consumedRow CONSUME_D ''owner_1'' 1780000000000 None sampleServer ?d2
      = Inr ((), ?d2\<lparr>approval_decisions := [decision]\<rparr>)" ..
  have "audit_events (?d2\<lparr>approval_decisions := [decision]\<rparr>) = []" by (simp add: authority_defs)
  then obtain rows where appends: "append_approval grantExternals consumedRow sampleAudit ''budget.reservation.authorized'' ''authorized-budget'' [] sampleServer
       (?d2\<lparr>approval_decisions := [decision]\<rparr>) = Inr ((), ?d2\<lparr>approval_decisions := [decision], audit_events := [rows 0]\<rparr>)"
    "append_approval grantExternals consumedRow sampleAudit ''approval.consumed'' ''consumed''
       [(''authorizationId'', JString ''approval_1:authorization''), (''approverId'', JString ''owner_1''),
        (''consumerId'', JString ''executor_1''), (''consumptionNonce'', JString ''nonce_1:consumed''),
        (''authorizedAt'', JString ''2026-05-28T20:26:40Z''), (''consumedAt'', JString ''2026-05-28T20:26:40Z'')] sampleServer
       (?d2\<lparr>approval_decisions := [decision], audit_events := [rows 0]\<rparr>) = Inr ((), ?d2\<lparr>approval_decisions := [decision], audit_events := [rows 0, rows 1]\<rparr>)"
    "append_approval grantExternals consumedRow sampleAudit ''operation.state.changed'' ''authorized-operation''
       (stateChange AWAITING_APPROVAL AUTHORIZED @ [(''authorizationId'', JString ''approval_1:authorization'')]) sampleServer
       (?d2\<lparr>approval_decisions := [decision], audit_events := [rows 0, rows 1]\<rparr>)
       = Inr ((), ?d2\<lparr>approval_decisions := [decision], audit_events := [rows 0, rows 1, rows (2::nat)]\<rparr>)"
    by (rule grant_appends)
  have row: "cm_operation_id approvedRow = ''op_1''" "cm_envelope_id approvedRow = ''env_1''" "cm_envelope_revision approvedRow = 1"
    "cm_envelope_hash approvedRow = noHash" "av_status approvedRow = APPROVED_A" "fencesAreActiveAndCurrent approvedRow"
    "av_issued_at approvedRow = 1779999000000" "av_expires_at approvedRow = 1780000600000" "cm_latest_revision approvedRow = 1"
    "cm_current_state approvedRow = AWAITING_APPROVAL" "cm_reservation_status approvedRow = HELD" "av_approval_id approvedRow = ''approval_1''"
    "av_approver_id approvedRow = Some ''owner_1''"
    by (simp_all add: approvedRow_def fencesAreActiveAndCurrent_def allActive_def sampleFences_def)
  have evidence: "az_authorization_id grantedEvidence = ''approval_1:authorization''" "az_consumption_nonce grantedEvidence = ''nonce_1:consumed''"
    by (simp_all add: grantedEvidence_def consumedEvidence_def approvedRow_def)
  have "consumeWork grantExternals sampleConsume 1780000000000 sampleServer approvedDb =
      Inr (Granted grantedEvidence, ?d2\<lparr>approval_decisions := [decision], audit_events := [rows 0, rows 1, rows 2]\<rparr>)"
    using approved_load [of sampleServer] approved_envelope held insert consumed decision appends
    by (simp cong: lazy_run add: consumeWork_def run_defs sampleConsume_def row secondOf_def grantExternals_def evidence sample_seconds
        nullableString_def flip: grantedEvidence_def consumedRow_def)
  then show ?thesis using transaction_run sample_consume_parameters by (fastforce simp: consumeApproval_def)
qed

section \<open>Revalidating, and pausing the system\<close>

text \<open>The tables after the approval was consumed, with the operation in a given state.\<close>

definition authorizedDb :: "lifecycle_state \<Rightarrow> db" where
  "authorizedDb state = approvedDb
     \<lparr>operations := [(sampleOperation ''op_1'')\<lparr>op_current_state := state\<rparr>],
      budget_reservations := [heldReservation\<lparr>br_status := AUTHORIZED_R\<rparr>],
      approval_requests := [sampleApproval\<lparr>ap_status := CONSUMED_A, ap_consumed_at := Some 1780000000000\<rparr>],
      authorization_evidence := [grantedEvidence]\<rparr>"

definition sampleProbe :: revalidate_request where
  "sampleProbe = \<lparr>rv_operationId = ''op_1'', rv_authorizationId = ''approval_1:authorization''\<rparr>"

lemma grantedEvidence_fields:
  "az_authorization_id grantedEvidence = ''approval_1:authorization''" "az_operation_id grantedEvidence = ''op_1''"
  "az_reservation_id grantedEvidence = ''reservation_1''" "az_expires_at grantedEvidence = 1780000600000" "az_fences grantedEvidence = sampleFences"
  by (simp_all add: grantedEvidence_def consumedEvidence_def approvedRow_def secondOf_def)

lemma sample_revalidate: "revalidateAuthorization sampleEnv sampleProbe (authorizedDb AUTHORIZED) = (Inr sampleFences, authorizedDb AUTHORIZED)"
proof -
  let ?d = "authorizedDb AUTHORIZED"
  have tables: "rowWith az_authorization_id ''approval_1:authorization'' (authorization_evidence ?d) = Some grantedEvidence"
    "rowWith op_operation_id ''op_1'' (operations ?d) = Some (sampleOperation ''op_1'')"
    "rowWith ag_agent_id ''agent_1'' (agents ?d) = Some \<lparr>ag_agent_id = ''agent_1'', ag_owner_id = ''owner_1''\<rparr>"
    "rowWith br_operation_id ''op_1'' (budget_reservations ?d) = Some (heldReservation\<lparr>br_status := AUTHORIZED_R\<rparr>)"
    "rowWith ba_budget_id ''budget_1'' (budget_accounts ?d) = Some sampleAccount"
    "rowWith iv_authorization_id k (authorization_invalidations ?d) = None" for k
    by (simp_all add: authorizedDb_def authority_defs grantedEvidence_fields)
  have lock: "lockControlFences ''owner_1'' ''agent_1'' ''policy_1'' sv ?d = Inr (sampleFences, ?d)" for sv
    by (rule lock_sample) (simp_all add: authorizedDb_def approvedDb_def authorityDb_def)
  have fields: "op_agent_id (sampleOperation ''op_1'') = ''agent_1''" "op_policy_id (sampleOperation ''op_1'') = ''policy_1''"
    "op_current_state (sampleOperation ''op_1'') = AUTHORIZED" "br_budget_id heldReservation = ''budget_1''"
    by (simp_all add: sampleOperation_def heldReservation_def sampleReservation_def)
  have "revalidateWork sampleProbe sampleServer ?d = Inr (sampleFences, ?d)"
    by (simp cong: lazy_run add: revalidateWork_def run_defs sampleProbe_def tables fields grantedEvidence_fields lock authorizationProbe_def)
      (simp add: sampleServer_def allActive_def sampleFences_def)
  moreover have "controlId ''op_1'' = Inr ()" "controlId ''approval_1:authorization'' = Inr ()" by code_simp+
  ultimately show ?thesis using transaction_run by (simp add: revalidateAuthorization_def sampleProbe_def)
qed

definition samplePause :: change_fence_request where
  "samplePause = \<lparr>cf_scopeType = SYSTEM_SCOPE, cf_scopeId = ''system'', cf_command = PAUSE, cf_audit = sampleAudit\<rparr>"

definition pausedFence :: fence_row where
  "pausedFence = \<lparr>fe_scope_type = SYSTEM_SCOPE, fe_scope_id = ''system'', fe_fence_version = 2, fe_state = ''PAUSED'',
      fe_last_control_event_id = Some ''event_1:fence:2''\<rparr>"

definition pauseInput :: audit_input where
  "pauseInput =
       \<lparr>ai_eventId = ''event_1:fence:2'', ai_actorType = ''service'', ai_actorId = ''ledger'', ai_traceId = replicate 32 (CHR ''a''),
        ai_reservationId = None, ai_ownerId = None, ai_agentId = None,
        ai_walletId = None, ai_intentId = None, ai_operationId = None, ai_policyId = None, ai_policyVersion = None,
        ai_eventType = ''system.paused'',
        ai_data = [(''scopeType'', JString ''SYSTEM''), (''scopeId'', JString ''system''),
          (''fenceVersion'', JNumber (jsInt 2)), (''controlState'', JString ''PAUSED''),
          (''previousControlState'', JString ''ACTIVE'')]\<rparr>"

definition pauseEvent :: audit_event where "pauseEvent = loggedEvent pauseInput 1 None (ai_data pauseInput)"

lemma pause_event:
 "auditDataSchema sampleExternals (ai_data pauseInput) = Some (ai_data pauseInput)"
 "auditEventSchema sampleExternals pauseEvent = Some pauseEvent"
 "hashAuditEvent sampleExternals pauseEvent = Inr ZERO_HASH"
 by code_simp+


lemma pause_append:
  assumes "audit_events d = []"
  obtains row where "appendAuditEvent sampleExternals pauseInput sampleServer d = Inr ((), d\<lparr>audit_events := [row]\<rparr>)"
proof -
  obtain payload where payload: "canonicalizeAuditEvent pauseEvent = Some payload"
    using pause_event(3) by (auto simp: hashAuditEvent_def result_simps)
  have event: "ai_eventType pauseInput \<in> set controlEventTypes" "ai_operationId pauseInput = None"
    by (simp_all add: pauseInput_def controlEventTypes_def)
  have "\<exists>row. appendAuditEvent sampleExternals pauseInput sampleServer d = Inr ((), audit_events_update (\<lambda>rows. rows @ [row]) d)"
    using pause_event payload event assms
    by (intro exI) (simp cong: lazy_run add: appendAuditEvent_def run_defs latestEvent_def computeAuditEventHash_def
        insertAuditRow_def pauseEvent_def loggedEvent_def sampleServer_def sampleServer_time)
  moreover have "audit_events_update (\<lambda>rows. rows @ [row]) d = d\<lparr>audit_events := [row]\<rparr>" for row using assms by (cases d) simp
  ultimately show ?thesis using that by auto
qed

lemma sample_pause:
  "\<exists>d'. changeControlFence sampleExternals sampleEnv samplePause (authorizedDb SIGNING) = (Inr (fenceResult True pausedFence), d')
     \<and> authorization_evidence d' = [grantedEvidence] \<and> operations d' = [(sampleOperation ''op_1'')\<lparr>op_current_state := SIGNING\<rparr>]
     \<and> agents d' = [\<lparr>ag_agent_id = ''agent_1'', ag_owner_id = ''owner_1''\<rparr>]"
proof -
  let ?d = "authorizedDb SIGNING"
  let ?d1 = "?d\<lparr>control_fences := [pausedFence, sampleFence OWNER_SCOPE ''owner_1'', sampleFence AGENT_SCOPE ''agent_1'', sampleFence POLICY_SCOPE ''policy_1'']\<rparr>"
  have "audit_events ?d1 = []" by (simp add: authorizedDb_def authority_defs)
  then obtain row where row: "appendAuditEvent sampleExternals pauseInput sampleServer ?d1 = Inr ((), ?d1\<lparr>audit_events := [row]\<rparr>)"
    by (rule pause_append)
  let ?d2 = "?d1\<lparr>audit_events := [row]\<rparr>"
  have none: "heldRows SYSTEM_SCOPE ''system'' ?d2 = []" "pendingRows SYSTEM_SCOPE ''system'' ?d2 = []"
    "authorizedRows SYSTEM_SCOPE ''system'' ?d2 = []"
    by (simp_all add: heldRows_def pendingRows_def authorizedRows_def heldStates_def activeApproval_def authorizedDb_def authority_defs)
  have fence: "ensureFence SYSTEM_SCOPE ''system'' sampleServer ?d = Inr (sampleFence SYSTEM_SCOPE ''system'', ?d)"
    by (rule ensureFence_present) (simp_all add: authorizedDb_def authority_defs fenceKey_def)
  have bump: "txUpdateOne control_fences_update control_fences fenceKey (SYSTEM_SCOPE, ''system'') (\<lambda>_. True) (bumpFence samplePause 1) sampleServer ?d
      = Inr (True, ?d1)"
    by (rule updateOne_run) (simp add: authorizedDb_def authority_defs fenceKey_def bumpFence_def samplePause_def pausedFence_def nextFenceState_def sample_numbers)+
  have updated: "rowWith fenceKey (SYSTEM_SCOPE, ''system'') (pausedFence # fences) = Some pausedFence" for fences
    by (simp add: rowWith_def fenceKey_def pausedFence_def)
  have audit: "appendControlAudit sampleExternals samplePause pausedFence ''ACTIVE'' = appendAuditEvent sampleExternals pauseInput"
    by (simp add: appendControlAudit_def pauseInput_def samplePause_def pausedFence_def sampleAudit_def controlEventType_def sample_numbers)
  have fields: "cf_scopeType samplePause = SYSTEM_SCOPE" "cf_scopeId samplePause = ''system''" "cf_command samplePause = PAUSE"
    by (simp_all add: samplePause_def)
  have state: "fe_state (sampleFence SYSTEM_SCOPE ''system'') = ''ACTIVE''" "fe_fence_version (sampleFence SYSTEM_SCOPE ''system'') = 1"
    by (simp_all add: sampleFence_def)
  have "changeFenceWork sampleExternals samplePause sampleServer ?d = Inr (fenceResult True pausedFence, ?d2)"
    using row audit bump
    by (simp cong: lazy_run add: changeFenceWork_def run_defs fields assertTarget_def lockMutationFence_def fence state
        commandApplied_def updated invalidateAffectedAuthorizations_def none)
  moreover have "changeFenceParameters samplePause = Inr ()" by code_simp
  moreover have "authorization_evidence ?d2 = [grantedEvidence]" "operations ?d2 = [(sampleOperation ''op_1'')\<lparr>op_current_state := SIGNING\<rparr>]"
    "agents ?d2 = [\<lparr>ag_agent_id = ''agent_1'', ag_owner_id = ''owner_1''\<rparr>]"
    by (simp_all add: authorizedDb_def authority_defs)
  ultimately show ?thesis using transaction_run by (fastforce simp: changeControlFence_def)
qed

section \<open>Authorizing without the owner\<close>

definition autonomousDb :: db where
  "autonomousDb = authorityDb ENVELOPE_FINALIZED ALLOW_AUTONOMOUS []"

definition sampleAutonomous :: authorize_autonomous_input where
  "sampleAutonomous =
     \<lparr>uq_authorizationId = ''authorization_1'', uq_operationId = ''op_1'', uq_reservationId = ''reservation_1'',
      uq_envelopeId = ''env_1'', uq_envelopeRevision = Some 1, uq_envelopeHash = noHash, uq_policyDecisionId = ''decision_1'',
      uq_policyDecisionHash = noHash, uq_idempotencyKey = ''key_9''\<rparr>"

definition autonomousRow :: common_row where
  "autonomousRow =
     \<lparr>cm_operation_id = ''op_1'', cm_reservation_id = ''reservation_1'', cm_envelope_id = ''env_1'', cm_envelope_revision = 1,
      cm_envelope_hash = noHash, cm_policy_decision_id = ''decision_1'', cm_policy_decision_hash = noHash,
      cm_policy_id = ''policy_1'', cm_policy_version = 1, cm_current_state = ENVELOPE_FINALIZED, cm_intent_id = ''intent_1'',
      cm_agent_id = ''agent_1'', cm_wallet_id = ''wallet_1'', cm_owner_id = ''owner_1'',
      cm_policy_decision_status = ALLOW_AUTONOMOUS, cm_persisted_decision_hash = noHash, cm_decision_policy_id = ''policy_1'',
      cm_decision_policy_version = 1, cm_persisted_envelope_hash = noHash, cm_persisted_envelope_revision = 1,
      cm_envelope_payload = sampleEnvelope sampleArguments, cm_latest_revision = 1, cm_reservation_status = HELD,
      cm_reservation_expires_at = 1790000000000, cm_budget_id = ''budget_1'', cm_amount_atomic = 100,
      cm_policy_status = PolicyActive, cm_fences = sampleFences, cm_current_fences = sampleFences\<rparr>"

lemma autonomous_select:
  "commonSelect ''op_1'' ''env_1'' ''decision_1'' ''reservation_1'' autonomousDb
     = Some (autonomousRow\<lparr>cm_fences := noFences, cm_current_fences := noFences\<rparr>)"
  by (simp add: commonSelect_def rowWhere_def latestRevision_def autonomousRow_def autonomousDb_def authority_defs)

lemma autonomous_load: "loadCommonByIds ''op_1'' ''env_1'' ''decision_1'' ''reservation_1'' sv autonomousDb = Inr (autonomousRow, autonomousDb)"
proof -
  have "control_fences autonomousDb = control_fences sampleDb" "policies autonomousDb = policies sampleDb"
    by (simp_all add: autonomousDb_def authorityDb_def)
  from lock_sample [OF this] autonomous_select show ?thesis
    by (simp cong: lazy_run add: loadCommonByIds_def run_defs) (simp add: autonomousRow_def run_defs)
qed

lemma autonomous_ids:
  "loadAutonomousAuthorityIds ''op_1'' sv autonomousDb = Inr ((''reservation_1'', ''env_1'', ''decision_1''), autonomousDb)"
  by (simp cong: lazy_run add: loadAutonomousAuthorityIds_def run_defs topBy_def envelope_fields autonomousDb_def authority_defs del: getProp.simps)

lemma envelope_times:
  "getProp (sampleEnvelope sampleArguments) ''createdAt'' = JString ''2026-05-28T20:00:00Z''"
  "getProp (sampleEnvelope sampleArguments) ''expiresAt'' = JString ''2026-05-28T21:00:00Z''"
  "getProp (sampleEnvelope sampleArguments) ''approvalRequirement'' = JString ''none''"
  "getProp (sampleEnvelope sampleArguments) ''riskDecision'' = JString ''ALLOW''"
  "Date_parse ''2026-05-28T20:00:00Z'' = Some 1779998400000" "Date_parse ''2026-05-28T21:00:00Z'' = Some 1780002000000"
  by (simp_all add: sampleEnvelope_def) code_simp+

lemma autonomous_binding:
  "assertAutonomousBinding (numberedExternals texts) autonomousRow sampleAutonomous 1780000000000 ENVELOPE_FINALIZED
     = Inr (sampleEnvelope sampleArguments)"
proof -
  have "persistedEnvelope (numberedExternals texts) autonomousRow = Inr (sampleEnvelope sampleArguments)"
    using sampleEnvelope_accepted by (simp add: persistedEnvelope_def autonomousRow_def envelope_fields ofOption_def require_def del: getProp.simps)
  then show ?thesis
    by (simp add: assertAutonomousBinding_def require_def autonomousClaims_def claimsPersisted_def envelopeBound_def envelope_fields envelope_times
        fencesAreActiveAndCurrent_def allActive_def sampleFences_def beforeDate_def notBeforeDate_def secondOf_def autonomousRow_def sampleAutonomous_def
        del: getProp.simps)
qed

definition autonomousInput :: "string \<Rightarrow> string \<Rightarrow> (string \<times> jsval) list \<Rightarrow> audit_input" where
  "autonomousInput = boundInput JUndefined ''2026-05-28T20:00:00Z'' ''2026-05-28T21:00:00Z''"

definition autonomousLogged :: "(string \<times> jsval) list \<Rightarrow> (string \<times> jsval) list \<Rightarrow> (string \<times> jsval) list" where
  "autonomousLogged = boundLogged JUndefined ''2026-05-28T20:00:00Z'' ''2026-05-28T21:00:00Z''
     [(''authorizationId'', JString ''authorization_1'')] []"

definition autonomousBudget :: audit_input where
  "autonomousBudget = autonomousInput ''autonomous-authorized-budget'' ''budget.reservation.authorized''
       [(''authorizationId'', JString ''authorization_1''), (''consumerId'', JString autonomousConsumerId),
        (''consumptionNonce'', JString ''key_9:autonomous''), (''authorizedAt'', JString ''2026-05-28T20:26:40Z''),
        (''consumedAt'', JString ''2026-05-28T20:26:40Z''), (''decision'', JString ''ALLOW_AUTONOMOUS'')]"

definition autonomousState :: audit_input where
  "autonomousState = autonomousInput ''autonomous-authorized-operation'' ''operation.state.changed''
       ([(''authorizationId'', JString ''authorization_1'')] @ stateChange ENVELOPE_FINALIZED AUTHORIZED)"

definition autonomousEvents :: "audit_event list" where
  "autonomousEvents =
     [loggedEvent autonomousBudget 1 None (autonomousLogged
        [(''authorizedAt'', JString ''2026-05-28T20:26:40Z''), (''consumedAt'', JString ''2026-05-28T20:26:40Z''),
         (''consumptionNonce'', JString ''key_9:autonomous''), (''consumerId'', JString autonomousConsumerId)]
        [(''decision'', JString ''ALLOW_AUTONOMOUS'')]),
      loggedEvent autonomousState 2 (Some (hashOf 0)) (autonomousLogged
        [(''state'', JString ''AUTHORIZED''), (''previousState'', JString ''ENVELOPE_FINALIZED'')] [])]"

lemma autonomous_budget_data:
  "auditDataSchema sampleExternals (ai_data autonomousBudget) = Some (ev_data (autonomousEvents ! 0))"
  by code_simp

lemma autonomous_state_data:
  "auditDataSchema sampleExternals (ai_data autonomousState) = Some (ev_data (autonomousEvents ! 1))"
  by code_simp

lemma autonomous_events: "list_all jsonEvent autonomousEvents" "distinct (map ev_sequence autonomousEvents)" "length autonomousEvents = 2"
  by code_simp (simp_all add: autonomousEvents_def loggedEvent_def)

lemma autonomous_headers:
  "auditEventSchema sampleExternals (loggedEvent autonomousBudget 1 None []) \<noteq> None"
  "auditEventSchema sampleExternals (loggedEvent autonomousState 2 (Some (hashOf 0)) []) \<noteq> None"
  by code_simp+

definition autonomousExternals :: externals where
  "autonomousExternals = numberedExternals (map preimageOf autonomousEvents)"

lemma autonomous_logs:
  "logs autonomousExternals autonomousBudget 1 None (ev_data (autonomousEvents ! 0)) (hashOf 0)"
  "logs autonomousExternals autonomousState 2 (Some (hashOf 0)) (ev_data (autonomousEvents ! 1)) (hashOf 1)"
  unfolding autonomousExternals_def
  by (rule numbered_logs [OF autonomous_budget_data _ _ _ autonomous_headers(1) autonomous_events(1,2), of 0]
      numbered_logs [OF autonomous_state_data _ _ _ autonomous_headers(2) autonomous_events(1,2), of 1];
      simp add: autonomous_events autonomousEvents_def loggedEvent_def autonomousBudget_def autonomousState_def autonomousInput_def
        boundInput_def correlatedInput_def sampleCorrelation_def controlEventTypes_def requiredData_def)+

end
