(* ===== verification/LedgerProperties.thy ===== *)
theory LedgerProperties
  imports LedgerInvariant LedgerSample
begin

text \<open>
  The properties of the budget ledger: conservation of the money over all runs, the life of a
  reservation, idempotent reservation, settlement, recovery leases, failing closed, and the
  audit log under every call.
\<close>

section \<open>Transactions that meet no other transaction\<close>

definition quiet :: "environment \<Rightarrow> bool" where
  "quiet E \<longleftrightarrow> envOthers E = (\<lambda>i d. d)"

lemma tablesBefore_quiet [simp]: "tablesBefore (\<lambda>i d. d) first n d = d"
  by (induction n arbitrary: first) simp_all

lemma quiet_outcome:
  assumes "quiet E"
  obtains i where "withSerializableTransaction E None work d = runAttempt work (envServers E i) d"
  using assms attemptLoop_one [of 3 work "envServers E" "envOthers E" 0 d]
  by (auto simp: quiet_def withSerializableTransaction_def DEFAULT_MAX_RETRIES_def)

lemma quiet_Inr:
  assumes "withSerializableTransaction E None work d = (Inr x, d')" "quiet E"
  obtains i where "work (envServers E i) d = Inr (x, d')"
  using quiet_outcome [OF assms(2), of work d] assms(1) runAttempt_commit by metis

lemma quiet_fails:
  assumes "quiet E" "\<And>sv x d'. work sv d \<noteq> Inr (x, d')"
  obtains e where "withSerializableTransaction E None work d = (Inl e, d)"
proof -
  obtain i where i: "withSerializableTransaction E None work d = runAttempt work (envServers E i) d"
    by (rule quiet_outcome [OF assms(1)])
  obtain e where "work (envServers E i) d = Inl e" using assms(2) by (cases "work (envServers E i) d") auto
  with i that show ?thesis by (auto simp: runAttempt_def)
qed

lemma quiet_unchanged:
  assumes "quiet E" "\<And>sv x d'. work sv d = Inr (x, d') \<Longrightarrow> d' = d"
  shows "snd (withSerializableTransaction E None work d) = d"
proof -
  obtain i where "withSerializableTransaction E None work d = runAttempt work (envServers E i) d"
    by (rule quiet_outcome [OF assms(1)])
  with assms(2) show ?thesis by (auto simp: runAttempt_def split: sum.splits option.splits)
qed

section \<open>Lemmas: reserving\<close>

lemma reserveFresh_Inr:
  assumes "reserveFresh X request amount expiresAt c sv d = Inr (s, d')"
  obtains b row where "rowWith ba_budget_id (rq_budgetId request) (budget_accounts d) = Some b"
    "bigInt amount \<le> ba_available b" "s = mapReservation row" "br_status row = HELD" "br_amount_atomic row = bigInt amount"
    "br_reservation_id row = rq_reservationId request" "br_budget_id row = rq_budgetId request"
    "rowWith br_reservation_id (rq_reservationId request) (budget_reservations d') = Some row"
    "idempotency_records d' = updateWith ir_idempotency_key (rq_idempotencyKey request)
        (\<lambda>r. r\<lparr>ir_reservation_id := Some (rq_reservationId request)\<rparr>) (idempotency_records d)"
proof -
  let ?row = "\<lparr>br_reservation_id = rq_reservationId request, br_budget_id = rq_budgetId request,
      br_operation_id = rq_operationId request, br_idempotency_key = rq_idempotencyKey request,
      br_amount_atomic = bigInt amount, br_finalized_spend_atomic = 0, br_status = HELD,
      br_expires_at = expiresAt, br_proof_reference = None\<rparr>"
  from assms obtain b where b: "rowWith ba_budget_id (rq_budgetId request) (budget_accounts d) = Some b"
    "\<not> ba_available b < bigInt amount" "s = mapReservation ?row"
    and fresh: "\<forall>old\<in>set (budget_reservations d). br_reservation_id old \<noteq> rq_reservationId request
      \<and> br_operation_id old \<noteq> rq_operationId request \<and> br_idempotency_key old \<noteq> rq_idempotencyKey request"
    and d': "budget_reservations d' = budget_reservations d @ [?row]"
      "idempotency_records d' = updateWith ir_idempotency_key (rq_idempotencyKey request)
        (\<lambda>r. r\<lparr>ir_reservation_id := Some (rq_reservationId request)\<rparr>) (idempotency_records d)"
    unfolding reserveFresh_def Let_def updateBudget_def insertReservation_def
    by (auto simp: tx_simps list_ex_iff dest!: append_frame split: option.splits)
  have "rowWith br_reservation_id (rq_reservationId request) (budget_reservations d) = None"
    using fresh by (auto simp: rowWith_None)
  then have "rowWith br_reservation_id (rq_reservationId request) (budget_reservations d') = Some ?row"
    by (simp add: d'(1) rowWith_append) (simp add: rowWith_def)
  with b d'(2) show ?thesis by (intro that [of b ?row]) auto
qed

lemma reserveWork_fresh:
  assumes "reserveWork X request amount expiresAt h sv d = Inr (s, d')"
    "rowWith ir_idempotency_key (rq_idempotencyKey request) (idempotency_records d) = None"
  obtains row rec where "s = mapReservation row" "br_status row = HELD" "br_reservation_id row = rq_reservationId request"
    "rowWith br_reservation_id (rq_reservationId request) (budget_reservations d') = Some row"
    "rowWith ir_idempotency_key (rq_idempotencyKey request) (idempotency_records d') = Some rec"
    "ir_payload_hash rec = h" "ir_reservation_id rec = Some (rq_reservationId request)"
proof -
  from assms obtain c rec d1 where run: "reserveFresh X request amount expiresAt c sv d1 = Inr (s, d')"
    and rec: "idempotency_records d1 = idempotency_records d @ [rec]" "ir_payload_hash rec = h"
      "ir_idempotency_key rec = rq_idempotencyKey request"
    unfolding reserveWork_def Let_def by (auto simp: tx_simps)
  have "rowWith ir_idempotency_key (rq_idempotencyKey request) (idempotency_records d1) = Some rec"
    using assms(2) rec by (simp add: rowWith_append) (simp add: rowWith_def)
  with run rec show ?thesis
    by (elim reserveFresh_Inr)
      (rule that [of _ "rec\<lparr>ir_reservation_id := Some (rq_reservationId request)\<rparr>"], auto simp: rowWith_updateWith)
qed

lemma reserveWork_known:
  assumes "reserveWork X request amount expiresAt h sv d = Inr (s, d')"
    "rowWith ir_idempotency_key (rq_idempotencyKey request) (idempotency_records d) = Some rec"
  obtains rid row where "d' = d" "ir_payload_hash rec = h" "ir_reservation_id rec = Some rid"
    "rowWith br_reservation_id rid (budget_reservations d) = Some row" "s = mapReservation row"
  using assms unfolding reserveWork_def Let_def
  by (cases "ir_reservation_id rec") (auto simp: tx_simps getReservation_def split: if_splits)

section \<open>Lemmas: refusals\<close>

text \<open>What holds of the fences of an operation before anything is reserved.\<close>

definition fencesActive :: "string \<Rightarrow> db \<Rightarrow> bool" where
  "fencesActive operationId d \<longleftrightarrow>
     (\<exists>o1 a p. rowWith op_operation_id operationId (operations d) = Some o1
        \<and> rowWith ag_agent_id (op_agent_id o1) (agents d) = Some a
        \<and> rowWith pl_policy_id (op_policy_id o1) (policies d) = Some p \<and> pl_status p \<noteq> PolicyRevoked
        \<and> fenceState SYSTEM_SCOPE ''system'' d = Some ''ACTIVE'' \<and> fenceState OWNER_SCOPE (ag_owner_id a) d = Some ''ACTIVE''
        \<and> fenceState AGENT_SCOPE (op_agent_id o1) d = Some ''ACTIVE'' \<and> fenceState POLICY_SCOPE (op_policy_id o1) d = Some ''ACTIVE'')"

lemma lockReservationControlFences_Inr:
  "lockReservationControlFences op sv d = Inr (u, d') \<Longrightarrow> fencesActive op d"
  unfolding lockReservationControlFences_def fencesActive_def
  by (auto simp: tx_simps split: option.splits)

lemma reserveWork_fences: "reserveWork X request amount expiresAt h sv d = Inr (s, d') \<Longrightarrow> fencesActive (rq_operationId request) d"
  unfolding reserveWork_def Let_def txThen_Inr by (elim exE conjE) (rule lockReservationControlFences_Inr)

section \<open>Lemmas: the audit log\<close>

lemma auditChains_cong: "audit_events d = audit_events d' \<Longrightarrow> auditChains X d = auditChains X d'"
  by (simp add: auditChains_def chainEvents_def)

lemma keeps_chains_exec [keeps_intros]:
  "keeps (auditChains X) (updateBudget bid f)" "keeps (auditChains X) (updateReservation rid g)"
  "keeps (auditChains X) (txExec (idempotency_records_update h1))" "keeps (auditChains X) (txExec (broadcast_evidence_update h2))"
  "keeps (auditChains X) (txExec (budget_reservations_update h3))" "keeps (auditChains X) (txExec (recovery_attempts_update h4))"
  "keeps (auditChains X) (txExec (recovery_leases_update h5))"
  unfolding updateBudget_def updateReservation_def
  by (rule keeps_exec, subst auditChains_cong, simp_all)+

lemma keeps_chains_append: "hexDigests X \<Longrightarrow> keeps (auditChains X) (appendAuditEvent X input)"
  using append_chain unfolding keeps_def by blast

lemmas work_defs =
  reserveWork_def reserveFresh_def authorizeWork_def markBroadcastWork_def verifyEvidenceWork_def releaseWork_def
  expireWork_def finalizeWork_def disputeWork_def claimWork_def resolveWork_def resolveOutcome_def resolveConfirmed_def
  resolveReleased_def resolveReverted_def resolveDisputed_def recordAttempt_def insertAttempt_def upsertLease_def
  updateEvidence_def insertEvidence_def insertReservation_def transitionReservation_def writeTransitionAudit_def
  writeRecoveryAudit_def getReservationForUpdate_def getReservation_def getBroadcastEvidence_def
  getReservationBindingForReserve_def lockReservationControlFences_def assertCanonicalAuthorizationEvidence_def
  authenticateComponent_def

lemma works_keep_chains:
  assumes "hexDigests X"
  shows "keeps (auditChains X) (reserveWork X request amount expiresAt h)"
    "keeps (auditChains X) (authorizeWork input)" "keeps (auditChains X) (markBroadcastWork X input evidence)"
    "keeps (auditChains X) (verifyEvidenceWork X input)" "keeps (auditChains X) (releaseWork X input)"
    "keeps (auditChains X) (expireWork X input now)" "keeps (auditChains X) (finalizeWork X input spend pf)"
    "keeps (auditChains X) (disputeWork X input reason)" "keeps (auditChains X) (claimWork X claim duration)"
    "keeps (auditChains X) (resolveWork X audit resolution actualSpend)"
  unfolding work_defs Let_def
  by (intro keeps_intros keeps_chains_append [OF assms])+

lemma transaction_keeps_chains:
  assumes "keeps (auditChains X) work" "\<And>i e. auditChains X e \<Longrightarrow> auditChains X (envOthers E i e)" "auditChains X d"
  shows "auditChains X (snd (withSerializableTransaction E n work d))"
proof -
  have "invariant_work (auditChains X) work" using assms(1) unfolding keeps_def by unfold_locales blast
  then show ?thesis using invariant_work.transaction_keeps assms(2,3) by blast
qed

section \<open>Lemmas: what successful transitions did\<close>

lemma finalizeWork_Inr:
  assumes "finalizeWork X input spend pf sv d = Inr (s, d')"
  obtains (again) r where "rowWith br_reservation_id (ti_reservationId input) (budget_reservations d) = Some r"
      "br_status r = FINALIZED" "d' = d" "s = mapReservation r"
  | (settled) r e row where "rowWith br_reservation_id (ti_reservationId input) (budget_reservations d) = Some r"
      "br_status r = BROADCAST_R"
      "rowWith be_reservation_id (ti_reservationId input) (broadcast_evidence d) = Some e" "be_verification_status e = VERIFIED_E"
      "pf = be_receipt_reference e" "bigInt spend \<le> br_amount_atomic r"
      "d' = d\<lparr>budget_accounts := updateWith ba_budget_id (br_budget_id r) (settleFunds (br_amount_atomic r) (bigInt spend)) (budget_accounts d),
         budget_reservations := updateWith br_reservation_id (ti_reservationId input) (settleReservation spend pf) (budget_reservations d),
         audit_events := audit_events d @ [row]\<rparr>"
      "s = (mapReservation r)\<lparr>rs_status := FINALIZED, rs_finalizedSpendAtomic := spend, rs_proofReference := Some pf\<rparr>"
  using assms unfolding finalizeWork_def Let_def
proof (elim transitionReservation_Inr, goal_cases)
  case (1 r b c)
  note r = rowWith_Some [OF 1(3)]
  show ?case
  proof (cases "br_status r = FINALIZED")
    case True
    with 1(5) show ?thesis by (intro 1(1) [OF 1(3) True]) (auto simp: tx_simps)
  next
    case False
    with 1(3,5) r show ?thesis
      unfolding writeTransitionAudit_def
      by (auto simp: tx_simps update_defs dest!: append_frame getBroadcastEvidence_Inr) (rule 1(2) [of r], auto intro!: db.equality)
  qed
qed

lemma authenticateComponent_Inr:
  assumes "authenticateComponent X authorization role action payload sv d = Inr (a, d')"
  obtains auth credential where "d' = d" "authorization = Some auth" "ca_role auth = role"
    "rowWith cr_credential_id (ca_credentialId auth) (credentials d) = Some credential" "cr_active credential"
    "cr_component_role credential = role" "an_credentialId a = ca_credentialId auth"
    "verifyComponentAction X auth (cr_public_key credential) action payload = Inr True"
  using assms unfolding authenticateComponent_def by (auto simp: tx_simps split: option.splits)

lemma resolveOutcome_reverted:
  assumes "resolveOutcome X audit input spend (mapReservation r) c evidence authenticated sv d = Inr (s, d')"
    "br_status r = BROADCAST_R" "rs_status s = RELEASED"
  obtains e row where "rr_outcome input = FAILED" "rr_verifiedRevert input" "spend = Some ''0''"
    "evidence = Some e" "be_verification_status e = VERIFIED_E" "rr_proofReference input = Some (be_receipt_reference e)"
    "d' = d\<lparr>budget_accounts := updateWith ba_budget_id (br_budget_id r) (returnFunds (br_amount_atomic r)) (budget_accounts d),
       budget_reservations := updateWith br_reservation_id (rr_reservationId input) (\<lambda>q. q\<lparr>br_status := RELEASED\<rparr>) (budget_reservations d),
       audit_events := audit_events d @ [row]\<rparr>"
proof -
  have reverts: "rr_outcome input = FAILED \<and> rr_verifiedRevert input
      \<and> resolveReverted X audit input spend (mapReservation r) c evidence authenticated sv d = Inr (s, d')"
    using assms unfolding resolveOutcome_def resolveConfirmed_def resolveDisputed_def Let_def
    by (auto simp: tx_simps split: if_splits option.splits)
  then obtain e where e: "evidence = Some e" "be_verification_status e = VERIFIED_E"
    "rr_proofReference input = Some (be_receipt_reference e)" "spend = Some ''0''"
    and run: "\<exists>data. resolveReleased X audit input (mapReservation r) c authenticated data sv d = Inr (s, d')"
    unfolding resolveReverted_def by (auto simp: tx_simps split: option.splits)
  from run obtain row where "d' = d\<lparr>budget_accounts := updateWith ba_budget_id (br_budget_id r) (returnFunds (br_amount_atomic r)) (budget_accounts d),
       budget_reservations := updateWith br_reservation_id (rr_reservationId input) (\<lambda>q. q\<lparr>br_status := RELEASED\<rparr>) (budget_reservations d),
       audit_events := audit_events d @ [row]\<rparr>"
    unfolding resolveReleased_def writeRecoveryAudit_def Let_def updateBudget_def updateReservation_def
    by (auto simp: tx_simps dest!: append_frame) (rule that, auto intro!: db.equality)
  with reverts e show ?thesis by (intro that) simp_all
qed

lemma resolveWork_success:
  assumes "resolveWork X audit input spend sv d = Inr (s, d')"
    "rowWith at_attempt_id (rr_attemptId input) (recovery_attempts d) = None"
  obtains r c authenticated d1 lease attempt event where
    "rowWith br_reservation_id (rr_reservationId input) (budget_reservations d) = Some r"
    "br_operation_id r = rr_operationId input"
    "rowWith le_operation_id (rr_operationId input) (recovery_leases d) = Some lease"
    "leaseLive input authenticated (sv_nodeClock sv) (Some lease)"
    "authenticateComponent X (ac_componentAuth audit) RECONCILER ''recovery.resolve''
       (recoveryPayload input (rowWith be_reservation_id (rr_reservationId input) (broadcast_evidence d))) sv d = Inr (authenticated, d)"
    "resolveOutcome X audit input spend (mapReservation r) c
       (rowWith be_reservation_id (rr_reservationId input) (broadcast_evidence d)) authenticated sv d = Inr (s, d1)"
    "at_attempt_id attempt = rr_attemptId input"
    "d' = d1\<lparr>recovery_attempts := recovery_attempts d1 @ [attempt],
       recovery_leases := updateWith le_operation_id (rr_operationId input) (\<lambda>lease. lease\<lparr>le_lease_state := LeaseResolved\<rparr>) (recovery_leases d1),
       audit_events := audit_events d1 @ [event]\<rparr>"
proof -
  obtain P where P: "P = (\<lambda>auth role action payload a. authenticateComponent X auth role action payload sv d = Inr (a, d))" by blast
  have authentic: "authenticateComponent X auth role action payload sv d = Inr (a, e) \<longleftrightarrow> e = d \<and> P auth role action payload a"
    for auth role action payload a e
  proof -
    have "e = d" if "authenticateComponent X auth role action payload sv d = Inr (a, e)" using that by (rule authenticateComponent_Inr)
    then show ?thesis unfolding P by metis
  qed
  from assms obtain r c authenticated lease d1 d2 where run:
    "rowWith br_reservation_id (rr_reservationId input) (budget_reservations d) = Some r" "br_operation_id r = rr_operationId input"
    "rowWith le_operation_id (rr_operationId input) (recovery_leases d) = Some lease"
    "leaseLive input authenticated (sv_nodeClock sv) (Some lease)"
    "P (ac_componentAuth audit) RECONCILER ''recovery.resolve''
       (recoveryPayload input (rowWith be_reservation_id (rr_reservationId input) (broadcast_evidence d))) authenticated"
    "resolveOutcome X audit input spend (mapReservation r) c
       (rowWith be_reservation_id (rr_reservationId input) (broadcast_evidence d)) authenticated sv d = Inr (s, d1)"
    "recordAttempt input spend authenticated sv d1 = Inr ((), d2)"
    "\<exists>type data. writeRecoveryAudit X audit type s c authenticated data sv d2 = Inr ((), d')"
    unfolding resolveWork_def
    by (auto simp: tx_simps authentic leaseLive_def elim!: getReservationForUpdate_Inr split: option.splits del: pure_steps; blast)
  let ?attempt = "\<lparr>at_attempt_id = rr_attemptId input, at_operation_id = rr_operationId input,
        at_reservation_id = rr_reservationId input, at_lease_version = bigInt (rr_leaseVersion input),
        at_credential_id = an_credentialId authenticated, at_outcome = rr_outcome input,
        at_resolution_hash = an_authPayloadHash authenticated, at_reason = rr_reason input,
        at_actual_spend_atomic = map_option bigInt spend, at_proof_reference = rr_proofReference input\<rparr>"
  have d2: "d2 = d1\<lparr>recovery_attempts := recovery_attempts d1 @ [?attempt],
       recovery_leases := updateWith le_operation_id (rr_operationId input) (\<lambda>lease. lease\<lparr>le_lease_state := LeaseResolved\<rparr>) (recovery_leases d1)\<rparr>"
    using run(7) unfolding recordAttempt_def insertAttempt_def by (auto simp: tx_simps intro!: db.equality)
  obtain event where d': "d' = audit_events_update (\<lambda>rows. rows @ [event]) d2"
    using run(8) unfolding writeRecoveryAudit_def by (auto dest!: append_frame)
  show ?thesis
    by (rule that [OF run(1-4) _ run(6), of ?attempt event]) (use run(5) in \<open>simp_all add: authentic d' d2\<close>)
qed

lemma rowWith_replace:
  "rowWith key (key row) rows = Some old \<Longrightarrow> rowWith key (key row) (updateWith key (key row) (\<lambda>_. row) rows) = Some row"
  by (induction rows) (auto simp: rowWith_def updateWith_def split: if_splits)

lemma rowWith_replace_other:
  "key row = k' \<Longrightarrow> k \<noteq> k' \<Longrightarrow> rowWith key k (updateWith key k' (\<lambda>_. row) rows) = rowWith key k rows"
  by (induction rows) (auto simp: rowWith_def updateWith_def)

lemma rowWith_append_other: "key row \<noteq> k \<Longrightarrow> rowWith key k (rows @ [row]) = rowWith key k rows"
  by (induction rows) (auto simp: rowWith_def)

lemma claimWork_Inr:
  assumes "claimWork X claim duration sv d = Inr (lease, d')"
  obtains version row where
    "(case rowWith le_operation_id (rc_operationId claim) (recovery_leases d) of
        None \<Rightarrow> version = 1
      | Some old \<Rightarrow> version = le_lease_version old + 1
          \<and> (le_lease_state old = LeaseResolved \<or> le_lease_expires_at old \<le> sv_clock sv))"
    "rl_leaseVersion lease = intStr version"
    "rowWith le_operation_id (rc_operationId claim) (recovery_leases d') = Some row" "le_lease_version row = version"
    "le_credential_id row = rl_credentialId lease" "le_lease_expires_at row = sv_clock sv + duration * 1000"
    "recovery_attempts d' = recovery_attempts d"
    "\<And>op. op \<noteq> rc_operationId claim \<Longrightarrow> rowWith le_operation_id op (recovery_leases d') = rowWith le_operation_id op (recovery_leases d)"
proof -
  let ?current = "rowWith le_operation_id (rc_operationId claim) (recovery_leases d)"
  let ?version = "case ?current of None \<Rightarrow> 1 | Some old \<Rightarrow> le_lease_version old + 1"
  from assms obtain credential where run:
    "\<not> (case ?current of None \<Rightarrow> False | Some l \<Rightarrow> le_lease_state l = LeaseActive \<and> le_lease_expires_at l > sv_clock sv)"
    "rl_leaseVersion lease = intStr ?version" "rl_credentialId lease = credential" "recovery_attempts d' = recovery_attempts d"
    "recovery_leases d' = (let row = \<lparr>le_operation_id = rc_operationId claim, le_reservation_id = rc_reservationId claim,
        le_credential_id = credential, le_lease_version = ?version, le_lease_expires_at = sv_clock sv + duration * 1000,
        le_lease_state = LeaseActive\<rparr> in
      if ?current = None then recovery_leases d @ [row]
      else updateWith le_operation_id (rc_operationId claim) (\<lambda>_. row) (recovery_leases d))"
    unfolding claimWork_def upsertLease_def writeRecoveryAudit_def Let_def
    by (auto simp: tx_simps elim!: getReservationForUpdate_Inr dest!: append_frame)
  let ?row = "\<lparr>le_operation_id = rc_operationId claim, le_reservation_id = rc_reservationId claim,
        le_credential_id = credential, le_lease_version = ?version, le_lease_expires_at = sv_clock sv + duration * 1000,
        le_lease_state = LeaseActive\<rparr>"
  have "rowWith le_operation_id (rc_operationId claim) (recovery_leases d') = Some ?row"
  proof (cases ?current)
    case None
    then show ?thesis unfolding run(5) Let_def by (simp add: rowWith_append) (simp add: rowWith_def)
  next
    case (Some old)
    with rowWith_replace [of le_operation_id ?row "recovery_leases d" old] show ?thesis unfolding run(5) Let_def by simp
  qed
  then show ?thesis
  proof (rule that [rotated 2])
    show "rl_leaseVersion lease = intStr ?version" by (rule run(2))
    show "case ?current of None \<Rightarrow> ?version = 1
      | Some old \<Rightarrow> ?version = le_lease_version old + 1 \<and> (le_lease_state old = LeaseResolved \<or> le_lease_expires_at old \<le> sv_clock sv)"
      using run(1) by (auto split: option.splits) (metis lease_state.exhaust)
  next
    fix op
    assume "op \<noteq> rc_operationId claim"
    then show "rowWith le_operation_id op (recovery_leases d') = rowWith le_operation_id op (recovery_leases d)"
      unfolding run(5) Let_def by (simp add: rowWith_append_other rowWith_replace_other)
  qed (simp_all add: run)
qed

lemma resolveWork_replay:
  assumes "resolveWork X audit input spend sv d = Inr (s, d')"
    "rowWith at_attempt_id (rr_attemptId input) (recovery_attempts d) = Some row"
  shows "d' = d"
  using assms unfolding resolveWork_def by (auto simp: tx_simps elim!: getReservationForUpdate_Inr)

section \<open>Lemmas: the versions of the leases\<close>

text \<open>The operation has a lease whose version is at least \<open>v\<close>.\<close>

definition leaseAtLeast :: "string \<Rightarrow> int \<Rightarrow> db \<Rightarrow> bool" where
  "leaseAtLeast op v d \<longleftrightarrow> (\<exists>l. rowWith le_operation_id op (recovery_leases d) = Some l \<and> v \<le> le_lease_version l)"

text \<open>
  Any sequence of calls of the ledger and of changes of other tables; the transactions that commit
  between the attempts of a call keep the versions of the leases, as the calls themselves do.
\<close>

inductive lease_run :: "externals \<Rightarrow> db \<Rightarrow> db \<Rightarrow> bool" for X where
  start: "lease_run X d d"
| call: "lease_run X d d1 \<Longrightarrow> (\<forall>i e op v. leaseAtLeast op v e \<longrightarrow> leaseAtLeast op v (envOthers E i e)) \<Longrightarrow>
    lease_run X d (callLedger X E c d1)"
| elsewhere: "lease_run X d d1 \<Longrightarrow> recovery_leases d2 = recovery_leases d1 \<Longrightarrow> lease_run X d d2"

lemma leaseAtLeast_cong: "recovery_leases d = recovery_leases d' \<Longrightarrow> leaseAtLeast op v d = leaseAtLeast op v d'"
  by (simp add: leaseAtLeast_def)

lemma leaseAtLeast_resolved:
  "leaseAtLeast op v d \<Longrightarrow>
    leaseAtLeast op v (d\<lparr>recovery_leases := updateWith le_operation_id k (\<lambda>l. l\<lparr>le_lease_state := s\<rparr>) (recovery_leases d)\<rparr>)"
  by (auto simp: leaseAtLeast_def rowWith_updateWith)

lemma keeps_leases_exec [keeps_intros]:
  "keeps (leaseAtLeast op v) (updateBudget bid f)" "keeps (leaseAtLeast op v) (updateReservation rid g)"
  "keeps (leaseAtLeast op v) (txExec (idempotency_records_update h1))" "keeps (leaseAtLeast op v) (txExec (broadcast_evidence_update h2))"
  "keeps (leaseAtLeast op v) (txExec (budget_reservations_update h3))" "keeps (leaseAtLeast op v) (txExec (recovery_attempts_update h4))"
  unfolding updateBudget_def updateReservation_def
  by (rule keeps_exec, subst leaseAtLeast_cong, simp_all)+

lemma keeps_leases_resolved [keeps_intros]:
  "keeps (leaseAtLeast op v) (txExec (recovery_leases_update (updateWith le_operation_id k (\<lambda>l. l\<lparr>le_lease_state := s\<rparr>))))"
  by (rule keeps_exec) (use leaseAtLeast_resolved in \<open>auto simp: leaseAtLeast_def\<close>)

lemma keeps_leases_append [keeps_intros]: "keeps (leaseAtLeast op v) (appendAuditEvent X input)"
  unfolding keeps_def by (auto dest!: append_frame simp: leaseAtLeast_def)

lemma claim_keeps_leases: "keeps (leaseAtLeast op v) (claimWork X claim duration)"
  unfolding keeps_def
proof (intro allI impI)
  fix sv d x d'
  assume "leaseAtLeast op v d"
  then obtain l where l: "rowWith le_operation_id op (recovery_leases d) = Some l" "v \<le> le_lease_version l"
    by (auto simp: leaseAtLeast_def)
  assume "claimWork X claim duration sv d = Inr (x, d')"
  with l show "leaseAtLeast op v d'"
    by (elim claimWork_Inr) (cases "op = rc_operationId claim"; auto simp: leaseAtLeast_def)
qed

lemma works_keep_leases:
  "keeps (leaseAtLeast op v) (reserveWork X request amount expiresAt h)"
  "keeps (leaseAtLeast op v) (authorizeWork input)" "keeps (leaseAtLeast op v) (markBroadcastWork X input evidence)"
  "keeps (leaseAtLeast op v) (verifyEvidenceWork X input)" "keeps (leaseAtLeast op v) (releaseWork X input)"
  "keeps (leaseAtLeast op v) (expireWork X input now)" "keeps (leaseAtLeast op v) (finalizeWork X input spend pf)"
  "keeps (leaseAtLeast op v) (disputeWork X input reason)" "keeps (leaseAtLeast op v) (resolveWork X audit resolution actualSpend)"
  unfolding work_defs Let_def
  by (intro keeps_intros)+

lemma transaction_keeps_leases:
  assumes "keeps (leaseAtLeast op v) work" "\<forall>i e op v. leaseAtLeast op v e \<longrightarrow> leaseAtLeast op v (envOthers E i e)" "leaseAtLeast op v d"
  shows "leaseAtLeast op v (snd (withSerializableTransaction E n work d))"
proof -
  have "invariant_work (leaseAtLeast op v) work" using assms(1) unfolding keeps_def by unfold_locales blast
  then show ?thesis using invariant_work.transaction_keeps assms(2,3) by blast
qed

lemma lease_run_keeps: "lease_run X d d' \<Longrightarrow> leaseAtLeast op v d \<Longrightarrow> leaseAtLeast op v d'"
proof (induction rule: lease_run.induct)
  case (call d d1 E c)
  note works = works_keep_leases claim_keeps_leases
  show ?case
    by (cases c)
      (auto simp: reserveBudget_def authorizeReservation_def markReservationBroadcast_def verifyBroadcastEvidence_def
        releaseReservation_def expireReservation_def finalizeReservation_def disputeReservation_def claimRecoveryLease_def
        resolveRecovery_def call.IH [OF call.prems] intro!: transaction_keeps_leases works call.hyps(2) split: sum.splits option.splits prod.splits)
qed (simp_all add: leaseAtLeast_def)

text \<open>A resolution whose version is not the one of the lease changes nothing; a fresh one fails.\<close>

lemma stale_resolution:
  assumes "quiet E" "rowWith le_operation_id (rr_operationId input) (recovery_leases d) = Some current"
    "rr_leaseVersion input \<noteq> intStr (le_lease_version current)"
  shows "snd (resolveRecovery X E audit input d) = d
    \<and> (rowWith at_attempt_id (rr_attemptId input) (recovery_attempts d) = None \<longrightarrow>
         (\<exists>e. fst (resolveRecovery X E audit input d) = Inl e))"
proof -
  have fresh: "resolveWork X audit input spend sv d \<noteq> Inr (x, e)"
    if "rowWith at_attempt_id (rr_attemptId input) (recovery_attempts d) = None" for spend sv x e
    using that assms(2,3) by (auto simp: leaseLive_def elim!: resolveWork_success)
  have "snd (withSerializableTransaction E None (resolveWork X audit input spend) d) = d" for spend
    by (rule quiet_unchanged [OF assms(1)])
      (use fresh resolveWork_replay in \<open>metis option.exhaust\<close>)
  moreover have "\<exists>e. fst (withSerializableTransaction E None (resolveWork X audit input spend) d) = Inl e"
    if "rowWith at_attempt_id (rr_attemptId input) (recovery_attempts d) = None" for spend
  proof -
    from assms(1) fresh [OF that] obtain e where "withSerializableTransaction E None (resolveWork X audit input spend) d = (Inl e, d)"
      by (rule quiet_fails)
    then show ?thesis by simp
  qed
  ultimately show ?thesis by (simp add: resolveRecovery_def split: sum.split)
qed

section \<open>Samples\<close>

lemma sampleEnv_quiet: "quiet sampleEnv"
  by (simp add: quiet_def sampleEnv_def)

lemma sampleDb_exact: "ledgerExact (ledgerOf sampleDb)"
  by (simp add: ledgerExact_def ledgerInv_def ledgerOf_def accountOk_def reservationOk_def sum_defs sumOf_def sample_defs
      liveStatus_def)

lemma sample_run_of_calls: "allowed c \<Longrightarrow> ledger_run allowed X d (callLedger X sampleEnv c d)"
  by (rule ledger_run.call) (auto simp: sampleEnv_def intro: ledger_run.start)

section \<open>Properties\<close>

text \<open>
  C1. Money is neither created nor lost and no budget is overspent: start from tables that satisfy
  the ledger invariant and let anyone call any operations of the ledger in any order, with any
  retries, refusals and interleavings, let the approval service authorize and release reservations
  and let every other table change arbitrarily. Then the allocations are unchanged and in every
  account the allocation is the sum of what is available, reserved and spent, nothing is negative,
  the reserved amount covers all open reservations, and the spend is the sum of the spends
  recorded on its reservations.
\<close>

theorem money_is_conserved:
  assumes "ledger_run (\<lambda>_. True) X d d'" "ledgerInv (ledgerOf d)"
  shows "allocations (ledgerOf d') = allocations (ledgerOf d)
    \<and> list_all (\<lambda>b. ba_allocated b = ba_available b + ba_reserved b + ba_finalized_spend b
        \<and> 0 \<le> ba_available b \<and> 0 \<le> ba_reserved b \<and> 0 \<le> ba_finalized_spend b
        \<and> liveSum (ba_budget_id b) (budget_reservations d') \<le> ba_reserved b
        \<and> ba_finalized_spend b = spentSum (ba_budget_id b) (budget_reservations d')) (budget_accounts d')"
proof -
  have flags: "callFlags True True c" for c by (cases c) auto
  have inv: "ledgerInv (ledgerOf d')" using conserved.run_keeps [OF assms(1)] flags assms(2) by blast
  have "0 \<le> liveSum bid (budget_reservations d')" "0 \<le> spentSum bid (budget_reservations d')" for bid
    using inv by (auto simp: ledgerInv_def ledgerOf_def sum_defs list_all_iff reservationOk_def intro!: sumOf_nonneg)
  then have "accountOk (budget_reservations d') b \<Longrightarrow> 0 \<le> ba_reserved b \<and> 0 \<le> ba_finalized_spend b" for b
    unfolding accountOk_def by (metis order_trans)
  moreover have "allocations (ledgerOf d') = allocations (ledgerOf d)"
    using alloc.run_keeps [OF assms(1), of "allocations (ledgerOf d)"] flags by simp
  ultimately show ?thesis using inv by (auto simp: ledgerInv_def ledgerOf_def accountOk_def list_all_iff)
qed

theorem money_is_conserved_witness:
  "allocations (ledgerOf (callLedger sampleExternals sampleEnv (Finalize sampleTransition ''40'' ''receipt:1'') sampleDb)) = [(''budget_1'', 1000)]"
proof -
  have "ledgerInv (ledgerOf sampleDb)" using sampleDb_exact by (simp add: ledgerExact_def)
  with money_is_conserved [OF sample_run_of_calls [of "\<lambda>_. True" "Finalize sampleTransition ''40'' ''receipt:1''"]]
  have "allocations (ledgerOf (callLedger sampleExternals sampleEnv (Finalize sampleTransition ''40'' ''receipt:1'') sampleDb))
    = allocations (ledgerOf sampleDb)" by blast
  then show ?thesis by (simp add: allocations_def ledgerOf_def sample_defs)
qed

text \<open>
  C27. Reserved funds are exactly the open and disputed holds: along the same runs, as long as no
  recovery is resolved as ambiguous or in conflict, the reserved amount of every account is exactly
  the sum of the amounts of its held, authorized, broadcast and disputed reservations, if it was so before.
\<close>

theorem reserved_is_sum_of_holds:
  assumes "ledger_run (callFlags False True) X d d'" "ledgerExact (ledgerOf d)"
  shows "list_all (\<lambda>b. ba_reserved b = heldSum (ba_budget_id b) (budget_reservations d')) (budget_accounts d')"
  using exact.run_keeps [OF assms(1) _ assms(2)] by (simp add: ledgerExact_def ledgerOf_def)

theorem reserved_is_sum_of_holds_witness:
  "list_all (\<lambda>b. ba_reserved b = heldSum (ba_budget_id b)
      (budget_reservations (callLedger sampleExternals sampleEnv (Reserve (sampleRequest ''50'')) sampleDb)))
    (budget_accounts (callLedger sampleExternals sampleEnv (Reserve (sampleRequest ''50'')) sampleDb))"
  by (rule reserved_is_sum_of_holds [OF sample_run_of_calls sampleDb_exact]) simp

text \<open>
  C4. The life of a reservation: along every run a reservation keeps its identity, budget,
  operation, key, amount and expiry, and its status only moves forward. A broadcast reservation
  can become finalized or disputed but never held, authorized or expired again, and it is released
  only if some recovery is resolved with a verified revert; a disputed one stays disputed; a
  released, expired or finalized one keeps its status unless a recovery is resolved late as
  ambiguous or in conflict. (The flags say which of the two kinds of resolutions the run has.)
\<close>

theorem reservation_life:
  assumes "ledger_run (callFlags late revert) X d d'"
    "rowWith br_reservation_id rid (budget_reservations d) = Some r"
  shows "\<exists>r'. rowWith br_reservation_id rid (budget_reservations d') = Some r' \<and> laterRow late revert r r'"
proof -
  have "hasLater late revert rid r (ledgerOf d)" using assms(2) by (simp add: hasLater_def ledgerOf_def)
  then have "hasLater late revert rid r (ledgerOf d')" using life.run_keeps [OF assms(1)] by blast
  then show ?thesis by (simp add: hasLater_def ledgerOf_def)
qed

theorem reservation_life_witness:
  "\<exists>r'. rowWith br_reservation_id ''res_1''
      (budget_reservations (callLedger sampleExternals sampleEnv (Finalize sampleTransition ''40'' ''receipt:1'') sampleDb)) = Some r'
    \<and> laterRow False False sampleReservation r'"
  by (rule reservation_life [OF sample_run_of_calls]) (simp_all add: sample_defs)

text \<open>
  C19. A retry reserves nothing more: after a successful reservation, a second call with the same
  idempotency key never changes the tables, whatever its other arguments; if it succeeds, then its
  payload has the hash of the first one and it returns the first reservation as it is on record.
\<close>

theorem retry_reserves_once:
  assumes "reserveBudget X E request d = (Inr s, d')" "quiet E" "quiet E'"
    "rq_idempotencyKey request' = rq_idempotencyKey request"
    "reserveParameters X request = Inr (amount, expiresAt, h)"
  shows "snd (reserveBudget X E' request' d') = d' \<and>
    (case fst (reserveBudget X E' request' d') of
       Inl e \<Rightarrow> True
     | Inr s' \<Rightarrow> s' = s \<and> (\<exists>amount' expiresAt'. reserveParameters X request' = Inr (amount', expiresAt', h)))"
proof -
  have "withSerializableTransaction E None (reserveWork X request amount expiresAt h) d = (Inr s, d')"
    using assms(1,5) by (simp add: reserveBudget_def)
  then obtain sv where work: "reserveWork X request amount expiresAt h sv d = Inr (s, d')"
    using assms(2) by (rule quiet_Inr)
  then obtain rec rid row where rec:
    "rowWith ir_idempotency_key (rq_idempotencyKey request) (idempotency_records d') = Some rec"
    "ir_payload_hash rec = h" "ir_reservation_id rec = Some rid"
    "rowWith br_reservation_id rid (budget_reservations d') = Some row" "s = mapReservation row"
    by (cases "rowWith ir_idempotency_key (rq_idempotencyKey request) (idempotency_records d)")
      (auto elim: reserveWork_fresh reserveWork_known)
  have known: "d2 = d' \<and> h2 = h \<and> s2 = s"
    if "reserveWork X request' a2 e2 h2 sv2 d' = Inr (s2, d2)" for a2 e2 h2 sv2 s2 d2
    using that rec assms(4) by (auto elim!: reserveWork_known)
  show ?thesis
  proof (cases "reserveParameters X request'")
    case (Inr p)
    obtain a2 e2 h2 where p: "p = (a2, e2, h2)" by (cases p)
    let ?run = "withSerializableTransaction E' None (reserveWork X request' a2 e2 h2) d'"
    have same: "snd ?run = d'" by (rule quiet_unchanged [OF assms(3)]) (use known in blast)
    have "s2 = s \<and> h2 = h" if "fst ?run = Inr s2" for s2
      using quiet_Inr [OF _ assms(3), of _ d' s2 d'] known same that by (metis prod.collapse)
    with same Inr p show ?thesis by (auto simp: reserveBudget_def split: sum.splits)
  qed (simp add: reserveBudget_def)
qed

theorem retry_reserves_once_witness:
  "\<exists>d'. reserveBudget sampleExternals sampleEnv (sampleRequest ''50'') sampleDb = (Inr (mapReservation createdReservation), d')
     \<and> snd (reserveBudget sampleExternals sampleEnv (sampleRequest ''5000'') d') = d'"
proof -
  obtain d' where run: "reserveBudget sampleExternals sampleEnv (sampleRequest ''50'') sampleDb = (Inr (mapReservation createdReservation), d')"
    using sample_reserve by blast
  from run retry_reserves_once [OF run sampleEnv_quiet sampleEnv_quiet, of "sampleRequest ''5000''"] sample_parameters(1) show ?thesis
    by (auto simp: sample_request)
qed

text \<open>
  C26. Reserving fails closed: if the system, owner, agent or policy fence of the operation is not
  active or its policy is revoked, or if the idempotency key is new and the budget is missing or has less
  available than the amount, then \<open>reserveBudget\<close> fails whatever the rest of the request is, and the
  tables are unchanged (if no other transaction commits meanwhile). A known key is not
  checked against the funds: it answers with the reservation on record.
\<close>

theorem reserve_fails_closed:
  assumes "quiet E"
    and "\<not> fencesActive (rq_operationId request) d
      \<or> (rowWith ir_idempotency_key (rq_idempotencyKey request) (idempotency_records d) = None
          \<and> (\<forall>b. rowWith ba_budget_id (rq_budgetId request) (budget_accounts d) = Some b \<longrightarrow>
                ba_available b < int (decVal (rq_amountAtomic request))))"
  shows "\<exists>e. reserveBudget X E request d = (Inl e, d)"
proof (cases "reserveParameters X request")
  case (Inl e)
  then show ?thesis by (simp add: reserveBudget_def)
next
  case (Inr parameters)
  then obtain amount expiresAt h where parameters: "parameters = (amount, expiresAt, h)" by (cases parameters)
  with Inr have "amount = rq_amountAtomic request" "canonicalDec amount"
    by (auto simp: positiveAtomicUnitSchema_def atomicUnitSchema_def reserveParameters_def parseAtomic_def result_simps split: sum.splits if_splits)
  then have amount: "bigInt amount = int (decVal (rq_amountAtomic request))"
    using bigInt_canonical by simp
  have "reserveWork X request amount expiresAt h sv d \<noteq> Inr (x, d')" for sv x d'
  proof
    assume run: "reserveWork X request amount expiresAt h sv d = Inr (x, d')"
    with assms(2) have key: "rowWith ir_idempotency_key (rq_idempotencyKey request) (idempotency_records d) = None"
      and poor: "\<forall>b. rowWith ba_budget_id (rq_budgetId request) (budget_accounts d) = Some b \<longrightarrow> ba_available b < bigInt amount"
      using reserveWork_fences unfolding amount by blast+
    from run key obtain c d1 where fresh: "reserveFresh X request amount expiresAt c sv d1 = Inr (x, d')"
      "budget_accounts d1 = budget_accounts d"
      unfolding reserveWork_def Let_def by (auto simp: tx_simps)
    then show False using poor by (elim reserveFresh_Inr) auto
  qed
  with assms(1) obtain e where "withSerializableTransaction E None (reserveWork X request amount expiresAt h) d = (Inl e, d)"
    by (rule quiet_fails)
  with Inr parameters show ?thesis by (simp add: reserveBudget_def)
qed

theorem reserve_fails_closed_witness:
  "\<exists>e. reserveBudget sampleExternals sampleEnv (sampleRequest ''5000'') sampleDb = (Inl e, sampleDb)"
proof (rule reserve_fails_closed [OF sampleEnv_quiet])
  have "decVal ''5000'' = 5000" by code_simp
  then show "\<not> fencesActive (rq_operationId (sampleRequest ''5000'')) sampleDb
      \<or> (rowWith ir_idempotency_key (rq_idempotencyKey (sampleRequest ''5000'')) (idempotency_records sampleDb) = None
          \<and> (\<forall>b. rowWith ba_budget_id (rq_budgetId (sampleRequest ''5000'')) (budget_accounts sampleDb) = Some b
                \<longrightarrow> ba_available b < int (decVal (rq_amountAtomic (sampleRequest ''5000'')))))"
    by (simp add: sampleRequest_def sample_defs)
qed

text \<open>
  C24. Finalization settles exactly: a successful \<open>finalizeReservation\<close> either finds the reservation
  finalized already and changes nothing, or finds it broadcast with independently verified
  evidence whose receipt is the given proof, with a spend of at most the reserved amount. Then it adds the
  spend to what its budget has finally spent, takes the amount of the hold from what is reserved, and returns the rest,
  amount minus spend, to what is available; the reservation is finalized with the spend and
  the proof; one event is appended to the audit log, and no other row of any table changes.
\<close>

theorem finalize_settles_exactly:
  assumes "finalizeReservation X E input spend pf d = (Inr s, d')" "quiet E"
  shows "\<exists>r. rowWith br_reservation_id (ti_reservationId input) (budget_reservations d) = Some r \<and>
    (br_status r = FINALIZED \<and> d' = d \<and> s = mapReservation r
     \<or> br_status r = BROADCAST_R \<and> atomicUnitSchema spend \<and> int (decVal spend) \<le> br_amount_atomic r
       \<and> rs_status s = FINALIZED \<and> rs_finalizedSpendAtomic s = spend \<and> rs_proofReference s = Some pf
       \<and> (\<exists>e. rowWith be_reservation_id (ti_reservationId input) (broadcast_evidence d) = Some e
            \<and> be_verification_status e = VERIFIED_E \<and> be_receipt_reference e = pf)
       \<and> (\<exists>event. d' = d\<lparr>
            budget_accounts := map (\<lambda>b. if ba_budget_id b = br_budget_id r
              then b\<lparr>ba_available := ba_available b + (br_amount_atomic r - int (decVal spend)),
                     ba_reserved := ba_reserved b - br_amount_atomic r,
                     ba_finalized_spend := ba_finalized_spend b + int (decVal spend), ba_version := ba_version b + 1\<rparr>
              else b) (budget_accounts d),
            budget_reservations := map (\<lambda>q. if br_reservation_id q = ti_reservationId input
              then q\<lparr>br_status := FINALIZED, br_finalized_spend_atomic := int (decVal spend), br_proof_reference := Some pf\<rparr>
              else q) (budget_reservations d),
            audit_events := audit_events d @ [event]\<rparr>))"
proof -
  have spend: "atomicUnitSchema spend" and "withSerializableTransaction E None (finalizeWork X input spend pf) d = (Inr s, d')"
    using assms(1) by (auto simp: finalizeReservation_def parseAtomic_def result_simps split: sum.splits)
  then obtain i where work: "finalizeWork X input spend pf (envServers E i) d = Inr (s, d')"
    using assms(2) by (blast elim: quiet_Inr)
  have spent: "bigInt spend = int (decVal spend)" using spend by (intro bigInt_canonical) (simp add: atomicUnitSchema_def)
  from work show ?thesis
  proof (cases rule: finalizeWork_Inr)
    case (settled r e row)
    note d' = settled(7) [unfolded settleFunds_def settleReservation_def updateWith_def spent]
    show ?thesis
      by (intro exI [of _ r] conjI disjI2 exI [of _ e] exI [of _ row] d')
        (use settled spend in \<open>simp_all add: spent\<close>)
  qed auto
qed

theorem finalize_settles_exactly_witness:
  "\<exists>s d'. finalizeReservation sampleExternals sampleEnv sampleTransition ''40'' ''receipt:1'' sampleDb = (Inr s, d')
     \<and> rs_status s = FINALIZED
     \<and> budget_accounts d' = [sampleAccount\<lparr>ba_available := ba_available sampleAccount + 60, ba_reserved := ba_reserved sampleAccount - 100,
          ba_finalized_spend := ba_finalized_spend sampleAccount + 40, ba_version := ba_version sampleAccount + 1\<rparr>]"
proof -
  obtain s d' where run: "finalizeReservation sampleExternals sampleEnv sampleTransition ''40'' ''receipt:1'' sampleDb = (Inr s, d')"
    using sample_finalize by blast
  have "decVal ''40'' = 40" by code_simp
  with finalize_settles_exactly [OF run sampleEnv_quiet] run show ?thesis
    by (auto simp: sample_defs)
qed

text \<open>
  C7. A broadcast hold is given back only on proof of a revert: if \<open>resolveRecovery\<close> answers a fresh
  attempt on a broadcast reservation with a released one, then the outcome was \<open>FAILED\<close> with
  \<open>verifiedRevert\<close> and zero spend, the evidence on record is verified and its receipt is the given proof; the caller
  authenticated as an active reconciler with the credential that holds the lease of this operation and reservation,
  in the version it names, active and not expired on the clock of the process. Then exactly the
  amount of the hold goes from reserved back to available, the reservation is released, the attempt
  is recorded, the lease resolved and two events appended; nothing else changes. (This is the code's rule; the
  comment of \<open>resolveRecovery\<close> speaks of releases before a broadcast only.)
\<close>

theorem broadcast_released_only_on_verified_revert:
  assumes "resolveRecovery X E audit input d = (Inr s, d')" "quiet E"
    "rowWith at_attempt_id (rr_attemptId input) (recovery_attempts d) = None"
    "rowWith br_reservation_id (rr_reservationId input) (budget_reservations d) = Some r"
    "br_status r = BROADCAST_R" "rs_status s = RELEASED"
  shows "rr_outcome input = FAILED \<and> rr_verifiedRevert input \<and> rr_actualSpendAtomic input = Some ''0''
    \<and> (\<exists>e. rowWith be_reservation_id (rr_reservationId input) (broadcast_evidence d) = Some e
         \<and> be_verification_status e = VERIFIED_E \<and> rr_proofReference input = Some (be_receipt_reference e))
    \<and> (\<exists>lease auth credential i. rowWith le_operation_id (rr_operationId input) (recovery_leases d) = Some lease
         \<and> le_lease_state lease = LeaseActive \<and> intStr (le_lease_version lease) = rr_leaseVersion input
         \<and> le_reservation_id lease = rr_reservationId input \<and> sv_nodeClock (envServers E i) < le_lease_expires_at lease
         \<and> ac_componentAuth audit = Some auth \<and> ca_credentialId auth = le_credential_id lease
         \<and> rowWith cr_credential_id (le_credential_id lease) (credentials d) = Some credential
         \<and> cr_active credential \<and> cr_component_role credential = RECONCILER)
    \<and> (\<exists>attempt event1 event2. at_attempt_id attempt = rr_attemptId input \<and> d' = d\<lparr>
         budget_accounts := map (\<lambda>b. if ba_budget_id b = br_budget_id r
           then b\<lparr>ba_available := ba_available b + br_amount_atomic r, ba_reserved := ba_reserved b - br_amount_atomic r,
                  ba_version := ba_version b + 1\<rparr> else b) (budget_accounts d),
         budget_reservations := map (\<lambda>q. if br_reservation_id q = rr_reservationId input
           then q\<lparr>br_status := RELEASED\<rparr> else q) (budget_reservations d),
         recovery_attempts := recovery_attempts d @ [attempt],
         recovery_leases := map (\<lambda>l. if le_operation_id l = rr_operationId input
           then l\<lparr>le_lease_state := LeaseResolved\<rparr> else l) (recovery_leases d),
         audit_events := audit_events d @ [event1, event2]\<rparr>)"
proof -
  obtain spend where spend: "withSerializableTransaction E None (resolveWork X audit input spend) d = (Inr s, d')"
    "spend = Some z \<Longrightarrow> rr_actualSpendAtomic input = Some z" for z
    using assms(1) by (auto simp: resolveRecovery_def parseAtomic_def truthy_def result_simps split: sum.splits if_splits)
  from spend(1) assms(2) obtain i where "resolveWork X audit input spend (envServers E i) d = Inr (s, d')" by (rule quiet_Inr)
  then show ?thesis using assms(3)
  proof (rule resolveWork_success)
    fix r' c authenticated d1 lease attempt event
    assume r: "rowWith br_reservation_id (rr_reservationId input) (budget_reservations d) = Some r'"
      and run: "resolveOutcome X audit input spend (mapReservation r') c
         (rowWith be_reservation_id (rr_reservationId input) (broadcast_evidence d)) authenticated (envServers E i) d = Inr (s, d1)"
      and lease: "rowWith le_operation_id (rr_operationId input) (recovery_leases d) = Some lease"
      "leaseLive input authenticated (sv_nodeClock (envServers E i)) (Some lease)"
      and auth: "authenticateComponent X (ac_componentAuth audit) RECONCILER ''recovery.resolve''
         (recoveryPayload input (rowWith be_reservation_id (rr_reservationId input) (broadcast_evidence d))) (envServers E i) d
         = Inr (authenticated, d)"
      and d': "at_attempt_id attempt = rr_attemptId input"
        "d' = d1\<lparr>recovery_attempts := recovery_attempts d1 @ [attempt],
       recovery_leases := updateWith le_operation_id (rr_operationId input) (\<lambda>lease. lease\<lparr>le_lease_state := LeaseResolved\<rparr>) (recovery_leases d1),
       audit_events := audit_events d1 @ [event]\<rparr>"
    from r assms(4) have r': "r' = r" by simp
    obtain e row where e: "rr_outcome input = FAILED" "rr_verifiedRevert input" "spend = Some ''0''"
      "rowWith be_reservation_id (rr_reservationId input) (broadcast_evidence d) = Some e" "be_verification_status e = VERIFIED_E"
      "rr_proofReference input = Some (be_receipt_reference e)"
      and d1: "d1 = d\<lparr>budget_accounts := updateWith ba_budget_id (br_budget_id r) (returnFunds (br_amount_atomic r)) (budget_accounts d),
       budget_reservations := updateWith br_reservation_id (rr_reservationId input) (\<lambda>q. q\<lparr>br_status := RELEASED\<rparr>) (budget_reservations d),
       audit_events := audit_events d @ [row]\<rparr>"
      using run [unfolded r'] assms(5,6) by (rule resolveOutcome_reverted)
    obtain a credential where a: "ac_componentAuth audit = Some a"
      "rowWith cr_credential_id (ca_credentialId a) (credentials d) = Some credential" "cr_active credential"
      "cr_component_role credential = RECONCILER" "an_credentialId authenticated = ca_credentialId a"
      using auth by (rule authenticateComponent_Inr)
    from lease(2) a(5) have live: "le_lease_state lease = LeaseActive" "intStr (le_lease_version lease) = rr_leaseVersion input"
      "le_reservation_id lease = rr_reservationId input" "sv_nodeClock (envServers E i) < le_lease_expires_at lease"
      "ca_credentialId a = le_credential_id lease"
      by (simp_all add: leaseLive_def)
    have effect: "\<exists>attempt event1 event2. at_attempt_id attempt = rr_attemptId input \<and> d' = d\<lparr>
         budget_accounts := map (\<lambda>b. if ba_budget_id b = br_budget_id r
           then b\<lparr>ba_available := ba_available b + br_amount_atomic r, ba_reserved := ba_reserved b - br_amount_atomic r,
                  ba_version := ba_version b + 1\<rparr> else b) (budget_accounts d),
         budget_reservations := map (\<lambda>q. if br_reservation_id q = rr_reservationId input
           then q\<lparr>br_status := RELEASED\<rparr> else q) (budget_reservations d),
         recovery_attempts := recovery_attempts d @ [attempt],
         recovery_leases := map (\<lambda>l. if le_operation_id l = rr_operationId input
           then l\<lparr>le_lease_state := LeaseResolved\<rparr> else l) (recovery_leases d),
         audit_events := audit_events d @ [event1, event2]\<rparr>"
      by (intro exI [of _ attempt] exI [of _ row] exI [of _ event] conjI d'(1))
        (simp add: d'(2) d1 updateWith_def returnFunds_def)
    show ?thesis
      using e lease(1) live a(1-4) spend(2) [OF e(3)] effect by (intro conjI exI [of _ e] exI [of _ lease] exI [of _ a] exI [of _ credential] exI [of _ i]) simp_all
  qed
qed

theorem broadcast_released_only_on_verified_revert_witness:
  "\<exists>s d'. resolveRecovery markExternals sampleEnv sampleAudit (sampleResolution FAILED) sampleDb = (Inr s, d')
     \<and> rs_status s = RELEASED \<and> rr_verifiedRevert (sampleResolution FAILED)
     \<and> budget_accounts d' = [sampleAccount\<lparr>ba_available := 1000, ba_reserved := 0, ba_version := 3\<rparr>]"
proof -
  obtain s d' where run: "resolveRecovery markExternals sampleEnv sampleAudit (sampleResolution FAILED) sampleDb = (Inr s, d')"
    "rs_status s = RELEASED" using sample_revert by blast
  have "rowWith at_attempt_id (rr_attemptId (sampleResolution FAILED)) (recovery_attempts sampleDb) = None"
    "rowWith br_reservation_id (rr_reservationId (sampleResolution FAILED)) (budget_reservations sampleDb) = Some sampleReservation"
    "br_status sampleReservation = BROADCAST_R" by (simp_all add: sampleResolution_def sample_defs)
  from broadcast_released_only_on_verified_revert [OF run(1) sampleEnv_quiet this run(2)] obtain attempt event1 event2 where
    "rr_verifiedRevert (sampleResolution FAILED)"
    "budget_accounts d' = map (\<lambda>b. if ba_budget_id b = br_budget_id sampleReservation
           then b\<lparr>ba_available := ba_available b + br_amount_atomic sampleReservation,
                  ba_reserved := ba_reserved b - br_amount_atomic sampleReservation, ba_version := ba_version b + 1\<rparr> else b)
       (budget_accounts sampleDb)" by auto
  with run show ?thesis by (simp add: sample_defs)
qed

text \<open>
  C25. Recovery leases fence older workers: a successful claim finds no lease of the operation that
  is active and unexpired on the database clock, and its version \<open>v\<close> is one more than that of the
  lease it replaces, 1 if there is none. Afterwards, whatever calls of the ledger (new claims and resolutions
  included) and changes of other tables follow, the operation has a lease with a version of at least
  \<open>v\<close>, and a resolution of the operation under any other version than the current one, so under every version
  older than \<open>v\<close>, and right after the claim every version but \<open>v\<close>, changes nothing when no other transaction commits during it,
  and fails unless it replays an attempt that is already on record.
\<close>

theorem claim_fences_older_leases:
  assumes "claimRecoveryLease X E claim d = (Inr lease, d')" "quiet E"
    "lease_run X d' later" "quiet E'" "rr_operationId input = rc_operationId claim"
  shows "\<exists>v current. rl_leaseVersion lease = intStr v
    \<and> (case rowWith le_operation_id (rc_operationId claim) (recovery_leases d) of
         None \<Rightarrow> v = 1
       | Some old \<Rightarrow> v = le_lease_version old + 1
           \<and> (le_lease_state old = LeaseResolved \<or> (\<exists>i. le_lease_expires_at old \<le> sv_clock (envServers E i))))
    \<and> recovery_attempts d' = recovery_attempts d
    \<and> rowWith le_operation_id (rc_operationId claim) (recovery_leases later) = Some current
    \<and> v \<le> le_lease_version current \<and> (later = d' \<longrightarrow> le_lease_version current = v)
    \<and> (rr_leaseVersion input \<noteq> intStr (le_lease_version current) \<or> (\<exists>u < v. rr_leaseVersion input = intStr u) \<longrightarrow>
         snd (resolveRecovery X E' audit input later) = later
         \<and> (rowWith at_attempt_id (rr_attemptId input) (recovery_attempts later) = None \<longrightarrow>
              (\<exists>e. fst (resolveRecovery X E' audit input later) = Inl e)))"
proof -
  from assms(1) obtain duration where
    "withSerializableTransaction E None (claimWork X claim duration) d = (Inr lease, d')"
    by (auto simp: claimRecoveryLease_def split: option.splits if_splits)
  then obtain i where "claimWork X claim duration (envServers E i) d = Inr (lease, d')"
    using assms(2) by (rule quiet_Inr)
  then obtain v row where
    version: "case rowWith le_operation_id (rc_operationId claim) (recovery_leases d) of
        None \<Rightarrow> v = 1
      | Some old \<Rightarrow> v = le_lease_version old + 1
          \<and> (le_lease_state old = LeaseResolved \<or> le_lease_expires_at old \<le> sv_clock (envServers E i))"
    "rl_leaseVersion lease = intStr v"
    and row: "rowWith le_operation_id (rc_operationId claim) (recovery_leases d') = Some row" "le_lease_version row = v"
    and attempts: "recovery_attempts d' = recovery_attempts d"
    by (rule claimWork_Inr)
  have "leaseAtLeast (rc_operationId claim) v later"
    using lease_run_keeps [OF assms(3)] row by (simp add: leaseAtLeast_def)
  then obtain current where current: "rowWith le_operation_id (rc_operationId claim) (recovery_leases later) = Some current"
    "v \<le> le_lease_version current" by (auto simp: leaseAtLeast_def)
  have same: "later = d' \<longrightarrow> le_lease_version current = v" using current(1) row by auto
  have older: "rr_leaseVersion input \<noteq> intStr (le_lease_version current)" if "u < v" "rr_leaseVersion input = intStr u" for u
    using that current(2) by (metis bigInt_intStr not_less)
  have stale: "rr_leaseVersion input \<noteq> intStr (le_lease_version current) \<or> (\<exists>u < v. rr_leaseVersion input = intStr u) \<longrightarrow>
         snd (resolveRecovery X E' audit input later) = later
         \<and> (rowWith at_attempt_id (rr_attemptId input) (recovery_attempts later) = None \<longrightarrow>
              (\<exists>e. fst (resolveRecovery X E' audit input later) = Inl e))"
    using stale_resolution [OF assms(4)] current(1) older assms(5) by metis
  have replaced: "case rowWith le_operation_id (rc_operationId claim) (recovery_leases d) of
         None \<Rightarrow> v = 1
       | Some old \<Rightarrow> v = le_lease_version old + 1
           \<and> (le_lease_state old = LeaseResolved \<or> (\<exists>i. le_lease_expires_at old \<le> sv_clock (envServers E i)))"
    using version(1) by (auto split: option.splits)
  show ?thesis
    by (intro exI [of _ v] exI [of _ current] conjI version(2) replaced attempts current same stale)
qed

theorem claim_fences_older_leases_witness:
  "\<exists>l d'. claimRecoveryLease sampleExternals sampleEnv sampleClaim (sampleDb\<lparr>recovery_leases := []\<rparr>) = (Inr l, d')
     \<and> (\<exists>e. resolveRecovery sampleExternals sampleEnv sampleAudit (sampleResolution AMBIGUOUS) d' = (Inl e, d'))"
proof -
  obtain l d' where run: "claimRecoveryLease sampleExternals sampleEnv sampleClaim (sampleDb\<lparr>recovery_leases := []\<rparr>) = (Inr l, d')"
    "rl_leaseVersion l = ''1''" using sample_claim by blast
  have "rr_operationId (sampleResolution AMBIGUOUS) = rc_operationId sampleClaim"
    "rr_leaseVersion (sampleResolution AMBIGUOUS) \<noteq> rl_leaseVersion l"
    using run(2) by (simp_all add: sampleResolution_def sampleClaim_def sample_defs)
  with claim_fences_older_leases [OF run(1) sampleEnv_quiet lease_run.start sampleEnv_quiet, of "sampleResolution AMBIGUOUS" sampleAudit]
  have "snd (resolveRecovery sampleExternals sampleEnv sampleAudit (sampleResolution AMBIGUOUS) d') = d'
    \<and> (\<exists>e. fst (resolveRecovery sampleExternals sampleEnv sampleAudit (sampleResolution AMBIGUOUS) d') = Inl e)"
    by (auto simp: rowWith_def sample_defs)
  with run(1) show ?thesis by (metis prod.collapse)
qed

text \<open>
  C28. The audit log survives every call: whatever operation of the ledger is called, and whatever
  the servers refuse, every chain of the audit log stays gapless, linked and verifiable, if the
  transactions that commit in between keep it so.
\<close>

theorem ledger_calls_keep_audit_chains:
  assumes "hexDigests X" "auditChains X d" "\<And>i e. auditChains X e \<Longrightarrow> auditChains X (envOthers E i e)"
  shows "auditChains X (callLedger X E c d)"
  using assms(2) works_keep_chains [OF assms(1)]
  by (cases c)
    (auto simp: reserveBudget_def authorizeReservation_def markReservationBroadcast_def verifyBroadcastEvidence_def
      releaseReservation_def expireReservation_def finalizeReservation_def disputeReservation_def claimRecoveryLease_def
      resolveRecovery_def intro!: transaction_keeps_chains assms(3) split: sum.splits option.splits prod.splits)

theorem ledger_calls_keep_audit_chains_witness:
  "auditChains sampleExternals (callLedger sampleExternals sampleEnv (Reserve (sampleRequest ''50'')) sampleDb)"
proof (rule ledger_calls_keep_audit_chains [OF sampleExternals_ok(1)])
  show "auditChains sampleExternals sampleDb"
    using auditChains_cong [of sampleDb emptyDb] emptyDb_chains by (simp add: sampleDb_def)
qed (simp add: sampleEnv_def)

end
