(* ===== verification/AuthorityProperties.thy ===== *)
theory AuthorityProperties
  imports AuthoritySample LedgerProperties
begin

text \<open>
  The properties of the approval and control services: what an authorization rests on, that an
  approval is used once and only moves forward, what a changed fence stops, and that the services
  do nothing to the budgets but what the ledger allows.
\<close>

section \<open>Lemmas: consuming an approval\<close>

lemma appends_frame:
  "append_approval X row audit eventType suffix data sv d = Inr (u, d') \<Longrightarrow> \<exists>event. d' = audit_events_update (\<lambda>rows. rows @ [event]) d"
  unfolding append_approval_def appendBound_def Let_def by (auto simp: tx_simps dest: append_frame)

lemma decision_frame:
  "recordDecision row type approverId decidedAt reason sv d = Inr (u, d') \<Longrightarrow>
    \<exists>decision. d' = approval_decisions_update (\<lambda>rows. rows @ [decision]) d \<and> ad_approval_id decision = av_approval_id row
      \<and> ad_decision_type decision = type \<and> ad_approver_id decision = approverId \<and> ad_decided_at decision = decidedAt
      \<and> ad_envelope_hash decision = cm_envelope_hash row \<and> ad_fences decision = cm_fences row"
  unfolding recordDecision_def insertApprovalDecision_def by (auto simp: tx_simps)

lemma consumeWork_Granted:
  assumes "consumeWork X request now sv d = Inr (Granted e, d')"
  obtains row d1 envelope where "loadApproval (nq_approvalId request) sv d = Inr (row, d1)" 
    "cm_operation_id row = nq_operationId request" "cm_envelope_id row = nq_envelopeId request"
    "Some (cm_envelope_revision row) = nq_envelopeRevision request" "cm_envelope_hash row = nq_envelopeHash request"
    "assertCommonBinding X row = Inr envelope" "av_status row = APPROVED_A" "fencesAreActiveAndCurrent row"
    "secondOf (av_issued_at row) \<le> now" "now < secondOf (av_expires_at row)" "cm_latest_revision row = cm_envelope_revision row"
    "cm_current_state row = AWAITING_APPROVAL" "cm_reservation_status row = HELD" "persistedEnvelope X row = Inr envelope"
    "e = consumedEvidence row envelope (nq_consumerId request) now" "av_approver_id row \<noteq> None"
   "operations d' = updateWith op_operation_id (cm_operation_id row) (\<lambda>o1. o1\<lparr>op_current_state := AUTHORIZED\<rparr>) (operations d)"
   "ledgerOf d' = (budget_accounts d, updateWith br_reservation_id (cm_reservation_id row) (setStatus AUTHORIZED_R) (budget_reservations d))"
   "authorization_evidence d' = authorization_evidence d @ [e]" "\<not> list_ex (authorizationClash e) (authorization_evidence d)"
   "approval_requests d' = updateWith ap_approval_id (av_approval_id row) (\<lambda>a. a\<lparr>ap_status := CONSUMED_A, ap_consumed_at := Some now\<rparr>) (approval_requests d)"
   "control_fences d' = control_fences d1"
   "\<exists>new decision event1 event2 event3. av_approver_id row = Some (ad_approver_id decision)
      \<and> ad_approval_id decision = av_approval_id row \<and> ad_decision_type decision = CONSUME_D \<and> ad_decided_at decision = now
      \<and> ad_envelope_hash decision = cm_envelope_hash row \<and> ad_fences decision = cm_fences row
      \<and> d' = d\<lparr>control_fences := control_fences d @ new,
          operations := updateWith op_operation_id (cm_operation_id row) (\<lambda>o1. o1\<lparr>op_current_state := AUTHORIZED\<rparr>) (operations d),
          budget_reservations := updateWith br_reservation_id (cm_reservation_id row) (setStatus AUTHORIZED_R) (budget_reservations d),
          authorization_evidence := authorization_evidence d @ [e],
          approval_requests := updateWith ap_approval_id (av_approval_id row)
            (\<lambda>a. a\<lparr>ap_status := CONSUMED_A, ap_consumed_at := Some now\<rparr>) (approval_requests d),
          approval_decisions := approval_decisions d @ [decision],
          audit_events := audit_events d @ [event1, event2, event3]\<rparr>"
proof -
  from assms obtain row d1 where load: "loadApproval (nq_approvalId request) sv d = Inr (row, d1)" and
    row: "cm_operation_id row = nq_operationId request" "cm_envelope_id row = nq_envelopeId request"
    "Some (cm_envelope_revision row) = nq_envelopeRevision request" "cm_envelope_hash row = nq_envelopeHash request"
    "\<exists>envelope. assertCommonBinding X row = Inr envelope" "av_status row = APPROVED_A" "fencesAreActiveAndCurrent row"
    "secondOf (av_issued_at row) \<le> now" "now < secondOf (av_expires_at row)" "cm_latest_revision row = cm_envelope_revision row"
    "cm_current_state row = AWAITING_APPROVAL" "cm_reservation_status row = HELD"
    unfolding consumeWork_def Let_def txBind_Inr [of "loadApproval _"]
    by (elim exE conjE) (simp add: tx_simps split: if_splits)
  from assms load row obtain envelope d2 d3 d4 d5 d6 d7 d8 where envelope: "persistedEnvelope X row = Inr envelope"
      "e = consumedEvidence row envelope (nq_consumerId request) now" "av_approver_id row \<noteq> None"
    and held: "authorizeHeld row sv d1 = Inr ((), d2)" and insert: "insertAuthorization e sv d2 = Inr ((), d3)"
    and consumed: "updateApproval (av_approval_id row) (\<lambda>a. ap_status a = APPROVED_A)
       (\<lambda>a. a\<lparr>ap_status := CONSUMED_A, ap_consumed_at := Some now\<rparr>) sv d3 = Inr ((), d4)"
    and log: "\<exists>a. recordDecision (row\<lparr>av_status := CONSUMED_A, av_consumed_at := Some now, cm_current_state := AUTHORIZED,
          cm_reservation_status := AUTHORIZED_R\<rparr>) CONSUME_D a now None sv d4 = Inr ((), d5) \<and> av_approver_id row = Some a"
      "\<exists>r t u l. append_approval X r (nq_audit request) t u l sv d5 = Inr ((), d6)"
      "\<exists>r t u l. append_approval X r (nq_audit request) t u l sv d6 = Inr ((), d7)"
      "\<exists>r t u l. append_approval X r (nq_audit request) t u l sv d7 = Inr ((), d')"
    unfolding consumeWork_def Let_def txBind_Inr [of "loadApproval _"]
    by (auto simp: tx_simps split: option.splits; blast)
  obtain more: "moreFences d d1" using load by (rule loadApproval_Inr)
  have d2: "d2 = budget_reservations_update (updateWith br_reservation_id (cm_reservation_id row) (setStatus AUTHORIZED_R))
      (operations_update (updateWith op_operation_id (cm_operation_id row) (\<lambda>o1. o1\<lparr>op_current_state := AUTHORIZED\<rparr>)) d1)"
    using held unfolding authorizeHeld_def updateOperation_def updateOperationFrom_def updateReservationFrom_def
    by (auto simp: tx_simps txUpdateOne_Inr)
  have d3: "d3 = authorization_evidence_update (\<lambda>rows. rows @ [e]) d2" "\<not> list_ex (authorizationClash e) (authorization_evidence d2)"
    using insert by (auto simp: insertAuthorization_def tx_simps)
  have d4: "d4 = approval_requests_update (updateWith ap_approval_id (av_approval_id row)
      (\<lambda>a. a\<lparr>ap_status := CONSUMED_A, ap_consumed_at := Some now\<rparr>)) d3"
    using consumed by (auto simp: updateApproval_def tx_simps txUpdateOne_Inr)
  from log(1) obtain decision where decision: "d5 = approval_decisions_update (\<lambda>rows. rows @ [decision]) d4"
    "av_approver_id row = Some (ad_approver_id decision)" "ad_approval_id decision = av_approval_id row"
    "ad_decision_type decision = CONSUME_D" "ad_decided_at decision = now"
    "ad_envelope_hash decision = cm_envelope_hash row" "ad_fences decision = cm_fences row"
    by (elim exE conjE) (drule decision_frame, elim exE conjE, rule that, simp_all)
  from log(2-4) obtain event1 event2 event3 where d': "d' = audit_events_update (\<lambda>rows. rows @ [event1, event2, event3]) d5"
    by (elim exE) (drule appends_frame, drule appends_frame, drule appends_frame, elim exE, rule that, simp add: o_def)
  obtain new where new: "d1 = control_fences_update (\<lambda>rows. rows @ new) d" using more unfolding moreFences_def ..
  have effect: "d' = d\<lparr>control_fences := control_fences d @ new,
          operations := updateWith op_operation_id (cm_operation_id row) (\<lambda>o1. o1\<lparr>op_current_state := AUTHORIZED\<rparr>) (operations d),
          budget_reservations := updateWith br_reservation_id (cm_reservation_id row) (setStatus AUTHORIZED_R) (budget_reservations d),
          authorization_evidence := authorization_evidence d @ [e],
          approval_requests := updateWith ap_approval_id (av_approval_id row)
            (\<lambda>a. a\<lparr>ap_status := CONSUMED_A, ap_consumed_at := Some now\<rparr>) (approval_requests d),
          approval_decisions := approval_decisions d @ [decision],
          audit_events := audit_events d @ [event1, event2, event3]\<rparr>"
    by (simp add: d' decision(1) d4 d3(1) d2 new)
  with decision have frame: "\<exists>new decision event1 event2 event3. av_approver_id row = Some (ad_approver_id decision)
      \<and> ad_approval_id decision = av_approval_id row \<and> ad_decision_type decision = CONSUME_D \<and> ad_decided_at decision = now
      \<and> ad_envelope_hash decision = cm_envelope_hash row \<and> ad_fences decision = cm_fences row
      \<and> d' = d\<lparr>control_fences := control_fences d @ new,
          operations := updateWith op_operation_id (cm_operation_id row) (\<lambda>o1. o1\<lparr>op_current_state := AUTHORIZED\<rparr>) (operations d),
          budget_reservations := updateWith br_reservation_id (cm_reservation_id row) (setStatus AUTHORIZED_R) (budget_reservations d),
          authorization_evidence := authorization_evidence d @ [e],
          approval_requests := updateWith ap_approval_id (av_approval_id row)
            (\<lambda>a. a\<lparr>ap_status := CONSUMED_A, ap_consumed_at := Some now\<rparr>) (approval_requests d),
          approval_decisions := approval_decisions d @ [decision],
          audit_events := audit_events d @ [event1, event2, event3]\<rparr>"
    by (intro exI [of _ new] exI [of _ decision] exI [of _ event1] exI [of _ event2] exI [of _ event3] conjI)
  from envelope(1) row(5) have "assertCommonBinding X row = Inr envelope" 
    by (auto simp: assertCommonBinding_def result_simps)
  with load row envelope d2 d3 d4 d' decision(1) moreFences_tables [OF more] show ?thesis
    by (intro that [OF _ _ _ _ _ _ _ _ _ _ _ _ _ _ _ _ _ _ _ _ _ _ frame, of d1 envelope]) (simp_all add: ledgerOf_def)
qed

text \<open>What the approval and the operation must be for an authorization to be granted.\<close>

definition consumable :: "consume_approval_request \<Rightarrow> int \<Rightarrow> approval_request_row \<Rightarrow> db \<Rightarrow> bool" where
  "consumable request now a d \<longleftrightarrow>
     rowWith ap_approval_id (nq_approvalId request) (approval_requests d) = Some a
     \<and> ap_status a = APPROVED_A \<and> secondOf (ap_issued_at a) \<le> now \<and> now < secondOf (ap_expires_at a)
     \<and> ap_operation_id a = nq_operationId request \<and> ap_envelope_id a = nq_envelopeId request
     \<and> Some (ap_envelope_revision a) = nq_envelopeRevision request \<and> ap_envelope_hash a = nq_envelopeHash request
     \<and> latestRevision (ap_operation_id a) d = ap_envelope_revision a
     \<and> (\<exists>o1. rowWith op_operation_id (ap_operation_id a) (operations d) = Some o1 \<and> op_current_state o1 = AWAITING_APPROVAL)
     \<and> (\<exists>r. rowWith br_reservation_id (ap_reservation_id a) (budget_reservations d) = Some r \<and> br_status r = HELD)"

text \<open>The evidence that an approval gives, for an envelope.\<close>

definition evidenceOf :: "approval_request_row \<Rightarrow> jsval \<Rightarrow> authorization_row \<Rightarrow> bool" where
  "evidenceOf a envelope e \<longleftrightarrow>
     az_approval_id e = Some (ap_approval_id a) \<and> az_kind e = OWNER_APPROVAL \<and> az_approver_id e = ap_approver_id a
     \<and> az_operation_id e = ap_operation_id a \<and> az_reservation_id e = ap_reservation_id a
     \<and> az_policy_decision_id e = ap_policy_decision_id a \<and> az_policy_decision_hash e = ap_policy_decision_hash a
     \<and> az_policy_id e = ap_policy_id a \<and> az_policy_version e = ap_policy_version a
     \<and> az_envelope_hash e = ap_envelope_hash a \<and> az_fences e = ap_fences a
     \<and> az_expires_at e = secondOf (ap_expires_at a)
     \<and> getProp envelope ''envelopeHash'' = JString (ap_envelope_hash a)
     \<and> getProp envelope ''budgetReservationId'' = JString (ap_reservation_id a)"

lemma assertCommonBinding_Inr:
  assumes "assertCommonBinding X row = Inr envelope"
  shows "hashExecutionEnvelope X envelope = Some (cm_envelope_hash row)"
    "getProp envelope ''envelopeHash'' = JString (cm_envelope_hash row)" "envelopeBound row envelope"
    "cm_policy_decision_status row = REQUIRE_APPROVAL"
  using assms
  by (auto simp: assertCommonBinding_def persistedEnvelope_def claimsPersisted_def result_simps require_def ofOption_def
      simp del: getProp.simps split: option.splits if_splits)

lemma assertCommonBinding_parsed:
  "assertCommonBinding X row = Inr envelope \<Longrightarrow> canonicalExecutionEnvelopeSchema X (cm_envelope_payload row) = Some envelope"
  by (auto simp: assertCommonBinding_def persistedEnvelope_def result_simps require_def ofOption_def
      simp del: getProp.simps split: option.splits if_splits)

lemma current_fences:
  assumes "fencesAreActiveAndCurrent row"
  shows "cm_current_fences row = cm_fences row" "allActive (cm_fences row)"
  using assms by (auto simp: fencesAreActiveAndCurrent_def allActive_def intro: fence_snapshot.equality)

text \<open>The rows behind a loaded approval: its envelope, and the agent whose owner it belongs to.\<close>

lemma loadApproval_joins:
  assumes "loadApproval aid sv d = Inr (row, d')" "rowWith ap_approval_id aid (approval_requests d) = Some a"
    "rowWith op_operation_id (ap_operation_id a) (operations d) = Some o1"
  obtains ag en where "rowWith ag_agent_id (op_agent_id o1) (agents d) = Some ag"
    "cm_owner_id row = ag_owner_id ag" "cm_agent_id row = op_agent_id o1"
    "rowWith en_envelope_id (ap_envelope_id a) (execution_envelopes d) = Some en" "cm_envelope_payload row = en_payload en"
    "en_operation_id en = ap_operation_id a"
proof -
  obtain row' fences where load: "approvalSelect aid d = Some row'" "row = row'\<lparr>cm_current_fences := fences\<rparr>"
    using assms(1) by (rule loadApproval_Inr)
  with assms(2,3) show ?thesis
    unfolding approvalSelect_def commonSelect_def rowWhere_def
    by (auto simp: approval_row.defs common_row.defs split: option.splits if_splits intro: that)
qed

lemma consumeWork_consumable:
  assumes "consumeWork X request now sv d = Inr (Granted e, d')"
  obtains a envelope o1 ag en new decision event1 event2 event3 where "consumable request now a d" "evidenceOf a envelope e"
    "hashExecutionEnvelope X envelope = Some (ap_envelope_hash a)"
    "rowWith en_envelope_id (ap_envelope_id a) (execution_envelopes d) = Some en" "en_operation_id en = ap_operation_id a"
    "canonicalExecutionEnvelopeSchema X (en_payload en) = Some envelope"
    "rowWith op_operation_id (ap_operation_id a) (operations d) = Some o1"
    "rowWith ag_agent_id (op_agent_id o1) (agents d) = Some ag"
    "allActive (ap_fences a)" "currentSnapshot (ag_owner_id ag) (op_agent_id o1) (ap_policy_id a) d' (ap_fences a)"
    "rowWith ap_approval_id (nq_approvalId request) (approval_requests d') = Some (a\<lparr>ap_status := CONSUMED_A, ap_consumed_at := Some now\<rparr>)"
    "ledgerOf d' = (budget_accounts d, updateWith br_reservation_id (ap_reservation_id a) (setStatus AUTHORIZED_R) (budget_reservations d))"
    "ap_approver_id a = Some (ad_approver_id decision)" "ad_approval_id decision = ap_approval_id a"
    "ad_decision_type decision = CONSUME_D" "ad_decided_at decision = now"
    "ad_envelope_hash decision = ap_envelope_hash a" "ad_fences decision = ap_fences a"
    "d' = d\<lparr>control_fences := control_fences d @ new,
       operations := updateWith op_operation_id (ap_operation_id a) (\<lambda>o1. o1\<lparr>op_current_state := AUTHORIZED\<rparr>) (operations d),
       budget_reservations := updateWith br_reservation_id (ap_reservation_id a) (setStatus AUTHORIZED_R) (budget_reservations d),
       authorization_evidence := authorization_evidence d @ [e],
       approval_requests := updateWith ap_approval_id (ap_approval_id a)
         (\<lambda>a. a\<lparr>ap_status := CONSUMED_A, ap_consumed_at := Some now\<rparr>) (approval_requests d),
       approval_decisions := approval_decisions d @ [decision],
       audit_events := audit_events d @ [event1, event2, event3]\<rparr>"
proof -
  obtain row d1 envelope where run: "loadApproval (nq_approvalId request) sv d = Inr (row, d1)"
    "cm_operation_id row = nq_operationId request" "cm_envelope_id row = nq_envelopeId request"
    "Some (cm_envelope_revision row) = nq_envelopeRevision request" "cm_envelope_hash row = nq_envelopeHash request"
    and binding: "assertCommonBinding X row = Inr envelope" and fences: "fencesAreActiveAndCurrent row"
    and ok: "av_status row = APPROVED_A" "secondOf (av_issued_at row) \<le> now" "now < secondOf (av_expires_at row)"
    "cm_latest_revision row = cm_envelope_revision row" "cm_current_state row = AWAITING_APPROVAL" "cm_reservation_status row = HELD"
    and e: "e = consumedEvidence row envelope (nq_consumerId request) now" and same: "control_fences d' = control_fences d1"
    and effect: "\<exists>new decision event1 event2 event3. av_approver_id row = Some (ad_approver_id decision)
      \<and> ad_approval_id decision = av_approval_id row \<and> ad_decision_type decision = CONSUME_D \<and> ad_decided_at decision = now
      \<and> ad_envelope_hash decision = cm_envelope_hash row \<and> ad_fences decision = cm_fences row
      \<and> d' = d\<lparr>control_fences := control_fences d @ new,
          operations := updateWith op_operation_id (cm_operation_id row) (\<lambda>o1. o1\<lparr>op_current_state := AUTHORIZED\<rparr>) (operations d),
          budget_reservations := updateWith br_reservation_id (cm_reservation_id row) (setStatus AUTHORIZED_R) (budget_reservations d),
          authorization_evidence := authorization_evidence d @ [e],
          approval_requests := updateWith ap_approval_id (av_approval_id row)
            (\<lambda>a. a\<lparr>ap_status := CONSUMED_A, ap_consumed_at := Some now\<rparr>) (approval_requests d),
          approval_decisions := approval_decisions d @ [decision],
          audit_events := audit_events d @ [event1, event2, event3]\<rparr>"
    using assms by (rule consumeWork_Granted) blast
  from run(1) show ?thesis
  proof (rule loadApproval_row)
    fix a o1 r
    assume a: "rowWith ap_approval_id (nq_approvalId request) (approval_requests d) = Some a"
      "rowWith op_operation_id (ap_operation_id a) (operations d) = Some o1" "cm_current_state row = op_current_state o1"
      "rowWith br_reservation_id (ap_reservation_id a) (budget_reservations d) = Some r" "cm_reservation_status row = br_status r"
      "cm_latest_revision row = latestRevision (ap_operation_id a) d"
      and columns: "cm_reservation_id row = ap_reservation_id a" "cm_operation_id row = ap_operation_id a" "cm_envelope_id row = ap_envelope_id a"
      "cm_envelope_revision row = ap_envelope_revision a" "cm_envelope_hash row = ap_envelope_hash a"
      "cm_policy_decision_id row = ap_policy_decision_id a" "cm_policy_decision_hash row = ap_policy_decision_hash a"
      "cm_policy_id row = ap_policy_id a" "cm_policy_version row = ap_policy_version a" "cm_fences row = ap_fences a"
      "av_approval_id row = nq_approvalId request" "av_status row = ap_status a" "av_approver_id row = ap_approver_id a"
      "av_issued_at row = ap_issued_at a" "av_expires_at row = ap_expires_at a"
      and snapshot: "currentSnapshot (cm_owner_id row) (cm_agent_id row) (ap_policy_id a) d1 (cm_current_fences row)"
    obtain ag en where joins: "rowWith ag_agent_id (op_agent_id o1) (agents d) = Some ag"
      "cm_owner_id row = ag_owner_id ag" "cm_agent_id row = op_agent_id o1"
      "rowWith en_envelope_id (ap_envelope_id a) (execution_envelopes d) = Some en" "cm_envelope_payload row = en_payload en"
      "en_operation_id en = ap_operation_id a"
      using run(1) a(1,2) by (rule loadApproval_joins)
    have id: "ap_approval_id a = nq_approvalId request" using rowWith_Some [OF a(1)] by simp
    have consumed: "consumable request now a d" using a columns run ok by (auto simp: consumable_def)
    have evidence: "evidenceOf a envelope e"
      using assertCommonBinding_Inr [OF binding] columns id
      by (simp add: evidenceOf_def e consumedEvidence_def envelopeBound_def del: getProp.simps)
    have current: "currentSnapshot (ag_owner_id ag) (op_agent_id o1) (ap_policy_id a) d' (ap_fences a)"
      using snapshot joins(2,3) current_fences [OF fences] columns(10) same by (simp add: currentSnapshot_def)
    have parsed: "canonicalExecutionEnvelopeSchema X (en_payload en) = Some envelope"
      using assertCommonBinding_parsed [OF binding] joins(5) by simp
    have active: "allActive (ap_fences a)" and hash: "hashExecutionEnvelope X envelope = Some (ap_envelope_hash a)"
      using current_fences [OF fences] assertCommonBinding_Inr(1) [OF binding] columns by simp_all
    from effect obtain new decision event1 event2 event3 where decision: "av_approver_id row = Some (ad_approver_id decision)"
      "ad_approval_id decision = av_approval_id row" "ad_decision_type decision = CONSUME_D" "ad_decided_at decision = now"
      "ad_envelope_hash decision = cm_envelope_hash row" "ad_fences decision = cm_fences row" and
      d': "d' = d\<lparr>control_fences := control_fences d @ new,
          operations := updateWith op_operation_id (ap_operation_id a) (\<lambda>o1. o1\<lparr>op_current_state := AUTHORIZED\<rparr>) (operations d),
          budget_reservations := updateWith br_reservation_id (ap_reservation_id a) (setStatus AUTHORIZED_R) (budget_reservations d),
          authorization_evidence := authorization_evidence d @ [e],
          approval_requests := updateWith ap_approval_id (ap_approval_id a)
            (\<lambda>a. a\<lparr>ap_status := CONSUMED_A, ap_consumed_at := Some now\<rparr>) (approval_requests d),
          approval_decisions := approval_decisions d @ [decision],
          audit_events := audit_events d @ [event1, event2, event3]\<rparr>"
      using columns id by auto
    show ?thesis
      by (rule that [OF consumed evidence hash joins(4,6) parsed a(2) joins(1) active current _ _ _ _ decision(3,4) _ _ d'])
        (use a(1) decision columns id in \<open>simp_all add: d' ledgerOf_def rowWith_updateWith\<close>)
  qed
qed

text \<open>Four active fences, at the versions of a snapshot.\<close>

lemma snapshot_active:
  assumes "allActive s" "currentSnapshot ownerId agentId policyId d s"
  shows "list_all (\<lambda>(scope, scopeId, version). \<exists>f. rowWith fenceKey (scope, scopeId) (control_fences d) = Some f
          \<and> fe_state f = ''ACTIVE'' \<and> fe_fence_version f = version)
        [(SYSTEM_SCOPE, ''system'', fs_systemFenceVersion s), (OWNER_SCOPE, ownerId, fs_ownerFenceVersion s),
         (AGENT_SCOPE, agentId, fs_agentFenceVersion s), (POLICY_SCOPE, policyId, fs_policyFenceVersion s)]"
  using assms by (auto simp: allActive_def currentSnapshot_def)

lemma settleOutcome_Inr: "settleOutcome r = (Inr x, d) \<longleftrightarrow> r = (Inr (Granted x), d)"
  by (cases r rule: settleOutcome.cases) auto

text \<open>An approval that is not approved cannot be consumed.\<close>

lemma consumeWork_refused:
  assumes "rowWith ap_approval_id (nq_approvalId request) (approval_requests d) = Some a" "ap_status a \<noteq> APPROVED_A"
  shows "consumeWork X request now sv d \<noteq> Inr (x, d')"
proof
  assume "consumeWork X request now sv d = Inr (x, d')"
  then obtain row d1 where "loadApproval (nq_approvalId request) sv d = Inr (row, d1)" "av_status row = APPROVED_A"
    unfolding consumeWork_def Let_def txBind_Inr [of "loadApproval _"] by (auto simp: tx_simps)
  with assms show False by (auto elim: loadApproval_row)
qed

lemma consume_transaction:
  "consumeApproval X E nodeNow request d = (Inr e, d') \<Longrightarrow>
     \<exists>now. consumeParameters nodeNow request = Inr now
       \<and> withSerializableTransaction E None (consumeWork X request now) d = (Inr (Granted e), d')"
  by (auto simp: consumeApproval_def settleOutcome_Inr split: sum.splits)

lemma transaction_attempt:
  assumes "withSerializableTransaction E None work d = (r, d')"
  obtains i where "runAttempt work (envServers E i) (tablesBefore (envOthers E) 0 i d) = (r, d')"
  using assms attemptLoop_one [of 3 work "envServers E" "envOthers E" 0 d]
  by (auto simp: withSerializableTransaction_def DEFAULT_MAX_RETRIES_def)

lemma hasLaterApproval_self: "rowWith ap_approval_id aid (approval_requests d) = Some a \<Longrightarrow> hasLaterApproval a d"
  using rowWith_Some [of ap_approval_id aid "approval_requests d" a] by (simp add: hasLaterApproval_def)

lemma tablesBefore_run:
  "(\<And>i e. authority_run X e (envOthers E i e)) \<Longrightarrow> hasLaterApproval a d \<Longrightarrow> hasLaterApproval a (tablesBefore (envOthers E) first n d)"
  by (induction n arbitrary: first d) (simp, blast intro: approval_life.run_keeps)+

section \<open>Lemmas: fences and revalidation\<close>

fun scopeVersion :: "scope_type \<Rightarrow> fence_snapshot \<Rightarrow> int" where
  "scopeVersion SYSTEM_SCOPE s = fs_systemFenceVersion s"
| "scopeVersion OWNER_SCOPE s = fs_ownerFenceVersion s"
| "scopeVersion AGENT_SCOPE s = fs_agentFenceVersion s"
| "scopeVersion POLICY_SCOPE s = fs_policyFenceVersion s"

text \<open>The fence of an operation in a scope is read by the snapshot of its owner, agent and policy.\<close>

lemma snapshot_version:
  assumes "currentSnapshot (ag_owner_id ag) (op_agent_id o1) (op_policy_id o1) d s" "fenceAtLeast (scopeType, scopeId) v d"
    "targetPredicate scopeType scopeId o1 ag" "scopeType = SYSTEM_SCOPE \<Longrightarrow> scopeId = ''system''"
  shows "v \<le> scopeVersion scopeType s"
  using assms by (cases scopeType) (auto simp: currentSnapshot_def fenceAtLeast_def targetPredicate_def)

lemma lockMutationFence_Inr:
  assumes "assertTarget scopeType scopeId sv d = Inr ((), d)" "lockMutationFence scopeType scopeId sv d = Inr (f, d')"
  shows "rowWith fenceKey (scopeType, scopeId) (control_fences d') = Some f" "moreFences d d'"
proof -
  have steps: "rowWith fenceKey (st, si) (control_fences e') = Some g \<and> moreFences e e'"
    if "ensureFence st si sv e = Inr (g, e')" for st si e g e' using ensureFence_Inr [OF that] by simp
  from assms show "rowWith fenceKey (scopeType, scopeId) (control_fences d') = Some f"
    unfolding assertTarget_def lockMutationFence_def
    by (cases scopeType) (auto simp: tx_simps dest!: steps split: option.splits)
  from assms(2) show "moreFences d d'"
    unfolding lockMutationFence_def
    by (cases scopeType) (auto simp: tx_simps dest!: steps split: option.splits, (blast intro: moreFences_trans)+)
qed

lemma assertTarget_Inr: "assertTarget scopeType scopeId sv d = Inr (u, d') \<Longrightarrow> d' = d"
  by (cases scopeType) (auto simp: assertTarget_def tx_simps)

lemma changeFenceWork_changed:
  assumes "changeFenceWork X request sv d = Inr (r, d')" "fr_changed r"
  shows "fr_state r = nextFenceState request"
    "fenceAtLeast (cf_scopeType request, cf_scopeId request) (fr_fenceVersion r) d'"
    "case rowWith fenceKey (cf_scopeType request, cf_scopeId request) (control_fences d) of
       None \<Rightarrow> True | Some f \<Rightarrow> fr_fenceVersion r = fe_fence_version f + 1"
    "cf_scopeType request = SYSTEM_SCOPE \<longrightarrow> cf_scopeId request = ''system''"
proof -
  let ?key = "(cf_scopeType request, cf_scopeId request)"
  let ?revoke = "txExec (policies_update (updateWith pl_policy_id (cf_scopeId request) (\<lambda>p. p\<lparr>pl_status := PolicyRevoked\<rparr>)))"
  from assms(1) obtain f d1 where target: "assertTarget (cf_scopeType request) (cf_scopeId request) sv d = Inr ((), d)"
    and lock: "lockMutationFence (cf_scopeType request) (cf_scopeId request) sv d = Inr (f, d1)"
    and rest: "(if commandApplied (cf_command request) (fe_state f) then txReturn (fenceResult False f)
      else txBind (txUpdateOne control_fences_update control_fences fenceKey ?key (\<lambda>_. True) (bumpFence request (fe_fence_version f))) (\<lambda>_.
        txBind (txQuery (\<lambda>d. rowWith fenceKey ?key (control_fences d))) (\<lambda>updated.
        case updated of None \<Rightarrow> txThrow (ControlFenceError CONTROL_TARGET_NOT_FOUND)
        | Some next \<Rightarrow> txThen (appendControlAudit X request next (fe_state f)) (
            txThen (if cf_scopeType request = POLICY_SCOPE \<and> cf_command request = REVOKE then ?revoke else txReturn ()) (
            txThen (invalidateAffectedAuthorizations X request (fe_fence_version next) (fe_state next)) (
            txReturn (fenceResult True next))))))) sv d1 = Inr (r, d')"
    unfolding changeFenceWork_def txBind_Inr [of "lockMutationFence _ _"] txThen_Inr [of "assertTarget _ _"]
    by (auto dest: assertTarget_Inr)
  have "\<not> commandApplied (cf_command request) (fe_state f)"
    using rest assms(2) by (auto simp: tx_simps fenceResult_def)
  with rest obtain b d2 g d3 d4 where
    bump: "txUpdateOne control_fences_update control_fences fenceKey ?key (\<lambda>_. True) (bumpFence request (fe_fence_version f)) sv d1 = Inr (b, d2)"
    and g: "rowWith fenceKey ?key (control_fences d2) = Some g" "r = fenceResult True g"
    and tail: "appendControlAudit X request g (fe_state f) sv d2 = Inr ((), d3)"
      "(if cf_scopeType request = POLICY_SCOPE \<and> cf_command request = REVOKE then ?revoke else txReturn ()) sv d3 = Inr ((), d4)"
      "invalidateAffectedAuthorizations X request (fe_fence_version g) (fe_state g) sv d4 = Inr ((), d')"
    by (auto simp: txBind_Inr txThen_Inr txQuery_Inr txReturn_Inr txThrow_Inr simp del: txExec_Inr split: option.splits)
  note f = lockMutationFence_Inr [OF target lock]
  from bump f(1) have d2: "d2 = control_fences_update (updateWith fenceKey ?key (bumpFence request (fe_fence_version f))) d1"
    by (auto simp: txUpdateOne_def tx_simps)
  with f(1) g have bumped: "g = bumpFence request (fe_fence_version f) f" by (simp add: rowWith_updateWith)
  then show "fr_state r = nextFenceState request" by (simp add: g(2) fenceResult_def bumpFence_def)
  show "case rowWith fenceKey ?key (control_fences d) of None \<Rightarrow> True | Some f \<Rightarrow> fr_fenceVersion r = fe_fence_version f + 1"
    using f moreFences_tables(11) [OF f(2), of ?key] bumped by (auto simp: g(2) fenceResult_def split: option.splits)
  show "cf_scopeType request = SYSTEM_SCOPE \<longrightarrow> cf_scopeId request = ''system''"
    using target by (auto simp: assertTarget_def tx_simps)
  have "fenceAtLeast ?key (fr_fenceVersion r) d2" using g by (simp add: fenceAtLeast_def fenceResult_def)
  moreover have "keeps (fenceAtLeast ?key (fr_fenceVersion r)) (appendControlAudit X request g (fe_state f))"
    "keeps (fenceAtLeast ?key (fr_fenceVersion r)) (invalidateAffectedAuthorizations X request (fe_fence_version g) (fe_state g))"
    "keeps (fenceAtLeast ?key (fr_fenceVersion r))
       (if cf_scopeType request = POLICY_SCOPE \<and> cf_command request = REVOKE then ?revoke else txReturn ())"
    by (intro fence_growth.table.services.audits_keep fence_growth.table.services.affected_keep
        fence_growth.table.services.policyRevoked keeps_intros)+
  ultimately show "fenceAtLeast ?key (fr_fenceVersion r) d'" using tail unfolding keeps_def by blast
qed

lemma revalidateWork_Inr:
  assumes "revalidateWork request sv d = Inr (s, d')"
  obtains e o1 ag r where "rowWith az_authorization_id (rv_authorizationId request) (authorization_evidence d) = Some e"
    "az_operation_id e = rv_operationId request" "rowWith op_operation_id (az_operation_id e) (operations d) = Some o1"
    "rowWith ag_agent_id (op_agent_id o1) (agents d) = Some ag" "op_current_state o1 = AUTHORIZED"
    "rowWith br_operation_id (az_operation_id e) (budget_reservations d) = Some r" "br_status r = AUTHORIZED_R"
    "sv_clock sv < az_expires_at e" "sv_nodeClock sv < az_expires_at e"
    "rowWith iv_authorization_id (az_authorization_id e) (authorization_invalidations d) = None"
    "az_fences e = s" "allActive s" "currentSnapshot (ag_owner_id ag) (op_agent_id o1) (op_policy_id o1) d' s" "moreFences d d'"
proof -
  from assms obtain e o1 ag found where e: "rowWith az_authorization_id (rv_authorizationId request) (authorization_evidence d) = Some e"
    "az_operation_id e = rv_operationId request" "rowWith op_operation_id (az_operation_id e) (operations d) = Some o1"
    "rowWith ag_agent_id (op_agent_id o1) (agents d) = Some ag"
    and lock: "lockControlFences (ag_owner_id ag) (op_agent_id o1) (op_policy_id o1) sv d = Inr (s, d')"
    and probe: "authorizationProbe request (sv_clock sv) d' = Some (AUTHORIZED, AUTHORIZED_R, None, found)"
      "sv_nodeClock sv < az_expires_at found" "az_fences found = s" "allActive s"
    unfolding revalidateWork_def by (auto simp: tx_simps split: option.splits if_splits)
  note fences = lockControlFences_Inr [OF lock]
  from probe(1) fences(2) e obtain r where "found = e" "op_current_state o1 = AUTHORIZED" "sv_clock sv < az_expires_at e"
    "rowWith br_operation_id (az_operation_id e) (budget_reservations d) = Some r" "br_status r = AUTHORIZED_R"
    "rowWith iv_authorization_id (az_authorization_id e) (authorization_invalidations d') = None"
    unfolding authorizationProbe_def by (auto simp: moreFences_tables split: option.splits if_splits)
  moreover have "authorization_invalidations d' = authorization_invalidations d" using fences(2) by (auto simp: moreFences_def)
  ultimately show ?thesis using e probe fences by (intro that [of e o1 ag r]) simp_all
qed

section \<open>Lemmas: autonomous authorization\<close>

lemma loadCommonByIds_Inr:
  assumes "loadCommonByIds operationId envelopeId decisionId reservationId sv d = Inr (row, d')"
  obtains row' fences where "commonSelect operationId envelopeId decisionId reservationId d = Some row'" "moreFences d d'"
    "row = row'\<lparr>cm_fences := fences, cm_current_fences := fences\<rparr>"
    "currentSnapshot (cm_owner_id row') (cm_agent_id row') (cm_policy_id row') d' fences"
proof -
  from assms obtain identity row' :: common_row and fences where
    load: "commonSelect operationId envelopeId decisionId reservationId d = Some identity"
      "commonSelect operationId envelopeId decisionId reservationId d' = Some row'"
      "row = row'\<lparr>cm_fences := fences, cm_current_fences := fences\<rparr>"
      "lockControlFences (cm_owner_id identity) (cm_agent_id identity) (cm_policy_id identity) sv d = Inr (fences, d')"
    unfolding loadCommonByIds_def by (auto simp: tx_simps split: option.splits)
  note fences = lockControlFences_Inr [OF load(4)]
  with load have "identity = row'" by (simp add: moreFences_tables)
  with load fences show ?thesis by (intro that [of identity fences]) auto
qed

text \<open>What an operation must be to be authorized without its owner.\<close>

definition autonomousReady :: "externals \<Rightarrow> authorize_autonomous_input \<Rightarrow> int \<Rightarrow> jsval \<Rightarrow> common_row \<Rightarrow> db \<Rightarrow> bool" where
  "autonomousReady X request now envelope row d \<longleftrightarrow>
     commonSelect (uq_operationId request) (uq_envelopeId request) (uq_policyDecisionId request) (uq_reservationId request) d = Some row
     \<and> cm_policy_decision_status row = ALLOW_AUTONOMOUS \<and> cm_policy_status row = PolicyActive
     \<and> cm_policy_decision_hash row = uq_policyDecisionHash request \<and> cm_envelope_hash row = uq_envelopeHash request
     \<and> cm_decision_policy_id row = cm_policy_id row \<and> cm_decision_policy_version row = cm_policy_version row
     \<and> cm_current_state row = ENVELOPE_FINALIZED \<and> cm_reservation_status row = HELD
     \<and> cm_latest_revision row = cm_envelope_revision row
     \<and> hashExecutionEnvelope X envelope = Some (uq_envelopeHash request) \<and> envelopeBound row envelope
     \<and> getProp envelope ''approvalRequirement'' = JString ''none'' \<and> getProp envelope ''riskDecision'' = JString ''ALLOW''
     \<and> \<not> beforeDate now (getProp envelope ''createdAt'') \<and> \<not> notBeforeDate now (getProp envelope ''expiresAt'')
     \<and> now < secondOf (cm_reservation_expires_at row)
     \<and> list_all (\<lambda>e. az_operation_id e \<noteq> uq_operationId request) (authorization_evidence d)
     \<and> list_all (\<lambda>a. ap_operation_id a = uq_operationId request \<longrightarrow> \<not> activeApproval a) (approval_requests d)"

lemma assertAutonomousBinding_Inr:
  assumes "assertAutonomousBinding X row request now state = Inr envelope"
  shows "persistedEnvelope X row = Inr envelope" "autonomousClaims row request" "cm_policy_decision_status row = ALLOW_AUTONOMOUS"
    "claimsPersisted row" "cm_policy_status row = PolicyActive" "cm_current_state row = state"
    "cm_reservation_status row = (if state = AUTHORIZED then AUTHORIZED_R else HELD)" "envelopeBound row envelope"
    "getProp envelope ''approvalRequirement'' = JString ''none''" "getProp envelope ''riskDecision'' = JString ''ALLOW''"
    "fencesAreActiveAndCurrent row" "\<not> beforeDate now (getProp envelope ''createdAt'')"
    "\<not> notBeforeDate now (getProp envelope ''expiresAt'')" "now < secondOf (cm_reservation_expires_at row)"
  using assms
  by (auto simp: assertAutonomousBinding_def result_simps require_def simp del: getProp.simps split: if_splits)

lemma persistedEnvelope_hash: "persistedEnvelope X row = Inr envelope \<Longrightarrow> hashExecutionEnvelope X envelope = Some (cm_persisted_envelope_hash row)"
  by (auto simp: persistedEnvelope_def result_simps require_def ofOption_def simp del: getProp.simps split: option.splits if_splits)

lemma appendBound_frame:
  "appendBound X row approvalId issuedAt expiresAt audit eventType suffix data sv d = Inr (u, d') \<Longrightarrow> \<exists>f. d' = audit_events_update f d"
  unfolding appendBound_def Let_def by (auto simp: tx_simps dest: append_frame)

lemma authorizeFresh_steps:
  assumes "authorizeFresh X request audit now sv d = Inr (e, d')"
  obtains rid eid did row d1 envelope issuedAt expiresAt d2 d3 d4 d5 where
    "loadCommonByIds (uq_operationId request) eid did rid sv d = Inr (row, d1)"
    "list_all (\<lambda>e. az_operation_id e \<noteq> uq_operationId request) (authorization_evidence d1)"
    "assertAutonomousBinding X row request now ENVELOPE_FINALIZED = Inr envelope"
    "cm_latest_revision row = cm_envelope_revision row"
    "list_all (\<lambda>a. ap_operation_id a = uq_operationId request \<longrightarrow> \<not> activeApproval a) (approval_requests d1)"
    "updateOperation (uq_operationId request) ENVELOPE_FINALIZED AUTHORIZED sv d1 = Inr ((), d2)"
    "txUpdateOne budget_reservations_update budget_reservations br_reservation_id (uq_reservationId request)
       (\<lambda>r. br_operation_id r = uq_operationId request \<and> br_status r = HELD) (setStatus AUTHORIZED_R) sv d2 = Inr (True, d3)"
    "insertAuthorization (autonomousEvidence request row envelope issuedAt expiresAt now) sv d3 = Inr ((), d4)"
    "\<exists>t u l. appendBound X row None issuedAt expiresAt audit t u l sv d4 = Inr ((), d5)"
    "\<exists>t u l. appendBound X row None issuedAt expiresAt audit t u l sv d5 = Inr ((), d')"
    "e = mapAutonomousAuthorization (autonomousEvidence request row envelope issuedAt expiresAt now)"
proof -
  have latest: "ensureLatestEnvelope row = Inr u \<longleftrightarrow> cm_latest_revision row = cm_envelope_revision row" for row :: common_row and u
    by (simp add: ensureLatestEnvelope_def require_def)
  from assms show ?thesis
    unfolding authorizeFresh_def loadAutonomousAuthorityIds_def Let_def
    by (auto simp: tx_simps latest list_ex_iff) (rule that, assumption, (assumption | blast | simp add: list_all_iff)+)
qed

lemma authorizeFresh_Inr:
  assumes "authorizeFresh X request audit now sv d = Inr (e, d')"
  obtains row envelope fences stored where "autonomousReady X request now envelope row d"
    "allActive fences" "currentSnapshot (cm_owner_id row) (cm_agent_id row) (cm_policy_id row) d' fences"
    "authorization_evidence d' = authorization_evidence d @ [stored]" "e = mapAutonomousAuthorization stored"
    "az_kind stored = AUTONOMOUS_POLICY" "az_fences stored = fences" "az_operation_id stored = uq_operationId request"
    "az_reservation_id stored = uq_reservationId request" "az_envelope_hash stored = uq_envelopeHash request"
    "operations d' = updateWith op_operation_id (uq_operationId request) (\<lambda>o1. o1\<lparr>op_current_state := AUTHORIZED\<rparr>) (operations d)"
    "ledgerOf d' = (budget_accounts d, updateWith br_reservation_id (uq_reservationId request) (setStatus AUTHORIZED_R) (budget_reservations d))"
  using assms
proof (rule authorizeFresh_steps, goal_cases)
  case (1 rid eid did row d1 envelope issuedAt expiresAt d2 d3 d4 d5)
  note binding = assertAutonomousBinding_Inr [OF 1(4)]
  from 1(2) obtain row' fences where load: "commonSelect (uq_operationId request) eid did rid d = Some row'" "moreFences d d1"
    "row = row'\<lparr>cm_fences := fences, cm_current_fences := fences\<rparr>"
    "currentSnapshot (cm_owner_id row') (cm_agent_id row') (cm_policy_id row') d1 fences" by (rule loadCommonByIds_Inr)
  have ids: "eid = uq_envelopeId request" "did = uq_policyDecisionId request" "rid = uq_reservationId request"
    "cm_operation_id row = uq_operationId request" "cm_reservation_id row = uq_reservationId request" "cm_envelope_hash row = uq_envelopeHash request"
    using load(1) binding(2) by (auto simp: load(3) autonomousClaims_def elim!: commonSelect_Some)
  have hash: "hashExecutionEnvelope X envelope = Some (uq_envelopeHash request)"
    using persistedEnvelope_hash [OF binding(1)] binding(4) ids by (simp add: claimsPersisted_def)
  have "autonomousReady X request now envelope row' d"
    using load binding ids hash 1(3,5,6) moreFences_tables [OF load(2)]
    by (simp add: autonomousReady_def autonomousClaims_def claimsPersisted_def envelopeBound_def del: getProp.simps)
  moreover have fences: "allActive fences" using binding(11) by (simp add: load(3) fencesAreActiveAndCurrent_def)
  moreover have d2: "d2 = operations_update (updateWith op_operation_id (uq_operationId request) (\<lambda>o1. o1\<lparr>op_current_state := AUTHORIZED\<rparr>)) d1"
    using 1(7) by (auto simp: updateOperation_def updateOperationFrom_def tx_simps txUpdateOne_Inr)
  moreover have d3: "d3 = budget_reservations_update (updateWith br_reservation_id (uq_reservationId request) (setStatus AUTHORIZED_R)) d2"
    using 1(8) by (auto simp: txUpdateOne_Inr)
  moreover have d4: "d4 = authorization_evidence_update (\<lambda>rows. rows @ [autonomousEvidence request row envelope issuedAt expiresAt now]) d3"
    using 1(9) by (auto simp: insertAuthorization_def tx_simps)
  moreover obtain f where d': "d' = audit_events_update f d4" using 1(10,11) by (fastforce dest!: appendBound_frame)
  have envelope: "getProp envelope ''envelopeHash'' = JString (uq_envelopeHash request)"
    using binding(1,4) ids
    by (auto simp: persistedEnvelope_def claimsPersisted_def result_simps require_def ofOption_def simp del: getProp.simps split: option.splits if_splits)
  show ?thesis
    by (rule 1(1) [of envelope row' fences "autonomousEvidence request row envelope issuedAt expiresAt now"])
      (use calculation load 1(12) d' d2 d3 d4 ids envelope moreFences_tables [OF load(2)] in
        \<open>simp_all add: autonomousEvidence_def ledgerOf_def currentSnapshot_def del: getProp.simps\<close>)
qed

section \<open>Properties\<close>



text \<open>
  C9. An approval authorizes once: after \<open>consumeApproval\<close> has returned evidence, no later call for the
  same approval returns evidence, after any run of the approval and control services and whatever
  runs of theirs commit between its attempts.
\<close>

theorem approval_authorizes_once:
  assumes "consumeApproval X E nodeNow request d = (Inr e, d')" "authority_run X d' d''"
    "\<And>i f. authority_run X f (envOthers E' i f)" "nq_approvalId again = nq_approvalId request"
  shows "\<exists>failure. fst (consumeApproval X E' nodeNow' again d'') = Inl failure"
proof (rule ccontr)
  assume "\<not> ?thesis"
  then obtain e2 d3 where second: "consumeApproval X E' nodeNow' again d'' = (Inr e2, d3)"
    by (cases "consumeApproval X E' nodeNow' again d''"; cases "fst (consumeApproval X E' nodeNow' again d'')") auto
  from consume_transaction [OF assms(1)] obtain now i where
    "runAttempt (consumeWork X request now) (envServers E i) (tablesBefore (envOthers E) 0 i d) = (Inr (Granted e), d')"
    by (elim exE conjE transaction_attempt)
  then obtain a where a: "rowWith ap_approval_id (nq_approvalId request) (approval_requests d') = Some a" "ap_status a = CONSUMED_A"
    unfolding runAttempt_commit by (elim conjE consumeWork_consumable) auto
  from consume_transaction [OF second] obtain now2 j where
    work: "consumeWork X again now2 (envServers E' j) (tablesBefore (envOthers E') 0 j d'') = Inr (Granted e2, d3)"
    unfolding runAttempt_commit [symmetric] by (metis runAttempt_commit transaction_attempt)
  have "hasLaterApproval a (tablesBefore (envOthers E') 0 j d'')"
    using tablesBefore_run [OF assms(3)] approval_life.run_keeps [OF assms(2) hasLaterApproval_self [OF a(1)]] by blast
  then obtain b where "rowWith ap_approval_id (ap_approval_id a) (approval_requests (tablesBefore (envOthers E') 0 j d'')) = Some b"
    "laterApproval a b" by (auto simp: hasLaterApproval_def)
  moreover have "ap_approval_id a = nq_approvalId again" using rowWith_Some [OF a(1)] assms(4) by simp
  ultimately show False using consumeWork_refused work a(2) by (auto simp: laterApproval_def)
qed

theorem approval_authorizes_once_witness:
  "\<exists>d'. consumeApproval grantExternals sampleEnv 1780000000000 sampleConsume approvedDb = (Inr grantedEvidence, d')
     \<and> (\<exists>failure. fst (consumeApproval grantExternals sampleEnv 1780000001000 sampleConsume d') = Inl failure)"
proof -
  obtain d' where run: "consumeApproval grantExternals sampleEnv 1780000000000 sampleConsume approvedDb = (Inr grantedEvidence, d')"
    using sample_consume by blast
  have "authority_run grantExternals f (envOthers sampleEnv i f)" for i f by (simp add: sampleEnv_def authority_run.start)
  from approval_authorizes_once [OF run authority_run.start this refl] run show ?thesis by blast
qed

text \<open>
  C11. An executor that revalidates acts on current authority only: if \<open>revalidateAuthorization\<close> returns,
  then the authorization is on record for the operation it names, has not expired on the clock of the
  database nor on that of the process, and was not invalidated; operation and reservation are authorized;
  and the fences of its owner, agent and policy and of the system are active and still at the versions under
  which it was issued. The call itself adds at most missing fences.
\<close>

theorem revalidation_means_current:
  assumes "revalidateAuthorization E request d = (Inr s, d')" "quiet E"
  shows "\<exists>e o1 ag r i. rowWith az_authorization_id (rv_authorizationId request) (authorization_evidence d) = Some e
    \<and> az_operation_id e = rv_operationId request
    \<and> rowWith op_operation_id (rv_operationId request) (operations d) = Some o1 \<and> op_current_state o1 = AUTHORIZED
    \<and> rowWith br_operation_id (rv_operationId request) (budget_reservations d) = Some r \<and> br_status r = AUTHORIZED_R
    \<and> sv_clock (envServers E i) < az_expires_at e \<and> sv_nodeClock (envServers E i) < az_expires_at e
    \<and> rowWith iv_authorization_id (az_authorization_id e) (authorization_invalidations d) = None
    \<and> rowWith ag_agent_id (op_agent_id o1) (agents d) = Some ag \<and> s = az_fences e \<and> allActive s
    \<and> currentSnapshot (ag_owner_id ag) (op_agent_id o1) (op_policy_id o1) d' s \<and> moreFences d d'"
proof -
  have "withSerializableTransaction E None (revalidateWork request) d = (Inr s, d')"
    using assms(1) by (simp add: revalidateAuthorization_def split: sum.splits)
  then obtain i where "revalidateWork request (envServers E i) d = Inr (s, d')" using assms(2) by (rule quiet_Inr)
  then show ?thesis by (rule revalidateWork_Inr) auto
qed

theorem revalidation_means_current_witness:
  "revalidateAuthorization sampleEnv sampleProbe (authorizedDb AUTHORIZED) = (Inr sampleFences, authorizedDb AUTHORIZED)
     \<and> allActive sampleFences"
  using sample_revalidate revalidation_means_current [OF sample_revalidate sampleEnv_quiet] by blast

text \<open>
  C10. A changed fence stops every older authorization for good: when \<open>changeControlFence\<close> reports a
  change, the version of the fence has grown by one; and from then on, after any run of the approval
  and control services, \<open>revalidateAuthorization\<close> fails for every authorization that was issued under an
  older version of this fence to an operation in its scope, and changes nothing.
\<close>

theorem changed_fence_stops_older_authorizations:
  assumes "changeControlFence X E request d = (Inr r, d')" "quiet E" "fr_changed r" "authority_run X d' d''" "quiet E'"
    "rowWith az_authorization_id (rv_authorizationId probe) (authorization_evidence d') = Some e"
    "scopeVersion (cf_scopeType request) (az_fences e) < fr_fenceVersion r"
    "rowWith op_operation_id (az_operation_id e) (operations d'') = Some o1"
    "rowWith ag_agent_id (op_agent_id o1) (agents d'') = Some ag"
    "targetPredicate (cf_scopeType request) (cf_scopeId request) o1 ag"
  shows "(\<exists>failure. revalidateAuthorization E' probe d'' = (Inl failure, d''))
    \<and> (case rowWith fenceKey (cf_scopeType request, cf_scopeId request) (control_fences d) of
         None \<Rightarrow> True | Some f \<Rightarrow> fr_fenceVersion r = fe_fence_version f + 1)"
proof -
  let ?key = "(cf_scopeType request, cf_scopeId request)"
  have "withSerializableTransaction E None (changeFenceWork X request) d = (Inr r, d')"
    using assms(1) by (simp add: changeControlFence_def split: sum.splits)
  then obtain i where "changeFenceWork X request (envServers E i) d = Inr (r, d')" using assms(2) by (rule quiet_Inr)
  note change = changeFenceWork_changed [OF this assms(3)]
  have fence: "fenceAtLeast ?key (fr_fenceVersion r) d''" by (rule fence_growth.run_keeps [OF assms(4) change(2)])
  have evidence: "rowWith az_authorization_id (rv_authorizationId probe) (authorization_evidence d'') = Some e"
    by (rule evidence_kept.run_keeps [OF assms(4,6)])
  have "revalidateWork probe sv d'' \<noteq> Inr (s, d3)" for sv s d3
  proof
    assume "revalidateWork probe sv d'' = Inr (s, d3)"
    then show False
    proof (rule revalidateWork_Inr)
      fix e' o1' ag'
      assume row: "rowWith az_authorization_id (rv_authorizationId probe) (authorization_evidence d'') = Some e'"
        "rowWith op_operation_id (az_operation_id e') (operations d'') = Some o1'"
        "rowWith ag_agent_id (op_agent_id o1') (agents d'') = Some ag'" "az_fences e' = s"
        and snapshot: "currentSnapshot (ag_owner_id ag') (op_agent_id o1') (op_policy_id o1') d3 s" "moreFences d'' d3"
      have "fenceAtLeast ?key (fr_fenceVersion r) d3"
        using fence moreFences_tables(11) [OF snapshot(2)] by (auto simp: fenceAtLeast_def)
      from snapshot_version [OF _ this assms(10)] snapshot(1) row evidence assms(8,9) change(4)
      have "fr_fenceVersion r \<le> scopeVersion (cf_scopeType request) (az_fences e)" by simp
      with assms(7) show False by simp
    qed
  qed
  then have "\<exists>failure. withSerializableTransaction E' None (revalidateWork probe) d'' = (Inl failure, d'')"
    using quiet_fails [OF assms(5)] by metis
  then have "\<exists>failure. revalidateAuthorization E' probe d'' = (Inl failure, d'')"
    by (auto simp: revalidateAuthorization_def split: sum.splits)
  with change(3) show ?thesis by simp
qed

theorem changed_fence_stops_older_authorizations_witness:
  "\<exists>d' failure. changeControlFence sampleExternals sampleEnv samplePause (authorizedDb SIGNING) = (Inr (fenceResult True pausedFence), d')
     \<and> revalidateAuthorization sampleEnv sampleProbe d' = (Inl failure, d')"
proof -
  obtain d' where run: "changeControlFence sampleExternals sampleEnv samplePause (authorizedDb SIGNING) = (Inr (fenceResult True pausedFence), d')"
    and tables: "authorization_evidence d' = [grantedEvidence]" "operations d' = [(sampleOperation ''op_1'')\<lparr>op_current_state := SIGNING\<rparr>]"
      "agents d' = [\<lparr>ag_agent_id = ''agent_1'', ag_owner_id = ''owner_1''\<rparr>]"
    using sample_pause by blast
  have "\<exists>failure. revalidateAuthorization sampleEnv sampleProbe d' = (Inl failure, d')"
    by (rule conjunct1, rule changed_fence_stops_older_authorizations [where e = grantedEvidence
          and ?o1.0 = "(sampleOperation ''op_1'')\<lparr>op_current_state := SIGNING\<rparr>" and ag = "\<lparr>ag_agent_id = ''agent_1'', ag_owner_id = ''owner_1''\<rparr>",
          OF run sampleEnv_quiet _ authority_run.start sampleEnv_quiet])
      (simp_all add: tables fenceResult_def rowWith_def sampleProbe_def grantedEvidence_fields samplePause_def sampleFences_def
        pausedFence_def sampleOperation_def targetPredicate_def)
  with run show ?thesis by blast
qed

text \<open>
  C12. Approvals only move forward: over every run of the approval and control services, an approval on record
  stays on record, what it binds - operation, reservation, envelope and its hash, policy decision, lifetime, nonce and
  fences - never changes, its status moves only from pending to approved or to an end, and from approved to an end,
  and who approved it does not change while it stands.
\<close>

theorem approvals_move_forward:
  assumes "authority_run X d d'" "rowWith ap_approval_id aid (approval_requests d) = Some a"
  shows "\<exists>b. rowWith ap_approval_id aid (approval_requests d') = Some b \<and> laterApproval a b"
  using approval_life.run_keeps [OF assms(1) hasLaterApproval_self [OF assms(2)]] rowWith_Some [OF assms(2)]
  by (simp add: hasLaterApproval_def)

theorem approvals_move_forward_witness:
  "\<exists>b. rowWith ap_approval_id ''approval_1'' (approval_requests
      (callAuthority grantExternals sampleEnv (Consume 1780000000000 sampleConsume) approvedDb)) = Some b \<and> laterApproval sampleApproval b"
proof (rule approvals_move_forward)
  show "authority_run grantExternals approvedDb (callAuthority grantExternals sampleEnv (Consume 1780000000000 sampleConsume) approvedDb)"
    by (intro authority_run.call authority_run.start) (simp add: sampleEnv_def authority_run.start)
qed (simp add: authority_defs)

text \<open>
  C13. The approval and control services refine the ledger: whatever they are called with and whatever
  the servers refuse, the tables that a call leaves are reached by a run of the budget ledger - they only
  authorize held reservations and give back the funds of held or authorized ones, to the account they came from
  and once - if the keys that the schema declares hold, and if what commits in between is such a run.
\<close>

theorem authority_calls_are_ledger_runs:
  assumes "schemaOk d" "\<And>i e. ledger_run allowed X e (envOthers E i e)" "\<And>i e. schemaOk e \<Longrightarrow> schemaOk (envOthers E i e)"
  shows "ledger_run allowed X d (callAuthority X E c d)"
  using assms(2,3,1) by (rule authority_call_ledger_run)

theorem authority_calls_are_ledger_runs_witness:
  "ledger_run (\<lambda>c. False) grantExternals approvedDb (callAuthority grantExternals sampleEnv (Consume 1780000000000 sampleConsume) approvedDb)"
  by (rule authority_calls_are_ledger_runs) (simp_all add: schemaOk_def authority_defs sampleEnv_def ledger_run.start)

end
