(* ===== verification/AdapterSdk.thy ===== *)
theory AdapterSdk
  imports Envelope
begin

text \<open>
  The boundary to the adapters (\<open>packages/adapter-sdk/src/index.ts\<close>): the requests and results that cross it,
  and the match of a capability manifest with a requirement.
\<close>

section \<open>Requests and results\<close>

text \<open>The identifier schema of the file is the one of \<open>common.ts\<close>.\<close>

definition authorizedTransferRequestSchema :: "jsval \<Rightarrow> jsval option" where
  "authorizedTransferRequestSchema = strictObject
     [required ''operationId'' identifierField, required ''authorizationId'' identifierField,
      required ''adapterRequestId'' identifierField]"

definition authorizedTransferResultSchema :: "jsval \<Rightarrow> jsval option" where
  "authorizedTransferResultSchema = strictObject [required ''transactionHash'' (stringField (prefixed ''0x'' isHex 64))]"

definition adapterStatusRequestSchema :: "jsval \<Rightarrow> jsval option" where
  "adapterStatusRequestSchema = strictObject
     [required ''operationId'' identifierField, required ''adapterRequestId'' identifierField]"

definition normalizedStatusSchema :: "jsval \<Rightarrow> jsval option" where
  "normalizedStatusSchema = strictObject
     [required ''operationId'' identifierField, required ''adapterRequestId'' identifierField,
      required ''state'' (enumField [''UNKNOWN'', ''PENDING'', ''CONFIRMED'', ''FAILED'', ''DISPUTED'']),
      required ''evidence'' (enumField [''UNTRUSTED'', ''AUTHENTICATED''])]"

definition normalizedRecoveryRequestSchema :: "jsval \<Rightarrow> jsval option" where
  "normalizedRecoveryRequestSchema = strictObject
     [required ''operationId'' identifierField, required ''adapterRequestId'' identifierField]"

definition normalizedChainEvidenceSchema :: "jsval \<Rightarrow> jsval option" where
  "normalizedChainEvidenceSchema = strictObject
     [required ''operationId'' identifierField, required ''adapterRequestId'' identifierField,
      required ''outcome'' (enumField [''UNKNOWN'', ''NOT_FOUND'', ''PENDING'', ''CONFIRMED'', ''FAILED'', ''CONFLICT'']),
      required ''evidence'' (enumField [''UNTRUSTED'', ''AUTHENTICATED''])]"

section \<open>Capabilities\<close>

datatype adapter_operation = ReadState | AssetTransfer

datatype enforcement_key = TotalBudget | PerTransactionBudget | ChainAllowlist | RecipientAllowlist | FunctionAllowlist | ExpiryKey

text \<open>\<open>minimumEnforcement?.[key]\<close>: \<open>None\<close> when the grade, or the whole object, is absent.\<close>

record capability_requirement =
  rq_chainId :: string
  rq_operation :: adapter_operation
  rq_minimumEnforcement :: "enforcement_key \<Rightarrow> enforcement_grade option"

definition adapterCapabilityRequirementSchema :: "capability_requirement \<Rightarrow> bool" where
  "adapterCapabilityRequirementSchema requirement = chainIdSchema (rq_chainId requirement)"

definition enforcementKeys :: "enforcement_key list" where
  "enforcementKeys = [TotalBudget, PerTransactionBudget, ChainAllowlist, RecipientAllowlist, FunctionAllowlist, ExpiryKey]"

fun enforcementOf :: "adapter_manifest \<Rightarrow> enforcement_key \<Rightarrow> enforcement_grade" where
  "enforcementOf m TotalBudget = am_totalBudget m"
| "enforcementOf m PerTransactionBudget = am_perTransactionBudget m"
| "enforcementOf m ChainAllowlist = am_chainAllowlist m"
| "enforcementOf m RecipientAllowlist = am_recipientAllowlist m"
| "enforcementOf m FunctionAllowlist = am_functionAllowlist m"
| "enforcementOf m ExpiryKey = am_expiry m"

fun operationIsSupported :: "adapter_manifest \<Rightarrow> adapter_operation \<Rightarrow> bool" where
  "operationIsSupported manifest ReadState = am_readState manifest"
| "operationIsSupported manifest AssetTransfer = am_erc20Transfer manifest"

definition manifestMeetsRequirement :: "adapter_manifest \<Rightarrow> capability_requirement \<Rightarrow> bool" where
  "manifestMeetsRequirement manifest requirement \<longleftrightarrow>
     rq_chainId requirement \<in> set (am_chains manifest)
     \<and> operationIsSupported manifest (rq_operation requirement)
     \<and> list_all (\<lambda>key. case rq_minimumEnforcement requirement key of
          None \<Rightarrow> True
        | Some grade \<Rightarrow> meetsMinimumEnforcementGrade (enforcementOf manifest key) grade) enforcementKeys"

definition supportsAdapterCapability :: "adapter_manifest raw \<Rightarrow> capability_requirement raw \<Rightarrow> bool" where
  "supportsAdapterCapability manifestInput requirementInput =
     (case (safeParse adapterCapabilityManifestSchema manifestInput, safeParse adapterCapabilityRequirementSchema requirementInput) of
        (Some manifest, Some requirement) \<Rightarrow> manifestMeetsRequirement manifest requirement
      | _ \<Rightarrow> False)"

text \<open>\<open>None\<close>: the manifest does not parse and the call throws.\<close>

definition createAdapterCapabilityMatcher :: "adapter_manifest raw \<Rightarrow> (capability_requirement raw \<Rightarrow> bool) option" where
  "createAdapterCapabilityMatcher manifestInput =
     map_option (\<lambda>manifest requirementInput.
         case safeParse adapterCapabilityRequirementSchema requirementInput of
           None \<Rightarrow> False
         | Some requirement \<Rightarrow> manifestMeetsRequirement manifest requirement)
       (safeParse adapterCapabilityManifestSchema manifestInput)"

section \<open>Lemmas\<close>

text \<open>The laws of the schemas, and the identifiers of a parsed request.\<close>

interpretation transferRequest: schema_parser authorizedTransferRequestSchema
  unfolding authorizedTransferRequestSchema_def by (rule strictObject_parser) (simp add: shape_laws)

lemma transferRequest_Some:
  assumes "authorizedTransferRequestSchema v = Some w"
  shows "w = JObject [(''operationId'', getProp v ''operationId''), (''authorizationId'', getProp v ''authorizationId''),
      (''adapterRequestId'', getProp v ''adapterRequestId'')]"
    "list_all (\<lambda>key. \<exists>s. getProp v key = JString s \<and> canonicalIdentifierSchema s) [''operationId'', ''authorizationId'', ''adapterRequestId'']"
proof -
  have field: "stringField p x \<Longrightarrow> \<exists>s. x = JString s \<and> p s" for p x by (cases x) auto
  show "w = JObject [(''operationId'', getProp v ''operationId''), (''authorizationId'', getProp v ''authorizationId''),
      (''adapterRequestId'', getProp v ''adapterRequestId'')]"
    "list_all (\<lambda>key. \<exists>s. getProp v key = JString s \<and> canonicalIdentifierSchema s) [''operationId'', ''authorizationId'', ''adapterRequestId'']"
    using assms
    by (cases v; auto simp: authorizedTransferRequestSchema_def required_def checked_def dest!: field split: if_splits option.splits)+
qed

end
