(* ===== verification/Simulation.thy ===== *)
theory Simulation
  imports Envelope
begin

text \<open>
  Simulation and exact verification of a transfer
  (\<open>packages/transaction-pipeline/src/simulation.ts\<close>): a verified candidate is resolved against one
  block of the local chain into an executable transaction with its evidence, the two are verified
  before an envelope is made of them, and their freshness is checked before signing. The node is an
  argument, a record of its answers. Resolution is shown to produce what verification accepts, and
  verification to bound every fee.
\<close>

section \<open>The node, the fixture and the constraints\<close>

text \<open>
  Each method is called at most once per function below, so an answer of the node is a function of its
  arguments. \<open>None\<close>: the promise is rejected.
\<close>

record canonical_block =
  bl_number :: int
  bl_hash :: string
  bl_baseFeePerGas :: int

record simulation_request =
  sq_from :: string
  sq_to :: string
  sq_data :: string
  sq_value :: int
  sq_blockNumber :: int
  sq_nonce :: int

record simulation_call_result =
  sc_outcome :: string
  sc_revertData :: "string option"

record fee_data =
  fd_baseFeePerGas :: int
  fd_maxPriorityFeePerGas :: int

record local_read_rpc =
  getChainId :: "int option"
  getBlockNumber :: "int option"
  getBlockByNumber :: "int \<Rightarrow> canonical_block option option"
  getBlockByHash :: "string \<Rightarrow> canonical_block option option"
  getPendingNonce :: "string \<Rightarrow> int option"
  getNativeBalance :: "string \<Rightarrow> int \<Rightarrow> int option"
  getTokenBalance :: "string \<Rightarrow> string \<Rightarrow> int \<Rightarrow> int option"
  simulateTransfer :: "simulation_request \<Rightarrow> simulation_call_result option"
  estimateGas :: "simulation_request \<Rightarrow> int option"
  getFeeData :: "int \<Rightarrow> fee_data option"
  rpc_rpcUrl :: "string option"
  rpc_fixtureInstanceId :: "string option"

record fixture_identity =
  fx_fixtureInstanceId :: string
  fx_chainId :: string
  fx_walletAddress :: string
  fx_tokenAddress :: string
  fx_rpcUrl :: string

record fee_constraints =
  fc_intentMaximumNetworkFeeAtomic :: string
  fc_policyMaximumNetworkFeeAtomic :: string

text \<open>The parts of a parsed URL; the parser of the platform is an argument.\<close>

record url_parts =
  url_protocol :: string
  url_hostname :: string
  url_username :: string
  url_password :: string
  url_pathname :: string
  url_search :: string
  url_hash :: string

type_synonym url_parser = "string \<Rightarrow> url_parts option"

text \<open>The codes of the three unions \<open>SimulationFailureCode\<close>, \<open>ExactVerificationFailureCode\<close> and \<open>FreshnessFailureCode\<close>.\<close>

datatype simulation_code =
    INVALID_VERIFIED_CORE | INVALID_FIXTURE | WRONG_CHAIN | PUBLIC_RPC_FORBIDDEN | FIXTURE_MISMATCHED | MISSING_BLOCK
  | NONCANONICAL_BLOCK | INVALID_RPC_EVIDENCE | SIMULATION_REVERT | INSUFFICIENT_TOKEN_BALANCE
  | INSUFFICIENT_NATIVE_BALANCE | INVALID_FEE_DATA | FEE_CEILING_CONFLICT
  | EXECUTABLE_CHANGED | SIMULATION_CHANGED | INVALID_EXECUTABLE | PRIORITY_FEE_EXCEEDS_MAX_FEE
  | FIXTURE_CHANGED | BLOCK_TOO_OLD | NONCE_CHANGED | TOKEN_BALANCE_CHANGED | NATIVE_BALANCE_CHANGED

text \<open>A resolution error with the evidence it carries, or an error of the node or of the hash.\<close>

datatype simulation_error = SimulationResolutionError simulation_code "jsval option" | OtherError

abbreviation resolutionError :: "simulation_code \<Rightarrow> simulation_error" where
  "resolutionError code \<equiv> SimulationResolutionError code None"

datatype exact_failure = ExactVerificationFailure simulation_code "string option" | ExactThrows

section \<open>Values\<close>

fun isAtomic :: "jsval \<Rightarrow> bool" where
  "isAtomic (JString s) = canonicalDec s"
| "isAtomic v = False"

definition asBigInt :: "int \<Rightarrow> simulation_error + int" where
  "asBigInt value = (if value < 0 then Inl (resolutionError INVALID_RPC_EVIDENCE) else Inr value)"

definition canonicalHash :: "string \<Rightarrow> bool" where
  "canonicalHash value = prefixed ''0x'' isHex 64 value"

definition minAtomic :: "string \<Rightarrow> string \<Rightarrow> string" where
  "minAtomic left right =
     (if length left < length right \<or> (length left = length right \<and> left \<le> right) then left else right)"

text \<open>\<open>BigInt(text)\<close> of a canonical numeral, and \<open>value.toString()\<close> of a value that is not negative.\<close>

abbreviation numeralOf :: "jsval \<Rightarrow> int" where
  "numeralOf v \<equiv> int (decVal (textOf v))"

abbreviation amountText :: "int \<Rightarrow> string" where
  "amountText n \<equiv> decStr (nat n)"

definition checkedProduct :: "string \<Rightarrow> string \<Rightarrow> simulation_error + string" where
  "checkedProduct left right =
     andThen (require (isAtomic (JString left) \<and> isAtomic (JString right)) (resolutionError INVALID_FEE_DATA)) (\<lambda>_.
     Inr (decStr (decVal left * decVal right)))"

text \<open>
  The text that \<open>hashJson\<close> hashes. \<open>JSON.stringify(JSON.parse(text))\<close> is the canonical \<open>text\<close> itself: no
  property of these objects is named like an array index. The digest is that of \<open>keccak_256\<close>, written
  as \<open>0x\<close> and hexadecimal digits.
\<close>

definition canonicalJson :: "jsval \<Rightarrow> string option" where
  "canonicalJson value = canonicalizeIdempotencyPayload (jsonRoundTrip value)"

definition hashJson :: "externals \<Rightarrow> jsval \<Rightarrow> string option" where
  "hashJson X value = map_option (\<lambda>text. ''0x'' @ bytesToHex X (keccak_256 X (utf8 text))) (canonicalJson value)"

fun withoutEvidenceHash :: "jsval \<Rightarrow> jsval" where
  "withoutEvidenceHash (JObject kvs) = JObject (filter (\<lambda>(key, v). key \<noteq> ''evidenceHash'') kvs)"
| "withoutEvidenceHash v = v"

definition hashSimulationEvidence :: "externals \<Rightarrow> jsval \<Rightarrow> string option" where
  "hashSimulationEvidence X evidence = hashJson X (withoutEvidenceHash evidence)"

definition hashExecutableCandidate :: "externals \<Rightarrow> jsval \<Rightarrow> string option" where
  "hashExecutableCandidate X executable = hashJson X executable"

definition hashTransferCoreCandidate :: "externals \<Rightarrow> jsval \<Rightarrow> string option" where
  "hashTransferCoreCandidate X candidate = hashJson X candidate"

section \<open>Resolving a verified transfer\<close>

definition loopbackUrl :: "url_parts \<Rightarrow> bool" where
  "loopbackUrl url \<longleftrightarrow>
     url_protocol url = ''http:'' \<and> url_hostname url = ''127.0.0.1'' \<and> url_username url = [] \<and> url_password url = []
     \<and> url_pathname url = ''/'' \<and> url_search url = [] \<and> url_hash url = []"

definition validateFixture :: "url_parser \<Rightarrow> fixture_identity \<Rightarrow> simulation_error + unit" where
  "validateFixture parseUrl fixture =
     andThen (require (fx_chainId fixture = LOCAL_CHAIN_ID
               \<and> canonicalIdentifier (JString (fx_fixtureInstanceId fixture))
               \<and> canonicalAddress (fx_walletAddress fixture)
               \<and> canonicalAddress (fx_tokenAddress fixture)) (resolutionError INVALID_FIXTURE)) (\<lambda>_.
     case parseUrl (fx_rpcUrl fixture) of
       None \<Rightarrow> Inl (resolutionError PUBLIC_RPC_FORBIDDEN)
     | Some url \<Rightarrow> require (loopbackUrl url) (resolutionError PUBLIC_RPC_FORBIDDEN))"

definition validateCore :: "verification_failure + jsval \<Rightarrow> fixture_identity \<Rightarrow> simulation_error + jsval" where
  "validateCore verifiedCore fixture =
     (case verifiedCore of
        Inl failure \<Rightarrow> Inl (resolutionError INVALID_VERIFIED_CORE)
      | Inr core \<Rightarrow>
          andThen (require (isString (getProp core ''fixtureInstanceId'') (fx_fixtureInstanceId fixture))
            (resolutionError FIXTURE_MISMATCHED)) (\<lambda>_. Inr core))"

text \<open>An answer of the node, or the error of its rejection.\<close>

abbreviation answer :: "'a option \<Rightarrow> simulation_error + 'a" where
  "answer r \<equiv> ofOption OtherError r"

definition requireCanonicalBlock :: "local_read_rpc \<Rightarrow> int \<Rightarrow> simulation_error + canonical_block" where
  "requireCanonicalBlock rpc number =
     andThen (answer (getBlockByNumber rpc number)) (\<lambda>found.
     andThen (ofOption (resolutionError MISSING_BLOCK) found) (\<lambda>block.
     andThen (require (bl_number block = number \<and> canonicalHash (bl_hash block) \<and> \<not> bl_baseFeePerGas block < 0)
       (resolutionError INVALID_RPC_EVIDENCE)) (\<lambda>_.
     andThen (answer (getBlockByHash rpc (bl_hash block))) (\<lambda>byHash.
     case byHash of
       None \<Rightarrow> Inl (resolutionError NONCANONICAL_BLOCK)
     | Some b \<Rightarrow> andThen (require (bl_number b = number \<and> bl_hash b = bl_hash block) (resolutionError NONCANONICAL_BLOCK))
         (\<lambda>_. Inr block)))))"

definition makeExpectedDelta :: "jsval \<Rightarrow> jsval" where
  "makeExpectedDelta core = JObject
     [(''assetAddress'', getProp core ''target''), (''from'', getProp core ''from''),
      (''to'', getProp core ''recipient''), (''amountAtomic'', getProp core ''amountAtomic'')]"

definition makeEvidence :: "externals \<Rightarrow> (string \<times> jsval) list \<Rightarrow> simulation_error + jsval" where
  "makeEvidence X input =
     (let evidence = input @ [(''evidenceHash'', JString (''0x'' @ replicate 64 (CHR ''0'')))] in
      andThen (ofOption OtherError (hashSimulationEvidence X (JObject evidence))) (\<lambda>h.
      Inr (JObject (setProp ''evidenceHash'' (JString h) evidence))))"

text \<open>What the node answered about the sender at one block.\<close>

record chain_view =
  cv_block :: canonical_block
  cv_senderNonce :: int
  cv_tokenBalance :: int
  cv_nativeBalance :: int

definition revertEvidence ::
  "externals \<Rightarrow> jsval \<Rightarrow> fixture_identity \<Rightarrow> chain_view \<Rightarrow> string option \<Rightarrow> simulation_error + jsval" where
  "revertEvidence X core fixture view revertData =
     andThen (ofOption OtherError (hashJson X core)) (\<lambda>candidateHash.
     makeEvidence X
       [(''schemaVersion'', JString ''1.0''), (''fixtureInstanceId'', JString (fx_fixtureInstanceId fixture)),
        (''chainId'', JString LOCAL_CHAIN_ID), (''blockNumber'', JString (amountText (bl_number (cv_block view)))),
        (''blockHash'', JString (bl_hash (cv_block view))), (''candidateHash'', JString candidateHash),
        (''from'', getProp core ''from''), (''to'', getProp core ''target''), (''value'', JString ''0''),
        (''calldata'', getProp core ''calldata''), (''senderNonce'', JString (amountText (cv_senderNonce view))),
        (''tokenBalance'', JString (amountText (cv_tokenBalance view))), (''nativeBalance'', JString (amountText (cv_nativeBalance view))),
        (''gasEstimate'', JString ''0''), (''gasLimit'', JString ''0''),
        (''baseFeePerGas'', JString (amountText (bl_baseFeePerGas (cv_block view)))), (''maxPriorityFeePerGas'', JString ''0''),
        (''maxFeePerGas'', JString ''0''), (''accessList'', JArray []), (''outcome'', JString ''revert''),
        (''revert'', JObject ((''code'', JString ''EXECUTION_REVERT'') #
           (case revertData of None \<Rightarrow> [] | Some hex \<Rightarrow> [(''data'', JString hex)]))),
        (''expectedAssetDeltas'', JArray [makeExpectedDelta core]), (''maximumNativeFeeAtomic'', JString ''0''),
        (''simulatorVersion'', JString ''viem@2.56.0'')])"

definition failureWithEvidence :: "simulation_code \<Rightarrow> simulation_error + jsval \<Rightarrow> simulation_error + 'a" where
  "failureWithEvidence code evidence =
     andThen evidence (\<lambda>e. Inl (SimulationResolutionError code (Some e)))"

text \<open>The checks before the node is asked.\<close>

definition checkResolution ::
  "url_parser \<Rightarrow> verification_failure + jsval \<Rightarrow> local_read_rpc \<Rightarrow> fixture_identity \<Rightarrow> fee_constraints
   \<Rightarrow> simulation_error + jsval" where
  "checkResolution parseUrl verifiedCore rpc fixture constraints =
     andThen (validateFixture parseUrl fixture) (\<lambda>_.
     andThen (validateCore verifiedCore fixture) (\<lambda>core.
     andThen (require (isString (getProp core ''chainId'') LOCAL_CHAIN_ID
                       \<and> isString (getProp core ''from'') (fx_walletAddress fixture))
       (resolutionError INVALID_VERIFIED_CORE)) (\<lambda>_.
     andThen (require (rpc_rpcUrl rpc = None \<or> rpc_rpcUrl rpc = Some (fx_rpcUrl fixture))
       (resolutionError PUBLIC_RPC_FORBIDDEN)) (\<lambda>_.
     andThen (require (rpc_fixtureInstanceId rpc = None \<or> rpc_fixtureInstanceId rpc = Some (fx_fixtureInstanceId fixture))
       (resolutionError FIXTURE_MISMATCHED)) (\<lambda>_.
     andThen (require (isAtomic (JString (fc_intentMaximumNetworkFeeAtomic constraints))
                       \<and> isAtomic (JString (fc_policyMaximumNetworkFeeAtomic constraints)))
       (resolutionError FEE_CEILING_CONFLICT)) (\<lambda>_. Inr core))))))"

definition observeChain :: "jsval \<Rightarrow> local_read_rpc \<Rightarrow> simulation_error + chain_view" where
  "observeChain core rpc =
     (let sender = textOf (getProp core ''from''); token = textOf (getProp core ''target'') in
      andThen (andThen (answer (getChainId rpc)) asBigInt) (\<lambda>chainId.
      andThen (require (chainId = 31337) (resolutionError WRONG_CHAIN)) (\<lambda>_.
      andThen (andThen (answer (getBlockNumber rpc)) asBigInt) (\<lambda>blockNumber.
      andThen (requireCanonicalBlock rpc blockNumber) (\<lambda>block.
      andThen (andThen (answer (getPendingNonce rpc sender)) asBigInt) (\<lambda>senderNonce.
      andThen (andThen (answer (getTokenBalance rpc token sender (bl_number block))) asBigInt) (\<lambda>tokenBalance.
      andThen (andThen (answer (getNativeBalance rpc sender (bl_number block))) asBigInt) (\<lambda>nativeBalance.
      Inr \<lparr>cv_block = block, cv_senderNonce = senderNonce, cv_tokenBalance = tokenBalance,
           cv_nativeBalance = nativeBalance\<rparr>))))))))"

definition simulationRequest :: "jsval \<Rightarrow> chain_view \<Rightarrow> simulation_request" where
  "simulationRequest core view =
     \<lparr>sq_from = textOf (getProp core ''from''), sq_to = textOf (getProp core ''target''),
      sq_data = textOf (getProp core ''calldata''), sq_value = 0, sq_blockNumber = bl_number (cv_block view),
      sq_nonce = cv_senderNonce view\<rparr>"

definition runSimulation ::
  "externals \<Rightarrow> jsval \<Rightarrow> local_read_rpc \<Rightarrow> fixture_identity \<Rightarrow> chain_view \<Rightarrow> simulation_error + unit" where
  "runSimulation X core rpc fixture view =
     (let short = cv_tokenBalance view < numeralOf (getProp core ''amountAtomic'') in
      andThen (answer (simulateTransfer rpc (simulationRequest core view))) (\<lambda>simulated.
      if sc_outcome simulated = ''revert'' then
        failureWithEvidence (if short then INSUFFICIENT_TOKEN_BALANCE else SIMULATION_REVERT)
          (revertEvidence X core fixture view (sc_revertData simulated))
      else
      andThen (require (sc_outcome simulated = ''success'') (resolutionError INVALID_RPC_EVIDENCE)) (\<lambda>_.
      if short then failureWithEvidence INSUFFICIENT_TOKEN_BALANCE (revertEvidence X core fixture view None)
      else Inr ())))"

record resolved_fees =
  rf_gasEstimate :: int
  rf_gasLimit :: int
  rf_baseFeePerGas :: int
  rf_maxPriorityFeePerGas :: int
  rf_maxFeePerGas :: int
  rf_maximumNativeFeeAtomic :: string

definition gasMarginOf :: "int \<Rightarrow> int" where
  "gasMarginOf gasEstimate = (let gasMargin = (gasEstimate + 9) div 10 in if gasMargin = 0 then 1 else gasMargin)"

definition resolveFees ::
  "local_read_rpc \<Rightarrow> jsval \<Rightarrow> chain_view \<Rightarrow> fee_constraints \<Rightarrow> simulation_error + resolved_fees" where
  "resolveFees rpc core view constraints =
     andThen (andThen (answer (estimateGas rpc (simulationRequest core view))) asBigInt) (\<lambda>gasEstimate.
     andThen (require (gasEstimate \<noteq> 0) (resolutionError INVALID_RPC_EVIDENCE)) (\<lambda>_.
     andThen (answer (getFeeData rpc (bl_number (cv_block view)))) (\<lambda>feeData.
     andThen (asBigInt (fd_baseFeePerGas feeData)) (\<lambda>baseFeePerGas.
     andThen (asBigInt (fd_maxPriorityFeePerGas feeData)) (\<lambda>maxPriorityFeePerGas.
     andThen (require (baseFeePerGas = bl_baseFeePerGas (cv_block view)) (resolutionError INVALID_FEE_DATA)) (\<lambda>_.
     let gasLimit = gasEstimate + gasMarginOf gasEstimate;
         maxFeePerGas = baseFeePerGas * 2 + maxPriorityFeePerGas in
     andThen (require (\<not> maxPriorityFeePerGas > maxFeePerGas) (resolutionError INVALID_FEE_DATA)) (\<lambda>_.
     andThen (checkedProduct (amountText gasLimit) (amountText maxFeePerGas)) (\<lambda>maximumNativeFeeAtomic.
     let ceiling = minAtomic (fc_intentMaximumNetworkFeeAtomic constraints) (fc_policyMaximumNetworkFeeAtomic constraints) in
     andThen (require (\<not> decVal maximumNativeFeeAtomic > decVal ceiling) (resolutionError FEE_CEILING_CONFLICT)) (\<lambda>_.
     Inr \<lparr>rf_gasEstimate = gasEstimate, rf_gasLimit = gasLimit, rf_baseFeePerGas = baseFeePerGas,
          rf_maxPriorityFeePerGas = maxPriorityFeePerGas, rf_maxFeePerGas = maxFeePerGas,
          rf_maximumNativeFeeAtomic = maximumNativeFeeAtomic\<rparr>)))))))))"

text \<open>The evidence of a successful simulation. The code writes the literal twice, with the fields of the transaction
  taken from the core and from the executable.\<close>

definition successFields ::
  "fixture_identity \<Rightarrow> chain_view \<Rightarrow> resolved_fees \<Rightarrow> jsval \<Rightarrow> jsval \<Rightarrow> string \<Rightarrow> jsval \<Rightarrow> (string \<times> jsval) list" where
  "successFields fixture view fees core source candidateHash value =
     [(''schemaVersion'', JString ''1.0''), (''fixtureInstanceId'', JString (fx_fixtureInstanceId fixture)),
      (''chainId'', JString LOCAL_CHAIN_ID), (''blockNumber'', JString (amountText (bl_number (cv_block view)))),
      (''blockHash'', JString (bl_hash (cv_block view))), (''candidateHash'', JString candidateHash),
      (''from'', getProp source ''from''), (''to'', getProp source ''target''), (''value'', value),
      (''calldata'', getProp source ''calldata''), (''senderNonce'', JString (amountText (cv_senderNonce view))),
      (''tokenBalance'', JString (amountText (cv_tokenBalance view))), (''nativeBalance'', JString (amountText (cv_nativeBalance view))),
      (''gasEstimate'', JString (amountText (rf_gasEstimate fees))), (''gasLimit'', JString (amountText (rf_gasLimit fees))),
      (''baseFeePerGas'', JString (amountText (rf_baseFeePerGas fees))),
      (''maxPriorityFeePerGas'', JString (amountText (rf_maxPriorityFeePerGas fees))),
      (''maxFeePerGas'', JString (amountText (rf_maxFeePerGas fees))), (''accessList'', JArray []),
      (''outcome'', JString ''success''), (''expectedAssetDeltas'', JArray [makeExpectedDelta core]),
      (''maximumNativeFeeAtomic'', JString (rf_maximumNativeFeeAtomic fees)), (''simulatorVersion'', JString ''viem@2.56.0'')]"

fun propertiesOf :: "jsval \<Rightarrow> (string \<times> jsval) list" where
  "propertiesOf (JObject kvs) = kvs"
| "propertiesOf v = []"

definition makeExecutable :: "jsval \<Rightarrow> chain_view \<Rightarrow> resolved_fees \<Rightarrow> jsval" where
  "makeExecutable core view fees = JObject (spread (propertiesOf core)
     [(''nonce'', JString (amountText (cv_senderNonce view))), (''transactionType'', JString ''eip1559''),
      (''gasLimit'', JString (amountText (rf_gasLimit fees))),
      (''maxPriorityFeePerGas'', JString (amountText (rf_maxPriorityFeePerGas fees))),
      (''maxFeePerGas'', JString (amountText (rf_maxFeePerGas fees))), (''accessList'', JArray [])])"

definition simulateAndResolveTransfer ::
  "externals \<Rightarrow> url_parser \<Rightarrow> verification_failure + jsval \<Rightarrow> local_read_rpc \<Rightarrow> fixture_identity \<Rightarrow> fee_constraints
   \<Rightarrow> simulation_error + (jsval \<times> jsval)" where
  "simulateAndResolveTransfer X parseUrl verifiedCore rpc fixture constraints =
     andThen (checkResolution parseUrl verifiedCore rpc fixture constraints) (\<lambda>core.
     andThen (observeChain core rpc) (\<lambda>view.
     andThen (runSimulation X core rpc fixture view) (\<lambda>_.
     andThen (resolveFees rpc core view constraints) (\<lambda>fees.
     if cv_nativeBalance view < int (decVal (rf_maximumNativeFeeAtomic fees)) then
       failureWithEvidence INSUFFICIENT_NATIVE_BALANCE
         (andThen (ofOption OtherError (hashJson X core)) (\<lambda>candidateHash.
          makeEvidence X (successFields fixture view fees core core candidateHash (JString ''0''))))
     else
     let executable = makeExecutable core view fees in
     andThen (ofOption OtherError (hashExecutableCandidate X executable)) (\<lambda>candidateHash.
     andThen (makeEvidence X (successFields fixture view fees core executable candidateHash (getProp executable ''nativeValue''))) (\<lambda>simulation.
     Inr (executable, simulation)))))))"

section \<open>Exact verification\<close>

definition EXECUTABLE_KEYS :: "string list" where
  "EXECUTABLE_KEYS = [''accessList'', ''action'', ''amountAtomic'', ''calldata'', ''chainId'', ''fixtureInstanceId'',
     ''from'', ''gasLimit'', ''maxFeePerGas'', ''maxPriorityFeePerGas'', ''nativeValue'', ''nonce'', ''nonceStrategy'',
     ''provenance'', ''recipient'', ''selector'', ''target'', ''transactionType'']"

fun arrayItems :: "jsval \<Rightarrow> jsval list option" where
  "arrayItems (JArray vs) = Some vs"
| "arrayItems v = None"

definition validDelta :: "jsval \<Rightarrow> bool" where
  "validDelta delta \<longleftrightarrow>
     stringField canonicalAddress (getProp delta ''assetAddress'') \<and> stringField canonicalAddress (getProp delta ''from'')
     \<and> stringField canonicalAddress (getProp delta ''to'') \<and> isAtomic (getProp delta ''amountAtomic'')"

definition validEvidence :: "externals \<Rightarrow> jsval \<Rightarrow> bool" where
  "validEvidence X simulation \<longleftrightarrow>
     (let field = getProp simulation in
      simulationEvidenceSchema simulation \<noteq> None
      \<and> isString (field ''schemaVersion'') ''1.0'' \<and> isString (field ''chainId'') LOCAL_CHAIN_ID
      \<and> canonicalIdentifier (field ''fixtureInstanceId'') \<and> isAtomic (field ''blockNumber'')
      \<and> stringField canonicalHash (field ''blockHash'') \<and> stringField canonicalHash (field ''candidateHash'')
      \<and> stringField canonicalAddress (field ''from'') \<and> stringField canonicalAddress (field ''to'')
      \<and> isString (field ''value'') ''0'' \<and> stringField byteStringSchema (field ''calldata'')
      \<and> isAtomic (field ''senderNonce'') \<and> isAtomic (field ''tokenBalance'') \<and> isAtomic (field ''nativeBalance'')
      \<and> isAtomic (field ''gasEstimate'') \<and> isAtomic (field ''gasLimit'') \<and> isAtomic (field ''baseFeePerGas'')
      \<and> isAtomic (field ''maxPriorityFeePerGas'') \<and> isAtomic (field ''maxFeePerGas'')
      \<and> arrayItems (field ''accessList'') = Some []
      \<and> (case arrayItems (field ''expectedAssetDeltas'') of None \<Rightarrow> False | Some deltas \<Rightarrow> list_all validDelta deltas)
      \<and> isString (field ''simulatorVersion'') ''viem@2.56.0''
      \<and> (case hashSimulationEvidence X simulation of
           None \<Rightarrow> False | Some h \<Rightarrow> isString (field ''evidenceHash'') h))"

text \<open>\<open>JSON.stringify(value)\<close>; it is \<open>undefined\<close> for \<open>undefined\<close>.\<close>

definition jsonStringify :: "jsval \<Rightarrow> string option" where
  "jsonStringify v = (if v = JUndefined then None else Some (jsonText (jsonRoundTrip v)))"

definition failExact :: "simulation_code \<Rightarrow> string option \<Rightarrow> exact_failure + 'a" where
  "failExact code field = Inl (ExactVerificationFailure code field)"

definition sameAs :: "jsval \<Rightarrow> string \<Rightarrow> jsval \<Rightarrow> string \<Rightarrow> bool" where
  "sameAs a key b key' = strictEq (getProp a key) (getProp b key')"

text \<open>The bindings of the evidence to the executable, but for the hash.\<close>

definition evidenceBinds :: "jsval \<Rightarrow> jsval \<Rightarrow> bool" where
  "evidenceBinds simulation executable \<longleftrightarrow>
     sameAs simulation ''fixtureInstanceId'' executable ''fixtureInstanceId''
     \<and> sameAs simulation ''chainId'' executable ''chainId'' \<and> sameAs simulation ''from'' executable ''from''
     \<and> sameAs simulation ''to'' executable ''target'' \<and> sameAs simulation ''value'' executable ''nativeValue''
     \<and> sameAs simulation ''calldata'' executable ''calldata'' \<and> sameAs simulation ''senderNonce'' executable ''nonce''
     \<and> sameAs simulation ''gasLimit'' executable ''gasLimit''
     \<and> sameAs simulation ''maxPriorityFeePerGas'' executable ''maxPriorityFeePerGas''
     \<and> sameAs simulation ''maxFeePerGas'' executable ''maxFeePerGas''
     \<and> arrayItems (getProp simulation ''accessList'') = Some []"

text \<open>The expected delta and the arithmetic of the evidence.\<close>

definition evidenceArithmetic :: "jsval \<Rightarrow> jsval \<Rightarrow> bool" where
  "evidenceArithmetic simulation executable \<longleftrightarrow>
     (case arrayItems (getProp simulation ''expectedAssetDeltas'') of
        Some [expectedDelta] \<Rightarrow>
          sameAs expectedDelta ''assetAddress'' executable ''target'' \<and> sameAs expectedDelta ''from'' executable ''from''
          \<and> sameAs expectedDelta ''to'' executable ''recipient''
          \<and> sameAs expectedDelta ''amountAtomic'' executable ''amountAtomic''
          \<and> numeralOf (getProp simulation ''gasEstimate'') \<noteq> 0
          \<and> numeralOf (getProp simulation ''gasLimit'')
             = numeralOf (getProp simulation ''gasEstimate'') + gasMarginOf (numeralOf (getProp simulation ''gasEstimate''))
          \<and> \<not> numeralOf (getProp simulation ''baseFeePerGas'') + numeralOf (getProp simulation ''maxPriorityFeePerGas'')
               > numeralOf (getProp simulation ''maxFeePerGas'')
      | _ \<Rightarrow> False)"

definition verifyExecutableTransfer ::
  "externals \<Rightarrow> verification_failure + jsval \<Rightarrow> jsval \<Rightarrow> jsval \<Rightarrow> fee_constraints \<Rightarrow> exact_failure + jsval" where
  "verifyExecutableTransfer X verifiedCore executable simulation constraints =
     (let field = getProp executable in
      case verifiedCore of
        Inl failure \<Rightarrow> failExact INVALID_VERIFIED_CORE None
      | Inr core \<Rightarrow>
          if \<not> isCandidate executable \<or> executableTransferCandidateSchema executable = None
             \<or> \<not> hasExactKeys executable EXECUTABLE_KEYS \<or> \<not> isString (field ''transactionType'') ''eip1559''
             \<or> arrayItems (field ''accessList'') \<noteq> Some []
          then failExact INVALID_EXECUTABLE None
          else (case find (\<lambda>key. jsonStringify (field key) \<noteq> jsonStringify (getProp core key)) (sort (objectKeys core)) of
            Some key \<Rightarrow> failExact EXECUTABLE_CHANGED (Some key)
          | None \<Rightarrow>
          (case find (\<lambda>key. \<not> isAtomic (field key)) [''nonce'', ''gasLimit'', ''maxPriorityFeePerGas'', ''maxFeePerGas''] of
            Some key \<Rightarrow> failExact INVALID_EXECUTABLE (Some key)
          | None \<Rightarrow>
          if numeralOf (field ''maxPriorityFeePerGas'') > numeralOf (field ''maxFeePerGas'')
          then failExact PRIORITY_FEE_EXCEEDS_MAX_FEE (Some ''maxPriorityFeePerGas'')
          else if \<not> validEvidence X simulation \<or> \<not> isString (getProp simulation ''outcome'') ''success''
          then failExact SIMULATION_CHANGED None
          else if \<not> evidenceBinds simulation executable then failExact SIMULATION_CHANGED None
          else (case hashExecutableCandidate X executable of
            None \<Rightarrow> Inl ExactThrows
          | Some candidateHash \<Rightarrow>
          if \<not> isString (getProp simulation ''candidateHash'') candidateHash
             \<or> \<not> evidenceArithmetic simulation executable
          then failExact SIMULATION_CHANGED None
          else if \<not> isAtomic (JString (fc_intentMaximumNetworkFeeAtomic constraints))
             \<or> \<not> isAtomic (JString (fc_policyMaximumNetworkFeeAtomic constraints))
          then failExact FEE_CEILING_CONFLICT None
          else
          let maximumCost = numeralOf (field ''gasLimit'') * numeralOf (field ''maxFeePerGas'');
              ceiling = minAtomic (fc_intentMaximumNetworkFeeAtomic constraints) (fc_policyMaximumNetworkFeeAtomic constraints) in
          if maximumCost > int (decVal ceiling) then failExact FEE_CEILING_CONFLICT None
          else if \<not> isString (getProp simulation ''maximumNativeFeeAtomic'') (amountText maximumCost)
          then failExact SIMULATION_CHANGED (Some ''maximumNativeFeeAtomic'')
          else Inr executable))))"

section \<open>Freshness\<close>

record freshness_input =
  fi_verifiedCore :: "verification_failure + jsval"
  fi_executable :: jsval
  fi_simulation :: jsval
  fi_rpc :: local_read_rpc
  fi_fixture :: fixture_identity
  fi_constraints :: fee_constraints
  fi_maxBlockAge :: int

text \<open>\<open>None\<close>: the check throws. \<open>Some None\<close>: the simulation is fresh.\<close>

definition checkSimulationFreshness :: "externals \<Rightarrow> freshness_input \<Rightarrow> simulation_code option option" where
  "checkSimulationFreshness X input =
     (let rpc = fi_rpc input; fixture = fi_fixture input; simulation = fi_simulation input; executable = fi_executable input;
          blockNumber = numeralOf (getProp simulation ''blockNumber'');
          sender = textOf (getProp executable ''from'') in
      if rpc_rpcUrl rpc \<noteq> None \<and> rpc_rpcUrl rpc \<noteq> Some (fx_rpcUrl fixture) then Some (Some FIXTURE_CHANGED)
      else if \<not> isString (getProp simulation ''fixtureInstanceId'') (fx_fixtureInstanceId fixture)
         \<or> (rpc_fixtureInstanceId rpc \<noteq> None \<and> rpc_fixtureInstanceId rpc \<noteq> Some (fx_fixtureInstanceId fixture))
      then Some (Some FIXTURE_CHANGED)
      else if \<not> validEvidence X simulation then Some (Some SIMULATION_CHANGED)
      else Option.bind (getChainId rpc) (\<lambda>chainId.
      if chainId \<noteq> 31337 then Some (Some WRONG_CHAIN)
      else (case verifyExecutableTransfer X (fi_verifiedCore input) executable simulation (fi_constraints input) of
        Inl ExactThrows \<Rightarrow> None
      | Inl (ExactVerificationFailure code fld) \<Rightarrow> Some (Some EXECUTABLE_CHANGED)
      | Inr verified \<Rightarrow>
      Option.bind (getBlockNumber rpc) (\<lambda>currentHead.
      if fi_maxBlockAge input < 0 then Some (Some BLOCK_TOO_OLD)
      else if currentHead < blockNumber then Some (Some NONCANONICAL_BLOCK)
      else if currentHead - blockNumber > fi_maxBlockAge input then Some (Some BLOCK_TOO_OLD)
      else Option.bind (getBlockByNumber rpc blockNumber) (\<lambda>found.
      case found of
        None \<Rightarrow> Some (Some MISSING_BLOCK)
      | Some canonical \<Rightarrow>
      Option.bind (getBlockByHash rpc (textOf (getProp simulation ''blockHash''))) (\<lambda>canonicalByHash.
      if \<not> isString (getProp simulation ''blockHash'') (bl_hash canonical)
         \<or> (case canonicalByHash of
              None \<Rightarrow> True
            | Some b \<Rightarrow> bl_number b \<noteq> bl_number canonical \<or> bl_hash b \<noteq> bl_hash canonical)
      then Some (Some NONCANONICAL_BLOCK)
      else Option.bind (getPendingNonce rpc sender) (\<lambda>nonce.
      if \<not> isString (getProp simulation ''senderNonce'') (intStr nonce) then Some (Some NONCE_CHANGED)
      else Option.bind (getTokenBalance rpc (textOf (getProp executable ''target'')) sender currentHead) (\<lambda>tokenBalance.
      if tokenBalance < numeralOf (getProp executable ''amountAtomic'') then Some (Some TOKEN_BALANCE_CHANGED)
      else Option.bind (getNativeBalance rpc sender currentHead) (\<lambda>nativeBalance.
      if nativeBalance < numeralOf (getProp simulation ''maximumNativeFeeAtomic'') then Some (Some NATIVE_BALANCE_CHANGED)
      else Option.bind (getFeeData rpc currentHead) (\<lambda>feeData.
      if fd_baseFeePerGas feeData < 0 \<or> fd_maxPriorityFeePerGas feeData < 0
         \<or> fd_baseFeePerGas feeData \<noteq> bl_baseFeePerGas canonical
      then Some (Some FEE_CEILING_CONFLICT)
      else if fd_baseFeePerGas feeData + numeralOf (getProp executable ''maxPriorityFeePerGas'')
              > numeralOf (getProp executable ''maxFeePerGas'')
      then Some (Some FEE_CEILING_CONFLICT)
      else Some None))))))))))"

section \<open>Lemmas: values\<close>

lemma decVal_minAtomic:
  assumes "canonicalDec a" "canonicalDec b"
  shows "decVal (minAtomic a b) = min (decVal a) (decVal b)"
  using canonicalDec_less_iff [OF assms] canonicalDec_less_iff [OF assms(2,1)]
  by (auto simp: minAtomic_def min_def not_less split: if_splits)

lemma isAtomic_iff: "isAtomic v \<longleftrightarrow> (\<exists>s. v = JString s \<and> canonicalDec s)"
  by (cases v) auto

lemma stringField_iff: "stringField p v \<longleftrightarrow> (\<exists>s. v = JString s \<and> p s)"
  by (cases v) auto

lemma asBigInt_Inr [result_simps]: "asBigInt n = Inr m \<longleftrightarrow> m = n \<and> 0 \<le> n"
  by (auto simp: asBigInt_def)

lemma strictEq_eq: "strictEq v w \<Longrightarrow> v = w"
  by (induction v w rule: strictEq.induct) auto

lemma sameAs_text: "getProp a k = JString s \<Longrightarrow> sameAs a k b k' \<longleftrightarrow> getProp b k' = JString s"
  by (auto simp: sameAs_def dest: strictEq_eq)

lemma gasMarginOf_ceiling:
  assumes "0 < n"
  shows "gasMarginOf n = (n + 9) div 10 \<and> n \<le> 10 * gasMarginOf n \<and> gasMarginOf n \<le> n"
proof -
  define q where "q = (n + 9) div 10"
  have "n + 9 = q * 10 + (n + 9) mod 10" "0 \<le> (n + 9) mod 10" "(n + 9) mod 10 < 10"
    unfolding q_def by (simp_all only: div_mult_mod_eq pos_mod_bound pos_mod_sign zero_less_numeral)
  with assms have "0 < q" "n \<le> 10 * q" "q \<le> n" by linarith+
  moreover have "gasMarginOf n = q" using \<open>0 < q\<close> by (simp add: gasMarginOf_def Let_def flip: q_def)
  ultimately show ?thesis by (simp add: q_def)
qed

lemma filter_setProp:
  "filter (\<lambda>(key, v). key \<noteq> k) (setProp k v kvs) = filter (\<lambda>(key, v). key \<noteq> k) kvs"
  by (induction kvs) auto

lemma map_of_spread: "map_of (spread base extra) k = (case map_of (rev extra) k of None \<Rightarrow> map_of base k | Some v \<Rightarrow> Some v)"
proof (induction extra rule: rev_induct)
  case (snoc e extra)
  obtain k' v where e: "e = (k', v)" by (cases e)
  have "spread base (extra @ [e]) = setProp k' v (spread base extra)" by (simp add: spread_def e)
  with snoc show ?case by (simp add: map_of_setProp e)
qed (simp add: spread_def)

text \<open>A strict schema accepts an object that has its properties and no other.\<close>

definition supplied :: "(string \<times> jsval) list \<Rightarrow> string \<times> bool \<times> (jsval \<Rightarrow> jsval option) \<Rightarrow> bool" where
  "supplied kvs f \<longleftrightarrow>
     (case f of (key, opt, parser) \<Rightarrow>
        case map_of kvs key of None \<Rightarrow> opt | Some v \<Rightarrow> (opt \<and> v = JUndefined) \<or> parser v \<noteq> None)"

lemma supplied_simps:
  "supplied kvs (required key ok) \<longleftrightarrow> (\<exists>v. map_of kvs key = Some v \<and> ok v)"
  "supplied kvs (optionally key ok) \<longleftrightarrow> getProp (JObject kvs) key = JUndefined \<or> ok (getProp (JObject kvs) key)"
  "supplied kvs (key, False, parser) \<longleftrightarrow> (\<exists>v. map_of kvs key = Some v \<and> parser v \<noteq> None)"
  by (auto simp: supplied_def required_def optionally_def checked_def split: option.splits)

lemma parseFields_total: "list_all (supplied kvs) shp \<Longrightarrow> \<exists>r. parseFields shp kvs = Some r"
proof (induction shp)
  case (Cons f rest)
  obtain key opt parser where f: "f = (key, opt, parser)" by (cases f) auto
  from Cons obtain r where "parseFields rest kvs = Some r" by auto
  moreover have "supplied kvs (key, opt, parser)" using Cons.prems by (simp add: f)
  ultimately show ?case by (auto simp: f supplied_def split: option.splits)
qed simp

lemma strictObject_total:
  assumes "fst ` set kvs \<subseteq> fst ` set shp" "list_all (supplied kvs) shp"
  obtains r where "strictObject shp (JObject kvs) = Some (JObject r)" "parseFields shp kvs = Some r"
proof -
  obtain r where "parseFields shp kvs = Some r" using parseFields_total [OF assms(2)] by blast
  with assms(1) show ?thesis by (intro that [of r]) (force simp: list_all_iff simp del: parseFields.simps, assumption)
qed

lemma parseFields_absent: "parseFields shp kvs = Some r \<Longrightarrow> map_of kvs k = None \<Longrightarrow> map_of r k = None"
proof (induction shp arbitrary: r)
  case (Cons f rest)
  obtain key opt parser where f: "f = (key, opt, parser)" by (cases f) auto
  from Cons.prems(1) [unfolded f] show ?case
    by (rule parseFields_ConsE) (use Cons.IH Cons.prems(2) in \<open>auto simp: f\<close>)
qed simp

text \<open>\<open>hashJson\<close> is defined on every object.\<close>

lemma sequence_total: "(\<And>x. x \<in> set xs \<Longrightarrow> x \<noteq> None) \<Longrightarrow> \<exists>ys. sequence xs = Some ys"
proof (induction xs)
  case (Cons x xs)
  then obtain y ys where "x = Some y" "sequence xs = Some ys" by (metis list.set_intros not_Some_eq)
  then show ?case by simp
qed simp

lemma entries_total:
  "(\<And>e. e \<in> set es \<Longrightarrow> snd e \<noteq> None) \<Longrightarrow> \<exists>ss. sequence (map (\<lambda>(key, text). map_option (f key) text) es) = Some ss"
  by (rule sequence_total) force

lemma canonicalize_roundTrip: "v \<noteq> JUndefined \<Longrightarrow> \<exists>text. canonicalizeJsonValue (jsonRoundTrip v) = Some text"
proof (induction v)
  case (JArray vs)
  let ?item = "\<lambda>v. canonicalizeJsonValue (if v = JUndefined then JNull else jsonRoundTrip v)"
  have "?item v \<noteq> None" if "v \<in> set vs" for v
    using JArray.IH [OF that] by auto
  then obtain ss where "sequence (map ?item vs) = Some ss" using sequence_total [of "map ?item vs"] by auto
  then show ?case by (simp add: o_def)
next
  case (JObject kvs)
  let ?kvs = "filter (\<lambda>(key, v). v \<noteq> JUndefined) kvs"
  let ?entries = "sort_key fst (map (\<lambda>(key, v). (key, canonicalizeJsonValue v)) (map (\<lambda>(key, v). (key, jsonRoundTrip v)) ?kvs))"
  have "snd e \<noteq> None" if "e \<in> set ?entries" for e
    using that JObject.IH by (force simp: set_sort)
  from entries_total [of ?entries "\<lambda>key t. jsonString key @ '':'' @ t", OF this] obtain ss
    where "sequence (map (\<lambda>(key, text). map_option (\<lambda>t. jsonString key @ '':'' @ t) text) ?entries) = Some ss" by blast
  then show ?case by simp
qed auto

lemma hashJson_text: "hashJson X v = Some h \<Longrightarrow> hexDigests X \<Longrightarrow> canonicalHash h"
  using evmHash_of_digest [of X] by (auto simp: hashJson_def canonicalHash_def evmHashSchema_def)


section \<open>Lemmas: resolution\<close>

lemma makeEvidence_Inr:
  assumes "makeEvidence X input = Inr e" "''evidenceHash'' \<notin> set (map fst input)"
  obtains h where "hashJson X (JObject input) = Some h" "e = JObject (input @ [(''evidenceHash'', JString h)])"
proof -
  have drop: "filter (\<lambda>(key, v). key \<noteq> ''evidenceHash'') input = input"
    using assms(2) by (intro filter_True) force
  have set_last: "setProp ''evidenceHash'' v (input @ [(''evidenceHash'', w)]) = input @ [(''evidenceHash'', v)]" for v w
    using assms(2) by (induction input) auto
  from assms(1) show ?thesis
    by (auto simp: makeEvidence_def Let_def result_simps hashSimulationEvidence_def drop set_last intro: that)
qed

lemma requireCanonicalBlock_Inr:
  assumes "requireCanonicalBlock rpc n = Inr b"
  shows "bl_number b = n" "canonicalHash (bl_hash b)" "0 \<le> bl_baseFeePerGas b"
  using assms unfolding requireCanonicalBlock_def andThen_eq_Inr ofOption_eq_Inr require_eq_Inr
  by (elim exE conjE; simp add: result_simps split: option.splits)+

lemma observeChain_Inr:
  assumes "observeChain core rpc = Inr view"
  obtains n where "getBlockNumber rpc = Some n" "0 \<le> n" "bl_number (cv_block view) = n" "canonicalHash (bl_hash (cv_block view))"
    "getPendingNonce rpc (textOf (getProp core ''from'')) = Some (cv_senderNonce view)" "0 \<le> cv_senderNonce view"
    "getTokenBalance rpc (textOf (getProp core ''target'')) (textOf (getProp core ''from'')) n = Some (cv_tokenBalance view)" "0 \<le> cv_tokenBalance view"
    "getNativeBalance rpc (textOf (getProp core ''from'')) n = Some (cv_nativeBalance view)" "0 \<le> cv_nativeBalance view"
    "0 \<le> bl_baseFeePerGas (cv_block view)"
proof -
  from assms obtain n block where n: "getBlockNumber rpc = Some n" "0 \<le> n" and block: "requireCanonicalBlock rpc n = Inr block"
    and view: "cv_block view = block" "getPendingNonce rpc (textOf (getProp core ''from'')) = Some (cv_senderNonce view)" "0 \<le> cv_senderNonce view"
    "getTokenBalance rpc (textOf (getProp core ''target'')) (textOf (getProp core ''from'')) (bl_number block) = Some (cv_tokenBalance view)" "0 \<le> cv_tokenBalance view"
    "getNativeBalance rpc (textOf (getProp core ''from'')) (bl_number block) = Some (cv_nativeBalance view)" "0 \<le> cv_nativeBalance view"
    by (auto simp: observeChain_def Let_def result_simps)
  with requireCanonicalBlock_Inr [OF block] show ?thesis by (intro that [of n]) simp_all
qed

lemma runSimulation_Inr:
  assumes "runSimulation X core rpc fixture view = Inr u"
  shows "numeralOf (getProp core ''amountAtomic'') \<le> cv_tokenBalance view"
  using assms by (auto simp: runSimulation_def failureWithEvidence_def Let_def result_simps split: if_splits)

lemma resolveFees_Inr:
  assumes "resolveFees rpc core view constraints = Inr fees"
  shows "estimateGas rpc (simulationRequest core view) = Some (rf_gasEstimate fees)" "0 < rf_gasEstimate fees"
    "rf_gasLimit fees = rf_gasEstimate fees + gasMarginOf (rf_gasEstimate fees)"
    "rf_baseFeePerGas fees = bl_baseFeePerGas (cv_block view)" "0 \<le> rf_baseFeePerGas fees"
    "0 \<le> rf_maxPriorityFeePerGas fees" "rf_maxFeePerGas fees = 2 * rf_baseFeePerGas fees + rf_maxPriorityFeePerGas fees"
    "rf_maximumNativeFeeAtomic fees = decStr (nat (rf_gasLimit fees) * nat (rf_maxFeePerGas fees))"
    "nat (rf_gasLimit fees) * nat (rf_maxFeePerGas fees)
       \<le> decVal (minAtomic (fc_intentMaximumNetworkFeeAtomic constraints) (fc_policyMaximumNetworkFeeAtomic constraints))"
  using assms by (auto simp: resolveFees_def Let_def checkedProduct_def result_simps)

section \<open>Lemmas: a verified core\<close>

text \<open>The trusted provenance has no properties but those of its type.\<close>

definition plainProvenance :: "trusted_context \<Rightarrow> bool" where
  "plainProvenance trusted \<longleftrightarrow>
     (\<forall>prov. tc_provenance trusted = Some prov \<longrightarrow>
        set (map fst prov) \<subseteq> {''operationId'', ''policyId'', ''policyVersion'', ''policyDecisionHash''} \<and> distinct (map fst prov))"

lemma distinct_setProp: "distinct (map fst kvs) \<Longrightarrow> distinct (map fst (setProp k v kvs))"
proof (induction kvs)
  case (Cons e kvs)
  then show ?case by (cases e) (simp add: keys_setProp)
qed simp

lemma fst_spread: "set (map fst (spread base extra)) = set (map fst base) \<union> set (map fst extra)"
  unfolding spread_def by (induction extra arbitrary: base) (simp_all add: keys_setProp split_beta insert_commute)

lemma distinct_spread: "distinct (map fst base) \<Longrightarrow> distinct (map fst (spread base extra))"
  unfolding spread_def by (induction extra arbitrary: base) (auto simp: distinct_setProp)

lemma sameRecord_props:
  assumes "sameRecord (JObject left) right" "distinct (map fst left)" "distinct (map fst right)"
  shows "set (map fst left) = set (map fst right)" "\<And>k. getProp (JObject left) k = getProp (JObject right) k"
proof -
  have sub: "set (map fst left) \<subseteq> set (map fst right)" using assms(1) by (auto simp: list_all_iff)
  moreover have "card (set (map fst left)) = card (set (map fst right))"
    using assms by (simp only: distinct_card sameRecord.simps)
  ultimately show keys: "set (map fst left) = set (map fst right)" by (simp only: card_subset_eq [OF finite_set])
  show "getProp (JObject left) k = getProp (JObject right) k" for k
  proof (cases "k \<in> set (map fst left)")
    case True
    then show ?thesis using assms(1) by (auto simp only: sameRecord.simps list_all_iff intro: strictEq_eq)
  next
    case False
    then have "map_of left k = None" "map_of right k = None" using keys by (auto simp: map_of_eq_None_iff)
    then show ?thesis by simp
  qed
qed

lemma identifier_schema: "canonicalIdentifier v \<longleftrightarrow> identifierField v"
  by (cases v) (auto simp: canonicalIdentifierSchema_def Suc_le_eq)

lemma address_schema: "canonicalAddress s \<longleftrightarrow> evmAddressSchema s"
  by (simp add: canonicalAddress_def evmAddressSchema_def)

lemma hash_schema: "isHashString v \<Longrightarrow> evmHashField v"
  by (cases v) (auto simp: evmHashSchema_def)

lemma getProp_map_of: "getProp (JObject kvs) k = v \<Longrightarrow> v \<noteq> JUndefined \<Longrightarrow> map_of kvs k = Some v"
  by (auto split: option.splits)

lemma provenance_parses:
  assumes "commonIntentShape X c" "plainProvenance trusted" "isTrusted trusted"
    "sameRecord (JObject left) (expectedProvenance c trusted)" "distinct (map fst left)"
  shows "provenanceSchema (JObject left) \<noteq> None"
proof -
  let ?ids = "[(''intentId'', JString (in_intentId c)), (''agentId'', JString (in_agentId c)), (''walletId'', JString (in_walletId c))]"
  define extra where "extra = (case tc_provenance trusted of None \<Rightarrow> [] | Some prov \<Rightarrow> prov)"
  have keys: "set (map fst extra) \<subseteq> {''operationId'', ''policyId'', ''policyVersion'', ''policyDecisionHash''}"
    using assms(2) by (cases "tc_provenance trusted") (simp_all add: plainProvenance_def extra_def)
  have ok: "provenanceOk extra"
  proof (cases "tc_provenance trusted")
    case None
    then show ?thesis by (simp add: extra_def provenanceOk_def)
  next
    case (Some prov)
    then show ?thesis using assms(3) by (simp add: isTrusted_def extra_def)
  qed
  have right: "expectedProvenance c trusted = spread ?ids extra" by (simp add: expectedProvenance_def extra_def)
  have distinct: "distinct (map fst (spread ?ids extra))" by (rule distinct_spread) simp
  note same = sameRecord_props [OF assms(4,5) distinct [folded right], unfolded right]
  have left: "set (map fst left) \<subseteq> {''intentId'', ''agentId'', ''walletId'', ''operationId'', ''policyId'', ''policyVersion'', ''policyDecisionHash''}"
    using keys unfolding same(1) fst_spread by auto
  have "distinct (map fst extra)" using assms(2) by (cases "tc_provenance trusted") (simp_all add: plainProvenance_def extra_def)
  then have "map_of (rev extra) = map_of extra"
    by (simp add: map_of_inject_set rev_map [symmetric])
  then have looked: "getProp (JObject left) k = (case map_of extra k of None \<Rightarrow> getProp (JObject ?ids) k | Some v \<Rightarrow> v)" for k
    unfolding same(2) by (simp add: map_of_spread split: option.splits)
  have absent: "map_of extra k = None" if "k \<in> {''intentId'', ''agentId'', ''walletId''}" for k
    using keys that by (auto simp: map_of_eq_None_iff)
  have ids: "getProp (JObject left) ''intentId'' = JString (in_intentId c)" "getProp (JObject left) ''agentId'' = JString (in_agentId c)"
    "getProp (JObject left) ''walletId'' = JString (in_walletId c)"
    unfolding looked by (simp_all add: absent)
  have others: "getProp (JObject left) k = getProp (JObject extra) k"
    if "k \<in> {''operationId'', ''policyId'', ''policyVersion'', ''policyDecisionHash''}" for k
    unfolding looked using that by (auto split: option.splits)
  have required: "map_of left ''intentId'' = Some (JString (in_intentId c))" "map_of left ''agentId'' = Some (JString (in_agentId c))"
    "map_of left ''walletId'' = Some (JString (in_walletId c))" "canonicalIdentifierSchema (in_intentId c)"
    "canonicalIdentifierSchema (in_agentId c)" "canonicalIdentifierSchema (in_walletId c)"
    using ids [THEN getProp_map_of] assms(1) by (simp_all add: commonIntentShape_def)
  have optional: "getProp (JObject left) ''operationId'' = JUndefined \<or> identifierField (getProp (JObject left) ''operationId'')"
    "getProp (JObject left) ''policyId'' = JUndefined \<or> identifierField (getProp (JObject left) ''policyId'')"
    "getProp (JObject left) ''policyVersion'' = JUndefined \<or> positiveSafeInteger (getProp (JObject left) ''policyVersion'')"
    "getProp (JObject left) ''policyDecisionHash'' = JUndefined \<or> evmHashField (getProp (JObject left) ''policyDecisionHash'')"
    using ok identifier_schema hash_schema by (auto simp: others provenanceOk_def Let_def simp del: getProp.simps)
  have "list_all (supplied left)
      [required ''intentId'' identifierField, required ''agentId'' identifierField, required ''walletId'' identifierField,
      optionally ''operationId'' identifierField, optionally ''policyId'' identifierField,
      optionally ''policyVersion'' positiveSafeInteger, optionally ''policyDecisionHash'' evmHashField]"
    using required optional by (simp add: supplied_simps del: getProp.simps)
  then show ?thesis
    unfolding provenanceSchema_def
    by (rule strictObject_total [rotated]) (use left in \<open>simp_all add: required_def optionally_def\<close>)
qed

lemma transfer_calldata_bytes: "canonicalAddress a \<Longrightarrow> byteStringSchema (abiTransfer a n)"
  using isHex_hexStr [of 64 n]
  by (auto simp: canonicalAddress_def prefixed_iff byteStringSchema_def calldataSchema_def abiTransfer_def list_all_iff isHex_def isDigit_def)

lemma wfJson_member: "wfJson (JObject kvs) \<Longrightarrow> map_of kvs k = Some v \<Longrightarrow> wfJson v"
  by (auto simp: list_all_iff dest: map_of_SomeD)

text \<open>What a verified core is, as far as the schemas see it.\<close>

definition transferCore :: "jsval \<Rightarrow> bool" where
  "transferCore core \<longleftrightarrow>
     (\<exists>kvs. core = JObject kvs \<and> distinct (map fst kvs) \<and> fst ` set kvs = set candidateKeys)
     \<and> getProp core ''action'' = JString ''asset.transfer'' \<and> getProp core ''chainId'' = JString LOCAL_CHAIN_ID
     \<and> getProp core ''nativeValue'' = JString ''0'' \<and> getProp core ''selector'' = JString TRANSFER_SELECTOR
     \<and> getProp core ''nonceStrategy'' = JString STATIC_NONCE_STRATEGY
     \<and> addressField (getProp core ''from'') \<and> addressField (getProp core ''target'') \<and> addressField (getProp core ''recipient'')
     \<and> atomicField (getProp core ''amountAtomic'') \<and> identifierField (getProp core ''fixtureInstanceId'')
     \<and> stringField byteStringSchema (getProp core ''calldata'') \<and> provenanceSchema (getProp core ''provenance'') \<noteq> None"

lemma verified_core:
  assumes "verifyTransferCore X intent candidate decoded trusted = Inr core" "wfJson core" "plainProvenance trusted"
  shows "transferCore core"
proof -
  from assms(1) obtain c t actual where v: "canonicalIntentSchema X (TransferIntent c t)" "core = candidate" "isTrusted trusted"
    "in_chainId c = LOCAL_CHAIN_ID" "tr_assetAddress t = tc_tokenAddress trusted" "sort (objectKeys core) = candidateKeys"
    "decodeTransferIndependent (getProp core ''calldata'') = Decoded actual"
    "de_recipient actual = tr_recipient t" "de_amountAtomic actual = tr_amountAtomic t"
    and prov: "sameRecord (getProp core ''provenance'') (expectedProvenance c trusted)"
    and props: "getProp core ''action'' = JString ''asset.transfer''" "getProp core ''selector'' = JString TRANSFER_SELECTOR"
    "getProp core ''chainId'' = JString (in_chainId c)" "getProp core ''from'' = JString (tc_walletAddress trusted)"
    "getProp core ''target'' = JString (tr_assetAddress t)" "getProp core ''nativeValue'' = JString ''0''"
    "getProp core ''recipient'' = JString (tr_recipient t)" "getProp core ''amountAtomic'' = JString (tr_amountAtomic t)"
    "getProp core ''nonceStrategy'' = JString STATIC_NONCE_STRATEGY"
    "getProp core ''fixtureInstanceId'' = JString (tc_fixtureInstanceId trusted)"
    by (rule verify_accepts_fields) blast
  have "set (objectKeys core) = set candidateKeys" using v(6) by (metis set_sort)
  moreover obtain kvs where kvs: "core = JObject kvs" using props(1) by (cases core) auto
  ultimately have keys: "fst ` set kvs = set candidateKeys" by simp
  obtain n where call: "getProp core ''calldata'' = JString (abiTransfer (tr_recipient t) n)" "n < 2 ^ 256"
    "canonicalAddress (tr_recipient t)" "tr_amountAtomic t = decStr n"
    using v(7) decode_Decoded [OF v(7)] v(8,9) by (metis decoded_transfer.select_convs(3))
  obtain left where left: "getProp core ''provenance'' = JObject left" using prov by (cases "getProp core ''provenance''") auto
  have "wfJson (JObject left)"
    by (rule wfJson_member [OF assms(2) [unfolded kvs] getProp_map_of [OF left [unfolded kvs]]]) simp
  then have "provenanceSchema (JObject left) \<noteq> None"
    by (intro provenance_parses [OF conjunct1 [OF transfer_intent_fields [OF v(1)]] assms(3) v(3) prov [unfolded left]]) simp
  with props call left v(3-5) kvs keys assms(2) transfer_calldata_bytes [OF call(3)] identifier_schema show ?thesis
    by (simp add: transferCore_def atomicUnitSchema_uint256 isTrusted_def address_schema del: getProp.simps canonicalIdentifier.simps)
qed

section \<open>Lemmas: what resolution produces\<close>

lemma simulateAndResolve_Inr:
  assumes "simulateAndResolveTransfer X parseUrl (Inr core) rpc fixture constraints = Inr (executable, simulation)"
  obtains view fees h candidateHash where "observeChain core rpc = Inr view" "resolveFees rpc core view constraints = Inr fees"
    "getProp core ''fixtureInstanceId'' = JString (fx_fixtureInstanceId fixture)"
    "canonicalDec (fc_intentMaximumNetworkFeeAtomic constraints)" "canonicalDec (fc_policyMaximumNetworkFeeAtomic constraints)"
    "numeralOf (getProp core ''amountAtomic'') \<le> cv_tokenBalance view"
    "int (decVal (rf_maximumNativeFeeAtomic fees)) \<le> cv_nativeBalance view"
    "executable = makeExecutable core view fees" "hashExecutableCandidate X executable = Some candidateHash"
    "hashJson X (JObject (successFields fixture view fees core executable candidateHash (getProp executable ''nativeValue''))) = Some h"
    "simulation = JObject (successFields fixture view fees core executable candidateHash (getProp executable ''nativeValue'')
        @ [(''evidenceHash'', JString h)])"
proof -
  from assms obtain core' view fees candidateHash where check: "checkResolution parseUrl (Inr core) rpc fixture constraints = Inr core'"
    and run: "observeChain core' rpc = Inr view" "runSimulation X core' rpc fixture view = Inr ()"
    "resolveFees rpc core' view constraints = Inr fees" "int (decVal (rf_maximumNativeFeeAtomic fees)) \<le> cv_nativeBalance view"
    "executable = makeExecutable core' view fees" "hashExecutableCandidate X executable = Some candidateHash"
    "makeEvidence X (successFields fixture view fees core' executable candidateHash (getProp executable ''nativeValue'')) = Inr simulation"
    by (auto simp: simulateAndResolveTransfer_def failureWithEvidence_def Let_def result_simps split: if_splits)
  have core: "core' = core" "getProp core ''fixtureInstanceId'' = JString (fx_fixtureInstanceId fixture)"
    "canonicalDec (fc_intentMaximumNetworkFeeAtomic constraints)" "canonicalDec (fc_policyMaximumNetworkFeeAtomic constraints)"
    using check by (auto simp: checkResolution_def validateCore_def result_simps simp del: getProp.simps)
  from run(7) obtain h where
    "hashJson X (JObject (successFields fixture view fees core' executable candidateHash (getProp executable ''nativeValue''))) = Some h"
    "simulation = JObject (successFields fixture view fees core' executable candidateHash (getProp executable ''nativeValue'')
        @ [(''evidenceHash'', JString h)])"
    by (rule makeEvidence_Inr) (simp add: successFields_def)
  with core run runSimulation_Inr [OF run(2)] show ?thesis by (intro that [of view fees candidateHash h]) (simp_all del: getProp.simps)
qed

text \<open>The properties of the executable, and its keys.\<close>

lemma makeExecutable_props:
  assumes "transferCore core"
  shows "getProp (makeExecutable core view fees) ''nonce'' = JString (amountText (cv_senderNonce view))"
    "getProp (makeExecutable core view fees) ''transactionType'' = JString ''eip1559''"
    "getProp (makeExecutable core view fees) ''gasLimit'' = JString (amountText (rf_gasLimit fees))"
    "getProp (makeExecutable core view fees) ''maxPriorityFeePerGas'' = JString (amountText (rf_maxPriorityFeePerGas fees))"
    "getProp (makeExecutable core view fees) ''maxFeePerGas'' = JString (amountText (rf_maxFeePerGas fees))"
    "getProp (makeExecutable core view fees) ''accessList'' = JArray []"
    "\<And>k. k \<in> set candidateKeys \<Longrightarrow> getProp (makeExecutable core view fees) k = getProp core k"
    "hasExactKeys (makeExecutable core view fees) EXECUTABLE_KEYS"
proof -
  let ?e = "makeExecutable core view fees"
  obtain kvs where core: "core = JObject kvs" "distinct (map fst kvs)" "fst ` set kvs = set candidateKeys"
    using assms by (auto simp: transferCore_def)
  show "getProp ?e ''nonce'' = JString (amountText (cv_senderNonce view))"
    "getProp ?e ''transactionType'' = JString ''eip1559''" "getProp ?e ''gasLimit'' = JString (amountText (rf_gasLimit fees))"
    "getProp ?e ''maxPriorityFeePerGas'' = JString (amountText (rf_maxPriorityFeePerGas fees))"
    "getProp ?e ''maxFeePerGas'' = JString (amountText (rf_maxFeePerGas fees))" "getProp ?e ''accessList'' = JArray []"
    by (simp_all add: makeExecutable_def core(1) map_of_spread)
  show "getProp ?e k = getProp core k" if "k \<in> set candidateKeys" for k
    using that by (auto simp: makeExecutable_def core(1) map_of_spread candidateKeys_def)
  let ?keys = "[''nonce'', ''transactionType'', ''gasLimit'', ''maxPriorityFeePerGas'', ''maxFeePerGas'', ''accessList'']"
  have "set (objectKeys ?e) = set candidateKeys \<union> set ?keys"
    by (simp add: makeExecutable_def core fst_spread [unfolded set_map])
  moreover have "distinct (objectKeys ?e)" using core by (simp add: makeExecutable_def distinct_spread)
  moreover have "sorted EXECUTABLE_KEYS \<and> distinct EXECUTABLE_KEYS \<and> set EXECUTABLE_KEYS = set candidateKeys \<union> set ?keys"
    by (simp add: EXECUTABLE_KEYS_def candidateKeys_def insert_commute)
  ultimately show "hasExactKeys ?e EXECUTABLE_KEYS"
    unfolding hasExactKeys_def by (intro sorted_distinct_set_unique) (simp_all add: distinct_sort)
qed

text \<open>Quantities of the EVM: block numbers, nonces and gas have 64 bits, balances 256.\<close>

definition evmAnswers :: "local_read_rpc \<Rightarrow> bool" where
  "evmAnswers rpc \<longleftrightarrow>
     (\<forall>n. getBlockNumber rpc = Some n \<longrightarrow> n < 2 ^ 64) \<and> (\<forall>a n. getPendingNonce rpc a = Some n \<longrightarrow> n < 2 ^ 64)
     \<and> (\<forall>q n. estimateGas rpc q = Some n \<longrightarrow> n < 2 ^ 64) \<and> (\<forall>a b n. getNativeBalance rpc a b = Some n \<longrightarrow> n < 2 ^ 256)
     \<and> (\<forall>t a b n. getTokenBalance rpc t a b = Some n \<longrightarrow> n < 2 ^ 256)"

lemma amountText_atomic: "n < 2 ^ 256 \<Longrightarrow> atomicUnitSchema (amountText n)"
  using nat_less_iff [of n "2 ^ 256"] by (cases "0 \<le> n")  (use canonicalDec_decStr [of 0] in \<open>simp_all add: atomicUnitSchema_uint256 del: power_numeral\<close>)

lemma resolved_bounds:
  assumes "resolveFees rpc core view constraints = Inr fees" "evmAnswers rpc"
    "atomicUnitSchema (fc_intentMaximumNetworkFeeAtomic constraints)" "atomicUnitSchema (fc_policyMaximumNetworkFeeAtomic constraints)"
  shows "rf_gasEstimate fees < 2 ^ 256" "rf_gasLimit fees < 2 ^ 256" "rf_maxFeePerGas fees < 2 ^ 256"
    "rf_maxPriorityFeePerGas fees \<le> rf_maxFeePerGas fees" "rf_baseFeePerGas fees + rf_maxPriorityFeePerGas fees \<le> rf_maxFeePerGas fees"
    "nat (rf_gasLimit fees) * nat (rf_maxFeePerGas fees) < 2 ^ 256"
proof -
  note fees = resolveFees_Inr [OF assms(1)]
  have estimate: "rf_gasEstimate fees < 2 ^ 64" using fees(1) assms(2) by (simp add: evmAnswers_def)
  have limit: "rf_gasEstimate fees < rf_gasLimit fees" "rf_gasLimit fees \<le> 2 * rf_gasEstimate fees"
    using gasMarginOf_ceiling [OF fees(2)] fees(2,3) by auto
  show "nat (rf_gasLimit fees) * nat (rf_maxFeePerGas fees) < 2 ^ 256"
    using fees(9) assms(3,4) decVal_minAtomic [of "fc_intentMaximumNetworkFeeAtomic constraints" "fc_policyMaximumNetworkFeeAtomic constraints"]
    by (simp add: atomicUnitSchema_uint256 del: power_numeral)
  moreover have "1 * nat (rf_maxFeePerGas fees) \<le> nat (rf_gasLimit fees) * nat (rf_maxFeePerGas fees)"
    using limit fees(2) by (intro mult_right_mono) auto
  ultimately have "nat (rf_maxFeePerGas fees) < 2 ^ 256" by linarith
  then show "rf_maxFeePerGas fees < 2 ^ 256" using nat_less_iff [of "rf_maxFeePerGas fees" "2 ^ 256"] fees(5,6,7) by simp
  show "rf_gasEstimate fees < 2 ^ 256" "rf_gasLimit fees < 2 ^ 256" using estimate limit by simp_all
  show "rf_maxPriorityFeePerGas fees \<le> rf_maxFeePerGas fees" "rf_baseFeePerGas fees + rf_maxPriorityFeePerGas fees \<le> rf_maxFeePerGas fees"
    using fees(5-7) by auto
qed

lemma parsed_checked:
  assumes "parseFields shp kvs = Some r" "distinct (map fst shp)" "map_of shp key = Some (False, checked ok)" "map_of kvs key = Some v"
  shows "map_of r key = Some v"
  using parseFields_required [OF assms(1-3)] assms(4) by (auto simp: checked_def split: if_splits)

definition executableShape :: object_shape where
  "executableShape =
     [required ''action'' (enumField [''asset.transfer'']), required ''chainId'' (enumField [''eip155:31337'']),
      required ''from'' addressField, required ''target'' addressField, required ''nativeValue'' (enumField [''0'']),
      required ''calldata'' (stringField byteStringSchema), required ''selector'' (enumField [''0xa9059cbb'']),
      required ''recipient'' addressField, required ''amountAtomic'' atomicField,
      required ''nonceStrategy'' (enumField [''pending'']), required ''fixtureInstanceId'' identifierField,
      (''provenance'', False, provenanceSchema), required ''nonce'' atomicField,
      required ''transactionType'' (enumField [''eip1559'']), required ''gasLimit'' atomicField,
      required ''maxPriorityFeePerGas'' atomicField, required ''maxFeePerGas'' atomicField,
      (''accessList'', False, emptyTuple)]"

lemma executable_schema:
  "executableTransferCandidateSchema c =
     refined (\<lambda>c. feesOrdered (textOf (getProp c ''maxPriorityFeePerGas'')) (textOf (getProp c ''maxFeePerGas'')))
       (strictObject executableShape c)"
  by (simp add: executableTransferCandidateSchema_def executableShape_def)

lemma executableShape_keys:
  "set EXECUTABLE_KEYS \<subseteq> set (map fst executableShape)" "distinct (map fst executableShape)"
  "map_of executableShape ''maxPriorityFeePerGas'' = Some (False, checked atomicField)"
  "map_of executableShape ''maxFeePerGas'' = Some (False, checked atomicField)"
  by (simp_all add: executableShape_def EXECUTABLE_KEYS_def required_def)

lemma executable_parses:
  assumes "transferCore core" "atomicUnitSchema (amountText (cv_senderNonce view))" "atomicUnitSchema (amountText (rf_gasLimit fees))"
    "atomicUnitSchema (amountText (rf_maxPriorityFeePerGas fees))" "atomicUnitSchema (amountText (rf_maxFeePerGas fees))"
    "rf_maxPriorityFeePerGas fees \<le> rf_maxFeePerGas fees"
  shows "executableTransferCandidateSchema (makeExecutable core view fees) \<noteq> None"
proof -
  let ?e = "makeExecutable core view fees"
  obtain kvs where kvs: "?e = JObject kvs" by (simp add: makeExecutable_def)
  note core = assms(1) [unfolded transferCore_def] and props = makeExecutable_props [OF assms(1), where view = view and fees = fees]
  have look: "map_of kvs k = Some (getProp core k)" if "k \<in> set candidateKeys" "getProp core k \<noteq> JUndefined" for k
    using props(7) [OF that(1)] that(2) by (intro getProp_map_of) (simp_all add: kvs [symmetric])
  note new = props(1-6) [unfolded kvs, THEN getProp_map_of]
  have defined: "getProp core k \<noteq> JUndefined" if "k \<in> set candidateKeys" for k
  proof
    assume undefined: "getProp core k = JUndefined"
    with that core show False
      by (simp add: candidateKeys_def provenanceSchema_def del: getProp.simps) (elim disjE; simp del: getProp.simps)
  qed
  have keys: "fst ` set kvs = set EXECUTABLE_KEYS"
    using arg_cong [OF props(8) [unfolded kvs hasExactKeys_def objectKeys.simps], of set] by simp
  have "list_all (supplied kvs) executableShape"
    using core assms(2-5) look [OF _ defined] new
    by (simp add: executableShape_def supplied_simps candidateKeys_def enumField_def emptyTuple_def checked_def
        LOCAL_CHAIN_ID_def TRANSFER_SELECTOR_def STATIC_NONCE_STRATEGY_def del: getProp.simps)
  then obtain r where r: "strictObject executableShape ?e = Some (JObject r)" "parseFields executableShape kvs = Some r"
    using strictObject_total [of kvs executableShape] keys executableShape_keys(1) by (auto simp: kvs)
  have "getProp (JObject r) ''maxPriorityFeePerGas'' = JString (amountText (rf_maxPriorityFeePerGas fees))"
    "getProp (JObject r) ''maxFeePerGas'' = JString (amountText (rf_maxFeePerGas fees))"
    using parsed_checked [OF r(2) executableShape_keys(2,3) new(4)] parsed_checked [OF r(2) executableShape_keys(2,4) new(5)] by simp_all
  with r(1) nat_mono [OF assms(6)] show ?thesis by (simp add: executable_schema refined_def feesOrdered_def del: getProp.simps nat_le_eq_zle zless_nat_conj)
qed

definition evidenceShape :: object_shape where
  "evidenceShape =
     [required ''schemaVersion'' (enumField [''1.0'']), required ''fixtureInstanceId'' identifierField,
      required ''chainId'' (enumField [''eip155:31337'']), required ''blockNumber'' atomicField,
      required ''blockHash'' evmHashField, required ''candidateHash'' evmHashField, required ''from'' addressField,
      required ''to'' addressField, required ''value'' (enumField [''0'']), required ''calldata'' (stringField byteStringSchema),
      required ''senderNonce'' atomicField, required ''tokenBalance'' atomicField, required ''nativeBalance'' atomicField,
      required ''gasEstimate'' atomicField, required ''gasLimit'' atomicField, required ''baseFeePerGas'' atomicField,
      required ''maxPriorityFeePerGas'' atomicField, required ''maxFeePerGas'' atomicField, (''accessList'', False, emptyTuple),
      required ''outcome'' (enumField [''success'', ''revert'']), (''revert'', True, simulationRevertSchema),
      (''expectedAssetDeltas'', False, nonEmptyArray assetDeltaSchema), required ''maximumNativeFeeAtomic'' atomicField,
      required ''simulatorVersion'' (enumField [''viem@2.56.0'']), required ''evidenceHash'' evmHashField]"

lemma evidence_schema:
  "simulationEvidenceSchema e =
     refined (\<lambda>e. \<not> (getProp e ''outcome'' = JString ''success'' \<and> getProp e ''revert'' \<noteq> JUndefined)
                 \<and> \<not> (getProp e ''outcome'' = JString ''revert'' \<and> getProp e ''revert'' = JUndefined))
       (strictObject evidenceShape e)"
  by (simp add: simulationEvidenceSchema_def evidenceShape_def)

lemma evidenceShape_keys:
  "distinct (map fst evidenceShape)" "map_of evidenceShape ''outcome'' = Some (False, checked (enumField [''success'', ''revert'']))"
  by (simp_all add: evidenceShape_def required_def)

text \<open>The evidence of a successful simulation, and its properties.\<close>

definition successEvidence ::
  "fixture_identity \<Rightarrow> chain_view \<Rightarrow> resolved_fees \<Rightarrow> jsval \<Rightarrow> string \<Rightarrow> string \<Rightarrow> (string \<times> jsval) list" where
  "successEvidence fixture view fees core candidateHash h =
     successFields fixture view fees core core candidateHash (JString ''0'') @ [(''evidenceHash'', JString h)]"

lemma successEvidence_props:
  fixes fixture :: fixture_identity and view :: chain_view and fees :: resolved_fees and core :: jsval and candidateHash h :: string
  defines "get \<equiv> map_of (successEvidence fixture view fees core candidateHash h)"
  shows "get ''schemaVersion'' = Some (JString ''1.0'')" "get ''fixtureInstanceId'' = Some (JString (fx_fixtureInstanceId fixture))"
    "get ''chainId'' = Some (JString LOCAL_CHAIN_ID)" "get ''blockNumber'' = Some (JString (amountText (bl_number (cv_block view))))"
    "get ''blockHash'' = Some (JString (bl_hash (cv_block view)))" "get ''candidateHash'' = Some (JString candidateHash)"
    "get ''from'' = Some (getProp core ''from'')" "get ''to'' = Some (getProp core ''target'')" "get ''value'' = Some (JString ''0'')"
    "get ''calldata'' = Some (getProp core ''calldata'')" "get ''senderNonce'' = Some (JString (amountText (cv_senderNonce view)))"
    "get ''tokenBalance'' = Some (JString (amountText (cv_tokenBalance view)))"
    "get ''nativeBalance'' = Some (JString (amountText (cv_nativeBalance view)))"
    "get ''gasEstimate'' = Some (JString (amountText (rf_gasEstimate fees)))" "get ''gasLimit'' = Some (JString (amountText (rf_gasLimit fees)))"
    "get ''baseFeePerGas'' = Some (JString (amountText (rf_baseFeePerGas fees)))"
    "get ''maxPriorityFeePerGas'' = Some (JString (amountText (rf_maxPriorityFeePerGas fees)))"
    "get ''maxFeePerGas'' = Some (JString (amountText (rf_maxFeePerGas fees)))" "get ''accessList'' = Some (JArray [])"
    "get ''outcome'' = Some (JString ''success'')" "get ''revert'' = None" "get ''expectedAssetDeltas'' = Some (JArray [makeExpectedDelta core])"
    "get ''maximumNativeFeeAtomic'' = Some (JString (rf_maximumNativeFeeAtomic fees))"
    "get ''simulatorVersion'' = Some (JString ''viem@2.56.0'')" "get ''evidenceHash'' = Some (JString h)"
  unfolding get_def by (simp_all add: successEvidence_def successFields_def del: getProp.simps)

lemma successEvidence_keys: "fst ` set (successEvidence fixture view fees core candidateHash h) \<subseteq> fst ` set evidenceShape"
  by (simp add: successEvidence_def successFields_def evidenceShape_def required_def)

lemma delta_parses:
  assumes "transferCore core"
  shows "assetDeltaSchema (makeExpectedDelta core) = Some (makeExpectedDelta core)" "validDelta (makeExpectedDelta core)"
proof -
  note core = assms [unfolded transferCore_def]
  show "assetDeltaSchema (makeExpectedDelta core) = Some (makeExpectedDelta core)"
    using core by (simp add: assetDeltaSchema_def makeExpectedDelta_def required_def checked_def del: getProp.simps)
  show "validDelta (makeExpectedDelta core)"
    using core by (auto simp: validDelta_def makeExpectedDelta_def stringField_iff address_schema atomicUnit_canonical)
qed

lemma supplied_absent: "map_of kvs key = None \<Longrightarrow> supplied kvs (key, True, parser)"
  by (simp add: supplied_def)

text \<open>The numbers and hashes of the evidence fit its schema.\<close>

definition evidenceNumbers :: "chain_view \<Rightarrow> resolved_fees \<Rightarrow> bool" where
  "evidenceNumbers view fees \<longleftrightarrow>
     bl_number (cv_block view) < 2 ^ 256 \<and> cv_senderNonce view < 2 ^ 256 \<and> cv_tokenBalance view < 2 ^ 256
     \<and> cv_nativeBalance view < 2 ^ 256 \<and> rf_gasEstimate fees < 2 ^ 256 \<and> rf_gasLimit fees < 2 ^ 256
     \<and> rf_baseFeePerGas fees < 2 ^ 256 \<and> rf_maxPriorityFeePerGas fees < 2 ^ 256 \<and> rf_maxFeePerGas fees < 2 ^ 256
     \<and> atomicUnitSchema (rf_maximumNativeFeeAtomic fees) \<and> canonicalHash (bl_hash (cv_block view))"

lemma evidence_parses:
  assumes "transferCore core" "evidenceNumbers view fees" "canonicalHash candidateHash" "canonicalHash h"
    "getProp core ''fixtureInstanceId'' = JString (fx_fixtureInstanceId fixture)"
  shows "simulationEvidenceSchema (JObject (successEvidence fixture view fees core candidateHash h)) \<noteq> None"
proof -
  let ?e = "successEvidence fixture view fees core candidateHash h"
  note core = assms(1) [unfolded transferCore_def] and numbers = assms(2) [unfolded evidenceNumbers_def]
  note props = successEvidence_props [where fixture = fixture and view = view and fees = fees and core = core
      and candidateHash = candidateHash and h = h]
  have hashes: "evmHashSchema candidateHash" "evmHashSchema h" "evmHashSchema (bl_hash (cv_block view))"
    using assms(3,4) numbers by (simp_all add: canonicalHash_def evmHashSchema_def)
  have "list_all (supplied ?e) evidenceShape"
    using core numbers hashes assms(5) delta_parses(1) [OF assms(1)]
    by (simp add: evidenceShape_def props supplied_simps supplied_absent amountText_atomic enumField_def emptyTuple_def checked_def LOCAL_CHAIN_ID_def
        del: getProp.simps power_numeral)
  then obtain r where r: "strictObject evidenceShape (JObject ?e) = Some (JObject r)" "parseFields evidenceShape ?e = Some r"
    using strictObject_total [of ?e evidenceShape] successEvidence_keys by blast
  have "map_of r ''outcome'' = Some (JString ''success'')" "map_of r ''revert'' = None"
    using parsed_checked [OF r(2) evidenceShape_keys props(20)] parseFields_absent [OF r(2) props(21)] by simp_all
  with r(1) show ?thesis by (simp add: evidence_schema refined_def)
qed

lemma evidence_valid:
  assumes "transferCore core" "evidenceNumbers view fees" "canonicalHash candidateHash" "hexDigests X"
    "getProp core ''fixtureInstanceId'' = JString (fx_fixtureInstanceId fixture)"
    "hashJson X (JObject (successFields fixture view fees core core candidateHash (JString ''0''))) = Some h"
  shows "validEvidence X (JObject (successEvidence fixture view fees core candidateHash h))"
proof -
  let ?e = "successEvidence fixture view fees core candidateHash h"
  note core = assms(1) [unfolded transferCore_def] and numbers = assms(2) [unfolded evidenceNumbers_def]
  note props = successEvidence_props [where fixture = fixture and view = view and fees = fees and core = core
      and candidateHash = candidateHash and h = h]
  have "canonicalHash h" using hashJson_text [OF assms(6,4)] .
  then have "simulationEvidenceSchema (JObject ?e) \<noteq> None" using evidence_parses assms by blast
  moreover have "withoutEvidenceHash (JObject ?e) = JObject (successFields fixture view fees core core candidateHash (JString ''0''))"
    by (simp add: successEvidence_def successFields_def)
  ultimately show ?thesis
    using core numbers assms(3,5,6) delta_parses(2) [OF assms(1)] \<open>canonicalHash h\<close>
    by (simp add: validEvidence_def Let_def props identifier_schema stringField_iff hashSimulationEvidence_def
        LOCAL_CHAIN_ID_def address_schema atomicUnit_canonical del: withoutEvidenceHash.simps canonicalIdentifier.simps)
qed

lemma getProp_found: "map_of kvs k = Some v \<Longrightarrow> getProp (JObject kvs) k = v"
  by simp

lemma evidence_binds:
  assumes "transferCore core" "getProp core ''fixtureInstanceId'' = JString (fx_fixtureInstanceId fixture)"
  shows "evidenceBinds (JObject (successEvidence fixture view fees core candidateHash h)) (makeExecutable core view fees)"
proof -
  note core = assms(1) [unfolded transferCore_def]
  note props = successEvidence_props [where fixture = fixture and view = view and fees = fees and core = core
      and candidateHash = candidateHash and h = h]
  note exec = makeExecutable_props [OF assms(1), where view = view and fees = fees]
  have kept: "getProp (makeExecutable core view fees) k = getProp core k"
    if "k \<in> {''fixtureInstanceId'', ''chainId'', ''from'', ''target'', ''nativeValue'', ''calldata''}" for k
    using exec(7) that by (auto simp: candidateKeys_def)
  note get = props(1-20) [THEN getProp_found]
  obtain sender token calldata where "getProp core ''from'' = JString sender" "getProp core ''target'' = JString token"
    "getProp core ''calldata'' = JString calldata"
    using core by (auto simp: stringField_iff simp del: getProp.simps)
  then show ?thesis
    using core assms(2) by (simp add: evidenceBinds_def sameAs_def get kept exec(1-5) del: getProp.simps)
qed

lemma evidence_arithmetic:
  assumes "transferCore core" "resolveFees rpc core view constraints = Inr fees"
  shows "evidenceArithmetic (JObject (successEvidence fixture view fees core candidateHash h)) (makeExecutable core view fees)"
proof -
  note core = assms(1) [unfolded transferCore_def]
  note props = successEvidence_props [where fixture = fixture and view = view and fees = fees and core = core
      and candidateHash = candidateHash and h = h]
  note get = props(14,15,16,17,18,22) [THEN getProp_found]
  note exec = makeExecutable_props(7) [OF assms(1), where view = view and fees = fees]
  have kept: "getProp (makeExecutable core view fees) k = getProp core k"
    if "k \<in> {''from'', ''target'', ''recipient'', ''amountAtomic''}" for k
    using exec that by (auto simp: candidateKeys_def)
  obtain sender token recipient amount where texts: "getProp core ''from'' = JString sender" "getProp core ''target'' = JString token"
    "getProp core ''recipient'' = JString recipient" "getProp core ''amountAtomic'' = JString amount"
    using core by (auto simp: stringField_iff simp del: getProp.simps)
  have delta: "getProp (makeExpectedDelta core) ''assetAddress'' = JString token" "getProp (makeExpectedDelta core) ''from'' = JString sender"
    "getProp (makeExpectedDelta core) ''to'' = JString recipient" "getProp (makeExpectedDelta core) ''amountAtomic'' = JString amount"
    using texts by (simp_all add: makeExpectedDelta_def)
  note fees = resolveFees_Inr [OF assms(2)]
  have "0 \<le> rf_gasLimit fees" "0 \<le> rf_maxFeePerGas fees"
    using fees(2,3,5-7) gasMarginOf_ceiling [OF fees(2)] by auto
  then show ?thesis
    using fees(2,3,5-7) by (simp add: evidenceArithmetic_def sameAs_def get kept texts delta del: getProp.simps)
qed

lemma resolved_numbers:
  assumes "observeChain core rpc = Inr view" "resolveFees rpc core view constraints = Inr fees" "evmAnswers rpc"
    "atomicUnitSchema (fc_intentMaximumNetworkFeeAtomic constraints)" "atomicUnitSchema (fc_policyMaximumNetworkFeeAtomic constraints)"
  shows "evidenceNumbers view fees" "cv_senderNonce view < 2 ^ 256"
proof -
  note fees = resolveFees_Inr [OF assms(2)] and bounds = resolved_bounds [OF assms(2-5)]
  from assms(1) obtain n where chain: "getBlockNumber rpc = Some n" "bl_number (cv_block view) = n" "canonicalHash (bl_hash (cv_block view))"
    "getPendingNonce rpc (textOf (getProp core ''from'')) = Some (cv_senderNonce view)"
    "getTokenBalance rpc (textOf (getProp core ''target'')) (textOf (getProp core ''from'')) n = Some (cv_tokenBalance view)"
    "getNativeBalance rpc (textOf (getProp core ''from'')) n = Some (cv_nativeBalance view)"
    by (rule observeChain_Inr) blast
  have small: "bl_number (cv_block view) < 2 ^ 64" "cv_senderNonce view < 2 ^ 64" "cv_tokenBalance view < 2 ^ 256" "cv_nativeBalance view < 2 ^ 256"
    using chain assms(3) unfolding evmAnswers_def by (metis)+
  moreover have "atomicUnitSchema (rf_maximumNativeFeeAtomic fees)"
    using bounds(6) by (simp add: fees(8) atomicUnitSchema_uint256 del: power_numeral)
  moreover have "rf_baseFeePerGas fees < 2 ^ 256" "rf_maxPriorityFeePerGas fees < 2 ^ 256"
    using bounds(3-5) fees(5,6) by linarith+
  ultimately show "evidenceNumbers view fees" "cv_senderNonce view < 2 ^ 256"
    using bounds(1-3) chain(3) by (simp_all add: evidenceNumbers_def)
qed

lemma exact_steps:
  "(if b then failExact code fld else r) = Inr v \<longleftrightarrow> \<not> b \<and> r = Inr v"
  "(case x of None \<Rightarrow> r | Some k \<Rightarrow> failExact code (Some k)) = Inr v \<longleftrightarrow> x = None \<and> r = Inr v"
  "(case y of None \<Rightarrow> Inl failure | Some h \<Rightarrow> g h) = Inr v \<longleftrightarrow> (\<exists>h. y = Some h \<and> g h = Inr v)"
  by (auto simp: failExact_def split: option.splits)

lemma verifyExecutable_Inr:
  assumes "verifyExecutableTransfer X (Inr core) executable simulation constraints = Inr v"
  obtains h where "v = executable" "executableTransferCandidateSchema executable \<noteq> None" "hasExactKeys executable EXECUTABLE_KEYS"
    "\<forall>k \<in> set (objectKeys core). jsonStringify (getProp executable k) = jsonStringify (getProp core k)"
    "validEvidence X simulation" "getProp simulation ''outcome'' = JString ''success''" "evidenceBinds simulation executable"
    "hashExecutableCandidate X executable = Some h" "getProp simulation ''candidateHash'' = JString h" "evidenceArithmetic simulation executable"
    "canonicalDec (fc_intentMaximumNetworkFeeAtomic constraints)" "canonicalDec (fc_policyMaximumNetworkFeeAtomic constraints)"
    "numeralOf (getProp executable ''gasLimit'') * numeralOf (getProp executable ''maxFeePerGas'')
       \<le> int (decVal (minAtomic (fc_intentMaximumNetworkFeeAtomic constraints) (fc_policyMaximumNetworkFeeAtomic constraints)))"
    "getProp simulation ''maximumNativeFeeAtomic''
       = JString (amountText (numeralOf (getProp executable ''gasLimit'') * numeralOf (getProp executable ''maxFeePerGas'')))"
proof -
  from assms show ?thesis
    unfolding verifyExecutableTransfer_def Let_def sum.case exact_steps find_None_iff isString_iff not_less isAtomic.simps
    by (elim exE conjE) (rule that; simp del: getProp.simps)
qed

lemma sameAs_eq: "sameAs a k b k' \<Longrightarrow> getProp a k = getProp b k'"
  by (simp add: sameAs_def strictEq_eq)

lemma hashJson_total: "v \<noteq> JUndefined \<Longrightarrow> \<exists>h. hashJson X v = Some h"
  using canonicalize_roundTrip [of v] by (auto simp: hashJson_def canonicalJson_def canonicalizeIdempotencyPayload_def)

lemma makeEvidence_total: "\<exists>e. makeEvidence X input = Inr e"
  using hashJson_total [of "withoutEvidenceHash (JObject (input @ [(''evidenceHash'', JString (''0x'' @ replicate 64 (CHR ''0'')))]))" X]
  by (auto simp: makeEvidence_def Let_def hashSimulationEvidence_def result_simps)

lemma resolution_verifies:
  assumes "transferCore core"
    "simulateAndResolveTransfer X parseUrl (Inr core) rpc fixture constraints = Inr (executable, simulation)"
    "hexDigests X" "evmAnswers rpc"
    "atomicUnitSchema (fc_intentMaximumNetworkFeeAtomic constraints)" "atomicUnitSchema (fc_policyMaximumNetworkFeeAtomic constraints)"
  shows "verifyExecutableTransfer X (Inr core) executable simulation constraints = Inr executable"
proof -
  from assms(2) obtain view fees h candidateHash where run: "observeChain core rpc = Inr view"
    "resolveFees rpc core view constraints = Inr fees" "getProp core ''fixtureInstanceId'' = JString (fx_fixtureInstanceId fixture)"
    and e: "executable = makeExecutable core view fees" "hashExecutableCandidate X executable = Some candidateHash"
    and s: "hashJson X (JObject (successFields fixture view fees core executable candidateHash (getProp executable ''nativeValue''))) = Some h"
    "simulation = JObject (successFields fixture view fees core executable candidateHash (getProp executable ''nativeValue'')
        @ [(''evidenceHash'', JString h)])"
    by (rule simulateAndResolve_Inr) blast
  note exec = makeExecutable_props [OF assms(1), where view = view and fees = fees, folded e(1)]
  note fees = resolveFees_Inr [OF run(2)] and bounds = resolved_bounds [OF run(2) assms(4-6)]
  have source: "successFields fixture view fees core executable candidateHash (getProp executable ''nativeValue'')
      = successFields fixture view fees core core candidateHash (JString ''0'')"
    using assms(1) exec(7) by (simp add: successFields_def candidateKeys_def transferCore_def del: getProp.simps)
  have simulation: "simulation = JObject (successEvidence fixture view fees core candidateHash h)"
    by (simp add: s(2) source successEvidence_def)
  have hash: "canonicalHash candidateHash" using hashJson_text [OF _ assms(3)] e(2) by (simp add: hashExecutableCandidate_def)
  have numbers: "evidenceNumbers view fees" "cv_senderNonce view < 2 ^ 256"
    using resolved_numbers [OF run(1,2) assms(4-6)] by blast+
  note get = successEvidence_props(20,6,23) [where fixture = fixture and view = view and fees = fees and core = core
      and candidateHash = candidateHash and h = h, THEN getProp_found]
  have schema: "executableTransferCandidateSchema executable \<noteq> None"
    unfolding e(1) using numbers bounds
    by (intro executable_parses [OF assms(1)]) (simp_all add: evidenceNumbers_def amountText_atomic del: power_numeral)
  have changed: "find (\<lambda>key. jsonStringify (getProp executable key) \<noteq> jsonStringify (getProp core key)) (sort (objectKeys core)) = None"
    using assms(1) exec(7) by (auto simp: find_None_iff transferCore_def)
  have valid: "validEvidence X simulation"
    unfolding simulation by (rule evidence_valid [OF assms(1) numbers(1) hash assms(3) run(3) s(1) [unfolded source]])
  have bound: "evidenceBinds simulation executable" "evidenceArithmetic simulation executable"
    unfolding simulation e(1) by (rule evidence_binds [OF assms(1) run(3)], rule evidence_arithmetic [OF assms(1) run(2)])
  obtain parsed where "executableTransferCandidateSchema executable = Some parsed" using schema by auto
  moreover have "isCandidate executable" by (simp add: e(1) makeExecutable_def)
  moreover have "isAtomic (getProp executable k)" if "k \<in> {''nonce'', ''gasLimit'', ''maxPriorityFeePerGas'', ''maxFeePerGas''}" for k
    using that exec(1,3-5) by auto
  moreover have "numeralOf (getProp executable ''gasLimit'') * numeralOf (getProp executable ''maxFeePerGas'')
      = int (nat (rf_gasLimit fees) * nat (rf_maxFeePerGas fees))" by (simp add: exec(3,5) del: getProp.simps)
  moreover have "numeralOf (getProp executable ''maxPriorityFeePerGas'') \<le> numeralOf (getProp executable ''maxFeePerGas'')"
    using bounds(4) by (simp add: exec(4,5) del: getProp.simps)
  ultimately show ?thesis
    using changed valid bound exec(2,6,8) e(2) get fees(8,9) assms(5,6)
    by (simp add: verifyExecutableTransfer_def Let_def simulation [symmetric] atomicUnit_canonical nat_mult_distrib
        del: getProp.simps of_nat_mult)
qed

section \<open>Lemmas: freshness\<close>

text \<open>What a fresh simulation is.\<close>

lemma checkSimulationFreshness_fresh:
  assumes "checkSimulationFreshness X input = Some None"
  shows "\<exists>head tokenBalance nativeBalance. verifyExecutableTransfer X (fi_verifiedCore input) (fi_executable input) (fi_simulation input)
        (fi_constraints input) = Inr (fi_executable input)
    \<and> getChainId (fi_rpc input) = Some 31337 \<and> getBlockNumber (fi_rpc input) = Some head
    \<and> 0 \<le> head - numeralOf (getProp (fi_simulation input) ''blockNumber'')
    \<and> head - numeralOf (getProp (fi_simulation input) ''blockNumber'') \<le> fi_maxBlockAge input
    \<and> (\<exists>canonical. getBlockByNumber (fi_rpc input) (numeralOf (getProp (fi_simulation input) ''blockNumber'')) = Some (Some canonical)
         \<and> getProp (fi_simulation input) ''blockHash'' = JString (bl_hash canonical))
    \<and> (\<exists>n. getPendingNonce (fi_rpc input) (textOf (getProp (fi_executable input) ''from'')) = Some n
         \<and> getProp (fi_simulation input) ''senderNonce'' = JString (intStr n))
    \<and> getTokenBalance (fi_rpc input) (textOf (getProp (fi_executable input) ''target'')) (textOf (getProp (fi_executable input) ''from'')) head
        = Some tokenBalance
    \<and> numeralOf (getProp (fi_executable input) ''amountAtomic'') \<le> tokenBalance
    \<and> getNativeBalance (fi_rpc input) (textOf (getProp (fi_executable input) ''from'')) head = Some nativeBalance
    \<and> numeralOf (getProp (fi_simulation input) ''maximumNativeFeeAtomic'') \<le> nativeBalance"
proof -
  have steps: "(if b then Some (Some code) else r) = Some None \<longleftrightarrow> \<not> b \<and> r = Some None"
    "(case found of None \<Rightarrow> Some (Some code) | Some c \<Rightarrow> g c) = Some None \<longleftrightarrow> (\<exists>c. found = Some c \<and> g c = Some None)"
    for b and code :: simulation_code and r and found :: "canonical_block option" and g
    by (auto split: option.splits)
  obtain verified where verified: "verifyExecutableTransfer X (fi_verifiedCore input) (fi_executable input) (fi_simulation input)
        (fi_constraints input) = Inr verified"
    using assms unfolding checkSimulationFreshness_def Let_def
    by (auto simp: bind_eq_Some_conv split: if_splits sum.splits exact_failure.splits)
  then have "verified = fi_executable input" using verifyExecutable_Inr
    by (cases "fi_verifiedCore input") (fastforce simp: verifyExecutableTransfer_def failExact_def, metis verifyExecutable_Inr)
  with verified assms show ?thesis
    unfolding checkSimulationFreshness_def Let_def steps bind_eq_Some_conv not_less
    by (elim exE conjE) (simp add: steps bind_eq_Some_conv not_less del: getProp.simps, elim exE conjE, force simp del: getProp.simps)
qed

section \<open>A sample\<close>

text \<open>A sample: the candidate of \<open>TransferCore\<close> on a node that answers for block 17.\<close>

definition sampleCore :: jsval where
  "sampleCore = candidateJson (intendedCandidate sampleCommon sampleTransfer sampleTrusted)"

definition sampleBlock :: canonical_block where
  "sampleBlock = \<lparr>bl_number = 17, bl_hash = ''0x'' @ replicate 64 (CHR ''1''), bl_baseFeePerGas = 7\<rparr>"

definition sampleRpc :: local_read_rpc where
  "sampleRpc = \<lparr>getChainId = Some 31337, getBlockNumber = Some 17, getBlockByNumber = (\<lambda>n. Some (Some sampleBlock)),
     getBlockByHash = (\<lambda>h. Some (Some sampleBlock)), getPendingNonce = (\<lambda>a. Some 4), getNativeBalance = (\<lambda>a n. Some 10000000),
     getTokenBalance = (\<lambda>t a n. Some 1000000000), simulateTransfer = (\<lambda>q. Some \<lparr>sc_outcome = ''success'', sc_revertData = None\<rparr>),
     estimateGas = (\<lambda>q. Some 50001), getFeeData = (\<lambda>n. Some \<lparr>fd_baseFeePerGas = 7, fd_maxPriorityFeePerGas = 1\<rparr>),
     rpc_rpcUrl = None, rpc_fixtureInstanceId = None\<rparr>"

definition sampleFixture :: fixture_identity where
  "sampleFixture = \<lparr>fx_fixtureInstanceId = tc_fixtureInstanceId sampleTrusted, fx_chainId = LOCAL_CHAIN_ID,
     fx_walletAddress = tc_walletAddress sampleTrusted, fx_tokenAddress = tc_tokenAddress sampleTrusted,
     fx_rpcUrl = ''http://127.0.0.1:8545''\<rparr>"

definition sampleUrl :: url_parser where
  "sampleUrl s = (if s = ''http://127.0.0.1:8545'' then
     Some \<lparr>url_protocol = ''http:'', url_hostname = ''127.0.0.1'', url_username = [], url_password = [],
           url_pathname = ''/'', url_search = [], url_hash = []\<rparr> else None)"

definition sampleConstraints :: fee_constraints where
  "sampleConstraints = \<lparr>fc_intentMaximumNetworkFeeAtomic = ''1000000'', fc_policyMaximumNetworkFeeAtomic = ''2000000''\<rparr>"

definition sampleFees :: resolved_fees where
  "sampleFees = \<lparr>rf_gasEstimate = 50001, rf_gasLimit = 55002, rf_baseFeePerGas = 7, rf_maxPriorityFeePerGas = 1,
     rf_maxFeePerGas = 15, rf_maximumNativeFeeAtomic = decStr 825030\<rparr>"

definition sampleView :: chain_view where
  "sampleView = \<lparr>cv_block = sampleBlock, cv_senderNonce = 4, cv_tokenBalance = 1000000000, cv_nativeBalance = 10000000\<rparr>"

lemma sampleCore_verified:
  "verifyTransferCore sampleExternals (Shaped (TransferIntent sampleCommon sampleTransfer)) sampleCore
     (decodeTransferIndependent (JString (ca_calldata (intendedCandidate sampleCommon sampleTransfer sampleTrusted)))) sampleTrusted
   = Inr sampleCore"
  unfolding sampleCore_def by (rule sample_verifies)

lemma sampleCore_wf: "wfJson sampleCore" "plainProvenance sampleTrusted"
  by (simp_all add: sampleCore_def candidateJson_def intendedCandidate_def buildProvenance_def sample_matches(3) spread_def plainProvenance_def)

lemma sampleCore_props:
  "getProp sampleCore ''fixtureInstanceId'' = JString (tc_fixtureInstanceId sampleTrusted)"
  "getProp sampleCore ''chainId'' = JString LOCAL_CHAIN_ID" "getProp sampleCore ''from'' = JString (tc_walletAddress sampleTrusted)"
  "getProp sampleCore ''amountAtomic'' = JString (tr_amountAtomic sampleTransfer)"
  by (simp_all add: sampleCore_def candidateJson_props intendedCandidate_def sample_matches)

lemma sample_checks: "checkResolution sampleUrl (Inr sampleCore) sampleRpc sampleFixture sampleConstraints = Inr sampleCore"
  using sampleTrusted_ok
  by (simp add: checkResolution_def validateFixture_def validateCore_def result_simps sampleCore_props isTrusted_def
      sampleFixture_def sampleRpc_def sampleUrl_def sampleConstraints_def loopbackUrl_def canonicalDec_def isDigit_def del: getProp.simps)

lemma sample_observes: "observeChain sampleCore sampleRpc = Inr sampleView"
  by (simp add: observeChain_def Let_def asBigInt_def requireCanonicalBlock_def sampleRpc_def sampleBlock_def sampleView_def
      result_simps canonicalHash_def prefixed_def isHex_def isDigit_def list_all_iff)

lemma sample_simulates: "runSimulation sampleExternals sampleCore sampleRpc sampleFixture sampleView = Inr ()"
  by (simp add: runSimulation_def Let_def sampleCore_props sampleView_def sampleRpc_def result_simps sampleTransfer_def
      decVal_def digitVal_def del: getProp.simps)

lemma sample_ceiling: "decVal ''1000000'' = 1000000"
  by (simp add: decVal_def digitVal_def)

lemma sample_fees: "resolveFees sampleRpc sampleCore sampleView sampleConstraints = Inr sampleFees"
  by (simp add: sample_ceiling resolveFees_def Let_def asBigInt_def gasMarginOf_def checkedProduct_def sampleRpc_def sampleView_def sampleBlock_def
      sampleConstraints_def sampleFees_def result_simps minAtomic_def)

lemma sample_resolves:
  "\<exists>simulation. simulateAndResolveTransfer sampleExternals sampleUrl (Inr sampleCore) sampleRpc sampleFixture sampleConstraints
     = Inr (makeExecutable sampleCore sampleView sampleFees, simulation)"
proof -
  have "makeExecutable sampleCore sampleView sampleFees \<noteq> JUndefined" by (simp add: makeExecutable_def)
  then obtain h where "hashExecutableCandidate sampleExternals (makeExecutable sampleCore sampleView sampleFees) = Some h"
    using hashJson_total unfolding hashExecutableCandidate_def by blast
  moreover obtain simulation where "makeEvidence sampleExternals (successFields sampleFixture sampleView sampleFees sampleCore
      (makeExecutable sampleCore sampleView sampleFees) h (getProp (makeExecutable sampleCore sampleView sampleFees) ''nativeValue''))
      = Inr simulation" using makeEvidence_total by blast
  moreover have "\<not> cv_nativeBalance sampleView < int (decVal (rf_maximumNativeFeeAtomic sampleFees))"
    by (simp add: sampleView_def sampleFees_def)
  ultimately show ?thesis
    by (simp add: simulateAndResolveTransfer_def sample_checks sample_observes sample_simulates sample_fees result_simps Let_def
        del: getProp.simps)
qed

lemma sample_evm: "evmAnswers sampleRpc" "atomicUnitSchema (fc_intentMaximumNetworkFeeAtomic sampleConstraints)"
  "atomicUnitSchema (fc_policyMaximumNetworkFeeAtomic sampleConstraints)"
  by (simp_all add: evmAnswers_def sampleRpc_def sampleConstraints_def atomicUnitSchema_uint256 canonicalDec_def isDigit_def
      decVal_def digitVal_def)

lemma sample_accepted:
  obtains simulation where "simulateAndResolveTransfer sampleExternals sampleUrl (Inr sampleCore) sampleRpc sampleFixture sampleConstraints
     = Inr (makeExecutable sampleCore sampleView sampleFees, simulation)"
    "verifyExecutableTransfer sampleExternals (Inr sampleCore) (makeExecutable sampleCore sampleView sampleFees) simulation sampleConstraints
     = Inr (makeExecutable sampleCore sampleView sampleFees)"
proof -
  obtain simulation where run: "simulateAndResolveTransfer sampleExternals sampleUrl (Inr sampleCore) sampleRpc sampleFixture sampleConstraints
     = Inr (makeExecutable sampleCore sampleView sampleFees, simulation)" using sample_resolves by blast
  with resolution_verifies [OF verified_core [OF sampleCore_verified sampleCore_wf] run sampleExternals_ok(1) sample_evm] that show ?thesis by blast
qed

section \<open>Properties\<close>

text \<open>
  C18. What resolution produces passes exact verification: if \<open>simulateAndResolveTransfer\<close> returns an
  executable and its evidence for a core that \<open>verifyTransferCore\<close> accepted, then
  \<open>verifyExecutableTransfer\<close> accepts the two under the same fee ceilings. (Digests are hexadecimal, the core is a well-formed
  value, the provenance texts are plain, the quantities of the node are those of the
  EVM, the ceilings are 256-bit amounts, as the intent and policy schemas have them.)
\<close>

theorem resolved_transfer_verifies:
  assumes "verifyTransferCore X intent candidate decoded trusted = Inr core"
    "simulateAndResolveTransfer X parseUrl (Inr core) rpc fixture constraints = Inr (executable, simulation)"
    "hexDigests X" "wfJson core" "plainProvenance trusted" "evmAnswers rpc"
    "atomicUnitSchema (fc_intentMaximumNetworkFeeAtomic constraints)" "atomicUnitSchema (fc_policyMaximumNetworkFeeAtomic constraints)"
  shows "verifyExecutableTransfer X (Inr core) executable simulation constraints = Inr executable"
  by (rule resolution_verifies [OF verified_core [OF assms(1,4,5)] assms(2,3,6-8)])

theorem resolved_transfer_verifies_witness:
  "\<exists>executable simulation.
     simulateAndResolveTransfer sampleExternals sampleUrl (Inr sampleCore) sampleRpc sampleFixture sampleConstraints = Inr (executable, simulation)
     \<and> verifyExecutableTransfer sampleExternals (Inr sampleCore) executable simulation sampleConstraints = Inr executable"
proof -
  obtain simulation where run: "simulateAndResolveTransfer sampleExternals sampleUrl (Inr sampleCore) sampleRpc sampleFixture sampleConstraints
     = Inr (makeExecutable sampleCore sampleView sampleFees, simulation)" using sample_resolves by blast
  with resolved_transfer_verifies [OF sampleCore_verified run sampleExternals_ok(1) sampleCore_wf sample_evm] show ?thesis by blast
qed

text \<open>
  C17. Verification pins the executable down and bounds what it can cost: if \<open>verifyExecutableTransfer\<close>
  accepts an executable, then it has the schema and the properties of the verified core; its gas limit is the
  estimate plus a tenth, rounded up; base fee and priority fee together stay below the maximum fee
  per gas; and gas limit times maximum fee stays below the ceiling of the intent and that of the policy and is the
  maximum fee of the evidence. The evidence is of a success, hashes to its hash, and carries the hash of this executable.
\<close>

theorem verified_executable_within_ceilings:
  assumes "verifyExecutableTransfer X (Inr core) executable simulation constraints = Inr verified"
  shows "verified = executable \<and> executableTransferCandidateSchema executable \<noteq> None
    \<and> (\<forall>k \<in> set (objectKeys core). jsonStringify (getProp executable k) = jsonStringify (getProp core k))
    \<and> numeralOf (getProp simulation ''gasLimit'')
        = numeralOf (getProp simulation ''gasEstimate'') + (numeralOf (getProp simulation ''gasEstimate'') + 9) div 10
    \<and> numeralOf (getProp simulation ''baseFeePerGas'') + numeralOf (getProp executable ''maxPriorityFeePerGas'')
        \<le> numeralOf (getProp executable ''maxFeePerGas'')
    \<and> getProp simulation ''gasLimit'' = getProp executable ''gasLimit''
    \<and> numeralOf (getProp executable ''gasLimit'') * numeralOf (getProp executable ''maxFeePerGas'')
        \<le> min (int (decVal (fc_intentMaximumNetworkFeeAtomic constraints))) (int (decVal (fc_policyMaximumNetworkFeeAtomic constraints)))
    \<and> numeralOf (getProp simulation ''maximumNativeFeeAtomic'')
        = numeralOf (getProp executable ''gasLimit'') * numeralOf (getProp executable ''maxFeePerGas'')
    \<and> getProp simulation ''outcome'' = JString ''success''
    \<and> map_option JString (hashSimulationEvidence X simulation) = Some (getProp simulation ''evidenceHash'')
    \<and> map_option JString (hashExecutableCandidate X executable) = Some (getProp simulation ''candidateHash'')"
  using assms
proof (rule verifyExecutable_Inr)
  fix h
  assume v: "verified = executable" "executableTransferCandidateSchema executable \<noteq> None"
    "\<forall>k \<in> set (objectKeys core). jsonStringify (getProp executable k) = jsonStringify (getProp core k)"
    "validEvidence X simulation" "getProp simulation ''outcome'' = JString ''success''" "evidenceBinds simulation executable"
    "hashExecutableCandidate X executable = Some h" "getProp simulation ''candidateHash'' = JString h" "evidenceArithmetic simulation executable"
    and c: "canonicalDec (fc_intentMaximumNetworkFeeAtomic constraints)" "canonicalDec (fc_policyMaximumNetworkFeeAtomic constraints)"
    "numeralOf (getProp executable ''gasLimit'') * numeralOf (getProp executable ''maxFeePerGas'')
       \<le> int (decVal (minAtomic (fc_intentMaximumNetworkFeeAtomic constraints) (fc_policyMaximumNetworkFeeAtomic constraints)))"
    "getProp simulation ''maximumNativeFeeAtomic''
       = JString (amountText (numeralOf (getProp executable ''gasLimit'') * numeralOf (getProp executable ''maxFeePerGas'')))"
  have bound: "getProp simulation ''gasLimit'' = getProp executable ''gasLimit''"
    "getProp simulation ''maxPriorityFeePerGas'' = getProp executable ''maxPriorityFeePerGas''"
    "getProp simulation ''maxFeePerGas'' = getProp executable ''maxFeePerGas''"
    using v(6) unfolding evidenceBinds_def by (blast dest: sameAs_eq)+
  have fees: "0 < numeralOf (getProp simulation ''gasEstimate'')"
    "numeralOf (getProp simulation ''gasLimit'')
       = numeralOf (getProp simulation ''gasEstimate'') + gasMarginOf (numeralOf (getProp simulation ''gasEstimate''))"
    "numeralOf (getProp simulation ''baseFeePerGas'') + numeralOf (getProp simulation ''maxPriorityFeePerGas'')
       \<le> numeralOf (getProp simulation ''maxFeePerGas'')"
    using v(9) by (auto simp: evidenceArithmetic_def not_less simp del: getProp.simps split: option.splits list.splits)
  have hash: "map_option JString (hashSimulationEvidence X simulation) = Some (getProp simulation ''evidenceHash'')"
    using v(4) by (auto simp: validEvidence_def Let_def simp del: getProp.simps split: option.splits)
  have "numeralOf (getProp executable ''gasLimit'') * numeralOf (getProp executable ''maxFeePerGas'')
      \<le> min (int (decVal (fc_intentMaximumNetworkFeeAtomic constraints))) (int (decVal (fc_policyMaximumNetworkFeeAtomic constraints)))"
    using c(3) unfolding decVal_minAtomic [OF c(1,2)] by (simp only: of_nat_min)
  then show ?thesis
    using v(1-3,5,7,8) c(4) fees(2,3) hash conjunct1 [OF gasMarginOf_ceiling [OF fees(1)]]
    by (simp only: bound) (simp del: getProp.simps)
qed

theorem verified_executable_within_ceilings_witness:
  "\<exists>executable simulation.
     verifyExecutableTransfer sampleExternals (Inr sampleCore) executable simulation sampleConstraints = Inr executable
     \<and> numeralOf (getProp executable ''gasLimit'') * numeralOf (getProp executable ''maxFeePerGas'') \<le> 1000000"
proof -
  obtain simulation where run: "verifyExecutableTransfer sampleExternals (Inr sampleCore) (makeExecutable sampleCore sampleView sampleFees)
     simulation sampleConstraints = Inr (makeExecutable sampleCore sampleView sampleFees)" using sample_accepted by blast
  have "int (decVal (fc_intentMaximumNetworkFeeAtomic sampleConstraints)) = 1000000"
    by (simp add: sampleConstraints_def sample_ceiling)
  with verified_executable_within_ceilings [OF run] run show ?thesis by (metis min.bounded_iff)
qed

end
