(* ===== verification/Signer.thy ===== *)
theory Signer
  imports AdapterSdk Simulation TrustBoundary "HOL-Library.Word"
begin

text \<open>
  The restricted local signer (\<open>adapters/local-anvil/src/signer-core.ts\<close>). A request is identifiers only: the
  signer reloads the trusted state, revalidates all of it, and signs the fields of the authorized
  envelope. Everything the core depends on (\<open>SignerDeps\<close>: the store, the node, the account, the
  clock) is an argument, over any world \<open>'w\<close> that its calls may change; the calls that matter
  are recorded as steps. A signature is shown to be made at most once, and only of a transfer that is
  authorized, current and within its ceilings at that moment.
\<close>

section \<open>Types\<close>

datatype signer_refusal_code =
    INVALID_REQUEST | OPERATION_NOT_FOUND | AUTHORIZATION_NOT_FOUND | OPERATION_NOT_AUTHORIZED | ENVELOPE_NOT_FOUND
  | ENVELOPE_UNSUPPORTED_VERSION | ENVELOPE_INVALID_S | ENVELOPE_SUPERSEDED | ENVELOPE_EXPIRED | AUTHORIZATION_INVALID
  | AUTHORIZATION_EXPIRED | AUTHORIZATION_INVALIDATED | RESERVATION_INVALID | FENCE_INVALID | FIXTURE_INVALID
  | SIMULATION_NOT_FOUND | SIMULATION_MISMATCH | EXECUTABLE_MISMATCH | FEE_CONSTRAINTS_INVALID | SIMULATION_STALE
  | SENDER_INVALID | SIGNER_CREDENTIAL_INVALID | PERSISTENCE_FAILED | INTERNAL

record transfer_ids =
  id_operationId :: string
  id_authorizationId :: string
  id_adapterRequestId :: string

text \<open>A refusal, or a success: the hash, whether it comes from durable evidence, and the signer's authentication of it.\<close>

datatype signer_outcome =
    SignerRefusal signer_refusal_code "simulation_code option"
  | SignerSuccess string bool component_authorization

record exact_fields =
  xf_chainId :: int
  xf_from :: string
  xf_to :: string
  xf_value :: int
  xf_nonce :: int
  xf_gas :: int
  xf_maxFeePerGas :: int
  xf_maxPriorityFeePerGas :: int
  xf_accessList :: "jsval list"
  xf_data :: string

record signer_identity =
  sn_credentialId :: string
  sn_componentId :: string

record simulation_record =
  sr_simulationId :: string
  sr_transferCoreCandidateHash :: string
  sr_fixtureInstanceId :: string
  sr_chainId :: string
  sr_blockNumber :: string
  sr_blockHash :: string
  sr_senderAddress :: string
  sr_senderNonce :: string
  sr_tokenBalanceAtomic :: string
  sr_nativeBalanceWei :: string
  sr_gasEstimate :: string
  sr_gasLimit :: string
  sr_baseFeePerGas :: string
  sr_maxPriorityFeePerGas :: string
  sr_maxFeePerGas :: string
  sr_outcome :: string
  sr_expectedAssetDeltas :: jsval
  sr_maximumNativeFeeAtomic :: string
  sr_simulatorVersion :: string
  sr_evidenceHash :: string

text \<open>The version of a fence is a number here, the text of it in the code.\<close>

record fence_record =
  fr_scope :: scope_type
  fr_state :: string
  fr_version :: int

record signing_operation =
  so_state :: lifecycle_state
  so_intentId :: string
  so_agentId :: string
  so_walletId :: string
  so_ownerId :: string
  so_policyId :: string
  so_policyVersion :: int
  so_intentPayload :: jsval
  so_policyDocument :: jsval

record signing_authorization =
  sa_authorizationKind :: authorization_kind
  sa_approvalId :: "string option"
  sa_ownerAuthenticationId :: "string option"
  sa_approvalStatus :: "approval_status option"
  sa_approvalApproverId :: "string option"
  sa_approvalConsumedAt :: "string option"
  sa_policyDecisionId :: string
  sa_policyDecisionHash :: string
  sa_policyDecisionStatus :: "decision option"
  sa_decisionPolicyId :: string
  sa_decisionPolicyVersion :: int
  sa_reservationId :: string
  sa_envelopeId :: string
  sa_envelopeRevision :: int
  sa_envelopeHash :: string
  sa_expiresAt :: "string option"
  sa_invalidated :: bool
  sa_fences :: fence_snapshot

record signing_context =
  sx_operation :: signing_operation
  sx_authorization :: "signing_authorization option"
  sx_envelope :: "(jsval \<times> string \<times> int) option" \<comment> \<open>payload, envelopeHash, revision\<close>
  sx_latestEnvelopeRevision :: "int option"
  sx_reservation :: "(reservation_status \<times> string option) option" \<comment> \<open>status, expiresAt\<close>
  sx_fences :: "fence_record list"
  sx_signerCredential :: "(string \<times> component_role \<times> bool) option" \<comment> \<open>componentId, role, whether ACTIVE\<close>
  sx_currentFixture :: "(string \<times> string) option" \<comment> \<open>fixtureInstanceId, tokenAddress\<close>
  sx_simulations :: "simulation_record list"

record durable_evidence =
  du_transactionHash :: string
  du_signedAt :: string

record persist_input =
  pi_signedTransactionId :: string
  pi_ids :: transfer_ids
  pi_reservationId :: string
  pi_envelopeId :: string
  pi_envelopeRevision :: int
  pi_envelopeHash :: string
  pi_simulationId :: string
  pi_fixtureInstanceId :: string
  pi_expectedTransactionHash :: string
  pi_signedAt :: string
  pi_signerCredentialId :: string

record signing_audit =
  su_eventIdBase :: string
  su_traceId :: string
  su_actorId :: string
  su_credentialId :: string

text \<open>A call of the outside: it may be rejected, and it may change the world either way.\<close>

type_synonym ('w, 'a) call = "'w \<Rightarrow> (failure + 'a) \<times> 'w"

record 'w signer_store =
  loadSigningContext :: "transfer_ids \<Rightarrow> string \<Rightarrow> ('w, signing_context option) call"
  findDurableSignedEvidence :: "transfer_ids \<Rightarrow> ('w, durable_evidence option) call"
  beginSigning :: "transfer_ids \<Rightarrow> signing_audit \<Rightarrow> ('w, unit) call"
  persistSignedEvidence :: "persist_input \<Rightarrow> signing_audit \<Rightarrow> ('w, unit) call"
  recordSigningRefusal :: "string \<Rightarrow> signer_refusal_code \<Rightarrow> signing_audit \<Rightarrow> ('w, unit) call"

record signed_material =
  mt_signedTransactionId :: string
  mt_expectedTransactionHash :: string
  mt_rawTransaction :: "string option"
  mt_fromDurableEvidence :: bool

text \<open>
  \<open>dp_dateText\<close> is \<open>Date.parse\<close> on strings that are not in the ISO form of the schemas: the text of a
  \<open>timestamptz\<close> column. \<open>dp_now\<close> and \<open>dp_makeRpc\<close> read the world.
\<close>

record 'w signer_deps =
  dp_store :: "'w signer_store"
  dp_credential :: signer_identity
  dp_rpcUrl :: string
  dp_loadDisposableAccount :: "failure + string"
  dp_makeRpc :: "string \<Rightarrow> 'w \<Rightarrow> local_read_rpc"
  dp_signTransaction :: "exact_fields \<Rightarrow> ('w, string \<times> string option) call"
  dp_authorizeResult :: "(string \<times> jsval) list \<Rightarrow> failure + component_authorization"
  dp_now :: "'w \<Rightarrow> int"
  dp_maxBlockAge :: "int option"
  dp_dateText :: "string \<Rightarrow> int option"

datatype signer_phase = SigningStarted | EvidencePersisted | BroadcastStarted

text \<open>What is recorded: progress notices, signatures, material handed to the caller, and raw bytes sent to the chain.\<close>

datatype step = Phase signer_phase | Signs exact_fields | HandsOver signed_material | Sends string

section \<open>Programs\<close>

text \<open>
  A program runs on the world and the steps so far, and either leaves with an outcome (a returned
  one, or the rejection of the promise) or goes on with a value.
\<close>

type_synonym ('w, 'o, 'a) program = "'w \<times> step list \<Rightarrow> ((failure + 'o) + 'a) \<times> ('w \<times> step list)"

definition goOn :: "'a \<Rightarrow> ('w, 'o, 'a) program" where
  "goOn x s = (Inr x, s)"

definition andRun :: "('w, 'o, 'a) program \<Rightarrow> ('a \<Rightarrow> ('w, 'o, 'b) program) \<Rightarrow> ('w, 'o, 'b) program" where
  "andRun m f s = (case m s of (Inl out, s') \<Rightarrow> (Inl out, s') | (Inr x, s') \<Rightarrow> f x s')"

definition finish :: "'o \<Rightarrow> ('w, 'o, 'a) program" where
  "finish out s = (Inl (Inr out), s)"

definition reject :: "failure \<Rightarrow> ('w, 'o, 'a) program" where
  "reject e s = (Inl (Inl e), s)"

text \<open>\<open>await call\<close>, and \<open>try { ... } catch\<close> around it: the answer is a value.\<close>

definition tryCall :: "('w, 'a) call \<Rightarrow> ('w, 'o, failure + 'a) program" where
  "tryCall c s = (case c (fst s) of (r, w) \<Rightarrow> (Inr r, (w, snd s)))"

definition await :: "('w, 'a) call \<Rightarrow> ('w, 'o, 'a) program" where
  "await c = andRun (tryCall c) (\<lambda>r. case r of Inl e \<Rightarrow> reject e | Inr x \<Rightarrow> goOn x)"

definition reads :: "('w \<Rightarrow> 'a) \<Rightarrow> ('w, 'o, 'a) program" where
  "reads f s = (Inr (f (fst s)), s)"

definition traced :: "step \<Rightarrow> ('w, 'o, unit) program" where
  "traced st s = (Inr (), (fst s, snd s @ [st]))"

definition liftValue :: "failure + 'a \<Rightarrow> ('w, 'o, 'a) program" where
  "liftValue r = (case r of Inl e \<Rightarrow> reject e | Inr x \<Rightarrow> goOn x)"

section \<open>Rebuilding what the envelope binds\<close>

definition SIGNER_DEFAULT_MAX_BLOCK_AGE :: int where
  "SIGNER_DEFAULT_MAX_BLOCK_AGE = 10"

definition asAddress :: "string \<Rightarrow> string" where
  "asAddress s = (if canonicalAddress s then s else ''0x'')"

definition asHex :: "string \<Rightarrow> string" where
  "asHex s = (if calldataSchema s then s else ''0x'')"

fun isObject :: "jsval \<Rightarrow> bool" where
  "isObject (JObject kvs) = True"
| "isObject (JArray vs) = True"
| "isObject v = False"

definition constraintsFrom :: "jsval \<Rightarrow> jsval \<Rightarrow> fee_constraints option" where
  "constraintsFrom intent policy =
     (if \<not> isObject intent \<or> \<not> isObject policy then None
      else let fee = getProp intent ''maximumNetworkFee'' in
        if \<not> isObject fee \<or> \<not> isString (getProp fee ''asset'') ''native'' \<or> \<not> isAtomic (getProp fee ''atomic'') then None
        else let direct = getProp policy ''maximumNetworkFeeAtomic'';
                 policyMaximum = (if direct = JNull \<or> direct = JUndefined
                   then getProp (getProp policy ''networkFees'') ''maximumPerTransactionAtomic'' else direct) in
          if \<not> isAtomic policyMaximum then None
          else Some \<lparr>fc_intentMaximumNetworkFeeAtomic = textOf (getProp fee ''atomic''),
                     fc_policyMaximumNetworkFeeAtomic = textOf policyMaximum\<rparr>)"

text \<open>The core of the transfer, and the executable: the core with the fields of its execution.\<close>

definition coreFromEnvelope :: "jsval \<Rightarrow> transfer_ids \<Rightarrow> string \<Rightarrow> (string \<times> jsval) list" where
  "coreFromEnvelope envelope ids fixtureInstanceId =
     (let arguments = getProp envelope ''decodedArguments'' in
      [(''action'', JString ''asset.transfer''), (''chainId'', JString LOCAL_CHAIN_ID),
       (''from'', JString (asAddress (textOf (getProp envelope ''from'')))),
       (''target'', JString (asAddress (textOf (getProp envelope ''to'')))), (''nativeValue'', JString ''0''),
       (''calldata'', JString (asHex (textOf (getProp envelope ''calldata'')))), (''selector'', JString TRANSFER_SELECTOR),
       (''recipient'', JString (asAddress (textOf (getProp arguments ''recipient'')))),
       (''amountAtomic'', getProp arguments ''amountAtomic''), (''nonceStrategy'', JString STATIC_NONCE_STRATEGY),
       (''fixtureInstanceId'', JString fixtureInstanceId),
       (''provenance'', JObject
          [(''intentId'', getProp envelope ''intentId''), (''agentId'', getProp envelope ''agentId''),
           (''walletId'', getProp envelope ''walletId''), (''operationId'', JString (id_operationId ids)),
           (''policyId'', getProp envelope ''policyId''), (''policyVersion'', getProp envelope ''policyVersion''),
           (''policyDecisionHash'', getProp envelope ''policyDecisionHash'')])])"

definition executableFromEnvelope :: "jsval \<Rightarrow> transfer_ids \<Rightarrow> string \<Rightarrow> jsval" where
  "executableFromEnvelope envelope ids fixtureInstanceId = JObject (coreFromEnvelope envelope ids fixtureInstanceId @
     [(''nonce'', getProp envelope ''nonce''), (''transactionType'', JString ''eip1559''),
      (''gasLimit'', getProp envelope ''gasLimit''), (''maxPriorityFeePerGas'', getProp envelope ''maxPriorityFeePerGas''),
      (''maxFeePerGas'', getProp (getProp envelope ''maximumFeeConstraints'') ''maxFeePerGas''), (''accessList'', JArray [])])"

definition simulationEvidenceFromRecord :: "simulation_record \<Rightarrow> jsval \<Rightarrow> jsval" where
  "simulationEvidenceFromRecord r envelope = JObject
     [(''schemaVersion'', JString ''1.0''), (''fixtureInstanceId'', JString (sr_fixtureInstanceId r)),
      (''chainId'', JString LOCAL_CHAIN_ID), (''blockNumber'', JString (sr_blockNumber r)),
      (''blockHash'', JString (sr_blockHash r)), (''candidateHash'', JString (sr_transferCoreCandidateHash r)),
      (''from'', JString (sr_senderAddress r)), (''to'', JString (asAddress (textOf (getProp envelope ''to'')))),
      (''value'', JString ''0''), (''calldata'', JString (asHex (textOf (getProp envelope ''calldata'')))),
      (''senderNonce'', JString (sr_senderNonce r)), (''tokenBalance'', JString (sr_tokenBalanceAtomic r)),
      (''nativeBalance'', JString (sr_nativeBalanceWei r)), (''gasEstimate'', JString (sr_gasEstimate r)),
      (''gasLimit'', JString (sr_gasLimit r)), (''baseFeePerGas'', JString (sr_baseFeePerGas r)),
      (''maxPriorityFeePerGas'', JString (sr_maxPriorityFeePerGas r)), (''maxFeePerGas'', JString (sr_maxFeePerGas r)),
      (''accessList'', JArray []), (''outcome'', JString (if sr_outcome r = ''SUCCESS'' then ''success'' else ''revert'')),
      (''expectedAssetDeltas'', sr_expectedAssetDeltas r),
      (''maximumNativeFeeAtomic'', JString (sr_maximumNativeFeeAtomic r)), (''simulatorVersion'', JString ''viem@2.56.0''),
      (''evidenceHash'', JString (sr_evidenceHash r))]"

definition resultPayload :: "transfer_ids \<Rightarrow> string \<Rightarrow> (string \<times> jsval) list" where
  "resultPayload ids transactionHash =
     [(''operationId'', JString (id_operationId ids)), (''authorizationId'', JString (id_authorizationId ids)),
      (''adapterRequestId'', JString (id_adapterRequestId ids)), (''transactionHash'', JString transactionHash)]"

fun intOf :: "jsval \<Rightarrow> int" where
  "intOf (JNumber n) = (case numToInt n of None \<Rightarrow> 0 | Some i \<Rightarrow> i)"
| "intOf v = 0"

text \<open>The 32-bit FNV-1a hash of the identifiers, four times.\<close>

definition traceIdFor :: "transfer_ids \<Rightarrow> string" where
  "traceIdFor ids =
     (let bytes = utf8 (id_operationId ids @ '':'' @ id_authorizationId ids @ '':'' @ id_adapterRequestId ids);
          hash = foldl (\<lambda>h c. xor h (word_of_nat (of_char c)) * 0x01000193) (0x811c9dc5 :: 32 word) bytes;
          part = hexStr 8 (unat hash)
      in part @ part @ part @ part)"

definition asTraceId :: "string \<Rightarrow> string" where
  "asTraceId traceId =
     (if prefixed [] isHex 32 traceId then traceId
      else traceIdFor \<lparr>id_operationId = ''op_invalid'', id_authorizationId = ''auth_invalid'', id_adapterRequestId = ''req_invalid''\<rparr>)"

section \<open>The checks before a signature\<close>

text \<open>A check stops with a refusal, or with an exception that rejects the promise.\<close>

datatype signing_stop = Refuse signer_refusal_code "simulation_code option" | Rejects failure

abbreviation refusal :: "signer_refusal_code \<Rightarrow> signing_stop" where
  "refusal code \<equiv> Refuse code None"

definition credentialOk :: "'w signer_deps \<Rightarrow> signing_context \<Rightarrow> bool" where
  "credentialOk dp context \<longleftrightarrow>
     sx_signerCredential context = Some (sn_componentId (dp_credential dp), ADAPTER, True)"

definition authorizationEvidenceOk :: "signing_authorization \<Rightarrow> bool" where
  "authorizationEvidenceOk a \<longleftrightarrow>
     (sa_authorizationKind a = OWNER_APPROVAL \<and> sa_policyDecisionStatus a = Some REQUIRE_APPROVAL
      \<and> sa_approvalId a \<noteq> None \<and> sa_ownerAuthenticationId a \<noteq> None \<and> sa_approvalStatus a = Some CONSUMED_A
      \<and> sa_approvalApproverId a \<noteq> None \<and> sa_approvalConsumedAt a \<noteq> None)
     \<or> (sa_authorizationKind a = AUTONOMOUS_POLICY \<and> sa_policyDecisionStatus a = Some ALLOW_AUTONOMOUS
      \<and> sa_approvalId a = None \<and> sa_ownerAuthenticationId a = None \<and> sa_approvalStatus a = None
      \<and> sa_approvalApproverId a = None \<and> sa_approvalConsumedAt a = None)"

definition checkedAuthorization :: "signing_context \<Rightarrow> signing_stop + signing_authorization" where
  "checkedAuthorization context =
     andThen (ofOption (refusal AUTHORIZATION_NOT_FOUND) (sx_authorization context)) (\<lambda>a.
     andThen (require (authorizationEvidenceOk a \<and> sa_decisionPolicyId a = so_policyId (sx_operation context)
       \<and> sa_decisionPolicyVersion a = so_policyVersion (sx_operation context)) (refusal AUTHORIZATION_INVALID)) (\<lambda>_.
     Inr a))"

definition checkedEnvelope :: "externals \<Rightarrow> signing_context \<Rightarrow> signing_stop + jsval" where
  "checkedEnvelope X context =
     andThen (ofOption (refusal ENVELOPE_NOT_FOUND) (sx_envelope context)) (\<lambda>(payload, envelopeHash, revision).
     let schemaVersion = (if isObject payload then getProp payload ''schemaVersion'' else JUndefined) in
     andThen (require (\<not> isString schemaVersion ''1.0'') (refusal ENVELOPE_UNSUPPORTED_VERSION)) (\<lambda>_.
     andThen (require (isString schemaVersion ''2.0'') (refusal ENVELOPE_INVALID_S)) (\<lambda>_.
     andThen (ofOption (refusal ENVELOPE_INVALID_S) (canonicalExecutionEnvelopeV2Schema X payload)) (\<lambda>envelope.
     andThen (ofOption (Rejects TypeError) (hashExecutionEnvelope X envelope)) (\<lambda>hash.
     andThen (require (envelopeHash = hash) (refusal ENVELOPE_INVALID_S)) (\<lambda>_.
     Inr envelope))))))"

definition checkBinding :: "signing_context \<Rightarrow> signing_authorization \<Rightarrow> jsval \<Rightarrow> signing_stop + unit" where
  "checkBinding context a envelope =
     (let operation = sx_operation context in
      andThen (require (isString (getProp envelope ''policyDecisionHash'') (sa_policyDecisionHash a)) (refusal AUTHORIZATION_INVALID)) (\<lambda>_.
      andThen (require (isString (getProp envelope ''envelopeId'') (sa_envelopeId a)
          \<and> getProp envelope ''revision'' = JNumber (jsInt (sa_envelopeRevision a))
          \<and> isString (getProp envelope ''envelopeHash'') (sa_envelopeHash a)) (refusal AUTHORIZATION_INVALID)) (\<lambda>_.
      andThen (require (isString (getProp envelope ''intentId'') (so_intentId operation)
          \<and> isString (getProp envelope ''agentId'') (so_agentId operation)
          \<and> isString (getProp envelope ''walletId'') (so_walletId operation)
          \<and> isString (getProp envelope ''policyId'') (so_policyId operation)
          \<and> getProp envelope ''policyVersion'' = JNumber (jsInt (so_policyVersion operation))) (refusal AUTHORIZATION_INVALID)) (\<lambda>_.
      andThen (require (case sx_latestEnvelopeRevision context of None \<Rightarrow> True | Some latest \<Rightarrow> \<not> latest > intOf (getProp envelope ''revision''))
        (refusal ENVELOPE_SUPERSEDED)) (\<lambda>_.
      require (isString (getProp envelope ''budgetReservationId'') (sa_reservationId a)) (refusal AUTHORIZATION_INVALID))))))"

text \<open>\<open>Date.parse(text) <= now.getTime()\<close>; a comparison with \<open>NaN\<close> is false.\<close>

definition passed :: "'w signer_deps \<Rightarrow> string \<Rightarrow> int \<Rightarrow> bool" where
  "passed dp text now =
     (case (case Date_parse text of Some t \<Rightarrow> Some t | None \<Rightarrow> dp_dateText dp text) of None \<Rightarrow> False | Some t \<Rightarrow> t \<le> now)"

definition checkCurrent ::
  "'w signer_deps \<Rightarrow> signing_context \<Rightarrow> signing_authorization \<Rightarrow> jsval \<Rightarrow> bool \<Rightarrow> int \<Rightarrow> signing_stop + unit" where
  "checkCurrent dp context a envelope existing now =
     andThen (require (\<not> sa_invalidated a) (refusal AUTHORIZATION_INVALIDATED)) (\<lambda>_.
     andThen (require (case sa_expiresAt a of None \<Rightarrow> True | Some t \<Rightarrow> \<not> passed dp t now) (refusal AUTHORIZATION_EXPIRED)) (\<lambda>_.
     andThen (require (\<not> passed dp (textOf (getProp envelope ''expiresAt'')) now) (refusal ENVELOPE_EXPIRED)) (\<lambda>_.
     andThen (require (case sx_reservation context of
          Some (status, expiresAt) \<Rightarrow> status = AUTHORIZED_R \<and> (case expiresAt of None \<Rightarrow> True | Some t \<Rightarrow> \<not> passed dp t now)
        | None \<Rightarrow> False) (refusal RESERVATION_INVALID)) (\<lambda>_.
     require (so_state (sx_operation context) \<in> {AUTHORIZED, SIGNING} \<or> (existing \<and> so_state (sx_operation context) = SIGNED))
       (refusal OPERATION_NOT_AUTHORIZED)))))"

text \<open>\<open>new Map(...)\<close>: the last fence of a scope.\<close>

definition fenceByScope :: "fence_record list \<Rightarrow> scope_type \<Rightarrow> fence_record option" where
  "fenceByScope fences scope = find (\<lambda>f. fr_scope f = scope) (rev fences)"

definition fenceOk :: "fence_record list \<Rightarrow> fence_snapshot \<Rightarrow> bool" where
  "fenceOk fences s \<longleftrightarrow>
     length (remdups (map fr_scope fences)) = 4
     \<and> list_all (\<lambda>(scope, version). case fenceByScope fences scope of
          None \<Rightarrow> False | Some f \<Rightarrow> fr_state f = ''ACTIVE'' \<and> fr_version f = version)
        [(SYSTEM_SCOPE, fs_systemFenceVersion s), (OWNER_SCOPE, fs_ownerFenceVersion s),
         (AGENT_SCOPE, fs_agentFenceVersion s), (POLICY_SCOPE, fs_policyFenceVersion s)]"

definition checkedFixture :: "signing_context \<Rightarrow> signing_authorization \<Rightarrow> jsval \<Rightarrow> signing_stop + string" where
  "checkedFixture context a envelope =
     andThen (require (fenceOk (sx_fences context) (sa_fences a)) (refusal FENCE_INVALID)) (\<lambda>_.
     case sx_currentFixture context of
       None \<Rightarrow> Inl (refusal FIXTURE_INVALID)
     | Some (fixtureInstanceId, tokenAddress) \<Rightarrow>
         andThen (require (isString (getProp envelope ''to'') tokenAddress) (refusal FIXTURE_INVALID)) (\<lambda>_. Inr fixtureInstanceId))"

definition envelopeShapeOk :: "signing_authorization \<Rightarrow> jsval \<Rightarrow> bool" where
  "envelopeShapeOk a envelope =
     (let arguments = getProp envelope ''decodedArguments'' in
      isString (getProp envelope ''value'') ''0'' \<and> isString (getProp envelope ''nonceStrategy'') ''pending''
      \<and> isString (getProp envelope ''transactionType'') ''eip1559'' \<and> arrayItems (getProp envelope ''accessList'') = Some []
      \<and> isString (getProp envelope ''decodedFunction'') ''erc20.transfer'' \<and> isString (getProp envelope ''chainId'') LOCAL_CHAIN_ID
      \<and> (case decodeTransferIndependent (getProp envelope ''calldata'') of
           DecodeFailure code \<Rightarrow> False
         | Decoded decoded \<Rightarrow>
             isString (getProp arguments ''recipient'') (de_recipient decoded)
             \<and> isString (getProp arguments ''amountAtomic'') (de_amountAtomic decoded))
      \<and> sameAs arguments ''assetAddress'' envelope ''to''
      \<and> (case arrayItems (getProp envelope ''expectedAssetDeltas'') of
           Some [delta] \<Rightarrow>
             sameAs delta ''assetAddress'' envelope ''to'' \<and> sameAs delta ''from'' envelope ''from''
             \<and> sameAs delta ''to'' arguments ''recipient'' \<and> sameAs delta ''amountAtomic'' arguments ''amountAtomic''
         | _ \<Rightarrow> False)
      \<and> (case sa_authorizationKind a of
           OWNER_APPROVAL \<Rightarrow> isString (getProp envelope ''approvalRequirement'') ''owner''
         | AUTONOMOUS_POLICY \<Rightarrow> isString (getProp envelope ''approvalRequirement'') ''none''
             \<and> isString (getProp envelope ''riskDecision'') ''ALLOW''))"

definition findSimulation :: "signing_context \<Rightarrow> jsval \<Rightarrow> string \<Rightarrow> simulation_record option" where
  "findSimulation context envelope fixtureInstanceId =
     find (\<lambda>r. isString (getProp envelope ''simulationResultHash'') (sr_evidenceHash r)
        \<and> isString (getProp envelope ''simulationBlockNumber'') (sr_blockNumber r)
        \<and> isString (getProp envelope ''simulationBlockHash'') (sr_blockHash r)
        \<and> sr_fixtureInstanceId r = fixtureInstanceId) (sx_simulations context)"

record checked_signing =
  ck_envelope :: jsval
  ck_authorization :: signing_authorization
  ck_fixtureInstanceId :: string
  ck_candidate :: simulation_record
  ck_core :: jsval
  ck_executable :: jsval
  ck_simulation :: jsval
  ck_constraints :: fee_constraints

definition checkedSimulation ::
  "externals \<Rightarrow> signing_context \<Rightarrow> jsval \<Rightarrow> string \<Rightarrow> signing_stop + simulation_record \<times> jsval" where
  "checkedSimulation X context envelope fixtureInstanceId =
     andThen (ofOption (refusal SIMULATION_NOT_FOUND) (findSimulation context envelope fixtureInstanceId)) (\<lambda>candidate.
     let simulation = simulationEvidenceFromRecord candidate envelope in
     andThen (require (isString (getProp simulation ''outcome'') ''success'') (refusal SIMULATION_MISMATCH)) (\<lambda>_.
     andThen (ofOption (Rejects TypeError) (hashSimulationEvidence X simulation)) (\<lambda>hash.
     andThen (require (isString (getProp simulation ''evidenceHash'') hash) (refusal SIMULATION_MISMATCH)) (\<lambda>_.
     andThen (require (sr_simulatorVersion candidate = ''viem@2.56.0'') (refusal SIMULATION_MISMATCH)) (\<lambda>_.
     Inr (candidate, simulation))))))"

definition checkSigning ::
  "externals \<Rightarrow> 'w signer_deps \<Rightarrow> transfer_ids \<Rightarrow> signing_context \<Rightarrow> bool \<Rightarrow> int \<Rightarrow> signing_stop + checked_signing" where
  "checkSigning X dp ids context existing now =
     andThen (checkedAuthorization context) (\<lambda>a.
     andThen (checkedEnvelope X context) (\<lambda>envelope.
     andThen (checkBinding context a envelope) (\<lambda>_.
     andThen (checkCurrent dp context a envelope existing now) (\<lambda>_.
     andThen (checkedFixture context a envelope) (\<lambda>fixtureInstanceId.
     andThen (require (envelopeShapeOk a envelope) (refusal ENVELOPE_INVALID_S)) (\<lambda>_.
     andThen (ofOption (refusal FEE_CONSTRAINTS_INVALID)
       (constraintsFrom (so_intentPayload (sx_operation context)) (so_policyDocument (sx_operation context)))) (\<lambda>constraints.
     andThen (checkedSimulation X context envelope fixtureInstanceId) (\<lambda>(candidate, simulation).
     let core = JObject (coreFromEnvelope envelope ids fixtureInstanceId);
         executable = executableFromEnvelope envelope ids fixtureInstanceId in
     andThen (case verifyExecutableTransfer X (Inr core) executable simulation constraints of
         Inl ExactThrows \<Rightarrow> Inl (Rejects TypeError)
       | Inl (ExactVerificationFailure code path) \<Rightarrow> Inl (refusal EXECUTABLE_MISMATCH)
       | Inr verified \<Rightarrow> Inr ()) (\<lambda>_.
     case dp_loadDisposableAccount dp of
       Inl e \<Rightarrow> Inl (Rejects e)
     | Inr address \<Rightarrow>
         andThen (require (isString (getProp envelope ''from'') address) (refusal SENDER_INVALID)) (\<lambda>_.
         Inr \<lparr>ck_envelope = envelope, ck_authorization = a, ck_fixtureInstanceId = fixtureInstanceId, ck_candidate = candidate,
              ck_core = core, ck_executable = executable, ck_simulation = simulation, ck_constraints = constraints\<rparr>))))))))))"

section \<open>Signing\<close>

definition requestIds :: "jsval \<Rightarrow> transfer_ids" where
  "requestIds request =
     \<lparr>id_operationId = textOf (getProp request ''operationId''), id_authorizationId = textOf (getProp request ''authorizationId''),
      id_adapterRequestId = textOf (getProp request ''adapterRequestId'')\<rparr>"

definition signingAudit :: "'w signer_deps \<Rightarrow> transfer_ids \<Rightarrow> signing_audit" where
  "signingAudit dp ids =
     \<lparr>su_eventIdBase = ''evt:'' @ id_operationId ids @ '':signing'', su_traceId = asTraceId (traceIdFor ids),
      su_actorId = sn_componentId (dp_credential dp), su_credentialId = sn_credentialId (dp_credential dp)\<rparr>"

text \<open>The refusal is recorded when the store can; a failure to do so is ignored.\<close>

definition auditRefusal ::
  "'w signer_deps \<Rightarrow> transfer_ids \<Rightarrow> signer_refusal_code \<Rightarrow> simulation_code option \<Rightarrow> ('w, signer_outcome, 'a) program" where
  "auditRefusal dp ids code freshness =
     andRun (tryCall (recordSigningRefusal (dp_store dp) (id_operationId ids) code (signingAudit dp ids))) (\<lambda>_.
     finish (SignerRefusal code freshness))"

definition stopSigning :: "'w signer_deps \<Rightarrow> transfer_ids \<Rightarrow> signing_stop \<Rightarrow> ('w, signer_outcome, 'a) program" where
  "stopSigning dp ids st = (case st of Refuse code freshness \<Rightarrow> auditRefusal dp ids code freshness | Rejects e \<Rightarrow> reject e)"

definition succeed :: "'w signer_deps \<Rightarrow> transfer_ids \<Rightarrow> string \<Rightarrow> bool \<Rightarrow> ('w, signer_outcome, 'a) program" where
  "succeed dp ids transactionHash fromDurableEvidence =
     andRun (liftValue (dp_authorizeResult dp (resultPayload ids transactionHash))) (\<lambda>authorization.
     finish (SignerSuccess transactionHash fromDurableEvidence authorization))"

definition freshnessInput :: "'w signer_deps \<Rightarrow> checked_signing \<Rightarrow> 'w \<Rightarrow> freshness_input" where
  "freshnessInput dp ck w =
     \<lparr>fi_verifiedCore = Inr (ck_core ck), fi_executable = ck_executable ck, fi_simulation = ck_simulation ck,
      fi_rpc = dp_makeRpc dp (ck_fixtureInstanceId ck) w,
      fi_fixture = \<lparr>fx_fixtureInstanceId = ck_fixtureInstanceId ck, fx_chainId = LOCAL_CHAIN_ID,
        fx_walletAddress = asAddress (textOf (getProp (ck_envelope ck) ''from'')),
        fx_tokenAddress = asAddress (textOf (getProp (ck_envelope ck) ''to'')), fx_rpcUrl = dp_rpcUrl dp\<rparr>,
      fi_constraints = ck_constraints ck,
      fi_maxBlockAge = (case dp_maxBlockAge dp of None \<Rightarrow> SIGNER_DEFAULT_MAX_BLOCK_AGE | Some n \<Rightarrow> n)\<rparr>"

definition exactFields :: "jsval \<Rightarrow> exact_fields" where
  "exactFields envelope =
     \<lparr>xf_chainId = 31337, xf_from = asAddress (textOf (getProp envelope ''from'')), xf_to = asAddress (textOf (getProp envelope ''to'')),
      xf_value = 0, xf_nonce = numeralOf (getProp envelope ''nonce''), xf_gas = numeralOf (getProp envelope ''gasLimit''),
      xf_maxFeePerGas = numeralOf (getProp (getProp envelope ''maximumFeeConstraints'') ''maxFeePerGas''),
      xf_maxPriorityFeePerGas = numeralOf (getProp envelope ''maxPriorityFeePerGas''), xf_accessList = [],
      xf_data = textOf (getProp envelope ''calldata'')\<rparr>"

definition signedTransactionId :: "transfer_ids \<Rightarrow> jsval \<Rightarrow> string" where
  "signedTransactionId ids envelope = ''signed:'' @ id_operationId ids @ '':'' @ intStr (intOf (getProp envelope ''revision''))"

definition persistInput :: "'w signer_deps \<Rightarrow> transfer_ids \<Rightarrow> checked_signing \<Rightarrow> string \<Rightarrow> int \<Rightarrow> persist_input" where
  "persistInput dp ids ck transactionHash now =
     (let envelope = ck_envelope ck in
      \<lparr>pi_signedTransactionId = signedTransactionId ids envelope, pi_ids = ids,
       pi_reservationId = textOf (getProp envelope ''budgetReservationId''), pi_envelopeId = textOf (getProp envelope ''envelopeId''),
       pi_envelopeRevision = intOf (getProp envelope ''revision''), pi_envelopeHash = textOf (getProp envelope ''envelopeHash''),
       pi_simulationId = sr_simulationId (ck_candidate ck), pi_fixtureInstanceId = ck_fixtureInstanceId ck,
       pi_expectedTransactionHash = transactionHash, pi_signedAt = isoSecond now,
       pi_signerCredentialId = sn_credentialId (dp_credential dp)\<rparr>)"

text \<open>From the signature on: a rematerialized hash must be the durable one; a new one is made durable.\<close>

definition keepSignature ::
  "'w signer_deps \<Rightarrow> transfer_ids \<Rightarrow> checked_signing \<Rightarrow> durable_evidence option \<Rightarrow> string \<Rightarrow> string option
     \<Rightarrow> ('w, signer_outcome, unit) program" where
  "keepSignature dp ids ck existing transactionHash rawTransaction =
     (let signedId = signedTransactionId ids (ck_envelope ck) in
      case existing of
        Some durable \<Rightarrow>
          if transactionHash \<noteq> du_transactionHash durable then auditRefusal dp ids INTERNAL None
          else andRun (traced (HandsOver \<lparr>mt_signedTransactionId = signedId, mt_expectedTransactionHash = du_transactionHash durable,
                 mt_rawTransaction = rawTransaction, mt_fromDurableEvidence = True\<rparr>)) (\<lambda>_.
               succeed dp ids (du_transactionHash durable) True)
      | None \<Rightarrow>
          andRun (reads (dp_now dp)) (\<lambda>now.
          andRun (tryCall (persistSignedEvidence (dp_store dp) (persistInput dp ids ck transactionHash now) (signingAudit dp ids))) (\<lambda>r.
          case r of
            Inl e \<Rightarrow>
              andRun (await (findDurableSignedEvidence (dp_store dp) ids)) (\<lambda>raced.
              if map_option du_transactionHash raced = Some transactionHash then succeed dp ids transactionHash True
              else auditRefusal dp ids PERSISTENCE_FAILED None)
          | Inr _ \<Rightarrow>
              andRun (traced (Phase EvidencePersisted)) (\<lambda>_.
              andRun (traced (HandsOver \<lparr>mt_signedTransactionId = signedId, mt_expectedTransactionHash = transactionHash,
                 mt_rawTransaction = rawTransaction, mt_fromDurableEvidence = False\<rparr>)) (\<lambda>_.
              succeed dp ids transactionHash False)))))"

definition makeSignature ::
  "'w signer_deps \<Rightarrow> transfer_ids \<Rightarrow> checked_signing \<Rightarrow> durable_evidence option \<Rightarrow> ('w, signer_outcome, unit) program" where
  "makeSignature dp ids ck existing =
     (let fields = exactFields (ck_envelope ck) in
      andRun (traced (Signs fields)) (\<lambda>_.
      andRun (tryCall (dp_signTransaction dp fields)) (\<lambda>r.
      case r of
        Inl e \<Rightarrow> auditRefusal dp ids INTERNAL None
      | Inr (transactionHash, rawTransaction) \<Rightarrow>
          if \<not> canonicalHash transactionHash then auditRefusal dp ids INTERNAL None
          else keepSignature dp ids ck existing transactionHash rawTransaction)))"

definition startSigning :: "'w signer_deps \<Rightarrow> transfer_ids \<Rightarrow> ('w, signer_outcome, unit) program" where
  "startSigning dp ids =
     andRun (tryCall (beginSigning (dp_store dp) ids (signingAudit dp ids))) (\<lambda>r.
     case r of Inl e \<Rightarrow> auditRefusal dp ids OPERATION_NOT_AUTHORIZED None | Inr _ \<Rightarrow> traced (Phase SigningStarted))"

definition signChecked ::
  "externals \<Rightarrow> 'w signer_deps \<Rightarrow> transfer_ids \<Rightarrow> bool \<Rightarrow> durable_evidence option \<Rightarrow> checked_signing \<Rightarrow> ('w, signer_outcome, unit) program" where
  "signChecked X dp ids rematerializeExistingEvidence existing ck =
     andRun (reads (\<lambda>w. checkSimulationFreshness X (freshnessInput dp ck w))) (\<lambda>freshness.
     case freshness of
       None \<Rightarrow> reject PlainError
     | Some (Some code) \<Rightarrow> auditRefusal dp ids SIMULATION_STALE (Some code)
     | Some None \<Rightarrow>
         (case existing of
            Some durable \<Rightarrow>
              if \<not> rematerializeExistingEvidence then succeed dp ids (du_transactionHash durable) True
              else makeSignature dp ids ck existing
          | None \<Rightarrow> andRun (startSigning dp ids) (\<lambda>_. makeSignature dp ids ck existing)))"

definition signAuthorizedTransferCore ::
  "externals \<Rightarrow> 'w signer_deps \<Rightarrow> jsval \<Rightarrow> bool \<Rightarrow> ('w, signer_outcome, unit) program" where
  "signAuthorizedTransferCore X dp requestInput rematerializeExistingEvidence =
     (case authorizedTransferRequestSchema requestInput of
        None \<Rightarrow> finish (SignerRefusal INVALID_REQUEST None)
      | Some request \<Rightarrow>
          (let ids = requestIds request in
           andRun (await (loadSigningContext (dp_store dp) ids (sn_credentialId (dp_credential dp)))) (\<lambda>loaded.
           case loaded of
             None \<Rightarrow> finish (SignerRefusal OPERATION_NOT_FOUND None)
           | Some context \<Rightarrow>
               if \<not> credentialOk dp context then auditRefusal dp ids SIGNER_CREDENTIAL_INVALID None
               else andRun (await (findDurableSignedEvidence (dp_store dp) ids)) (\<lambda>existing.
                 andRun (reads (\<lambda>w. checkSigning X dp ids context (existing \<noteq> None) (dp_now dp w))) (\<lambda>checked.
                 case checked of
                   Inl st \<Rightarrow> stopSigning dp ids st
                 | Inr ck \<Rightarrow> signChecked X dp ids rematerializeExistingEvidence existing ck)))))"

section \<open>Lemmas: programs\<close>

lemma andRun_Inr:
  "andRun m f s = (Inr y, s'') \<longleftrightarrow> (\<exists>x s'. m s = (Inr x, s') \<and> f x s' = (Inr y, s''))"
  by (auto simp: andRun_def split: prod.splits sum.splits)

lemma andRun_Inl:
  "andRun m f s = (Inl out, s'') \<longleftrightarrow> m s = (Inl out, s'') \<or> (\<exists>x s'. m s = (Inr x, s') \<and> f x s' = (Inl out, s''))"
  by (auto simp: andRun_def split: prod.splits sum.splits)

lemma andRun_cases:
  assumes "andRun m f s = (r, s'')"
  obtains out where "m s = (Inl out, s'')" "r = Inl out" | x s' where "m s = (Inr x, s')" "f x s' = (r, s'')"
  using assms by (auto simp: andRun_def split: prod.splits sum.splits)

lemma program_simps:
  "goOn x s = (r1, s') \<longleftrightarrow> r1 = Inr x \<and> s' = s"
  "finish out s = (r2, s') \<longleftrightarrow> r2 = Inl (Inr out) \<and> s' = s"
  "reject e s = (r3, s') \<longleftrightarrow> r3 = Inl (Inl e) \<and> s' = s"
  "reads g s = (r4, s') \<longleftrightarrow> r4 = Inr (g (fst s)) \<and> s' = s"
  "traced st s = (r5, s') \<longleftrightarrow> r5 = Inr () \<and> s' = (fst s, snd s @ [st])"
  "tryCall c s = (r6, s') \<longleftrightarrow> (\<exists>a w. c (fst s) = (a, w) \<and> r6 = Inr a \<and> s' = (w, snd s))"
  by (auto simp: goOn_def finish_def reject_def reads_def traced_def tryCall_def split: prod.splits)

lemma await_Inr: "await c s = (Inr x, s') \<longleftrightarrow> c (fst s) = (Inr x, fst s') \<and> snd s' = snd s"
  by (cases s'; cases "c (fst s)") (auto simp: await_def andRun_def tryCall_def goOn_def reject_def split: sum.splits)

lemma liftValue_Inr: "liftValue v s = (Inr x, s') \<longleftrightarrow> v = Inr x \<and> s' = s"
  by (auto simp: liftValue_def program_simps split: sum.splits)

text \<open>What the steps of a program show of it: \<open>observed obs\<close>. The signatures, and the bytes that are sent.\<close>

definition observed :: "(step \<Rightarrow> 'x option) \<Rightarrow> step list \<Rightarrow> 'x list" where
  "observed obs sts = List.map_filter obs sts"

lemma observed_append [simp]: "observed obs (sts @ ts) = observed obs sts @ observed obs ts"
  by (simp add: observed_def map_filter_def)

lemma observed_single [simp]: "observed obs [] = []" "observed obs (st # sts) = (case obs st of None \<Rightarrow> [] | Some x \<Rightarrow> [x]) @ observed obs sts"
  by (auto simp: observed_def map_filter_def split: option.splits)

fun signatureOf :: "step \<Rightarrow> exact_fields option" where
  "signatureOf (Signs x) = Some x"
| "signatureOf st = None"

fun sentBy :: "step \<Rightarrow> string option" where
  "sentBy (Sends raw) = Some raw"
| "sentBy st = None"

fun materialOf :: "step \<Rightarrow> signed_material option" where
  "materialOf (HandsOver m) = Some m"
| "materialOf st = None"

abbreviation "signatures \<equiv> observed signatureOf"
abbreviation "sends \<equiv> observed sentBy"

text \<open>A quiet program adds steps in which nothing is observed.\<close>

named_theorems quiet_intros "programs in whose steps nothing is observed"

definition quiet :: "(step \<Rightarrow> 'x option) \<Rightarrow> ('w, 'o, 'a) program \<Rightarrow> bool" where
  "quiet obs m \<longleftrightarrow> (\<forall>s. observed obs (snd (snd (m s))) = observed obs (snd s))"

lemma quiet_basic [quiet_intros]:
  "quiet obs (goOn x)" "quiet obs (finish out)" "quiet obs (reject e)" "quiet obs (reads f)" "quiet obs (tryCall c)"
  "obs st = None \<Longrightarrow> quiet obs (traced st)"
  by (simp_all add: quiet_def goOn_def finish_def reject_def reads_def traced_def tryCall_def split: prod.splits)

lemma quiet_andRun [quiet_intros]:
  assumes "quiet obs m" "\<And>x. quiet obs (f x)"
  shows "quiet obs (andRun m f)"
proof -
  have "observed obs (snd (snd (andRun m f s))) = observed obs (snd s)" for s
  proof -
    obtain r s' where run: "m s = (r, s')" by (metis surj_pair)
    with assms(1) have "observed obs (snd s') = observed obs (snd s)" unfolding quiet_def by (metis snd_conv)
    with run assms(2) show ?thesis by (cases r) (simp_all add: andRun_def quiet_def del: split_paired_All)
  qed
  then show ?thesis by (simp add: quiet_def)
qed

lemma quiet_calls [quiet_intros]: "quiet obs (await c)" "quiet obs (liftValue v)"
  unfolding await_def liftValue_def by (auto intro!: quiet_intros split: sum.splits)

lemma quiet_run: "quiet obs m \<Longrightarrow> m s = (r, s') \<Longrightarrow> observed obs (snd s') = observed obs (snd s)"
  unfolding quiet_def by (metis snd_conv)

lemma quiet_auditRefusal [quiet_intros]: "quiet obs (auditRefusal dp ids code freshness)"
  unfolding auditRefusal_def by (intro quiet_intros)

lemma quiet_stops [quiet_intros]: "quiet obs (stopSigning dp ids st)" "quiet obs (succeed dp ids h b)"
  unfolding stopSigning_def succeed_def by (auto intro!: quiet_intros split: signing_stop.splits)

text \<open>Apart from the signature itself, the core records only phases and material.\<close>

definition ignoresPhases :: "(step \<Rightarrow> 'x option) \<Rightarrow> bool" where
  "ignoresPhases obs \<longleftrightarrow> (\<forall>p. obs (Phase p) = None)"

definition ignoresProgress :: "(step \<Rightarrow> 'x option) \<Rightarrow> bool" where
  "ignoresProgress obs \<longleftrightarrow> ignoresPhases obs \<and> (\<forall>m. obs (HandsOver m) = None)"

lemma ignoresPhases [simp]: "ignoresPhases signatureOf" "ignoresPhases sentBy" "ignoresPhases materialOf"
  by (simp_all add: ignoresPhases_def)

lemma ignoresProgress [simp]: "ignoresProgress signatureOf" "ignoresProgress sentBy"
  by (simp_all add: ignoresProgress_def)

lemma quiet_startSigning [quiet_intros]: "ignoresPhases obs \<Longrightarrow> quiet obs (startSigning dp ids)"
  unfolding startSigning_def ignoresPhases_def by (auto intro!: quiet_intros split: sum.splits)

lemma quiet_keepSignature [quiet_intros]: "ignoresProgress obs \<Longrightarrow> quiet obs (keepSignature dp ids ck existing h raw)"
  unfolding keepSignature_def Let_def ignoresProgress_def ignoresPhases_def
  by (auto intro!: quiet_intros split: option.splits sum.splits)

lemma quiet_makeSignature [quiet_intros]:
  assumes "ignoresProgress obs" "\<And>x. obs (Signs x) = None"
  shows "quiet obs (makeSignature dp ids ck existing)"
  unfolding makeSignature_def Let_def using assms by (auto intro!: quiet_intros split: sum.splits)

lemma quiet_sign:
  assumes "ignoresProgress obs" "\<And>x. obs (Signs x) = None"
  shows "quiet obs (signAuthorizedTransferCore X dp request remat)"
  unfolding signAuthorizedTransferCore_def signChecked_def Let_def
  using assms by (auto intro!: quiet_intros simp: ignoresProgress_def split: option.splits sum.splits)

lemma andRun_steps:
  "andRun (traced st) f s = f () (fst s, snd s @ [st])" "andRun (reads g) h s = h (g (fst s)) s"
  by (simp_all add: andRun_def traced_def reads_def)

text \<open>A quiet beginning of a run can be skipped.\<close>

lemma quiet_first:
  assumes "andRun m f s = (r, s')" "quiet obs m"
  obtains out where "m s = (Inl out, s')" "r = Inl out" "observed obs (snd s') = observed obs (snd s)"
  | x s1 where "m s = (Inr x, s1)" "observed obs (snd s1) = observed obs (snd s)" "f x s1 = (r, s')"
  using assms(1)
  by (cases rule: andRun_cases) (use quiet_run [OF assms(2)] in blast)+

lemma makeSignature_signs:
  assumes "makeSignature dp ids ck existing s = (r, s')"
  shows "signatures (snd s') = signatures (snd s) @ [exactFields (ck_envelope ck)]"
proof -
  let ?rest = "andRun (tryCall (dp_signTransaction dp (exactFields (ck_envelope ck)))) (\<lambda>r.
      case r of
        Inl e \<Rightarrow> auditRefusal dp ids INTERNAL None
      | Inr (transactionHash, rawTransaction) \<Rightarrow>
          if \<not> canonicalHash transactionHash then auditRefusal dp ids INTERNAL None
          else keepSignature dp ids ck existing transactionHash rawTransaction)"
  have "quiet signatureOf ?rest" by (auto intro!: quiet_intros split: sum.splits)
  from quiet_run [OF this assms [unfolded makeSignature_def Let_def andRun_steps]] show ?thesis by simp
qed

text \<open>The material that is handed over carries what the account returned for the fields.\<close>

lemma keepSignature_hands:
  assumes "keepSignature dp ids ck existing h raw s = (r, s')"
  shows "observed materialOf (snd s') = observed materialOf (snd s)
    \<or> observed materialOf (snd s') = observed materialOf (snd s) @
        [\<lparr>mt_signedTransactionId = signedTransactionId ids (ck_envelope ck), mt_expectedTransactionHash = h,
          mt_rawTransaction = raw, mt_fromDurableEvidence = (existing \<noteq> None)\<rparr>]"
    and "r = Inl (Inr (SignerSuccess h' d a)) \<Longrightarrow> h' = h"
  using assms
  by (auto simp: keepSignature_def Let_def andRun_def program_simps succeed_def auditRefusal_def traced_def reads_def finish_def goOn_def
      reject_def liftValue_def await_def tryCall_def split: option.splits sum.splits if_splits prod.splits)

lemma makeSignature_hands:
  assumes "makeSignature dp ids ck existing s = (r, s')"
  shows "observed materialOf (snd s') = observed materialOf (snd s)
    \<or> (\<exists>h raw w'. dp_signTransaction dp (exactFields (ck_envelope ck)) (fst s) = (Inr (h, raw), w')
         \<and> (\<forall>h' d a. r = Inl (Inr (SignerSuccess h' d a)) \<longrightarrow> h' = h)
         \<and> observed materialOf (snd s') = observed materialOf (snd s) @
           [\<lparr>mt_signedTransactionId = signedTransactionId ids (ck_envelope ck), mt_expectedTransactionHash = h,
             mt_rawTransaction = raw, mt_fromDurableEvidence = (existing \<noteq> None)\<rparr>])"
  using assms [unfolded makeSignature_def Let_def andRun_steps] quiet_basic(5) [where obs = materialOf]
proof (cases rule: quiet_first)
  case (2 answered s1)
  then have a: "dp_signTransaction dp (exactFields (ck_envelope ck)) (fst s) = (answered, fst s1)" by (auto simp: program_simps)
  have refused: ?thesis if "auditRefusal dp ids INTERNAL None s1 = (r, s')"
    using quiet_run [OF quiet_auditRefusal [where obs = materialOf] that] 2(2) by simp
  show ?thesis
  proof (cases answered)
    case (Inl e)
    with 2(3) refused show ?thesis by simp
  next
    case (Inr answered2)
    obtain h raw where s: "answered2 = (h, raw)" by (metis surj_pair)
    show ?thesis
    proof (cases "canonicalHash h")
      case True
      with 2(3) Inr s have "keepSignature dp ids ck existing h raw s1 = (r, s')" by simp
      from keepSignature_hands [OF this] show ?thesis using 2(2) a Inr s by auto
    qed (use 2(3) Inr s refused in simp)
  qed
qed simp

text \<open>
  When a signature is made: the context was loaded, every check passed at that moment, the
  simulation was fresh, and the signature is the only one, of the fields of the envelope.
\<close>

definition signsAt ::
  "externals \<Rightarrow> 'w signer_deps \<Rightarrow> jsval \<Rightarrow> bool \<Rightarrow> 'w \<Rightarrow> transfer_ids \<Rightarrow> signing_context \<Rightarrow> durable_evidence option \<Rightarrow> 'w \<Rightarrow> checked_signing \<Rightarrow> bool" where
  "signsAt X dp requestInput remat w ids context existing w2 ck \<longleftrightarrow>
     map_option requestIds (authorizedTransferRequestSchema requestInput) = Some ids
     \<and> (\<exists>w1. loadSigningContext (dp_store dp) ids (sn_credentialId (dp_credential dp)) w = (Inr (Some context), w1)
          \<and> findDurableSignedEvidence (dp_store dp) ids w1 = (Inr existing, w2))
     \<and> credentialOk dp context \<and> (existing = None \<or> remat)
     \<and> checkSigning X dp ids context (existing \<noteq> None) (dp_now dp w2) = Inr ck
     \<and> checkSimulationFreshness X (freshnessInput dp ck w2) = Some None"

lemma signChecked_reaches:
  assumes run: "signChecked X dp ids remat existing ck s = (r, s')" and obs: "ignoresPhases obs"
  shows "observed obs (snd s') = observed obs (snd s)
    \<or> (checkSimulationFreshness X (freshnessInput dp ck (fst s)) = Some None \<and> (existing = None \<or> remat)
       \<and> (\<exists>s1. observed obs (snd s1) = observed obs (snd s) \<and> makeSignature dp ids ck existing s1 = (r, s')))"
proof (cases "checkSimulationFreshness X (freshnessInput dp ck (fst s))")
  case None
  with run show ?thesis by (auto simp: signChecked_def andRun_steps program_simps)
next
  case (Some verdict)
  show ?thesis
  proof (cases verdict)
    case (Some code)
    with run \<open>_ = Some verdict\<close> have "auditRefusal dp ids SIMULATION_STALE (Some code) s = (r, s')"
      by (simp add: signChecked_def andRun_steps)
    from quiet_run [where obs = obs, OF quiet_auditRefusal this] show ?thesis ..
  next
    case fresh: None
    show ?thesis
    proof (cases existing)
      case None
      with run Some fresh have "andRun (startSigning dp ids) (\<lambda>_. makeSignature dp ids ck existing) s = (r, s')"
        by (simp add: signChecked_def andRun_steps)
      from this quiet_startSigning [OF obs] show ?thesis
        by (cases rule: quiet_first) (use None Some fresh in blast)+
    next
      case durable: (Some durable)
      show ?thesis
      proof (cases remat)
        case False
        with run Some fresh durable have "succeed dp ids (du_transactionHash durable) True s = (r, s')"
          by (simp add: signChecked_def andRun_steps)
        from quiet_run [where obs = obs, OF quiet_stops(2) this] show ?thesis ..
      next
        case True
        with run Some fresh durable have "makeSignature dp ids ck existing s = (r, s')"
          by (simp add: signChecked_def andRun_steps)
        with Some fresh True show ?thesis by blast
      qed
    qed
  qed
qed

lemma sign_reaches:
  assumes run: "signAuthorizedTransferCore X dp requestInput remat s = (r, s')" and obs: "ignoresPhases obs"
  shows "observed obs (snd s') = observed obs (snd s)
    \<or> (\<exists>ids context existing w2 ck s1. signsAt X dp requestInput remat (fst s) ids context existing w2 ck
         \<and> observed obs (snd s1) = observed obs (snd s) \<and> makeSignature dp ids ck existing s1 = (r, s'))"
proof (cases "authorizedTransferRequestSchema requestInput")
  case None
  with run show ?thesis by (simp add: signAuthorizedTransferCore_def program_simps)
next
  case (Some request)
  let ?ids = "requestIds request"
  from run [unfolded signAuthorizedTransferCore_def Some option.case Let_def] quiet_calls(1) [where obs = obs]
  show ?thesis
  proof (cases rule: quiet_first)
    case (2 found s1)
    note loaded = 2(1) [unfolded await_Inr] and s1 = 2(2)
    show ?thesis
    proof (cases found)
      case None
      with 2(3) s1 show ?thesis by (simp add: program_simps)
    next
      case ctx: (Some ctx)
      show ?thesis
      proof (cases "credentialOk dp ctx")
        case False
        with 2(3) ctx have "auditRefusal dp ?ids SIGNER_CREDENTIAL_INVALID None s1 = (r, s')" by simp
        from quiet_run [where obs = obs, OF quiet_auditRefusal this] s1 show ?thesis by simp
      next
        case True
        with 2(3) ctx have "andRun (await (findDurableSignedEvidence (dp_store dp) ?ids)) (\<lambda>existing.
                 andRun (reads (\<lambda>w. checkSigning X dp ?ids ctx (existing \<noteq> None) (dp_now dp w))) (\<lambda>checked.
                 case checked of
                   Inl st \<Rightarrow> stopSigning dp ?ids st
                 | Inr ck \<Rightarrow> signChecked X dp ?ids remat existing ck)) s1 = (r, s')" by simp
        from this quiet_calls(1) [where obs = obs] show ?thesis
        proof (cases rule: quiet_first)
          case (2 existing s2)
          note durable = 2(1) [unfolded await_Inr]
          have s2: "observed obs (snd s2) = observed obs (snd s)" using 2(2) s1 by simp
          show ?thesis
          proof (cases "checkSigning X dp ?ids ctx (existing \<noteq> None) (dp_now dp (fst s2))")
            case (Inl st)
            with 2(3) have "stopSigning dp ?ids st s2 = (r, s')" by (simp add: andRun_steps)
            from quiet_run [where obs = obs, OF quiet_stops(1) this] s2 show ?thesis by simp
          next
            case (Inr ck)
            with 2(3) have "signChecked X dp ?ids remat existing ck s2 = (r, s')" by (simp add: andRun_steps)
            from signChecked_reaches [OF this obs] show ?thesis
            proof
              assume "checkSimulationFreshness X (freshnessInput dp ck (fst s2)) = Some None \<and> (existing = None \<or> remat)
                \<and> (\<exists>s1. observed obs (snd s1) = observed obs (snd s2) \<and> makeSignature dp ?ids ck existing s1 = (r, s'))"
              moreover from this have "signsAt X dp requestInput remat (fst s) ?ids ctx existing (fst s2) ck"
                using \<open>authorizedTransferRequestSchema requestInput = Some request\<close> loaded ctx durable True Inr
                by (auto simp: signsAt_def)
              ultimately show ?thesis using s2 by metis
            qed (use s2 in simp)
          qed
        qed (use s1 in simp)
      qed
    qed
  qed simp
qed

lemma sign_runs:
  assumes "signAuthorizedTransferCore X dp requestInput remat (w, old) = (out, (w', sts))"
  shows "signatures sts = signatures old
    \<or> (\<exists>ids context existing w2 ck. signsAt X dp requestInput remat w ids context existing w2 ck
         \<and> signatures sts = signatures old @ [exactFields (ck_envelope ck)])"
  using sign_reaches [OF assms ignoresPhases(1)] makeSignature_signs by fastforce

text \<open>A run hands over material at most once, and that of a signature.\<close>

lemma sign_hands:
  assumes "signAuthorizedTransferCore X dp requestInput remat s = (r, s')"
  shows "observed materialOf (snd s') = observed materialOf (snd s)
    \<or> (\<exists>ids context existing w2 ck h raw w3 w4. signsAt X dp requestInput remat (fst s) ids context existing w2 ck
         \<and> dp_signTransaction dp (exactFields (ck_envelope ck)) w3 = (Inr (h, raw), w4)
         \<and> (\<forall>h' d a. r = Inl (Inr (SignerSuccess h' d a)) \<longrightarrow> h' = h)
         \<and> observed materialOf (snd s') = observed materialOf (snd s) @
           [\<lparr>mt_signedTransactionId = signedTransactionId ids (ck_envelope ck), mt_expectedTransactionHash = h,
             mt_rawTransaction = raw, mt_fromDurableEvidence = (existing \<noteq> None)\<rparr>])"
  using sign_reaches [OF assms ignoresPhases(3)]
proof (elim disjE exE conjE)
  fix ids context' existing w2 ck s1
  assume at: "signsAt X dp requestInput remat (fst s) ids context' existing w2 ck"
    and same: "observed materialOf (snd s1) = observed materialOf (snd s)" and made: "makeSignature dp ids ck existing s1 = (r, s')"
  from makeSignature_hands [OF made] same at show ?thesis by (elim disjE exE conjE) (simp, metis)
qed simp

end
