(* ===== verification/Broadcast.thy ===== *)
theory Broadcast
  imports Signer
begin

text \<open>
  Broadcast and execution of a signed transfer (\<open>adapters/local-anvil/src/broadcast-core.ts\<close> and
  \<open>execution-core.ts\<close>): an attempt is persisted before the bytes are sent, the answer of the node classifies it, and
  an execution signs and broadcasts under one lock. The stores, the sender and the transaction codec
  of the chain library are arguments. Bytes are shown to be sent at most once, and only after
  the attempt that names their hash is durable.
\<close>

section \<open>\<open>broadcast-core.ts\<close>\<close>

datatype attempt_status = STARTED | ACCEPTED | REJECTED | UNKNOWN_B | CONFLICT_B

record durable_signed =
  ds_signedTransactionId :: string
  ds_operationId :: string
  ds_reservationId :: string
  ds_envelopeId :: string
  ds_envelopeRevision :: int
  ds_envelopeHash :: string
  ds_authorizationId :: string
  ds_fixtureInstanceId :: string
  ds_expectedTransactionHash :: string

text \<open>An attempt carries the columns of its signed transaction.\<close>

record broadcast_attempt =
  bt_attemptId :: string
  bt_signed :: durable_signed
  bt_status :: attempt_status
  bt_responseTransactionHash :: "string option"
  bt_classificationReason :: "string option"

record finish_input =
  fn_attemptId :: string
  fn_status :: attempt_status
  fn_responseTransactionHash :: "string option"
  fn_classificationReason :: string

record 'w broadcast_store =
  findSignedTransaction :: "string \<Rightarrow> ('w, durable_signed option) call"
  startBroadcastAttempt :: "durable_signed \<Rightarrow> string \<Rightarrow> ('w, broadcast_attempt) call"
  finishBroadcastAttempt :: "finish_input \<Rightarrow> ('w, broadcast_attempt) call"

datatype send_failure = ProvenPreAcceptanceRejection | OtherSendFailure

type_synonym 'w sender = "string \<Rightarrow> 'w \<Rightarrow> (send_failure + string) \<times> 'w"

text \<open>The codec of the chain library over its parsed transactions \<open>'p\<close>; \<open>None\<close> where a function throws.\<close>

record 'p transaction_codec =
  cd_parse :: "string \<Rightarrow> 'p option"
  cd_type :: "'p \<Rightarrow> string"
  cd_r :: "'p \<Rightarrow> string option"
  cd_s :: "'p \<Rightarrow> string option"
  cd_yParity :: "'p \<Rightarrow> int option"
  cd_serialize :: "'p \<Rightarrow> string option"
  cd_keccak256 :: "string \<Rightarrow> string"

record send_input =
  bi_request :: jsval
  bi_signedTransactionId :: string
  bi_attemptId :: string
  bi_rawTransaction :: string

datatype broadcast_result = BroadcastResult bool broadcast_attempt

definition validIdentifier :: "string \<Rightarrow> bool" where
  "validIdentifier s = canonicalIdentifier (JString s)"

definition rawTransactionText :: "string \<Rightarrow> bool" where
  "rawTransactionText s \<longleftrightarrow> take 2 s = ''0x'' \<and> drop 2 s \<noteq> [] \<and> list_all isHex (drop 2 s)"

definition assertSafeInput :: "send_input \<Rightarrow> failure + jsval" where
  "assertSafeInput input =
     andThen (ofOption ZodError (authorizedTransferRequestSchema (bi_request input))) (\<lambda>request.
     andThen (require (validIdentifier (bi_signedTransactionId input)) PlainError) (\<lambda>_.
     andThen (require (validIdentifier (bi_attemptId input)) PlainError) (\<lambda>_.
     andThen (require (rawTransactionText (bi_rawTransaction input)) PlainError) (\<lambda>_.
     Inr (bi_request input)))))"

definition canonicalSignedTransactionHash :: "'p transaction_codec \<Rightarrow> string \<Rightarrow> string option" where
  "canonicalSignedTransactionHash codec raw =
     (case cd_parse codec raw of
        None \<Rightarrow> None
      | Some parsed \<Rightarrow>
          if cd_type codec parsed \<noteq> ''eip1559'' \<or> cd_r codec parsed = None \<or> cd_s codec parsed = None
             \<or> cd_yParity codec parsed = None \<or> cd_serialize codec parsed \<noteq> Some raw
          then None
          else Some (cd_keccak256 codec raw))"

text \<open>The bindings of the signed evidence to the request and to the bytes, and of the attempt to the evidence.\<close>

definition evidenceBinding :: "'p transaction_codec \<Rightarrow> send_input \<Rightarrow> durable_signed option \<Rightarrow> failure + durable_signed" where
  "evidenceBinding codec input found =
     andThen (ofOption PlainError found) (\<lambda>evidence.
     andThen (require (isString (getProp (bi_request input) ''operationId'') (ds_operationId evidence)) PlainError) (\<lambda>_.
     andThen (require (isString (getProp (bi_request input) ''authorizationId'') (ds_authorizationId evidence)) PlainError) (\<lambda>_.
     andThen (ofOption PlainError (canonicalSignedTransactionHash codec (bi_rawTransaction input))) (\<lambda>derived.
     andThen (require (derived = ds_expectedTransactionHash evidence) PlainError) (\<lambda>_.
     Inr evidence)))))"

definition attemptBinding :: "durable_signed \<Rightarrow> broadcast_attempt \<Rightarrow> failure + unit" where
  "attemptBinding evidence started =
     require (ds_signedTransactionId (bt_signed started) = ds_signedTransactionId evidence
       \<and> ds_expectedTransactionHash (bt_signed started) = ds_expectedTransactionHash evidence
       \<and> ds_operationId (bt_signed started) = ds_operationId evidence
       \<and> ds_authorizationId (bt_signed started) = ds_authorizationId evidence) PlainError"

text \<open>What an answer of the node, or its absence, makes of an attempt.\<close>

definition classify :: "string \<Rightarrow> (send_failure + string) \<Rightarrow> attempt_status \<times> string option \<times> string" where
  "classify expected reply =
     (case reply of
        Inr response \<Rightarrow>
          if canonicalHash response \<and> response = expected then (ACCEPTED, Some response, ''MATCHING_RETURNED_TRANSACTION_HASH'')
          else if canonicalHash response then (CONFLICT_B, Some response, ''CONTRADICTORY_RETURNED_HASH'')
          else (UNKNOWN_B, None, ''INVALID_RETURNED_HASH_UNCERTAIN'')
      | Inl ProvenPreAcceptanceRejection \<Rightarrow> (REJECTED, None, ''RPC_REQUEST_NOT_TRANSMITTED'')
      | Inl OtherSendFailure \<Rightarrow> (UNKNOWN_B, None, ''TRANSPORT_OR_RESPONSE_UNCERTAIN''))"

definition sendRaw :: "'w sender \<Rightarrow> string \<Rightarrow> ('w, 'o, send_failure + string) program" where
  "sendRaw sender raw s = (case sender raw (fst s) of (r, w) \<Rightarrow> (Inr r, (w, snd s @ [Sends raw])))"

text \<open>\<open>onStarted\<close> is what the caller's store does when the attempt is started.\<close>

definition broadcastSignedTransaction ::
  "'p transaction_codec \<Rightarrow> 'w broadcast_store \<Rightarrow> 'w sender \<Rightarrow> ('w, broadcast_result, unit) program \<Rightarrow> send_input
     \<Rightarrow> ('w, broadcast_result, unit) program" where
  "broadcastSignedTransaction codec store sender onStarted input =
     andRun (liftValue (assertSafeInput input)) (\<lambda>_.
     andRun (await (findSignedTransaction store (bi_signedTransactionId input))) (\<lambda>found.
     andRun (liftValue (evidenceBinding codec input found)) (\<lambda>evidence.
     andRun (await (startBroadcastAttempt store evidence (bi_attemptId input))) (\<lambda>started.
     andRun (if bt_status started = STARTED then onStarted else goOn ()) (\<lambda>_.
     andRun (liftValue (attemptBinding evidence started)) (\<lambda>_.
     if bt_status started \<noteq> STARTED then finish (BroadcastResult (bt_status started = ACCEPTED) started)
     else
     andRun (sendRaw sender (bi_rawTransaction input)) (\<lambda>reply.
     case classify (ds_expectedTransactionHash evidence) reply of (status, response, reason) \<Rightarrow>
     andRun (await (finishBroadcastAttempt store
       \<lparr>fn_attemptId = bt_attemptId started, fn_status = status, fn_responseTransactionHash = response,
        fn_classificationReason = reason\<rparr>)) (\<lambda>completed.
     finish (BroadcastResult (status = ACCEPTED) completed)))))))))"

section \<open>\<open>execution-core.ts\<close>\<close>

record 'w execution_store =
  acquireExecutionLock :: "string \<Rightarrow> ('w, unit) call"
  releaseExecutionLock :: "string \<Rightarrow> ('w, unit) call"
  findBroadcastAttempt :: "transfer_ids \<Rightarrow> ('w, broadcast_attempt option) call"

record ('w, 'p) execution_deps =
  xd_signer :: "'w signer_deps"
  xd_broadcastStore :: "'w broadcast_store"
  xd_sender :: "'w sender"
  xd_executionStore :: "'w execution_store"
  xd_codec :: "'p transaction_codec"

record execution_result =
  xr_ids :: transfer_ids
  xr_signedTransactionId :: string
  xr_expectedTransactionHash :: string
  xr_broadcastAttemptId :: string
  xr_broadcastStatus :: attempt_status
  xr_fromDurableEvidence :: bool

datatype execution_code = RefusedBy signer_refusal_code "simulation_code option" | BROADCAST_NOT_ACCEPTED

datatype execution_outcome =
    ExecutionSuccess execution_result bool component_authorization
  | ExecutionFailure execution_code "execution_result option"

definition lifecycleResult ::
  "'w signer_deps \<Rightarrow> transfer_ids \<Rightarrow> broadcast_attempt \<Rightarrow> bool \<Rightarrow> bool \<Rightarrow> ('w, execution_outcome, unit) program" where
  "lifecycleResult dp ids attempt fromDurableEvidence rematerializedBeforeSend =
     (let common = \<lparr>xr_ids = ids, xr_signedTransactionId = ds_signedTransactionId (bt_signed attempt),
            xr_expectedTransactionHash = ds_expectedTransactionHash (bt_signed attempt), xr_broadcastAttemptId = bt_attemptId attempt,
            xr_broadcastStatus = bt_status attempt, xr_fromDurableEvidence = fromDurableEvidence\<rparr> in
      if bt_status attempt \<noteq> ACCEPTED then finish (ExecutionFailure BROADCAST_NOT_ACCEPTED (Some common))
      else andRun (liftValue (dp_authorizeResult dp (resultPayload ids (ds_expectedTransactionHash (bt_signed attempt))))) (\<lambda>authorization.
        finish (ExecutionSuccess common rematerializedBeforeSend authorization)))"

text \<open>
  Running one core inside another: its outcome, with the steps it recorded, is a value; its rejection is
  the caller's. (A core always leaves with an outcome.)
\<close>

definition inner :: "('w, 'i, unit) program \<Rightarrow> ('w, 'o, 'i \<times> step list) program" where
  "inner m s =
     (case m (fst s, []) of
        (Inl (Inr out), (w, sts)) \<Rightarrow> (Inr (out, sts), (w, snd s @ sts))
      | (Inl (Inl e), (w, sts)) \<Rightarrow> (Inl (Inl e), (w, snd s @ sts))
      | (Inr u, (w, sts)) \<Rightarrow> (Inl (Inl PlainError), (w, snd s @ sts)))"

definition lastMaterial :: "step list \<Rightarrow> signed_material option" where
  "lastMaterial sts = (case observed materialOf sts of [] \<Rightarrow> None | m # ms \<Rightarrow> Some (last (m # ms)))"

definition withExecutionLock ::
  "'w execution_store \<Rightarrow> string \<Rightarrow> ('w, 'o, 'a) program \<Rightarrow> ('w, 'o, 'a) program" where
  "withExecutionLock store operationId work =
     andRun (await (acquireExecutionLock store operationId)) (\<lambda>_ s.
     case work s of (r, (w, sts)) \<Rightarrow> (r, (snd (releaseExecutionLock store operationId w), sts)))"

text \<open>\<open>signedTransactionId.replace(/^signed:/, "attempt:")\<close>\<close>

definition attemptIdFor :: "string \<Rightarrow> string" where
  "attemptIdFor signedId = (if take 7 signedId = ''signed:'' then ''attempt:'' @ drop 7 signedId else signedId)"

definition internalFailure :: "('w, execution_outcome, 'a) program" where
  "internalFailure = finish (ExecutionFailure (RefusedBy INTERNAL None) None)"

definition broadcastMaterial ::
  "('w, 'p) execution_deps \<Rightarrow> jsval \<Rightarrow> transfer_ids \<Rightarrow> signed_material \<Rightarrow> string \<Rightarrow> ('w, execution_outcome, unit) program" where
  "broadcastMaterial xd request ids material raw =
     andRun (inner (broadcastSignedTransaction (xd_codec xd) (xd_broadcastStore xd) (xd_sender xd) (traced (Phase BroadcastStarted))
       \<lparr>bi_request = request, bi_signedTransactionId = mt_signedTransactionId material,
        bi_attemptId = attemptIdFor (mt_signedTransactionId material), bi_rawTransaction = raw\<rparr>))
     (\<lambda>(result, _). case result of BroadcastResult ok attempt \<Rightarrow>
       lifecycleResult (xd_signer xd) ids attempt (mt_fromDurableEvidence material) (mt_fromDurableEvidence material))"

definition executeUnlocked ::
  "externals \<Rightarrow> ('w, 'p) execution_deps \<Rightarrow> jsval \<Rightarrow> transfer_ids \<Rightarrow> ('w, execution_outcome, unit) program" where
  "executeUnlocked X xd request ids =
     (let dp = xd_signer xd in
      andRun (await (findBroadcastAttempt (xd_executionStore xd) ids)) (\<lambda>existingAttempt.
      case existingAttempt of
        Some attempt \<Rightarrow> lifecycleResult dp ids attempt True False
      | None \<Rightarrow>
          andRun (await (findDurableSignedEvidence (dp_store dp) ids)) (\<lambda>durableEvidence.
          andRun (inner (signAuthorizedTransferCore X dp request (durableEvidence \<noteq> None))) (\<lambda>(signerOutcome, sts).
          case signerOutcome of
            SignerRefusal code freshness \<Rightarrow> finish (ExecutionFailure (RefusedBy code freshness) None)
          | SignerSuccess transactionHash fromDurable authorization \<Rightarrow>
              (case lastMaterial sts of
                 None \<Rightarrow> internalFailure
               | Some material \<Rightarrow>
                   (case mt_rawTransaction material of
                      None \<Rightarrow> internalFailure
                    | Some raw \<Rightarrow>
                        if raw = [] then internalFailure
                        else (case canonicalSignedTransactionHash (xd_codec xd) raw of
                            None \<Rightarrow> internalFailure
                          | Some derivedHash \<Rightarrow>
                              if derivedHash \<noteq> transactionHash
                                 \<or> (case durableEvidence of None \<Rightarrow> False | Some e \<Rightarrow> derivedHash \<noteq> du_transactionHash e)
                              then internalFailure
                              else broadcastMaterial xd request ids material raw)))))))"

definition executeAuthorizedTransferCore ::
  "externals \<Rightarrow> ('w, 'p) execution_deps \<Rightarrow> jsval \<Rightarrow> ('w, execution_outcome, unit) program" where
  "executeAuthorizedTransferCore X xd requestInput =
     (case authorizedTransferRequestSchema requestInput of
        None \<Rightarrow> finish (ExecutionFailure (RefusedBy INVALID_REQUEST None) None)
      | Some request \<Rightarrow>
          withExecutionLock (xd_executionStore xd) (id_operationId (requestIds request))
            (executeUnlocked X xd request (requestIds request)))"

section \<open>What a broadcast sends\<close>

lemma canonical_hash_iff:
  "canonicalSignedTransactionHash codec raw = Some h \<longleftrightarrow>
     (\<exists>p. cd_parse codec raw = Some p \<and> cd_type codec p = ''eip1559'' \<and> cd_r codec p \<noteq> None \<and> cd_s codec p \<noteq> None
        \<and> cd_yParity codec p \<noteq> None \<and> cd_serialize codec p = Some raw \<and> h = cd_keccak256 codec raw)"
  by (auto simp: canonicalSignedTransactionHash_def split: option.splits)

lemma sendRaw_steps: "sendRaw sender raw s = (r, s') \<Longrightarrow> snd s' = snd s @ [Sends raw]"
  by (auto simp: sendRaw_def split: prod.splits)

text \<open>
  A broadcast that sends: the evidence was found, it is bound to request and bytes, and the attempt that the
  store started for it is bound to it.
\<close>

definition startsAttempt ::
  "'p transaction_codec \<Rightarrow> 'w broadcast_store \<Rightarrow> send_input \<Rightarrow> 'w \<Rightarrow> durable_signed \<Rightarrow> broadcast_attempt \<Rightarrow> 'w \<Rightarrow> bool" where
  "startsAttempt codec store input w evidence started w2 \<longleftrightarrow>
     (\<exists>w1. findSignedTransaction store (bi_signedTransactionId input) w = (Inr (Some evidence), w1)
        \<and> startBroadcastAttempt store evidence (bi_attemptId input) w1 = (Inr started, w2))
     \<and> bt_status started = STARTED \<and> attemptBinding evidence started = Inr ()
     \<and> evidenceBinding codec input (Some evidence) = Inr evidence"

lemma observed_all [simp]: "observed Some sts = sts"
  by (simp add: observed_def map_filter_def)

text \<open>A program that is quiet for \<open>Some\<close> records nothing.\<close>

lemma broadcast_steps:
  assumes "broadcastSignedTransaction codec store sender (traced st) input s = (out, s')"
  shows "snd s' = snd s \<or> snd s' = snd s @ [st]
    \<or> (\<exists>evidence started w2. startsAttempt codec store input (fst s) evidence started w2
         \<and> snd s' = snd s @ [st, Sends (bi_rawTransaction input)])"
  using assms [unfolded broadcastSignedTransaction_def] quiet_calls(2) [where obs = Some]
proof (cases rule: quiet_first)
  case (2 u s1)
  then have s1: "s1 = s" by (simp add: liftValue_Inr)
  show ?thesis using 2(3) quiet_calls(1) [where obs = Some]
  proof (cases rule: quiet_first)
    case (2 found s2)
    note found = 2(1) [unfolded await_Inr s1] and s2 = 2(2) [unfolded s1]
    show ?thesis using 2(3) quiet_calls(2) [where obs = Some]
    proof (cases rule: quiet_first)
      case (2 evidence s3)
      then have bound: "evidenceBinding codec input found = Inr evidence" and s3: "s3 = s2" by (simp_all add: liftValue_Inr)
      then have e: "found = Some evidence" by (auto simp: evidenceBinding_def result_simps)
      show ?thesis using 2(3) quiet_calls(1) [where obs = Some]
      proof (cases rule: quiet_first)
        case (2 started s4)
        note begun = 2(1) [unfolded await_Inr s3] and s4 = 2(2) [unfolded s3]
        show ?thesis
        proof (cases "bt_status started = STARTED")
          case False
          with 2(3) have "andRun (liftValue (attemptBinding evidence started)) (\<lambda>_. finish (BroadcastResult (bt_status started = ACCEPTED) started)) s4
              = (out, s')" by (simp add: andRun_def goOn_def)
          from this quiet_calls(2) [where obs = Some] show ?thesis
            by (cases rule: quiet_first) (use s4 s2 in \<open>simp_all add: program_simps\<close>)
        next
          case True
          let ?s5 = "(fst s4, snd s4 @ [st])"
          from True 2(3) have "andRun (liftValue (attemptBinding evidence started)) (\<lambda>_.
              andRun (sendRaw sender (bi_rawTransaction input)) (\<lambda>reply.
              case classify (ds_expectedTransactionHash evidence) reply of (status, response, reason) \<Rightarrow>
              andRun (await (finishBroadcastAttempt store
                \<lparr>fn_attemptId = bt_attemptId started, fn_status = status, fn_responseTransactionHash = response,
                 fn_classificationReason = reason\<rparr>)) (\<lambda>completed.
              finish (BroadcastResult (status = ACCEPTED) completed)))) ?s5 = (out, s')" by (simp add: andRun_steps)
          from this quiet_calls(2) [where obs = Some] show ?thesis
          proof (cases rule: quiet_first)
            case (2 v s6)
            then have binds: "attemptBinding evidence started = Inr ()" and s6: "s6 = ?s5" by (simp_all add: liftValue_Inr)
            have "startsAttempt codec store input (fst s) evidence started (fst s4)"
              using True binds bound e found begun by (auto simp: startsAttempt_def)
            moreover have "snd s' = snd s6 @ [Sends (bi_rawTransaction input)]"
              using 2(3)
            proof (cases rule: andRun_cases)
              case (2 reply s7)
              obtain status response reason where cl: "classify (ds_expectedTransactionHash evidence) reply = (status, response, reason)"
                by (metis surj_pair)
              from 2(2) [unfolded cl prod.case] quiet_calls(1) [where obs = Some] show ?thesis
                by (cases rule: quiet_first) (use sendRaw_steps [OF 2(1)] in \<open>simp_all add: program_simps\<close>)
            qed (erule sendRaw_steps)
            ultimately show ?thesis using s6 s4 s2 by auto
          qed (use s4 s2 in simp)
        qed
      qed (use s3 s2 in simp)
    qed (use s2 in simp)
  qed (use s1 in simp)
qed simp

section \<open>What an execution sends\<close>

lemma inner_cases:
  assumes "inner m s = (r, s')"
  obtains r0 w sts where "m (fst s, []) = (r0, (w, sts))" "s' = (w, snd s @ sts)"
    "(\<exists>e. r = Inl (Inl e)) \<or> (\<exists>out. r0 = Inl (Inr out) \<and> r = Inr (out, sts))"
  using assms by (auto simp: inner_def split: prod.splits sum.splits)

lemma quiet_inner [quiet_intros]:
  assumes "quiet obs m"
  shows "quiet obs (inner m)" (is "quiet obs ?inner")
proof -
  have "observed obs (snd (snd (?inner s))) = observed obs (snd s)" for s
  proof -
    obtain r s' where run: "?inner s = (r, s')" by (metis surj_pair)
    then obtain r0 w sts where m: "m (fst s, []) = (r0, (w, sts))" and s': "s' = (w, snd s @ sts)" by (rule inner_cases)
    from quiet_run [OF assms m] show ?thesis by (simp add: run s')
  qed
  then show ?thesis by (simp add: quiet_def)
qed

lemma quiet_ends [quiet_intros]: "quiet obs internalFailure" "quiet obs (lifecycleResult dp ids attempt b c)"
  unfolding internalFailure_def lifecycleResult_def Let_def by (auto intro!: quiet_intros)

lemma broadcastMaterial_steps:
  assumes "broadcastMaterial xd request ids material raw s = (out, s')"
  defines "input \<equiv> \<lparr>bi_request = request, bi_signedTransactionId = mt_signedTransactionId material,
      bi_attemptId = attemptIdFor (mt_signedTransactionId material), bi_rawTransaction = raw\<rparr>"
  shows "sends (snd s') = sends (snd s)
    \<or> (\<exists>evidence started w2. startsAttempt (xd_codec xd) (xd_broadcastStore xd) input (fst s) evidence started w2
         \<and> snd s' = snd s @ [Phase BroadcastStarted, Sends raw])"
proof -
  let ?inner = "inner (broadcastSignedTransaction (xd_codec xd) (xd_broadcastStore xd) (xd_sender xd) (traced (Phase BroadcastStarted)) input)"
  have steps: "sends (snd s1) = sends (snd s)
    \<or> (\<exists>evidence started w2. startsAttempt (xd_codec xd) (xd_broadcastStore xd) input (fst s) evidence started w2
         \<and> snd s1 = snd s @ [Phase BroadcastStarted, Sends raw])"
    if "?inner s = (r, s1)" for r :: "(failure + execution_outcome) + _" and s1
  proof -
    from that obtain r0 w sts where run: "broadcastSignedTransaction (xd_codec xd) (xd_broadcastStore xd) (xd_sender xd)
        (traced (Phase BroadcastStarted)) input (fst s, []) = (r0, (w, sts))" and s1: "s1 = (w, snd s @ sts)" by (rule inner_cases)
    have "bi_rawTransaction input = raw" by (simp add: input_def)
    with broadcast_steps [OF run] show ?thesis unfolding s1 fst_conv snd_conv by auto
  qed
  from assms(1) [unfolded broadcastMaterial_def, folded input_def] show ?thesis
  proof (cases rule: andRun_cases)
    case (1 out)
    from steps [OF 1(1)] show ?thesis .
  next
    case (2 answered s1)
    obtain ok attempt sts where a: "answered = (BroadcastResult ok attempt, sts)"
      by (metis broadcast_result.exhaust surj_pair)
    have "snd s' = snd s1"
      using quiet_run [where obs = Some, OF quiet_ends(2) 2(2) [unfolded a prod.case broadcast_result.case]] by simp
    with steps [OF 2(1)] show ?thesis by simp
  qed
qed

end
