(* ===== verification/ChainEvidence.thy ===== *)
theory ChainEvidence
  imports Simulation
begin

text \<open>
  Verification of untrusted chain evidence (\<open>packages/transaction-pipeline/src/chain-evidence.ts\<close>): what the node
  reports about a transaction, its receipt and its block is parsed, and every disagreement with the
  envelope becomes a mismatch. Evidence without a mismatch is shown to be of exactly the transfer that the
  envelope authorized.
\<close>

section \<open>Untrusted values\<close>

text \<open>A value of the node: it may be a \<open>bigint\<close>. \<open>UOther\<close> is any value of another type (numbers, functions, symbols).\<close>

datatype unknown_value =
    UUndefined
  | UNull
  | UBool bool
  | UBigInt int
  | UString string
  | UArray "unknown_value list"
  | UObject "(string \<times> unknown_value) list"
  | UOther

fun member :: "unknown_value \<Rightarrow> string \<Rightarrow> unknown_value" where
  "member (UObject kvs) key = (case map_of kvs key of None \<Rightarrow> UUndefined | Some v \<Rightarrow> v)"
| "member v key = UUndefined"

fun isRecord :: "unknown_value \<Rightarrow> bool" where
  "isRecord (UObject kvs) = True"
| "isRecord v = False"

record untrusted_evidence =
  ue_transaction :: unknown_value
  ue_receipt :: unknown_value
  ue_canonicalBlockByNumber :: unknown_value
  ue_canonicalBlockByHash :: unknown_value

record evidence_expectation =
  ex_operationId :: string
  ex_reservationId :: string
  ex_envelopeId :: string
  ex_envelopeRevision :: int
  ex_envelopeHash :: string
  ex_authorizationId :: string
  ex_fixtureInstanceId :: string
  ex_expectedTransactionHash :: string
  ex_fixture :: fixture_identity
  ex_envelope :: jsval

datatype mismatch_code =
    INVALID_EXPECTATION | FIXTURE_MISMATCH_E | ENVELOPE_INVALID | TRANSACTION_MISSING | MALFORMED_TRANSACTION
  | TRANSACTION_HASH_MISMATCH | TRANSACTION_CHAIN_MISMATCH | TRANSACTION_FROM_MISMATCH | TRANSACTION_TO_MISMATCH
  | TRANSACTION_INPUT_MISMATCH | TRANSACTION_VALUE_MISMATCH | TRANSACTION_NONCE_MISMATCH | TRANSACTION_TYPE_MISMATCH
  | TRANSACTION_GAS_MISMATCH | TRANSACTION_PRIORITY_FEE_MISMATCH | TRANSACTION_MAX_FEE_MISMATCH
  | TRANSACTION_ACCESS_LIST_MISMATCH | TRANSACTION_BLOCK_MISMATCH | RECEIPT_MISSING | MALFORMED_RECEIPT
  | RECEIPT_HASH_MISMATCH | RECEIPT_BLOCK_MISMATCH | RECEIPT_STATUS_INVALID | RECEIPT_GAS_INVALID
  | RECEIPT_LOG_COUNT_MISMATCH | CANONICAL_BLOCK_MISSING | MALFORMED_BLOCK | CANONICAL_BLOCK_MISMATCH
  | MALFORMED_LOG | REVERTED_RECEIPT_HAS_LOGS | TRANSFER_MISSING | TRANSFER_DUPLICATE | TRANSFER_MALFORMED
  | UNEXPECTED_LOG | TRANSFER_MISMATCH

datatype mismatch_source = ExpectationSource | FixtureSource | TransactionSource | ReceiptSource | BlockSource | LogSource

datatype chain_mismatch = Mismatch mismatch_code mismatch_source "string option"

record transfer_log =
  tl_logIndex :: string
  tl_tokenAddress :: string
  tl_from :: string
  tl_to :: string
  tl_amountAtomic :: string

datatype receipt_status = SUCCESS | REVERT

record verified_evidence =
  ve_operationId :: string
  ve_reservationId :: string
  ve_envelopeId :: string
  ve_envelopeRevision :: int
  ve_envelopeHash :: string
  ve_authorizationId :: string
  ve_fixtureInstanceId :: string
  ve_chainId :: string
  ve_transactionHash :: string
  ve_blockNumber :: string
  ve_blockHash :: string
  ve_transactionIndex :: "string option"
  ve_from :: string
  ve_to :: string
  ve_valueAtomic :: string
  ve_calldata :: string
  ve_nonce :: string
  ve_gasLimit :: string
  ve_maxPriorityFeePerGas :: string
  ve_maxFeePerGas :: string
  ve_receiptStatus :: receipt_status
  ve_gasUsed :: string
  ve_effectiveGasPrice :: string
  ve_nativeFeeAtomic :: string
  ve_tokenSpendAtomic :: string
  ve_transfer :: "transfer_log option"

record parsed_transaction =
  tx_hash :: string
  tx_chainId :: int
  tx_blockHash :: string
  tx_blockNumber :: int
  tx_transactionIndex :: "int option"
  tx_from :: string
  tx_to :: string
  tx_value :: int
  tx_input :: string
  tx_nonce :: int
  tx_type :: string
  tx_gas :: int
  tx_maxPriorityFeePerGas :: int
  tx_maxFeePerGas :: int
  tx_accessList :: "unknown_value list"

record parsed_log =
  lg_address :: string
  lg_topics :: "string list"
  lg_data :: string
  lg_logIndex :: int
  lg_transactionHash :: string
  lg_blockHash :: string
  lg_blockNumber :: int
  lg_removed :: bool

record parsed_receipt =
  rc_transactionHash :: string
  rc_blockHash :: string
  rc_blockNumber :: int
  rc_status :: string
  rc_gasUsed :: int
  rc_effectiveGasPrice :: int
  rc_logs :: "parsed_log list"
  rc_malformedLog :: bool

record parsed_block =
  pb_number :: int
  pb_hash :: string

section \<open>Parsing\<close>

text \<open>Each guard returns what it narrows its value to.\<close>

fun textThat :: "(string \<Rightarrow> bool) \<Rightarrow> unknown_value \<Rightarrow> string option" where
  "textThat pattern (UString s) = (if pattern s then Some s else None)"
| "textThat pattern v = None"

definition isHash :: "unknown_value \<Rightarrow> string option" where
  "isHash = textThat canonicalHash"

definition isAddress :: "unknown_value \<Rightarrow> string option" where
  "isAddress = textThat canonicalAddress"

definition isHexBytes :: "unknown_value \<Rightarrow> string option" where
  "isHexBytes = textThat byteStringSchema"

definition isText :: "unknown_value \<Rightarrow> string option" where
  "isText = textThat (\<lambda>s. True)"

fun isAtomicBigInt :: "unknown_value \<Rightarrow> int option" where
  "isAtomicBigInt (UBigInt n) = (if 0 \<le> n then Some n else None)"
| "isAtomicBigInt v = None"

fun isArray :: "unknown_value \<Rightarrow> unknown_value list option" where
  "isArray (UArray vs) = Some vs"
| "isArray v = None"

fun isBoolean :: "unknown_value \<Rightarrow> bool option" where
  "isBoolean (UBool b) = Some b"
| "isBoolean v = None"

definition TRANSFER_EVENT_SIGNATURE :: string where
  "TRANSFER_EVENT_SIGNATURE = ''0xddf252ad1be2c89b69c2b068fc378daa952ba7f163c4a11628f55a4df523b3ef''"

definition optionalIndex :: "unknown_value \<Rightarrow> int option option" where
  "optionalIndex v = (if v = UUndefined then Some None else map_option Some (isAtomicBigInt v))"

definition parseTransaction :: "unknown_value \<Rightarrow> parsed_transaction option" where
  "parseTransaction value =
     (if \<not> isRecord value then None else
      Option.bind (isHash (member value ''hash'')) (\<lambda>hash.
      Option.bind (isAtomicBigInt (member value ''chainId'')) (\<lambda>chainId.
      Option.bind (isHash (member value ''blockHash'')) (\<lambda>blockHash.
      Option.bind (isAtomicBigInt (member value ''blockNumber'')) (\<lambda>blockNumber.
      Option.bind (optionalIndex (member value ''transactionIndex'')) (\<lambda>transactionIndex.
      Option.bind (isAddress (member value ''from'')) (\<lambda>sender.
      Option.bind (isAddress (member value ''to'')) (\<lambda>target.
      Option.bind (isAtomicBigInt (member value ''value'')) (\<lambda>amount.
      Option.bind (isHexBytes (member value ''input'')) (\<lambda>input.
      Option.bind (isAtomicBigInt (member value ''nonce'')) (\<lambda>nonce.
      Option.bind (isText (member value ''type'')) (\<lambda>txType.
      Option.bind (isAtomicBigInt (member value ''gas'')) (\<lambda>gas.
      Option.bind (isAtomicBigInt (member value ''maxPriorityFeePerGas'')) (\<lambda>maxPriorityFeePerGas.
      Option.bind (isAtomicBigInt (member value ''maxFeePerGas'')) (\<lambda>maxFeePerGas.
      Option.bind (isArray (member value ''accessList'')) (\<lambda>accessList.
      Some \<lparr>tx_hash = hash, tx_chainId = chainId, tx_blockHash = blockHash, tx_blockNumber = blockNumber,
            tx_transactionIndex = transactionIndex, tx_from = sender, tx_to = target, tx_value = amount, tx_input = input,
            tx_nonce = nonce, tx_type = txType, tx_gas = gas, tx_maxPriorityFeePerGas = maxPriorityFeePerGas,
            tx_maxFeePerGas = maxFeePerGas, tx_accessList = accessList\<rparr>))))))))))))))))"

definition parseLog :: "unknown_value \<Rightarrow> parsed_log option" where
  "parseLog value =
     (if \<not> isRecord value then None else
      Option.bind (isArray (member value ''topics'')) (\<lambda>items.
      Option.bind (isAddress (member value ''address'')) (\<lambda>address.
      Option.bind (sequence (map isHash items)) (\<lambda>topics.
      Option.bind (isHexBytes (member value ''data'')) (\<lambda>bytes.
      Option.bind (isAtomicBigInt (member value ''logIndex'')) (\<lambda>logIndex.
      Option.bind (isHash (member value ''transactionHash'')) (\<lambda>transactionHash.
      Option.bind (isHash (member value ''blockHash'')) (\<lambda>blockHash.
      Option.bind (isAtomicBigInt (member value ''blockNumber'')) (\<lambda>blockNumber.
      Option.bind (isBoolean (member value ''removed'')) (\<lambda>removed.
      Some \<lparr>lg_address = address, lg_topics = topics, lg_data = bytes, lg_logIndex = logIndex,
            lg_transactionHash = transactionHash, lg_blockHash = blockHash, lg_blockNumber = blockNumber,
            lg_removed = removed\<rparr>))))))))))"

definition parseReceipt :: "unknown_value \<Rightarrow> parsed_receipt option" where
  "parseReceipt value =
     (if \<not> isRecord value then None else
      Option.bind (isArray (member value ''logs'')) (\<lambda>items.
      Option.bind (isHash (member value ''transactionHash'')) (\<lambda>transactionHash.
      Option.bind (isHash (member value ''blockHash'')) (\<lambda>blockHash.
      Option.bind (isAtomicBigInt (member value ''blockNumber'')) (\<lambda>blockNumber.
      Option.bind (isText (member value ''status'')) (\<lambda>status.
      Option.bind (isAtomicBigInt (member value ''gasUsed'')) (\<lambda>gasUsed.
      Option.bind (isAtomicBigInt (member value ''effectiveGasPrice'')) (\<lambda>effectiveGasPrice.
      let logs = map parseLog items in
      Some \<lparr>rc_transactionHash = transactionHash, rc_blockHash = blockHash, rc_blockNumber = blockNumber,
            rc_status = status, rc_gasUsed = gasUsed, rc_effectiveGasPrice = effectiveGasPrice,
            rc_logs = List.map_filter id logs, rc_malformedLog = (None \<in> set logs)\<rparr>))))))))"

definition parseBlock :: "unknown_value \<Rightarrow> parsed_block option" where
  "parseBlock value =
     (if \<not> isRecord value then None else
      Option.bind (isAtomicBigInt (member value ''number'')) (\<lambda>number.
      Option.bind (isHash (member value ''hash'')) (\<lambda>hash.
      Some \<lparr>pb_number = number, pb_hash = hash\<rparr>)))"

definition topicAddress :: "string \<Rightarrow> string option" where
  "topicAddress topic =
     (if take 26 topic \<noteq> ''0x'' @ replicate 24 (CHR ''0'') then None
      else let address = ''0x'' @ drop 26 topic in if canonicalAddress address then Some address else None)"

definition transferFromLog :: "parsed_log \<Rightarrow> transfer_log option" where
  "transferFromLog log =
     (case lg_topics log of
        [signature, fromTopic, toTopic] \<Rightarrow>
          if signature \<noteq> TRANSFER_EVENT_SIGNATURE \<or> length (lg_data log) \<noteq> 66 then None
          else Option.bind (topicAddress fromTopic) (\<lambda>sender.
            Option.bind (topicAddress toTopic) (\<lambda>recipient.
            if \<not> canonicalHash (lg_data log) then None
            else Some \<lparr>tl_logIndex = amountText (lg_logIndex log), tl_tokenAddress = lg_address log, tl_from = sender,
                       tl_to = recipient, tl_amountAtomic = decStr (hexVal (drop 2 (lg_data log)))\<rparr>))
      | _ \<Rightarrow> None)"

section \<open>Verification\<close>

definition issue :: "bool \<Rightarrow> mismatch_code \<Rightarrow> mismatch_source \<Rightarrow> string option \<Rightarrow> chain_mismatch list" where
  "issue raised code origin path = (if raised then [Mismatch code origin path] else [])"

definition isIdentifier :: "string \<Rightarrow> bool" where
  "isIdentifier s = canonicalIdentifier (JString s)"

definition validExpectationShape :: "url_parser \<Rightarrow> evidence_expectation \<Rightarrow> bool" where
  "validExpectationShape parseUrl expectation \<longleftrightarrow>
     isIdentifier (ex_operationId expectation) \<and> isIdentifier (ex_reservationId expectation)
     \<and> isIdentifier (ex_envelopeId expectation) \<and> positiveSafeInt (ex_envelopeRevision expectation)
     \<and> isIdentifier (ex_authorizationId expectation) \<and> isIdentifier (ex_fixtureInstanceId expectation)
     \<and> canonicalHash (ex_envelopeHash expectation) \<and> canonicalHash (ex_expectedTransactionHash expectation)
     \<and> isIdentifier (fx_fixtureInstanceId (ex_fixture expectation)) \<and> fx_chainId (ex_fixture expectation) = LOCAL_CHAIN_ID
     \<and> canonicalAddress (fx_walletAddress (ex_fixture expectation)) \<and> canonicalAddress (fx_tokenAddress (ex_fixture expectation))
     \<and> (case parseUrl (fx_rpcUrl (ex_fixture expectation)) of None \<Rightarrow> False | Some url \<Rightarrow> loopbackUrl url)"

text \<open>The envelope of the expectation passed the schema, so that its hash is defined.\<close>

definition validEnvelopeBinding :: "externals \<Rightarrow> evidence_expectation \<Rightarrow> bool" where
  "validEnvelopeBinding X expectation =
     (let envelope = ex_envelope expectation; arguments = getProp envelope ''decodedArguments'' in
      canonicalExecutionEnvelopeV2Schema X envelope \<noteq> None
      \<and> isString (getProp envelope ''envelopeId'') (ex_envelopeId expectation)
      \<and> getProp envelope ''revision'' = JNumber (jsInt (ex_envelopeRevision expectation))
      \<and> isString (getProp envelope ''envelopeHash'') (ex_envelopeHash expectation)
      \<and> isString (getProp envelope ''budgetReservationId'') (ex_reservationId expectation)
      \<and> map_option JString (hashExecutionEnvelope X envelope) = Some (getProp envelope ''envelopeHash'')
      \<and> isString (getProp envelope ''from'') (fx_walletAddress (ex_fixture expectation))
      \<and> isString (getProp envelope ''to'') (fx_tokenAddress (ex_fixture expectation))
      \<and> isString (getProp envelope ''value'') ''0''
      \<and> (case arrayItems (getProp envelope ''expectedAssetDeltas'') of
           Some [delta] \<Rightarrow>
             sameAs delta ''assetAddress'' envelope ''to'' \<and> sameAs delta ''from'' envelope ''from''
             \<and> sameAs delta ''to'' arguments ''recipient'' \<and> sameAs delta ''amountAtomic'' arguments ''amountAtomic''
         | _ \<Rightarrow> False)
      \<and> (case decodeTransferIndependent (getProp envelope ''calldata'') of
           Decoded decoded \<Rightarrow>
             isString (getProp arguments ''recipient'') (de_recipient decoded)
             \<and> isString (getProp arguments ''amountAtomic'') (de_amountAtomic decoded)
         | DecodeFailure code \<Rightarrow> False))"

definition expectationMismatches :: "externals \<Rightarrow> url_parser \<Rightarrow> evidence_expectation \<Rightarrow> chain_mismatch list" where
  "expectationMismatches X parseUrl expectation =
     (if \<not> validExpectationShape parseUrl expectation then [Mismatch INVALID_EXPECTATION ExpectationSource None]
      else if \<not> validEnvelopeBinding X expectation then [Mismatch ENVELOPE_INVALID ExpectationSource (Some ''envelope'')]
      else [])"

text \<open>A property of the evidence is missing when it is \<open>null\<close> or \<open>undefined\<close>.\<close>

definition missing :: "unknown_value \<Rightarrow> bool" where
  "missing v \<longleftrightarrow> v = UNull \<or> v = UUndefined"

definition blockIssues :: "unknown_value \<Rightarrow> string \<Rightarrow> chain_mismatch list" where
  "blockIssues value path =
     (if missing value then issue True CANONICAL_BLOCK_MISSING BlockSource (Some path)
      else issue (parseBlock value = None) MALFORMED_BLOCK BlockSource (Some path))"

definition presenceIssues :: "evidence_expectation \<Rightarrow> untrusted_evidence \<Rightarrow> chain_mismatch list" where
  "presenceIssues expectation evidence =
     (let tx = ue_transaction evidence; receipt = ue_receipt evidence in
      issue (fx_fixtureInstanceId (ex_fixture expectation) \<noteq> ex_fixtureInstanceId expectation)
        FIXTURE_MISMATCH_E FixtureSource (Some ''fixtureInstanceId'')
      @ issue (missing tx) TRANSACTION_MISSING TransactionSource None
      @ issue (missing receipt) RECEIPT_MISSING ReceiptSource None
      @ issue (\<not> missing tx \<and> parseTransaction tx = None) MALFORMED_TRANSACTION TransactionSource None
      @ issue (\<not> missing receipt \<and> parseReceipt receipt = None) MALFORMED_RECEIPT ReceiptSource None
      @ issue (case parseReceipt receipt of None \<Rightarrow> False | Some r \<Rightarrow> rc_malformedLog r) MALFORMED_LOG LogSource None
      @ blockIssues (ue_canonicalBlockByNumber evidence) ''byNumber''
      @ blockIssues (ue_canonicalBlockByHash evidence) ''byHash'')"

definition transactionIssues :: "evidence_expectation \<Rightarrow> parsed_transaction \<Rightarrow> chain_mismatch list" where
  "transactionIssues expectation tx =
     (let envelope = ex_envelope expectation in
      issue (tx_hash tx \<noteq> ex_expectedTransactionHash expectation) TRANSACTION_HASH_MISMATCH TransactionSource (Some ''hash'')
      @ issue (tx_chainId tx \<noteq> 31337) TRANSACTION_CHAIN_MISMATCH TransactionSource (Some ''chainId'')
      @ issue (\<not> isString (getProp envelope ''from'') (tx_from tx)) TRANSACTION_FROM_MISMATCH TransactionSource (Some ''from'')
      @ issue (\<not> isString (getProp envelope ''to'') (tx_to tx)) TRANSACTION_TO_MISMATCH TransactionSource (Some ''to'')
      @ issue (\<not> isString (getProp envelope ''calldata'') (tx_input tx)) TRANSACTION_INPUT_MISMATCH TransactionSource (Some ''input'')
      @ issue (tx_value tx \<noteq> numeralOf (getProp envelope ''value'')) TRANSACTION_VALUE_MISMATCH TransactionSource (Some ''value'')
      @ issue (tx_nonce tx \<noteq> numeralOf (getProp envelope ''nonce'')) TRANSACTION_NONCE_MISMATCH TransactionSource (Some ''nonce'')
      @ issue (\<not> isString (getProp envelope ''transactionType'') (tx_type tx)) TRANSACTION_TYPE_MISMATCH TransactionSource (Some ''type'')
      @ issue (tx_gas tx \<noteq> numeralOf (getProp envelope ''gasLimit'')) TRANSACTION_GAS_MISMATCH TransactionSource (Some ''gas'')
      @ issue (tx_maxPriorityFeePerGas tx \<noteq> numeralOf (getProp envelope ''maxPriorityFeePerGas''))
          TRANSACTION_PRIORITY_FEE_MISMATCH TransactionSource (Some ''maxPriorityFeePerGas'')
      @ issue (tx_maxFeePerGas tx \<noteq> numeralOf (getProp (getProp envelope ''maximumFeeConstraints'') ''maxFeePerGas''))
          TRANSACTION_MAX_FEE_MISMATCH TransactionSource (Some ''maxFeePerGas'')
      @ issue (tx_accessList tx \<noteq> []) TRANSACTION_ACCESS_LIST_MISMATCH TransactionSource (Some ''accessList''))"

definition blockAndReceiptIssues ::
  "evidence_expectation \<Rightarrow> parsed_transaction \<Rightarrow> parsed_receipt \<Rightarrow> parsed_block \<Rightarrow> parsed_block \<Rightarrow> chain_mismatch list" where
  "blockAndReceiptIssues expectation tx receipt blockByNumber blockByHash =
     issue (tx_blockNumber tx \<noteq> pb_number blockByNumber \<or> tx_blockHash tx \<noteq> pb_hash blockByNumber)
       TRANSACTION_BLOCK_MISMATCH TransactionSource (Some ''block'')
     @ issue (pb_number blockByNumber \<noteq> pb_number blockByHash \<or> pb_hash blockByNumber \<noteq> pb_hash blockByHash)
       CANONICAL_BLOCK_MISMATCH BlockSource None
     @ issue (rc_transactionHash receipt \<noteq> tx_hash tx \<or> rc_transactionHash receipt \<noteq> ex_expectedTransactionHash expectation)
       RECEIPT_HASH_MISMATCH ReceiptSource (Some ''transactionHash'')
     @ issue (rc_blockNumber receipt \<noteq> tx_blockNumber tx \<or> rc_blockHash receipt \<noteq> tx_blockHash tx)
       RECEIPT_BLOCK_MISMATCH ReceiptSource (Some ''block'')
     @ issue (rc_gasUsed receipt > tx_gas tx) RECEIPT_GAS_INVALID ReceiptSource (Some ''gasUsed'')
     @ issue (rc_status receipt \<noteq> ''success'' \<and> rc_status receipt \<noteq> ''reverted'') RECEIPT_STATUS_INVALID ReceiptSource (Some ''status'')"

definition isTransferLog :: "parsed_log \<Rightarrow> bool" where
  "isTransferLog log = (case lg_topics log of [] \<Rightarrow> False | topic # rest \<Rightarrow> topic = TRANSFER_EVENT_SIGNATURE)"

text \<open>The transfer of a successful receipt with one Transfer log.\<close>

definition transferOf :: "parsed_receipt \<Rightarrow> transfer_log option" where
  "transferOf receipt =
     (if rc_status receipt = ''success'' then
        (case filter isTransferLog (rc_logs receipt) of [log] \<Rightarrow> transferFromLog log | _ \<Rightarrow> None)
      else None)"

definition logCountIssues :: "parsed_receipt \<Rightarrow> chain_mismatch list" where
  "logCountIssues receipt =
     (let logs = rc_logs receipt; transferLogs = filter isTransferLog logs in
      if rc_status receipt = ''reverted'' then issue (length logs \<noteq> 0) REVERTED_RECEIPT_HAS_LOGS ReceiptSource (Some ''logs'')
      else if rc_status receipt = ''success'' then
        (if length transferLogs = 0 then issue True TRANSFER_MISSING LogSource None
         else if length transferLogs > 1 then issue True TRANSFER_DUPLICATE LogSource None
         else issue (transferOf receipt = None) TRANSFER_MALFORMED LogSource None
              @ issue (length logs \<noteq> 1) UNEXPECTED_LOG ReceiptSource (Some ''logs''))
        @ issue (length logs = 0) RECEIPT_LOG_COUNT_MISMATCH ReceiptSource (Some ''logs'')
      else [])
     @ issue (rc_status receipt = ''success'' \<and> filter (\<lambda>log. \<not> isTransferLog log) (rc_logs receipt) \<noteq> []) UNEXPECTED_LOG LogSource None"

definition transferIssues :: "jsval \<Rightarrow> transfer_log \<Rightarrow> chain_mismatch list" where
  "transferIssues envelope transfer =
     (let arguments = getProp envelope ''decodedArguments'' in
      issue (\<not> isString (getProp envelope ''to'') (tl_tokenAddress transfer)) TRANSFER_MISMATCH LogSource (Some ''tokenAddress'')
      @ issue (\<not> isString (getProp envelope ''from'') (tl_from transfer)) TRANSFER_MISMATCH LogSource (Some ''from'')
      @ issue (\<not> isString (getProp arguments ''recipient'') (tl_to transfer)) TRANSFER_MISMATCH LogSource (Some ''to'')
      @ issue (\<not> isString (getProp arguments ''amountAtomic'') (tl_amountAtomic transfer)) TRANSFER_MISMATCH LogSource
          (Some ''amountAtomic''))"

definition logIssues :: "parsed_transaction \<Rightarrow> parsed_log \<Rightarrow> chain_mismatch list" where
  "logIssues tx log =
     issue (lg_removed log) TRANSFER_MISMATCH LogSource (Some ''removed'')
     @ issue (lg_transactionHash log \<noteq> tx_hash tx) TRANSFER_MISMATCH LogSource (Some ''transactionHash'')
     @ issue (lg_blockHash log \<noteq> tx_blockHash tx) TRANSFER_MISMATCH LogSource (Some ''blockHash'')
     @ issue (lg_blockNumber log \<noteq> tx_blockNumber tx) TRANSFER_MISMATCH LogSource (Some ''blockNumber'')"

definition verifiedEvidence ::
  "evidence_expectation \<Rightarrow> parsed_transaction \<Rightarrow> parsed_receipt \<Rightarrow> verified_evidence" where
  "verifiedEvidence expectation tx receipt =
     (let status = (if rc_status receipt = ''success'' then SUCCESS else REVERT) in
      \<lparr>ve_operationId = ex_operationId expectation, ve_reservationId = ex_reservationId expectation,
       ve_envelopeId = ex_envelopeId expectation, ve_envelopeRevision = ex_envelopeRevision expectation,
       ve_envelopeHash = ex_envelopeHash expectation, ve_authorizationId = ex_authorizationId expectation,
       ve_fixtureInstanceId = ex_fixtureInstanceId expectation, ve_chainId = LOCAL_CHAIN_ID,
       ve_transactionHash = tx_hash tx, ve_blockNumber = amountText (tx_blockNumber tx), ve_blockHash = tx_blockHash tx,
       ve_transactionIndex = map_option amountText (tx_transactionIndex tx), ve_from = tx_from tx, ve_to = tx_to tx,
       ve_valueAtomic = amountText (tx_value tx), ve_calldata = tx_input tx, ve_nonce = amountText (tx_nonce tx),
       ve_gasLimit = amountText (tx_gas tx), ve_maxPriorityFeePerGas = amountText (tx_maxPriorityFeePerGas tx),
       ve_maxFeePerGas = amountText (tx_maxFeePerGas tx), ve_receiptStatus = status,
       ve_gasUsed = amountText (rc_gasUsed receipt), ve_effectiveGasPrice = amountText (rc_effectiveGasPrice receipt),
       ve_nativeFeeAtomic = amountText (rc_gasUsed receipt * rc_effectiveGasPrice receipt),
       ve_tokenSpendAtomic =
         (if status = SUCCESS then textOf (getProp (getProp (ex_envelope expectation) ''decodedArguments'') ''amountAtomic'') else ''0''),
       ve_transfer = transferOf receipt\<rparr>)"

definition verifyUntrustedChainEvidence ::
  "externals \<Rightarrow> url_parser \<Rightarrow> evidence_expectation \<Rightarrow> untrusted_evidence \<Rightarrow> chain_mismatch list + verified_evidence" where
  "verifyUntrustedChainEvidence X parseUrl expectation evidence =
     (let mismatches = expectationMismatches X parseUrl expectation; issues = presenceIssues expectation evidence in
      if mismatches \<noteq> [] then Inl mismatches
      else case (parseTransaction (ue_transaction evidence), parseReceipt (ue_receipt evidence),
                 parseBlock (ue_canonicalBlockByNumber evidence), parseBlock (ue_canonicalBlockByHash evidence)) of
        (Some tx, Some receipt, Some blockByNumber, Some blockByHash) \<Rightarrow>
          (let all = issues @ transactionIssues expectation tx
               @ blockAndReceiptIssues expectation tx receipt blockByNumber blockByHash @ logCountIssues receipt
               @ (case transferOf receipt of None \<Rightarrow> [] | Some transfer \<Rightarrow> transferIssues (ex_envelope expectation) transfer)
               @ concat (map (logIssues tx) (rc_logs receipt)) in
           if all \<noteq> [] then Inl all else Inr (verifiedEvidence expectation tx receipt))
      | _ \<Rightarrow> Inl issues)"

section \<open>Lemmas\<close>

lemma issue_Nil [simp]: "issue raised code origin path = [] \<longleftrightarrow> \<not> raised"
  by (simp add: issue_def)

lemma textThat_Some: "textThat pattern v = Some s \<longleftrightarrow> v = UString s \<and> pattern s"
  by (cases v) auto

lemma isAtomicBigInt_Some: "isAtomicBigInt v = Some n \<longleftrightarrow> v = UBigInt n \<and> 0 \<le> n"
  by (cases v) auto

lemma isArray_Some: "isArray v = Some vs \<longleftrightarrow> v = UArray vs"
  by (cases v) auto

lemma isBoolean_Some: "isBoolean v = Some b \<longleftrightarrow> v = UBool b"
  by (cases v) auto

lemmas guard_simps = isHash_def isAddress_def isHexBytes_def isText_def textThat_Some isAtomicBigInt_Some isArray_Some isBoolean_Some

text \<open>Parsing copies: each property of a parsed value is the one of the value.\<close>

lemma parseTransaction_members:
  assumes "parseTransaction value = Some tx"
  shows "member value ''hash'' = UString (tx_hash tx) \<and> member value ''chainId'' = UBigInt (tx_chainId tx)
    \<and> member value ''blockHash'' = UString (tx_blockHash tx) \<and> member value ''blockNumber'' = UBigInt (tx_blockNumber tx)
    \<and> member value ''from'' = UString (tx_from tx) \<and> member value ''to'' = UString (tx_to tx)
    \<and> member value ''value'' = UBigInt (tx_value tx) \<and> member value ''input'' = UString (tx_input tx)
    \<and> member value ''nonce'' = UBigInt (tx_nonce tx) \<and> member value ''type'' = UString (tx_type tx)
    \<and> member value ''gas'' = UBigInt (tx_gas tx) \<and> member value ''maxPriorityFeePerGas'' = UBigInt (tx_maxPriorityFeePerGas tx)
    \<and> member value ''maxFeePerGas'' = UBigInt (tx_maxFeePerGas tx) \<and> member value ''accessList'' = UArray (tx_accessList tx)"
  using assms
  by (auto simp: parseTransaction_def bind_eq_Some_conv guard_simps simp del: member.simps split: if_splits)

lemma parseReceipt_members:
  assumes "parseReceipt value = Some receipt" "\<not> rc_malformedLog receipt"
  obtains items where "member value ''logs'' = UArray items" "map parseLog items = map Some (rc_logs receipt)"
    "member value ''transactionHash'' = UString (rc_transactionHash receipt)" "member value ''blockHash'' = UString (rc_blockHash receipt)"
    "member value ''blockNumber'' = UBigInt (rc_blockNumber receipt)" "member value ''status'' = UString (rc_status receipt)"
    "member value ''gasUsed'' = UBigInt (rc_gasUsed receipt)" "0 \<le> rc_gasUsed receipt"
    "member value ''effectiveGasPrice'' = UBigInt (rc_effectiveGasPrice receipt)" "0 \<le> rc_effectiveGasPrice receipt"
proof -
  obtain items where items: "member value ''logs'' = UArray items" "rc_logs receipt = List.map_filter id (map parseLog items)"
    "rc_malformedLog receipt \<longleftrightarrow> None \<in> set (map parseLog items)"
    "member value ''transactionHash'' = UString (rc_transactionHash receipt)" "member value ''blockHash'' = UString (rc_blockHash receipt)"
    "member value ''blockNumber'' = UBigInt (rc_blockNumber receipt)" "member value ''status'' = UString (rc_status receipt)"
    "member value ''gasUsed'' = UBigInt (rc_gasUsed receipt)" "0 \<le> rc_gasUsed receipt"
    "member value ''effectiveGasPrice'' = UBigInt (rc_effectiveGasPrice receipt)" "0 \<le> rc_effectiveGasPrice receipt"
    using assms(1) by (auto simp: parseReceipt_def bind_eq_Some_conv guard_simps Let_def simp del: member.simps split: if_splits)
  have "None \<notin> set logs \<Longrightarrow> logs = map Some (List.map_filter id logs)" for logs :: "parsed_log option list"
    by (induction logs) (auto simp: map_filter_def, metis option.exhaust)
  with items assms(2) that show thesis by metis
qed

lemma parseLog_members:
  assumes "parseLog value = Some log"
  shows "member value ''address'' = UString (lg_address log) \<and> member value ''topics'' = UArray (map UString (lg_topics log))
    \<and> member value ''data'' = UString (lg_data log) \<and> member value ''transactionHash'' = UString (lg_transactionHash log)
    \<and> member value ''blockHash'' = UString (lg_blockHash log) \<and> member value ''removed'' = UBool (lg_removed log)
    \<and> list_all canonicalHash (lg_topics log)"
proof -
  have "sequence (map isHash items) = Some topics \<Longrightarrow> items = map UString topics \<and> list_all canonicalHash topics" for items topics
    by (induction items arbitrary: topics) (auto simp: guard_simps split: option.splits)
  then show ?thesis using assms
    by (auto simp: parseLog_def bind_eq_Some_conv guard_simps simp del: member.simps split: if_splits)
qed

lemma parseBlock_members: "parseBlock value = Some b \<Longrightarrow> member value ''hash'' = UString (pb_hash b) \<and> member value ''number'' = UBigInt (pb_number b)"
  by (auto simp: parseBlock_def bind_eq_Some_conv guard_simps simp del: member.simps split: if_splits)

text \<open>The topic of an address is the address with twelve zero bytes before it.\<close>

definition addressTopic :: "string \<Rightarrow> string" where
  "addressTopic address = ''0x'' @ replicate 24 (CHR ''0'') @ drop 2 address"

lemma topicAddress_Some: "topicAddress topic = Some address \<Longrightarrow> topic = addressTopic address"
proof -
  assume a: "topicAddress topic = Some address"
  then have "take 26 topic = ''0x'' @ replicate 24 (CHR ''0'')" "address = ''0x'' @ drop 26 topic"
    by (auto simp: topicAddress_def Let_def split: if_splits)
  then show ?thesis unfolding addressTopic_def by (metis append.assoc append_take_drop_id drop_append drop0 append_Nil diff_self_eq_0 drop_all list.size(3,4) One_nat_def Suc_1 add_Suc_right add.right_neutral le_refl)
qed

lemma transferFromLog_Some:
  assumes "transferFromLog log = Some transfer"
  shows "lg_topics log = [TRANSFER_EVENT_SIGNATURE, addressTopic (tl_from transfer), addressTopic (tl_to transfer)]
    \<and> tl_tokenAddress transfer = lg_address log \<and> canonicalHash (lg_data log)
    \<and> tl_amountAtomic transfer = decStr (hexVal (drop 2 (lg_data log)))"
  using assms
  by (auto simp: transferFromLog_def bind_eq_Some_conv topicAddress_Some split: list.splits if_splits)

text \<open>Accepted evidence: every list of issues is empty.\<close>

lemma verifyChain_Inr:
  assumes "verifyUntrustedChainEvidence X parseUrl expectation evidence = Inr v"
  obtains tx receipt b b' where "validExpectationShape parseUrl expectation" "validEnvelopeBinding X expectation"
    "parseTransaction (ue_transaction evidence) = Some tx" "parseReceipt (ue_receipt evidence) = Some receipt"
    "parseBlock (ue_canonicalBlockByNumber evidence) = Some b" "parseBlock (ue_canonicalBlockByHash evidence) = Some b'"
    "presenceIssues expectation evidence = []" "transactionIssues expectation tx = []"
    "blockAndReceiptIssues expectation tx receipt b b' = []" "logCountIssues receipt = []"
    "\<And>transfer. transferOf receipt = Some transfer \<Longrightarrow> transferIssues (ex_envelope expectation) transfer = []"
    "\<And>log. log \<in> set (rc_logs receipt) \<Longrightarrow> logIssues tx log = []" "v = verifiedEvidence expectation tx receipt"
proof -
  have "expectationMismatches X parseUrl expectation = []"
    using assms by (auto simp: verifyUntrustedChainEvidence_def Let_def split: if_splits)
  then have valid: "validExpectationShape parseUrl expectation" "validEnvelopeBinding X expectation"
    by (auto simp: expectationMismatches_def split: if_splits)
  from assms obtain tx receipt b b' where p: "parseTransaction (ue_transaction evidence) = Some tx" "parseReceipt (ue_receipt evidence) = Some receipt"
    "parseBlock (ue_canonicalBlockByNumber evidence) = Some b" "parseBlock (ue_canonicalBlockByHash evidence) = Some b'"
    and all: "presenceIssues expectation evidence = [] \<and> transactionIssues expectation tx = []
     \<and> blockAndReceiptIssues expectation tx receipt b b' = [] \<and> logCountIssues receipt = []
     \<and> (case transferOf receipt of None \<Rightarrow> [] | Some transfer \<Rightarrow> transferIssues (ex_envelope expectation) transfer) = []
     \<and> concat (map (logIssues tx) (rc_logs receipt)) = [] \<and> v = verifiedEvidence expectation tx receipt"
    by (auto simp: verifyUntrustedChainEvidence_def Let_def split: if_splits option.splits)
  show thesis by (rule that [OF valid p]) (use all in \<open>simp_all add: concat_eq_Nil_conv\<close>)
qed

text \<open>The logs of accepted evidence.\<close>

lemma accepted_logs:
  assumes "logCountIssues receipt = []" "rc_status receipt = ''success'' \<or> rc_status receipt = ''reverted''"
  shows "if rc_status receipt = ''success'' then \<exists>log transfer. rc_logs receipt = [log] \<and> transferFromLog log = Some transfer \<and> transferOf receipt = Some transfer
    else rc_logs receipt = [] \<and> transferOf receipt = None"
proof (cases "rc_status receipt = ''success''")
  case True
  from assms(1) True have c: "filter (\<lambda>log. \<not> isTransferLog log) (rc_logs receipt) = []" 
    "length (rc_logs receipt) = 1" "transferOf receipt \<noteq> None"
    by (auto simp: logCountIssues_def Let_def split: if_splits)
  then obtain log where log: "rc_logs receipt = [log]" by (auto simp: length_Suc_conv)
  with c True show ?thesis by (auto simp: transferOf_def split: if_splits)
next
  case False
  with assms show ?thesis by (auto simp: logCountIssues_def Let_def transferOf_def split: if_splits)
qed

section \<open>Properties\<close>

text \<open>
  C16. Accepted chain evidence is evidence of the authorized transfer: if \<open>verifyUntrustedChainEvidence\<close>
  accepts what the node reported, then the transaction carries the expected hash and every field of the
  envelope, and transaction, receipt and both blocks name one block. The gas used is at most the gas
  limit of the envelope, and the native fee is the product of gas and price. A successful receipt
  has exactly one log, a Transfer of the token of the envelope from its sender to its recipient of exactly the amount that
  the calldata encodes and that is reported as spent; a reverted receipt has no log and nothing is reported as spent.
\<close>

theorem verified_evidence_is_the_transfer:
  assumes "verifyUntrustedChainEvidence X parseUrl expectation evidence = Inr v"
  defines "envelope \<equiv> ex_envelope expectation" and "tx \<equiv> ue_transaction evidence" and "receipt \<equiv> ue_receipt evidence"
  shows "\<exists>recipient amount gasUsed price.
      getProp envelope ''calldata'' = JString (abiTransfer recipient amount) \<and> amount < 2 ^ 256
    \<and> member tx ''hash'' = UString (ex_expectedTransactionHash expectation) \<and> member tx ''chainId'' = UBigInt 31337
    \<and> member tx ''from'' = UString (textOf (getProp envelope ''from'')) \<and> member tx ''to'' = UString (textOf (getProp envelope ''to''))
    \<and> member tx ''value'' = UBigInt 0 \<and> member tx ''input'' = UString (abiTransfer recipient amount)
    \<and> member tx ''nonce'' = UBigInt (numeralOf (getProp envelope ''nonce'')) \<and> member tx ''gas'' = UBigInt (numeralOf (getProp envelope ''gasLimit''))
    \<and> member tx ''accessList'' = UArray []
    \<and> member receipt ''transactionHash'' = member tx ''hash'' \<and> member receipt ''blockHash'' = member tx ''blockHash''
    \<and> member (ue_canonicalBlockByNumber evidence) ''hash'' = member tx ''blockHash''
    \<and> member (ue_canonicalBlockByHash evidence) ''hash'' = member tx ''blockHash''
    \<and> member receipt ''gasUsed'' = UBigInt gasUsed \<and> gasUsed \<le> numeralOf (getProp envelope ''gasLimit'')
    \<and> member receipt ''effectiveGasPrice'' = UBigInt price \<and> ve_nativeFeeAtomic v = amountText (gasUsed * price)
    \<and> (case ve_receiptStatus v of
         SUCCESS \<Rightarrow> \<exists>log bytes. member receipt ''status'' = UString ''success'' \<and> member receipt ''logs'' = UArray [log]
           \<and> member log ''address'' = UString (textOf (getProp envelope ''to'')) \<and> member log ''removed'' = UBool False
           \<and> member log ''topics'' = UArray [UString TRANSFER_EVENT_SIGNATURE,
               UString (addressTopic (textOf (getProp envelope ''from''))), UString (addressTopic recipient)]
           \<and> member log ''data'' = UString bytes \<and> hexVal (drop 2 bytes) = amount \<and> ve_tokenSpendAtomic v = decStr amount
       | REVERT \<Rightarrow> member receipt ''status'' = UString ''reverted'' \<and> member receipt ''logs'' = UArray [] \<and> ve_tokenSpendAtomic v = ''0'')"
  using assms(1)
proof (rule verifyChain_Inr)
  fix t r b b'
  assume valid: "validEnvelopeBinding X expectation"
    and parsed: "parseTransaction (ue_transaction evidence) = Some t" "parseReceipt (ue_receipt evidence) = Some r"
      "parseBlock (ue_canonicalBlockByNumber evidence) = Some b" "parseBlock (ue_canonicalBlockByHash evidence) = Some b'"
    and clean: "presenceIssues expectation evidence = []" "transactionIssues expectation t = []"
      "blockAndReceiptIssues expectation t r b b' = []" "logCountIssues r = []"
      "\<And>transfer. transferOf r = Some transfer \<Longrightarrow> transferIssues (ex_envelope expectation) transfer = []"
      "\<And>log. log \<in> set (rc_logs r) \<Longrightarrow> logIssues t log = []"
    and v: "v = verifiedEvidence expectation t r"
  from valid obtain decoded where decoded: "decodeTransferIndependent (getProp envelope ''calldata'') = Decoded decoded"
    "getProp (getProp envelope ''decodedArguments'') ''recipient'' = JString (de_recipient decoded)"
    "getProp (getProp envelope ''decodedArguments'') ''amountAtomic'' = JString (de_amountAtomic decoded)"
    "getProp envelope ''value'' = JString ''0''"
    by (auto simp: validEnvelopeBinding_def Let_def envelope_def simp del: getProp.simps split: decode_result.splits)
  from decode_Decoded [OF decoded(1)] obtain n where n: "n < 2 ^ 256"
    "getProp envelope ''calldata'' = JString (abiTransfer (de_recipient decoded) n)" "de_amountAtomic decoded = decStr n"
    by (metis decoded_transfer.select_convs(3))
  have whole: "\<not> rc_malformedLog r" using clean(1) parsed(2) by (simp add: presenceIssues_def Let_def)
  from parseReceipt_members [OF parsed(2) whole] obtain items where items: "member receipt ''logs'' = UArray items"
    "map parseLog items = map Some (rc_logs r)" "member receipt ''transactionHash'' = UString (rc_transactionHash r)"
    "member receipt ''blockHash'' = UString (rc_blockHash r)" "member receipt ''status'' = UString (rc_status r)"
    "member receipt ''gasUsed'' = UBigInt (rc_gasUsed r)" "member receipt ''effectiveGasPrice'' = UBigInt (rc_effectiveGasPrice r)"
    unfolding receipt_def by blast
  have fields: "tx_hash t = ex_expectedTransactionHash expectation" "tx_chainId t = 31337"
    "getProp envelope ''from'' = JString (tx_from t)" "getProp envelope ''to'' = JString (tx_to t)"
    "getProp envelope ''calldata'' = JString (tx_input t)" "tx_value t = 0" "tx_nonce t = numeralOf (getProp envelope ''nonce'')"
    "tx_gas t = numeralOf (getProp envelope ''gasLimit'')" "tx_accessList t = []"
    using clean(2) decoded(4) by (simp_all add: transactionIssues_def Let_def envelope_def decVal_def digitVal_def del: getProp.simps)
  have places: "tx_blockHash t = pb_hash b" "pb_hash b' = pb_hash b" "rc_transactionHash r = tx_hash t" "rc_blockHash r = tx_blockHash t"
    "rc_gasUsed r \<le> tx_gas t" "rc_status r = ''success'' \<or> rc_status r = ''reverted''"
    using clean(3) by (auto simp: blockAndReceiptIssues_def)
  have logs: "case ve_receiptStatus v of
         SUCCESS \<Rightarrow> \<exists>log bytes. member receipt ''status'' = UString ''success'' \<and> member receipt ''logs'' = UArray [log]
           \<and> member log ''address'' = UString (tx_to t) \<and> member log ''removed'' = UBool False
           \<and> member log ''topics'' = UArray [UString TRANSFER_EVENT_SIGNATURE,
               UString (addressTopic (tx_from t)), UString (addressTopic (de_recipient decoded))]
           \<and> member log ''data'' = UString bytes \<and> hexVal (drop 2 bytes) = n \<and> ve_tokenSpendAtomic v = decStr n
       | REVERT \<Rightarrow> member receipt ''status'' = UString ''reverted'' \<and> member receipt ''logs'' = UArray [] \<and> ve_tokenSpendAtomic v = ''0''"
  proof (cases "rc_status r = ''success''")
    case True
    with accepted_logs [OF clean(4) places(6)] obtain log transfer where log: "rc_logs r = [log]"
      "transferFromLog log = Some transfer" "transferOf r = Some transfer" by auto
    with items(2) obtain item where item: "items = [item]" "parseLog item = Some log" by auto
    have same: "tl_tokenAddress transfer = tx_to t" "tl_from transfer = tx_from t" "tl_to transfer = de_recipient decoded"
      "tl_amountAtomic transfer = decStr n" "\<not> lg_removed log"
      using clean(5) [OF log(3)] clean(6) [of log] log(1) fields(3,4) decoded(2,3) n(3)
      by (simp_all add: transferIssues_def logIssues_def Let_def envelope_def del: getProp.simps)
    show ?thesis
      using parseLog_members [OF item(2)] transferFromLog_Some [OF log(2)] same True items(1,5) item(1) decoded(3) n(3)
      by (simp add: v verifiedEvidence_def Let_def envelope_def del: getProp.simps member.simps)
  next
    case False
    with accepted_logs [OF clean(4) places(6)] places(6) items show ?thesis
      by (simp add: v verifiedEvidence_def Let_def del: getProp.simps member.simps)
  qed
  have fee: "ve_nativeFeeAtomic v = amountText (rc_gasUsed r * rc_effectiveGasPrice r)"
    by (simp add: v verifiedEvidence_def Let_def)
  have texts: "textOf (getProp envelope ''from'') = tx_from t" "textOf (getProp envelope ''to'') = tx_to t"
    using fields(3,4) by simp_all
  show ?thesis
    unfolding texts
    using parseTransaction_members [OF parsed(1)] parseBlock_members [OF parsed(3)] parseBlock_members [OF parsed(4)]
      n(1,2) fields places items(3-7) logs fee
    by (rule_tac exI [of _ "de_recipient decoded"], rule_tac exI [of _ n], rule_tac exI [of _ "rc_gasUsed r"],
        rule_tac exI [of _ "rc_effectiveGasPrice r"]) (simp add: tx_def del: getProp.simps member.simps)
qed

section \<open>A sample\<close>

text \<open>The sample envelope with the calldata of its transfer, and honest evidence of it.\<close>

definition transferEnvelope :: jsval where
  "transferEnvelope = JObject (setProp ''calldata'' (JString (abiTransfer (textOf (sampleAddress (CHR ''b''))) 250))
     (propertiesOf (sampleEnvelope sampleArguments)))"

definition sampleHashOf :: "char \<Rightarrow> string" where
  "sampleHashOf c = ''0x'' @ replicate 64 c"

definition sampleExpectation :: evidence_expectation where
  "sampleExpectation = \<lparr>ex_operationId = ''op_1'', ex_reservationId = ''reservation_1'', ex_envelopeId = ''env_1'',
     ex_envelopeRevision = 1, ex_envelopeHash = sampleHashOf (CHR ''0''), ex_authorizationId = ''auth_1'', ex_fixtureInstanceId = ''fixture_1'',
     ex_expectedTransactionHash = sampleHashOf (CHR ''7''),
     ex_fixture = \<lparr>fx_fixtureInstanceId = ''fixture_1'', fx_chainId = LOCAL_CHAIN_ID, fx_walletAddress = textOf (sampleAddress (CHR ''c'')),
       fx_tokenAddress = textOf (sampleAddress (CHR ''a'')), fx_rpcUrl = ''http://127.0.0.1:8545''\<rparr>,
     ex_envelope = transferEnvelope\<rparr>"

definition sampleEvidence :: untrusted_evidence where
  "sampleEvidence =
     (let h = UString (sampleHashOf (CHR ''7'')); b = UString (sampleHashOf (CHR ''8''));
          block = UObject [(''number'', UBigInt 18), (''hash'', b)];
          address = (\<lambda>c. textOf (sampleAddress c)) in
      \<lparr>ue_transaction = UObject [(''hash'', h), (''chainId'', UBigInt 31337), (''blockHash'', b), (''blockNumber'', UBigInt 18),
         (''from'', UString (address (CHR ''c''))), (''to'', UString (address (CHR ''a''))), (''value'', UBigInt 0),
         (''input'', UString (abiTransfer (address (CHR ''b'')) 250)), (''nonce'', UBigInt 4), (''type'', UString ''eip1559''),
         (''gas'', UBigInt 60000), (''maxPriorityFeePerGas'', UBigInt 1), (''maxFeePerGas'', UBigInt 2), (''accessList'', UArray [])],
       ue_receipt = UObject [(''transactionHash'', h), (''blockHash'', b), (''blockNumber'', UBigInt 18), (''status'', UString ''success''),
         (''gasUsed'', UBigInt 51000), (''effectiveGasPrice'', UBigInt 2),
         (''logs'', UArray [UObject [(''address'', UString (address (CHR ''a''))),
            (''topics'', UArray [UString TRANSFER_EVENT_SIGNATURE, UString (addressTopic (address (CHR ''c''))), UString (addressTopic (address (CHR ''b'')))]),
            (''data'', UString (''0x'' @ hexStr 64 250)), (''logIndex'', UBigInt 0), (''transactionHash'', h), (''blockHash'', b),
            (''blockNumber'', UBigInt 18), (''removed'', UBool False)]])],
       ue_canonicalBlockByNumber = block, ue_canonicalBlockByHash = block\<rparr>)"

lemma sampleAddress_canonical: "canonicalAddress (textOf (sampleAddress (CHR ''a'')))" "canonicalAddress (textOf (sampleAddress (CHR ''b'')))"
  "canonicalAddress (textOf (sampleAddress (CHR ''c'')))"
  by (simp_all add: sampleAddress_def canonicalAddress_def prefixed_def list_all_iff isHex_def isDigit_def)

lemma envelopeV2_setProp:
  assumes "canonicalExecutionEnvelopeV2Schema X (JObject kvs) = Some (JObject kvs)" "map_of (envelopeV2Shape X) key = Some (False, parser)"
    and "parser v = Some v" "v \<noteq> JUndefined" "key \<notin> {''createdAt'', ''expiresAt'', ''maxPriorityFeePerGas''}"
    and "feesOrdered (textOf (getProp (JObject kvs) ''maxPriorityFeePerGas''))
       (textOf (getProp (getProp (JObject (setProp key v kvs)) ''maximumFeeConstraints'') ''maxFeePerGas''))"
  shows "canonicalExecutionEnvelopeV2Schema X (JObject (setProp key v kvs)) = Some (JObject (setProp key v kvs))"
proof -
  let ?shape = "envelopeV2Shape X"
  from assms(1) have s: "strictObject ?shape (JObject kvs) = Some (JObject kvs)" and r: "lifetimeOrdered (JObject kvs)"
    by (simp_all add: canonicalExecutionEnvelopeV2Schema_def refined_Some del: getProp.simps)
  from s have p: "parseFields ?shape kvs = Some kvs" by (auto split: if_splits)
  have "map_of kvs key \<noteq> None"
    using parseFields_required [OF p _ assms(2)] envelopeV2Shape_lawful [of X] by (auto simp: lawfulShape_def)
  then have "parseFields ?shape (setProp key v kvs) = Some (setProp key v kvs)"
    using envelopeV2Shape_lawful [of X] assms(3,4)
    by (intro parseFields_setProp [OF p _ assms(2)]) (simp_all add: lawfulShape_def map_of_setProp)
  then have "strictObject ?shape (JObject (setProp key v kvs)) = Some (JObject (setProp key v kvs))" by (rule strictObject_parsed)
  moreover have "getProp (JObject (setProp key v kvs)) k = getProp (JObject kvs) k" if "k \<noteq> key" for k
    using that by (simp add: map_of_setProp)
  moreover have "''createdAt'' \<noteq> key" "''expiresAt'' \<noteq> key" "''maxPriorityFeePerGas'' \<noteq> key" using assms(5) by auto
  ultimately show ?thesis
    using r assms(6)
    by (simp add: canonicalExecutionEnvelopeV2Schema_def refined_Some lifetimeOrdered_def del: getProp.simps strictObject.simps)
qed

lemma transferEnvelope_parses:
  "canonicalExecutionEnvelopeV2Schema sampleExternals transferEnvelope = Some transferEnvelope"
proof -
  obtain kvs where kvs: "sampleEnvelope sampleArguments = JObject kvs" by (simp add: sampleEnvelope_def)
  let ?data = "JString (abiTransfer (textOf (sampleAddress (CHR ''b''))) 250)"
  have new: "transferEnvelope = JObject (setProp ''calldata'' ?data kvs)" by (simp add: transferEnvelope_def kvs)
  have version: "getProp (sampleEnvelope sampleArguments) ''schemaVersion'' = JString ''2.0''" by (simp add: sampleEnvelope_def)
  have old: "canonicalExecutionEnvelopeV2Schema sampleExternals (JObject kvs) = Some (JObject kvs)"
    using sampleEnvelope_parses(1) [unfolded kvs] version [unfolded kvs]
    by (elim parseExecutionEnvelope_cases) (auto dest: envelopeV1_version(1))
  have "feesOrdered (textOf (getProp (JObject kvs) ''maxPriorityFeePerGas''))
      (textOf (getProp (getProp (JObject kvs) ''maximumFeeConstraints'') ''maxFeePerGas''))"
    using old by (simp add: canonicalExecutionEnvelopeV2Schema_def refined_Some del: getProp.simps)
  then show ?thesis
    unfolding new
    by (intro envelopeV2_setProp [OF old, where parser = "checked (stringField byteStringSchema)"])
      (simp_all add: envelopeV2Shape_def required_def optionally_def checked_def map_of_setProp transfer_calldata_bytes [OF sampleAddress_canonical(2)])
qed

lemma transferEnvelope_props:
  "getProp transferEnvelope k = (if k = ''calldata'' then JString (abiTransfer (textOf (sampleAddress (CHR ''b''))) 250)
     else getProp (sampleEnvelope sampleArguments) k)"
  by (simp add: transferEnvelope_def sampleEnvelope_def map_of_setProp del: setProp.simps)

lemma transferEnvelope_hash: "hashExecutionEnvelope sampleExternals transferEnvelope = Some (sampleHashOf (CHR ''0''))"
proof -
  have "wfJson transferEnvelope"
    using sampleEnvelope_wf(1) unfolding transferEnvelope_def sampleEnvelope_def propertiesOf.simps by (rule setProp_wf) simp
  from hash_parsed [OF parseExecutionEnvelope_v2 [OF transferEnvelope_parses] this] show ?thesis
    by (simp add: sampleExternals_defs sampleHashOf_def)
qed

lemma sampleExpectation_shape: "validExpectationShape sampleUrl sampleExpectation"
  using sampleAddress_canonical
  by (simp add: validExpectationShape_def sampleExpectation_def isIdentifier_def sampleUrl_def loopbackUrl_def sampleHashOf_def
      canonicalHash_def prefixed_def list_all_iff isHex_def isDigit_def positiveSafeInt_def isAlnum_def isLower_def isUpper_def identifierChar_def)

lemma transferEnvelope_fields:
  "getProp transferEnvelope ''envelopeId'' = JString ''env_1''" "getProp transferEnvelope ''revision'' = JNumber (jsInt 1)"
  "getProp transferEnvelope ''envelopeHash'' = JString (sampleHashOf (CHR ''0''))"
  "getProp transferEnvelope ''budgetReservationId'' = JString ''reservation_1''"
  "getProp transferEnvelope ''from'' = JString (textOf (sampleAddress (CHR ''c'')))"
  "getProp transferEnvelope ''to'' = JString (textOf (sampleAddress (CHR ''a'')))" "getProp transferEnvelope ''value'' = JString ''0''"
  "getProp transferEnvelope ''nonce'' = JString ''4''" "getProp transferEnvelope ''transactionType'' = JString ''eip1559''"
  "getProp transferEnvelope ''gasLimit'' = JString ''60000''" "getProp transferEnvelope ''maxPriorityFeePerGas'' = JString ''1''"
  "getProp (getProp transferEnvelope ''maximumFeeConstraints'') ''maxFeePerGas'' = JString ''2''"
  "getProp (getProp transferEnvelope ''decodedArguments'') ''recipient'' = JString (textOf (sampleAddress (CHR ''b'')))"
  "getProp (getProp transferEnvelope ''decodedArguments'') ''amountAtomic'' = JString ''250''"
  "getProp transferEnvelope ''calldata'' = JString (abiTransfer (textOf (sampleAddress (CHR ''b''))) 250)"
  "getProp transferEnvelope ''expectedAssetDeltas'' = JArray [JObject
     [(''assetAddress'', sampleAddress (CHR ''a'')), (''from'', sampleAddress (CHR ''c'')),
      (''to'', sampleAddress (CHR ''b'')), (''amountAtomic'', JString ''250'')]]"
  unfolding transferEnvelope_props
  by (simp_all add: sampleEnvelope_def sampleArguments_def sampleHashText_def sampleHashOf_def sampleAddress_def)

lemma sampleExpectation_envelope: "validEnvelopeBinding sampleExternals sampleExpectation"
proof -
  have decoded: "decodeTransferIndependent (JString (abiTransfer (textOf (sampleAddress (CHR ''b''))) 250)) =
    Decoded \<lparr>de_selector = TRANSFER_SELECTOR, de_recipient = textOf (sampleAddress (CHR ''b'')), de_amountAtomic = decStr 250\<rparr>"
    by (rule decode_abiTransfer [OF sampleAddress_canonical(2)]) simp
  have amount: "decStr 250 = ''250''" by code_simp
  have delta: "getProp (JObject
     [(''assetAddress'', sampleAddress (CHR ''a'')), (''from'', sampleAddress (CHR ''c'')),
      (''to'', sampleAddress (CHR ''b'')), (''amountAtomic'', JString ''250'')]) k = JString s \<Longrightarrow> sameAs (JObject
     [(''assetAddress'', sampleAddress (CHR ''a'')), (''from'', sampleAddress (CHR ''c'')),
      (''to'', sampleAddress (CHR ''b'')), (''amountAtomic'', JString ''250'')]) k b k' \<longleftrightarrow> getProp b k' = JString s" for k s b k'
    by (rule sameAs_text)
  have string: "sampleAddress c = JString (textOf (sampleAddress c))" for c by (simp add: sampleAddress_def)
  show ?thesis
    unfolding validEnvelopeBinding_def sampleExpectation_def Let_def transferEnvelope_parses transferEnvelope_hash
    by (simp add: transferEnvelope_fields transferEnvelope_parses transferEnvelope_hash decoded amount
        del: getProp.simps decodeTransferIndependent.simps)
      (simp add: sameAs_def transferEnvelope_fields sampleAddress_def)
qed

definition sampleTransaction :: parsed_transaction where
  "sampleTransaction = \<lparr>tx_hash = sampleHashOf (CHR ''7''), tx_chainId = 31337, tx_blockHash = sampleHashOf (CHR ''8''),
     tx_blockNumber = 18, tx_transactionIndex = None, tx_from = textOf (sampleAddress (CHR ''c'')),
     tx_to = textOf (sampleAddress (CHR ''a'')), tx_value = 0, tx_input = abiTransfer (textOf (sampleAddress (CHR ''b''))) 250, tx_nonce = 4,
     tx_type = ''eip1559'', tx_gas = 60000, tx_maxPriorityFeePerGas = 1, tx_maxFeePerGas = 2, tx_accessList = []\<rparr>"

definition sampleLog :: parsed_log where
  "sampleLog = \<lparr>lg_address = textOf (sampleAddress (CHR ''a'')),
     lg_topics = [TRANSFER_EVENT_SIGNATURE, addressTopic (textOf (sampleAddress (CHR ''c''))), addressTopic (textOf (sampleAddress (CHR ''b'')))],
     lg_data = ''0x'' @ hexStr 64 250, lg_logIndex = 0, lg_transactionHash = sampleHashOf (CHR ''7''),
     lg_blockHash = sampleHashOf (CHR ''8''), lg_blockNumber = 18, lg_removed = False\<rparr>"

definition sampleReceipt :: parsed_receipt where
  "sampleReceipt = \<lparr>rc_transactionHash = sampleHashOf (CHR ''7''), rc_blockHash = sampleHashOf (CHR ''8''), rc_blockNumber = 18,
     rc_status = ''success'', rc_gasUsed = 51000, rc_effectiveGasPrice = 2, rc_logs = [sampleLog], rc_malformedLog = False\<rparr>"

definition sampleParsedBlock :: parsed_block where
  "sampleParsedBlock = \<lparr>pb_number = 18, pb_hash = sampleHashOf (CHR ''8'')\<rparr>"

lemma sample_hex: "canonicalHash (sampleHashOf (CHR ''7''))" "canonicalHash (sampleHashOf (CHR ''8''))" "canonicalHash TRANSFER_EVENT_SIGNATURE"
  "canonicalHash (addressTopic (textOf (sampleAddress (CHR ''b''))))" "canonicalHash (addressTopic (textOf (sampleAddress (CHR ''c''))))"
  "byteStringSchema (''0x'' @ hexStr 64 250)" "byteStringSchema (abiTransfer (textOf (sampleAddress (CHR ''b''))) 250)"
  using transfer_calldata_bytes [OF sampleAddress_canonical(2)] isHex_hexStr [of 64 250]
  by (simp_all add: sampleHashOf_def canonicalHash_def prefixed_def list_all_iff isHex_def isDigit_def TRANSFER_EVENT_SIGNATURE_def
      addressTopic_def sampleAddress_def byteStringSchema_def calldataSchema_def del: hexStr.simps)

lemma sample_parses:
  "parseTransaction (ue_transaction sampleEvidence) = Some sampleTransaction"
  "parseReceipt (ue_receipt sampleEvidence) = Some sampleReceipt"
  "parseBlock (ue_canonicalBlockByNumber sampleEvidence) = Some sampleParsedBlock"
  "parseBlock (ue_canonicalBlockByHash sampleEvidence) = Some sampleParsedBlock"
  by (simp_all add: sampleEvidence_def Let_def parseTransaction_def parseReceipt_def parseBlock_def parseLog_def guard_simps optionalIndex_def
      sample_hex sample_hex(6) [simplified] sampleAddress_canonical sampleTransaction_def sampleReceipt_def sampleLog_def sampleParsedBlock_def map_filter_def del: hexStr.simps)

lemma sample_present: "presenceIssues sampleExpectation sampleEvidence = []"
  unfolding presenceIssues_def Let_def sample_parses blockIssues_def
  by (simp add: sampleEvidence_def missing_def sampleExpectation_def sampleReceipt_def Let_def)

lemma sample_transaction_clean: "transactionIssues sampleExpectation sampleTransaction = []"
  by (simp add: transactionIssues_def sampleExpectation_def sampleTransaction_def transferEnvelope_fields Let_def
      decVal_def digitVal_def del: getProp.simps)

lemma sample_transfer: "transferOf sampleReceipt = Some \<lparr>tl_logIndex = ''0'', tl_tokenAddress = textOf (sampleAddress (CHR ''a'')),
    tl_from = textOf (sampleAddress (CHR ''c'')), tl_to = textOf (sampleAddress (CHR ''b'')), tl_amountAtomic = ''250''\<rparr>"
  by code_simp

lemma sample_evidence_verifies:
  "verifyUntrustedChainEvidence sampleExternals sampleUrl sampleExpectation sampleEvidence
     = Inr (verifiedEvidence sampleExpectation sampleTransaction sampleReceipt)"
proof -
  have mismatches: "expectationMismatches sampleExternals sampleUrl sampleExpectation = []"
    by (simp add: expectationMismatches_def sampleExpectation_shape sampleExpectation_envelope)
  have blocks: "blockAndReceiptIssues sampleExpectation sampleTransaction sampleReceipt sampleParsedBlock sampleParsedBlock = []"
    by (simp add: blockAndReceiptIssues_def sampleExpectation_def sampleTransaction_def sampleReceipt_def sampleParsedBlock_def)
  have count: "logCountIssues sampleReceipt = []"
    by (simp add: logCountIssues_def sample_transfer Let_def) (simp add: sampleReceipt_def sampleLog_def isTransferLog_def)
  have logs: "concat (map (logIssues sampleTransaction) (rc_logs sampleReceipt)) = []"
    by (simp add: logIssues_def sampleReceipt_def sampleTransaction_def sampleLog_def)
  have same: "transferIssues (ex_envelope sampleExpectation) \<lparr>tl_logIndex = ''0'', tl_tokenAddress = textOf (sampleAddress (CHR ''a'')),
    tl_from = textOf (sampleAddress (CHR ''c'')), tl_to = textOf (sampleAddress (CHR ''b'')), tl_amountAtomic = ''250''\<rparr> = []"
    by (simp add: transferIssues_def sampleExpectation_def transferEnvelope_fields Let_def del: getProp.simps)
  show ?thesis
    unfolding verifyUntrustedChainEvidence_def Let_def mismatches sample_parses
    by (simp add: sample_present sample_transaction_clean blocks count logs sample_transfer same del: concat_map_singleton)
qed

theorem verified_evidence_is_the_transfer_witness:
  "\<exists>v log. verifyUntrustedChainEvidence sampleExternals sampleUrl sampleExpectation sampleEvidence = Inr v
     \<and> member (ue_receipt sampleEvidence) ''logs'' = UArray [log] \<and> ve_tokenSpendAtomic v = ''250''"
proof -
  have status: "ve_receiptStatus (verifiedEvidence sampleExpectation sampleTransaction sampleReceipt) = SUCCESS"
    "ve_tokenSpendAtomic (verifiedEvidence sampleExpectation sampleTransaction sampleReceipt) = ''250''"
    by (simp_all add: verifiedEvidence_def sampleReceipt_def Let_def sampleExpectation_def transferEnvelope_fields del: getProp.simps)
  show ?thesis
    using verified_evidence_is_the_transfer [OF sample_evidence_verifies] sample_evidence_verifies status
    by (auto simp del: getProp.simps member.simps)
qed

end
