(* ===== verification/SignerProperties.thy ===== *)
theory SignerProperties
  imports Signer ChainEvidence
begin

text \<open>
  What the signer guarantees (\<open>Signer\<close>): what its checks establish, that it signs only what is authorized at that
  moment, and a concrete run that signs.
\<close>

section \<open>Lemmas: what the checks establish\<close>

lemma checkSigning_Inr:
  assumes "checkSigning X dp ids ctx existing now = Inr ck"
  obtains verified address where "checkedAuthorization ctx = Inr (ck_authorization ck)" "checkedEnvelope X ctx = Inr (ck_envelope ck)"
    "checkBinding ctx (ck_authorization ck) (ck_envelope ck) = Inr ()"
    "checkCurrent dp ctx (ck_authorization ck) (ck_envelope ck) existing now = Inr ()"
    "checkedFixture ctx (ck_authorization ck) (ck_envelope ck) = Inr (ck_fixtureInstanceId ck)"
    "envelopeShapeOk (ck_authorization ck) (ck_envelope ck)"
    "constraintsFrom (so_intentPayload (sx_operation ctx)) (so_policyDocument (sx_operation ctx)) = Some (ck_constraints ck)"
    "ck_core ck = JObject (coreFromEnvelope (ck_envelope ck) ids (ck_fixtureInstanceId ck))"
    "ck_executable ck = executableFromEnvelope (ck_envelope ck) ids (ck_fixtureInstanceId ck)"
    "ck_simulation ck = simulationEvidenceFromRecord (ck_candidate ck) (ck_envelope ck)"
    "verifyExecutableTransfer X (Inr (ck_core ck)) (ck_executable ck) (ck_simulation ck) (ck_constraints ck) = Inr verified"
    "dp_loadDisposableAccount dp = Inr address" "getProp (ck_envelope ck) ''from'' = JString address"
proof -
  have steps: "(case v of Inl ExactThrows \<Rightarrow> Inl e1 | Inl (ExactVerificationFailure c p) \<Rightarrow> Inl e2 | Inr x \<Rightarrow> Inr ()) = Inr u \<longleftrightarrow> (\<exists>x. v = Inr x)"
    for v :: "exact_failure + jsval" and e1 e2 :: signing_stop and u
    by (auto split: sum.splits exact_failure.splits)
  have account: "(case a of Inl e \<Rightarrow> Inl (Rejects e) | Inr address \<Rightarrow> g address) = Inr r \<longleftrightarrow> (\<exists>address. a = Inr address \<and> g address = Inr r)"
    for a :: "failure + string" and g and r :: checked_signing
    by (auto split: sum.splits)
  have simulated: "checkedSimulation X c e f = Inr (candidate, simulation) \<Longrightarrow> simulation = simulationEvidenceFromRecord candidate e" for c e f candidate simulation
    by (auto simp: checkedSimulation_def result_simps Let_def)
  from assms show thesis
    unfolding checkSigning_def andThen_eq_Inr Let_def split_paired_Ex steps account case_prod_conv
    by (elim exE conjE, clarsimp simp: result_simps simp del: getProp.simps) (rule that; (assumption | simp add: simulated del: getProp.simps))
qed

lemma asAddress_canonical: "canonicalAddress (asAddress s) \<Longrightarrow> asAddress s = s"
  by (auto simp: asAddress_def canonicalAddress_def prefixed_def split: if_splits)

lemma intStr_canonical: "canonicalDec (intStr n) \<Longrightarrow> int (decVal (intStr n)) = n"
  by (auto simp: intStr_def canonicalDec_def isDigit_def split: if_splits)

text \<open>The properties of the executable that the envelope gives it.\<close>

lemma executable_fields:
  "getProp (executableFromEnvelope e ids f) ''from'' = JString (xf_from (exactFields e))"
  "getProp (executableFromEnvelope e ids f) ''target'' = JString (xf_to (exactFields e))"
  "getProp (executableFromEnvelope e ids f) ''amountAtomic'' = getProp (getProp e ''decodedArguments'') ''amountAtomic''"
  "getProp (executableFromEnvelope e ids f) ''nonce'' = getProp e ''nonce''"
  "getProp (executableFromEnvelope e ids f) ''gasLimit'' = getProp e ''gasLimit''"
  "getProp (executableFromEnvelope e ids f) ''maxFeePerGas'' = getProp (getProp e ''maximumFeeConstraints'') ''maxFeePerGas''"
  by (simp_all add: executableFromEnvelope_def coreFromEnvelope_def exactFields_def Let_def)

lemma executable_addresses:
  assumes "executableTransferCandidateSchema c \<noteq> None" "getProp c ''from'' = JString s" "getProp c ''target'' = JString t"
  shows "canonicalAddress s" "canonicalAddress t"
proof -
  from assms(1) obtain v where v: "strictObject executableShape c = Some v"
    by (auto simp: executable_schema refined_def split: option.splits)
  have lawful: "lawfulShape executableShape"
    unfolding executableShape_def by (simp add: shape_laws nested_parsers)
  have "map_of executableShape ''from'' = Some (False, checked addressField)" "map_of executableShape ''target'' = Some (False, checked addressField)"
    by (simp_all add: executableShape_def required_def)
  from required_text [OF v lawful this(1)] required_text [OF v lawful this(2)] assms(2,3)
  show "canonicalAddress s" "canonicalAddress t" by (auto simp: address_schema)
qed

text \<open>What the freshness check adds to an exact executable.\<close>

lemma fresh_execution:
  assumes "checkSimulationFreshness X input = Some None" "fi_verifiedCore input = Inr core"
  obtains head tokens native nonce where "getChainId (fi_rpc input) = Some 31337" "getBlockNumber (fi_rpc input) = Some head"
    "getPendingNonce (fi_rpc input) (textOf (getProp (fi_executable input) ''from'')) = Some (numeralOf (getProp (fi_executable input) ''nonce''))"
    "getTokenBalance (fi_rpc input) (textOf (getProp (fi_executable input) ''target'')) (textOf (getProp (fi_executable input) ''from'')) head = Some tokens"
    "numeralOf (getProp (fi_executable input) ''amountAtomic'') \<le> tokens"
    "getNativeBalance (fi_rpc input) (textOf (getProp (fi_executable input) ''from'')) head = Some native"
    "numeralOf (getProp (fi_executable input) ''gasLimit'') * numeralOf (getProp (fi_executable input) ''maxFeePerGas'') \<le> native"
    "numeralOf (getProp (fi_executable input) ''gasLimit'') * numeralOf (getProp (fi_executable input) ''maxFeePerGas'')
       \<le> min (int (decVal (fc_intentMaximumNetworkFeeAtomic (fi_constraints input)))) (int (decVal (fc_policyMaximumNetworkFeeAtomic (fi_constraints input))))"
    "executableTransferCandidateSchema (fi_executable input) \<noteq> None"
proof -
  let ?e = "fi_executable input" and ?s = "fi_simulation input" and ?c = "fi_constraints input"
  from checkSimulationFreshness_fresh [OF assms(1)] obtain head tokens native n where
    exact: "verifyExecutableTransfer X (Inr core) ?e ?s ?c = Inr ?e"
    and node: "getChainId (fi_rpc input) = Some 31337" "getBlockNumber (fi_rpc input) = Some head"
    "getPendingNonce (fi_rpc input) (textOf (getProp ?e ''from'')) = Some n" "getProp ?s ''senderNonce'' = JString (intStr n)"
    "getTokenBalance (fi_rpc input) (textOf (getProp ?e ''target'')) (textOf (getProp ?e ''from'')) head = Some tokens"
    "numeralOf (getProp ?e ''amountAtomic'') \<le> tokens" "getNativeBalance (fi_rpc input) (textOf (getProp ?e ''from'')) head = Some native"
    "numeralOf (getProp ?s ''maximumNativeFeeAtomic'') \<le> native"
    unfolding assms(2) by blast
  from exact obtain h where e: "executableTransferCandidateSchema ?e \<noteq> None" "validEvidence X ?s" "evidenceBinds ?s ?e"
    "canonicalDec (fc_intentMaximumNetworkFeeAtomic ?c)" "canonicalDec (fc_policyMaximumNetworkFeeAtomic ?c)"
    "numeralOf (getProp ?e ''gasLimit'') * numeralOf (getProp ?e ''maxFeePerGas'')
       \<le> int (decVal (minAtomic (fc_intentMaximumNetworkFeeAtomic ?c) (fc_policyMaximumNetworkFeeAtomic ?c)))"
    "getProp ?s ''maximumNativeFeeAtomic'' = JString (amountText (numeralOf (getProp ?e ''gasLimit'') * numeralOf (getProp ?e ''maxFeePerGas'')))"
    by (rule verifyExecutable_Inr) blast
  have "getProp ?e ''nonce'' = JString (intStr n)" using e(3) node(4) sameAs_eq unfolding evidenceBinds_def by metis
  moreover have "canonicalDec (intStr n)" using e(2) node(4) by (simp add: validEvidence_def Let_def del: getProp.simps)
  ultimately have nonce: "numeralOf (getProp ?e ''nonce'') = n" using intStr_canonical by simp
  have native: "numeralOf (getProp ?e ''gasLimit'') * numeralOf (getProp ?e ''maxFeePerGas'') \<le> native"
    using node(8) e(7) by simp
  show thesis
    using node nonce native e(1) e(6) [unfolded decVal_minAtomic [OF e(4,5)] of_nat_min] by (intro that [of head tokens native]) simp_all
qed

section \<open>Properties\<close>

text \<open>
  C14. The signer signs only what is authorized now: a run of \<open>signAuthorizedTransferCore\<close> signs at most
  once, and when it signs, it has loaded the context of the operation, authorization and adapter request that the
  request names, its credential is an active adapter's, the stored authorization is a consumed owner approval or
  an autonomous permission, not invalidated and not expired, there are four fences, those of the system, the owner,
  the agent and the policy are active and at its versions, the reservation is authorized, the stored envelope parses,
  hashes to the stored hash and is the one of the authorization and of the operation, and there is no durable signature unless
  rematerialization was asked for. The signed fields are those of the envelope: on the local chain, without value or
  access list, calldata that transfers its amount to its recipient at the current fixture's token, from the disposable account,
  with the pending nonce of the node and the gas and fees of the envelope,
  at a cost of at most the fee ceilings of intent and policy, which balance and token balance of the sender cover.
\<close>

theorem signed_as_authorized:
  assumes "signAuthorizedTransferCore X dp requestInput remat (w, []) = (out, (w', sts))" "made \<in> set (signatures sts)"
  shows "signatures sts = [made] \<and> (\<exists>request ids ctx w1 w2 existing a payload hash revision envelope constraints fixture recipient amount head tokens native.
      authorizedTransferRequestSchema requestInput = Some request
    \<and> ids = \<lparr>id_operationId = textOf (getProp request ''operationId''), id_authorizationId = textOf (getProp request ''authorizationId''),
             id_adapterRequestId = textOf (getProp request ''adapterRequestId'')\<rparr>
    \<and> loadSigningContext (dp_store dp) ids (sn_credentialId (dp_credential dp)) w = (Inr (Some ctx), w1)
    \<and> sx_signerCredential ctx = Some (sn_componentId (dp_credential dp), ADAPTER, True)
    \<and> findDurableSignedEvidence (dp_store dp) ids w1 = (Inr existing, w2) \<and> (existing = None \<or> remat)
    \<and> sx_authorization ctx = Some a \<and> \<not> sa_invalidated a
    \<and> (sa_authorizationKind a = OWNER_APPROVAL \<and> sa_policyDecisionStatus a = Some REQUIRE_APPROVAL
         \<and> sa_approvalId a \<noteq> None \<and> sa_ownerAuthenticationId a \<noteq> None \<and> sa_approvalStatus a = Some CONSUMED_A
         \<and> sa_approvalApproverId a \<noteq> None \<and> sa_approvalConsumedAt a \<noteq> None
       \<or> sa_authorizationKind a = AUTONOMOUS_POLICY \<and> sa_policyDecisionStatus a = Some ALLOW_AUTONOMOUS
         \<and> sa_approvalId a = None \<and> sa_ownerAuthenticationId a = None \<and> sa_approvalStatus a = None
         \<and> sa_approvalApproverId a = None \<and> sa_approvalConsumedAt a = None)
    \<and> (\<forall>t. sa_expiresAt a = Some t \<longrightarrow> \<not> passed dp t (dp_now dp w2)) \<and> \<not> passed dp (textOf (getProp envelope ''expiresAt'')) (dp_now dp w2)
    \<and> length (remdups (map fr_scope (sx_fences ctx))) = 4
    \<and> list_all (\<lambda>(scope, version). \<exists>f. find (\<lambda>f. fr_scope f = scope) (rev (sx_fences ctx)) = Some f
          \<and> fr_state f = ''ACTIVE'' \<and> fr_version f = version)
        [(SYSTEM_SCOPE, fs_systemFenceVersion (sa_fences a)), (OWNER_SCOPE, fs_ownerFenceVersion (sa_fences a)),
         (AGENT_SCOPE, fs_agentFenceVersion (sa_fences a)), (POLICY_SCOPE, fs_policyFenceVersion (sa_fences a))]
    \<and> map_option fst (sx_reservation ctx) = Some AUTHORIZED_R
    \<and> sx_envelope ctx = Some (payload, hash, revision) \<and> canonicalExecutionEnvelopeV2Schema X payload = Some envelope
    \<and> hashExecutionEnvelope X envelope = Some hash
    \<and> getProp envelope ''envelopeHash'' = JString (sa_envelopeHash a) \<and> getProp envelope ''envelopeId'' = JString (sa_envelopeId a)
    \<and> getProp envelope ''revision'' = JNumber (jsInt (sa_envelopeRevision a))
    \<and> getProp envelope ''policyDecisionHash'' = JString (sa_policyDecisionHash a)
    \<and> getProp envelope ''budgetReservationId'' = JString (sa_reservationId a)
    \<and> getProp envelope ''intentId'' = JString (so_intentId (sx_operation ctx))
    \<and> getProp envelope ''agentId'' = JString (so_agentId (sx_operation ctx))
    \<and> getProp envelope ''walletId'' = JString (so_walletId (sx_operation ctx))
    \<and> getProp envelope ''policyId'' = JString (so_policyId (sx_operation ctx))
    \<and> getProp envelope ''policyVersion'' = JNumber (jsInt (so_policyVersion (sx_operation ctx)))
    \<and> constraintsFrom (so_intentPayload (sx_operation ctx)) (so_policyDocument (sx_operation ctx)) = Some constraints
    \<and> getProp envelope ''chainId'' = JString ''eip155:31337'' \<and> getProp envelope ''value'' = JString ''0''
    \<and> xf_chainId made = 31337 \<and> xf_value made = 0 \<and> xf_accessList made = []
    \<and> getProp envelope ''from'' = JString (xf_from made) \<and> dp_loadDisposableAccount dp = Inr (xf_from made)
    \<and> getProp envelope ''to'' = JString (xf_to made) \<and> sx_currentFixture ctx = Some (fixture, xf_to made)
    \<and> getProp envelope ''calldata'' = JString (xf_data made) \<and> xf_data made = abiTransfer recipient amount \<and> amount < 2 ^ 256
    \<and> getProp (getProp envelope ''decodedArguments'') ''recipient'' = JString recipient
    \<and> getProp (getProp envelope ''decodedArguments'') ''amountAtomic'' = JString (decStr amount)
    \<and> xf_nonce made = numeralOf (getProp envelope ''nonce'') \<and> xf_gas made = numeralOf (getProp envelope ''gasLimit'')
    \<and> xf_maxFeePerGas made = numeralOf (getProp (getProp envelope ''maximumFeeConstraints'') ''maxFeePerGas'')
    \<and> xf_maxPriorityFeePerGas made = numeralOf (getProp envelope ''maxPriorityFeePerGas'')
    \<and> getChainId (dp_makeRpc dp fixture w2) = Some 31337 \<and> getBlockNumber (dp_makeRpc dp fixture w2) = Some head
    \<and> getPendingNonce (dp_makeRpc dp fixture w2) (xf_from made) = Some (xf_nonce made)
    \<and> xf_gas made * xf_maxFeePerGas made
        \<le> min (int (decVal (fc_intentMaximumNetworkFeeAtomic constraints))) (int (decVal (fc_policyMaximumNetworkFeeAtomic constraints)))
    \<and> getNativeBalance (dp_makeRpc dp fixture w2) (xf_from made) head = Some native \<and> xf_gas made * xf_maxFeePerGas made \<le> native
    \<and> getTokenBalance (dp_makeRpc dp fixture w2) (xf_to made) (xf_from made) head = Some tokens \<and> int amount \<le> tokens)"
proof -
  from sign_runs [OF assms(1)] assms(2) obtain ids ctx existing w2 ck where
    at: "signsAt X dp requestInput remat w ids ctx existing w2 ck" and one: "signatures sts = [exactFields (ck_envelope ck)]"
    by auto
  have made: "made = exactFields (ck_envelope ck)" using one assms(2) by simp
  from at obtain w1 where loaded: "loadSigningContext (dp_store dp) ids (sn_credentialId (dp_credential dp)) w = (Inr (Some ctx), w1)"
    "findDurableSignedEvidence (dp_store dp) ids w1 = (Inr existing, w2)" "existing = None \<or> remat"
    "sx_signerCredential ctx = Some (sn_componentId (dp_credential dp), ADAPTER, True)"
    and named: "map_option requestIds (authorizedTransferRequestSchema requestInput) = Some ids"
    and checked: "checkSigning X dp ids ctx (existing \<noteq> None) (dp_now dp w2) = Inr ck"
    and fresh: "checkSimulationFreshness X (freshnessInput dp ck w2) = Some None"
    unfolding signsAt_def credentialOk_def by blast
  from named obtain request where request: "authorizedTransferRequestSchema requestInput = Some request"
    "ids = \<lparr>id_operationId = textOf (getProp request ''operationId''), id_authorizationId = textOf (getProp request ''authorizationId''),
             id_adapterRequestId = textOf (getProp request ''adapterRequestId'')\<rparr>"
    by (auto simp: requestIds_def simp del: getProp.simps)
  from checked obtain verified address where c: "checkedAuthorization ctx = Inr (ck_authorization ck)" "checkedEnvelope X ctx = Inr (ck_envelope ck)"
    "checkBinding ctx (ck_authorization ck) (ck_envelope ck) = Inr ()"
    "checkCurrent dp ctx (ck_authorization ck) (ck_envelope ck) (existing \<noteq> None) (dp_now dp w2) = Inr ()"
    "checkedFixture ctx (ck_authorization ck) (ck_envelope ck) = Inr (ck_fixtureInstanceId ck)"
    "envelopeShapeOk (ck_authorization ck) (ck_envelope ck)"
    "constraintsFrom (so_intentPayload (sx_operation ctx)) (so_policyDocument (sx_operation ctx)) = Some (ck_constraints ck)"
    "ck_executable ck = executableFromEnvelope (ck_envelope ck) ids (ck_fixtureInstanceId ck)"
    "dp_loadDisposableAccount dp = Inr address" "getProp (ck_envelope ck) ''from'' = JString address"
    by (rule checkSigning_Inr) blast
  obtain head tokens native where node: "getChainId (dp_makeRpc dp (ck_fixtureInstanceId ck) w2) = Some 31337"
    "getBlockNumber (dp_makeRpc dp (ck_fixtureInstanceId ck) w2) = Some head"
    "getPendingNonce (dp_makeRpc dp (ck_fixtureInstanceId ck) w2) (xf_from made) = Some (xf_nonce made)"
    "getTokenBalance (dp_makeRpc dp (ck_fixtureInstanceId ck) w2) (xf_to made) (xf_from made) head = Some tokens"
    "numeralOf (getProp (getProp (ck_envelope ck) ''decodedArguments'') ''amountAtomic'') \<le> tokens"
    "getNativeBalance (dp_makeRpc dp (ck_fixtureInstanceId ck) w2) (xf_from made) head = Some native"
    "xf_gas made * xf_maxFeePerGas made \<le> native"
    "xf_gas made * xf_maxFeePerGas made
       \<le> min (int (decVal (fc_intentMaximumNetworkFeeAtomic (ck_constraints ck)))) (int (decVal (fc_policyMaximumNetworkFeeAtomic (ck_constraints ck))))"
    and schema: "executableTransferCandidateSchema (ck_executable ck) \<noteq> None"
    by (rule fresh_execution [OF fresh]) (simp_all add: freshnessInput_def c(8) executable_fields made exactFields_def del: getProp.simps)
  have addresses: "xf_from made = address" "xf_to made = textOf (getProp (ck_envelope ck) ''to'')"
    using executable_addresses [OF schema [unfolded c(8)] executable_fields(1,2)] c(10) asAddress_canonical
    by (simp_all add: made exactFields_def)
  from c(6) obtain decoded where decoded: "decodeTransferIndependent (getProp (ck_envelope ck) ''calldata'') = Decoded decoded"
    "getProp (getProp (ck_envelope ck) ''decodedArguments'') ''amountAtomic'' = JString (de_amountAtomic decoded)"
    "getProp (getProp (ck_envelope ck) ''decodedArguments'') ''recipient'' = JString (de_recipient decoded)"
    "getProp (ck_envelope ck) ''chainId'' = JString ''eip155:31337''" "getProp (ck_envelope ck) ''value'' = JString ''0''"
    by (auto simp: LOCAL_CHAIN_ID_def envelopeShapeOk_def Let_def simp del: getProp.simps split: decode_result.splits)
  from decode_Decoded [OF decoded(1)] obtain amount where amount: "amount < 2 ^ 256"
    "getProp (ck_envelope ck) ''calldata'' = JString (abiTransfer (de_recipient decoded) amount)" "de_amountAtomic decoded = decStr amount"
    by (metis decoded_transfer.select_convs(3))
  let ?a = "ck_authorization ck" and ?env = "ck_envelope ck"
  have auth: "sx_authorization ctx = Some ?a"
    and kind: "sa_authorizationKind ?a = OWNER_APPROVAL \<and> sa_policyDecisionStatus ?a = Some REQUIRE_APPROVAL
         \<and> sa_approvalId ?a \<noteq> None \<and> sa_ownerAuthenticationId ?a \<noteq> None \<and> sa_approvalStatus ?a = Some CONSUMED_A
         \<and> sa_approvalApproverId ?a \<noteq> None \<and> sa_approvalConsumedAt ?a \<noteq> None
       \<or> sa_authorizationKind ?a = AUTONOMOUS_POLICY \<and> sa_policyDecisionStatus ?a = Some ALLOW_AUTONOMOUS
         \<and> sa_approvalId ?a = None \<and> sa_ownerAuthenticationId ?a = None \<and> sa_approvalStatus ?a = None
         \<and> sa_approvalApproverId ?a = None \<and> sa_approvalConsumedAt ?a = None"
    using c(1) by (auto simp: checkedAuthorization_def result_simps authorizationEvidenceOk_def)
  have envelope: "\<exists>payload hash revision. sx_envelope ctx = Some (payload, hash, revision) \<and> canonicalExecutionEnvelopeV2Schema X payload = Some (ck_envelope ck)
      \<and> hashExecutionEnvelope X (ck_envelope ck) = Some hash"
    using c(2) by (auto simp: checkedEnvelope_def result_simps Let_def simp del: getProp.simps)
  have bound: "getProp ?env ''envelopeHash'' = JString (sa_envelopeHash ?a)" "getProp ?env ''envelopeId'' = JString (sa_envelopeId ?a)"
    "getProp ?env ''revision'' = JNumber (jsInt (sa_envelopeRevision ?a))" "getProp ?env ''policyDecisionHash'' = JString (sa_policyDecisionHash ?a)"
    "getProp ?env ''budgetReservationId'' = JString (sa_reservationId ?a)" "getProp ?env ''intentId'' = JString (so_intentId (sx_operation ctx))"
    "getProp ?env ''agentId'' = JString (so_agentId (sx_operation ctx))" "getProp ?env ''walletId'' = JString (so_walletId (sx_operation ctx))"
    "getProp ?env ''policyId'' = JString (so_policyId (sx_operation ctx))"
    "getProp ?env ''policyVersion'' = JNumber (jsInt (so_policyVersion (sx_operation ctx)))"
    using c(3) by (auto simp: checkBinding_def result_simps Let_def simp del: getProp.simps)
  have current: "\<not> sa_invalidated (ck_authorization ck)" "\<forall>t. sa_expiresAt (ck_authorization ck) = Some t \<longrightarrow> \<not> passed dp t (dp_now dp w2)"
    "\<not> passed dp (textOf (getProp (ck_envelope ck) ''expiresAt'')) (dp_now dp w2)" "map_option fst (sx_reservation ctx) = Some AUTHORIZED_R"
    using c(4) by (auto simp: checkCurrent_def result_simps simp del: getProp.simps split: option.splits)
  have fixture: "fenceOk (sx_fences ctx) (sa_fences ?a)" "sx_currentFixture ctx = Some (ck_fixtureInstanceId ck, xf_to made)"
    "getProp ?env ''to'' = JString (xf_to made)"
    using c(5) addresses(2) by (auto simp: checkedFixture_def result_simps simp del: getProp.simps split: option.splits)
  have fences: "length (remdups (map fr_scope (sx_fences ctx))) = 4"
    "list_all (\<lambda>(scope, version). \<exists>f. find (\<lambda>f. fr_scope f = scope) (rev (sx_fences ctx)) = Some f
          \<and> fr_state f = ''ACTIVE'' \<and> fr_version f = version)
        [(SYSTEM_SCOPE, fs_systemFenceVersion (sa_fences ?a)), (OWNER_SCOPE, fs_ownerFenceVersion (sa_fences ?a)),
         (AGENT_SCOPE, fs_agentFenceVersion (sa_fences ?a)), (POLICY_SCOPE, fs_policyFenceVersion (sa_fences ?a))]"
    using fixture(1) unfolding fenceOk_def fenceByScope_def by (auto split: option.splits)
  have sender: "getProp ?env ''from'' = JString (xf_from made)" using c(10) addresses(1) by simp
  have calldata: "getProp ?env ''calldata'' = JString (xf_data made)" using amount(2) by (simp add: made exactFields_def)
  have made_fields: "xf_chainId made = 31337" "xf_value made = 0" "xf_accessList made = []"
    "xf_nonce made = numeralOf (getProp ?env ''nonce'')" "xf_gas made = numeralOf (getProp ?env ''gasLimit'')"
    "xf_maxFeePerGas made = numeralOf (getProp (getProp ?env ''maximumFeeConstraints'') ''maxFeePerGas'')"
    "xf_maxPriorityFeePerGas made = numeralOf (getProp ?env ''maxPriorityFeePerGas'')"
    unfolding made exactFields_def by simp_all
  have data: "xf_data made = abiTransfer (de_recipient decoded) amount" using amount(2) by (simp add: made exactFields_def)
  have funded: "int amount \<le> tokens" using node(5) decoded(2) amount(3) by simp
  from envelope obtain payload hash revision where row: "sx_envelope ctx = Some (payload, hash, revision)"
    "canonicalExecutionEnvelopeV2Schema X payload = Some (ck_envelope ck)" "hashExecutionEnvelope X (ck_envelope ck) = Some hash" by blast
  have account: "dp_loadDisposableAccount dp = Inr (xf_from made)" using c(9) addresses(1) by simp
  have only: "signatures sts = [made]" using one made by simp
  have amounts: "getProp (getProp (ck_envelope ck) ''decodedArguments'') ''amountAtomic'' = JString (decStr amount)"
    using decoded(2) amount(3) by simp
  show ?thesis
    by (rule conjI [OF only], rule exI [of _ request], rule exI [of _ ids], rule exI [of _ ctx], rule exI [of _ w1], rule exI [of _ w2], rule exI [of _ existing],
        rule exI [of _ "ck_authorization ck"], rule exI [of _ payload], rule exI [of _ hash], rule exI [of _ revision],
        rule exI [of _ "ck_envelope ck"], rule exI [of _ "ck_constraints ck"], rule exI [of _ "ck_fixtureInstanceId ck"],
        rule exI [of _ "de_recipient decoded"], rule exI [of _ amount], rule exI [of _ head], rule exI [of _ tokens], rule exI [of _ native])
      (intro conjI; fact)
qed

section \<open>A sample\<close>

text \<open>The envelope of \<open>ChainEvidence\<close> with fees that a resolution gives, and a node on which it is current.\<close>

definition signerEnvelope :: jsval where
  "signerEnvelope = JObject (setProp ''maximumFeeConstraints''
     (JObject [(''asset'', JString ''native''), (''maxFeePerGas'', JString ''15''), (''maximumNetworkFeeAtomic'', JString ''900000'')])
     (propertiesOf transferEnvelope))"

definition signerIds :: transfer_ids where
  "signerIds = \<lparr>id_operationId = ''op_1'', id_authorizationId = ''auth_1'', id_adapterRequestId = ''request_1''\<rparr>"

definition signerCore :: jsval where
  "signerCore = JObject (coreFromEnvelope signerEnvelope signerIds ''fixture_1'')"

definition signerBlock :: canonical_block where
  "signerBlock = \<lparr>bl_number = 17, bl_hash = sampleHashOf (CHR ''0''), bl_baseFeePerGas = 7\<rparr>"

definition signerRpc :: local_read_rpc where
  "signerRpc = sampleRpc\<lparr>getBlockByNumber := (\<lambda>n. Some (Some signerBlock)), getBlockByHash := (\<lambda>h. Some (Some signerBlock)),
     estimateGas := (\<lambda>q. Some 54545)\<rparr>"

definition signerView :: chain_view where
  "signerView = \<lparr>cv_block = signerBlock, cv_senderNonce = 4, cv_tokenBalance = 1000000000, cv_nativeBalance = 10000000\<rparr>"

definition signerFees :: resolved_fees where
  "signerFees = \<lparr>rf_gasEstimate = 54545, rf_gasLimit = 60000, rf_baseFeePerGas = 7, rf_maxPriorityFeePerGas = 1,
     rf_maxFeePerGas = 15, rf_maximumNativeFeeAtomic = decStr 900000\<rparr>"

definition signerSimulation :: simulation_record where
  "signerSimulation =
     \<lparr>sr_simulationId = ''simulation_1'', sr_transferCoreCandidateHash = sampleHashOf (CHR ''0''), sr_fixtureInstanceId = ''fixture_1'',
      sr_chainId = LOCAL_CHAIN_ID, sr_blockNumber = ''17'', sr_blockHash = sampleHashOf (CHR ''0''),
      sr_senderAddress = textOf (sampleAddress (CHR ''c'')), sr_senderNonce = ''4'', sr_tokenBalanceAtomic = ''1000000000'',
      sr_nativeBalanceWei = ''10000000'', sr_gasEstimate = ''54545'', sr_gasLimit = ''60000'', sr_baseFeePerGas = ''7'',
      sr_maxPriorityFeePerGas = ''1'', sr_maxFeePerGas = ''15'', sr_outcome = ''SUCCESS'',
      sr_expectedAssetDeltas = JArray [makeExpectedDelta signerCore], sr_maximumNativeFeeAtomic = ''900000'',
      sr_simulatorVersion = ''viem@2.56.0'', sr_evidenceHash = sampleHashOf (CHR ''0'')\<rparr>"

lemma signer_numerals:
  "decStr 17 = ''17''" "decStr 4 = ''4''" "decStr 1000000000 = ''1000000000''" "decStr 10000000 = ''10000000''" "decStr 54545 = ''54545''"
  "decStr 60000 = ''60000''" "decStr 7 = ''7''" "decStr (Suc 0) = ''1''" "decStr 15 = ''15''" "decStr 900000 = ''900000''" "decStr 250 = ''250''"
proof -
  have written: "canonicalDec s \<Longrightarrow> decVal s = n \<Longrightarrow> decStr n = s" for s n by auto
  show "decStr 17 = ''17''" by (rule written) (simp_all add: canonicalDec_def isDigit_def decVal_def digitVal_def)
  show "decStr 4 = ''4''" by (rule written) (simp_all add: canonicalDec_def isDigit_def decVal_def digitVal_def)
  show "decStr 1000000000 = ''1000000000''" by (rule written) (simp_all add: canonicalDec_def isDigit_def decVal_def digitVal_def)
  show "decStr 10000000 = ''10000000''" by (rule written) (simp_all add: canonicalDec_def isDigit_def decVal_def digitVal_def)
  show "decStr 54545 = ''54545''" by (rule written) (simp_all add: canonicalDec_def isDigit_def decVal_def digitVal_def)
  show "decStr 60000 = ''60000''" by (rule written) (simp_all add: canonicalDec_def isDigit_def decVal_def digitVal_def)
  show "decStr 7 = ''7''" by (rule written) (simp_all add: canonicalDec_def isDigit_def decVal_def digitVal_def)
  show "decStr (Suc 0) = ''1''" by (rule written) (simp_all add: canonicalDec_def isDigit_def decVal_def digitVal_def)
  show "decStr 15 = ''15''" by (rule written) (simp_all add: canonicalDec_def isDigit_def decVal_def digitVal_def)
  show "decStr 900000 = ''900000''" by (rule written) (simp_all add: canonicalDec_def isDigit_def decVal_def digitVal_def)
  show "decStr 250 = ''250''" by (rule written) (simp_all add: canonicalDec_def isDigit_def decVal_def digitVal_def)
qed

lemma signerEnvelope_parses: "canonicalExecutionEnvelopeV2Schema sampleExternals signerEnvelope = Some signerEnvelope"
proof -
  obtain kvs where kvs: "transferEnvelope = JObject kvs" by (simp add: transferEnvelope_def)
  let ?fees = "JObject [(''asset'', JString ''native''), (''maxFeePerGas'', JString ''15''), (''maximumNetworkFeeAtomic'', JString ''900000'')]"
  have "maximumFeeConstraintsSchema ?fees = Some ?fees" by code_simp
  moreover have "feesOrdered (textOf (getProp (JObject kvs) ''maxPriorityFeePerGas'')) ''15''"
    using transferEnvelope_fields(11) by (simp add: kvs feesOrdered_def decVal_def digitVal_def del: getProp.simps)
  ultimately show ?thesis
    unfolding signerEnvelope_def kvs propertiesOf.simps
    by (intro envelopeV2_setProp [OF transferEnvelope_parses [unfolded kvs], where parser = maximumFeeConstraintsSchema])
      (simp_all add: envelopeV2Shape_def required_def optionally_def map_of_setProp)
qed

lemma signerEnvelope_props:
  "getProp signerEnvelope k = (if k = ''maximumFeeConstraints'' then
     JObject [(''asset'', JString ''native''), (''maxFeePerGas'', JString ''15''), (''maximumNetworkFeeAtomic'', JString ''900000'')]
     else getProp transferEnvelope k)"
  by (cases transferEnvelope) (simp_all add: signerEnvelope_def transferEnvelope_def map_of_setProp del: setProp.simps)

lemma signerEnvelope_hash: "hashExecutionEnvelope sampleExternals signerEnvelope = Some (sampleHashOf (CHR ''0''))"
proof -
  obtain kvs where kvs: "transferEnvelope = JObject kvs" by (simp add: transferEnvelope_def)
  have "wfJson transferEnvelope"
    using sampleEnvelope_wf(1) unfolding transferEnvelope_def sampleEnvelope_def propertiesOf.simps by (rule setProp_wf) simp
  then have "wfJson signerEnvelope" unfolding signerEnvelope_def kvs propertiesOf.simps by (rule setProp_wf) simp
  from hash_parsed [OF parseExecutionEnvelope_v2 [OF signerEnvelope_parses] this] show ?thesis
    by (simp add: sampleExternals_defs sampleHashOf_def)
qed

text \<open>Resolution on this node gives the executable of the envelope and the evidence of the record.\<close>

lemma signer_provenance: "provenanceSchema (getProp signerCore ''provenance'') \<noteq> None"
  by code_simp

lemma signerCore_props:
  "getProp signerCore ''fixtureInstanceId'' = JString ''fixture_1''" "getProp signerCore ''chainId'' = JString LOCAL_CHAIN_ID"
  "getProp signerCore ''from'' = sampleAddress (CHR ''c'')" "getProp signerCore ''target'' = sampleAddress (CHR ''a'')"
  "getProp signerCore ''recipient'' = sampleAddress (CHR ''b'')" "getProp signerCore ''amountAtomic'' = JString ''250''"
  "getProp signerCore ''action'' = JString ''asset.transfer''" "getProp signerCore ''nativeValue'' = JString ''0''"
  "getProp signerCore ''selector'' = JString TRANSFER_SELECTOR" "getProp signerCore ''nonceStrategy'' = JString STATIC_NONCE_STRATEGY"
  "getProp signerCore ''calldata'' = JString (abiTransfer (textOf (sampleAddress (CHR ''b''))) 250)"
  using sampleAddress_canonical transfer_calldata_bytes [OF sampleAddress_canonical(2), of 250]
  by (simp_all add: signerCore_def coreFromEnvelope_def Let_def signerEnvelope_props transferEnvelope_fields asAddress_def asHex_def
      byteStringSchema_def) (simp_all add: sampleAddress_def)

lemma signerCore_transfer: "transferCore signerCore"
proof -
  have "fst ` set (propertiesOf signerCore) = set candidateKeys" "distinct (map fst (propertiesOf signerCore))"
    by (simp_all add: signerCore_def coreFromEnvelope_def Let_def candidateKeys_def) auto
  moreover have "atomicUnitSchema ''250''" "canonicalIdentifierSchema ''fixture_1''" by code_simp+
  ultimately show ?thesis
    unfolding transferCore_def signerCore_props
    using signer_provenance transfer_calldata_bytes [OF sampleAddress_canonical(2), of 250] sampleAddress_canonical [unfolded address_schema]
    by (simp add: signerCore_def sampleAddress_def)
qed

definition signerFixture :: fixture_identity where
  "signerFixture = \<lparr>fx_fixtureInstanceId = ''fixture_1'', fx_chainId = LOCAL_CHAIN_ID, fx_walletAddress = textOf (sampleAddress (CHR ''c'')),
     fx_tokenAddress = textOf (sampleAddress (CHR ''a'')), fx_rpcUrl = ''http://127.0.0.1:8545''\<rparr>"

lemma signer_executable:
  "makeExecutable signerCore signerView signerFees = executableFromEnvelope signerEnvelope signerIds ''fixture_1''"
  by (simp add: makeExecutable_def executableFromEnvelope_def signerCore_def spread_def coreFromEnvelope_def Let_def signerView_def signerFees_def
      signer_numerals signerEnvelope_props transferEnvelope_fields)

lemma signer_observes: "observeChain signerCore signerRpc = Inr signerView"
  by (simp add: observeChain_def Let_def asBigInt_def requireCanonicalBlock_def signerRpc_def sampleRpc_def signerBlock_def signerView_def
        result_simps canonicalHash_def prefixed_def isHex_def isDigit_def list_all_iff sampleHashOf_def)

lemma signer_fees: "resolveFees signerRpc signerCore signerView sampleConstraints = Inr signerFees"
  by (simp add: sample_ceiling resolveFees_def Let_def asBigInt_def gasMarginOf_def checkedProduct_def signerRpc_def sampleRpc_def signerView_def
        signerBlock_def sampleConstraints_def signerFees_def result_simps minAtomic_def)

lemma signer_resolves:
  "\<exists>simulation. simulateAndResolveTransfer sampleExternals sampleUrl (Inr signerCore) signerRpc signerFixture sampleConstraints
     = Inr (makeExecutable signerCore signerView signerFees, simulation)"
proof -
  let ?e = "makeExecutable signerCore signerView signerFees"
  have "checkResolution sampleUrl (Inr signerCore) signerRpc signerFixture sampleConstraints = Inr signerCore"
    using sampleAddress_canonical
    by (simp add: checkResolution_def validateFixture_def validateCore_def result_simps signerCore_props signerFixture_def signerRpc_def
        sampleRpc_def sampleUrl_def sampleConstraints_def loopbackUrl_def canonicalDec_def isDigit_def isAlnum_def isLower_def isUpper_def
        identifierChar_def sampleAddress_def del: getProp.simps)
  moreover note signer_observes signer_fees
  moreover have "runSimulation sampleExternals signerCore signerRpc signerFixture signerView = Inr ()"
    by (simp add: runSimulation_def Let_def signerCore_props signerView_def signerRpc_def sampleRpc_def result_simps
        decVal_def digitVal_def del: getProp.simps)
  moreover have "?e \<noteq> JUndefined" by (simp add: makeExecutable_def)
  then obtain h where "hashExecutableCandidate sampleExternals ?e = Some h" using hashJson_total unfolding hashExecutableCandidate_def by blast
  moreover obtain simulation where "makeEvidence sampleExternals (successFields signerFixture signerView signerFees signerCore
      ?e h (getProp ?e ''nativeValue'')) = Inr simulation" using makeEvidence_total by blast
  moreover have "\<not> cv_nativeBalance signerView < int (decVal (rf_maximumNativeFeeAtomic signerFees))"
    by (simp add: signerView_def signerFees_def)
  ultimately show ?thesis
    by (simp add: simulateAndResolveTransfer_def result_simps Let_def del: getProp.simps)
qed

lemma sample_hash: "hashJson sampleExternals v = Some h \<Longrightarrow> h = sampleHashOf (CHR ''0'')"
  by (auto simp: hashJson_def sampleExternals_defs sampleHashOf_def)

lemma signer_exact:
  "verifyExecutableTransfer sampleExternals (Inr signerCore) (executableFromEnvelope signerEnvelope signerIds ''fixture_1'')
     (simulationEvidenceFromRecord signerSimulation signerEnvelope) sampleConstraints
   = Inr (executableFromEnvelope signerEnvelope signerIds ''fixture_1'')"
proof -
  let ?e = "makeExecutable signerCore signerView signerFees"
  obtain simulation where run: "simulateAndResolveTransfer sampleExternals sampleUrl (Inr signerCore) signerRpc signerFixture sampleConstraints
     = Inr (?e, simulation)" using signer_resolves by blast
  from run obtain view fees h c where made: "?e = makeExecutable signerCore view fees" "observeChain signerCore signerRpc = Inr view"
    "resolveFees signerRpc signerCore view sampleConstraints = Inr fees" "hashExecutableCandidate sampleExternals ?e = Some c"
    "hashJson sampleExternals (JObject (successFields signerFixture view fees signerCore ?e c (getProp ?e ''nativeValue''))) = Some h"
    "simulation = JObject (successFields signerFixture view fees signerCore ?e c (getProp ?e ''nativeValue'') @ [(''evidenceHash'', JString h)])"
    by (rule simulateAndResolve_Inr) blast
  have view: "view = signerView" "fees = signerFees" using made(2,3) signer_observes signer_fees by simp_all
  have hashes: "c = sampleHashOf (CHR ''0'')" "h = sampleHashOf (CHR ''0'')"
    using made(4,5) sample_hash unfolding hashExecutableCandidate_def by blast+
  have "simulation = simulationEvidenceFromRecord signerSimulation signerEnvelope"
    unfolding made(6) view hashes signer_executable
    by (simp add: successFields_def simulationEvidenceFromRecord_def signerSimulation_def signerFixture_def signerView_def signerFees_def
        signerBlock_def signer_numerals executable_fields exactFields_def signerEnvelope_props transferEnvelope_fields asAddress_def
        sampleAddress_canonical del: getProp.simps)
      (simp add: executableFromEnvelope_def coreFromEnvelope_def Let_def signerEnvelope_props transferEnvelope_fields)
  with resolution_verifies [OF signerCore_transfer run sampleExternals_ok(1) _ sample_evm(2,3)] show ?thesis
    by (simp add: signer_executable evmAnswers_def signerRpc_def sampleRpc_def)
qed

definition signerAuthorization :: signing_authorization where
  "signerAuthorization =
     \<lparr>sa_authorizationKind = AUTONOMOUS_POLICY, sa_approvalId = None, sa_ownerAuthenticationId = None, sa_approvalStatus = None,
      sa_approvalApproverId = None, sa_approvalConsumedAt = None, sa_policyDecisionId = ''decision_1'',
      sa_policyDecisionHash = sampleHashOf (CHR ''0''), sa_policyDecisionStatus = Some ALLOW_AUTONOMOUS,
      sa_decisionPolicyId = ''policy_1'', sa_decisionPolicyVersion = 1, sa_reservationId = ''reservation_1'', sa_envelopeId = ''env_1'',
      sa_envelopeRevision = 1, sa_envelopeHash = sampleHashOf (CHR ''0''), sa_expiresAt = Some ''2026-05-28T21:00:00Z'',
      sa_invalidated = False,
      sa_fences = \<lparr>fs_systemFenceVersion = 1, fs_systemState = ''ACTIVE'', fs_ownerFenceVersion = 1, fs_ownerState = ''ACTIVE'',
        fs_agentFenceVersion = 1, fs_agentState = ''ACTIVE'', fs_policyFenceVersion = 1, fs_policyState = ''ACTIVE''\<rparr>\<rparr>"

definition signerContext :: signing_context where
  "signerContext =
     \<lparr>sx_operation = \<lparr>so_state = AUTHORIZED, so_intentId = ''intent_1'', so_agentId = ''agent_1'', so_walletId = ''wallet_1'',
        so_ownerId = ''owner_1'', so_policyId = ''policy_1'', so_policyVersion = 1,
        so_intentPayload = JObject [(''maximumNetworkFee'', JObject [(''asset'', JString ''native''), (''atomic'', JString ''1000000'')])],
        so_policyDocument = JObject [(''maximumNetworkFeeAtomic'', JString ''2000000'')]\<rparr>,
      sx_authorization = Some signerAuthorization, sx_envelope = Some (signerEnvelope, sampleHashOf (CHR ''0''), 1),
      sx_latestEnvelopeRevision = Some 1, sx_reservation = Some (AUTHORIZED_R, None),
      sx_fences = map (\<lambda>scope. \<lparr>fr_scope = scope, fr_state = ''ACTIVE'', fr_version = 1\<rparr>) [SYSTEM_SCOPE, OWNER_SCOPE, AGENT_SCOPE, POLICY_SCOPE],
      sx_signerCredential = Some (''adapter_1'', ADAPTER, True), sx_currentFixture = Some (''fixture_1'', textOf (sampleAddress (CHR ''a''))),
      sx_simulations = [signerSimulation]\<rparr>"

definition signerDeps :: "unit signer_deps" where
  "signerDeps =
     \<lparr>dp_store = \<lparr>loadSigningContext = (\<lambda>ids credential w. (Inr (Some signerContext), w)),
        findDurableSignedEvidence = (\<lambda>ids w. (Inr None, w)), beginSigning = (\<lambda>ids audit w. (Inr (), w)),
        persistSignedEvidence = (\<lambda>input audit w. (Inr (), w)), recordSigningRefusal = (\<lambda>operation code audit w. (Inr (), w))\<rparr>,
      dp_credential = \<lparr>sn_credentialId = ''credential_1'', sn_componentId = ''adapter_1''\<rparr>, dp_rpcUrl = ''http://127.0.0.1:8545'',
      dp_loadDisposableAccount = Inr (textOf (sampleAddress (CHR ''c''))), dp_makeRpc = (\<lambda>fixture w. signerRpc),
      dp_signTransaction = (\<lambda>x w. (Inr (sampleHashOf (CHR ''7''), Some ''0x02''), w)),
      dp_authorizeResult = (\<lambda>payload. Inr \<lparr>ca_credentialId = ''credential_1'', ca_componentId = ''adapter_1'', ca_role = ADAPTER, ca_signature = ''s''\<rparr>),
      dp_now = (\<lambda>w. 0), dp_maxBlockAge = None, dp_dateText = (\<lambda>text. None)\<rparr>"

definition signerRequest :: jsval where
  "signerRequest = JObject [(''operationId'', JString ''op_1''), (''authorizationId'', JString ''auth_1''), (''adapterRequestId'', JString ''request_1'')]"

definition signerChecked :: checked_signing where
  "signerChecked = \<lparr>ck_envelope = signerEnvelope, ck_authorization = signerAuthorization, ck_fixtureInstanceId = ''fixture_1'',
     ck_candidate = signerSimulation, ck_core = signerCore, ck_executable = executableFromEnvelope signerEnvelope signerIds ''fixture_1'',
     ck_simulation = simulationEvidenceFromRecord signerSimulation signerEnvelope, ck_constraints = sampleConstraints\<rparr>"

lemma signerEnvelope_fields:
  "getProp signerEnvelope ''schemaVersion'' = JString ''2.0''" "getProp signerEnvelope ''intentId'' = JString ''intent_1''"
  "getProp signerEnvelope ''agentId'' = JString ''agent_1''" "getProp signerEnvelope ''walletId'' = JString ''wallet_1''"
  "getProp signerEnvelope ''policyId'' = JString ''policy_1''" "getProp signerEnvelope ''policyVersion'' = JNumber (jsInt 1)"
  "getProp signerEnvelope ''policyDecisionHash'' = JString (sampleHashOf (CHR ''0''))"
  "getProp signerEnvelope ''simulationResultHash'' = JString (sampleHashOf (CHR ''0''))"
  "getProp signerEnvelope ''simulationBlockHash'' = JString (sampleHashOf (CHR ''0''))"
  "getProp signerEnvelope ''simulationBlockNumber'' = JString ''17''" "getProp signerEnvelope ''nonceStrategy'' = JString ''pending''"
  "getProp signerEnvelope ''accessList'' = JArray []" "getProp signerEnvelope ''decodedFunction'' = JString ''erc20.transfer''"
  "getProp signerEnvelope ''chainId'' = JString LOCAL_CHAIN_ID" "getProp signerEnvelope ''approvalRequirement'' = JString ''none''"
  "getProp signerEnvelope ''riskDecision'' = JString ''ALLOW''" "getProp signerEnvelope ''expiresAt'' = JString ''2026-05-28T21:00:00Z''"
  "getProp (getProp signerEnvelope ''decodedArguments'') ''assetAddress'' = sampleAddress (CHR ''a'')"
  unfolding signerEnvelope_props transferEnvelope_props
  by (simp_all add: sampleEnvelope_def sampleArguments_def sampleHashText_def sampleHashOf_def LOCAL_CHAIN_ID_def)

lemma signer_checks:
  "checkedAuthorization signerContext = Inr signerAuthorization"
  "checkedEnvelope sampleExternals signerContext = Inr signerEnvelope"
  "checkBinding signerContext signerAuthorization signerEnvelope = Inr ()"
  "checkedFixture signerContext signerAuthorization signerEnvelope = Inr ''fixture_1''"
  "constraintsFrom (so_intentPayload (sx_operation signerContext)) (so_policyDocument (sx_operation signerContext)) = Some sampleConstraints"
proof -
  show "checkedAuthorization signerContext = Inr signerAuthorization"
    by (simp add: checkedAuthorization_def signerContext_def result_simps authorizationEvidenceOk_def) (simp add: signerAuthorization_def)
  have "isObject signerEnvelope" by (simp add: signerEnvelope_def)
  then show "checkedEnvelope sampleExternals signerContext = Inr signerEnvelope"
    by (simp add: checkedEnvelope_def signerContext_def result_simps Let_def signerEnvelope_fields signerEnvelope_parses signerEnvelope_hash
        del: getProp.simps)
  have "intOf (JNumber (jsInt 1)) = 1" by code_simp
  then show "checkBinding signerContext signerAuthorization signerEnvelope = Inr ()"
    by (simp add: checkBinding_def signerContext_def signerAuthorization_def result_simps Let_def signerEnvelope_fields
        signerEnvelope_props [of "''revision''"] signerEnvelope_props [of "''envelopeId''"] signerEnvelope_props [of "''envelopeHash''"]
        signerEnvelope_props [of "''budgetReservationId''"] transferEnvelope_fields del: getProp.simps)
  show "checkedFixture signerContext signerAuthorization signerEnvelope = Inr ''fixture_1''"
    by (simp add: checkedFixture_def signerContext_def signerAuthorization_def result_simps fenceOk_def fenceByScope_def
        signerEnvelope_props [of "''to''"] transferEnvelope_fields del: getProp.simps)
  show "constraintsFrom (so_intentPayload (sx_operation signerContext)) (so_policyDocument (sx_operation signerContext)) = Some sampleConstraints"
    by (simp add: constraintsFrom_def signerContext_def sampleConstraints_def Let_def canonicalDec_def isDigit_def)
qed

lemma signer_current: "checkCurrent signerDeps signerContext signerAuthorization signerEnvelope existing 0 = Inr ()"
proof -
  have "Date_parse ''2026-05-28T21:00:00Z'' = Some 1780002000000" by code_simp
  then show ?thesis
    by (simp add: checkCurrent_def signerContext_def signerAuthorization_def result_simps passed_def signerEnvelope_fields del: getProp.simps)
qed

lemma signer_shape: "envelopeShapeOk signerAuthorization signerEnvelope"
proof -
  have decoded: "decodeTransferIndependent (JString (abiTransfer (textOf (sampleAddress (CHR ''b''))) 250)) =
    Decoded \<lparr>de_selector = TRANSFER_SELECTOR, de_recipient = textOf (sampleAddress (CHR ''b'')), de_amountAtomic = decStr 250\<rparr>"
    by (rule decode_abiTransfer [OF sampleAddress_canonical(2)]) simp
  have kind: "sa_authorizationKind signerAuthorization = AUTONOMOUS_POLICY" by (simp add: signerAuthorization_def)
  have rest: "getProp signerEnvelope k = getProp transferEnvelope k" if "k \<noteq> ''maximumFeeConstraints''" for k
    using that by (simp add: signerEnvelope_props)
  have asset: "getProp (getProp transferEnvelope ''decodedArguments'') ''assetAddress'' = sampleAddress (CHR ''a'')"
    using signerEnvelope_fields(18) rest [of "''decodedArguments''"] by (simp del: getProp.simps)
  note signerFields = signerEnvelope_fields(1-17) rest transferEnvelope_fields asset
  show ?thesis
    unfolding envelopeShapeOk_def Let_def kind authorization_kind.case
    by (simp add: signerFields decoded signer_numerals del: getProp.simps decodeTransferIndependent.simps)
      (simp add: sameAs_def signerFields sampleAddress_def)
qed

lemma signer_simulation:
  "checkedSimulation sampleExternals signerContext signerEnvelope ''fixture_1''
     = Inr (signerSimulation, simulationEvidenceFromRecord signerSimulation signerEnvelope)"
proof -
  let ?s = "simulationEvidenceFromRecord signerSimulation signerEnvelope"
  have found: "findSimulation signerContext signerEnvelope ''fixture_1'' = Some signerSimulation"
    by (simp add: findSimulation_def signerContext_def signerEnvelope_fields signerSimulation_def del: getProp.simps)
  have "withoutEvidenceHash ?s \<noteq> JUndefined" by (simp add: simulationEvidenceFromRecord_def)
  then have hash: "hashSimulationEvidence sampleExternals ?s = Some (sampleHashOf (CHR ''0''))"
    using hashJson_total [of "withoutEvidenceHash ?s" sampleExternals] sample_hash unfolding hashSimulationEvidence_def by blast
  have "getProp ?s ''outcome'' = JString ''success''" "getProp ?s ''evidenceHash'' = JString (sampleHashOf (CHR ''0''))"
    "sr_simulatorVersion signerSimulation = ''viem@2.56.0''"
    by (simp_all add: simulationEvidenceFromRecord_def signerSimulation_def)
  then show ?thesis by (simp add: checkedSimulation_def result_simps found hash Let_def del: getProp.simps)
qed

lemma signer_checked: "checkSigning sampleExternals signerDeps signerIds signerContext False 0 = Inr signerChecked"
proof -
  have "getProp signerEnvelope ''from'' = JString (textOf (sampleAddress (CHR ''c'')))"
    by (simp add: signerEnvelope_props transferEnvelope_fields del: getProp.simps)
  then show ?thesis
    by (simp add: checkSigning_def signer_checks signer_current signer_shape signer_simulation signer_exact [unfolded signerCore_def] Let_def
        del: getProp.simps) (simp add: signerDeps_def signerChecked_def signerCore_def)
qed

lemma signer_fresh: "checkSimulationFreshness sampleExternals (freshnessInput signerDeps signerChecked w) = Some None"
proof -
  let ?s = "simulationEvidenceFromRecord signerSimulation signerEnvelope" and ?e = "executableFromEnvelope signerEnvelope signerIds ''fixture_1''"
  have valid: "validEvidence sampleExternals ?s"
    using signer_exact by (rule verifyExecutable_Inr)
  have simulation: "getProp ?s ''blockNumber'' = JString ''17''" "getProp ?s ''blockHash'' = JString (sampleHashOf (CHR ''0''))"
    "getProp ?s ''fixtureInstanceId'' = JString ''fixture_1''" "getProp ?s ''senderNonce'' = JString ''4''"
    "getProp ?s ''maximumNativeFeeAtomic'' = JString ''900000''"
    by (simp_all add: simulationEvidenceFromRecord_def signerSimulation_def)
  have executable: "getProp ?e ''from'' = JString (textOf (sampleAddress (CHR ''c'')))" "getProp ?e ''amountAtomic'' = JString ''250''"
    "getProp ?e ''maxPriorityFeePerGas'' = JString ''1''" "getProp ?e ''maxFeePerGas'' = JString ''15''"
    using sampleAddress_canonical
    by (simp_all add: executable_fields exactFields_def asAddress_def signerEnvelope_props transferEnvelope_fields del: getProp.simps)
      (simp_all add: executableFromEnvelope_def coreFromEnvelope_def Let_def signerEnvelope_props transferEnvelope_fields)
  have numbers: "decVal ''17'' = 17" "decVal ''900000'' = 900000" "decVal ''250'' = 250" "decVal ''1'' = 1" "decVal ''15'' = 15"
    by (simp_all add: decVal_def digitVal_def)
  have "intStr 4 = ''4''" by code_simp
  then show ?thesis
    by (simp add: checkSimulationFreshness_def freshnessInput_def signerChecked_def signerDeps_def Let_def signerRpc_def sampleRpc_def
        valid simulation executable numbers digitVal_def signer_exact signerBlock_def SIGNER_DEFAULT_MAX_BLOCK_AGE_def del: getProp.simps)
qed

definition signedRun :: "signer_outcome \<times> step list" where
  "signedRun =
     (let material = \<lparr>mt_signedTransactionId = signedTransactionId signerIds signerEnvelope, mt_expectedTransactionHash = sampleHashOf (CHR ''7''),
        mt_rawTransaction = Some ''0x02'', mt_fromDurableEvidence = False\<rparr> in
      (SignerSuccess (sampleHashOf (CHR ''7'')) False \<lparr>ca_credentialId = ''credential_1'', ca_componentId = ''adapter_1'', ca_role = ADAPTER, ca_signature = ''s''\<rparr>,
       [Phase SigningStarted, Signs (exactFields signerEnvelope), Phase EvidencePersisted, HandsOver material]))"

lemma andRun_calls:
  "c (fst s) = (r, w) \<Longrightarrow> andRun (tryCall c) f s = f r (w, snd s)"
  "c (fst s) = (Inr x, w) \<Longrightarrow> andRun (await c) g s = g x (w, snd s)"
  "v = Inr x \<Longrightarrow> andRun (liftValue v) g s = g x s"
  by (simp_all add: andRun_def await_def tryCall_def goOn_def liftValue_def)

lemma signer_runs:
  "signAuthorizedTransferCore sampleExternals signerDeps signerRequest False ((), [])
     = (Inl (Inr (fst signedRun)), ((), snd signedRun))"
proof -
  have request: "authorizedTransferRequestSchema signerRequest = Some signerRequest" by code_simp
  have ids: "requestIds signerRequest = signerIds" by (simp add: requestIds_def signerRequest_def signerIds_def)
  have store: "loadSigningContext (dp_store signerDeps) = (\<lambda>ids credential w. (Inr (Some signerContext), w))"
    "findDurableSignedEvidence (dp_store signerDeps) = (\<lambda>ids w. (Inr None, w))" "beginSigning (dp_store signerDeps) = (\<lambda>ids audit w. (Inr (), w))"
    "persistSignedEvidence (dp_store signerDeps) = (\<lambda>input audit w. (Inr (), w))" "dp_now signerDeps = (\<lambda>w. 0)"
    "dp_signTransaction signerDeps = (\<lambda>x w. (Inr (sampleHashOf (CHR ''7''), Some ''0x02''), w))"
    "dp_authorizeResult signerDeps = (\<lambda>payload. Inr \<lparr>ca_credentialId = ''credential_1'', ca_componentId = ''adapter_1'', ca_role = ADAPTER, ca_signature = ''s''\<rparr>)"
    by (simp_all add: signerDeps_def)
  have credential: "credentialOk signerDeps signerContext" by (simp add: credentialOk_def signerDeps_def signerContext_def)
  have hash: "canonicalHash (sampleHashOf (CHR ''7''))"
    by (simp add: sampleHashOf_def canonicalHash_def prefixed_def list_all_iff isHex_def isDigit_def)
  have envelope: "ck_envelope signerChecked = signerEnvelope" by (simp add: signerChecked_def)
  have signed: "makeSignature signerDeps signerIds signerChecked None ((), [Phase SigningStarted])
     = (Inl (Inr (fst signedRun)), ((), snd signedRun))"
    unfolding makeSignature_def Let_def andRun_steps envelope
    by (subst andRun_calls(1) [OF fun_cong [OF fun_cong [OF store(6)]]])
      (simp add: hash keepSignature_def succeed_def andRun_steps andRun_calls store envelope Let_def signedRun_def finish_def)
  have begun: "startSigning signerDeps signerIds ((), []) = (Inr (), ((), [Phase SigningStarted]))"
    by (simp add: startSigning_def andRun_def tryCall_def store traced_def)
  have checked: "signChecked sampleExternals signerDeps signerIds False None signerChecked ((), [])
     = (Inl (Inr (fst signedRun)), ((), snd signedRun))"
    unfolding signChecked_def andRun_steps fst_conv signer_fresh by (simp add: andRun_def begun signed)
  show ?thesis
    unfolding signAuthorizedTransferCore_def request option.simps Let_def ids
    by (subst andRun_calls(2), simp add: store) (simp add: credential andRun_calls andRun_steps store signer_checked checked)
qed

theorem signed_as_authorized_witness:
  "\<exists>out sts x. signAuthorizedTransferCore sampleExternals signerDeps signerRequest False ((), []) = (out, ((), sts))
     \<and> signatures sts = [x] \<and> xf_chainId x = 31337 \<and> xf_value x = 0 \<and> xf_accessList x = []
     \<and> dp_loadDisposableAccount signerDeps = Inr (xf_from x)"
proof -
  have "exactFields signerEnvelope \<in> set (signatures (snd signedRun))"
    by (simp add: signedRun_def Let_def)
  note all = signed_as_authorized [OF signer_runs this]
  have "signatures (snd signedRun) = [exactFields signerEnvelope]" using all by (rule conjunct1)
  moreover have "xf_chainId (exactFields signerEnvelope) = 31337 \<and> xf_value (exactFields signerEnvelope) = 0
      \<and> xf_accessList (exactFields signerEnvelope) = []
      \<and> dp_loadDisposableAccount signerDeps = Inr (xf_from (exactFields signerEnvelope))"
    by (insert all, elim exE conjE, intro conjI, assumption+)
  ultimately show ?thesis using signer_runs by blast
qed

end
