(* ===== verification/Execution.thy ===== *)
theory Execution
  imports Broadcast SignerProperties
begin

text \<open>
  What an execution of \<open>execution-core.ts\<close> sends to the node, over any stores: the bytes the signer made under
  its checks, once, after the attempt that names their hash was started.
\<close>

section \<open>What an execution sends\<close>

text \<open>
  An execution that sends: no attempt was recorded, the signer handed over the bytes that the account returned
  for the fields it signed, they have the hash of the durable evidence, and their attempt was started.
\<close>

definition executesAt ::
  "externals \<Rightarrow> ('w, 'p) execution_deps \<Rightarrow> jsval \<Rightarrow> transfer_ids \<Rightarrow> 'w \<Rightarrow> jsval \<Rightarrow> string \<Rightarrow> string \<Rightarrow> bool" where
  "executesAt X xd request ids w envelope raw hash \<longleftrightarrow>
     (\<exists>w1 w2 durable ctx existing w3 ck w4 w5 w6 evidence started w7.
        findBroadcastAttempt (xd_executionStore xd) ids w = (Inr None, w1)
      \<and> findDurableSignedEvidence (dp_store (xd_signer xd)) ids w1 = (Inr durable, w2)
      \<and> signsAt X (xd_signer xd) request (durable \<noteq> None) w2 ids ctx existing w3 ck \<and> ck_envelope ck = envelope
      \<and> dp_signTransaction (xd_signer xd) (exactFields envelope) w4 = (Inr (hash, Some raw), w5)
      \<and> (case durable of None \<Rightarrow> True | Some e \<Rightarrow> du_transactionHash e = hash)
      \<and> canonicalSignedTransactionHash (xd_codec xd) raw = Some hash
      \<and> startsAttempt (xd_codec xd) (xd_broadcastStore xd)
          \<lparr>bi_request = request, bi_signedTransactionId = signedTransactionId ids envelope,
           bi_attemptId = attemptIdFor (signedTransactionId ids envelope), bi_rawTransaction = raw\<rparr> w6 evidence started w7)"

lemma lastMaterial_single: "observed materialOf sts = [m] \<Longrightarrow> lastMaterial sts = Some m"
  "observed materialOf sts = [] \<Longrightarrow> lastMaterial sts = None"
  by (simp_all add: lastMaterial_def)

lemma executeUnlocked_sends:
  assumes run: "executeUnlocked X xd request ids s = (out, s')"
    and ids: "map_option requestIds (authorizedTransferRequestSchema request) = Some ids"
  shows "sends (snd s') = sends (snd s)
    \<or> (\<exists>envelope raw hash pre. executesAt X xd request ids (fst s) envelope raw hash \<and> sends pre = []
         \<and> snd s' = snd s @ pre @ [Phase BroadcastStarted, Sends raw])"
  using run [unfolded executeUnlocked_def Let_def] quiet_calls(1) [where obs = Some]
proof (cases rule: quiet_first)
  case (2 attempt s1)
  note lookup = 2(1) [unfolded await_Inr] and s1 = 2(2)
  show ?thesis
  proof (cases attempt)
    case (Some existing)
    with 2(3) have "lifecycleResult (xd_signer xd) ids existing True False s1 = (out, s')" by simp
    from quiet_run [where obs = Some, OF quiet_ends(2) this] s1 show ?thesis by simp
  next
    case None
    from 2(3) [unfolded None option.case] quiet_calls(1) [where obs = Some] show ?thesis
    proof (cases rule: quiet_first)
      case (2 durable s2)
      note durable = 2(1) [unfolded await_Inr]
      have s2: "snd s2 = snd s" using 2(2) s1 by simp
      show ?thesis using 2(3)
      proof (cases rule: andRun_cases)
        case (1 out)
        from quiet_run [where obs = sentBy, OF quiet_inner [OF quiet_sign] 1(1)] s2 show ?thesis by simp
      next
        case (2 answered s3)
        have quiet3: "sends (snd s3) = sends (snd s)"
          using quiet_run [where obs = sentBy, OF quiet_inner [OF quiet_sign] 2(1)] s2 by simp
        have stopped: ?thesis if "quiet sentBy m" "m s3 = (out, s')" for m :: "(_, _, unit) program"
          using quiet_run [OF that] quiet3 by simp
        from 2(1) obtain outcome w3 sts where sign: "signAuthorizedTransferCore X (xd_signer xd) request (durable \<noteq> None) (fst s2, [])
             = (Inl (Inr outcome), (w3, sts))" and s3: "s3 = (w3, snd s @ sts)" and a: "answered = (outcome, sts)"
          by (elim inner_cases) (auto simp: s2)
        note go = 2(2) [unfolded a prod.case]
        show ?thesis
        proof (cases outcome)
          case (SignerRefusal code freshness)
          with go stopped [OF quiet_basic(2)] show ?thesis by simp
        next
          case (SignerSuccess h fromDurable authorization)
          from sign_hands [OF sign] show ?thesis
          proof (elim disjE exE conjE)
            assume "observed materialOf (snd (w3, sts)) = observed materialOf (snd (fst s2, []))"
            then have "lastMaterial sts = None" by (simp add: lastMaterial_single)
            with go SignerSuccess stopped [OF quiet_ends(1)] show ?thesis by simp
          next
            fix ids' ctx existing w2' ck hash raw w4 w5
            assume at: "signsAt X (xd_signer xd) request (durable \<noteq> None) (fst (fst s2, [])) ids' ctx existing w2' ck"
              and signed: "dp_signTransaction (xd_signer xd) (exactFields (ck_envelope ck)) w4 = (Inr (hash, raw), w5)"
              and same: "\<forall>h' d a. (Inl (Inr outcome) :: (failure + signer_outcome) + unit) = Inl (Inr (SignerSuccess h' d a)) \<longrightarrow> h' = hash"
            let ?m = "\<lparr>mt_signedTransactionId = signedTransactionId ids' (ck_envelope ck), mt_expectedTransactionHash = hash,
                   mt_rawTransaction = raw, mt_fromDurableEvidence = (existing \<noteq> None)\<rparr>"
            assume "observed materialOf (snd (w3, sts)) = observed materialOf (snd (fst s2, [])) @ [?m]"
            then have last: "lastMaterial sts = Some ?m" by (simp add: lastMaterial_single)
            have ids': "ids' = ids" using at ids by (simp add: signsAt_def)
            show ?thesis
            proof (cases "\<exists>bytes. raw = Some bytes \<and> bytes \<noteq> [] \<and> canonicalSignedTransactionHash (xd_codec xd) bytes = Some h
                \<and> (case durable of None \<Rightarrow> True | Some e \<Rightarrow> du_transactionHash e = h)")
              case False
              with go SignerSuccess last have "internalFailure s3 = (out, s')"
                by (auto split: option.splits if_splits)
              from stopped [OF quiet_ends(1) this] show ?thesis .
            next
              case True
              then obtain bytes where bytes: "raw = Some bytes" "canonicalSignedTransactionHash (xd_codec xd) bytes = Some h"
                "case durable of None \<Rightarrow> True | Some e \<Rightarrow> du_transactionHash e = h" "bytes \<noteq> []" by blast
              with go SignerSuccess last have "broadcastMaterial xd request ids ?m bytes s3 = (out, s')"
                by (auto split: option.splits if_splits)
              from broadcastMaterial_steps [OF this] show ?thesis
              proof (elim disjE exE conjE)
                fix evidence started w7
                assume started: "startsAttempt (xd_codec xd) (xd_broadcastStore xd) \<lparr>bi_request = request,
                    bi_signedTransactionId = mt_signedTransactionId ?m, bi_attemptId = attemptIdFor (mt_signedTransactionId ?m),
                    bi_rawTransaction = bytes\<rparr> (fst s3) evidence started w7"
                  and steps: "snd s' = snd s3 @ [Phase BroadcastStarted, Sends bytes]"
                have h: "h = hash" using same SignerSuccess by simp
                have "executesAt X xd request ids (fst s) (ck_envelope ck) bytes hash"
                  unfolding executesAt_def
                proof (intro exI conjI)
                  show "findBroadcastAttempt (xd_executionStore xd) ids (fst s) = (Inr None, fst s1)" using lookup None by simp
                  show "findDurableSignedEvidence (dp_store (xd_signer xd)) ids (fst s1) = (Inr durable, fst s2)" using durable by simp
                  show "signsAt X (xd_signer xd) request (durable \<noteq> None) (fst s2) ids ctx existing w2' ck" using at ids' by simp
                  show "ck_envelope ck = ck_envelope ck" ..
                  show "dp_signTransaction (xd_signer xd) (exactFields (ck_envelope ck)) w4 = (Inr (hash, Some bytes), w5)"
                    using signed bytes(1) by simp
                qed (use bytes h started ids' in \<open>simp_all split: option.splits\<close>)
                moreover have "sends sts = []" using quiet3 s3 by simp
                ultimately show ?thesis using steps s3 by auto
              qed (use quiet3 in simp)
            qed
          qed
        qed
      qed
    qed (use s1 in simp)
  qed
qed simp

section \<open>Properties\<close>

lemma withExecutionLock_run:
  assumes "withExecutionLock store operationId work s = (r, s')" "snd s' \<noteq> snd s"
  obtains w0 r1 s1 where "acquireExecutionLock store operationId (fst s) = (Inr (), w0)" "work (w0, snd s) = (r1, s1)" "snd s' = snd s1"
  using assms(1) [unfolded withExecutionLock_def] quiet_calls(1) [where obs = Some]
proof (cases rule: quiet_first)
  case (2 u s1)
  then show ?thesis by (cases s1; intro that [of "fst s1" "fst (work s1)" "snd (work s1)"]) (auto simp: await_Inr split: prod.splits)
qed (use assms(2) in simp)

text \<open>
  C15. Bytes reach the node at most once and only when they are accounted for: an execution that sends \<open>raw\<close>
  sends nothing else and records nothing after it. It holds the lock of the operation, found no earlier
  attempt, signed under the checks of the signer, and \<open>raw\<close> is what the account returned for the
  fields of the checked envelope; its Keccak hash is the hash of the account, that of the durable
  evidence the store found for operation and authorization, and that of the attempt, which the store started before the send.
\<close>

theorem sent_as_recorded:
  assumes "executeAuthorizedTransferCore X xd requestInput (w, []) = (out, (w', sts))" "raw \<in> set (sends sts)"
  shows "\<exists>pre request ids w0 w1 w2 durable ctx existing w3 ck w4 hash w5 parsed w6 evidence w7 started w8.
      sts = pre @ [Phase BroadcastStarted, Sends raw] \<and> sends pre = []
    \<and> authorizedTransferRequestSchema requestInput = Some request \<and> ids = requestIds request
    \<and> acquireExecutionLock (xd_executionStore xd) (id_operationId ids) w = (Inr (), w0)
    \<and> findBroadcastAttempt (xd_executionStore xd) ids w0 = (Inr None, w1)
    \<and> findDurableSignedEvidence (dp_store (xd_signer xd)) ids w1 = (Inr durable, w2)
    \<and> (case durable of None \<Rightarrow> True | Some e \<Rightarrow> du_transactionHash e = hash)
    \<and> signsAt X (xd_signer xd) request (durable \<noteq> None) w2 ids ctx existing w3 ck
    \<and> dp_signTransaction (xd_signer xd) (exactFields (ck_envelope ck)) w4 = (Inr (hash, Some raw), w5)
    \<and> cd_parse (xd_codec xd) raw = Some parsed \<and> cd_type (xd_codec xd) parsed = ''eip1559''
    \<and> cd_serialize (xd_codec xd) parsed = Some raw \<and> cd_keccak256 (xd_codec xd) raw = hash
    \<and> findSignedTransaction (xd_broadcastStore xd) (signedTransactionId ids (ck_envelope ck)) w6 = (Inr (Some evidence), w7)
    \<and> ds_operationId evidence = id_operationId ids \<and> ds_authorizationId evidence = id_authorizationId ids
    \<and> ds_expectedTransactionHash evidence = hash
    \<and> startBroadcastAttempt (xd_broadcastStore xd) evidence (attemptIdFor (signedTransactionId ids (ck_envelope ck))) w7 = (Inr started, w8)
    \<and> bt_status started = STARTED \<and> ds_signedTransactionId (bt_signed started) = ds_signedTransactionId evidence
    \<and> ds_expectedTransactionHash (bt_signed started) = hash"
proof (cases "authorizedTransferRequestSchema requestInput")
  case None
  with assms show ?thesis by (simp add: executeAuthorizedTransferCore_def program_simps)
next
  case (Some request)
  let ?ids = "requestIds request"
  have run: "withExecutionLock (xd_executionStore xd) (id_operationId ?ids) (executeUnlocked X xd request ?ids) (w, []) = (out, (w', sts))"
    using assms(1) Some by (simp add: executeAuthorizedTransferCore_def)
  obtain w0 r1 s1 where lock: "acquireExecutionLock (xd_executionStore xd) (id_operationId ?ids) w = (Inr (), w0)"
    and work: "executeUnlocked X xd request ?ids (w0, []) = (r1, s1)" "sts = snd s1"
    using withExecutionLock_run [OF run] assms(2) by (metis empty_iff fst_conv list.set(1) observed_single(1) snd_conv)
  have again: "map_option requestIds (authorizedTransferRequestSchema request) = Some ?ids"
    using transferRequest.parse_again [OF Some] by simp
  from executeUnlocked_sends [OF work(1) again] assms(2) work(2) obtain envelope raw' hash pre
    where at: "executesAt X xd request ?ids w0 envelope raw' hash" and pre: "sends pre = []" "sts = pre @ [Phase BroadcastStarted, Sends raw']"
    by auto
  have raw: "raw' = raw" using assms(2) pre by simp
  from at obtain w1 w2 durable ctx existing w3 ck w4 w5 w6 evidence started w8 where
    a: "findBroadcastAttempt (xd_executionStore xd) ?ids w0 = (Inr None, w1)"
      "findDurableSignedEvidence (dp_store (xd_signer xd)) ?ids w1 = (Inr durable, w2)"
      "case durable of None \<Rightarrow> True | Some e \<Rightarrow> du_transactionHash e = hash"
      "signsAt X (xd_signer xd) request (durable \<noteq> None) w2 ?ids ctx existing w3 ck"
      "dp_signTransaction (xd_signer xd) (exactFields (ck_envelope ck)) w4 = (Inr (hash, Some raw), w5)"
    and hash: "canonicalSignedTransactionHash (xd_codec xd) raw = Some hash"
    and s: "startsAttempt (xd_codec xd) (xd_broadcastStore xd)
          \<lparr>bi_request = request, bi_signedTransactionId = signedTransactionId ?ids (ck_envelope ck),
           bi_attemptId = attemptIdFor (signedTransactionId ?ids (ck_envelope ck)), bi_rawTransaction = raw\<rparr> w6 evidence started w8"
    unfolding executesAt_def raw by blast
  obtain parsed where p: "cd_parse (xd_codec xd) raw = Some parsed" "cd_type (xd_codec xd) parsed = ''eip1559''"
    "cd_serialize (xd_codec xd) parsed = Some raw" "cd_keccak256 (xd_codec xd) raw = hash"
    using hash unfolding canonical_hash_iff by blast
  obtain w7 where b: "findSignedTransaction (xd_broadcastStore xd) (signedTransactionId ?ids (ck_envelope ck)) w6 = (Inr (Some evidence), w7)"
    "startBroadcastAttempt (xd_broadcastStore xd) evidence (attemptIdFor (signedTransactionId ?ids (ck_envelope ck))) w7 = (Inr started, w8)"
    "bt_status started = STARTED"
    using s unfolding startsAttempt_def by auto
  have c: "ds_operationId evidence = id_operationId ?ids" "ds_authorizationId evidence = id_authorizationId ?ids"
    "ds_expectedTransactionHash evidence = hash" "ds_signedTransactionId (bt_signed started) = ds_signedTransactionId evidence"
    "ds_expectedTransactionHash (bt_signed started) = hash"
    using s hash by (auto simp: startsAttempt_def evidenceBinding_def attemptBinding_def result_simps requestIds_def simp del: getProp.simps)
  have sts: "sts = pre @ [Phase BroadcastStarted, Sends raw]" using pre(2) raw by simp
  show ?thesis
    by (rule exI [of _ pre], rule exI [of _ request], rule exI [of _ ?ids], rule exI [of _ w0], rule exI [of _ w1], rule exI [of _ w2],
        rule exI [of _ durable], rule exI [of _ ctx], rule exI [of _ existing], rule exI [of _ w3], rule exI [of _ ck], rule exI [of _ w4],
        rule exI [of _ hash], rule exI [of _ w5], rule exI [of _ parsed], rule exI [of _ w6], rule exI [of _ evidence], rule exI [of _ w7],
        rule exI [of _ started], rule exI [of _ w8]) (intro conjI; (rule refl | fact))
qed

section \<open>A sample\<close>

definition sentEvidence :: durable_signed where
  "sentEvidence =
     \<lparr>ds_signedTransactionId = ''signed:op_1:1'', ds_operationId = ''op_1'', ds_reservationId = ''reservation_1'', ds_envelopeId = ''envelope_1'',
      ds_envelopeRevision = 1, ds_envelopeHash = ''h'', ds_authorizationId = ''auth_1'', ds_fixtureInstanceId = ''fixture_1'',
      ds_expectedTransactionHash = sampleHashOf (CHR ''7'')\<rparr>"

definition sentAttempt :: broadcast_attempt where
  "sentAttempt = \<lparr>bt_attemptId = ''attempt:op_1:1'', bt_signed = sentEvidence, bt_status = STARTED,
     bt_responseTransactionHash = None, bt_classificationReason = None\<rparr>"

definition sampleExecution :: "(unit, unit) execution_deps" where
  "sampleExecution =
     \<lparr>xd_signer = signerDeps,
      xd_broadcastStore = \<lparr>findSignedTransaction = (\<lambda>sid w. (Inr (Some sentEvidence), w)),
        startBroadcastAttempt = (\<lambda>evidence aid w. (Inr sentAttempt, w)),
        finishBroadcastAttempt = (\<lambda>input w. (Inr (sentAttempt\<lparr>bt_status := fn_status input\<rparr>), w))\<rparr>,
      xd_sender = (\<lambda>raw w. (Inr (sampleHashOf (CHR ''7'')), w)),
      xd_executionStore = \<lparr>acquireExecutionLock = (\<lambda>operation w. (Inr (), w)), releaseExecutionLock = (\<lambda>operation w. (Inr (), w)),
        findBroadcastAttempt = (\<lambda>ids w. (Inr None, w))\<rparr>,
      xd_codec = \<lparr>cd_parse = (\<lambda>raw. Some ()), cd_type = (\<lambda>p. ''eip1559''), cd_r = (\<lambda>p. Some ''0x1''), cd_s = (\<lambda>p. Some ''0x2''),
        cd_yParity = (\<lambda>p. Some 0), cd_serialize = (\<lambda>p. Some ''0x02''), cd_keccak256 = (\<lambda>raw. sampleHashOf (CHR ''7''))\<rparr>\<rparr>"

lemma execution_parts:
  "xd_signer sampleExecution = signerDeps" "findBroadcastAttempt (xd_executionStore sampleExecution) = (\<lambda>ids w. (Inr None, w))"
  "acquireExecutionLock (xd_executionStore sampleExecution) = (\<lambda>operation w. (Inr (), w))"
  "releaseExecutionLock (xd_executionStore sampleExecution) = (\<lambda>operation w. (Inr (), w))"
  "findDurableSignedEvidence (dp_store signerDeps) = (\<lambda>ids w. (Inr None, w))"
  "canonicalSignedTransactionHash (xd_codec sampleExecution) ''0x02'' = Some (sampleHashOf (CHR ''7''))"
  "findSignedTransaction (xd_broadcastStore sampleExecution) = (\<lambda>sid w. (Inr (Some sentEvidence), w))"
  "startBroadcastAttempt (xd_broadcastStore sampleExecution) = (\<lambda>evidence aid w. (Inr sentAttempt, w))"
  "finishBroadcastAttempt (xd_broadcastStore sampleExecution) = (\<lambda>input w. (Inr (sentAttempt\<lparr>bt_status := fn_status input\<rparr>), w))"
  "andRun (sendRaw (xd_sender sampleExecution) raw) f s = f (Inr (sampleHashOf (CHR ''7''))) (fst s, snd s @ [Sends raw])"
  "bt_status sentAttempt = STARTED"
  by (simp_all add: sampleExecution_def signerDeps_def canonical_hash_iff sendRaw_def andRun_def sentAttempt_def)

definition executedSteps :: "step list" where
  "executedSteps = snd signedRun @ [Phase BroadcastStarted, Sends ''0x02'']"

lemma sample_signedId: "signedTransactionId signerIds signerEnvelope = ''signed:op_1:1''"
proof -
  have "intStr (intOf (JNumber (jsInt 1))) = ''1''" by code_simp
  then show ?thesis by (simp add: signedTransactionId_def signerIds_def signerEnvelope_props [of "''revision''"] transferEnvelope_fields del: getProp.simps)
qed

lemma execution_runs:
  "\<exists>out. executeAuthorizedTransferCore sampleExternals sampleExecution signerRequest ((), []) = (out, ((), executedSteps))"
proof -
  have request: "authorizedTransferRequestSchema signerRequest = Some signerRequest" by code_simp
  have ids: "requestIds signerRequest = signerIds" by (simp add: requestIds_def signerRequest_def signerIds_def)
  let ?m = "\<lparr>mt_signedTransactionId = ''signed:op_1:1'', mt_expectedTransactionHash = sampleHashOf (CHR ''7''), mt_rawTransaction = Some ''0x02'',
    mt_fromDurableEvidence = False\<rparr>"
  have last: "lastMaterial (snd signedRun) = Some ?m"
    by (simp add: lastMaterial_def signedRun_def Let_def sample_signedId)
  have raw: "rawTransactionText ''0x02''" by (simp add: rawTransactionText_def isHex_def isDigit_def)
  have valid: "validIdentifier ''signed:op_1:1''" "validIdentifier ''attempt:op_1:1''" by code_simp+
  have attempt: "attemptIdFor ''signed:op_1:1'' = ''attempt:op_1:1''" by (simp add: attemptIdFor_def)
  let ?input = "\<lparr>bi_request = signerRequest, bi_signedTransactionId = ''signed:op_1:1'', bi_attemptId = ''attempt:op_1:1'', bi_rawTransaction = ''0x02''\<rparr>"
  have safe: "assertSafeInput ?input = Inr signerRequest"
    by (simp add: assertSafeInput_def request valid raw result_simps)
  have bound: "evidenceBinding (xd_codec sampleExecution) ?input (Some sentEvidence) = Inr sentEvidence"
    by (simp add: evidenceBinding_def execution_parts result_simps sentEvidence_def signerRequest_def)
  have binds: "attemptBinding sentEvidence sentAttempt = Inr ()" by (simp add: attemptBinding_def sentAttempt_def result_simps)
  have sent: "\<exists>res. broadcastSignedTransaction (xd_codec sampleExecution) (xd_broadcastStore sampleExecution) (xd_sender sampleExecution)
      (traced (Phase BroadcastStarted)) ?input ((), []) = (Inl (Inr res), ((), [Phase BroadcastStarted, Sends ''0x02'']))"
    unfolding broadcastSignedTransaction_def
    by (simp add: andRun_calls safe bound binds execution_parts andRun_steps finish_def split: prod.splits)
  then obtain res where sent: "broadcastSignedTransaction (xd_codec sampleExecution) (xd_broadcastStore sampleExecution) (xd_sender sampleExecution)
      (traced (Phase BroadcastStarted)) ?input ((), []) = (Inl (Inr res), ((), [Phase BroadcastStarted, Sends ''0x02'']))" by blast
  have broadcast: "\<exists>out. broadcastMaterial sampleExecution signerRequest signerIds ?m ''0x02'' ((), snd signedRun) = (out, ((), executedSteps))"
    by (cases res) (simp add: broadcastMaterial_def attempt andRun_def inner_def sent executedSteps_def lifecycleResult_def Let_def execution_parts
      finish_def liftValue_def signerDeps_def goOn_def)
  obtain authorization where first: "fst signedRun = SignerSuccess (sampleHashOf (CHR ''7'')) False authorization"
    by (simp add: signedRun_def Let_def)
  have code: "\<exists>out. executeUnlocked sampleExternals sampleExecution signerRequest signerIds ((), []) = (out, ((), executedSteps))"
    using broadcast unfolding executeUnlocked_def Let_def execution_parts(1)
    by (simp add: andRun_calls execution_parts) (simp add: andRun_def inner_def signer_runs last execution_parts first)
  then show ?thesis
    by (auto simp: executeAuthorizedTransferCore_def request ids withExecutionLock_def andRun_calls execution_parts)
qed

theorem sent_as_recorded_witness:
  "\<exists>out. executeAuthorizedTransferCore sampleExternals sampleExecution signerRequest ((), []) = (out, ((), executedSteps))
     \<and> sends executedSteps = [''0x02''] \<and> (\<exists>pre. executedSteps = pre @ [Phase BroadcastStarted, Sends ''0x02''] \<and> sends pre = [])"
proof -
  obtain out where run: "executeAuthorizedTransferCore sampleExternals sampleExecution signerRequest ((), []) = (out, ((), executedSteps))"
    using execution_runs by blast
  have only: "sends executedSteps = [''0x02'']" by (simp add: executedSteps_def signedRun_def Let_def)
  then have "''0x02'' \<in> set (sends executedSteps)" by simp
  from sent_as_recorded [OF run this] run only show ?thesis by blast
qed

end
