(* ===== verification/Spec2Isabelle.thy ===== *)
theory Spec2Isabelle
  imports PolicyEngine TransferCore AuthorityProperties Execution
begin

text \<open>
  Verification of the agent wallet in \<open>src/\<close>: policy decisions, transfer candidates and their
  simulation, execution envelopes, the budget ledger, approvals and control fences, the local signer and its
  broadcast, component credentials and the audit log.

  \<^bold>\<open>The program.\<close> An agent proposes an intent. The policy engine
  (\<open>packages/policy-engine\<close>) decides it against a policy and what is left of the budget. The
  pipeline (\<open>packages/transaction-pipeline\<close>) constructs a transfer, decodes its calldata with a second
  decoder, verifies the candidate, and simulates it on a local node to resolve nonce, gas and fees. The budget
  ledger (\<open>packages/budget-ledger\<close>) holds funds for the operation, records its broadcast and settles,
  releases, expires or disputes the hold; a reconciler that holds a recovery lease resolves uncertain
  outcomes. Owners approve envelopes and change control fences (\<open>packages/approvals\<close>); an approval, or
  a policy that needs none, gives an authorization. The local adapter (\<open>adapters/local-anvil\<close>) signs
  and broadcasts what is authorized. Every step writes an event to a hash-chained audit log
  (\<open>packages/audit\<close>), adapters and reconcilers sign what they assert (\<open>packages/trust-boundary\<close>),
  and an operation moves through the states of \<open>packages/schemas/src/lifecycle.ts\<close>.

  \<^bold>\<open>The theories.\<close>
  \<^item> \<open>Prelude\<close>: results (\<open>andThen\<close>, \<open>require\<close>, \<open>ofOption\<close> on sums), decimal text, the character classes
    of the regular expressions, and the collections \<open>result_simps\<close> and \<open>charclass\<close>.
  \<^item> \<open>AtomicUnits\<close> (\<open>money.ts\<close> and the decimal arithmetic of the policy engine): 256-bit amounts as decimal
    strings; comparison and subtraction agree with the natural numbers.
  \<^item> \<open>JsValue\<close> (\<open>idempotency.ts\<close>): JavaScript values, canonical JSON text and its injectivity.
  \<^item> \<open>Lifecycle\<close> (\<open>lifecycle.ts\<close>): the transition table as a step relation; signing needs the whole
    pipeline and happens at most once.
  \<^item> \<open>Schemas\<close> (\<open>common.ts\<close>, \<open>intent.ts\<close>, \<open>policy.ts\<close>, \<open>policy-decision.ts\<close>, \<open>adapter.ts\<close>, \<open>enforcement-grade.ts\<close>): the
    schemas as predicates, and the record \<open>externals\<close>.
  \<^item> \<open>PolicyEngine\<close> (\<open>policy-engine/src/index.ts\<close>): \<open>evaluatePolicy\<close>, its refinement of a declarative policy,
    and that it fails closed.
  \<^item> \<open>TransferCore\<close> (\<open>candidate.ts\<close>, \<open>construct-transfer.ts\<close>, \<open>decode-transfer.ts\<close>, \<open>verify-transfer.ts\<close>): the
    candidate that verification accepts is the intended one, and construction is accepted.
  \<^item> \<open>Envelope\<close> (\<open>envelope.ts\<close>, \<open>evm-execution.ts\<close>): strict object schemas as parsers, with the locale \<open>schema_parser\<close>
    for what a schema promises; the hash of an envelope and the approval bound to it.
  \<^item> \<open>Database\<close> (\<open>transaction.ts\<close>, \<open>errors.ts\<close>): tables, the server, transactions as functions
    \<open>server \<Rightarrow> db \<Rightarrow> failure + ('a \<times> db)\<close>, the retry loop; the locale \<open>invariant_work\<close> carries an
    invariant of the work over the loop.
  \<^item> \<open>TrustBoundary\<close> (\<open>trust-boundary/src/index.ts\<close>): signed component actions.
  \<^item> \<open>AuditChain\<close> (\<open>schemas/src/audit.ts\<close>, \<open>audit/src/index.ts\<close>): event schema, hash, append; chains stay
    linked, and the last hash commits to the history.
  \<^item> \<open>Ledger\<close> (\<open>ledger.ts\<close>): every operation, statement by statement, as a transaction and its wrapper;
    \<open>reserveBudget\<close> is \<open>reserveParameters\<close>, then \<open>reserveWork\<close> in a transaction, and so on.
  \<^item> \<open>LedgerInvariant\<close>: the abstract ledger (accounts and reservations), its step relation, and the proof
    that the work of each operation is a step; the locale \<open>ledger_invariant\<close> lifts an invariant of the
    steps to calls and to whole runs, and is interpreted four times (\<open>conserved\<close>, \<open>exact\<close>, \<open>life\<close>, \<open>alloc\<close>).
  \<^item> \<open>LedgerSample\<close>: a small database and calls on it, run in the kernel.
  \<^item> \<open>LedgerProperties\<close>: the properties of the ledger; \<open>quiet\<close> says that no other transaction commits during a call,
    \<open>lease_run\<close> is any sequence of calls and changes of other tables, along which lease versions only grow.

  \<^item> \<open>ControlFences\<close> (\<open>control.ts\<close>): fences and their snapshots, and the change of a fence with its effects on
    approvals, authorizations and holds in its scope.
  \<^item> \<open>Approvals\<close> (\<open>core.ts\<close>): requests, decisions, revocation, expiry, consumption, autonomous
    authorization, revalidation and the replacement of envelopes.
  \<^item> \<open>AuthorityInvariant\<close>, \<open>AuthorityLedger\<close>: the abstract authority (what an approval binds and how its status
    moves, fence versions, invalidations) and the proof that the calls of both services are its steps and
    runs of the ledger. \<open>AuthoritySample\<close>, \<open>AuthorityProperties\<close>: a sample database and the properties.
  \<^item> \<open>Simulation\<close> (\<open>simulation.ts\<close>): resolution of nonce, gas and fees against a node, exact verification of
    the result and its freshness; what resolution returns verifies, and what verifies stays below the fee ceilings.
  \<^item> \<open>ChainEvidence\<close> (\<open>chain-evidence.ts\<close>): what the node reports about a transaction is
    accepted only for the transfer of the envelope.
  \<^item> \<open>AdapterSdk\<close> (\<open>adapter-sdk/src/index.ts\<close>): the requests and results at the adapter boundary and the
    match of capabilities.
  \<^item> \<open>Signer\<close> (\<open>signer-core.ts\<close>), \<open>SignerProperties\<close>: programs over any world with a log of the steps that
    matter (phases, signatures, material handed over, bytes sent). \<open>quiet obs m\<close> says that nothing is observed in the
    steps of \<open>m\<close>, and \<open>sign_reaches\<close> that a run in which something is observed has passed every check. A
    signature is made once, of what is authorized then.
  \<^item> \<open>Broadcast\<close> (\<open>broadcast-core.ts\<close>, \<open>execution-core.ts\<close>), \<open>Execution\<close>: signing and sending under the lock of
    an operation; bytes are sent once, after their attempt is durable.

  \<^bold>\<open>Code outside the repository.\<close> Digests, signatures, hexadecimal and byte helpers, the collation of
  \<open>localeCompare\<close>, the ISO datetime check of the schema library and the ABI encoder are fields of
  \<open>externals\<close>, an argument of the definitions. What a theorem needs of them is a named hypothesis
  (\<open>hexDigests\<close>, \<open>byteUtils\<close>, \<open>keyPair\<close>, \<open>abiEncoder\<close>), and its witness uses concrete functions
  (\<open>sampleExternals\<close>).

  \<^bold>\<open>The database.\<close> A table is a list of rows. The keys that the inserts of the code rely on are part of
  the statements; every other refusal of the server (constraints, triggers, serialization failures,
  lost connections) is an unconstrained function of the states before and after, so the theorems hold
  for all of them. Other transactions may run between the attempts and between the calls; those on the
  budgets are again runs. Row locks have no effect of their own here: the isolation level of the
  transactions makes each attempt atomic. A commit whose acknowledgement is lost is outside the model:
  an attempt that reports an error has left no trace.

  \<^bold>\<open>Strings and numbers.\<close> Strings are lists of characters below 256; numbers that the schemas allow are
  integers below $2^{53}$, and amounts are unbounded integers, as \<open>BigInt\<close> and \<open>numeric\<close> are. No definition needs fuel:
  the retry loop recurses on the attempts that are left, at most nine.

  \<^bold>\<open>The local adapter.\<close> The stores, the node, the account, the clock, the codec of the chain
  library and the URL parser are arguments of the cores: functions on a world that each of them may change,
  and may reject. The theorems hold for all of them, so they do not rest on what a store promises.

  \<^bold>\<open>Not modelled.\<close> Preparation, reconciliation, the SQL text of the signer and broadcast stores, the
  owner authentication schemas; the triggers of the migrations. Not to be modelled: processes, sockets and key
  files, the fault proxy of the tests, the migrations runner, scripts, re-exports, and the shapes of
  telemetry and error bodies.
\<close>

end
